(* ===== verification/AOS_Prelude.thy ===== *)
theory AOS_Prelude
  imports Complex_Main "HOL-Library.AList" "HOL-Library.Char_ord" "HOL-Library.List_Lexorder"
begin

text \<open>
  Shared vocabulary of the development.

  A Go map with string keys is an association list: looking a key up is \<open>map_of\<close>, storing
  is \<open>AList.update\<close>, \<open>delete\<close> is \<open>AList.delete\<close>. The order of the list is the order
  in which one run of the program would iterate over the map. Go leaves that order open, and
  the statements of the development are about every list, so they cover every order.

  An instant (\<open>time.Time\<close>) is an integer number of nanoseconds since Go's zero time, which is
  therefore 0; a \<open>time.Duration\<close> is an integer number of nanoseconds.
\<close>

named_theorems gomap \<open>lookups in updated maps\<close>
named_theorems gostr \<open>string functions of the Go standard library\<close>

type_synonym 'v gomap = "(string \<times> 'v) list"
type_synonym time = int
type_synonym duration = int

abbreviation mget :: "'v gomap \<Rightarrow> string \<Rightarrow> 'v option" where
  "mget m k \<equiv> map_of m k"

abbreviation mput :: "'v gomap \<Rightarrow> string \<Rightarrow> 'v \<Rightarrow> 'v gomap" where
  "mput m k v \<equiv> AList.update k v m"

abbreviation mdel :: "'v gomap \<Rightarrow> string \<Rightarrow> 'v gomap" where
  "mdel m k \<equiv> AList.delete k m"

text \<open>\<open>for k, v := range src { dst[k] = v }\<close>\<close>

abbreviation mputs :: "'v gomap \<Rightarrow> 'v gomap \<Rightarrow> 'v gomap" where
  "mputs dst src \<equiv> AList.merge dst src"

text \<open>Reading a missing key of a \<open>map[string]string\<close> or \<open>map[string]bool\<close> gives the zero value.\<close>

definition mstr :: "string gomap \<Rightarrow> string \<Rightarrow> string" where
  "mstr m k = (case mget m k of None \<Rightarrow> '''' | Some v \<Rightarrow> v)"

definition mbool :: "bool gomap \<Rightarrow> string \<Rightarrow> bool" where
  "mbool m k = (case mget m k of None \<Rightarrow> False | Some v \<Rightarrow> v)"

lemma mget_mput [simp, gomap]: "mget (mput m k v) k' = (if k' = k then Some v else mget m k')"
  by (simp add: update_conv')

lemma mget_mdel [simp, gomap]: "mget (mdel m k) k' = (if k' = k then None else mget m k')"
  by (simp add: delete_conv')

lemma mget_mputs [simp, gomap]:
  "mget (mputs m n) k = (case mget n k of None \<Rightarrow> mget m k | Some v \<Rightarrow> Some v)"
  by (simp add: merge_conv' map_add_def)

lemma mput_not_Nil [simp]: "mput m k v \<noteq> []"
  by (cases m) auto

lemma mstr_mput [simp, gomap]: "mstr (mput m k v) k' = (if k' = k then v else mstr m k')"
  by (simp add: mstr_def)

lemma mget_map_val: "mget (map (\<lambda>(k, v). (k, f k v)) m) k = map_option (f k) (mget m k)"
  by (induction m) auto

lemma mget_map_snd [simp]: "mget (map (\<lambda>(k, v). (k, f v)) m) k = map_option f (mget m k)"
  by (induction m) auto

lemma mget_filter_key: "mget (filter (\<lambda>(k, v). P k) m) k = (if P k then mget m k else None)"
  by (induction m) auto

lemma mget_Some_in_keys: "mget m k = Some v \<Longrightarrow> k \<in> fst ` set m"
  by (metis domI dom_map_of_conv_image_fst)

lemma mget_update_other: "k' \<noteq> k \<Longrightarrow> mget (mput m k v) k' = mget m k'"
  by simp

text \<open>A failing Go function returns \<open>(value, error)\<close>; here \<open>Inl\<close> is the error.\<close>

definition is_ok :: "'e + 'a \<Rightarrow> bool" where
  "is_ok r = (case r of Inl _ \<Rightarrow> False | Inr _ \<Rightarrow> True)"

lemma is_ok_simps [simp]: "\<not> is_ok (Inl e)" "is_ok (Inr x)"
  by (simp_all add: is_ok_def)

text \<open>The first element a loop with an early return reports.\<close>

fun first_some :: "('a \<Rightarrow> 'b option) \<Rightarrow> 'a list \<Rightarrow> 'b option" where
  "first_some f [] = None"
| "first_some f (x # xs) = (case f x of Some y \<Rightarrow> Some y | None \<Rightarrow> first_some f xs)"

lemma first_some_None_iff: "first_some f xs = None \<longleftrightarrow> (\<forall>x\<in>set xs. f x = None)"
  by (induction xs) (auto split: option.splits)

lemma first_some_SomeD: "first_some f xs = Some y \<Longrightarrow> \<exists>x\<in>set xs. f x = Some y"
  by (induction xs) (auto split: option.splits)

text \<open>Decimal rendering of a number, as \<open>strconv.Itoa\<close> and \<open>%d\<close> do it.\<close>

definition digit_char :: "nat \<Rightarrow> char" where
  "digit_char d = char_of (48 + d)"

fun show_nat :: "nat \<Rightarrow> string" where
  "show_nat n = (if n < 10 then [digit_char n] else show_nat (n div 10) @ [digit_char (n mod 10)])"

declare show_nat.simps [simp del]

definition show_int :: "int \<Rightarrow> string" where
  "show_int i = (if i < 0 then ''-'' @ show_nat (nat (- i)) else show_nat (nat i))"

lemma show_nat_not_Nil [simp]: "show_nat n \<noteq> []"
  by (subst show_nat.simps) simp

lemma show_int_not_Nil [simp]: "show_int n \<noteq> []"
  by (simp add: show_int_def)

lemma of_char_digit_char [simp]: "d < 10 \<Longrightarrow> of_char (digit_char d) = 48 + d"
  by (simp add: digit_char_def take_bit_nat_eq_self)

lemma digit_char_inj: "a < 10 \<Longrightarrow> b < 10 \<Longrightarrow> digit_char a = digit_char b \<Longrightarrow> a = b"
  by (metis add_left_cancel of_char_digit_char)

lemma show_nat_inject: "show_nat a = show_nat b \<longleftrightarrow> a = b"
proof (induction a arbitrary: b rule: show_nat.induct)
  case (1 a)
  show ?case
  proof
    assume eq: "show_nat a = show_nat b"
    have len: "a < 10 \<longleftrightarrow> length (show_nat a) = 1" for a
      by (subst show_nat.simps) simp
    show "a = b"
    proof (cases "a < 10")
      case True
      with len [of a] len [of b] eq have "b < 10" by simp
      with True eq show ?thesis
        by (simp add: show_nat.simps [of a] show_nat.simps [of b] digit_char_inj)
    next
      case False
      with len [of a] len [of b] eq have b: "\<not> b < 10" by simp
      with False eq have "show_nat (a div 10) = show_nat (b div 10)"
        and "digit_char (a mod 10) = digit_char (b mod 10)"
        by (simp_all add: show_nat.simps [of a] show_nat.simps [of b])
      with 1 [OF False, of "b div 10"] have "a div 10 = b div 10" and "a mod 10 = b mod 10"
        using digit_char_inj [of "a mod 10" "b mod 10"] by auto
      then show ?thesis by (metis div_mult_mod_eq)
    qed
  qed simp
qed

end
