(* ===== verification/Go_Numbers.thy ===== *)
theory Go_Numbers
  imports Go_Strings
begin

text \<open>
  Numbers as the program reads them: \<open>int\<close> is 64 bits wide, \<open>float64\<close> is IEEE binary64, and
  \<open>strconv.Atoi\<close>, \<open>ParseFloat\<close> and \<open>ParseBool\<close> are written out, with \<open>None\<close> for a non-nil
  error. A finite float is the rational it stands for (the two zeros are one value);
  a comparison with a NaN is false, as in Go.
\<close>

datatype f64 = NaN | PInf | NInf | Fin rat

fun f64_le :: "f64 \<Rightarrow> f64 \<Rightarrow> bool" where
  "f64_le NaN _ = False"
| "f64_le _ NaN = False"
| "f64_le NInf _ = True"
| "f64_le _ PInf = True"
| "f64_le PInf _ = False"
| "f64_le _ NInf = False"
| "f64_le (Fin x) (Fin y) = (x \<le> y)"

fun f64_lt :: "f64 \<Rightarrow> f64 \<Rightarrow> bool" where
  "f64_lt NaN _ = False"
| "f64_lt _ NaN = False"
| "f64_lt PInf _ = False"
| "f64_lt _ NInf = False"
| "f64_lt NInf _ = True"
| "f64_lt _ PInf = True"
| "f64_lt (Fin x) (Fin y) = (x < y)"

fun f64_eq :: "f64 \<Rightarrow> f64 \<Rightarrow> bool" where
  "f64_eq NaN _ = False"
| "f64_eq _ NaN = False"
| "f64_eq x y = (x = y)"

subsection \<open>Rounding to binary64\<close>

function bitlen :: "int \<Rightarrow> int" where
  "bitlen n = (if n \<le> 0 then 0 else 1 + bitlen (n div 2))"
  by auto
termination by (relation "measure nat") auto

declare bitlen.simps [simp del]

text \<open>\<open>n / d\<close> to the nearest integer, ties to even.\<close>

definition round_half_even :: "int \<Rightarrow> int \<Rightarrow> int" where
  "round_half_even n d =
    (let q = n div d; r = n mod d in
     if 2 * r < d then q else if 2 * r > d then q + 1 else if even q then q else q + 1)"

text \<open>
  The value nearest to \<open>n / d\<close> among the multiples of \<open>2 ^ e\<close>, where \<open>e\<close> is the exponent that
  leaves 53 bits, and at least -1074. A result of \<open>2 ^ 1024\<close> or more is out of range.
\<close>

definition f64_exp :: "int \<Rightarrow> int \<Rightarrow> int" where
  "f64_exp n d =
    (let e = bitlen n - bitlen d - 53;
         big = (if e \<ge> 0 then n \<ge> d * 2 ^ nat e * 2 ^ 53 else n * 2 ^ nat (- e) \<ge> d * 2 ^ 53)
     in max (- 1074) (if big then e + 1 else e))"

definition round_f64 :: "int \<Rightarrow> int \<Rightarrow> rat option" where
  "round_f64 n d =
    (if n = 0 then Some 0 else
     let e = f64_exp n d;
         m = (if e \<ge> 0 then round_half_even n (d * 2 ^ nat e)
              else round_half_even (n * 2 ^ nat (- e)) d)
     in if e \<ge> 0 \<and> m * 2 ^ nat e \<ge> 2 ^ 1024 then None
        else Some (if e \<ge> 0 then of_int (m * 2 ^ nat e) else of_int m / of_int (2 ^ nat (- e))))"

definition f64_of_int :: "int \<Rightarrow> f64" where
  "f64_of_int i = (case round_f64 \<bar>i\<bar> 1 of
      None \<Rightarrow> (if i < 0 then NInf else PInf)
    | Some q \<Rightarrow> Fin (if i < 0 then - q else q))"

subsection \<open>Parsing\<close>

definition int64_min :: int where "int64_min = - (2 ^ 63)"
definition int64_max :: int where "int64_max = 2 ^ 63 - 1"

text \<open>64-bit arithmetic wraps around.\<close>

definition wrap64 :: "int \<Rightarrow> int" where
  "wrap64 i = (i + 2 ^ 63) mod 2 ^ 64 - 2 ^ 63"

definition split_sign :: "string \<Rightarrow> bool \<times> string" where
  "split_sign s = (case s of [] \<Rightarrow> (False, s)
    | c # r \<Rightarrow> if c = CHR ''+'' then (False, r) else if c = CHR ''-'' then (True, r) else (False, s))"

definition dec_val :: "string \<Rightarrow> int" where
  "dec_val ds = foldl (\<lambda>a c. 10 * a + digit_val c) 0 ds"

text \<open>\<open>strconv.Atoi\<close> and \<open>strconv.ParseInt(s, 10, 64)\<close>.\<close>

definition atoi :: "string \<Rightarrow> int option" where
  "atoi s = (let (neg, r) = split_sign s; v = dec_val r; i = (if neg then - v else v) in
    if r = [] \<or> \<not> list_all is_digit r then None
    else if int64_min \<le> i \<and> i \<le> int64_max then Some i else None)"

definition parse_bool :: "string \<Rightarrow> bool option" where
  "parse_bool s =
    (if s \<in> {''1'', ''t'', ''T'', ''TRUE'', ''true'', ''True''} then Some True
     else if s \<in> {''0'', ''f'', ''F'', ''FALSE'', ''false'', ''False''} then Some False
     else None)"

definition hex_val :: "char \<Rightarrow> int option" where
  "hex_val c = (let n = (of_char (lower_char c) :: int) in
     if is_digit c then Some (digit_val c)
     else if 97 \<le> n \<and> n \<le> 102 then Some (n - 87) else None)"

text \<open>
  The digits of a mantissa: value, digits after the dot, whether digits, a dot and underscores
  were seen, and the rest of the text.
\<close>

record mant =
  m_val :: int
  m_frac :: int
  m_digits :: bool
  m_dot :: bool
  m_under :: bool

fun scan_mant :: "bool \<Rightarrow> mant \<Rightarrow> string \<Rightarrow> mant \<times> string" where
  "scan_mant hex m [] = (m, [])"
| "scan_mant hex m (c # s) =
    (let base = (if hex then 16 else 10);
         d = (if hex then hex_val c else if is_digit c then Some (digit_val c) else None) in
     if c = CHR ''_'' then scan_mant hex (m\<lparr>m_under := True\<rparr>) s
     else if c = CHR ''.'' then
       (if m_dot m then (m, c # s) else scan_mant hex (m\<lparr>m_dot := True\<rparr>) s)
     else (case d of
         Some v \<Rightarrow> scan_mant hex (m\<lparr>m_val := base * m_val m + v,
            m_frac := (if m_dot m then m_frac m + 1 else m_frac m), m_digits := True\<rparr>) s
       | None \<Rightarrow> (m, c # s)))"

fun scan_exp :: "int \<Rightarrow> bool \<Rightarrow> string \<Rightarrow> int \<times> bool \<times> string" where
  "scan_exp e u [] = (e, u, [])"
| "scan_exp e u (c # s) =
    (if c = CHR ''_'' then scan_exp e True s
     else if is_digit c then scan_exp (if e < 10000 then 10 * e + digit_val c else e) u s
     else (e, u, c # s))"

text \<open>Underscores must stand between digits; a base prefix counts as a digit.\<close>

datatype underscore_state = UStart | UDigit | UUnder | UOther

fun under_scan :: "bool \<Rightarrow> underscore_state \<Rightarrow> string \<Rightarrow> bool" where
  "under_scan hex st [] = (st \<noteq> UUnder)"
| "under_scan hex st (c # s) =
    (if is_digit c \<or> (hex \<and> hex_val c \<noteq> None) then under_scan hex UDigit s
     else if c = CHR ''_'' then (st = UDigit \<and> under_scan hex UUnder s)
     else st \<noteq> UUnder \<and> under_scan hex UOther s)"

definition underscore_ok :: "string \<Rightarrow> bool" where
  "underscore_ok s0 = (let s = snd (split_sign s0) in case s of
      z # x # r \<Rightarrow> if z = CHR ''0'' \<and> lower_char x \<in> {CHR ''b'', CHR ''o'', CHR ''x''}
        then under_scan (lower_char x = CHR ''x'') UDigit r else under_scan False UStart s
    | _ \<Rightarrow> under_scan False UStart s)"

definition hex_prefixed :: "string \<Rightarrow> bool" where
  "hex_prefixed s = (case s of z # x # _ # _ \<Rightarrow> z = CHR ''0'' \<and> lower_char x = CHR ''x'' | _ \<Rightarrow> False)"

definition float_exponent :: "bool \<Rightarrow> string \<Rightarrow> (int \<times> bool) option" where
  "float_exponent hex s =
    (case s of [] \<Rightarrow> if hex then None else Some (0, False)
     | c # r \<Rightarrow>
       if lower_char c = (if hex then CHR ''p'' else CHR ''e'') then
         (let (neg, ds) = split_sign r in
          case ds of [] \<Rightarrow> None
          | d # _ \<Rightarrow> if \<not> is_digit d then None
             else (let (e, u, rest) = scan_exp 0 False ds in
               if rest \<noteq> [] then None else Some (if neg then - e else e, u)))
       else None)"

text \<open>The exact value of a mantissa and exponent, as numerator and denominator.\<close>

definition float_ratio :: "bool \<Rightarrow> mant \<Rightarrow> int \<Rightarrow> int \<times> int" where
  "float_ratio hex m e =
    (let b = (if hex then 2 else 10); f = (if hex then 4 * m_frac m else m_frac m); x = e - f in
     if x \<ge> 0 then (m_val m * b ^ nat x, 1) else (m_val m, b ^ nat (- x)))"

definition parse_float_special :: "string \<Rightarrow> f64 option" where
  "parse_float_special s = (let (neg, r) = split_sign s in
     if equal_fold r ''inf'' \<or> equal_fold r ''infinity'' then Some (if neg then NInf else PInf)
     else if equal_fold s ''nan'' then Some NaN else None)"

definition parse_float :: "string \<Rightarrow> f64 option" where
  "parse_float s = (case parse_float_special s of Some f \<Rightarrow> Some f | None \<Rightarrow>
    (let (neg, r) = split_sign s;
         hex = hex_prefixed r;
         (m, rest) = scan_mant hex \<lparr>m_val = 0, m_frac = 0, m_digits = False, m_dot = False, m_under = False\<rparr>
           (if hex then drop 2 r else r)
     in if \<not> m_digits m then None
        else case float_exponent hex rest of None \<Rightarrow> None
        | Some (e, u) \<Rightarrow>
          if (m_under m \<or> u) \<and> \<not> underscore_ok s then None
          else (let (n, d) = float_ratio hex m e in
            map_option (\<lambda>q. Fin (if neg then - q else q)) (round_f64 n d))))"

subsection \<open>Facts\<close>

lemma f64_NaN [simp]: "\<not> f64_le x NaN" "\<not> f64_le NaN x" "\<not> f64_lt x NaN" "\<not> f64_lt NaN x"
  "\<not> f64_eq x NaN" "\<not> f64_eq NaN x"
  by (cases x; simp)+

lemma f64_not_le: "x \<noteq> NaN \<Longrightarrow> y \<noteq> NaN \<Longrightarrow> \<not> f64_le x y \<longleftrightarrow> f64_lt y x"
  by (cases x; cases y) auto

lemma f64_lt_trans: "f64_lt x y \<Longrightarrow> f64_lt y z \<Longrightarrow> f64_lt x z"
  by (cases x; cases y; cases z) auto

lemma f64_le_lt_trans: "f64_le x y \<Longrightarrow> f64_lt y z \<Longrightarrow> f64_lt x z"
  by (cases x; cases y; cases z) auto

lemma parse_float_not_special_finite:
  "parse_float s = Some x \<Longrightarrow> parse_float_special s = None \<Longrightarrow> \<exists>q. x = Fin q"
  by (auto simp: parse_float_def Let_def split: prod.splits option.splits if_splits)

lemma wrap64_id: "int64_min \<le> i \<Longrightarrow> i \<le> int64_max \<Longrightarrow> wrap64 i = i"
  by (simp add: wrap64_def int64_min_def int64_max_def)

lemma wrap64_range: "int64_min \<le> wrap64 i \<and> wrap64 i \<le> int64_max"
  by (simp add: wrap64_def int64_min_def int64_max_def)

lemma atoi_range: "atoi s = Some i \<Longrightarrow> int64_min \<le> i \<and> i \<le> int64_max"
  by (auto simp: atoi_def Let_def split: prod.splits if_splits)

lemma of_char_int_nat: "(of_char c :: int) = int (of_char c)"
  by (simp add: of_char_def)

lemma is_digit_digit_char [simp]: "d < 10 \<Longrightarrow> is_digit (digit_char d)"
  using of_char_digit_char [of d] by (simp add: is_digit_def Let_def of_char_int_nat)

lemma digit_val_digit_char [simp]: "d < 10 \<Longrightarrow> digit_val (digit_char d) = int d"
  using of_char_digit_char [of d] by (simp add: digit_val_def of_char_int_nat)

lemma list_all_is_digit_show_nat [simp]: "list_all is_digit (show_nat n)"
  by (induction n rule: show_nat.induct) (subst show_nat.simps, auto)

lemma dec_val_append: "dec_val (xs @ [c]) = 10 * dec_val xs + digit_val c"
  by (simp add: dec_val_def)

lemma dec_val_show_nat [simp]: "dec_val (show_nat n) = int n"
proof (induction n rule: show_nat.induct)
  case (1 n)
  then show ?case
    by (subst show_nat.simps) (auto simp: dec_val_append of_nat_div of_nat_mod, simp add: dec_val_def)
qed

lemma split_sign_digits: "s \<noteq> [] \<Longrightarrow> list_all is_digit s \<Longrightarrow> split_sign s = (False, s)"
  by (cases s) (auto simp: split_sign_def is_digit_def Let_def)

text \<open>\<open>strconv.Atoi(strconv.Itoa(i)) = i\<close> for every 64-bit integer.\<close>

lemma atoi_show_int: "int64_min \<le> i \<Longrightarrow> i \<le> int64_max \<Longrightarrow> atoi (show_int i) = Some i"
  by (auto simp: atoi_def show_int_def split_sign_digits) (simp add: split_sign_def)

end
