(* ===== verification/Go_Value.thy ===== *)
theory Go_Value
  imports Go_Numbers
begin

text \<open>
  Dynamically typed values: what an \<open>any\<close> holds once it came from JSON, YAML or the program's
  own maps. \<open>GInt\<close> is Go's \<open>int\<close>, \<open>GFloat\<close> its \<open>float64\<close>, \<open>GObj\<close> a \<open>map[string]any\<close> and
  \<open>GList\<close> a \<open>[]any\<close>. The rendering of a float by \<open>%v\<close> (\<open>strconv.FormatFloat\<close>, shortest form)
  is an argument of the functions that print values.
\<close>

datatype gval = GNil | GBool bool | GInt int | GFloat f64 | GStr string
  | GList "gval list" | GObj "(string \<times> gval) list"

text \<open>Type assertions \<open>v.(T)\<close> in their comma-ok form.\<close>

fun as_str :: "gval option \<Rightarrow> string option" where
  "as_str (Some (GStr s)) = Some s"
| "as_str _ = None"

fun as_obj :: "gval option \<Rightarrow> gval gomap option" where
  "as_obj (Some (GObj m)) = Some m"
| "as_obj _ = None"

fun as_list :: "gval option \<Rightarrow> gval list option" where
  "as_list (Some (GList xs)) = Some xs"
| "as_list _ = None"

fun as_bool :: "gval option \<Rightarrow> bool option" where
  "as_bool (Some (GBool b)) = Some b"
| "as_bool _ = None"

fun as_float :: "gval option \<Rightarrow> f64 option" where
  "as_float (Some (GFloat x)) = Some x"
| "as_float _ = None"

text \<open>\<open>s, _ := m[k].(string)\<close>: the empty string when the key is missing or of another type.\<close>

definition str_of :: "gval gomap \<Rightarrow> string \<Rightarrow> string" where
  "str_of m k = (case as_str (mget m k) of Some s \<Rightarrow> s | None \<Rightarrow> '''')"

text \<open>\<open>fmt.Sprint\<close> and the verb \<open>%v\<close>; \<open>ff\<close> prints a float.\<close>

definition insert_kv :: "string \<times> string \<Rightarrow> (string \<times> string) list \<Rightarrow> (string \<times> string) list" where
  "insert_kv kv xs = insort_key fst kv xs"

definition sort_kv :: "(string \<times> 'a) list \<Rightarrow> (string \<times> 'a) list" where
  "sort_kv m = sort_key fst m"

fun fmt_v :: "(f64 \<Rightarrow> string) \<Rightarrow> gval \<Rightarrow> string" where
  "fmt_v ff GNil = ''<nil>''"
| "fmt_v ff (GBool b) = (if b then ''true'' else ''false'')"
| "fmt_v ff (GInt i) = show_int i"
| "fmt_v ff (GFloat x) = ff x"
| "fmt_v ff (GStr s) = s"
| "fmt_v ff (GList xs) = ''['' @ str_join '' '' (map (fmt_v ff) xs) @ '']''"
| "fmt_v ff (GObj m) = ''map['' @ str_join '' ''
     (map (\<lambda>(k, s). k @ '':'' @ s) (sort_kv (map (\<lambda>(k, v). (k, fmt_v ff v)) m))) @ '']''"

text \<open>What \<open>json.Marshal\<close> followed by \<open>json.Unmarshal\<close> into an \<open>any\<close> gives: numbers become
  \<open>float64\<close>. A NaN or an infinity makes Marshal fail.\<close>

fun json_ok :: "gval \<Rightarrow> bool" where
  "json_ok (GFloat x) = (case x of Fin _ \<Rightarrow> True | _ \<Rightarrow> False)"
| "json_ok (GList xs) = list_all json_ok xs"
| "json_ok (GObj m) = list_all (\<lambda>(k, v). json_ok v) m"
| "json_ok _ = True"

fun json_norm :: "gval \<Rightarrow> gval" where
  "json_norm (GInt i) = GFloat (f64_of_int i)"
| "json_norm (GList xs) = GList (map json_norm xs)"
| "json_norm (GObj m) = GObj (map (\<lambda>(k, v). (k, json_norm v)) m)"
| "json_norm v = v"

text \<open>Values whose numbers are all floats, as those decoded from JSON.\<close>

fun json_value :: "gval \<Rightarrow> bool" where
  "json_value (GInt i) = False"
| "json_value (GFloat x) = (case x of Fin _ \<Rightarrow> True | _ \<Rightarrow> False)"
| "json_value (GList xs) = list_all json_value xs"
| "json_value (GObj m) = list_all (\<lambda>(k, v). json_value v) m"
| "json_value _ = True"

lemma as_str_Some_iff [simp]: "as_str v = Some s \<longleftrightarrow> v = Some (GStr s)"
  by (cases v rule: as_str.cases) auto

lemma as_obj_Some_iff [simp]: "as_obj v = Some m \<longleftrightarrow> v = Some (GObj m)"
  by (cases v rule: as_obj.cases) auto

lemma as_list_Some_iff [simp]: "as_list v = Some m \<longleftrightarrow> v = Some (GList m)"
  by (cases v rule: as_list.cases) auto

lemma json_norm_id: "json_value v \<Longrightarrow> json_norm v = v"
proof (induction v)
  case (GList xs)
  then show ?case by (auto simp: list_all_iff intro: map_idI)
next
  case (GObj m)
  then show ?case by (fastforce simp: list_all_iff intro: map_idI)
qed auto

end
