(* ===== verification/Config_Model.thy ===== *)
theory Config_Model
  imports Go_Value
begin

text \<open>
  The configuration of package config (config.go, expand.go, openapi.go): tools, agents,
  pipelines, intents and plugins as records with the fields of the Go structs, the expansion of
  environment references, and the loaders. The file system, the environment and the YAML and
  JSON decoders are fields of \<open>loader_env\<close>.
\<close>

record tool_def =
  tl_name :: string
  tl_description :: string
  tl_type :: string
  tl_method :: string
  tl_url :: string
  tl_mode :: string
  tl_timeout_ms :: int
  tl_body :: "string gomap"
  tl_model :: string
  tl_headers :: "string gomap"
  tl_target :: string
  tl_service :: string
  tl_operation :: string
  tl_agent :: string
  tl_insecure :: bool
  tl_remote_tool :: string
  tl_version :: string

record pipeline_step =
  ps_id :: string
  ps_type :: string
  ps_agent :: string
  ps_depends_on :: "string list"
  ps_tool :: string
  ps_with_params :: "string gomap"
  ps_analyst :: bool
  ps_human_gate :: string
  ps_no_approval_reason :: string
  ps_when :: string
  ps_retries :: int
  ps_timeout_ms :: int
  ps_backoff_ms :: int
  ps_callback_secret_env :: string

record agent_def =
  ad_name :: string
  ad_runtime :: string
  ad_binary :: string

record pipeline =
  pl_name :: string
  pl_description :: string
  pl_mode :: string
  pl_llm_model :: string
  pl_skip_summary :: bool
  pl_ai_system :: string
  pl_governed :: bool
  pl_steps :: "pipeline_step list"

record intent =
  it_type :: string
  it_description :: string
  it_pipeline :: string
  it_required_params :: "string list"
  it_examples :: "string list"
  it_allow_dangerous :: bool
  it_requires_amount :: bool
  it_requires_phone :: bool
  it_max_amount :: f64
  it_shadow_mode :: bool

record plugin =
  pg_name :: string
  pg_type :: string
  pg_file :: string
  pg_base_url :: string
  pg_headers :: "string gomap"

text \<open>\<open>rbac.Config\<close> (rbac/rbac.go): the roles of each intent and the answer for the others.\<close>

record rbac_config =
  rb_permissions :: "string list gomap"
  rb_unknown_intent :: string

record config =
  cf_tools :: "tool_def gomap"
  cf_agents :: "agent_def gomap"
  cf_pipelines :: "pipeline gomap"
  cf_intents :: "intent gomap"
  cf_plugins :: "plugin gomap"
  cf_rbac :: "rbac_config option"

text \<open>Zero values, as a missing map entry or an empty YAML mapping gives them.\<close>

definition zero_tool :: tool_def where
  "zero_tool = \<lparr>tl_name = '''', tl_description = '''', tl_type = '''', tl_method = '''', tl_url = '''',
     tl_mode = '''', tl_timeout_ms = 0, tl_body = [], tl_model = '''', tl_headers = [],
     tl_target = '''', tl_service = '''', tl_operation = '''', tl_agent = '''', tl_insecure = False,
     tl_remote_tool = '''', tl_version = ''''\<rparr>"

definition zero_step :: pipeline_step where
  "zero_step = \<lparr>ps_id = '''', ps_type = '''', ps_agent = '''', ps_depends_on = [], ps_tool = '''',
     ps_with_params = [], ps_analyst = False, ps_human_gate = '''', ps_no_approval_reason = '''',
     ps_when = '''', ps_retries = 0, ps_timeout_ms = 0, ps_backoff_ms = 0,
     ps_callback_secret_env = ''''\<rparr>"

definition zero_pipeline :: pipeline where
  "zero_pipeline = \<lparr>pl_name = '''', pl_description = '''', pl_mode = '''', pl_llm_model = '''',
     pl_skip_summary = False, pl_ai_system = '''', pl_governed = False, pl_steps = []\<rparr>"

definition zero_intent :: intent where
  "zero_intent = \<lparr>it_type = '''', it_description = '''', it_pipeline = '''', it_required_params = [],
     it_examples = [], it_allow_dangerous = False, it_requires_amount = False,
     it_requires_phone = False, it_max_amount = Fin 0, it_shadow_mode = False\<rparr>"

subsection \<open>What needs a language model\<close>

definition tool_requires_llm :: "config \<Rightarrow> string \<Rightarrow> bool" where
  "tool_requires_llm c name =
    (if name \<in> {''workspace.generate_code'', ''system.recall'', ''system.rag_query'',
        ''system.save_preference''} then True
     else has_prefix name ''system.memory.'' \<or>
       (case mget (cf_tools c) name of None \<Rightarrow> False | Some t \<Rightarrow> tl_type t = ''llm''))"

definition intent_requires_llm :: "config \<Rightarrow> string \<Rightarrow> bool" where
  "intent_requires_llm c intent_type =
    (case mget (cf_intents c) intent_type of None \<Rightarrow> True
     | Some it \<Rightarrow> (case mget (cf_pipelines c) (it_pipeline it) of None \<Rightarrow> True
       | Some p \<Rightarrow> list_ex (\<lambda>s. ps_agent s \<noteq> '''' \<or> tool_requires_llm c (ps_tool s)) (pl_steps p)))"

subsection \<open>Environment references\<close>

definition name_start :: "char \<Rightarrow> bool" where
  "name_start c = (is_alpha c \<or> c = CHR ''_'')"

definition name_char :: "char \<Rightarrow> bool" where
  "name_char c = (name_start c \<or> is_digit c)"

text \<open>
  The match of \<open>envRefPattern\<close> that starts at a text: name, default and the text after it. A name
  is followed by the brace or by \<open>:-\<close>, so taking the longest name loses no match.
\<close>

definition env_ref :: "string \<Rightarrow> (string \<times> string \<times> string) option" where
  "env_ref s =
    (case cut_prefix s ''${'' of None \<Rightarrow> None
     | Some r \<Rightarrow>
       (let name = takeWhile name_char r; rest = dropWhile name_char r in
        if name = [] \<or> \<not> name_start (hd name) then None
        else case cut_prefix rest ''}'' of Some after \<Rightarrow> Some (name, '''', after)
        | None \<Rightarrow> (case cut_prefix rest '':-'' of None \<Rightarrow> None
          | Some d \<Rightarrow> (case dropWhile (\<lambda>c. c \<noteq> CHR ''}'') d of [] \<Rightarrow> None
            | _ # after \<Rightarrow> Some (name, takeWhile (\<lambda>c. c \<noteq> CHR ''}'') d, after)))))"

lemma dropWhile_Cons_length: "dropWhile P xs = x # ys \<Longrightarrow> length ys < length xs"
  by (metis Suc_le_eq length_Cons length_dropWhile_le)

lemma env_ref_shorter:
  assumes "env_ref s = Some (n, d, after)"
  shows "length after < length s"
proof -
  obtain r where r: "s = ''${'' @ r"
    and cs: "dropWhile name_char r = ''}'' @ after \<or>
      (\<exists>d' x. dropWhile name_char r = '':-'' @ d' \<and> dropWhile (\<lambda>c. c \<noteq> CHR ''}'') d' = x # after)"
    using assms unfolding env_ref_def Let_def
    by (auto simp: cut_prefix_Some_iff split: option.splits if_splits list.splits)
  have len: "length (dropWhile name_char r) \<le> length r" by (rule length_dropWhile_le)
  from cs have "length after < length (dropWhile name_char r)"
    by (auto dest: dropWhile_Cons_length)
  with len r show ?thesis by simp
qed

function expand_env_refs :: "(string \<Rightarrow> string option) \<Rightarrow> string \<Rightarrow> string" where
  "expand_env_refs lookup s =
    (case env_ref s of
       Some (name, def, after) \<Rightarrow>
         (case lookup name of Some v \<Rightarrow> if v \<noteq> '''' then v else def | None \<Rightarrow> def)
         @ expand_env_refs lookup after
     | None \<Rightarrow> (case s of [] \<Rightarrow> [] | c # r \<Rightarrow> c # expand_env_refs lookup r))"
  by auto
termination
  by (relation "measure (\<lambda>(_, s). length s)") (auto dest: env_ref_shorter)

declare expand_env_refs.simps [simp del]

text \<open>A text in which no \<open>${\<close> starts a reference is left alone: a condition keeps its braces.\<close>

lemma expand_env_refs_Nil [simp]: "expand_env_refs lookup [] = []"
  by (subst expand_env_refs.simps) (simp add: env_ref_def cut_prefix_def has_prefix_def)

lemma expand_env_refs_none:
  "env_ref (c # r) = None \<Longrightarrow> expand_env_refs lookup (c # r) = c # expand_env_refs lookup r"
  by (subst expand_env_refs.simps) simp

lemma expand_env_refs_ref:
  "env_ref s = Some (n, d, after) \<Longrightarrow> expand_env_refs lookup s =
    (case lookup n of Some v \<Rightarrow> if v \<noteq> '''' then v else d | None \<Rightarrow> d) @ expand_env_refs lookup after"
  by (subst expand_env_refs.simps) simp

lemma env_ref_dollar: "c \<noteq> CHR ''$'' \<Longrightarrow> env_ref (c # r) = None"
  by (simp add: env_ref_def cut_prefix_def has_prefix_def)

lemma expand_env_refs_plain:
  "CHR ''$'' \<notin> set p \<Longrightarrow> expand_env_refs lookup (p @ r) = p @ expand_env_refs lookup r"
  by (induction p) (auto simp: expand_env_refs_none env_ref_dollar)

lemma env_ref_not_reference:
  assumes "list_all name_char n" "\<not> name_char c" "c \<noteq> CHR ''}''" "c \<noteq> CHR '':''"
  shows "env_ref (''${'' @ n @ c # r) = None"
proof -
  have "dropWhile name_char (n @ c # r) = c # r"
    using assms by (induction n) auto
  with assms show ?thesis
    by (simp add: env_ref_def Let_def cut_prefix_def has_prefix_def)
qed

lemma env_ref_reference:
  assumes "list_all name_char n" "n \<noteq> []" "name_start (hd n)"
  shows "env_ref (''${'' @ n @ ''}'' @ r) = Some (n, '''', r)"
proof -
  have "\<not> name_char (CHR ''}'')" by code_simp
  then have "dropWhile name_char (n @ CHR ''}'' # r) = CHR ''}'' # r"
    and "takeWhile name_char (n @ CHR ''}'' # r) = n"
    using assms(1) by (induction n) auto
  with assms show ?thesis
    by (simp add: env_ref_def Let_def cut_prefix_def has_prefix_def)
qed

subsection \<open>Loading a configuration directory\<close>

text \<open>
  Errors of package os keep the kind that \<open>os.IsNotExist\<close> recognises; an error wrapped by
  \<open>fmt.Errorf\<close> is not recognised by it (the function looks at os errors only).
\<close>

datatype go_err = OsNotExist string | OsError string | ErrMsg string

definition is_not_exist :: "go_err \<Rightarrow> bool" where
  "is_not_exist e = (case e of OsNotExist _ \<Rightarrow> True | _ \<Rightarrow> False)"

fun err_text :: "go_err \<Rightarrow> string" where
  "err_text (OsNotExist s) = s"
| "err_text (OsError s) = s"
| "err_text (ErrMsg s) = s"

datatype oschema = OSchema (os_ref: string) (os_props: "(string \<times> oschema) list")

definition zero_oschema :: oschema where
  "zero_oschema = OSchema '''' []"

text \<open>\<open>oo_body\<close> is \<open>None\<close> when the operation has no request body, else the schema of each media type.\<close>

record openapi_operation =
  oo_id :: string
  oo_body :: "oschema gomap option"

record openapi_spec =
  oa_servers :: "string list"
  oa_paths :: "openapi_operation gomap gomap"
  oa_schemas :: "oschema gomap"

record loader_env =
  ld_dir :: "string \<Rightarrow> go_err + (string \<times> bool) list"
  ld_file :: "string \<Rightarrow> go_err + string"
  ld_getenv :: "string \<Rightarrow> string option"
  ld_tools :: "string \<Rightarrow> string + tool_def list"
  ld_agents :: "string \<Rightarrow> string + agent_def list"
  ld_pipelines :: "string \<Rightarrow> string + pipeline list"
  ld_intents :: "string \<Rightarrow> string + intent list"
  ld_plugins :: "string \<Rightarrow> string + plugin list"
  ld_rbac :: "string \<Rightarrow> string + rbac_config"
  ld_openapi :: "string \<Rightarrow> string + openapi_spec"

definition path_join :: "string \<Rightarrow> string \<Rightarrow> string" where
  "path_join a b = (if a = '''' then b else if b = '''' then a else a @ ''/'' @ b)"

text \<open>
  The loop over the entries of a directory: directories are skipped, an unreadable file or an
  error of \<open>handle\<close> ends the load. The configuration is a pointer, so what was stored before an
  error stays in it.
\<close>

type_synonym load_result = "config \<times> go_err option"

fun load_entries :: "loader_env \<Rightarrow> string \<Rightarrow> (string \<Rightarrow> string \<Rightarrow> config \<Rightarrow> load_result)
    \<Rightarrow> (string \<times> bool) list \<Rightarrow> config \<Rightarrow> load_result" where
  "load_entries e dir handle [] cfg = (cfg, None)"
| "load_entries e dir handle ((name, is_dir) # es) cfg =
    (if is_dir then load_entries e dir handle es cfg
     else (let path = path_join dir name in
       case ld_file e path of Inl err \<Rightarrow> (cfg, Some err)
       | Inr data \<Rightarrow> (case handle path data cfg of
           (cfg', Some err) \<Rightarrow> (cfg', Some err)
         | (cfg', None) \<Rightarrow> load_entries e dir handle es cfg')))"

definition parsing_err :: "string \<Rightarrow> string \<Rightarrow> go_err" where
  "parsing_err path err = ErrMsg (''parsing '' @ path @ '': '' @ err)"

fun add_agents :: "string \<Rightarrow> agent_def list \<Rightarrow> config \<Rightarrow> load_result" where
  "add_agents path [] cfg = (cfg, None)"
| "add_agents path (a # as) cfg =
    (if ad_name a = '''' \<or> ad_runtime a = ''''
     then (cfg, Some (ErrMsg (''agent in '' @ path @ '' must define name and runtime'')))
     else add_agents path as (cfg\<lparr>cf_agents := mput (cf_agents cfg) (ad_name a) a\<rparr>))"

definition load_agents_dir :: "loader_env \<Rightarrow> string \<Rightarrow> config \<Rightarrow> load_result" where
  "load_agents_dir e dir cfg =
    (case ld_dir e dir of Inl err \<Rightarrow> (cfg, Some err)
     | Inr entries \<Rightarrow> load_entries e dir (\<lambda>path data cfg.
         case ld_agents e data of Inl err \<Rightarrow> (cfg, Some (parsing_err path err))
         | Inr as \<Rightarrow> add_agents path as cfg) entries cfg)"

definition add_tool :: "tool_def \<Rightarrow> config \<Rightarrow> config" where
  "add_tool t c = c\<lparr>cf_tools := mput (cf_tools c) (tl_name t) t\<rparr>"

definition load_tools_dir :: "loader_env \<Rightarrow> string \<Rightarrow> config \<Rightarrow> load_result" where
  "load_tools_dir e dir cfg =
    (case ld_dir e dir of Inl err \<Rightarrow> (cfg, Some (ErrMsg (''loading tools dir: '' @ err_text err)))
     | Inr entries \<Rightarrow> load_entries e dir (\<lambda>path data cfg.
         case ld_tools e (expand_env_refs (ld_getenv e) data) of
           Inl err \<Rightarrow> (cfg, Some (parsing_err path err))
         | Inr ts \<Rightarrow> (fold add_tool ts cfg, None)) entries cfg)"

definition known_mode :: "string \<Rightarrow> bool" where
  "known_mode m = (m \<in> {'''', ''linear'', ''dag''})"

fun add_pipelines :: "string \<Rightarrow> pipeline list \<Rightarrow> config \<Rightarrow> load_result" where
  "add_pipelines path [] cfg = (cfg, None)"
| "add_pipelines path (p # ps) cfg =
    (if known_mode (pl_mode p)
     then add_pipelines path ps (cfg\<lparr>cf_pipelines := mput (cf_pipelines cfg) (pl_name p) p\<rparr>)
     else (cfg, Some (ErrMsg (''pipeline '' @ pl_name p @ '' in '' @ path @ '': unsupported mode '' @
       go_quote (pl_mode p)))))"

definition load_pipelines_dir :: "loader_env \<Rightarrow> string \<Rightarrow> config \<Rightarrow> load_result" where
  "load_pipelines_dir e dir cfg =
    (case ld_dir e dir of Inl err \<Rightarrow> (cfg, Some (ErrMsg (''loading pipelines dir: '' @ err_text err)))
     | Inr entries \<Rightarrow> load_entries e dir (\<lambda>path data cfg.
         case ld_pipelines e (expand_env_refs (ld_getenv e) data) of
           Inl err \<Rightarrow> (cfg, Some (parsing_err path err))
         | Inr ps \<Rightarrow> add_pipelines path ps cfg) entries cfg)"

definition add_intent :: "intent \<Rightarrow> config \<Rightarrow> config" where
  "add_intent it c = (if it_type it = '''' then c
     else c\<lparr>cf_intents := mput (cf_intents c) (it_type it) it\<rparr>)"

definition load_intents_dir :: "loader_env \<Rightarrow> string \<Rightarrow> config \<Rightarrow> load_result" where
  "load_intents_dir e dir cfg =
    (case ld_dir e dir of Inl err \<Rightarrow> (cfg, Some (ErrMsg (''loading intents dir: '' @ err_text err)))
     | Inr entries \<Rightarrow> load_entries e dir (\<lambda>path data cfg.
         case ld_intents e data of Inl err \<Rightarrow> (cfg, Some (parsing_err path err))
         | Inr its \<Rightarrow> (fold add_intent its cfg, None)) entries cfg)"

end
