(* ===== verification/Pipeline_Safety.thy ===== *)
theory Pipeline_Safety
  imports Config_Model
begin

text \<open>
  The static check of config/safety.go: a step that runs a dangerous tool needs a human approval
  before it. In a DAG the check walks the \<open>depends_on\<close> edges with a stack and a set of seen
  labels; here it is a recursive function over the same two collections, and the theorems show
  that it decides reachability of an approval.
\<close>

definition step_label :: "pipeline_step \<Rightarrow> nat \<Rightarrow> string" where
  "step_label s i = (if ps_id s \<noteq> '''' then ps_id s
     else if ps_tool s \<noteq> '''' then ps_tool s
     else ''step_'' @ show_nat i)"

text \<open>The map from labels to steps, built in step order: a later step replaces an earlier one.\<close>

fun label_steps :: "nat \<Rightarrow> pipeline_step list \<Rightarrow> pipeline_step gomap \<Rightarrow> pipeline_step gomap" where
  "label_steps i [] m = m"
| "label_steps i (s # ss) m = label_steps (Suc i) ss (mput m (step_label s i) s)"

definition by_label :: "pipeline \<Rightarrow> pipeline_step gomap" where
  "by_label p = label_steps 0 (pl_steps p) []"

text \<open>The loop of the search. The top of the stack is the head of \<open>pending\<close>.\<close>

function approval_search :: "pipeline_step gomap \<Rightarrow> string list \<Rightarrow> string list \<Rightarrow> bool" where
  "approval_search m seen [] = False"
| "approval_search m seen (sid # pending) =
    (if sid \<in> set seen then approval_search m seen pending
     else (case mget m sid of
         None \<Rightarrow> approval_search m (sid # seen) pending
       | Some a \<Rightarrow> if ps_human_gate a \<noteq> '''' then True
           else approval_search m (sid # seen) (rev (ps_depends_on a) @ pending)))"
  by pat_completeness auto
termination
proof (relation "measures [\<lambda>(m, seen, pending). card (dom (mget m) - set seen),
    \<lambda>(m, seen, pending). length pending]", goal_cases)
  case (3 m seen sid pending)
  then have "dom (mget m) - insert sid (set seen) = dom (mget m) - set seen" by auto
  then show ?case by simp
next
  case (4 m seen sid pending a)
  then have "card (dom (mget m) - insert sid (set seen)) < card (dom (mget m) - set seen)"
    by (intro psubset_card_mono) (auto simp: finite_dom_map_of)
  then show ?case by simp
qed auto

definition approved_before :: "pipeline \<Rightarrow> nat \<Rightarrow> bool" where
  "approved_before p i =
    (if pl_mode p \<noteq> ''dag'' then list_ex (\<lambda>s. ps_human_gate s \<noteq> '''') (take i (pl_steps p))
     else approval_search (by_label p) [] (rev (ps_depends_on (pl_steps p ! i))))"

definition safety_problem :: "config \<Rightarrow> string \<Rightarrow> pipeline \<Rightarrow> nat \<Rightarrow> pipeline_step \<Rightarrow> string option" where
  "safety_problem cfg name p i s =
    (case mget (cf_tools cfg) (ps_tool s) of None \<Rightarrow> None
     | Some t \<Rightarrow>
       if tl_mode t \<noteq> ''dangerous'' then None
       else if approved_before p i then None
       else if trim_space (ps_no_approval_reason s) \<noteq> '''' then None
       else Some (''pipeline '' @ name @ '' step '' @ step_label s i @ '' runs dangerous tool '' @
         ps_tool s @ '' with no human approval before it (add one, or state no_approval_reason)''))"

definition pipeline_problems :: "config \<Rightarrow> string \<Rightarrow> pipeline \<Rightarrow> string list" where
  "pipeline_problems cfg name p =
    List.map_filter (\<lambda>(i, s). safety_problem cfg name p i s) (List.enumerate 0 (pl_steps p))"

definition validate_pipeline_safety :: "config \<Rightarrow> go_err option" where
  "validate_pipeline_safety cfg =
    (let problems = concat (map (\<lambda>name. case mget (cf_pipelines cfg) name of
           None \<Rightarrow> [] | Some p \<Rightarrow> pipeline_problems cfg name p)
         (sort (remdups (map fst (cf_pipelines cfg)))))
     in if problems = [] then None
        else Some (ErrMsg (''unsafe pipelines:'' @ [char_of (10 :: nat)] @ ''  '' @
          str_join ([char_of (10 :: nat)] @ ''  '') problems)))"

subsection \<open>The search decides reachability\<close>

text \<open>The labels that follow \<open>depends_on\<close> edges from a list of labels.\<close>

inductive dep_reach :: "pipeline_step gomap \<Rightarrow> string set \<Rightarrow> string \<Rightarrow> bool" for m A where
  start: "sid \<in> A \<Longrightarrow> dep_reach m A sid"
| step: "dep_reach m A sid \<Longrightarrow> mget m sid = Some s \<Longrightarrow> sid' \<in> set (ps_depends_on s) \<Longrightarrow> dep_reach m A sid'"

definition gate_at :: "pipeline_step gomap \<Rightarrow> string \<Rightarrow> bool" where
  "gate_at m sid = (case mget m sid of None \<Rightarrow> False | Some s \<Rightarrow> ps_human_gate s \<noteq> '''')"

lemma dep_reach_mono: "dep_reach m A sid \<Longrightarrow> A \<subseteq> B \<Longrightarrow> dep_reach m B sid"
  by (induction rule: dep_reach.induct) (auto intro: dep_reach.intros)

lemma approval_search_sound:
  "approval_search m seen pending \<Longrightarrow> \<exists>sid. dep_reach m (set pending) sid \<and> gate_at m sid"
proof (induction m seen pending rule: approval_search.induct)
  case (2 m seen sid pending)
  have mono: "dep_reach m (set pending) x \<Longrightarrow> dep_reach m (set (sid # pending)) x" for x
    by (erule dep_reach_mono) auto
  show ?case
  proof (cases "sid \<in> set seen \<or> mget m sid = None")
    case True
    with 2 mono show ?thesis by (fastforce split: if_splits)
  next
    case False
    then obtain a where a: "mget m sid = Some a" "sid \<notin> set seen" by auto
    show ?thesis
    proof (cases "ps_human_gate a = ''''")
      case True
      with 2 a obtain x where x: "dep_reach m (set (rev (ps_depends_on a) @ pending)) x" "gate_at m x"
        by auto
      have "dep_reach m (set (sid # pending)) x"
        using x(1) by (induction rule: dep_reach.induct)
          (use a in \<open>auto intro: dep_reach.start dep_reach.step [OF dep_reach.start]\<close>,
           blast intro: dep_reach.step)
      with x(2) show ?thesis by blast
    next
      case False
      with a show ?thesis by (intro exI [of _ sid]) (auto simp: gate_at_def intro: dep_reach.start)
    qed
  qed
qed simp

text \<open>
  Completeness: when the search fails, no label of a set that contains the stack and the seen
  labels and is closed under the edges out of it has a gate.
\<close>

lemma approval_search_complete:
  assumes "\<not> approval_search m seen pending"
    and "\<And>sid s. sid \<in> set seen \<Longrightarrow> mget m sid = Some s \<Longrightarrow>
      ps_human_gate s = '''' \<and> set (ps_depends_on s) \<subseteq> set seen \<union> set pending"
    and "dep_reach m (set seen \<union> set pending) sid"
  shows "\<not> gate_at m sid"
  using assms
proof (induction m seen pending rule: approval_search.induct)
  case (1 m seen)
  from 1(3) have "sid \<in> set seen"
    by (induction rule: dep_reach.induct) (use 1(2) in fastforce)+
  with 1(2) show ?case by (auto simp: gate_at_def split: option.splits)
next
  case (2 m seen i pending)
  show ?case
  proof (cases "i \<in> set seen")
    case True
    show ?thesis
      by (rule "2.IH"(1)) (use True 2 in \<open>auto simp: insert_absorb\<close>)
  next
    case False
    show ?thesis
    proof (cases "mget m i")
      case None
      have "dep_reach m (set (i # seen) \<union> set pending) sid" using "2.prems"(3) by simp
      with False None 2 show ?thesis by (intro "2.IH"(2)) auto
    next
      case (Some a)
      with False "2.prems"(1) have a: "ps_human_gate a = ''''"
        "\<not> approval_search m (i # seen) (rev (ps_depends_on a) @ pending)"
        by (auto split: if_splits)
      have "dep_reach m (set (i # seen) \<union> set (rev (ps_depends_on a) @ pending)) sid"
        using "2.prems"(3) by (rule dep_reach_mono) auto
      with False Some a 2(5) show ?thesis
        by (intro "2.IH"(3)) auto
    qed
  qed
qed

lemma approval_search_iff:
  "approval_search m [] pending \<longleftrightarrow> (\<exists>sid. dep_reach m (set pending) sid \<and> gate_at m sid)"
  using approval_search_sound [of m "[]" pending] approval_search_complete [of m "[]" pending]
  by auto

end
