(* ===== verification/Config_Load.thy ===== *)
theory Config_Load
  imports Pipeline_Safety
begin

text \<open>
  The rest of the configuration load: OpenAPI plugins (config/openapi.go), the permissions file
  (rbac/rbac.go, LoadConfig) and \<open>LoadFromDir\<close>, which runs the loaders in order, checks the
  pipelines and then reads the permissions.
\<close>

subsection \<open>OpenAPI plugins\<close>

definition request_body_template :: "openapi_spec \<Rightarrow> openapi_operation \<Rightarrow> string gomap" where
  "request_body_template spec op =
    (case oo_body op of None \<Rightarrow> []
     | Some content \<Rightarrow> (case mget content ''application/json'' of None \<Rightarrow> []
       | Some schema0 \<Rightarrow>
         (let schema = (case cut_prefix (os_ref schema0) ''#/components/schemas/'' of
              Some name \<Rightarrow> (case mget (oa_schemas spec) name of Some s \<Rightarrow> s | None \<Rightarrow> zero_oschema)
            | None \<Rightarrow> schema0)
          in map (\<lambda>(prop, _). (prop, ''{{ .'' @ prop @ '' }}'')) (os_props schema))))"

text \<open>\<open>openAPIParamRegex.ReplaceAllString(path, "{{ .$1 }}")\<close> for the pattern of one or more
  characters other than a closing brace between braces.\<close>

function render_path_params :: "string \<Rightarrow> string" where
  "render_path_params s =
    (case s of [] \<Rightarrow> []
     | c # r \<Rightarrow>
       (let name = takeWhile (\<lambda>c. c \<noteq> CHR ''}'') r; after = dropWhile (\<lambda>c. c \<noteq> CHR ''}'') r in
        if c = CHR ''{'' \<and> name \<noteq> [] \<and> after \<noteq> []
        then ''{{ .'' @ name @ '' }}'' @ render_path_params (tl after)
        else c # render_path_params r))"
  by auto
termination
  by (relation "measure length")
     (auto simp: Let_def less_Suc_eq_le intro: le_trans [OF _ length_dropWhile_le] diff_le_self
       simp del: length_dropWhile_le)

declare render_path_params.simps [simp del]

definition http_methods :: "string set" where
  "http_methods = {''get'', ''post'', ''put'', ''delete'', ''patch''}"

definition fallback_operation_id :: "string \<Rightarrow> string \<Rightarrow> string" where
  "fallback_operation_id method_lower path = method_lower @ ''_'' @
     str_trim (\<lambda>c. c = CHR ''_'')
       (replace_all (replace_all (replace_all path ''/'' ''_'') ''{'' '''') ''}'' '''')"

definition openapi_tool :: "openapi_spec \<Rightarrow> plugin \<Rightarrow> string \<Rightarrow> string \<Rightarrow> string \<Rightarrow> openapi_operation
    \<Rightarrow> tool_def" where
  "openapi_tool spec pg base_url path method op =
    (let op_id = (if oo_id op = '''' then fallback_operation_id (to_lower method) path else oo_id op);
         rendered0 = render_path_params path;
         rendered = (if has_prefix rendered0 ''/'' then rendered0 else ''/'' @ rendered0)
     in zero_tool\<lparr>tl_name := pg_name pg @ ''.'' @ op_id, tl_type := ''http'', tl_method := to_upper method,
          tl_url := base_url @ rendered,
          tl_mode := (if to_upper method \<noteq> ''GET'' then ''write'' else ''read''),
          tl_headers := mputs [] (pg_headers pg),
          tl_body := request_body_template spec op\<rparr>)"

fun add_openapi_methods :: "openapi_spec \<Rightarrow> plugin \<Rightarrow> string \<Rightarrow> string \<Rightarrow> openapi_operation gomap
    \<Rightarrow> config \<Rightarrow> config" where
  "add_openapi_methods spec pg base_url path [] cfg = cfg"
| "add_openapi_methods spec pg base_url path ((method, op) # ms) cfg =
    (if to_lower method \<notin> http_methods then add_openapi_methods spec pg base_url path ms cfg
     else add_openapi_methods spec pg base_url path ms
       (add_tool (openapi_tool spec pg base_url path method op) cfg))"

definition load_openapi_plugin :: "loader_env \<Rightarrow> string \<Rightarrow> plugin \<Rightarrow> config \<Rightarrow> load_result" where
  "load_openapi_plugin e base_dir pg cfg =
    (if pg_file pg = '''' then (cfg, Some (ErrMsg ''openapi plugin requires a 'file' property''))
     else (let spec_path = path_join base_dir (pg_file pg) in
       case ld_file e spec_path of
         Inl err \<Rightarrow> (cfg, Some (ErrMsg (''reading openapi spec '' @ spec_path @ '': '' @ err_text err)))
       | Inr data \<Rightarrow> (case ld_openapi e data of
           Inl err \<Rightarrow> (cfg, Some (ErrMsg (''parsing openapi spec (not valid json or yaml): '' @ err)))
         | Inr spec \<Rightarrow>
           (let url0 = (if pg_base_url pg = '''' \<and> oa_servers spec \<noteq> [] then hd (oa_servers spec)
                        else pg_base_url pg);
                base_url = trim_suffix url0 ''/''
            in (fold (\<lambda>(path, methods). add_openapi_methods spec pg base_url path methods)
                  (oa_paths spec) cfg, None)))))"

text \<open>An OpenAPI plugin that cannot be loaded is logged; the load goes on.\<close>

definition add_plugin :: "loader_env \<Rightarrow> string \<Rightarrow> plugin \<Rightarrow> config \<Rightarrow> config" where
  "add_plugin e dir pg cfg =
    (let cfg1 = cfg\<lparr>cf_plugins := mput (cf_plugins cfg) (pg_name pg) pg\<rparr> in
     if pg_type pg = ''openapi'' then fst (load_openapi_plugin e dir pg cfg1) else cfg1)"

definition load_plugins_dir :: "loader_env \<Rightarrow> string \<Rightarrow> config \<Rightarrow> load_result" where
  "load_plugins_dir e dir cfg =
    (case ld_dir e dir of
       Inl err \<Rightarrow> if is_not_exist err then (cfg, None)
         else (cfg, Some (ErrMsg (''loading plugins dir: '' @ err_text err)))
     | Inr entries \<Rightarrow> load_entries e dir (\<lambda>path data cfg.
         case ld_plugins e (expand_env_refs (ld_getenv e) data) of
           Inl err \<Rightarrow> (cfg, Some (parsing_err path err))
         | Inr pgs \<Rightarrow> (fold (add_plugin e dir) pgs cfg, None)) entries cfg)"

subsection \<open>Permissions and the whole load\<close>

definition load_rbac_config :: "loader_env \<Rightarrow> string \<Rightarrow> go_err + rbac_config" where
  "load_rbac_config e path =
    (case ld_file e path of Inl err \<Rightarrow> Inl (ErrMsg (''rbac: read file: '' @ err_text err))
     | Inr data \<Rightarrow> (case ld_rbac e data of
         Inl err \<Rightarrow> Inl (ErrMsg (''rbac: unmarshal yaml: '' @ err))
       | Inr c \<Rightarrow> Inr (if rb_unknown_intent c = '''' then c\<lparr>rb_unknown_intent := ''deny''\<rparr> else c)))"

definition empty_config :: config where
  "empty_config = \<lparr>cf_tools = [], cf_agents = [], cf_pipelines = [], cf_intents = [],
     cf_plugins = [], cf_rbac = None\<rparr>"

definition deny_all_rbac :: rbac_config where
  "deny_all_rbac = \<lparr>rb_permissions = [], rb_unknown_intent = ''deny''\<rparr>"

definition resolve_rbac :: "loader_env \<Rightarrow> string \<Rightarrow> rbac_config option" where
  "resolve_rbac e path =
    (case load_rbac_config e path of Inr c \<Rightarrow> Some c
     | Inl err \<Rightarrow> if \<not> is_not_exist err then None else Some deny_all_rbac)"

text \<open>One step of the load: an error stops it, unless the step tolerates a missing directory.\<close>

definition load_step :: "bool \<Rightarrow> (config \<Rightarrow> load_result) \<Rightarrow> go_err + config \<Rightarrow> go_err + config" where
  "load_step optional load r =
    (case r of Inl err \<Rightarrow> Inl err
     | Inr cfg \<Rightarrow> (case load cfg of (cfg', None) \<Rightarrow> Inr cfg'
       | (cfg', Some err) \<Rightarrow> if optional \<and> is_not_exist err then Inr cfg' else Inl err))"

definition load_from_dir :: "loader_env \<Rightarrow> string \<Rightarrow> go_err + config" where
  "load_from_dir e base =
    (let r = load_step False (load_intents_dir e (path_join base ''intents''))
          (load_step False (load_pipelines_dir e (path_join base ''pipelines''))
          (load_step True (load_plugins_dir e (path_join base ''plugins''))
          (load_step True (load_agents_dir e (path_join base ''agents''))
          (load_step False (load_tools_dir e (path_join base ''tools'')) (Inr empty_config)))))
     in case r of Inl err \<Rightarrow> Inl err
        | Inr cfg \<Rightarrow> (case validate_pipeline_safety cfg of Some err \<Rightarrow> Inl err
          | None \<Rightarrow> Inr (cfg\<lparr>cf_rbac := resolve_rbac e (path_join (path_join base ''rbac'') ''permissions.yaml'')\<rparr>)))"

subsection \<open>Well-formed configurations\<close>

text \<open>
  Every entry is filed under its own name, agents have a runtime, and a pipeline has one of the
  modes the executor knows. Each loader keeps this.
\<close>

definition wf_config :: "config \<Rightarrow> bool" where
  "wf_config c =
    ((\<forall>k t. mget (cf_tools c) k = Some t \<longrightarrow> tl_name t = k) \<and>
     (\<forall>k a. mget (cf_agents c) k = Some a \<longrightarrow> ad_name a = k \<and> k \<noteq> '''' \<and> ad_runtime a \<noteq> '''') \<and>
     (\<forall>k p. mget (cf_pipelines c) k = Some p \<longrightarrow> pl_name p = k \<and> known_mode (pl_mode p)) \<and>
     (\<forall>k it. mget (cf_intents c) k = Some it \<longrightarrow> it_type it = k \<and> k \<noteq> '''') \<and>
     (\<forall>k pg. mget (cf_plugins c) k = Some pg \<longrightarrow> pg_name pg = k))"

locale config_loader =
  fixes load :: "config \<Rightarrow> load_result"
  assumes keeps_wf: "wf_config cfg \<Longrightarrow> wf_config (fst (load cfg))"
begin

lemma load_step_wf:
  "load_step optional load r = Inr cfg' \<Longrightarrow> (\<And>cfg. r = Inr cfg \<Longrightarrow> wf_config cfg) \<Longrightarrow> wf_config cfg'"
  using keeps_wf by (fastforce simp: load_step_def split: sum.splits prod.splits option.splits if_splits)

end

lemma load_entries_wf:
  assumes "\<And>path data cfg. wf_config cfg \<Longrightarrow> wf_config (fst (handle path data cfg))" "wf_config cfg"
  shows "wf_config (fst (load_entries e dir handle es cfg))"
  using assms(2)
proof (induction es arbitrary: cfg)
  case (Cons x es)
  obtain name d where x: "x = (name, d)" by (cases x)
  show ?case
  proof (cases "ld_file e (path_join dir name)")
    case (Inr data)
    obtain cfg' r where h: "handle (path_join dir name) data cfg = (cfg', r)" by fastforce
    from assms(1) [OF Cons.prems] h have "wf_config cfg'" by (metis fst_conv)
    with Cons Inr h x show ?thesis by (auto split: option.splits simp: Let_def)
  qed (use Cons x in auto)
qed simp

lemma fold_wf: "(\<And>x cfg. wf_config cfg \<Longrightarrow> wf_config (f x cfg)) \<Longrightarrow> wf_config cfg \<Longrightarrow> wf_config (fold f xs cfg)"
  by (induction xs arbitrary: cfg) auto

lemma add_tool_wf: "wf_config cfg \<Longrightarrow> wf_config (add_tool t cfg)"
  by (auto simp: wf_config_def add_tool_def)

lemma add_intent_wf: "wf_config cfg \<Longrightarrow> wf_config (add_intent t cfg)"
  by (auto simp: wf_config_def add_intent_def)

lemma put_agent_wf:
  "wf_config cfg \<Longrightarrow> ad_name a \<noteq> '''' \<Longrightarrow> ad_runtime a \<noteq> '''' \<Longrightarrow>
    wf_config (cfg\<lparr>cf_agents := mput (cf_agents cfg) (ad_name a) a\<rparr>)"
  by (simp add: wf_config_def)

lemma put_pipeline_wf:
  "wf_config cfg \<Longrightarrow> known_mode (pl_mode p) \<Longrightarrow>
    wf_config (cfg\<lparr>cf_pipelines := mput (cf_pipelines cfg) (pl_name p) p\<rparr>)"
  by (simp add: wf_config_def)

lemma add_agents_wf: "wf_config cfg \<Longrightarrow> wf_config (fst (add_agents path as cfg))"
  by (induction path as cfg rule: add_agents.induct) (simp_all add: put_agent_wf)

lemma add_pipelines_wf: "wf_config cfg \<Longrightarrow> wf_config (fst (add_pipelines path ps cfg))"
  by (induction path ps cfg rule: add_pipelines.induct) (simp_all add: put_pipeline_wf)

lemma add_openapi_methods_wf:
  "wf_config cfg \<Longrightarrow> wf_config (add_openapi_methods spec pg url path ms cfg)"
  by (induction spec pg url path ms cfg rule: add_openapi_methods.induct) (auto intro: add_tool_wf)

lemma load_openapi_plugin_wf: "wf_config cfg \<Longrightarrow> wf_config (fst (load_openapi_plugin e dir pg cfg))"
  by (auto simp: load_openapi_plugin_def Let_def intro!: fold_wf add_openapi_methods_wf
      split: sum.splits)

lemma add_plugin_wf: "wf_config cfg \<Longrightarrow> wf_config (add_plugin e dir pg cfg)"
  unfolding add_plugin_def Let_def
  by (auto intro!: load_openapi_plugin_wf) (simp_all add: wf_config_def)

interpretation tools_loader: config_loader "load_tools_dir e dir" for e dir
  by unfold_locales (auto simp: load_tools_dir_def split: sum.splits
    intro!: load_entries_wf fold_wf add_tool_wf)

interpretation agents_loader: config_loader "load_agents_dir e dir" for e dir
  by unfold_locales (auto simp: load_agents_dir_def split: sum.splits
    intro!: load_entries_wf add_agents_wf)

interpretation plugins_loader: config_loader "load_plugins_dir e dir" for e dir
  by unfold_locales (auto simp: load_plugins_dir_def split: sum.splits
    intro!: load_entries_wf fold_wf add_plugin_wf)

interpretation pipelines_loader: config_loader "load_pipelines_dir e dir" for e dir
  by unfold_locales (auto simp: load_pipelines_dir_def split: sum.splits
    intro!: load_entries_wf add_pipelines_wf)

interpretation intents_loader: config_loader "load_intents_dir e dir" for e dir
  by unfold_locales (auto simp: load_intents_dir_def split: sum.splits
    intro!: load_entries_wf fold_wf add_intent_wf)

lemma wf_empty_config: "wf_config empty_config"
  by (simp add: wf_config_def empty_config_def)

lemma load_from_dir_wf:
  assumes "load_from_dir e base = Inr cfg"
  shows "wf_config cfg"
proof -
  obtain c where c: "load_step False (load_intents_dir e (path_join base ''intents''))
          (load_step False (load_pipelines_dir e (path_join base ''pipelines''))
          (load_step True (load_plugins_dir e (path_join base ''plugins''))
          (load_step True (load_agents_dir e (path_join base ''agents''))
          (load_step False (load_tools_dir e (path_join base ''tools'')) (Inr empty_config))))) = Inr c"
    and cfg: "cfg = c\<lparr>cf_rbac := cf_rbac cfg\<rparr>"
    using assms by (auto simp: load_from_dir_def Let_def split: sum.splits option.splits)
  have "wf_config c"
    by (rule intents_loader.load_step_wf [OF c], rule pipelines_loader.load_step_wf, assumption,
        rule plugins_loader.load_step_wf, assumption, rule agents_loader.load_step_wf, assumption,
        rule tools_loader.load_step_wf, assumption) (simp add: wf_empty_config)
  then show ?thesis by (subst cfg) (simp add: wf_config_def)
qed

subsection \<open>Safe pipelines\<close>

text \<open>The abstract condition: an approval precedes the step in the pipeline's own order.\<close>

definition gate_before :: "pipeline \<Rightarrow> nat \<Rightarrow> bool" where
  "gate_before p i =
    (if pl_mode p = ''dag''
     then \<exists>l. dep_reach (by_label p) (set (ps_depends_on (pl_steps p ! i))) l \<and> gate_at (by_label p) l
     else \<exists>j < i. j < length (pl_steps p) \<and> ps_human_gate (pl_steps p ! j) \<noteq> '''')"

lemma approved_before_iff: "approved_before p i \<longleftrightarrow> gate_before p i"
proof (cases "pl_mode p = ''dag''")
  case True
  then show ?thesis by (simp add: approved_before_def gate_before_def approval_search_iff)
next
  case False
  have "list_ex (\<lambda>s. ps_human_gate s \<noteq> '''') (take i (pl_steps p)) \<longleftrightarrow>
    (\<exists>j < i. j < length (pl_steps p) \<and> ps_human_gate (pl_steps p ! j) \<noteq> '''')"
    by (auto simp: list_ex_iff in_set_conv_nth Bex_def)
  with False show ?thesis by (simp add: approved_before_def gate_before_def)
qed

lemma set_map_filter_enumerate:
  "set (List.map_filter (\<lambda>(i, s). f i s) (List.enumerate 0 xs)) = {y. \<exists>i < length xs. f i (xs ! i) = Some y}"
  by (force simp: List.map_filter_def in_set_enumerate_eq image_iff)

lemma validate_pipeline_safety_None_iff:
  "validate_pipeline_safety cfg = None \<longleftrightarrow>
    (\<forall>name p i t. mget (cf_pipelines cfg) name = Some p \<and> i < length (pl_steps p) \<and>
       mget (cf_tools cfg) (ps_tool (pl_steps p ! i)) = Some t \<and> tl_mode t = ''dangerous'' \<and>
       blank (ps_no_approval_reason (pl_steps p ! i)) \<longrightarrow> gate_before p i)"
proof -
  have "validate_pipeline_safety cfg = None \<longleftrightarrow>
    (\<forall>name p. mget (cf_pipelines cfg) name = Some p \<longrightarrow> pipeline_problems cfg name p = [])"
    unfolding validate_pipeline_safety_def Let_def
    by (auto split: option.splits) (metis (no_types, lifting) fst_conv map_of_SomeD)
  moreover have "pipeline_problems cfg name p = [] \<longleftrightarrow>
    (\<forall>i < length (pl_steps p). safety_problem cfg name p i (pl_steps p ! i) = None)" for name p
  proof -
    have "pipeline_problems cfg name p = [] \<longleftrightarrow> set (pipeline_problems cfg name p) = {}" by simp
    then show ?thesis
      by (simp only: pipeline_problems_def set_map_filter_enumerate) (auto, metis not_None_eq)
  qed
  ultimately show ?thesis
    by (auto simp: safety_problem_def approved_before_iff blank_def split: option.splits) metis+
qed

lemma load_from_dir_safe:
  assumes "load_from_dir e base = Inr cfg"
  shows "validate_pipeline_safety cfg = None"
  using assms
  by (auto simp: load_from_dir_def Let_def validate_pipeline_safety_None_iff
      split: sum.splits option.splits)

subsection \<open>Properties\<close>

text \<open>A directory with one dangerous tool, and a DAG that reaches it only through an approval.\<close>

definition demo_pipeline :: pipeline where
  "demo_pipeline = zero_pipeline\<lparr>pl_name := ''pay'', pl_mode := ''dag'', pl_steps :=
     [zero_step\<lparr>ps_id := ''ask'', ps_human_gate := ''ok''\<rparr>,
      zero_step\<lparr>ps_id := ''mid'', ps_tool := ''look'', ps_depends_on := [''ask'']\<rparr>,
      zero_step\<lparr>ps_id := ''send'', ps_tool := ''transfer'', ps_depends_on := [''mid'']\<rparr>]\<rparr>"

definition demo_transfer :: tool_def where
  "demo_transfer = zero_tool\<lparr>tl_name := ''transfer'', tl_mode := ''dangerous''\<rparr>"

definition demo_loader :: loader_env where
  "demo_loader = \<lparr>
     ld_dir = (\<lambda>d. if d \<in> {''c/tools'', ''c/pipelines'', ''c/intents''} then Inr [(''a.yaml'', False)]
       else Inl (OsNotExist d)),
     ld_file = (\<lambda>f. if f = ''c/rbac/permissions.yaml'' then Inl (OsNotExist f) else Inr ''x''),
     ld_getenv = (\<lambda>_. None), ld_tools = (\<lambda>_. Inr [demo_transfer]), ld_agents = (\<lambda>_. Inr []),
     ld_pipelines = (\<lambda>_. Inr [demo_pipeline]), ld_intents = (\<lambda>_. Inr []), ld_plugins = (\<lambda>_. Inr []),
     ld_rbac = (\<lambda>_. Inr deny_all_rbac), ld_openapi = (\<lambda>_. Inl ''no'')\<rparr>"

definition demo_config :: config where
  "demo_config = empty_config\<lparr>cf_tools := [(''transfer'', demo_transfer)],
     cf_pipelines := [(''pay'', demo_pipeline)]\<rparr>"

lemma demo_loads: "load_from_dir demo_loader ''c'' = Inr demo_config"
  by code_simp

text \<open>
  C20: whatever is on disk, a configuration that loads has no pipeline step that runs a dangerous
  tool without a reason of its own and without a human approval before it: in a DAG an approval
  that the step reaches through depends_on, in a linear pipeline an earlier approval step. The
  stack search of approvedBefore finds exactly these approvals.
\<close>

theorem load_from_dir_dangerous_approved:
  assumes "load_from_dir e base = Inr cfg"
    and "mget (cf_pipelines cfg) name = Some p"
    and "i < length (pl_steps p)"
    and "mget (cf_tools cfg) (ps_tool (pl_steps p ! i)) = Some t"
    and "tl_mode t = ''dangerous''"
    and "blank (ps_no_approval_reason (pl_steps p ! i))"
  shows "if pl_mode p = ''dag''
    then \<exists>l s. dep_reach (by_label p) (set (ps_depends_on (pl_steps p ! i))) l \<and>
         mget (by_label p) l = Some s \<and> ps_human_gate s \<noteq> ''''
    else \<exists>j < i. ps_human_gate (pl_steps p ! j) \<noteq> ''''"
proof -
  have "gate_before p i"
    using load_from_dir_safe [OF assms(1)] assms(2-6)
    by (auto simp: validate_pipeline_safety_None_iff)
  then show ?thesis by (auto simp: gate_before_def gate_at_def split: if_splits option.splits)
qed

lemma load_from_dir_dangerous_approved_witness:
  "\<exists>l s. dep_reach (by_label demo_pipeline) (set (ps_depends_on (pl_steps demo_pipeline ! 2))) l \<and>
     mget (by_label demo_pipeline) l = Some s \<and> ps_human_gate s \<noteq> ''''"
  using load_from_dir_dangerous_approved [OF demo_loads, of "''pay''" demo_pipeline 2 demo_transfer]
  by (simp add: demo_config_def demo_pipeline_def demo_transfer_def zero_step_def zero_pipeline_def
      empty_config_def numeral_2_eq_2 blank_def)

text \<open>
  C21: the search of approvedBefore is exact: for every pipeline and step it answers true if and
  only if a human approval precedes the step in the pipeline's order.
\<close>

theorem approved_before_exact:
  "approved_before p i =
    (if pl_mode p = ''dag''
     then \<exists>l s. dep_reach (by_label p) (set (ps_depends_on (pl_steps p ! i))) l \<and>
          mget (by_label p) l = Some s \<and> ps_human_gate s \<noteq> ''''
     else \<exists>j < i. j < length (pl_steps p) \<and> ps_human_gate (pl_steps p ! j) \<noteq> '''')"
  by (auto simp: approved_before_iff gate_before_def gate_at_def split: option.splits)

text \<open>
  a configuration that loads is well formed: tools, pipelines, intents, agents and plugins are
  filed under their own names, every agent has a runtime, and every pipeline has a mode the
  executor knows.
\<close>

theorem load_from_dir_well_formed: "load_from_dir e base = Inr cfg \<Longrightarrow> wf_config cfg"
  by (rule load_from_dir_wf)

lemma load_from_dir_well_formed_witness: "wf_config demo_config"
  by (rule load_from_dir_well_formed [OF demo_loads])

text \<open>
  the loaded configuration has permissions exactly when the permissions file can be read and
  parsed. A missing or broken file leaves none: the deny-all default is never used, because the
  error that LoadConfig returns is wrapped and os.IsNotExist does not recognise it.
\<close>

theorem load_from_dir_permissions:
  assumes "load_from_dir e base = Inr cfg"
  shows "cf_rbac cfg =
    (case ld_file e (path_join (path_join base ''rbac'') ''permissions.yaml'') of Inl _ \<Rightarrow> None
     | Inr data \<Rightarrow> (case ld_rbac e data of Inl _ \<Rightarrow> None
       | Inr c \<Rightarrow> Some (if rb_unknown_intent c = '''' then c\<lparr>rb_unknown_intent := ''deny''\<rparr> else c)))"
  using assms
  by (auto simp: load_from_dir_def Let_def resolve_rbac_def load_rbac_config_def is_not_exist_def
      split: sum.splits option.splits)

lemma load_from_dir_permissions_witness: "cf_rbac demo_config = None"
  using load_from_dir_permissions [OF demo_loads]
  by (simp add: demo_loader_def path_join_def)

lemma expand_env_refs_conditions_parts:
  assumes "CHR ''$'' \<notin> set p" "list_all name_char n" "CHR ''$'' \<notin> set n"
    and "\<not> name_char c" "c \<noteq> CHR ''}''" "c \<noteq> CHR '':''"
  shows "expand_env_refs lookup (p @ ''${'' @ n @ c # r) =
      p @ ''${'' @ n @ expand_env_refs lookup (c # r)"
    and "n \<noteq> [] \<Longrightarrow> name_start (hd n) \<Longrightarrow> expand_env_refs lookup (p @ ''${'' @ n @ ''}'' @ r) =
      p @ (case lookup n of Some v \<Rightarrow> v | None \<Rightarrow> '''') @ expand_env_refs lookup r"
proof -
  have "expand_env_refs lookup (''${'' @ n @ c # r) =
      CHR ''$'' # expand_env_refs lookup ((CHR ''{'' # n) @ c # r)"
    using env_ref_not_reference [OF assms(2,4-6), of r] by (simp add: expand_env_refs_none)
  also have "\<dots> = ''${'' @ n @ expand_env_refs lookup (c # r)"
    using assms(3) by (subst expand_env_refs_plain) auto
  finally show "expand_env_refs lookup (p @ ''${'' @ n @ c # r) =
      p @ ''${'' @ n @ expand_env_refs lookup (c # r)"
    using assms(1) by (simp add: expand_env_refs_plain)
  show "expand_env_refs lookup (p @ ''${'' @ n @ ''}'' @ r) =
      p @ (case lookup n of Some v \<Rightarrow> v | None \<Rightarrow> '''') @ expand_env_refs lookup r"
    if "n \<noteq> []" "name_start (hd n)"
    using expand_env_refs_ref [OF env_ref_reference [OF assms(2) that, of r], of lookup] assms(1)
    by (auto simp: expand_env_refs_plain split: option.splits)
qed

text \<open>
  expanding environment references in a tool or pipeline file leaves conditions in braces
  alone, whatever the environment holds, while a plain reference becomes the variable's value, or
  nothing when it is unset or empty.
\<close>

theorem expand_env_refs_conditions:
  assumes "CHR ''$'' \<notin> set p" "list_all name_char n" "CHR ''$'' \<notin> set n"
    and "\<not> name_char c" "c \<noteq> CHR ''}''" "c \<noteq> CHR '':''"
  shows "expand_env_refs lookup (p @ ''${'' @ n @ c # r) = p @ ''${'' @ n @ expand_env_refs lookup (c # r) \<and>
    (n \<noteq> [] \<and> name_start (hd n) \<longrightarrow> expand_env_refs lookup (p @ ''${'' @ n @ ''}'' @ r) =
      p @ (case lookup n of Some v \<Rightarrow> v | None \<Rightarrow> '''') @ expand_env_refs lookup r)"
  using expand_env_refs_conditions_parts [OF assms] by blast

lemma expand_env_refs_conditions_witness:
  "expand_env_refs (\<lambda>_. Some ''zz'') (''when: '' @ ''${'' @ ''amount'' @ '' > 10}'') =
     ''when: ${amount'' @ expand_env_refs (\<lambda>_. Some ''zz'') '' > 10}'' \<and>
   expand_env_refs (\<lambda>_. Some ''zz'') (''url: '' @ ''${'' @ ''HOST'' @ ''}'' @ ''/x'') =
     ''url: '' @ ''zz'' @ expand_env_refs (\<lambda>_. Some ''zz'') ''/x''"
proof -
  have n: "list_all name_char ''amount''" "list_all name_char ''HOST''" "\<not> name_char CHR '' ''"
    "name_start (hd ''HOST'')"
    by code_simp+
  show ?thesis
    using expand_env_refs_conditions [of "''when: ''" "''amount''" "CHR '' ''" "\<lambda>_. Some ''zz''" "''> 10}''"]
      expand_env_refs_conditions [of "''url: ''" "''HOST''" "CHR '' ''" "\<lambda>_. Some ''zz''" "''/x''"] n
    by simp
qed

end
