(* ===== verification/Guard_Model.thy ===== *)
theory Guard_Model
  imports Config_Load
begin

text \<open>
  Who may run an intent and with which parameters: the permission check of rbac/rbac.go and the
  guard-rails of guard/guardrails.go and guard/structured.go. An error is \<open>Some\<close> of its text;
  \<open>ff\<close> prints a float and \<open>getenv\<close> is the process environment.
\<close>

subsection \<open>Permissions\<close>

definition intersect :: "string list \<Rightarrow> string list \<Rightarrow> string list" where
  "intersect a b = filter (\<lambda>y. y \<in> set a) b"

definition is_allowed :: "rbac_config \<Rightarrow> string \<Rightarrow> string list \<Rightarrow> bool \<times> string list" where
  "is_allowed c intent user_roles =
    (case mget (rb_permissions c) intent of
       None \<Rightarrow> if rb_unknown_intent c = ''allow'' then (True, []) else (False, [])
     | Some allowed \<Rightarrow> (let m = intersect user_roles allowed in (m \<noteq> [], m)))"

definition is_allowed_for_functions :: "rbac_config \<Rightarrow> string \<Rightarrow> string list \<Rightarrow> bool \<times> string list" where
  "is_allowed_for_functions c intent domains =
    (if ''*'' \<in> set domains
     then (case mget (rb_permissions c) intent of Some allowed \<Rightarrow> (True, allowed)
       | None \<Rightarrow> (rb_unknown_intent c = ''allow'', []))
     else is_allowed c intent domains)"

subsection \<open>Guard-rails\<close>

definition is_internal_tool :: "string \<Rightarrow> bool" where
  "is_internal_tool name = has_prefix name ''system.''"

text \<open>The regular expression \<open>^[0-9+][0-9]{5,14}$\<close>.\<close>

definition is_valid_phone :: "string \<Rightarrow> bool" where
  "is_valid_phone s = (case s of [] \<Rightarrow> False
     | c # r \<Rightarrow> (is_digit c \<or> c = CHR ''+'') \<and> list_all is_digit r \<and> 5 \<le> length r \<and> length r \<le> 14)"

fun validate_permissions_steps :: "intent \<Rightarrow> tool_def gomap \<Rightarrow> pipeline_step list \<Rightarrow> string option" where
  "validate_permissions_steps it tools [] = None"
| "validate_permissions_steps it tools (s # ss) =
    (if ps_tool s = '''' \<or> is_internal_tool (ps_tool s) then validate_permissions_steps it tools ss
     else (case mget tools (ps_tool s) of
         None \<Rightarrow> Some (''tool '' @ ps_tool s @ '' not found'')
       | Some t \<Rightarrow> if tl_mode t = ''dangerous'' \<and> \<not> it_allow_dangerous it
           then Some (''intent ' '' @ it_type it @ ''' not allowed this tool (tool='' @ tl_name t @ '')'')
           else validate_permissions_steps it tools ss))"

definition validate_intent_permissions :: "intent \<Rightarrow> pipeline \<Rightarrow> tool_def gomap \<Rightarrow> string option" where
  "validate_intent_permissions it p tools = validate_permissions_steps it tools (pl_steps p)"

definition validate_amount :: "(f64 \<Rightarrow> string) \<Rightarrow> intent \<Rightarrow> string gomap \<Rightarrow> string option" where
  "validate_amount ff it params =
    (let raw = mstr params ''amount'' in
     if raw = '''' then Some ''required parameter: amount''
     else (case parse_float raw of None \<Rightarrow> Some (''invalid amount: '' @ raw)
       | Some amount \<Rightarrow>
         if f64_le amount (Fin 0) then Some (''invalid amount: '' @ raw)
         else if f64_lt (Fin 0) (it_max_amount it) \<and> f64_lt (it_max_amount it) amount
         then Some (''amount exceeds allowed limit: '' @ ff amount @ '' > '' @ ff (it_max_amount it))
         else None))"

definition validate_phone :: "string gomap \<Rightarrow> string option" where
  "validate_phone params =
    (let phone = mstr params ''toPhone'' in
     if phone = '''' then Some ''required parameter: toPhone''
     else if \<not> is_valid_phone phone then Some (''toPhone is not valid: '' @ phone)
     else None)"

definition validate_dangerous_params :: "(f64 \<Rightarrow> string) \<Rightarrow> intent \<Rightarrow> string gomap \<Rightarrow> string option" where
  "validate_dangerous_params ff it params =
    (if \<not> it_allow_dangerous it then None
     else (case (if it_requires_amount it then validate_amount ff it params else None) of
         Some err \<Rightarrow> Some err
       | None \<Rightarrow> if it_requires_phone it then validate_phone params else None))"

fun validate_chain_steps :: "pipeline \<Rightarrow> tool_def gomap \<Rightarrow> bool \<Rightarrow> pipeline_step list \<Rightarrow> string option" where
  "validate_chain_steps p tools seen [] = None"
| "validate_chain_steps p tools seen (s # ss) =
    (if ps_tool s = '''' \<or> is_internal_tool (ps_tool s) then validate_chain_steps p tools seen ss
     else (case mget tools (ps_tool s) of
         None \<Rightarrow> Some (''tool '' @ ps_tool s @ '' not found in chain check'')
       | Some t \<Rightarrow> if tl_mode t = ''dangerous''
           then (if seen then Some (''pipeline ' '' @ pl_name p @ ''' is chaining danger tools'')
                 else validate_chain_steps p tools True ss)
           else validate_chain_steps p tools seen ss))"

definition validate_dangerous_chain :: "(string \<Rightarrow> string) \<Rightarrow> pipeline \<Rightarrow> tool_def gomap \<Rightarrow> string option" where
  "validate_dangerous_chain getenv p tools =
    (if getenv ''ALLOW_LOCAL_TOOLS'' = ''true'' then None
     else validate_chain_steps p tools False (pl_steps p))"

definition validate_all :: "(f64 \<Rightarrow> string) \<Rightarrow> (string \<Rightarrow> string) \<Rightarrow> intent \<Rightarrow> pipeline \<Rightarrow> string gomap
    \<Rightarrow> tool_def gomap \<Rightarrow> string option" where
  "validate_all ff getenv it p params tools =
    (case validate_intent_permissions it p tools of Some err \<Rightarrow> Some err
     | None \<Rightarrow> (case validate_dangerous_params ff it params of Some err \<Rightarrow> Some err
       | None \<Rightarrow> validate_dangerous_chain getenv p tools))"

definition validate_structured_params :: "intent \<Rightarrow> string gomap \<Rightarrow> string list \<Rightarrow> string option" where
  "validate_structured_params it params non_string =
    (if non_string \<noteq> [] then Some (''parameters must be strings: '' @ str_join '', '' (sort non_string))
     else (let missing = filter (\<lambda>name. trim_space (mstr params name) = '''') (it_required_params it) in
       if missing \<noteq> [] then Some (''missing required parameters: '' @ str_join '', '' missing)
       else None))"

subsection \<open>Facts\<close>

lemma is_allowed_iff:
  "fst (is_allowed c intent roles) \<longleftrightarrow>
    (case mget (rb_permissions c) intent of None \<Rightarrow> rb_unknown_intent c = ''allow''
     | Some allowed \<Rightarrow> \<exists>r \<in> set roles. r \<in> set allowed)"
  by (auto simp: is_allowed_def intersect_def Let_def filter_empty_conv split: option.splits)

text \<open>The steps the guard-rails look at: those that name a tool of the registry.\<close>

definition registry_step :: "pipeline_step \<Rightarrow> bool" where
  "registry_step s = (ps_tool s \<noteq> '''' \<and> \<not> is_internal_tool (ps_tool s))"

definition dangerous_step :: "tool_def gomap \<Rightarrow> pipeline_step \<Rightarrow> bool" where
  "dangerous_step tools s = (registry_step s \<and>
     (case mget tools (ps_tool s) of None \<Rightarrow> False | Some t \<Rightarrow> tl_mode t = ''dangerous''))"

lemma validate_permissions_steps_None_iff:
  "validate_permissions_steps it tools ss = None \<longleftrightarrow>
    (\<forall>s \<in> set ss. registry_step s \<longrightarrow> mget tools (ps_tool s) \<noteq> None) \<and>
    (it_allow_dangerous it \<or> (\<forall>s \<in> set ss. \<not> dangerous_step tools s))"
  by (induction ss) (auto simp: registry_step_def dangerous_step_def split: option.splits)

lemma validate_chain_steps_None_iff:
  "validate_chain_steps p tools seen ss = None \<longleftrightarrow>
    (\<forall>s \<in> set ss. registry_step s \<longrightarrow> mget tools (ps_tool s) \<noteq> None) \<and>
    length (filter (dangerous_step tools) ss) \<le> (if seen then 0 else 1)"
proof (induction ss arbitrary: seen)
  case (Cons s ss)
  show ?case
  proof (cases "registry_step s")
    case False
    then have "\<not> dangerous_step tools s" by (simp add: dangerous_step_def)
    moreover from False have "ps_tool s = '''' \<or> is_internal_tool (ps_tool s)"
      by (simp add: registry_step_def)
    ultimately show ?thesis using Cons [of seen] False by simp
  next
    case True
    then have "ps_tool s \<noteq> ''''" "\<not> is_internal_tool (ps_tool s)" by (auto simp: registry_step_def)
    with True Cons [of True] Cons [of seen] show ?thesis
      by (cases "mget tools (ps_tool s)") (auto simp: dangerous_step_def)
  qed
qed simp

text \<open>An amount the guard lets through: a NaN, or a positive number within the limit.\<close>

lemma validate_amount_None_iff:
  "validate_amount ff it params = None \<longleftrightarrow>
    mstr params ''amount'' \<noteq> '''' \<and>
    (\<exists>a. parse_float (mstr params ''amount'') = Some a \<and>
      (a = NaN \<or> f64_lt (Fin 0) a \<and> (f64_lt (Fin 0) (it_max_amount it) \<longrightarrow> f64_le a (it_max_amount it))))"
proof (cases "parse_float (mstr params ''amount'')")
  case (Some a)
  have pos: "a \<noteq> NaN \<Longrightarrow> f64_le a (Fin 0) \<longleftrightarrow> \<not> f64_lt (Fin 0) a"
    using f64_not_le [of a "Fin 0"] by auto
  have lim: "a \<noteq> NaN \<Longrightarrow> f64_lt (Fin 0) m \<Longrightarrow> f64_lt m a \<longleftrightarrow> \<not> f64_le a m" for m
    using f64_not_le [of a m] by (cases m) auto
  show ?thesis
  proof (cases "a = NaN")
    case False
    with pos lim [of "it_max_amount it"] show ?thesis
      by (cases "mstr params ''amount'' = ''''") (simp_all add: validate_amount_def Let_def Some, blast)
  qed (simp add: validate_amount_def Let_def Some)
qed (simp add: validate_amount_def Let_def)

lemma validate_phone_None_iff:
  "validate_phone params = None \<longleftrightarrow> is_valid_phone (mstr params ''toPhone'')"
  by (auto simp: validate_phone_def Let_def is_valid_phone_def)

lemma validate_dangerous_params_None_iff:
  "validate_dangerous_params ff it params = None \<longleftrightarrow>
    (it_allow_dangerous it \<longrightarrow>
      (it_requires_amount it \<longrightarrow> validate_amount ff it params = None) \<and>
      (it_requires_phone it \<longrightarrow> validate_phone params = None))"
  by (auto simp: validate_dangerous_params_def split: option.splits)

subsection \<open>Properties\<close>

text \<open>
  an identity is authorized for an intent exactly when one of its ai.use domains is listed for
  the intent, or it holds the wildcard domain and the intent is listed, or the intent is not
  listed and the policy allows unknown intents. Without an explicit allow, no domain reaches an
  unlisted intent, and the wildcard grants nothing that is not listed.
\<close>

theorem is_allowed_for_functions_exact:
  "fst (is_allowed_for_functions c intent domains) \<longleftrightarrow>
    (case mget (rb_permissions c) intent of None \<Rightarrow> rb_unknown_intent c = ''allow''
     | Some allowed \<Rightarrow> \<exists>d \<in> set domains. d = ''*'' \<or> d \<in> set allowed)"
  by (auto simp: is_allowed_for_functions_def is_allowed_iff split: option.splits)

text \<open>
  C22: the guard-rails accept a request exactly when every tool of the pipeline that is not built in
  exists, dangerous tools are allowed by the intent, at most one of them is in the pipeline (unless
  ALLOW_LOCAL_TOOLS is true), a required amount parses to a NaN or to a positive number not above
  a positive limit, and a required phone number has the right form. The NaN case is a defect: the
  two comparisons that bound the amount are false for it.
\<close>

theorem validate_all_exact:
  "validate_all ff getenv it p params tools = None \<longleftrightarrow>
    (\<forall>s \<in> set (pl_steps p). registry_step s \<longrightarrow> mget tools (ps_tool s) \<noteq> None) \<and>
    (it_allow_dangerous it \<or> (\<forall>s \<in> set (pl_steps p). \<not> dangerous_step tools s)) \<and>
    (it_allow_dangerous it \<and> it_requires_amount it \<longrightarrow>
       mstr params ''amount'' \<noteq> '''' \<and>
       (\<exists>a. parse_float (mstr params ''amount'') = Some a \<and>
         (a = NaN \<or> f64_lt (Fin 0) a \<and>
           (f64_lt (Fin 0) (it_max_amount it) \<longrightarrow> f64_le a (it_max_amount it))))) \<and>
    (it_allow_dangerous it \<and> it_requires_phone it \<longrightarrow> is_valid_phone (mstr params ''toPhone'')) \<and>
    (getenv ''ALLOW_LOCAL_TOOLS'' = ''true'' \<or>
       length (filter (dangerous_step tools) (pl_steps p)) \<le> 1)"
    (is "_ \<longleftrightarrow> ?known \<and> ?allowed \<and> ?amount \<and> ?phone \<and> ?chain")
proof -
  have "validate_all ff getenv it p params tools = None \<longleftrightarrow>
    validate_intent_permissions it p tools = None \<and> validate_dangerous_params ff it params = None \<and>
    validate_dangerous_chain getenv p tools = None"
    by (auto simp: validate_all_def split: option.splits)
  moreover have "validate_intent_permissions it p tools = None \<longleftrightarrow> ?known \<and> ?allowed"
    by (simp add: validate_intent_permissions_def validate_permissions_steps_None_iff)
  moreover have "validate_dangerous_params ff it params = None \<longleftrightarrow> ?amount \<and> ?phone"
    by (simp add: validate_dangerous_params_None_iff validate_amount_None_iff validate_phone_None_iff)
      blast
  moreover have "?known \<Longrightarrow> validate_dangerous_chain getenv p tools = None \<longleftrightarrow> ?chain"
    by (simp add: validate_dangerous_chain_def validate_chain_steps_None_iff)
  ultimately show ?thesis by argo
qed

definition demo_transfer_intent :: intent where
  "demo_transfer_intent = zero_intent\<lparr>it_type := ''pay'', it_pipeline := ''pay'', it_allow_dangerous := True,
     it_requires_amount := True, it_max_amount := Fin 1000\<rparr>"

lemma validate_all_exact_witness:
  "validate_all (\<lambda>_. '''') (\<lambda>_. '''') demo_transfer_intent demo_pipeline [(''amount'', ''250.5'')]
     (cf_tools demo_config @ [(''look'', zero_tool)]) = None"
proof -
  have "parse_float ''250.5'' = Some (Fin (501 / 2))" by code_simp
  moreover have "list_all (\<lambda>s. registry_step s \<longrightarrow>
      mget (cf_tools demo_config @ [(''look'', zero_tool)]) (ps_tool s) \<noteq> None) (pl_steps demo_pipeline)"
    by code_simp
  moreover have "length (filter (dangerous_step (cf_tools demo_config @ [(''look'', zero_tool)]))
      (pl_steps demo_pipeline)) \<le> 1"
    by code_simp
  ultimately show ?thesis
    by (intro validate_all_exact [THEN iffD2])
       (simp add: list_all_iff demo_transfer_intent_def zero_intent_def mstr_def)
qed

text \<open>
  a caller whose amount is the text NaN passes the amount guard of every intent, whatever its
  limit: the checks amount <= 0 and amount > MaxAmount are both false for a NaN.
\<close>

theorem validate_amount_nan:
  "mget params ''amount'' = Some raw \<Longrightarrow> to_lower raw = ''nan'' \<Longrightarrow> validate_amount ff it params = None"
proof -
  assume raw: "mget params ''amount'' = Some raw" and low: "to_lower raw = ''nan''"
  have len: "length raw = 3" using low by (metis length_to_lower length_Cons list.size(3) numeral_3_eq_3)
  then obtain a b c where abc: "raw = [a, b, c]"
    by (metis (no_types) length_0_conv length_Suc_conv numeral_3_eq_3)
  have "lower_char CHR ''+'' \<noteq> CHR ''n''" "lower_char CHR ''-'' \<noteq> CHR ''n''" by code_simp+
  moreover have "lower_char a = CHR ''n''" using low abc by (simp add: to_lower_def)
  ultimately have "a \<noteq> CHR ''+'' \<and> a \<noteq> CHR ''-''" by metis
  with abc have sign: "split_sign raw = (False, raw)"
    by (simp add: split_sign_def)
  have "to_lower ''inf'' = ''inf''" "to_lower ''infinity'' = ''infinity''" "to_lower ''nan'' = ''nan''"
    by code_simp+
  with low sign have "parse_float_special raw = Some NaN"
    by (simp add: parse_float_special_def equal_fold_def)
  then have "parse_float raw = Some NaN" by (simp add: parse_float_def)
  with raw abc show ?thesis by (simp add: validate_amount_None_iff mstr_def)
qed

lemma validate_amount_nan_witness:
  "validate_amount (\<lambda>_. '''') demo_transfer_intent [(''amount'', ''NaN'')] = None"
proof -
  have "to_lower ''NaN'' = ''nan''" by code_simp
  then show ?thesis by (intro validate_amount_nan [of _ "''NaN''"]) simp_all
qed

text \<open>
  a structured request is accepted exactly when it has no parameter of another type than
  string and every required parameter of the intent has a non-blank value.
\<close>

theorem validate_structured_params_exact:
  "validate_structured_params it params non_string = None \<longleftrightarrow>
    non_string = [] \<and> (\<forall>name \<in> set (it_required_params it). \<not> blank (mstr params name))"
  by (auto simp: validate_structured_params_def Let_def filter_empty_conv blank_def)

lemma validate_structured_params_exact_witness:
  "validate_structured_params (zero_intent\<lparr>it_required_params := [''a'', ''b'']\<rparr>)
     [(''b'', ''x''), (''a'', '' y '')] [] = None"
proof -
  have "\<not> blank ''x''" "\<not> blank '' y ''" by code_simp+
  then show ?thesis
    by (intro validate_structured_params_exact [THEN iffD2]) (simp add: mstr_def)
qed

end
