(* ===== verification/Gov_Model.thy ===== *)
theory Gov_Model
  imports Go_Value
begin

text \<open>
  The governance model of governance/model.go: which functions each group or role of the identity
  provider grants, the validation of a model against the rules and floors of the contract, and
  the resolution of a token's functions. The YAML decoder and the file reader are arguments;
  \<open>ff\<close> prints a float in an error text.
\<close>

definition model_version :: string where "model_version = ''chestertown.governance/v1''"

datatype function_kind = PersonFunction | MachineFunction

record function_spec =
  fs_kind :: function_kind
  fs_apps :: "string list"

definition function_specs :: "function_spec gomap" where
  "function_specs =
   [(''system.declare'', \<lparr>fs_kind = PersonFunction, fs_apps = [''prudence'']\<rparr>),
    (''system.approve'', \<lparr>fs_kind = PersonFunction, fs_apps = [''prudence'']\<rparr>),
    (''policy.author'', \<lparr>fs_kind = PersonFunction, fs_apps = [''prudence'']\<rparr>),
    (''policy.approve'', \<lparr>fs_kind = PersonFunction, fs_apps = [''prudence'']\<rparr>),
    (''oversight'', \<lparr>fs_kind = PersonFunction, fs_apps = [''aos'', ''prudence'']\<rparr>),
    (''incident.handle'', \<lparr>fs_kind = PersonFunction, fs_apps = [''prudence'']\<rparr>),
    (''ai.use'', \<lparr>fs_kind = PersonFunction, fs_apps = [''aos'']\<rparr>),
    (''evidence.write'', \<lparr>fs_kind = PersonFunction, fs_apps = [''ernest'']\<rparr>),
    (''audit'', \<lparr>fs_kind = PersonFunction, fs_apps = [''aos'', ''prudence'', ''ernest'']\<rparr>),
    (''platform.admin'', \<lparr>fs_kind = PersonFunction, fs_apps = [''aos'', ''prudence'', ''ernest'']\<rparr>),
    (''runtime.decide'', \<lparr>fs_kind = MachineFunction, fs_apps = [''prudence'']\<rparr>),
    (''runtime.report'', \<lparr>fs_kind = MachineFunction, fs_apps = [''prudence'']\<rparr>)]"

definition known_apps :: "string list" where "known_apps = [''aos'', ''prudence'', ''ernest'']"
definition tiers :: "string list" where "tiers = [''HIGH'', ''LIMITED'', ''MINIMAL'']"
definition accountabilities :: "string list" where
  "accountabilities = [''OWNER'', ''SUPERVISOR'', ''COMPLIANCE'', ''DPO'', ''SECURITY'']"

record model_error =
  me_code :: string
  me_detail :: string

definition model_err :: "string \<Rightarrow> string \<Rightarrow> model_error" where
  "model_err code detail = \<lparr>me_code = code, me_detail = detail\<rparr>"

definition model_error_text :: "model_error \<Rightarrow> string" where
  "model_error_text e = me_code e @ '': '' @ me_detail e"

record grant =
  gr_function :: string
  gr_domain :: string
  gr_app :: string

record gov_model =
  gm_people :: string
  gm_machines :: string
  gm_grants :: "grant list gomap"
  gm_incompatible :: "(string \<times> string) list"

subsection \<open>Grants\<close>

definition is_lower :: "char \<Rightarrow> bool" where
  "is_lower c = (let n = (of_char c :: int) in 97 \<le> n \<and> n \<le> 122)"

text \<open>
  The groups of \<open>grantPattern\<close>: a name of lower case letters with at most one dot, a domain after
  a colon, an application after an at sign. The character after each part cannot belong to it, so
  the longest match of each part is the only one.
\<close>

definition grant_name :: "string \<Rightarrow> (string \<times> string) option" where
  "grant_name s =
    (let a = takeWhile is_lower s; r = dropWhile is_lower s in
     if a = [] then None
     else (case cut_prefix r ''.'' of None \<Rightarrow> Some (a, r)
       | Some r2 \<Rightarrow> (let b = takeWhile is_lower r2 in
           if b = [] then None else Some (a @ ''.'' @ b, dropWhile is_lower r2))))"

definition domain_char :: "char \<Rightarrow> bool" where
  "domain_char c = (is_lower c \<or> is_digit c \<or> c = CHR ''_'' \<or> c = CHR ''-'')"

definition grant_domain :: "string \<Rightarrow> (string \<times> string) option" where
  "grant_domain s =
    (case cut_prefix s '':'' of None \<Rightarrow> Some ('''', s)
     | Some r \<Rightarrow> (case cut_prefix r ''*'' of Some r2 \<Rightarrow> Some (''*'', r2)
       | None \<Rightarrow> (let d = takeWhile domain_char r in
           if d \<noteq> [] \<and> (is_lower (hd d) \<or> is_digit (hd d)) then Some (d, dropWhile domain_char r)
           else None)))"

definition grant_app :: "string \<Rightarrow> string option" where
  "grant_app s =
    (case cut_prefix s ''@'' of None \<Rightarrow> if s = '''' then Some '''' else None
     | Some r \<Rightarrow> if r \<noteq> '''' \<and> list_all is_lower r then Some r else None)"

definition match_grant :: "string \<Rightarrow> grant option" where
  "match_grant s =
    (case grant_name s of None \<Rightarrow> None
     | Some (f, r1) \<Rightarrow> (case grant_domain r1 of None \<Rightarrow> None
       | Some (d, r2) \<Rightarrow> (case grant_app r2 of None \<Rightarrow> None
         | Some a \<Rightarrow> Some \<lparr>gr_function = f, gr_domain = d, gr_app = a\<rparr>)))"

definition parse_grant :: "(f64 \<Rightarrow> string) \<Rightarrow> gval \<Rightarrow> model_error + grant" where
  "parse_grant ff raw =
    (case as_str (Some raw) of None \<Rightarrow> Inl (model_err ''grant.syntax'' (fmt_v ff raw))
     | Some s \<Rightarrow> (case match_grant s of None \<Rightarrow> Inl (model_err ''grant.syntax'' s)
       | Some g \<Rightarrow>
         (case mget function_specs (gr_function g) of None \<Rightarrow> Inl (model_err ''grant.unknown_function'' s)
          | Some spec \<Rightarrow>
            if gr_domain g \<noteq> '''' \<and> gr_function g \<noteq> ''ai.use''
            then Inl (model_err ''grant.domain_not_allowed'' s)
            else if gr_domain g = '''' \<and> gr_function g = ''ai.use''
            then Inl (model_err ''grant.domain_required'' s)
            else if gr_app g \<noteq> '''' \<and> gr_app g \<notin> set known_apps
            then Inl (model_err ''grant.unknown_app'' s)
            else if gr_app g \<noteq> '''' \<and> gr_app g \<notin> set (fs_apps spec)
            then Inl (model_err ''grant.app_not_applicable'' s)
            else Inr g)))"

subsection \<open>Validation\<close>

text \<open>Reading a key of an untyped map: a missing key gives nil.\<close>

definition oget :: "gval gomap \<Rightarrow> string \<Rightarrow> gval" where
  "oget m k = (case mget m k of Some v \<Rightarrow> v | None \<Rightarrow> GNil)"

definition claim_of :: "gval \<Rightarrow> string \<Rightarrow> model_error + string" where
  "claim_of identity kind =
    (let err = Inl (model_err ''model.identity'' (''identity.'' @ kind @ ''.claim'')) in
     case identity of GObj m \<Rightarrow>
       (case oget m kind of GObj section \<Rightarrow>
         (case oget section ''claim'' of GStr c \<Rightarrow> if c \<noteq> '''' then Inr c else err | _ \<Rightarrow> err)
       | _ \<Rightarrow> err)
     | _ \<Rightarrow> err)"

definition count_of :: "gval \<Rightarrow> int option" where
  "count_of v = (case v of GInt n \<Rightarrow> Some n
     | GFloat (Fin q) \<Rightarrow> if q = of_int \<lfloor>q\<rfloor> \<and> int64_min \<le> \<lfloor>q\<rfloor> \<and> \<lfloor>q\<rfloor> \<le> int64_max then Some \<lfloor>q\<rfloor> else None
     | _ \<Rightarrow> None)"

definition obj_or_empty :: "gval \<Rightarrow> gval gomap" where
  "obj_or_empty v = (case v of GObj m \<Rightarrow> m | _ \<Rightarrow> [])"

definition valid_approval :: "string \<times> gval \<Rightarrow> bool" where
  "valid_approval e = (case e of (tier, rule) \<Rightarrow> tier \<in> set tiers \<and>
     (case rule of GObj r \<Rightarrow> (case count_of (oget r ''count'') of Some n \<Rightarrow> n \<ge> 1 | None \<Rightarrow> False)
      | _ \<Rightarrow> False))"

definition high_approvals_ok :: "gval gomap \<Rightarrow> bool" where
  "high_approvals_ok approvals = (case oget approvals ''HIGH'' of
     GObj h \<Rightarrow> (case count_of (oget h ''count'') of Some n \<Rightarrow> n \<ge> 2 | None \<Rightarrow> False) \<and>
       oget h ''distinct'' = GBool True
   | _ \<Rightarrow> False)"

definition validate_approvals :: "gval \<Rightarrow> model_error option" where
  "validate_approvals raw =
    (if raw \<noteq> GNil \<and> (case raw of GObj _ \<Rightarrow> False | _ \<Rightarrow> True)
     then Some (model_err ''rules.approvals'' ''approvals must be an object'')
     else (let approvals = obj_or_empty raw in
       case first_some (\<lambda>e. if valid_approval e then None else Some (model_err ''rules.approvals'' (fst e)))
         approvals of Some err \<Rightarrow> Some err
       | None \<Rightarrow> if high_approvals_ok approvals then None
           else Some (model_err ''floor.approvals.HIGH'' ''HIGH needs count >= 2 and distinct: true'')))"

definition is_person_function :: "gval \<Rightarrow> bool" where
  "is_person_function v = (case v of GStr name \<Rightarrow>
     (case mget function_specs name of Some spec \<Rightarrow> fs_kind spec = PersonFunction | None \<Rightarrow> False)
   | _ \<Rightarrow> False)"

definition valid_pair :: "gval \<Rightarrow> bool" where
  "valid_pair p = (case p of GList [a, b] \<Rightarrow> is_person_function a \<and> is_person_function b \<and> a \<noteq> b
     | _ \<Rightarrow> False)"

definition validate_incompatible :: "(f64 \<Rightarrow> string) \<Rightarrow> gval \<Rightarrow> model_error option" where
  "validate_incompatible ff raw =
    (case raw of GNil \<Rightarrow> None
     | GList pairs \<Rightarrow> first_some (\<lambda>p. if valid_pair p then None
         else Some (model_err ''rules.incompatible'' (fmt_v ff p))) pairs
     | _ \<Rightarrow> Some (model_err ''rules.incompatible'' ''incompatible must be a list''))"

definition valid_accountable :: "string \<times> gval \<Rightarrow> bool" where
  "valid_accountable e = (case e of (tier, roles) \<Rightarrow> tier \<in> set tiers \<and>
     (case roles of GList rs \<Rightarrow> list_all (\<lambda>r. case r of GStr s \<Rightarrow> s \<in> set accountabilities | _ \<Rightarrow> False) rs
      | _ \<Rightarrow> False))"

definition validate_accountable :: "gval \<Rightarrow> model_error option" where
  "validate_accountable raw =
    (if raw \<noteq> GNil \<and> (case raw of GObj _ \<Rightarrow> False | _ \<Rightarrow> True)
     then Some (model_err ''rules.accountable'' ''accountable must be an object'')
     else (let accountable = obj_or_empty raw in
       case first_some (\<lambda>e. if valid_accountable e then None else Some (model_err ''rules.accountable'' (fst e)))
         accountable of Some err \<Rightarrow> Some err
       | None \<Rightarrow>
         if (case oget accountable ''HIGH'' of GList rs \<Rightarrow> GStr ''SUPERVISOR'' \<in> set rs | _ \<Rightarrow> False) then None
         else Some (model_err ''floor.accountable.HIGH'' ''HIGH needs SUPERVISOR'')))"

text \<open>The grants of one entry of the map, and the entries in the order of the run.\<close>

fun parse_grants :: "(f64 \<Rightarrow> string) \<Rightarrow> gval list \<Rightarrow> model_error + grant list" where
  "parse_grants ff [] = Inr []"
| "parse_grants ff (g # gs) = (case parse_grant ff g of Inl err \<Rightarrow> Inl err
     | Inr x \<Rightarrow> (case parse_grants ff gs of Inl err \<Rightarrow> Inl err | Inr xs \<Rightarrow> Inr (x # xs)))"

definition function_kind_of :: "string \<Rightarrow> function_kind" where
  "function_kind_of f = (case mget function_specs f of Some spec \<Rightarrow> fs_kind spec | None \<Rightarrow> PersonFunction)"

definition parse_entry :: "(f64 \<Rightarrow> string) \<Rightarrow> string \<Rightarrow> gval \<Rightarrow> model_error + grant list" where
  "parse_entry ff key value =
    (case value of
       GList (g # gs) \<Rightarrow>
         if key = '''' then Inl (model_err ''model.map'' (''entry '' @ go_quote key))
         else (case parse_grants ff (g # gs) of Inl err \<Rightarrow> Inl err
           | Inr xs \<Rightarrow> if card ((\<lambda>x. function_kind_of (gr_function x)) ` set xs) > 1
               then Inl (model_err ''grant.mixed_kinds'' key) else Inr xs)
     | _ \<Rightarrow> Inl (model_err ''model.map'' (''entry '' @ go_quote key)))"

fun parse_map :: "(f64 \<Rightarrow> string) \<Rightarrow> (string \<times> gval) list \<Rightarrow> grant list gomap \<Rightarrow> model_error + grant list gomap" where
  "parse_map ff [] m = Inr m"
| "parse_map ff ((key, value) # es) m = (case parse_entry ff key value of Inl err \<Rightarrow> Inl err
     | Inr xs \<Rightarrow> parse_map ff es (mput m key ((case mget m key of Some ys \<Rightarrow> ys | None \<Rightarrow> []) @ xs)))"

definition pair_of :: "gval \<Rightarrow> string \<times> string" where
  "pair_of p = (case p of GList [GStr a, GStr b] \<Rightarrow> (a, b) | _ \<Rightarrow> ('''', ''''))"

definition new_model :: "(f64 \<Rightarrow> string) \<Rightarrow> gval \<Rightarrow> model_error + gov_model" where
  "new_model ff raw =
    (case raw of GObj doc \<Rightarrow>
       if oget doc ''version'' \<noteq> GStr model_version then Inl (model_err ''model.version'' (''expected '' @ model_version))
       else (case claim_of (oget doc ''identity'') ''people'' of Inl err \<Rightarrow> Inl err
       | Inr people \<Rightarrow> (case claim_of (oget doc ''identity'') ''machines'' of Inl err \<Rightarrow> Inl err
       | Inr machines \<Rightarrow> (case oget doc ''map'' of GObj raw_map \<Rightarrow>
           (case parse_map ff raw_map [] of Inl err \<Rightarrow> Inl err
            | Inr grants \<Rightarrow>
              (let rules = obj_or_empty (oget doc ''rules'') in
               case validate_approvals (oget rules ''approvals'') of Some err \<Rightarrow> Inl err
               | None \<Rightarrow> (case validate_incompatible ff (oget rules ''incompatible'') of Some err \<Rightarrow> Inl err
               | None \<Rightarrow> (case validate_accountable (oget rules ''accountable'') of Some err \<Rightarrow> Inl err
               | None \<Rightarrow> Inr \<lparr>gm_people = people, gm_machines = machines, gm_grants = grants,
                   gm_incompatible = (case oget rules ''incompatible'' of GList ps \<Rightarrow> map pair_of ps | _ \<Rightarrow> [])\<rparr>))))
         | _ \<Rightarrow> Inl (model_err ''model.map'' ''map must be an object''))))
     | _ \<Rightarrow> Inl (model_err ''model.version'' (''expected '' @ model_version)))"

text \<open>\<open>LoadModel\<close>: the built-in text, or the file at \<open>path\<close>.\<close>

definition load_model :: "(f64 \<Rightarrow> string) \<Rightarrow> string \<Rightarrow> (string \<Rightarrow> string + string) \<Rightarrow> (string \<Rightarrow> string + gval)
    \<Rightarrow> string \<Rightarrow> string + gov_model" where
  "load_model ff default_model read_file yaml path =
    (case (if path \<noteq> '''' then read_file path else Inr default_model) of Inl err \<Rightarrow> Inl err
     | Inr data \<Rightarrow> (case yaml data of
         Inl err \<Rightarrow> Inl (model_error_text (model_err ''model.version'' (''unreadable model: '' @ err)))
       | Inr raw \<Rightarrow> (case new_model ff raw of Inl err \<Rightarrow> Inl (model_error_text err) | Inr m \<Rightarrow> Inr m)))"

subsection \<open>Use of a model\<close>

text \<open>A nil model sets no rules.\<close>

definition incompatible :: "gov_model option \<Rightarrow> string \<Rightarrow> string \<Rightarrow> bool" where
  "incompatible m a b = (case m of None \<Rightarrow> False
     | Some gm \<Rightarrow> list_ex (\<lambda>(x, y). (x = a \<and> y = b) \<or> (x = b \<and> y = a)) (gm_incompatible gm))"

text \<open>The value of a dotted claim path, and its strings.\<close>

fun claim_path :: "gval \<Rightarrow> string list \<Rightarrow> gval option" where
  "claim_path v [] = Some v"
| "claim_path v (part # parts) = (case v of GObj m \<Rightarrow>
     (case mget m part of None \<Rightarrow> None | Some x \<Rightarrow> claim_path x parts) | _ \<Rightarrow> None)"

definition strings_of :: "gval list \<Rightarrow> string list" where
  "strings_of xs = List.map_filter (\<lambda>v. as_str (Some v)) xs"

definition claim_values :: "gval gomap \<Rightarrow> string \<Rightarrow> string list" where
  "claim_values claims name = (case claim_path (GObj claims) (split_char CHR ''.'' name) of
     Some (GStr s) \<Rightarrow> fields_func is_space s
   | Some (GList xs) \<Rightarrow> strings_of xs
   | _ \<Rightarrow> [])"

definition granted_name :: "grant \<Rightarrow> string" where
  "granted_name g = (if gr_domain g \<noteq> '''' then gr_function g @ '':'' @ gr_domain g else gr_function g)"

definition grant_applies :: "function_kind \<Rightarrow> string \<Rightarrow> grant \<Rightarrow> bool" where
  "grant_applies kind app g = (case mget function_specs (gr_function g) of
     None \<Rightarrow> False
   | Some spec \<Rightarrow> fs_kind spec = kind \<and> app \<in> set (fs_apps spec) \<and> (gr_app g = '''' \<or> gr_app g = app))"

definition collect :: "gov_model \<Rightarrow> string list \<Rightarrow> function_kind \<Rightarrow> string \<Rightarrow> string list" where
  "collect m vals kind app = map granted_name
     (concat (map (\<lambda>v. filter (grant_applies kind app) (case mget (gm_grants m) v of Some gs \<Rightarrow> gs | None \<Rightarrow> [])) vals))"

definition resolve :: "gov_model \<Rightarrow> gval gomap \<Rightarrow> string \<Rightarrow> string list" where
  "resolve m claims app = sort (remdups
     (collect m (claim_values claims (gm_people m)) PersonFunction app @
      collect m (claim_values claims (gm_machines m)) MachineFunction app))"

subsection \<open>What a validated model guarantees\<close>

definition valid_grant :: "grant \<Rightarrow> bool" where
  "valid_grant g = (case mget function_specs (gr_function g) of None \<Rightarrow> False
     | Some spec \<Rightarrow> (gr_domain g \<noteq> '''' \<longleftrightarrow> gr_function g = ''ai.use'') \<and>
         (gr_app g = '''' \<or> gr_app g \<in> set (fs_apps spec)))"

definition valid_entry :: "grant list \<Rightarrow> bool" where
  "valid_entry gs = (gs \<noteq> [] \<and> list_all valid_grant gs \<and>
     (\<exists>k. \<forall>g \<in> set gs. function_kind_of (gr_function g) = k))"

lemma parse_grant_valid: "parse_grant ff v = Inr g \<Longrightarrow> valid_grant g"
  unfolding parse_grant_def valid_grant_def
  by (simp split: option.splits if_splits) blast

lemma parse_grants_valid: "parse_grants ff gs = Inr xs \<Longrightarrow> list_all valid_grant xs \<and> length xs = length gs"
  by (induction gs arbitrary: xs) (auto dest: parse_grant_valid split: sum.splits)

lemma card_le_1_same: "card (f ` set xs) \<le> 1 \<Longrightarrow> \<exists>k. \<forall>x \<in> set xs. f x = k"
proof (cases xs)
  case (Cons y ys)
  assume "card (f ` set xs) \<le> 1"
  then have "card (f ` set xs) = 1" using Cons by (simp add: le_Suc_eq)
  then show ?thesis by (auto simp: card_1_singleton_iff)
qed simp

lemma parse_entry_valid: "parse_entry ff k v = Inr xs \<Longrightarrow> k \<noteq> '''' \<and> valid_entry xs"
  unfolding parse_entry_def
  by (auto simp: valid_entry_def not_less split: gval.splits list.splits if_splits sum.splits
      dest: parse_grant_valid parse_grants_valid intro!: card_le_1_same)

text \<open>In a decoded document a key occurs once, so no entry is extended.\<close>

lemma parse_map_valid:
  assumes "parse_map ff es m = Inr m'" "distinct (map fst es)" "\<forall>k \<in> fst ` set es. mget m k = None"
    and "\<And>k gs. mget m k = Some gs \<Longrightarrow> valid_entry gs"
  shows "mget m' k = Some gs \<Longrightarrow> valid_entry gs"
  using assms
proof (induction ff es m arbitrary: m' rule: parse_map.induct)
  case (2 ff key v es m)
  then obtain xs where xs: "parse_entry ff key v = Inr xs" by (auto split: sum.splits)
  with 2 have fresh: "mget m key = None" by simp
  have rec: "parse_map ff es (mput m key xs) = Inr m'"
    using 2(3) xs fresh by simp
  show ?case
    by (rule "2.IH" [OF xs]) (use 2 xs fresh rec parse_entry_valid [OF xs] in
      \<open>auto split: if_splits\<close>)
qed simp

lemma first_some_if_None:
  "first_some (\<lambda>e. if P e then None else Some (f e)) xs = None \<longleftrightarrow> list_all P xs"
  by (induction xs) auto

definition model_floors :: "gval gomap \<Rightarrow> bool" where
  "model_floors rules =
    (\<exists>approvals h n accountable roles.
       oget rules ''approvals'' = GObj approvals \<and> oget approvals ''HIGH'' = GObj h \<and>
       count_of (oget h ''count'') = Some n \<and> 2 \<le> n \<and> oget h ''distinct'' = GBool True \<and>
       list_all valid_approval approvals \<and>
       oget rules ''accountable'' = GObj accountable \<and> oget accountable ''HIGH'' = GList roles \<and>
       GStr ''SUPERVISOR'' \<in> set roles \<and> list_all valid_accountable accountable)"

lemma validate_approvals_None:
  "validate_approvals raw = None \<Longrightarrow> \<exists>approvals. raw = GObj approvals \<and>
    list_all valid_approval approvals \<and> high_approvals_ok approvals"
  by (cases raw) (simp_all add: validate_approvals_def Let_def first_some_if_None obj_or_empty_def
      split: option.splits if_splits, simp_all add: high_approvals_ok_def oget_def)

lemma validate_accountable_None:
  "validate_accountable raw = None \<Longrightarrow> \<exists>accountable roles. raw = GObj accountable \<and>
    oget accountable ''HIGH'' = GList roles \<and> GStr ''SUPERVISOR'' \<in> set roles \<and>
    list_all valid_accountable accountable"
  by (cases raw) (auto simp: validate_accountable_def Let_def first_some_if_None obj_or_empty_def
      oget_def split: option.splits if_splits gval.splits)

lemma validate_incompatible_None:
  "validate_incompatible ff raw = None \<Longrightarrow> (raw = GNil \<or> (\<exists>ps. raw = GList ps \<and> list_all valid_pair ps))"
  by (cases raw) (auto simp: validate_incompatible_def first_some_if_None)

lemma high_approvals_okD:
  "high_approvals_ok a \<Longrightarrow> \<exists>h n. oget a ''HIGH'' = GObj h \<and> count_of (oget h ''count'') = Some n \<and>
    2 \<le> n \<and> oget h ''distinct'' = GBool True"
  by (auto simp: high_approvals_ok_def split: gval.splits option.splits)

text \<open>The parts of a model that \<open>new_model\<close> accepts.\<close>

lemma new_model_Inr:
  assumes "new_model ff raw = Inr m"
  obtains doc raw_map rules where "raw = GObj doc" "oget doc ''version'' = GStr model_version"
    "oget doc ''map'' = GObj raw_map" "parse_map ff raw_map [] = Inr (gm_grants m)"
    "rules = obj_or_empty (oget doc ''rules'')"
    "validate_approvals (oget rules ''approvals'') = None"
    "validate_incompatible ff (oget rules ''incompatible'') = None"
    "validate_accountable (oget rules ''accountable'') = None"
    "gm_incompatible m = (case oget rules ''incompatible'' of GList ps \<Rightarrow> map pair_of ps | _ \<Rightarrow> [])"
proof (cases raw)
  case (GObj doc)
  obtain raw_map where "oget doc ''map'' = GObj raw_map"
    using assms unfolding new_model_def GObj by (auto split: if_splits sum.splits gval.splits)
  with assms show ?thesis
    by (intro that [OF GObj _ _ _ refl, of raw_map])
       (auto simp: new_model_def Let_def GObj split: if_splits sum.splits option.splits)
qed (use assms in \<open>auto simp: new_model_def\<close>)

text \<open>The person functions of AOS: three without a domain, and \<open>ai.use\<close> with one.\<close>

lemma aos_functions:
  assumes "valid_grant g" "grant_applies k ''aos'' g"
  shows "granted_name g \<in> {''oversight'', ''audit'', ''platform.admin''} \<or>
    (\<exists>d. d \<noteq> '''' \<and> granted_name g = ''ai.use:'' @ d)"
proof -
  obtain spec where spec: "mget function_specs (gr_function g) = Some spec"
    and dom: "(gr_domain g \<noteq> '''') = (gr_function g = ''ai.use'')"
    and aos: "''aos'' \<in> set (fs_apps spec)"
    using assms by (auto simp: valid_grant_def grant_applies_def split: option.splits)
  have "list_all (\<lambda>(f, sp). ''aos'' \<in> set (fs_apps sp) \<longrightarrow>
      f \<in> set [''oversight'', ''ai.use'', ''audit'', ''platform.admin'']) function_specs"
    by code_simp
  with map_of_SomeD [OF spec] aos
  have f: "gr_function g \<in> set [''oversight'', ''ai.use'', ''audit'', ''platform.admin'']"
    by (force simp: list_all_iff)
  show ?thesis
  proof (cases "gr_function g = ''ai.use''")
    case True
    with dom show ?thesis by (simp add: granted_name_def)
  next
    case False
    with dom f show ?thesis by (simp add: granted_name_def)
  qed
qed

lemma set_collect: "f \<in> set (collect m vals kind app) \<longleftrightarrow>
    (\<exists>v \<in> set vals. \<exists>gs g. mget (gm_grants m) v = Some gs \<and> g \<in> set gs \<and> grant_applies kind app g \<and>
      f = granted_name g)"
proof
  assume "f \<in> set (collect m vals kind app)"
  then show "\<exists>v \<in> set vals. \<exists>gs g. mget (gm_grants m) v = Some gs \<and> g \<in> set gs \<and>
      grant_applies kind app g \<and> f = granted_name g"
    by (force simp: collect_def split: option.splits)
next
  assume "\<exists>v \<in> set vals. \<exists>gs g. mget (gm_grants m) v = Some gs \<and> g \<in> set gs \<and>
      grant_applies kind app g \<and> f = granted_name g"
  then obtain v gs g where "v \<in> set vals" "mget (gm_grants m) v = Some gs" "g \<in> set gs"
    "grant_applies kind app g" "f = granted_name g" by blast
  then show "f \<in> set (collect m vals kind app)"
    unfolding collect_def by (auto intro!: image_eqI [of _ _ g] bexI [of _ v])
qed

lemma set_resolve: "f \<in> set (resolve m claims app) \<longleftrightarrow>
    (\<exists>(kind, claim) \<in> {(PersonFunction, gm_people m), (MachineFunction, gm_machines m)}.
       \<exists>value \<in> set (claim_values claims claim). \<exists>gs g. mget (gm_grants m) value = Some gs \<and> g \<in> set gs \<and>
         grant_applies kind app g \<and> f = granted_name g)"
  by (simp add: resolve_def set_collect)

lemma valid_pair_of:
  assumes "valid_pair p" "pair_of p = (a, b)"
  shows "is_person_function (GStr a) \<and> is_person_function (GStr b) \<and> a \<noteq> b"
proof -
  obtain x y where p: "p = GList [x, y]" "is_person_function x" "is_person_function y" "x \<noteq> y"
    using assms(1) by (auto simp: valid_pair_def split: gval.splits list.splits)
  then obtain s t where "x = GStr s" "y = GStr t"
    by (cases x; cases y) (auto simp: is_person_function_def)
  with p assms(2) show ?thesis by (simp add: pair_of_def)
qed

lemma new_model_entries:
  assumes "new_model ff (GObj doc) = Inr m"
    and "\<And>entries. oget doc ''map'' = GObj entries \<Longrightarrow> distinct (map fst entries)"
    and "mget (gm_grants m) key = Some gs"
  shows "valid_entry gs"
proof -
  obtain raw_map where m: "oget doc ''map'' = GObj raw_map" "parse_map ff raw_map [] = Inr (gm_grants m)"
    using assms(1) by (rule new_model_Inr) auto
  show ?thesis by (rule parse_map_valid [OF m(2) assms(2) [OF m(1)] _ _ assms(3)]) auto
qed

subsection \<open>Properties\<close>

lemma new_model_meets_contract_parts:
  assumes "new_model ff (GObj doc) = Inr m"
    and "\<And>entries. oget doc ''map'' = GObj entries \<Longrightarrow> distinct (map fst entries)"
  shows "model_floors (obj_or_empty (oget doc ''rules''))"
    and "mget (gm_grants m) key = Some gs \<Longrightarrow> valid_entry gs"
    and "(a, b) \<in> set (gm_incompatible m) \<Longrightarrow>
      is_person_function (GStr a) \<and> is_person_function (GStr b) \<and> a \<noteq> b"
proof -
  obtain raw_map rules where m: "oget doc ''map'' = GObj raw_map"
    "parse_map ff raw_map [] = Inr (gm_grants m)" and r: "rules = obj_or_empty (oget doc ''rules'')"
    "validate_approvals (oget rules ''approvals'') = None"
    "validate_incompatible ff (oget rules ''incompatible'') = None"
    "validate_accountable (oget rules ''accountable'') = None"
    "gm_incompatible m = (case oget rules ''incompatible'' of GList ps \<Rightarrow> map pair_of ps | _ \<Rightarrow> [])"
    using assms(1) by (rule new_model_Inr) auto
  show "model_floors (obj_or_empty (oget doc ''rules''))"
    unfolding model_floors_def r(1) [symmetric]
    using validate_approvals_None [OF r(2)] validate_accountable_None [OF r(4)]
    by (blast dest: high_approvals_okD)
  show "mget (gm_grants m) key = Some gs \<Longrightarrow> valid_entry gs"
    using new_model_entries [OF assms] .
  show "is_person_function (GStr a) \<and> is_person_function (GStr b) \<and> a \<noteq> b"
    if "(a, b) \<in> set (gm_incompatible m)"
  proof -
    from that r(5) obtain ps p where ps: "oget rules ''incompatible'' = GList ps" "p \<in> set ps" "(a, b) = pair_of p"
      by (auto split: gval.splits)
    with validate_incompatible_None [OF r(3)] have "valid_pair p" by (auto simp: list_all_iff)
    with ps(3) valid_pair_of show ?thesis by metis
  qed
qed

text \<open>
  a model that validation accepts meets the contract: high-risk systems need at least two
  distinct approvals and an accountable supervisor, only known tiers and roles occur, every entry
  grants known functions of one kind, ai.use always and nothing else with a domain, an application
  only where the function applies, and the incompatible pairs are two different person functions.
\<close>

theorem new_model_meets_contract:
  assumes "new_model ff (GObj doc) = Inr m"
    and "\<And>entries. oget doc ''map'' = GObj entries \<Longrightarrow> distinct (map fst entries)"
  shows "model_floors (obj_or_empty (oget doc ''rules'')) \<and>
    (\<forall>key gs. mget (gm_grants m) key = Some gs \<longrightarrow> valid_entry gs) \<and>
    (\<forall>(a, b) \<in> set (gm_incompatible m). is_person_function (GStr a) \<and> is_person_function (GStr b) \<and> a \<noteq> b)"
  using new_model_meets_contract_parts [OF assms] by blast

definition demo_model_doc :: "gval gomap" where
  "demo_model_doc =
    [(''version'', GStr model_version),
     (''identity'', GObj [(''people'', GObj [(''claim'', GStr ''realm.groups'')]),
                       (''machines'', GObj [(''claim'', GStr ''azp'')])]),
     (''map'', GObj [(''ops'', GList [GStr ''ai.use:ops'', GStr ''oversight@aos'']),
                  (''bot'', GList [GStr ''runtime.decide''])]),
     (''rules'', GObj [(''approvals'', GObj [(''HIGH'', GObj [(''count'', GInt 2), (''distinct'', GBool True)])]),
                    (''incompatible'', GList [GList [GStr ''ai.use'', GStr ''oversight'']]),
                    (''accountable'', GObj [(''HIGH'', GList [GStr ''SUPERVISOR''])])])]"

definition demo_model :: gov_model where
  "demo_model = \<lparr>gm_people = ''realm.groups'', gm_machines = ''azp'',
     gm_grants = [(''ops'', [\<lparr>gr_function = ''ai.use'', gr_domain = ''ops'', gr_app = ''''\<rparr>,
                          \<lparr>gr_function = ''oversight'', gr_domain = '''', gr_app = ''aos''\<rparr>]),
                  (''bot'', [\<lparr>gr_function = ''runtime.decide'', gr_domain = '''', gr_app = ''''\<rparr>])],
     gm_incompatible = [(''ai.use'', ''oversight'')]\<rparr>"

lemma demo_model_valid: "new_model (\<lambda>_. '''') (GObj demo_model_doc) = Inr demo_model"
  by code_simp

lemma demo_model_distinct: "oget demo_model_doc ''map'' = GObj es \<Longrightarrow> distinct (map fst es)"
  by (auto simp: demo_model_doc_def oget_def)

lemma new_model_meets_contract_witness:
  "model_floors (obj_or_empty (oget demo_model_doc ''rules'')) \<and>
   is_person_function (GStr ''ai.use'') \<and> is_person_function (GStr ''oversight'') \<and> ''ai.use'' \<noteq> ''oversight''"
  using new_model_meets_contract [OF demo_model_valid demo_model_distinct] by (simp add: demo_model_def)

text \<open>
  the functions a token gets are sorted, without repetition, and exactly those that an entry of
  the model, reached through the people claim or the machines claim, grants to a function of that
  kind that applies to the application.
\<close>

theorem resolve_exact:
  "sorted (resolve m claims app) \<and> distinct (resolve m claims app) \<and>
   (f \<in> set (resolve m claims app) \<longleftrightarrow>
    (\<exists>(kind, claim) \<in> {(PersonFunction, gm_people m), (MachineFunction, gm_machines m)}.
       \<exists>value \<in> set (claim_values claims claim). \<exists>gs g. mget (gm_grants m) value = Some gs \<and> g \<in> set gs \<and>
         grant_applies kind app g \<and> f = granted_name g))"
  by (simp only: set_resolve) (simp add: resolve_def)

lemma resolve_exact_witness:
  "resolve demo_model [(''realm'', GObj [(''groups'', GList [GStr ''ops'', GStr ''bot'', GStr ''x''])])] ''aos'' =
     [''ai.use:ops'', ''oversight''] \<and>
   sorted (resolve demo_model [(''realm'', GObj [(''groups'', GList [GStr ''ops'', GStr ''bot'', GStr ''x''])])] ''aos'')"
proof
  show "resolve demo_model [(''realm'', GObj [(''groups'', GList [GStr ''ops'', GStr ''bot'', GStr ''x''])])] ''aos'' =
     [''ai.use:ops'', ''oversight'']" by code_simp
qed (use resolve_exact in blast)

text \<open>
  whatever its claims, a token validated against an accepted model gets in AOS only oversight,
  audit, platform.admin and ai.use for a named domain: no machine function and no function of
  another application.
\<close>

theorem resolve_within_aos:
  assumes "new_model ff (GObj doc) = Inr m"
    and "\<And>entries. oget doc ''map'' = GObj entries \<Longrightarrow> distinct (map fst entries)"
    and "f \<in> set (resolve m claims ''aos'')"
  shows "f \<in> {''oversight'', ''audit'', ''platform.admin''} \<or> (\<exists>d. d \<noteq> '''' \<and> f = ''ai.use:'' @ d)"
proof -
  from assms(3) obtain k v gs g where g: "mget (gm_grants m) v = Some gs" "g \<in> set gs"
    "grant_applies k ''aos'' g" "f = granted_name g"
    by (auto simp: set_resolve)
  have "valid_entry gs" by (rule new_model_entries [OF assms(1,2) g(1)])
  with g(2) have "valid_grant g" by (simp add: valid_entry_def list_all_iff)
  with g(3,4) aos_functions show ?thesis by blast
qed

lemma resolve_within_aos_witness:
  "''ai.use:ops'' \<in> {''oversight'', ''audit'', ''platform.admin''} \<or> (\<exists>d. d \<noteq> '''' \<and> ''ai.use:ops'' = ''ai.use:'' @ d)"
proof (rule resolve_within_aos [OF demo_model_valid demo_model_distinct])
  have "list_ex (\<lambda>f. f = ''ai.use:ops'') (resolve demo_model [(''realm'', GObj [(''groups'', GStr ''ops x'')])] ''aos'')"
    by code_simp
  then show "''ai.use:ops'' \<in> set (resolve demo_model [(''realm'', GObj [(''groups'', GStr ''ops x'')])] ''aos'')"
    by (simp add: list_ex_iff)
qed

end
