(* ===== verification/Auth_Model.thy ===== *)
theory Auth_Model
  imports Gov_Model
begin

text \<open>
  Authentication (package auth): identities and their functions, role extraction, the JWT and
  API-key authenticators, the chain, the HTTP middleware and the cache of the identity provider's
  keys. The JWT library, the HTTP client and the process environment are arguments.
\<close>

record identity =
  idn_user :: string
  idn_roles :: "string list"
  idn_email :: string
  idn_source :: string
  idn_functions :: "string list"

text \<open>\<open>IsDevelopmentEnvironment\<close> (jwt.go).\<close>

definition is_development_environment :: "string \<Rightarrow> bool" where
  "is_development_environment v = (to_lower (trim_space v) \<in> {''dev'', ''development'', ''local'', ''test''})"

subsection \<open>Functions of an identity (functions.go)\<close>

definition legacy_function :: "string \<Rightarrow> string list" where
  "legacy_function r = (if r = '''' then []
     else if r = ''oversight'' then [''oversight'']
     else (''ai.use:'' @ r) # (if r = ''admin'' then [''platform.admin''] else []))"

definition legacy_functions :: "string list \<Rightarrow> string list" where
  "legacy_functions roles = concat (map legacy_function roles)"

definition has_function :: "identity option \<Rightarrow> string \<Rightarrow> bool" where
  "has_function i f = (case i of None \<Rightarrow> False | Some d \<Rightarrow> list_ex (\<lambda>x. x = f) (idn_functions d))"

definition use_domains :: "identity option \<Rightarrow> string list" where
  "use_domains i = (case i of None \<Rightarrow> []
     | Some d \<Rightarrow> List.map_filter (\<lambda>f. cut_prefix f ''ai.use:'') (idn_functions d))"

subsection \<open>Roles (roles.go)\<close>

definition default_role_claim :: string where "default_role_claim = ''roles''"

text \<open>The loop over the entries of a role map; \<open>Inl\<close> is the error.\<close>

fun parse_role_entries :: "string list \<Rightarrow> string gomap \<Rightarrow> string + string gomap" where
  "parse_role_entries [] m = Inr m"
| "parse_role_entries (entry # es) m =
    (let (k0, v0, ok) = str_cut (trim_space entry) ''=''; k = trim_space k0; v = trim_space v0 in
     if \<not> ok \<or> k = '''' \<or> v = '''' then Inl (''invalid role mapping entry '' @ go_quote entry)
     else if mget m k \<noteq> None then Inl (''duplicate role mapping for '' @ go_quote k)
     else parse_role_entries es (mput m k v))"

text \<open>\<open>None\<close> is the nil map: no mapping.\<close>

definition parse_role_map :: "string \<Rightarrow> string + string gomap option" where
  "parse_role_map s = (if trim_space s = '''' then Inr None
     else (case parse_role_entries (split_char CHR '','' s) [] of Inl err \<Rightarrow> Inl err | Inr m \<Rightarrow> Inr (Some m)))"

definition raw_roles :: "gval gomap \<Rightarrow> string \<Rightarrow> string list" where
  "raw_roles claims claim = (case claim_path (GObj claims) (split_char CHR ''.'' claim) of
     Some (GList xs) \<Rightarrow> strings_of xs
   | Some (GStr s) \<Rightarrow> fields_func (\<lambda>c. c = CHR '' '' \<or> c = CHR '','') s
   | _ \<Rightarrow> [])"

definition translate_role :: "string gomap option \<Rightarrow> string \<Rightarrow> string option" where
  "translate_role role_map r0 = (let r = trim_space r0 in
     if r = '''' then None
     else (case role_map of None \<Rightarrow> Some r | Some m \<Rightarrow> mget m r))"

fun add_unseen :: "string list \<Rightarrow> string list \<Rightarrow> string list" where
  "add_unseen seen [] = []"
| "add_unseen seen (r # rs) = (if r \<in> set seen then add_unseen seen rs else r # add_unseen (r # seen) rs)"

definition extract_roles :: "gval gomap \<Rightarrow> string \<Rightarrow> string gomap option \<Rightarrow> string list" where
  "extract_roles claims claim role_map =
    add_unseen [] (List.map_filter (translate_role role_map)
      (raw_roles claims (if claim = '''' then default_role_claim else claim)))"

subsection \<open>Errors, chain and middleware (auth.go)\<close>

datatype auth_error = AuthError (ae_code: int) (ae_message: string) | PlainError string

text \<open>The chain tries the authenticators in order and keeps the last error.\<close>

fun chain_loop :: "('r \<Rightarrow> auth_error + identity) list \<Rightarrow> 'r \<Rightarrow> auth_error option \<Rightarrow> auth_error option + identity" where
  "chain_loop [] r prev = Inl prev"
| "chain_loop (a # as) r prev = (case a r of Inr i \<Rightarrow> Inr i | Inl err \<Rightarrow> chain_loop as r (Some err))"

definition chain_authenticate :: "('r \<Rightarrow> auth_error + identity) list \<Rightarrow> 'r \<Rightarrow> auth_error + identity" where
  "chain_authenticate as r = (case chain_loop as r None of Inr i \<Rightarrow> Inr i
     | Inl (Some (AuthError c m)) \<Rightarrow> Inl (AuthError c m)
     | Inl _ \<Rightarrow> Inl (AuthError 401 ''authentication failed''))"

text \<open>The middleware answers an error, or passes the identity on in the request's context.\<close>

definition auth_middleware :: "('r \<Rightarrow> auth_error + identity) list \<Rightarrow> 'r \<Rightarrow> (int \<times> string) + identity" where
  "auth_middleware as r = (case chain_authenticate as r of Inr i \<Rightarrow> Inr i
     | Inl (AuthError c m) \<Rightarrow> Inl (c, m)
     | Inl (PlainError _) \<Rightarrow> Inl (401, ''authentication error''))"

subsection \<open>API keys (apikey.go)\<close>

record iam_body =
  iam_user_id :: string
  iam_roles :: "string list"
  iam_email :: string

text \<open>What the call to the key service gives: no request, no answer, a status and a body.\<close>

datatype iam_answer = IamBadRequest | IamUnreachable | IamAnswer int "iam_body option"

definition apikey_authenticate :: "(string \<Rightarrow> iam_answer) \<Rightarrow> string \<Rightarrow> auth_error + identity" where
  "apikey_authenticate iam api_key =
    (if api_key = '''' then Inl (AuthError 401 ''missing api key'')
     else (case iam api_key of
       IamBadRequest \<Rightarrow> Inl (AuthError 503 ''iam request error'')
     | IamUnreachable \<Rightarrow> Inl (AuthError 503 ''iam unreachable'')
     | IamAnswer status body \<Rightarrow>
         if status \<noteq> 200 then Inl (AuthError 401 ''invalid api key'')
         else (case body of None \<Rightarrow> Inl (AuthError 503 ''invalid iam response'')
           | Some b \<Rightarrow>
             if iam_user_id b = '''' then Inl (AuthError 401 ''missing user_id from iam'')
             else if iam_roles b = [] then Inl (AuthError 403 ''no roles for api key'')
             else Inr \<lparr>idn_user = iam_user_id b, idn_roles = iam_roles b, idn_email = iam_email b,
               idn_source = ''apikey'', idn_functions = legacy_functions (iam_roles b)\<rparr>)))"

subsection \<open>Keys of the identity provider (oidc.go)\<close>

record jwks_entry =
  jk_kid :: string
  jk_kty :: string
  jk_use :: string
  jk_n :: string
  jk_e :: string

text \<open>\<open>'k\<close> is the type of RSA public keys; \<open>decode\<close> builds one from the entry's numbers.\<close>

record 'k jwks_cache =
  jc_keys :: "'k gomap"
  jc_fetched :: time

definition jwks_max_age :: duration where "jwks_max_age = 600000000000"
definition jwks_min_refresh :: duration where "jwks_min_refresh = 5000000000"

datatype jwks_answer = JwksFailed string | JwksStatus int | JwksUndecodable string | JwksDoc "jwks_entry list"

definition signing_entry :: "jwks_entry \<Rightarrow> bool" where
  "signing_entry e = (jk_kty e = ''RSA'' \<and> (jk_use e = '''' \<or> jk_use e = ''sig''))"

fun jwks_keys :: "(string \<Rightarrow> string \<Rightarrow> 'k option) \<Rightarrow> jwks_entry list \<Rightarrow> 'k gomap \<Rightarrow> 'k gomap" where
  "jwks_keys decode [] m = m"
| "jwks_keys decode (e # es) m =
    (if \<not> signing_entry e then jwks_keys decode es m
     else (case decode (jk_n e) (jk_e e) of None \<Rightarrow> jwks_keys decode es m
       | Some k \<Rightarrow> jwks_keys decode es (mput m (jk_kid e) k)))"

definition jwks_refresh :: "(string \<Rightarrow> string \<Rightarrow> 'k option) \<Rightarrow> jwks_answer \<Rightarrow> time \<Rightarrow> 'k jwks_cache
    \<Rightarrow> 'k jwks_cache \<times> string option" where
  "jwks_refresh decode ans now c = (case ans of
     JwksFailed err \<Rightarrow> (c, Some (''jwks fetch: '' @ err))
   | JwksStatus code \<Rightarrow> (c, Some (''jwks fetch: HTTP '' @ show_int code))
   | JwksUndecodable err \<Rightarrow> (c, Some (''jwks decode: '' @ err))
   | JwksDoc es \<Rightarrow> (\<lparr>jc_keys = jwks_keys decode es [], jc_fetched = now\<rparr>, None))"

text \<open>\<open>ans1\<close> and \<open>ans2\<close> are what the provider answers to the first and to the second fetch.\<close>

definition jwks_key :: "(string \<Rightarrow> string \<Rightarrow> 'k option) \<Rightarrow> jwks_answer \<Rightarrow> jwks_answer \<Rightarrow> time \<Rightarrow> string
    \<Rightarrow> 'k jwks_cache \<Rightarrow> 'k jwks_cache \<times> (string + 'k)" where
  "jwks_key decode ans1 ans2 now kid c0 =
    (let c = (if jc_keys c0 \<noteq> [] \<and> now - jc_fetched c0 \<ge> jwks_max_age
              then fst (jwks_refresh decode ans1 now c0) else c0)
     in case mget (jc_keys c) kid of Some k \<Rightarrow> (c, Inr k)
        | None \<Rightarrow>
          if now - jc_fetched c < jwks_min_refresh \<and> jc_keys c \<noteq> []
          then (c, Inl (''unknown kid '' @ go_quote kid))
          else (case jwks_refresh decode ans2 now c of
              (c', Some err) \<Rightarrow> (c', Inl err)
            | (c', None) \<Rightarrow> (case mget (jc_keys c') kid of Some k \<Rightarrow> (c', Inr k)
                | None \<Rightarrow> (c', Inl (''unknown kid '' @ go_quote kid @ '' after refresh'')))))"

subsection \<open>Tokens (jwt.go, login.go)\<close>

text \<open>Each process of the program has one cache per key set address; a token's header names the method
  and the key.\<close>

record jwt_header =
  jh_rsa :: bool
  jh_hmac :: bool
  jh_alg :: string
  jh_kid :: string

definition rsa_keyfunc :: "(string \<Rightarrow> string \<Rightarrow> 'k option) \<Rightarrow> jwks_answer \<Rightarrow> jwks_answer \<Rightarrow> time \<Rightarrow> jwt_header
    \<Rightarrow> 'k jwks_cache \<Rightarrow> 'k jwks_cache \<times> (string + 'k)" where
  "rsa_keyfunc decode ans1 ans2 now h c =
    (if \<not> jh_rsa h then (c, Inl (''unexpected signing method: '' @ jh_alg h))
     else if jh_kid h = '''' then (c, Inl ''missing kid'')
     else jwks_key decode ans1 ans2 now (jh_kid h) c)"

text \<open>The options AOS gives the parser, and the configuration.\<close>

record jwt_opts =
  jo_methods :: "string list"
  jo_exp_required :: bool
  jo_leeway :: duration
  jo_issuer :: string
  jo_audience :: string

record jwt_config =
  jw_issuer :: string
  jw_audience :: string
  jw_jwk_url :: string
  jw_role_claim :: string
  jw_role_map :: "string gomap option"
  jw_dev_fallback :: bool
  jw_governance :: "gov_model option"

text \<open>
  The world of one request: the parsers of the JWT library (given the options or the secret, and
  what the key function answered for the token's header), the header of a token, the provider's
  answers, the clock and the environment.
\<close>

record 'k auth_env =
  av_parse_rsa :: "jwt_opts \<Rightarrow> 'k \<Rightarrow> string \<Rightarrow> string + gval gomap"
  av_parse_hmac :: "string \<Rightarrow> string \<Rightarrow> string + gval gomap"
  av_header :: "string \<Rightarrow> string + jwt_header"
  av_decode :: "string \<Rightarrow> string \<Rightarrow> 'k option"
  av_jwks1 :: jwks_answer
  av_jwks2 :: jwks_answer
  av_now :: time
  av_getenv :: "string \<Rightarrow> string"

definition signing_secret :: "(string \<Rightarrow> string) \<Rightarrow> string" where
  "signing_secret getenv = (if getenv ''JWT_SECRET'' \<noteq> '''' then getenv ''JWT_SECRET'' else ''aos-dev-secret'')"

definition oidc_options :: "jwt_config \<Rightarrow> jwt_opts" where
  "oidc_options cfg = \<lparr>jo_methods = [''RS256''], jo_exp_required = True, jo_leeway = 30000000000,
     jo_issuer = jw_issuer cfg, jo_audience = jw_audience cfg\<rparr>"

definition unix_seconds :: "time \<Rightarrow> int" where "unix_seconds t = t div 1000000000 - 62135596800"

definition verify_oidc :: "'k auth_env \<Rightarrow> jwt_config \<Rightarrow> string \<Rightarrow> 'k jwks_cache
    \<Rightarrow> 'k jwks_cache \<times> (string + gval gomap)" where
  "verify_oidc e cfg token c =
    (case av_header e token of Inl err \<Rightarrow> (c, Inl (''invalid oidc token: '' @ err))
     | Inr h \<Rightarrow> if jh_alg h \<notin> set (jo_methods (oidc_options cfg))
         then (c, Inl (''invalid oidc token: signing method '' @ jh_alg h @ '' is invalid''))
         else (case rsa_keyfunc (av_decode e) (av_jwks1 e) (av_jwks2 e) (av_now e) h c of
         (c', Inl err) \<Rightarrow> (c', Inl (''invalid oidc token: '' @ err))
       | (c', Inr k) \<Rightarrow> (case av_parse_rsa e (oidc_options cfg) k token of
           Inl err \<Rightarrow> (c', Inl (''invalid oidc token: '' @ err))
         | Inr claims \<Rightarrow> (c', Inr claims))))"

definition dev_claims :: "time \<Rightarrow> gval gomap" where
  "dev_claims now = [(''sub'', GStr ''demo-user''), (''email'', GStr ''demo@example.com''),
     (''roles'', GList [GStr ''admin'']), (''exp'', GInt (unix_seconds (now + 3600000000000)))]"

definition parse_hmac :: "'k auth_env \<Rightarrow> string \<Rightarrow> string + gval gomap" where
  "parse_hmac e token = (case av_header e token of Inl err \<Rightarrow> Inl err
     | Inr h \<Rightarrow> if \<not> jh_hmac h then Inl (''unexpected signing method: '' @ jh_alg h)
         else av_parse_hmac e (signing_secret (av_getenv e)) token)"

definition verify_and_parse_jwt :: "'k auth_env \<Rightarrow> jwt_config \<Rightarrow> string \<Rightarrow> 'k jwks_cache
    \<Rightarrow> 'k jwks_cache \<times> (string + gval gomap)" where
  "verify_and_parse_jwt e cfg token c =
    (if jw_jwk_url cfg \<noteq> '''' then verify_oidc e cfg token c
     else (c, case parse_hmac e token of Inr claims \<Rightarrow> Inr claims
       | Inl err \<Rightarrow>
         if av_getenv e ''JWT_SECRET'' = '''' \<and> jw_dev_fallback cfg then Inr (dev_claims (av_now e))
         else if av_getenv e ''JWT_SECRET'' = '''' then Inl ''JWT_SECRET is required outside development mode''
         else Inl err))"

text \<open>A request carries the two headers the authenticators read.\<close>

record auth_request =
  rq_authorization :: string
  rq_mock_role :: string
  rq_api_key :: string

definition identity_of_claims :: "jwt_config \<Rightarrow> gval gomap \<Rightarrow> auth_error + identity" where
  "identity_of_claims cfg claims =
    (let sub = str_of claims ''sub'';
         roles = extract_roles claims (jw_role_claim cfg) (jw_role_map cfg);
         fns = (case jw_governance cfg of
             Some m \<Rightarrow> if jw_jwk_url cfg \<noteq> '''' then resolve m claims ''aos'' else legacy_functions roles
           | None \<Rightarrow> legacy_functions roles)
     in if sub = '''' then Inl (AuthError 401 ''missing sub'')
        else if fns = [] then Inl (AuthError 403 ''no governance functions assigned'')
        else Inr \<lparr>idn_user = sub, idn_roles = roles, idn_email = str_of claims ''email'',
               idn_source = ''jwt'', idn_functions = fns\<rparr>)"

definition jwt_authenticate :: "'k auth_env \<Rightarrow> jwt_config \<Rightarrow> auth_request \<Rightarrow> 'k jwks_cache
    \<Rightarrow> 'k jwks_cache \<times> (auth_error + identity)" where
  "jwt_authenticate e cfg r c =
    (let header = rq_authorization r; no_secret = (av_getenv e ''JWT_SECRET'' = '''') in
     if header = '''' \<or> \<not> has_prefix header ''Bearer '' then
       (c, if no_secret \<and> jw_dev_fallback cfg then
             (let mock = (if rq_mock_role r = '''' then ''admin'' else rq_mock_role r) in
              Inr \<lparr>idn_user = ''demo-user'', idn_roles = [mock], idn_email = ''demo@example.com'',
                idn_source = ''mock'', idn_functions = legacy_functions [mock]\<rparr>)
           else if no_secret then Inl (AuthError 401 ''JWT_SECRET is required outside development mode'')
           else Inl (AuthError 401 ''missing bearer token''))
     else (case verify_and_parse_jwt e cfg (trim_space (trim_prefix header ''Bearer '')) c of
         (c', Inl _) \<Rightarrow> (c', Inl (AuthError 401 ''invalid jwt''))
       | (c', Inr claims) \<Rightarrow> (c', identity_of_claims cfg claims)))"

text \<open>\<open>IssueToken\<close>: the claims of a development token; \<open>sign\<close> is the library's HS256 signature.\<close>

definition token_claims :: "string \<Rightarrow> string list \<Rightarrow> duration \<Rightarrow> time \<Rightarrow> gval gomap" where
  "token_claims username roles0 ttl now =
    (let roles = (if roles0 = [] then [''user''] else roles0) in
     [(''sub'', GStr username), (''email'', GStr (username @ ''@local'')),
      (''roles'', GList (map GStr roles)), (''iss'', GStr ''aos-dev-login''),
      (''iat'', GInt (unix_seconds now)), (''exp'', GInt (unix_seconds (now + ttl)))])"

definition issue_token :: "(string \<Rightarrow> string) \<Rightarrow> (string \<Rightarrow> gval gomap \<Rightarrow> string + string) \<Rightarrow> string
    \<Rightarrow> string list \<Rightarrow> duration \<Rightarrow> time \<Rightarrow> string + string" where
  "issue_token getenv sign username roles ttl now =
    sign (signing_secret getenv) (token_claims username roles ttl now)"

subsection \<open>Facts\<close>

lemma add_unseen_set: "set (add_unseen seen rs) = set rs - set seen"
  by (induction rs arbitrary: seen) auto

lemma add_unseen_distinct: "distinct (add_unseen seen rs)"
  by (induction rs arbitrary: seen) (auto simp: add_unseen_set)

lemma set_map_filter: "set (List.map_filter f xs) = {y. \<exists>x \<in> set xs. f x = Some y}"
  by (force simp: List.map_filter_def image_iff)

lemma extract_roles_set:
  "set (extract_roles claims claim role_map) =
    {r. \<exists>raw \<in> set (raw_roles claims (if claim = '''' then default_role_claim else claim)).
      translate_role role_map raw = Some r}"
  by (simp add: extract_roles_def add_unseen_set set_map_filter)

lemma legacy_functions_set:
  "f \<in> set (legacy_functions roles) \<longleftrightarrow>
    (f = ''oversight'' \<and> ''oversight'' \<in> set roles) \<or>
    (f = ''platform.admin'' \<and> ''admin'' \<in> set roles) \<or>
    (\<exists>r \<in> set roles. r \<noteq> '''' \<and> r \<noteq> ''oversight'' \<and> f = ''ai.use:'' @ r)"
proof -
  have one: "f \<in> set (legacy_function r) \<longleftrightarrow>
    (f = ''oversight'' \<and> r = ''oversight'') \<or> (f = ''platform.admin'' \<and> r = ''admin'') \<or>
    (r \<noteq> '''' \<and> r \<noteq> ''oversight'' \<and> f = ''ai.use:'' @ r)" for r
    by (cases "r = ''''"; cases "r = ''oversight''"; cases "r = ''admin''")
       (simp_all add: legacy_function_def disj_commute)
  have "f \<in> set (legacy_functions roles) \<longleftrightarrow> (\<exists>r \<in> set roles. f \<in> set (legacy_function r))"
    by (auto simp: legacy_functions_def)
  then show ?thesis by (simp only: one) blast
qed

lemma set_use_domains: "set (use_domains (Some i)) = {d. ''ai.use:'' @ d \<in> set (idn_functions i)}"
  by (auto simp: use_domains_def set_map_filter cut_prefix_Some_iff)

lemma has_function_iff [simp]:
  "has_function (Some i) f \<longleftrightarrow> f \<in> set (idn_functions i)" "\<not> has_function None f"
  by (auto simp: has_function_def list_ex_iff)

lemma chain_loop_cases:
  "chain_loop as r prev = Inr i \<longleftrightarrow>
    (\<exists>xs a ys. as = xs @ a # ys \<and> a r = Inr i \<and> (\<forall>b \<in> set xs. \<not> is_ok (b r)))"
proof (induction as arbitrary: prev)
  case (Cons a as)
  show ?case
  proof (cases "a r")
    case (Inl err)
    have "(\<exists>xs b ys. a # as = xs @ b # ys \<and> b r = Inr i \<and> (\<forall>b \<in> set xs. \<not> is_ok (b r))) \<longleftrightarrow>
      (\<exists>xs b ys. as = xs @ b # ys \<and> b r = Inr i \<and> (\<forall>b \<in> set xs. \<not> is_ok (b r)))"
      (is "?L \<longleftrightarrow> ?R")
    proof
      assume ?L
      then obtain xs b ys where "a # as = xs @ b # ys" "b r = Inr i" "\<forall>b \<in> set xs. \<not> is_ok (b r)" by blast
      with Inl show ?R by (cases xs) auto
    next
      assume ?R
      then obtain xs b ys where "as = xs @ b # ys" "b r = Inr i" "\<forall>b \<in> set xs. \<not> is_ok (b r)" by blast
      with Inl show ?L by (intro exI [of _ "a # xs"]) auto
    qed
    with Inl Cons show ?thesis by simp
  next
    case (Inr j)
    have "(\<exists>xs b ys. a # as = xs @ b # ys \<and> b r = Inr i \<and> (\<forall>b \<in> set xs. \<not> is_ok (b r))) \<longleftrightarrow> j = i"
    proof
      assume "\<exists>xs b ys. a # as = xs @ b # ys \<and> b r = Inr i \<and> (\<forall>b \<in> set xs. \<not> is_ok (b r))"
      then obtain xs b ys where "a # as = xs @ b # ys" "b r = Inr i" "\<forall>b \<in> set xs. \<not> is_ok (b r)" by blast
      with Inr show "j = i" by (cases xs) auto
    next
      assume "j = i"
      with Inr show "\<exists>xs b ys. a # as = xs @ b # ys \<and> b r = Inr i \<and> (\<forall>b \<in> set xs. \<not> is_ok (b r))"
        by (intro exI [of _ "[]"]) auto
    qed
    with Inr show ?thesis by simp
  qed
qed simp

lemma chain_authenticate_Inr: "chain_authenticate as r = Inr i \<longleftrightarrow> chain_loop as r None = Inr i"
  by (auto simp: chain_authenticate_def split: sum.splits option.splits auth_error.splits)

definition role_entry :: "string \<times> string \<Rightarrow> string" where
  "role_entry kv = fst kv @ ''='' @ snd kv"

text \<open>Keys and values as \<open>ParseRoleMap\<close> stores them, with no separator inside.\<close>

definition role_map_entry :: "string \<times> string \<Rightarrow> bool" where
  "role_map_entry kv = (case kv of (k, v) \<Rightarrow> k \<noteq> '''' \<and> v \<noteq> '''' \<and> trim_space k = k \<and> trim_space v = v \<and>
     CHR '','' \<notin> set k \<and> CHR ''='' \<notin> set k \<and> CHR '','' \<notin> set v)"

lemma trim_space_fixD: "trim_space s = s \<Longrightarrow> s \<noteq> [] \<Longrightarrow> \<not> is_space (hd s) \<and> \<not> is_space (last s)"
  by (metis trim_space_hd trim_space_last)

lemma trim_space_role_entry: "role_map_entry kv \<Longrightarrow> trim_space (role_entry kv) = role_entry kv"
  by (intro trim_space_id) (auto simp: role_entry_def role_map_entry_def dest: trim_space_fixD split: prod.splits)

lemma str_index_char: "c \<notin> set p \<Longrightarrow> str_index (p @ c # s) [c] = Some (length p)"
  by (induction p) (auto simp: has_prefix_def)

lemma str_cut_role_entry: "role_map_entry (k, v) \<Longrightarrow> str_cut (role_entry (k, v)) ''='' = (k, v, True)"
  using str_index_char [of "CHR ''=''" k v]
  by (simp add: str_cut_def role_entry_def role_map_entry_def)

lemma last_str_join: "ps \<noteq> [] \<Longrightarrow> last ps \<noteq> [] \<Longrightarrow> last (str_join sep ps) = last (last ps)"
proof (induction ps)
  case (Cons p ps)
  have ne: "ps \<noteq> [] \<Longrightarrow> last ps \<noteq> [] \<Longrightarrow> str_join sep ps \<noteq> []" for ps
  proof (induction ps)
    case (Cons q qs) then show ?case by (cases qs) auto
  qed simp
  from Cons show ?case by (cases ps) (auto simp: ne)
qed simp

lemma mput_fresh: "mget m k = None \<Longrightarrow> mput m k v = m @ [(k, v)]"
  by (induction m) auto

lemma parse_role_entries_render:
  "list_all role_map_entry kvs \<Longrightarrow> distinct (map fst (m @ kvs)) \<Longrightarrow>
    parse_role_entries (map role_entry kvs) m = Inr (m @ kvs)"
proof (induction kvs arbitrary: m)
  case (Cons kv kvs)
  obtain k v where kv: "kv = (k, v)" by (cases kv)
  from Cons.prems kv have e: "role_map_entry (k, v)" "mget m k = None"
    by (auto simp: map_of_eq_None_iff)
  then have "trim_space k = k" "trim_space v = v" "k \<noteq> ''''" "v \<noteq> ''''"
    by (auto simp: role_map_entry_def)
  with e Cons.IH [of "m @ [(k, v)]"] Cons.prems kv show ?case
    by (simp add: trim_space_role_entry str_cut_role_entry mput_fresh)
qed simp

lemma jwks_refresh_cases:
  "jwks_refresh decode ans now c = (c', r) \<Longrightarrow>
    (r \<noteq> None \<and> c' = c) \<or> (\<exists>es. ans = JwksDoc es \<and> r = None \<and>
      c' = \<lparr>jc_keys = jwks_keys decode es [], jc_fetched = now\<rparr>)"
  by (cases ans) (auto simp: jwks_refresh_def)

lemma fst_jwks_refresh:
  "fst (jwks_refresh decode ans now c) = (case ans of JwksDoc es \<Rightarrow>
     \<lparr>jc_keys = jwks_keys decode es [], jc_fetched = now\<rparr> | _ \<Rightarrow> c)"
  by (cases ans) (auto simp: jwks_refresh_def)

text \<open>A key in the cache belongs to a published signing entry of that id.\<close>

lemma jwks_keys_published:
  "mget (jwks_keys decode es m) kid = Some k \<Longrightarrow>
    mget m kid = Some k \<or> (\<exists>e \<in> set es. signing_entry e \<and> jk_kid e = kid \<and> decode (jk_n e) (jk_e e) = Some k)"
  by (induction decode es m rule: jwks_keys.induct) (auto split: if_splits option.splits)

definition jwks_document :: "jwks_answer \<Rightarrow> jwks_entry list option" where
  "jwks_document a = (case a of JwksDoc es \<Rightarrow> Some es | _ \<Rightarrow> None)"

subsection \<open>Properties\<close>

lemma legacy_functions_exact_parts:
  assumes "idn_functions i = legacy_functions roles"
  shows "set (use_domains (Some i)) = set roles - {'''', ''oversight''}"
    and "has_function (Some i) ''oversight'' \<longleftrightarrow> ''oversight'' \<in> set roles"
    and "has_function (Some i) ''platform.admin'' \<longleftrightarrow> ''admin'' \<in> set roles"
  using assms by (auto simp: set_use_domains legacy_functions_set)

text \<open>
  an identity that does not come from the identity provider may use exactly the domains its AOS
  roles name, and the role oversight grants oversight alone: it is no ai.use domain. Only the role
  admin operates the platform.
\<close>

theorem legacy_functions_exact:
  assumes "idn_functions i = legacy_functions roles"
  shows "set (use_domains (Some i)) = set roles - {'''', ''oversight''} \<and>
    (has_function (Some i) ''oversight'' \<longleftrightarrow> ''oversight'' \<in> set roles) \<and>
    (has_function (Some i) ''platform.admin'' \<longleftrightarrow> ''admin'' \<in> set roles)"
  using legacy_functions_exact_parts [OF assms] by blast

definition demo_identity :: identity where
  "demo_identity = \<lparr>idn_user = ''ana'', idn_roles = [''ops'', ''oversight''], idn_email = '''',
     idn_source = ''apikey'', idn_functions = [''ai.use:ops'', ''oversight'']\<rparr>"

lemma legacy_functions_exact_witness:
  "set (use_domains (Some demo_identity)) = {''ops''} \<and> has_function (Some demo_identity) ''oversight'' \<and>
   \<not> has_function (Some demo_identity) ''platform.admin''"
proof -
  have f: "idn_functions demo_identity = legacy_functions [''ops'', ''oversight'']" by code_simp
  show ?thesis
    using legacy_functions_exact [OF f] by auto
qed

text \<open>
  reading back a written role map gives the map: for entries with trimmed, non-empty keys and
  values that contain no separator, and different keys, parsing the comma-separated text returns
  exactly these entries.
\<close>

theorem parse_role_map_roundtrip:
  assumes "kvs \<noteq> []" "list_all role_map_entry kvs" "distinct (map fst kvs)"
  shows "parse_role_map (str_join '','' (map role_entry kvs)) = Inr (Some kvs)"
proof -
  obtain kv kvs' where kvs: "kvs = kv # kvs'" using assms(1) by (cases kvs) auto
  have ne: "role_entry kv \<noteq> []" by (simp add: role_entry_def)
  have hd: "\<not> is_space (hd (role_entry kv))"
    using assms(2) kvs by (auto simp: role_entry_def role_map_entry_def dest: trim_space_fixD split: prod.splits)
  have "trim_left is_space (str_join '','' (map role_entry kvs)) = str_join '','' (map role_entry kvs)"
    using ne hd kvs by (cases kvs'; cases "role_entry kv") (auto simp: trim_left_def)
  moreover have "\<not> is_space (last (str_join '','' (map role_entry kvs)))"
  proof -
    have "last kvs \<in> set kvs" using assms(1) by simp
    with assms(2) have "role_map_entry (last kvs)" by (simp add: list_all_iff)
    then have "\<not> is_space (last (role_entry (last kvs)))" and "role_entry (last kvs) \<noteq> []"
      by (auto simp: role_entry_def role_map_entry_def dest: trim_space_fixD split: prod.splits)
    with assms(1) show ?thesis
      by (subst last_str_join) (auto simp: last_map)
  qed
  moreover have "str_join '','' (map role_entry kvs) \<noteq> []"
    using ne kvs by (cases kvs') auto
  ultimately have blank: "trim_space (str_join '','' (map role_entry kvs)) \<noteq> ''''"
    by (simp add: trim_space_def trim_right_id)
  have split: "split_char CHR '','' (str_join '','' (map role_entry kvs)) = map role_entry kvs"
    using assms(1,2) by (intro split_char_str_join)
      (auto simp: list_all_iff role_entry_def role_map_entry_def)
  show ?thesis
    using blank parse_role_entries_render [of kvs "[]"] assms(2,3)
    by (simp add: parse_role_map_def split)
qed

lemma parse_role_map_roundtrip_witness:
  "parse_role_map ''idp-admin=admin,ops team=ops'' = Inr (Some [(''idp-admin'', ''admin''), (''ops team'', ''ops'')])"
proof -
  have "list_all role_map_entry [(''idp-admin'', ''admin''), (''ops team'', ''ops'')]" by code_simp
  from parse_role_map_roundtrip [OF _ this] show ?thesis by (simp add: role_entry_def)
qed

text \<open>
  the chain authenticates a request exactly when one of its authenticators does, with the
  identity of the first that does, and otherwise answers an error with a status; the middleware
  lets nothing through without an identity.
\<close>

theorem chain_authenticate_first:
  "(auth_middleware as r = Inr i \<longleftrightarrow>
     (\<exists>xs a ys. as = xs @ a # ys \<and> a r = Inr i \<and> (\<forall>b \<in> set xs. \<not> is_ok (b r))))"
proof -
  have "auth_middleware as r = Inr i \<longleftrightarrow> chain_authenticate as r = Inr i"
    by (auto simp: auth_middleware_def split: sum.splits auth_error.splits)
  then show ?thesis by (simp only: chain_authenticate_Inr chain_loop_cases)
qed

lemma chain_authenticate_first_witness:
  "auth_middleware [\<lambda>_. Inl (AuthError 401 ''x''), \<lambda>_. Inr demo_identity] () = Inr demo_identity"
  by (rule chain_authenticate_first [THEN iffD2]) (rule exI [of _ "[\<lambda>_. Inl (AuthError 401 ''x'')]"], auto)

lemma jwks_key_fresh_parts:
  assumes "jwks_key decode ans1 ans2 now kid c = (c', Inr k)"
  shows "mget (jc_keys c') kid = Some k"
    and "now - jc_fetched c' < jwks_max_age \<or> jc_fetched c' = now \<or> jwks_document ans1 = None"
    and "jwks_document ans1 = None \<Longrightarrow> mget (jc_keys c) kid = Some k' \<Longrightarrow> k = k' \<and> c' = c"
proof -
  let ?c = "if jc_keys c \<noteq> [] \<and> now - jc_fetched c \<ge> jwks_max_age
              then fst (jwks_refresh decode ans1 now c) else c"
  have cs: "(mget (jc_keys ?c) kid = Some k \<and> c' = ?c) \<or>
    (mget (jc_keys ?c) kid = None \<and> (\<exists>es. ans2 = JwksDoc es) \<and> jc_fetched c' = now \<and> mget (jc_keys c') kid = Some k)"
    using assms unfolding jwks_key_def Let_def
    by (auto split: option.splits if_splits prod.splits dest!: jwks_refresh_cases)
  then show "mget (jc_keys c') kid = Some k" by blast
  have stale: "now - jc_fetched ?c < jwks_max_age \<or> jc_fetched ?c = now \<or> jwks_document ans1 = None \<or> jc_keys ?c = []"
    by (auto simp: fst_jwks_refresh jwks_document_def split: jwks_answer.splits)
  then show "now - jc_fetched c' < jwks_max_age \<or> jc_fetched c' = now \<or> jwks_document ans1 = None"
    using cs by auto
  show "k = k' \<and> c' = c" if "jwks_document ans1 = None" "mget (jc_keys c) kid = Some k'"
  proof -
    have "?c = c" using that(1) by (auto simp: fst_jwks_refresh jwks_document_def split: jwks_answer.splits)
    with cs that(2) show ?thesis by auto
  qed
qed

text \<open>
  a key that verifies a token is in the cache after the lookup, and the cache is less than ten
  minutes old, or was just fetched, or the provider failed to answer the refresh; and an outage of
  the provider loses no key that was known.
\<close>

theorem jwks_key_fresh:
  assumes "jwks_key decode ans1 ans2 now kid c = (c', Inr k)"
  shows "mget (jc_keys c') kid = Some k \<and>
    (now - jc_fetched c' < jwks_max_age \<or> jc_fetched c' = now \<or> jwks_document ans1 = None) \<and>
    (\<forall>k'. jwks_document ans1 = None \<and> mget (jc_keys c) kid = Some k' \<longrightarrow> k = k' \<and> c' = c)"
  using jwks_key_fresh_parts [OF assms] by blast

definition demo_jwks :: "string jwks_cache" where
  "demo_jwks = \<lparr>jc_keys = [(''k1'', ''old'')], jc_fetched = 0\<rparr>"

lemma jwks_key_fresh_witness:
  "mget (jc_keys demo_jwks) ''k1'' = Some ''old'' \<and> jwks_document (JwksStatus 500) = None"
proof -
  have "jwks_key (\<lambda>_ _. None) (JwksStatus 500) (JwksStatus 500) 700000000000 ''k1'' demo_jwks = (demo_jwks, Inr ''old'')"
    by (simp add: jwks_key_def demo_jwks_def jwks_refresh_def Let_def)
  from jwks_key_fresh [OF this, THEN conjunct1] show ?thesis
    by (simp add: jwks_document_def)
qed

text \<open>
  a retired key stops verifying: once the cached keys are ten minutes old and the provider
  answers with a key set that does not list the key as a signing key, its id no longer resolves
  to it.
\<close>

theorem jwks_retired_key_refused:
  assumes "jwks_max_age \<le> now - jc_fetched c" "ans1 = JwksDoc es" "ans2 = JwksDoc es"
    and "\<not> (\<exists>e \<in> set es. signing_entry e \<and> jk_kid e = kid \<and> decode (jk_n e) (jk_e e) = Some k)"
  shows "snd (jwks_key decode ans1 ans2 now kid c) \<noteq> Inr k"
proof -
  have "mget (jwks_keys decode es []) kid \<noteq> Some k"
    using jwks_keys_published [of decode es "[]" kid k] assms(4) by auto
  with assms(1-3) show ?thesis
    by (auto simp: jwks_key_def Let_def jwks_refresh_def split: option.splits)
qed

lemma jwks_retired_key_refused_witness:
  "snd (jwks_key (\<lambda>n _. Some n) (JwksDoc []) (JwksDoc []) 700000000000 ''k1'' demo_jwks) \<noteq> Inr ''old''"
  by (rule jwks_retired_key_refused) (auto simp: demo_jwks_def jwks_max_age_def)

text \<open>
  a development token authenticates as its subject with the roles it was issued for, when the
  library accepts what was signed with the same secret: the round trip keeps the user, and the
  roles become those given, trimmed and without repetition.
\<close>

theorem issued_token_authenticates:
  assumes "issue_token (av_getenv e) sign user roles ttl now = Inr token"
    and "\<And>claims. sign (signing_secret (av_getenv e)) claims = Inr token \<Longrightarrow>
      av_parse_hmac e (signing_secret (av_getenv e)) token = Inr claims"
    and "av_header e token = Inr h" "jh_hmac h" "trim_space token = token"
    and "jw_jwk_url cfg = ''''" "jw_role_claim cfg = ''''" "jw_role_map cfg = None"
    and "user \<noteq> ''''" "role \<in> set roles" "\<not> blank role"
    and "rq_authorization r = ''Bearer '' @ token"
  shows "\<exists>i. snd (jwt_authenticate e cfg r c) = Inr i \<and> idn_user i = user \<and>
    set (idn_roles i) = trim_space ` {x \<in> set roles. \<not> blank x} \<and>
    idn_functions i = legacy_functions (idn_roles i)"
proof -
  have ne: "roles \<noteq> []" using assms(10) by auto
  let ?claims = "token_claims user roles ttl now"
  have parse: "verify_and_parse_jwt e cfg token c = (c, Inr ?claims)"
    using assms(1-6) by (simp add: verify_and_parse_jwt_def parse_hmac_def issue_token_def)
  have raw: "raw_roles ?claims default_role_claim = roles"
  proof -
    have "strings_of (map GStr xs) = xs" for xs
      by (induction xs) (auto simp: strings_of_def List.map_filter_simps)
    then show ?thesis
      using ne by (simp add: raw_roles_def token_claims_def default_role_claim_def Let_def split_char_absent)
  qed
  have roles: "set (extract_roles ?claims '''' None) = trim_space ` {x \<in> set roles. \<not> blank x}"
    by (auto simp: extract_roles_set raw translate_role_def Let_def blank_def)
  then have mem: "trim_space role \<in> set (extract_roles ?claims '''' None)" using assms(10,11) by auto
  have "legacy_functions (extract_roles ?claims '''' None) \<noteq> []"
  proof (cases "trim_space role = ''oversight''")
    case True
    with mem have "''oversight'' \<in> set (legacy_functions (extract_roles ?claims '''' None))"
      by (simp add: legacy_functions_set)
    then show ?thesis by auto
  next
    case False
    with mem assms(11) have "''ai.use:'' @ trim_space role \<in> set (legacy_functions (extract_roles ?claims '''' None))"
      by (auto simp: legacy_functions_set blank_def)
    then show ?thesis by auto
  qed
  moreover have "str_of ?claims ''sub'' = user" by (simp add: str_of_def token_claims_def Let_def)
  moreover have "trim_space (trim_prefix (rq_authorization r) ''Bearer '') = token"
    using assms(5,12) by (simp add: trim_prefix_def has_prefix_def)
  ultimately show ?thesis
    using assms(6-9,12) parse roles
    by (auto simp: jwt_authenticate_def identity_of_claims_def Let_def has_prefix_def split: option.splits)
qed

definition demo_jwt_config :: jwt_config where
  "demo_jwt_config = \<lparr>jw_issuer = '''', jw_audience = '''', jw_jwk_url = '''', jw_role_claim = '''',
     jw_role_map = None, jw_dev_fallback = False, jw_governance = None\<rparr>"

definition demo_auth_env :: "unit auth_env" where
  "demo_auth_env = \<lparr>av_parse_rsa = (\<lambda>_ _ _. Inl ''no''),
     av_parse_hmac = (\<lambda>s t. if t = ''tok'' then Inr (token_claims ''ana'' [''ops''] 0 0) else Inl ''no''),
     av_header = (\<lambda>_. Inr \<lparr>jh_rsa = False, jh_hmac = True, jh_alg = ''HS256'', jh_kid = ''''\<rparr>),
     av_decode = (\<lambda>_ _. None), av_jwks1 = JwksStatus 500, av_jwks2 = JwksStatus 500, av_now = 0,
     av_getenv = (\<lambda>_. ''s3cret'')\<rparr>"

definition demo_sign :: "string \<Rightarrow> gval gomap \<Rightarrow> string + string" where
  "demo_sign s c = (if c = token_claims ''ana'' [''ops''] 0 0 then Inr ''tok'' else Inl ''no'')"

lemma issued_token_authenticates_witness:
  "\<exists>i. snd (jwt_authenticate demo_auth_env demo_jwt_config
      \<lparr>rq_authorization = ''Bearer tok'', rq_mock_role = '''', rq_api_key = ''''\<rparr>
      \<lparr>jc_keys = [], jc_fetched = 0\<rparr>) = Inr i \<and> idn_user i = ''ana'' \<and>
    set (idn_roles i) = trim_space ` {x \<in> set [''ops'']. \<not> blank x} \<and>
    idn_functions i = legacy_functions (idn_roles i)"
proof -
  have t: "trim_space ''tok'' = ''tok''" "\<not> blank ''ops''" by code_simp+
  show ?thesis
    by (rule issued_token_authenticates [of _ demo_sign _ "[''ops'']" 0 0 "''tok''" _ _ "''ops''"])
       (auto simp: t demo_auth_env_def demo_jwt_config_def demo_sign_def issue_token_def split: if_splits)
qed

end
