(* ===== verification/Gov_Gate.thy ===== *)
theory Gov_Gate
  imports Go_Value
begin

text \<open>
  The enforcement point of package governance: the call to the policy decision point (gate.go),
  the machine token it is made with (m2m.go) and the execution report (report.go). The HTTP
  answers, the clock and the environment are arguments.
\<close>

subsection \<open>Machine token (m2m.go)\<close>

record m2m_config =
  mm_token_url :: string
  mm_client_id :: string
  mm_client_secret :: string
  mm_scope :: string

text \<open>The cached token and when it expires.\<close>

record m2m_cache =
  mc_token :: string
  mc_exp :: time

definition pdp_auth_from_env :: "(string \<Rightarrow> string) \<Rightarrow> m2m_config option" where
  "pdp_auth_from_env getenv =
    (let token_url = trim_space (getenv ''PRUDENCE_PDP_TOKEN_URL'');
         client_id = trim_space (getenv ''PRUDENCE_PDP_CLIENT_ID'');
         client_secret = trim_space (getenv ''PRUDENCE_PDP_CLIENT_SECRET'');
         scope = trim_space (getenv ''PRUDENCE_PDP_SCOPE'')
     in if token_url = '''' \<or> client_id = '''' \<or> client_secret = '''' then None
        else Some \<lparr>mm_token_url = token_url, mm_client_id = client_id, mm_client_secret = client_secret,
          mm_scope = (if scope = '''' then ''pdp.decide'' else scope)\<rparr>)"

definition token_form :: "m2m_config \<Rightarrow> (string \<times> string) list" where
  "token_form a = [(''grant_type'', ''client_credentials''), (''client_id'', mm_client_id a),
     (''client_secret'', mm_client_secret a), (''scope'', mm_scope a)]"

datatype token_answer = TokFailed string | TokStatus int string | TokUndecodable string
  | TokBody (tok_access: string) (tok_expires: int)

text \<open>
  \<open>bearer\<close>: the cached token while it is valid for 30 more seconds, else a new one. \<open>now\<close> is the
  time of the check and \<open>now'\<close> the time the answer was stored.
\<close>

definition bearer :: "token_answer \<Rightarrow> time \<Rightarrow> time \<Rightarrow> m2m_cache \<Rightarrow> m2m_cache \<times> (string + string)" where
  "bearer ans now now' c =
    (if mc_token c \<noteq> '''' \<and> now < mc_exp c - 30000000000 then (c, Inr (mc_token c))
     else (case ans of
       TokFailed err \<Rightarrow> (c, Inl err)
     | TokStatus code text \<Rightarrow>
         (c, Inl (''token endpoint status '' @ show_int code @ '': '' @ trim_space (take 512 text)))
     | TokUndecodable err \<Rightarrow> (c, Inl err)
     | TokBody access expires \<Rightarrow>
         if access = '''' then (c, Inl ''token endpoint returned no access_token'')
         else (let ttl = (if expires \<le> 0 then 300 else expires) in
           (\<lparr>mc_token = access, mc_exp = now' + wrap64 (ttl * 1000000000)\<rparr>, Inr access))))"

subsection \<open>The gate (gate.go)\<close>

definition Allow :: string where "Allow = ''ALLOW''"
definition Deny :: string where "Deny = ''DENY''"
definition ApprovalRequired :: string where "ApprovalRequired = ''APPROVAL_REQUIRED''"

record decision =
  dc_status :: string
  dc_reason :: string
  dc_approver :: string
  dc_id :: string

definition zero_decision :: decision where
  "zero_decision = \<lparr>dc_status = '''', dc_reason = '''', dc_approver = '''', dc_id = ''''\<rparr>"

record decision_request =
  dr_subject :: string
  dr_pipeline :: string
  dr_ai_system :: string
  dr_action :: string
  dr_correlation :: string

record decision_response =
  ds_decision :: string
  ds_reason :: string
  ds_approver :: string
  ds_id :: string

text \<open>The answer to a POST: no request could be built, no answer, or a status with a decoded body.\<close>

datatype pdp_answer = PdpBadRequest string | PdpUnreachable string
  | PdpAnswer int "decision_response option"

definition decision_for_status :: "int \<Rightarrow> string option" where
  "decision_for_status code = (if code = 200 then Some Allow else if code = 202 then Some ApprovalRequired
     else if code = 403 then Some Deny else None)"

text \<open>
  The world of one call: the two halves of the configuration, the token cache, the answer of the
  token endpoint, and the answer of the decision point to the request and the bearer token (none
  when the point is not secured).
\<close>

record gate_env =
  ge_auth :: "m2m_config option"
  ge_cache :: m2m_cache
  ge_token :: token_answer
  ge_now :: time
  ge_now' :: time
  ge_post :: "string \<Rightarrow> decision_request \<Rightarrow> string option \<Rightarrow> pdp_answer"
  ge_correlation :: string

definition decide_answer :: "int \<Rightarrow> decision_response option \<Rightarrow> string + decision" where
  "decide_answer code body =
    (case body of None \<Rightarrow> Inl (''governance: unreadable PDP response (status '' @ show_int code @ '')'')
     | Some dr \<Rightarrow>
       if decision_for_status code \<noteq> Some (ds_decision dr)
       then Inl (''governance: unexpected PDP answer: status '' @ show_int code @ '' with decision '' @
         go_quote (ds_decision dr))
       else if trim_space (ds_id dr) = ''''
       then Inl (''governance: PDP decision '' @ ds_decision dr @ '' without a decisionId'')
       else Inr \<lparr>dc_status = ds_decision dr, dc_reason = ds_reason dr, dc_approver = ds_approver dr,
         dc_id = ds_id dr\<rparr>)"

definition gate_request :: "gate_env \<Rightarrow> string \<Rightarrow> string \<Rightarrow> string \<Rightarrow> string \<Rightarrow> decision_request" where
  "gate_request e subject pipeline ai_system action =
    \<lparr>dr_subject = subject, dr_pipeline = pipeline, dr_ai_system = ai_system,
     dr_action = (if action = '''' then ''run'' else action), dr_correlation = ge_correlation e\<rparr>"

definition gate_post :: "gate_env \<Rightarrow> string \<Rightarrow> decision_request \<Rightarrow> string option \<Rightarrow> string + decision" where
  "gate_post e pdp_url rq tok =
    (case ge_post e (pdp_url @ ''/api/policy/decisions'') rq tok of
       PdpBadRequest err \<Rightarrow> Inl (''governance: cannot build PDP request: '' @ err)
     | PdpUnreachable err \<Rightarrow> Inl (''governance: PDP unreachable (fail-closed): '' @ err)
     | PdpAnswer code body \<Rightarrow> decide_answer code body)"

definition gate_evaluate :: "gate_env \<Rightarrow> string \<Rightarrow> string \<Rightarrow> string \<Rightarrow> string \<Rightarrow> string
    \<Rightarrow> m2m_cache \<times> (string + decision)" where
  "gate_evaluate e pdp_url subject pipeline ai_system action =
    (let rq = gate_request e subject pipeline ai_system action in
     case ge_auth e of None \<Rightarrow> (ge_cache e, gate_post e pdp_url rq None)
     | Some a \<Rightarrow> (case bearer (ge_token e) (ge_now e) (ge_now' e) (ge_cache e) of
         (c, Inl err) \<Rightarrow> (c, Inl (''governance: cannot obtain PDP token (fail-closed): '' @ err))
       | (c, Inr tok) \<Rightarrow> (c, gate_post e pdp_url rq (Some tok))))"

text \<open>\<open>Evaluate\<close>, and the verdict its duration is recorded under.\<close>

definition Evaluate :: "gate_env \<Rightarrow> string \<Rightarrow> string \<Rightarrow> string \<Rightarrow> string \<Rightarrow> string
    \<Rightarrow> m2m_cache \<times> (string + decision)" where
  "Evaluate e pdp_url subject pipeline ai_system action =
    (if pdp_url = '''' \<or> ai_system = '''' then (ge_cache e, Inr (zero_decision\<lparr>dc_status := Allow\<rparr>))
     else gate_evaluate e pdp_url subject pipeline ai_system action)"

definition gate_verdict :: "string + decision \<Rightarrow> string" where
  "gate_verdict r = (case r of Inl _ \<Rightarrow> ''ERROR'' | Inr d \<Rightarrow> dc_status d)"

subsection \<open>Execution reports (report.go)\<close>

record execution_report =
  er_runtime :: string
  er_execution :: string
  er_decision :: string
  er_ai_system :: string
  er_pipeline :: string
  er_started :: string

definition report_attempts :: nat where "report_attempts = 5"
definition report_backoff :: duration where "report_backoff = 2000000000"

definition reports_enabled :: "(string \<Rightarrow> string) \<Rightarrow> bool" where
  "reports_enabled getenv = (trim_space (getenv ''PRUDENCE_PDP_URL'') \<noteq> '''' \<and>
     \<not> equal_fold (trim_space (getenv ''PRUDENCE_REPORT_EXECUTIONS'')) ''false'')"

datatype report_answer = RepBadRequest string | RepTokenFailed string | RepUnreachable string
  | RepStatus int string

text \<open>\<open>reportExecution\<close>: whether to retry, and the error.\<close>

definition report_execution :: "report_answer \<Rightarrow> bool \<times> string option" where
  "report_execution ans = (case ans of
     RepBadRequest err \<Rightarrow> (False, Some err)
   | RepTokenFailed err \<Rightarrow> (True, Some (''cannot obtain token: '' @ err))
   | RepUnreachable err \<Rightarrow> (True, Some err)
   | RepStatus code detail \<Rightarrow>
       if code = 200 \<or> code = 201 then (False, None)
       else (500 \<le> code, Some (''Prudence answered '' @ show_int code @ '': '' @ trim_space (take 512 detail))))"

text \<open>
  The retry loop: attempt \<open>n\<close> gets the answer \<open>answers n\<close>. The result is the error (none when the
  report arrived), the number of posts and the waits between them.
\<close>

function report_loop :: "(nat \<Rightarrow> report_answer) \<Rightarrow> nat \<Rightarrow> duration \<Rightarrow> string option
    \<Rightarrow> string option \<times> nat \<times> duration list" where
  "report_loop answers attempt wait err =
    (if attempt > report_attempts then (err, attempt - 1, [])
     else (case report_execution (answers attempt) of
         (_, None) \<Rightarrow> (None, attempt, [])
       | (False, Some e) \<Rightarrow> (Some e, attempt, [])
       | (True, Some e) \<Rightarrow> (let (r, n, ws) = report_loop answers (Suc attempt) (2 * wait) (Some e)
           in (r, n, wait # ws))))"
  by auto
termination by (relation "measure (\<lambda>(_, attempt, _). Suc report_attempts - attempt)") auto

declare report_loop.simps [simp del]

definition report_execution_async :: "(string \<Rightarrow> string) \<Rightarrow> (nat \<Rightarrow> report_answer)
    \<Rightarrow> (string option \<times> nat \<times> duration list) option" where
  "report_execution_async getenv answers =
    (if trim_space (getenv ''PRUDENCE_PDP_URL'') = '''' then None
     else Some (report_loop answers 1 report_backoff None))"

subsection \<open>Facts\<close>

lemma decide_answer_Inr:
  "decide_answer code body = Inr d \<longleftrightarrow>
    (\<exists>dr. body = Some dr \<and> decision_for_status code = Some (ds_decision dr) \<and> \<not> blank (ds_id dr) \<and>
      d = \<lparr>dc_status = ds_decision dr, dc_reason = ds_reason dr, dc_approver = ds_approver dr, dc_id = ds_id dr\<rparr>)"
  by (auto simp: decide_answer_def blank_def split: option.splits)

lemma decision_for_status_Allow: "decision_for_status code = Some Allow \<longleftrightarrow> code = 200"
  by (auto simp: decision_for_status_def Allow_def ApprovalRequired_def Deny_def)

lemma bearer_Inr:
  assumes "bearer ans now now' c = (c', Inr tok)"
  shows "tok \<noteq> '''' \<and> tok = mc_token c' \<and>
    (c' = c \<and> now < mc_exp c - 30000000000 \<or>
     (\<exists>expires. ans = TokBody tok expires \<and> mc_exp c' = now' + wrap64 ((if expires \<le> 0 then 300 else expires) * 1000000000)))"
proof (cases "mc_token c \<noteq> '''' \<and> now < mc_exp c - 30000000000")
  case True
  then show ?thesis using assms by (auto simp: bearer_def)
next
  case False
  then have "(case ans of TokBody access expires \<Rightarrow> access \<noteq> '''' \<and> tok = access \<and>
      c' = \<lparr>mc_token = access, mc_exp = now' + wrap64 ((if expires \<le> 0 then 300 else expires) * 1000000000)\<rparr> | _ \<Rightarrow> False)"
    using assms by (simp add: bearer_def Let_def split: token_answer.splits if_split_asm)
  then show ?thesis by (cases ans) simp_all
qed

text \<open>The loop from attempt \<open>k\<close>: every post before the last failed and was worth retrying.\<close>

definition report_retriable :: "report_answer \<Rightarrow> bool" where
  "report_retriable a = (fst (report_execution a) \<and> snd (report_execution a) \<noteq> None)"

lemma report_loop_spec:
  "report_loop answers k w err = (r, n, ws) \<Longrightarrow> 1 \<le> k \<Longrightarrow> k \<le> Suc report_attempts \<Longrightarrow>
    k - 1 \<le> n \<and> n \<le> report_attempts \<and> (\<forall>j. k \<le> j \<and> j < n \<longrightarrow> report_retriable (answers j)) \<and>
    (n < report_attempts \<longrightarrow> k \<le> n \<and> \<not> report_retriable (answers n)) \<and>
    (k \<le> n \<longrightarrow> r = snd (report_execution (answers n))) \<and>
    (\<forall>j < length ws. ws ! j = w * 2 ^ j)"
proof (induction answers k w err arbitrary: r n ws rule: report_loop.induct)
  case (1 answers k w err)
  show ?case
  proof (cases "k > report_attempts")
    case True
    with 1(2-4) show ?thesis by (auto simp: report_loop.simps [of answers k])
  next
    case False
    obtain rt er where re: "report_execution (answers k) = (rt, er)" by fastforce
    show ?thesis
    proof (cases "rt \<and> er \<noteq> None")
      case True
      then obtain e where e: "er = Some e" "rt" by auto
      obtain r' n' ws' where rec: "report_loop answers (Suc k) (2 * w) (Some e) = (r', n', ws')"
        by (metis prod_cases3)
      have res: "r = r'" "n = n'" "ws = w # ws'"
        using 1(2) False re e rec by (auto simp: report_loop.simps [of answers k])
      have rk: "report_retriable (answers k)" using re e by (simp add: report_retriable_def)
      have "rt = True" using e(2) by simp
      from 1(1) [OF False re [symmetric] this e(1) rec] False
      have ih: "k \<le> n'" "n' \<le> report_attempts" "\<forall>j. Suc k \<le> j \<and> j < n' \<longrightarrow> report_retriable (answers j)"
        "n' < report_attempts \<longrightarrow> Suc k \<le> n' \<and> \<not> report_retriable (answers n')"
        "Suc k \<le> n' \<longrightarrow> r' = snd (report_execution (answers n'))"
        "\<forall>j < length ws'. ws' ! j = 2 * w * 2 ^ j"
        by auto
      have "r = snd (report_execution (answers n))"
      proof (cases "Suc k \<le> n'")
        case False
        with ih(1,2,4) have "n' = k" "k = report_attempts" by auto
        then show ?thesis
          using res rec re e by (subst (asm) report_loop.simps) simp
      qed (use ih res in auto)
      with ih rk res show ?thesis
        by (auto simp: nth_Cons split: nat.splits) (metis Suc_leI le_neq_implies_less)+
    next
      case False
      then have nr: "\<not> report_retriable (answers k)" using re by (auto simp: report_retriable_def)
      have "r = er" "n = k" "ws = []"
        using 1(2) \<open>\<not> k > report_attempts\<close> re False
        by (auto simp: report_loop.simps [of answers k] split: option.splits bool.splits)
      with nr re \<open>\<not> k > report_attempts\<close> show ?thesis by auto
    qed
  qed
qed

subsection \<open>Properties\<close>

text \<open>
  C10: the gate is fail-closed. For a governed call it allows the run only when the decision point
  answered status 200 with the decision ALLOW and a non-blank decision id, with a token when the
  point is secured; every other answer, and every failure to get one, is an error or another
  verdict.
\<close>

theorem gate_allows_only_recorded_allow:
  assumes "pdp_url \<noteq> ''''" "ai_system \<noteq> ''''"
  shows "(\<exists>d. snd (Evaluate e pdp_url subject pipeline ai_system action) = Inr d \<and> dc_status d = Allow) \<longleftrightarrow>
    (\<exists>tok dr. (case ge_auth e of None \<Rightarrow> tok = None
        | Some a \<Rightarrow> \<exists>t. tok = Some t \<and> snd (bearer (ge_token e) (ge_now e) (ge_now' e) (ge_cache e)) = Inr t) \<and>
      ge_post e (pdp_url @ ''/api/policy/decisions'') (gate_request e subject pipeline ai_system action) tok =
        PdpAnswer 200 (Some dr) \<and> ds_decision dr = Allow \<and> \<not> blank (ds_id dr))"
proof -
  have post: "(\<exists>d. gate_post e pdp_url rq tok = Inr d \<and> dc_status d = Allow) \<longleftrightarrow>
      (\<exists>dr. ge_post e (pdp_url @ ''/api/policy/decisions'') rq tok = PdpAnswer 200 (Some dr) \<and>
        ds_decision dr = Allow \<and> \<not> blank (ds_id dr))" for rq tok
    by (auto simp: gate_post_def decide_answer_Inr decision_for_status_Allow split: pdp_answer.splits)
  show ?thesis
  proof (cases "ge_auth e")
    case None
    then show ?thesis using assms by (simp add: Evaluate_def gate_evaluate_def Let_def post)
  next
    case (Some a)
    obtain c r where b: "bearer (ge_token e) (ge_now e) (ge_now' e) (ge_cache e) = (c, r)" by fastforce
    then show ?thesis using assms Some
      by (cases r) (simp_all add: Evaluate_def gate_evaluate_def Let_def post)
  qed
qed

definition demo_gate :: gate_env where
  "demo_gate = \<lparr>ge_auth = None, ge_cache = \<lparr>mc_token = '''', mc_exp = 0\<rparr>, ge_token = TokFailed ''no'',
     ge_now = 0, ge_now' = 0,
     ge_post = (\<lambda>url rq tok. PdpAnswer 200 (Some \<lparr>ds_decision = ''ALLOW'', ds_reason = '''',
       ds_approver = '''', ds_id = ''d-1''\<rparr>)), ge_correlation = ''t1''\<rparr>"

lemma gate_allows_only_recorded_allow_witness:
  "\<exists>d. snd (Evaluate demo_gate ''http://pdp'' ''ana'' ''pay'' ''sys-1'' '''') = Inr d \<and> dc_status d = Allow"
proof -
  have "\<not> blank ''d-1''" by code_simp
  then show ?thesis
    by (intro gate_allows_only_recorded_allow [THEN iffD2]) (auto simp: demo_gate_def Allow_def)
qed

text \<open>
  a machine token handed out is never empty, and it is either the cached one while it is valid
  for more than another 30 seconds, or the one the token endpoint just returned; a cached token
  that is about to expire is not used, and a failed request leaves the cache as it was.
\<close>

theorem bearer_token_valid:
  assumes "bearer ans now now' c = (c', r)"
  shows "case r of Inr tok \<Rightarrow> tok \<noteq> '''' \<and> mc_token c' = tok \<and>
      (c' = c \<and> now < mc_exp c - 30000000000 \<or> (\<exists>expires. ans = TokBody tok expires))
    | Inl err \<Rightarrow> c' = c \<and> (mc_token c = '''' \<or> mc_exp c - 30000000000 \<le> now)"
proof (cases r)
  case (Inr tok)
  with assms bearer_Inr [of ans now now' c c' tok] show ?thesis by auto
next
  case (Inl err)
  with assms show ?thesis by (auto simp: bearer_def Let_def split: if_splits token_answer.splits)
qed

lemma bearer_token_valid_witness:
  "mc_token (fst (bearer (TokBody ''new'' 60) 100000000000 100000000001
     \<lparr>mc_token = ''old'', mc_exp = 120000000000\<rparr>)) = ''new''"
proof -
  obtain c' r where b: "bearer (TokBody ''new'' 60) 100000000000 100000000001
     \<lparr>mc_token = ''old'', mc_exp = 120000000000\<rparr> = (c', r)" by fastforce
  then have "r = Inr ''new''" by (simp add: bearer_def Let_def)
  with b bearer_token_valid [OF b] show ?thesis by simp
qed

text \<open>
  one execution report is posted at most five times; every post but the last failed in a way
  worth retrying, the loop goes on exactly while it does, the outcome is that of the last post,
  and the waits double from two seconds.
\<close>

theorem report_loop_bounded:
  assumes "report_execution_async getenv answers = Some (r, n, ws)"
  shows "1 \<le> n \<and> n \<le> 5 \<and> r = snd (report_execution (answers n)) \<and>
    (\<forall>j. 1 \<le> j \<and> j < n \<longrightarrow> report_retriable (answers j)) \<and>
    (n < 5 \<longrightarrow> \<not> report_retriable (answers n)) \<and>
    (\<forall>j < length ws. ws ! j = 2000000000 * 2 ^ j)"
proof -
  have "report_loop answers 1 report_backoff None = (r, n, ws)"
    using assms by (auto simp: report_execution_async_def split: if_splits)
  from report_loop_spec [OF this]
  have sp: "n \<le> 5" "\<forall>j. 1 \<le> j \<and> j < n \<longrightarrow> report_retriable (answers j)"
    "n < 5 \<longrightarrow> 1 \<le> n \<and> \<not> report_retriable (answers n)" "1 \<le> n \<longrightarrow> r = snd (report_execution (answers n))"
    "\<forall>j < length ws. ws ! j = 2000000000 * 2 ^ j"
    by (auto simp: report_attempts_def report_backoff_def)
  then have "1 \<le> n" by (cases "n < 5") auto
  with sp show ?thesis by auto
qed

lemma report_loop_bounded_witness:
  "report_retriable (RepStatus 503 ''x'') \<and> \<not> report_retriable (RepStatus 201 '''')"
proof -
  let ?a = "\<lambda>n. if n = 1 then RepStatus 503 ''x'' else RepStatus 201 ''''"
  have "report_execution_async (\<lambda>_. ''http'') ?a = Some (None, 2, [2000000000])"
    by code_simp
  from report_loop_bounded [OF this] show ?thesis
    by (auto dest: spec [of _ 1])
qed

end
