(* ===== verification/State_Store.thy ===== *)
theory State_Store
  imports Go_Value "HOL-Library.Multiset"
begin

text \<open>
  Package state: execution and session records, their JSON form, the key-value stores
  (memory_store.go, sqlite_store.go) and the manager over them (manager.go). A stored value is
  the JSON document as a tree; an instant in it is its number. \<open>None\<close> stands for the empty string
  that \<open>Get\<close> returns for a missing key.
\<close>

subsection \<open>Records\<close>

record interaction =
  ia_user_message :: string
  ia_intent :: string
  ia_summary :: string

record session_state =
  ss_id :: string
  ss_interactions :: "interaction list"

record exec_state =
  es_id :: string
  es_session :: string
  es_user :: string
  es_intent :: string
  es_pipeline :: string
  es_version :: string
  es_snapshot :: gval
  es_input_digest :: string
  es_decision :: string
  es_ai_system :: string
  es_completed :: "string list"
  es_params :: "string gomap option"
  es_missing :: "string list"
  es_results :: "gval gomap"
  es_gate :: string
  es_cb_token :: string
  es_cb_data :: "gval gomap option"
  es_cb_at :: "time option"
  es_await_step :: string
  es_deadline :: "time option"
  es_status :: string
  es_error :: string
  es_created :: time

definition zero_exec :: exec_state where
  "zero_exec = \<lparr>es_id = '''', es_session = '''', es_user = '''', es_intent = '''', es_pipeline = '''',
     es_version = '''', es_snapshot = GNil, es_input_digest = '''', es_decision = '''', es_ai_system = '''',
     es_completed = [], es_params = None, es_missing = [], es_results = [], es_gate = '''',
     es_cb_token = '''', es_cb_data = None, es_cb_at = None, es_await_step = '''', es_deadline = None,
     es_status = '''', es_error = '''', es_created = 0\<rparr>"

subsection \<open>JSON form\<close>

text \<open>
  \<open>json.Marshal\<close> of the struct: the fields in order under their tags; those tagged omitempty are
  left out when empty. It fails on a number JSON cannot hold.
\<close>

definition jfield :: "bool \<Rightarrow> string \<Rightarrow> gval \<Rightarrow> gval gomap" where
  "jfield present k v = (if present then [(k, v)] else [])"

definition jstr :: "string \<Rightarrow> string \<Rightarrow> gval gomap" where
  "jstr k s = jfield (s \<noteq> '''') k (GStr s)"

definition jtime :: "string \<Rightarrow> time option \<Rightarrow> gval gomap" where
  "jtime k t = jfield (t \<noteq> None) k (GInt (case t of Some x \<Rightarrow> x | None \<Rightarrow> 0))"

definition str_map_json :: "string gomap option \<Rightarrow> gval" where
  "str_map_json m = (case m of None \<Rightarrow> GNil | Some kvs \<Rightarrow> GObj (map (\<lambda>(k, v). (k, GStr v)) kvs))"

definition cb_map :: "exec_state \<Rightarrow> gval gomap" where
  "cb_map s = (case es_cb_data s of Some d \<Rightarrow> d | None \<Rightarrow> [])"

definition exec_doc :: "exec_state \<Rightarrow> gval gomap" where
  "exec_doc s =
    jfield True ''id'' (GStr (es_id s)) @ jfield True ''session_id'' (GStr (es_session s)) @
    jstr ''user_id'' (es_user s) @
    jfield True ''intent'' (GStr (es_intent s)) @ jfield True ''pipeline'' (GStr (es_pipeline s)) @
    jstr ''pipeline_version'' (es_version s) @
    jfield (es_snapshot s \<noteq> GNil) ''pipeline_snapshot'' (es_snapshot s) @
    jstr ''input_digest'' (es_input_digest s) @ jstr ''decision_id'' (es_decision s) @
    jstr ''ai_system_id'' (es_ai_system s) @
    jfield (es_completed s \<noteq> []) ''completed_steps'' (GList (map GStr (es_completed s))) @
    jfield True ''params'' (str_map_json (es_params s)) @
    jfield True ''missing_params'' (GList (map GStr (es_missing s))) @
    jfield (es_results s \<noteq> []) ''step_results'' (json_norm (GObj (es_results s))) @
    jfield True ''gate'' (GStr (es_gate s)) @ jstr ''callback_token'' (es_cb_token s) @
    jfield (cb_map s \<noteq> []) ''callback_data'' (json_norm (GObj (cb_map s))) @
    jtime ''callback_at'' (es_cb_at s) @ jstr ''await_step'' (es_await_step s) @
    jtime ''await_deadline'' (es_deadline s) @
    jstr ''status'' (es_status s) @ jstr ''error'' (es_error s) @
    jfield True ''created_at'' (GInt (es_created s))"

definition exec_json_ok :: "exec_state \<Rightarrow> bool" where
  "exec_json_ok s = (json_ok (GObj (es_results s)) \<and> json_ok (GObj (cb_map s)))"

definition exec_to_json :: "exec_state \<Rightarrow> gval option" where
  "exec_to_json s = (if exec_json_ok s then Some (GObj (exec_doc s)) else None)"

text \<open>\<open>json.Unmarshal\<close> into the struct, for documents that \<open>exec_to_json\<close> can produce.\<close>

definition json_str :: "gval gomap \<Rightarrow> string \<Rightarrow> string" where
  "json_str m k = str_of m k"

definition json_strs :: "gval gomap \<Rightarrow> string \<Rightarrow> string list" where
  "json_strs m k = (case as_list (mget m k) of None \<Rightarrow> [] | Some xs \<Rightarrow> List.map_filter (\<lambda>v. as_str (Some v)) xs)"

definition json_time :: "gval gomap \<Rightarrow> string \<Rightarrow> time option" where
  "json_time m k = (case mget m k of Some (GInt t) \<Rightarrow> Some t | _ \<Rightarrow> None)"

definition json_str_map :: "gval gomap \<Rightarrow> string \<Rightarrow> string gomap option" where
  "json_str_map m k = (case as_obj (mget m k) of None \<Rightarrow> None
     | Some kvs \<Rightarrow> Some (List.map_filter (\<lambda>(k, v). case v of GStr s \<Rightarrow> Some (k, s) | _ \<Rightarrow> None) kvs))"

definition exec_of_json :: "gval \<Rightarrow> exec_state option" where
  "exec_of_json v = (case v of GObj m \<Rightarrow> Some
     \<lparr>es_id = json_str m ''id'', es_session = json_str m ''session_id'', es_user = json_str m ''user_id'',
      es_intent = json_str m ''intent'', es_pipeline = json_str m ''pipeline'',
      es_version = json_str m ''pipeline_version'',
      es_snapshot = (case mget m ''pipeline_snapshot'' of Some x \<Rightarrow> x | None \<Rightarrow> GNil),
      es_input_digest = json_str m ''input_digest'', es_decision = json_str m ''decision_id'',
      es_ai_system = json_str m ''ai_system_id'', es_completed = json_strs m ''completed_steps'',
      es_params = json_str_map m ''params'', es_missing = json_strs m ''missing_params'',
      es_results = (case as_obj (mget m ''step_results'') of Some r \<Rightarrow> r | None \<Rightarrow> []),
      es_gate = json_str m ''gate'', es_cb_token = json_str m ''callback_token'',
      es_cb_data = as_obj (mget m ''callback_data''), es_cb_at = json_time m ''callback_at'',
      es_await_step = json_str m ''await_step'', es_deadline = json_time m ''await_deadline'',
      es_status = json_str m ''status'', es_error = json_str m ''error'',
      es_created = (case json_time m ''created_at'' of Some t \<Rightarrow> t | None \<Rightarrow> 0)\<rparr>
   | _ \<Rightarrow> None)"

text \<open>What a record is after it was stored and read: numbers are floats, and a callback's empty data
  is gone.\<close>

definition norm_map :: "gval gomap \<Rightarrow> gval gomap" where
  "norm_map m = map (\<lambda>(k, v). (k, json_norm v)) m"

definition exec_norm :: "exec_state \<Rightarrow> exec_state" where
  "exec_norm s = s\<lparr>es_results := norm_map (es_results s),
     es_cb_data := (if cb_map s = [] then None else Some (norm_map (cb_map s)))\<rparr>"

subsection \<open>Key-value stores\<close>

text \<open>memory_store.go: an entry is a value and the time it expires at; 0 is the zero time, never.\<close>

record 'v mem_entry =
  mn_value :: 'v
  mn_expires :: time

type_synonym 'v mem_store = "'v mem_entry gomap"

definition mem_expired :: "time \<Rightarrow> 'v mem_entry \<Rightarrow> bool" where
  "mem_expired now e = (mn_expires e \<noteq> 0 \<and> mn_expires e \<le> now)"

definition mem_get :: "time \<Rightarrow> string \<Rightarrow> 'v mem_store \<Rightarrow> 'v mem_store \<times> 'v option" where
  "mem_get now key m = (case mget m key of None \<Rightarrow> (m, None)
     | Some e \<Rightarrow> if mem_expired now e then (mdel m key, None) else (m, Some (mn_value e)))"

definition mem_set :: "time \<Rightarrow> string \<Rightarrow> 'v \<Rightarrow> duration \<Rightarrow> 'v mem_store \<Rightarrow> 'v mem_store" where
  "mem_set now key v ttl m = mput m key \<lparr>mn_value = v, mn_expires = (if ttl > 0 then now + ttl else 0)\<rparr>"

definition mem_delete :: "string \<Rightarrow> 'v mem_store \<Rightarrow> 'v mem_store" where
  "mem_delete key m = mdel m key"

definition mem_list_keys :: "time \<Rightarrow> string \<Rightarrow> 'v mem_store \<Rightarrow> 'v mem_store \<times> string list" where
  "mem_list_keys now prefix m =
    (let live = filter (\<lambda>(k, e). \<not> mem_expired now e) m in
     (live, filter (\<lambda>k. has_prefix k prefix) (map fst live)))"

text \<open>sqlite_store.go: the rows of the table, with the expiry in Unix milliseconds or NULL.\<close>

record 'v sql_row =
  sr_value :: 'v
  sr_expires :: "int option"

type_synonym 'v sql_store = "'v sql_row gomap"

definition unix_milli :: "time \<Rightarrow> int" where
  "unix_milli t = t div 1000000 - 62135596800000"

definition sql_live :: "time \<Rightarrow> 'v sql_row \<Rightarrow> bool" where
  "sql_live now r = (case sr_expires r of None \<Rightarrow> True | Some e \<Rightarrow> unix_milli now < e)"

definition sql_get :: "time \<Rightarrow> string \<Rightarrow> 'v sql_store \<Rightarrow> 'v option" where
  "sql_get now key m = (case mget m key of None \<Rightarrow> None
     | Some r \<Rightarrow> if sql_live now r then Some (sr_value r) else None)"

definition sql_set :: "time \<Rightarrow> string \<Rightarrow> 'v \<Rightarrow> duration \<Rightarrow> 'v sql_store \<Rightarrow> 'v sql_store" where
  "sql_set now key v ttl m =
    mput m key \<lparr>sr_value = v, sr_expires = (if ttl > 0 then Some (unix_milli (now + ttl)) else None)\<rparr>"

definition sql_set_persistent :: "time \<Rightarrow> string \<Rightarrow> 'v \<Rightarrow> 'v sql_store \<Rightarrow> 'v sql_store" where
  "sql_set_persistent now key v m = sql_set now key v 0 m"

definition sql_delete :: "string \<Rightarrow> 'v sql_store \<Rightarrow> 'v sql_store" where
  "sql_delete key m = mdel m key"

definition sql_list_keys :: "time \<Rightarrow> string \<Rightarrow> 'v sql_store \<Rightarrow> string list" where
  "sql_list_keys now prefix m =
    sort (map fst (filter (\<lambda>(k, r). take (length prefix) k = prefix \<and> sql_live now r) m))"

subsection \<open>The manager\<close>

text \<open>
  The manager is written against the interface: \<open>get\<close>, \<open>set\<close> (with a time to live), \<open>delete\<close>
  and \<open>list\<close> of a store. \<open>Inl\<close> is the error of a document that cannot be encoded or decoded.
\<close>

record 's store_ops =
  so_get :: "time \<Rightarrow> string \<Rightarrow> 's \<Rightarrow> 's \<times> gval option"
  so_set :: "time \<Rightarrow> string \<Rightarrow> gval \<Rightarrow> duration \<Rightarrow> 's \<Rightarrow> 's"
  so_delete :: "string \<Rightarrow> 's \<Rightarrow> 's"
  so_list :: "time \<Rightarrow> string \<Rightarrow> 's \<Rightarrow> 's \<times> string list"

definition mem_ops :: "gval mem_store store_ops" where
  "mem_ops = \<lparr>so_get = mem_get, so_set = mem_set, so_delete = mem_delete, so_list = mem_list_keys\<rparr>"

definition sql_ops :: "gval sql_store store_ops" where
  "sql_ops = \<lparr>so_get = (\<lambda>now k m. (m, sql_get now k m)), so_set = sql_set, so_delete = sql_delete,
     so_list = (\<lambda>now p m. (m, sql_list_keys now p m))\<rparr>"

definition task_key :: "string \<Rightarrow> string" where "task_key i = ''task:'' @ i"
definition session_key :: "string \<Rightarrow> string" where "session_key i = ''session:'' @ i"

definition stamp_created :: "time \<Rightarrow> exec_state \<Rightarrow> exec_state" where
  "stamp_created now st = (if es_created st = 0 then st\<lparr>es_created := now\<rparr> else st)"

definition sm_save :: "'s store_ops \<Rightarrow> time \<Rightarrow> exec_state \<Rightarrow> 's \<Rightarrow> 's \<times> string option" where
  "sm_save ops now st0 s =
    (let st = stamp_created now st0 in
     case exec_to_json st of None \<Rightarrow> (s, Some ''json: unsupported value'')
     | Some doc \<Rightarrow> (so_set ops now (task_key (es_id st)) doc 0 s, None))"

definition sm_load :: "'s store_ops \<Rightarrow> time \<Rightarrow> string \<Rightarrow> 's \<Rightarrow> 's \<times> (string + exec_state option)" where
  "sm_load ops now i s =
    (case so_get ops now (task_key i) s of (s', None) \<Rightarrow> (s', Inr None)
     | (s', Some doc) \<Rightarrow> (case exec_of_json doc of None \<Rightarrow> (s', Inl ''json: cannot unmarshal'')
         | Some st \<Rightarrow> (s', Inr (Some st))))"

definition sm_delete :: "'s store_ops \<Rightarrow> string \<Rightarrow> 's \<Rightarrow> 's" where
  "sm_delete ops i s = so_delete ops (task_key i) s"

fun load_states :: "'s store_ops \<Rightarrow> time \<Rightarrow> string list \<Rightarrow> 's \<Rightarrow> 's \<times> exec_state list" where
  "load_states ops now [] s = (s, [])"
| "load_states ops now (k # ks) s =
    (case so_get ops now k s of (s1, v) \<Rightarrow>
      (case load_states ops now ks s1 of (s2, sts) \<Rightarrow>
        (s2, (case v of None \<Rightarrow> sts
          | Some doc \<Rightarrow> (case exec_of_json doc of None \<Rightarrow> sts | Some st \<Rightarrow> st # sts)))))"

text \<open>
  The exchange sort of \<open>ListExecutionStates\<close>: the inner loop compares the element at \<open>i\<close> with each
  later one and swaps when the later one is newer.
\<close>

fun exchange_pass :: "exec_state \<Rightarrow> exec_state list \<Rightarrow> exec_state \<times> exec_state list" where
  "exchange_pass x [] = (x, [])"
| "exchange_pass x (y # ys) =
    (if es_created x < es_created y
     then (case exchange_pass y ys of (m, r) \<Rightarrow> (m, x # r))
     else (case exchange_pass x ys of (m, r) \<Rightarrow> (m, y # r)))"

lemma exchange_pass_length: "length (snd (exchange_pass x ys)) = length ys"
  by (induction x ys rule: exchange_pass.induct) (auto split: prod.splits)

function exchange_sort :: "exec_state list \<Rightarrow> exec_state list" where
  "exchange_sort [] = []"
| "exchange_sort (x # xs) = fst (exchange_pass x xs) # exchange_sort (snd (exchange_pass x xs))"
  by pat_completeness auto
termination by (relation "measure length") (auto simp: exchange_pass_length)

definition sm_list :: "'s store_ops \<Rightarrow> time \<Rightarrow> 's \<Rightarrow> 's \<times> exec_state list" where
  "sm_list ops now s =
    (case so_list ops now ''task:'' s of (s1, keys) \<Rightarrow>
      (case load_states ops now keys s1 of (s2, sts) \<Rightarrow> (s2, exchange_sort sts)))"

definition max_turns :: nat where "max_turns = 5"

definition trim_session :: "session_state \<Rightarrow> session_state" where
  "trim_session st = (if length (ss_interactions st) > max_turns
     then st\<lparr>ss_interactions := drop (length (ss_interactions st) - max_turns) (ss_interactions st)\<rparr> else st)"

definition interaction_json :: "interaction \<Rightarrow> gval" where
  "interaction_json i = GObj [(''user_message'', GStr (ia_user_message i)), (''intent'', GStr (ia_intent i)),
     (''summary'', GStr (ia_summary i))]"

definition session_to_json :: "session_state \<Rightarrow> gval" where
  "session_to_json st = GObj [(''id'', GStr (ss_id st)), (''interactions'', GList (map interaction_json (ss_interactions st)))]"

definition interaction_of_json :: "gval \<Rightarrow> interaction option" where
  "interaction_of_json v = (case v of GObj m \<Rightarrow> Some \<lparr>ia_user_message = json_str m ''user_message'',
     ia_intent = json_str m ''intent'', ia_summary = json_str m ''summary''\<rparr> | _ \<Rightarrow> None)"

definition session_of_json :: "gval \<Rightarrow> session_state option" where
  "session_of_json v = (case v of GObj m \<Rightarrow> Some \<lparr>ss_id = json_str m ''id'',
     ss_interactions = (case as_list (mget m ''interactions'') of None \<Rightarrow> []
       | Some xs \<Rightarrow> List.map_filter interaction_of_json xs)\<rparr> | _ \<Rightarrow> None)"

definition sm_save_session :: "'s store_ops \<Rightarrow> time \<Rightarrow> session_state \<Rightarrow> 's \<Rightarrow> 's" where
  "sm_save_session ops now st s =
    so_set ops now (session_key (ss_id st)) (session_to_json (trim_session st)) (24 * 3600 * 1000000000) s"

definition sm_load_session :: "'s store_ops \<Rightarrow> time \<Rightarrow> string \<Rightarrow> 's \<Rightarrow> 's \<times> (string + session_state)" where
  "sm_load_session ops now i s =
    (case so_get ops now (session_key i) s of (s', None) \<Rightarrow> (s', Inr \<lparr>ss_id = i, ss_interactions = []\<rparr>)
     | (s', Some doc) \<Rightarrow> (case session_of_json doc of None \<Rightarrow> (s', Inl ''json: cannot unmarshal'')
         | Some st \<Rightarrow> (s', Inr st)))"

subsection \<open>Round trip of a record\<close>

declare map_of_append [simp del]

lemma mget_jfield: "mget (jfield b k v @ m) k' = (if b \<and> k' = k then Some v else mget m k')"
  by (auto simp: jfield_def map_of_append)

lemma mget_jfield_last: "mget (jfield b k v) k' = (if b \<and> k' = k then Some v else None)"
  by (auto simp: jfield_def map_of_append)

lemmas exec_doc_fields = exec_doc_def jstr_def jtime_def mget_jfield mget_jfield_last

lemma map_filter_GStr [simp]: "List.map_filter (\<lambda>v. as_str (Some v)) (map GStr xs) = xs"
  by (induction xs) (auto simp: List.map_filter_simps)

lemma map_filter_str_pairs [simp]:
  "List.map_filter (\<lambda>(k, v). case v of GStr s \<Rightarrow> Some (k, s) | _ \<Rightarrow> None) (map (\<lambda>(k, v). (k, GStr v)) kvs) = kvs"
  by (induction kvs) (auto simp: List.map_filter_simps)

lemma exec_doc_strings:
  "json_str (exec_doc s) ''id'' = es_id s" "json_str (exec_doc s) ''session_id'' = es_session s"
  "json_str (exec_doc s) ''user_id'' = es_user s" "json_str (exec_doc s) ''intent'' = es_intent s"
  "json_str (exec_doc s) ''pipeline'' = es_pipeline s" "json_str (exec_doc s) ''pipeline_version'' = es_version s"
  "json_str (exec_doc s) ''input_digest'' = es_input_digest s"
  "json_str (exec_doc s) ''decision_id'' = es_decision s"
  "json_str (exec_doc s) ''ai_system_id'' = es_ai_system s"
  "json_str (exec_doc s) ''gate'' = es_gate s" "json_str (exec_doc s) ''callback_token'' = es_cb_token s"
  "json_str (exec_doc s) ''await_step'' = es_await_step s" "json_str (exec_doc s) ''status'' = es_status s"
  "json_str (exec_doc s) ''error'' = es_error s"
  by (simp_all add: json_str_def str_of_def exec_doc_fields)

lemma exec_doc_times:
  "json_time (exec_doc s) ''callback_at'' = es_cb_at s"
  "json_time (exec_doc s) ''await_deadline'' = es_deadline s"
  "json_time (exec_doc s) ''created_at'' = Some (es_created s)"
  by (auto simp: json_time_def exec_doc_fields split: option.splits)

lemma exec_doc_lists:
  "json_strs (exec_doc s) ''completed_steps'' = es_completed s"
  "json_strs (exec_doc s) ''missing_params'' = es_missing s"
  "json_str_map (exec_doc s) ''params'' = es_params s"
  "(case mget (exec_doc s) ''pipeline_snapshot'' of Some x \<Rightarrow> x | None \<Rightarrow> GNil) = es_snapshot s"
  by (auto simp: json_strs_def json_str_map_def str_map_json_def exec_doc_fields List.map_filter_simps
      split: option.splits)

lemma exec_doc_maps:
  "(case as_obj (mget (exec_doc s) ''step_results'') of Some r \<Rightarrow> r | None \<Rightarrow> []) = norm_map (es_results s)"
  "as_obj (mget (exec_doc s) ''callback_data'') = (if cb_map s = [] then None else Some (norm_map (cb_map s)))"
  by (auto simp: norm_map_def exec_doc_fields)

lemma exec_json_roundtrip: "exec_to_json s = Some doc \<Longrightarrow> exec_of_json doc = Some (exec_norm s)"
  by (auto simp: exec_to_json_def exec_of_json_def exec_doc_strings exec_doc_times exec_doc_lists
      exec_doc_maps exec_norm_def split: if_splits)

lemma norm_map_idem: "norm_map (norm_map m) = norm_map m"
proof -
  have "json_norm (json_norm v) = json_norm v" for v
    by (induction v) auto
  then show ?thesis by (auto simp: norm_map_def)
qed

lemma norm_map_Nil [simp]: "norm_map [] = []"
  by (simp add: norm_map_def)

lemma norm_map_eq_Nil [simp]: "norm_map m = [] \<longleftrightarrow> m = []"
  by (simp add: norm_map_def)

lemma cb_map_norm [simp]: "cb_map (exec_norm s) = norm_map (cb_map s)"
  by (simp add: cb_map_def exec_norm_def)

lemma exec_norm_idem: "exec_norm (exec_norm s) = exec_norm s"
  by (cases s) (simp add: exec_norm_def cb_map_def norm_map_idem)

subsection \<open>The exchange sort\<close>

lemma exchange_pass_spec:
  "exchange_pass x ys = (m, r) \<Longrightarrow> mset (m # r) = mset (x # ys) \<and>
    (\<forall>z \<in> set (x # ys). es_created z \<le> es_created m)"
proof (induction x ys arbitrary: m r rule: exchange_pass.induct)
  case (2 x y ys)
  show ?case
  proof (cases "es_created x < es_created y")
    case True
    then obtain r' where p: "exchange_pass y ys = (m, r')" "r = x # r'"
      using 2(3) by (auto split: prod.splits)
    from 2(1) [OF True p(1)] p(2) True show ?thesis by auto
  next
    case False
    then obtain r' where p: "exchange_pass x ys = (m, r')" "r = y # r'"
      using 2(3) by (auto split: prod.splits)
    from 2(2) [OF False p(1)] p(2) False show ?thesis by auto
  qed
qed simp

lemma exchange_sort_mset: "mset (exchange_sort xs) = mset xs"
proof (induction xs rule: exchange_sort.induct)
  case (2 x xs)
  obtain m r where p: "exchange_pass x xs = (m, r)" by fastforce
  with 2 exchange_pass_spec [OF p] show ?case by simp
qed simp

lemma exchange_sort_set: "set (exchange_sort xs) = set xs"
  by (metis exchange_sort_mset set_mset_mset)

lemma exchange_sort_sorted: "sorted_wrt (\<lambda>a b. es_created b \<le> es_created a) (exchange_sort xs)"
proof (induction xs rule: exchange_sort.induct)
  case (2 x xs)
  obtain m r where p: "exchange_pass x xs = (m, r)" by fastforce
  have "set r \<subseteq> set (x # xs)"
    using exchange_pass_spec [OF p] by (metis list.set_intros(2) set_mset_mset subsetI)
  with 2 p exchange_pass_spec [OF p] show ?case by (auto simp: exchange_sort_set)
qed simp

subsection \<open>The store contract\<close>

text \<open>
  What the manager relies on. A value stored without a time to live stays; one with a time to live
  is there until a millisecond before it ends and gone once it ended; other keys are not touched;
  reading and listing change nothing that a later read sees; a listing gives the live keys of a
  prefix.
\<close>

locale kv_store =
  fixes ops :: "'s store_ops" and inv :: "'s \<Rightarrow> bool"
  assumes get_inv: "inv s \<Longrightarrow> inv (fst (so_get ops now k s))"
    and set_inv: "inv s \<Longrightarrow> inv (so_set ops now k v ttl s)"
    and delete_inv: "inv s \<Longrightarrow> inv (so_delete ops k s)"
    and list_inv: "inv s \<Longrightarrow> inv (fst (so_list ops now p s))"
    and get_set_forever: "ttl \<le> 0 \<Longrightarrow> snd (so_get ops now' k (so_set ops now k v ttl s)) = Some v"
    and get_set_live: "0 < ttl \<Longrightarrow> now' \<le> now + ttl - 1000000 \<Longrightarrow>
      snd (so_get ops now' k (so_set ops now k v ttl s)) = Some v"
    and get_set_expired: "0 < ttl \<Longrightarrow> 0 \<le> now \<Longrightarrow> now + ttl \<le> now' \<Longrightarrow>
      snd (so_get ops now' k (so_set ops now k v ttl s)) = None"
    and get_set_other: "k' \<noteq> k \<Longrightarrow> snd (so_get ops now' k' (so_set ops now k v ttl s)) = snd (so_get ops now' k' s)"
    and get_delete: "snd (so_get ops now k' (so_delete ops k s)) = (if k' = k then None else snd (so_get ops now k' s))"
    and get_get: "now \<le> now' \<Longrightarrow> snd (so_get ops now' k' (fst (so_get ops now k s))) = snd (so_get ops now' k' s)"
    and get_list: "inv s \<Longrightarrow> now \<le> now' \<Longrightarrow> snd (so_get ops now' k (fst (so_list ops now p s))) = snd (so_get ops now' k s)"
    and list_keys: "inv s \<Longrightarrow> set (snd (so_list ops now p s)) = {k. has_prefix k p \<and> snd (so_get ops now k s) \<noteq> None}"
    and list_distinct: "inv s \<Longrightarrow> distinct (snd (so_list ops now p s))"
begin

text \<open>The record a load finds, as a function of the task id.\<close>

definition task_at :: "time \<Rightarrow> string \<Rightarrow> 's \<Rightarrow> exec_state option" where
  "task_at now i s = (case snd (so_get ops now (task_key i) s) of None \<Rightarrow> None | Some doc \<Rightarrow> exec_of_json doc)"

lemma task_key_inj: "task_key i = task_key j \<longleftrightarrow> i = j"
  by (simp add: task_key_def)

lemma save_ok: "exec_json_ok st \<Longrightarrow> snd (sm_save ops now st s) = None"
  by (auto simp: sm_save_def exec_to_json_def exec_json_ok_def stamp_created_def cb_map_def Let_def)

lemma save_then_load:
  assumes "exec_json_ok st"
  shows "snd (sm_load ops now' (es_id st) (fst (sm_save ops now st s))) = Inr (Some (exec_norm (stamp_created now st)))"
proof -
  have ok: "exec_json_ok (stamp_created now st)" "es_id (stamp_created now st) = es_id st"
    using assms by (auto simp: exec_json_ok_def stamp_created_def cb_map_def)
  then obtain doc where doc: "exec_to_json (stamp_created now st) = Some doc"
    by (auto simp: exec_to_json_def)
  have "snd (so_get ops now' (task_key (es_id st)) (fst (sm_save ops now st s))) = Some doc"
    using doc ok by (simp add: sm_save_def Let_def get_set_forever)
  then show ?thesis
    using exec_json_roundtrip [OF doc]
    by (auto simp: sm_load_def split: prod.splits)
qed

lemma save_keeps_others:
  "j \<noteq> es_id st \<Longrightarrow> snd (sm_load ops now' j (fst (sm_save ops now st s))) = snd (sm_load ops now' j s)"
proof -
  assume "j \<noteq> es_id st"
  then have "snd (so_get ops now' (task_key j) (fst (sm_save ops now st s))) = snd (so_get ops now' (task_key j) s)"
    by (auto simp: sm_save_def Let_def stamp_created_def get_set_other task_key_inj split: option.splits)
  then show ?thesis by (auto simp: sm_load_def split: prod.splits option.splits)
qed

lemma delete_then_load: "snd (sm_load ops now i (sm_delete ops i s)) = Inr None"
  using get_delete [of now "task_key i" "task_key i" s]
  by (auto simp: sm_load_def sm_delete_def split: prod.splits)

lemma load_states_spec:
  "snd (load_states ops now ks s) =
    List.map_filter (\<lambda>k. case snd (so_get ops now k s) of None \<Rightarrow> None | Some doc \<Rightarrow> exec_of_json doc) ks"
proof (induction ks arbitrary: s)
  case (Cons k ks)
  have "snd (load_states ops now ks (fst (so_get ops now k s))) =
    List.map_filter (\<lambda>k. case snd (so_get ops now k s) of None \<Rightarrow> None | Some doc \<Rightarrow> exec_of_json doc) ks"
    using Cons [of "fst (so_get ops now k s)"] get_get [of now now] by simp
  then show ?case
    by (auto simp: List.map_filter_simps split: prod.splits option.splits)
qed (simp add: List.map_filter_simps)

lemma set_load_states:
  "set (snd (load_states ops now ks s)) =
    {st. \<exists>k \<in> set ks. \<exists>doc. snd (so_get ops now k s) = Some doc \<and> exec_of_json doc = Some st}"
  unfolding load_states_spec
  by (force simp: List.map_filter_def image_iff split: option.splits)

lemma list_is_all_tasks:
  assumes "inv s"
  shows "set (snd (sm_list ops now s)) = {st. \<exists>i. task_at now i s = Some st}"
proof -
  obtain s1 keys where l: "so_list ops now ''task:'' s = (s1, keys)" by fastforce
  obtain s2 sts where ld: "load_states ops now keys s1 = (s2, sts)" by fastforce
  have keys: "set keys = {k. has_prefix k ''task:'' \<and> snd (so_get ops now k s) \<noteq> None}"
    using list_keys [OF assms, of now "''task:''"] l by simp
  have same: "snd (so_get ops now k s1) = snd (so_get ops now k s)" for k
    using get_list [OF assms, of now now k "''task:''"] l by simp
  have "set (snd (sm_list ops now s)) = set sts"
    using l ld by (simp add: sm_list_def exchange_sort_set)
  also have "\<dots> = {st. \<exists>k \<in> set keys. \<exists>doc. snd (so_get ops now k s) = Some doc \<and> exec_of_json doc = Some st}"
    using set_load_states [of now keys s1] ld same by simp
  also have "\<dots> = {st. \<exists>i. task_at now i s = Some st}"
    by (auto simp: keys task_at_def task_key_def has_prefix_iff split: option.splits)
  finally show ?thesis .
qed

end

subsection \<open>Both stores meet the contract\<close>

lemma distinct_keys_update: "distinct (map fst m) \<Longrightarrow> distinct (map fst (mput m k v))"
  by (rule distinct_update)

lemma mem_get_fst: "mget (fst (mem_get now k m)) k' =
    (if k' = k \<and> (case mget m k of None \<Rightarrow> False | Some e \<Rightarrow> mem_expired now e) then None else mget m k')"
  by (auto simp: mem_get_def split: option.splits)

lemma mem_get_snd: "snd (mem_get now k m) =
    (case mget m k of None \<Rightarrow> None | Some e \<Rightarrow> if mem_expired now e then None else Some (mn_value e))"
  by (auto simp: mem_get_def split: option.splits)

lemma mem_expired_mono: "mem_expired now e \<Longrightarrow> now \<le> now' \<Longrightarrow> mem_expired now' e"
  by (auto simp: mem_expired_def)

lemma mem_list_fst: "distinct (map fst m) \<Longrightarrow> mget (fst (mem_list_keys now p m)) k =
    (case mget m k of None \<Rightarrow> None | Some e \<Rightarrow> if mem_expired now e then None else Some e)"
proof (induction m)
  case (Cons x m)
  then show ?case
    by (cases x) (force simp: mem_list_keys_def Let_def map_of_eq_None_iff split: option.splits)
qed (simp add: mem_list_keys_def)

lemma mem_list_snd: "distinct (map fst m) \<Longrightarrow>
    set (snd (mem_list_keys now p m)) = {k. has_prefix k p \<and> (\<exists>e. mget m k = Some e \<and> \<not> mem_expired now e)}"
  by (force simp: mem_list_keys_def Let_def)

lemma unix_milli_mono: "t \<le> t' \<Longrightarrow> unix_milli t \<le> unix_milli t'"
  by (simp add: unix_milli_def zdiv_mono1)

lemma unix_milli_later: "t + 1000000 \<le> t' \<Longrightarrow> unix_milli t < unix_milli t'"
proof -
  assume "t + 1000000 \<le> t'"
  then have "(t + 1000000) div 1000000 \<le> t' div 1000000" by (rule zdiv_mono1) simp
  then show ?thesis by (simp add: unix_milli_def)
qed

lemma mem_live: "snd (mem_get now k m) \<noteq> None \<longleftrightarrow> (\<exists>e. mget m k = Some e \<and> \<not> mem_expired now e)"
  by (auto simp: mem_get_snd split: option.splits)

lemma mem_list_distinct: "distinct (map fst m) \<Longrightarrow> distinct (snd (mem_list_keys now p m))"
  by (auto simp: mem_list_keys_def Let_def distinct_map_filter)

lemma sql_get_set: "sql_get now' k' (sql_set now k v ttl m) =
    (if k' = k then (if 0 < ttl \<and> unix_milli (now + ttl) \<le> unix_milli now' then None else Some v)
     else sql_get now' k' m)"
  by (auto simp: sql_get_def sql_set_def sql_live_def)

lemma sql_list_set: "distinct (map fst m) \<Longrightarrow>
    set (sql_list_keys now p m) = {k. has_prefix k p \<and> sql_get now k m \<noteq> None}"
proof -
  assume d: "distinct (map fst m)"
  have "sql_get now k m \<noteq> None \<longleftrightarrow> (\<exists>r. (k, r) \<in> set m \<and> sql_live now r)" for k
    by (simp only: map_of_eq_Some_iff [OF d, symmetric]) (auto simp: sql_get_def split: option.splits)
  then show ?thesis by (force simp: sql_list_keys_def has_prefix_def)
qed

text \<open>The invariant of both: one entry per key.\<close>

interpretation mem_kv: kv_store mem_ops "\<lambda>m. distinct (map fst m)"
  apply unfold_locales
              apply (simp add: mem_ops_def mem_get_def distinct_delete split: option.splits)
             apply (simp add: mem_ops_def mem_set_def distinct_update)
            apply (simp add: mem_ops_def mem_delete_def distinct_delete)
           apply (simp add: mem_ops_def mem_list_keys_def Let_def distinct_map_filter)
          apply (simp add: mem_ops_def mem_get_snd mem_set_def mem_expired_def)
         apply (simp add: mem_ops_def mem_get_snd mem_set_def mem_expired_def)
        apply (simp add: mem_ops_def mem_get_snd mem_set_def mem_expired_def)
       apply (simp add: mem_ops_def mem_get_snd mem_set_def)
      apply (simp add: mem_ops_def mem_get_snd mem_delete_def)
     apply (auto simp: mem_ops_def mem_get_snd mem_get_fst split: option.splits dest: mem_expired_mono)[1]
    apply (auto simp: mem_ops_def mem_get_snd mem_list_fst split: option.splits dest: mem_expired_mono)[1]
   apply (simp only: mem_ops_def mem_list_snd mem_live store_ops.simps)
  apply (simp add: mem_ops_def mem_list_distinct)
  done

interpretation sql_kv: kv_store sql_ops "\<lambda>m. distinct (map fst m)"
  apply unfold_locales
              apply (simp add: sql_ops_def)
             apply (simp add: sql_ops_def sql_set_def distinct_update)
            apply (simp add: sql_ops_def sql_delete_def distinct_delete)
           apply (simp add: sql_ops_def)
          apply (simp add: sql_ops_def sql_get_set)
         apply (simp add: sql_ops_def sql_get_set unix_milli_later not_le)
        apply (simp add: sql_ops_def sql_get_set unix_milli_mono)
       apply (simp add: sql_ops_def sql_get_set)
      apply (simp add: sql_ops_def sql_get_def sql_delete_def)
     apply (simp add: sql_ops_def)
    apply (simp add: sql_ops_def)
   apply (simp add: sql_ops_def sql_list_set)
  apply (simp add: sql_ops_def sql_list_keys_def distinct_map_filter)
  done

subsection \<open>Properties\<close>

text \<open>
  an execution record survives its JSON form: decoding what was encoded gives the record, with
  numbers as floats and an empty callback payload gone (omitempty), and storing it again changes
  nothing more. Encoding fails only on a number JSON cannot hold.
\<close>

theorem exec_json_codec:
  "(exec_to_json s = None \<longleftrightarrow> \<not> exec_json_ok s) \<and>
   (exec_json_ok s \<longrightarrow> (\<exists>doc. exec_to_json s = Some doc \<and> exec_of_json doc = Some (exec_norm s))) \<and>
   exec_norm (exec_norm s) = exec_norm s"
  using exec_json_roundtrip [of s] by (auto simp: exec_to_json_def exec_norm_idem)

definition demo_exec :: exec_state where
  "demo_exec = zero_exec\<lparr>es_id := ''t1'', es_pipeline := ''pay'', es_params := Some [(''a'', ''1'')],
     es_results := [(''look'', GObj [(''n'', GInt 3)])], es_cb_data := Some []\<rparr>"

lemma exec_json_codec_witness:
  "\<exists>doc. exec_to_json demo_exec = Some doc \<and> exec_of_json doc = Some (exec_norm demo_exec)"
  using exec_json_codec [of demo_exec]
  by (simp add: exec_json_ok_def demo_exec_def zero_exec_def cb_map_def)

lemma state_manager_save_load_parts:
  assumes "exec_json_ok st"
  shows "snd (sm_load mem_ops now' (es_id st) (fst (sm_save mem_ops now st m))) = Inr (Some (exec_norm (stamp_created now st)))"
    and "snd (sm_load sql_ops now' (es_id st) (fst (sm_save sql_ops now st q))) = Inr (Some (exec_norm (stamp_created now st)))"
    and "j \<noteq> es_id st \<Longrightarrow> snd (sm_load mem_ops now' j (fst (sm_save mem_ops now st m))) = snd (sm_load mem_ops now' j m)"
    and "j \<noteq> es_id st \<Longrightarrow> snd (sm_load sql_ops now' j (fst (sm_save sql_ops now st q))) = snd (sm_load sql_ops now' j q)"
    and "snd (sm_load mem_ops now j (sm_delete mem_ops j m)) = Inr None"
    and "snd (sm_load sql_ops now j (sm_delete sql_ops j q)) = Inr None"
  by (rule mem_kv.save_then_load [OF assms] sql_kv.save_then_load [OF assms]
      mem_kv.save_keeps_others sql_kv.save_keeps_others mem_kv.delete_then_load sql_kv.delete_then_load;
      assumption?)+

text \<open>
  the state manager keeps executions apart: what was saved is what the next load of its id
  finds, at any later time and after its creation time was stamped; other ids are not touched;
  and after a delete nothing is found. It holds for the memory store and for the SQLite store.
\<close>

theorem state_manager_save_load:
  assumes "exec_json_ok st" "j \<noteq> es_id st"
  shows "snd (sm_load mem_ops now' (es_id st) (fst (sm_save mem_ops now st m))) = Inr (Some (exec_norm (stamp_created now st))) \<and>
    snd (sm_load sql_ops now' (es_id st) (fst (sm_save sql_ops now st q))) = Inr (Some (exec_norm (stamp_created now st))) \<and>
    snd (sm_load mem_ops now' j (fst (sm_save mem_ops now st m))) = snd (sm_load mem_ops now' j m) \<and>
    snd (sm_load sql_ops now' j (fst (sm_save sql_ops now st q))) = snd (sm_load sql_ops now' j q) \<and>
    snd (sm_load mem_ops now k (sm_delete mem_ops k m)) = Inr None \<and>
    snd (sm_load sql_ops now k (sm_delete sql_ops k q)) = Inr None"
  by (intro conjI state_manager_save_load_parts [OF assms(1)] assms(2))

lemma state_manager_save_load_witness:
  "snd (sm_load mem_ops 7 ''t1'' (fst (sm_save mem_ops 5 demo_exec []))) = Inr (Some (exec_norm (demo_exec\<lparr>es_created := 5\<rparr>)))"
proof -
  have "exec_json_ok demo_exec" by (simp add: exec_json_ok_def demo_exec_def zero_exec_def cb_map_def)
  moreover have "''t2'' \<noteq> es_id demo_exec" by (simp add: demo_exec_def zero_exec_def)
  ultimately show ?thesis
    using state_manager_save_load [of demo_exec "''t2''" 7 5 "[]"]
    by (simp add: stamp_created_def demo_exec_def zero_exec_def)
qed

lemma list_executions_complete_sorted_parts:
  assumes "distinct (map fst m)"
  shows "set (snd (sm_list mem_ops now m)) = {st. \<exists>i. snd (sm_load mem_ops now i m) = Inr (Some st)}"
    and "sorted_wrt (\<lambda>a b. es_created b \<le> es_created a) (snd (sm_list mem_ops now m))"
proof -
  have "mem_kv.task_at now i m = Some st \<longleftrightarrow> snd (sm_load mem_ops now i m) = Inr (Some st)" for i st
    by (auto simp: mem_kv.task_at_def sm_load_def split: prod.splits option.splits)
  with mem_kv.list_is_all_tasks [OF assms, of now]
  show "set (snd (sm_list mem_ops now m)) = {st. \<exists>i. snd (sm_load mem_ops now i m) = Inr (Some st)}" by simp
  show "sorted_wrt (\<lambda>a b. es_created b \<le> es_created a) (snd (sm_list mem_ops now m))"
    by (auto simp: sm_list_def exchange_sort_sorted split: prod.splits)
qed

text \<open>
  listing the executions gives every stored execution that decodes, and nothing else, newest
  first, whatever the order the store lists its keys in.
\<close>

theorem list_executions_complete_sorted:
  assumes "distinct (map fst m)"
  shows "set (snd (sm_list mem_ops now m)) = {st. \<exists>i. snd (sm_load mem_ops now i m) = Inr (Some st)} \<and>
    sorted_wrt (\<lambda>a b. es_created b \<le> es_created a) (snd (sm_list mem_ops now m))"
  using list_executions_complete_sorted_parts [OF assms] by blast

lemma list_executions_complete_sorted_witness:
  "sorted_wrt (\<lambda>a b. es_created b \<le> es_created a)
     (snd (sm_list mem_ops 9 (fst (sm_save mem_ops 5 demo_exec (fst (sm_save mem_ops 3 (demo_exec\<lparr>es_id := ''t0''\<rparr>) []))))))"
proof (rule list_executions_complete_sorted [THEN conjunct2])
  show "distinct (map fst (fst (sm_save mem_ops 5 demo_exec (fst (sm_save mem_ops 3 (demo_exec\<lparr>es_id := ''t0''\<rparr>) [])))))"
    by (auto simp: sm_save_def Let_def mem_ops_def mem_set_def distinct_update split: option.splits)
qed

lemma session_keeps_last_five_parts:
  assumes "0 \<le> now" "m' = sm_save_session mem_ops now st m"
  shows "now' < now + 86399999000000 \<Longrightarrow> snd (sm_load_session mem_ops now' (ss_id st) m') =
      Inr (st\<lparr>ss_interactions := drop (length (ss_interactions st) - 5) (ss_interactions st)\<rparr>)"
    and "now + 86400000000000 \<le> now' \<Longrightarrow> snd (sm_load_session mem_ops now' (ss_id st) m') =
      Inr \<lparr>ss_id = ss_id st, ss_interactions = []\<rparr>"
proof -
  have "interaction_of_json (interaction_json i) = Some i" for i
    by (simp add: interaction_of_json_def interaction_json_def json_str_def str_of_def)
  then have "List.map_filter interaction_of_json (map interaction_json xs) = xs" for xs
    by (induction xs) (auto simp: List.map_filter_simps)
  then have rt: "session_of_json (session_to_json s) = Some s" for s
    by (simp add: session_of_json_def session_to_json_def json_str_def str_of_def)
  have trim: "trim_session st = st\<lparr>ss_interactions := drop (length (ss_interactions st) - 5) (ss_interactions st)\<rparr>"
    by (simp add: trim_session_def max_turns_def)
  show "snd (sm_load_session mem_ops now' (ss_id st) m') =
      Inr (st\<lparr>ss_interactions := drop (length (ss_interactions st) - 5) (ss_interactions st)\<rparr>)"
    if "now' < now + 86399999000000"
    using mem_kv.get_set_live [of 86400000000000 now' now "session_key (ss_id st)" "session_to_json (trim_session st)" m]
      that assms(2) rt [of "trim_session st"] trim
    by (auto simp: sm_load_session_def sm_save_session_def split: prod.splits)
  show "snd (sm_load_session mem_ops now' (ss_id st) m') = Inr \<lparr>ss_id = ss_id st, ss_interactions = []\<rparr>"
    if "now + 86400000000000 \<le> now'"
    using mem_kv.get_set_expired [of 86400000000000 now now' "session_key (ss_id st)" "session_to_json (trim_session st)" m]
      that assms
    by (auto simp: sm_load_session_def sm_save_session_def split: prod.splits)
qed

text \<open>
  a saved session keeps its last five interactions, in order, and a load within a day finds
  exactly them; after a day it is empty.
\<close>

theorem session_keeps_last_five:
  assumes "0 \<le> now" "m' = sm_save_session mem_ops now st m"
  shows "(now' < now + 86399999000000 \<longrightarrow> snd (sm_load_session mem_ops now' (ss_id st) m') =
      Inr (st\<lparr>ss_interactions := drop (length (ss_interactions st) - 5) (ss_interactions st)\<rparr>)) \<and>
    (now + 86400000000000 \<le> now' \<longrightarrow> snd (sm_load_session mem_ops now' (ss_id st) m') =
      Inr \<lparr>ss_id = ss_id st, ss_interactions = []\<rparr>)"
  using session_keeps_last_five_parts [OF assms] by blast

lemma session_keeps_last_five_witness:
  "snd (sm_load_session mem_ops 86400000000001 ''s'' (sm_save_session mem_ops 1 \<lparr>ss_id = ''s'', ss_interactions = []\<rparr> [])) =
     Inr \<lparr>ss_id = ''s'', ss_interactions = []\<rparr>"
  using session_keeps_last_five [OF _ refl, of 1 86400000000001 "\<lparr>ss_id = ''s'', ss_interactions = []\<rparr>" "[]"]
  by simp

end
