(* ===== verification/Engine_Model.thy ===== *)
theory Engine_Model
  imports Config_Model
begin

text \<open>
  Run variables: the casting of strings (engine/cast.go), the pipeline context
  (engine/context.go), step conditions (engine/expression.go), the parameters of a call and the
  outputs of the steps (agent/verifier.go and agent/step_outputs.go). The expression evaluator
  govaluate, the template renderer and the printing of floats are arguments.
\<close>

subsection \<open>Casting (cast.go)\<close>

definition auto_cast :: "gval \<Rightarrow> gval" where
  "auto_cast v = (case v of
     GStr s \<Rightarrow> (let t = trim_space s in
       case atoi t of Some i \<Rightarrow> GInt i
       | None \<Rightarrow> (case parse_float t of Some f \<Rightarrow> GFloat f
         | None \<Rightarrow> (case parse_bool t of Some b \<Rightarrow> GBool b | None \<Rightarrow> GStr s)))
   | _ \<Rightarrow> v)"

definition auto_cast_vars :: "gval gomap \<Rightarrow> gval gomap" where
  "auto_cast_vars vars = map (\<lambda>(k, v). (k, auto_cast v)) vars"

subsection \<open>The pipeline context (context.go)\<close>

record pipeline_context =
  pc_vars :: "gval gomap"
  pc_outputs :: "gval gomap gomap"
  pc_started :: time

definition new_pipeline_context :: "gval gomap \<Rightarrow> time \<Rightarrow> pipeline_context" where
  "new_pipeline_context initial now = \<lparr>pc_vars = mputs [] initial, pc_outputs = [], pc_started = now\<rparr>"

definition set_var :: "string \<Rightarrow> gval \<Rightarrow> pipeline_context \<Rightarrow> pipeline_context" where
  "set_var k v c = c\<lparr>pc_vars := mput (pc_vars c) k v\<rparr>"

definition get_var :: "string \<Rightarrow> pipeline_context \<Rightarrow> gval" where
  "get_var k c = (case mget (pc_vars c) k of Some v \<Rightarrow> v | None \<Rightarrow> GNil)"

definition tool_output_key :: "string \<Rightarrow> string \<Rightarrow> string" where
  "tool_output_key tool k = (if k \<in> {''ok'', ''statusCode'', ''status'', ''raw''} then tool @ ''.'' @ k else k)"

definition record_tool_output :: "string \<Rightarrow> gval gomap \<Rightarrow> pipeline_context \<Rightarrow> pipeline_context" where
  "record_tool_output tool output c = c\<lparr>pc_outputs := mput (pc_outputs c) tool output,
     pc_vars := fold (\<lambda>(k, v) vars. mput vars (tool_output_key tool k) v) output (pc_vars c)\<rparr>"

definition replace_vars :: "gval gomap \<Rightarrow> pipeline_context \<Rightarrow> pipeline_context" where
  "replace_vars new c = c\<lparr>pc_vars := new\<rparr>"

subsection \<open>Conditions (expression.go)\<close>

text \<open>What parsing and evaluating an expression over the variables gives.\<close>

datatype eval_result = EvParseError string | EvError string | EvValue gval

type_synonym evaluator = "string \<Rightarrow> gval gomap \<Rightarrow> eval_result"

definition strip_braces :: "string \<Rightarrow> string" where
  "strip_braces raw = (let e = trim_space raw in
     if has_prefix e ''${'' \<and> has_suffix e ''}'' then trim_suffix (trim_prefix e ''${'') ''}'' else e)"

definition eval_bool_expression :: "evaluator \<Rightarrow> string \<Rightarrow> gval gomap \<Rightarrow> string + bool" where
  "eval_bool_expression ev raw vars =
    (let e = strip_braces raw in
     case ev e vars of
       EvParseError err \<Rightarrow> Inl (''parse error in expression '' @ go_quote e @ '': '' @ err)
     | EvError err \<Rightarrow> Inl (''eval error in expression '' @ go_quote e @ '': '' @ err)
     | EvValue (GBool b) \<Rightarrow> Inr b
     | EvValue _ \<Rightarrow> Inl (''expression '' @ go_quote e @ '' did not evaluate to bool''))"

definition step_should_run :: "evaluator \<Rightarrow> pipeline_step \<Rightarrow> gval gomap \<Rightarrow> bool" where
  "step_should_run ev s vars =
    (if ps_when s = '''' then True
     else (case eval_bool_expression ev (ps_when s) vars of
         Inl _ \<Rightarrow> ps_human_gate s \<noteq> '''' | Inr b \<Rightarrow> b))"

subsection \<open>Parameters of a call (verifier.go)\<close>

text \<open>\<open>flattenVars\<close>: nested maps become dotted keys, everything else its text.\<close>

fun flatten_vars :: "(f64 \<Rightarrow> string) \<Rightarrow> string \<Rightarrow> gval \<Rightarrow> string gomap \<Rightarrow> string gomap" where
  "flatten_vars ff prefix (GStr s) out = mput out prefix s"
| "flatten_vars ff prefix (GObj m) out =
    fold (\<lambda>(k, v) acc. flatten_vars ff (if prefix \<noteq> '''' then prefix @ ''.'' @ k else k) v acc) m out"
| "flatten_vars ff prefix v out = mput out prefix (fmt_v ff v)"

definition convert_vars :: "(f64 \<Rightarrow> string) \<Rightarrow> gval gomap \<Rightarrow> string gomap" where
  "convert_vars ff vars = fold (\<lambda>(k, v) out. flatten_vars ff k v out) vars []"

type_synonym renderer = "string \<Rightarrow> string gomap \<Rightarrow> string option"

definition build_call_params :: "(f64 \<Rightarrow> string) \<Rightarrow> renderer \<Rightarrow> gval gomap \<Rightarrow> string gomap \<Rightarrow> gval gomap" where
  "build_call_params ff render vars with_params =
    (let svars = convert_vars ff vars in
     fold (\<lambda>(k, v) out. mput out k (GStr (case render v svars of Some r \<Rightarrow> r | None \<Rightarrow> v)))
       with_params (mputs [] vars))"

definition string_map_to_any :: "string gomap \<Rightarrow> gval gomap" where
  "string_map_to_any m = map (\<lambda>(k, v). (k, GStr v)) m"

subsection \<open>Outputs of the steps (step_outputs.go)\<close>

definition step_outputs_key :: string where "step_outputs_key = ''_steps''"

definition step_var :: "string \<Rightarrow> string \<Rightarrow> string" where
  "step_var sid k = ''steps.'' @ sid @ ''.'' @ k"

definition put_vars :: "(string \<Rightarrow> string) \<Rightarrow> gval gomap \<Rightarrow> gval gomap \<Rightarrow> gval gomap" where
  "put_vars key out vars = fold (\<lambda>(k, v) vs. mput vs (key k) v) out vars"

definition record_step_output :: "string \<Rightarrow> gval gomap \<Rightarrow> gval gomap \<times> gval gomap \<Rightarrow> gval gomap \<times> gval gomap" where
  "record_step_output sid out rv =
    (case rv of (results, vars) \<Rightarrow>
      if sid = '''' then (results, vars)
      else (let by_step = (case as_obj (mget results step_outputs_key) of Some m \<Rightarrow> m | None \<Rightarrow> []) in
        (mput results step_outputs_key (GObj (mput by_step sid (GObj out))), put_vars (step_var sid) out vars)))"

definition restore_result_vars :: "gval gomap \<Rightarrow> gval gomap \<Rightarrow> gval gomap" where
  "restore_result_vars results vars =
    fold (\<lambda>(k, v) vs. case v of
        GObj m \<Rightarrow>
          if k = step_outputs_key
          then fold (\<lambda>(sid, out) ws. case out of GObj om \<Rightarrow> put_vars (step_var sid) om ws | _ \<Rightarrow> ws) m vs
          else put_vars (\<lambda>mk. k @ ''.'' @ mk) m vs
      | _ \<Rightarrow> vs) results vars"

definition public_results :: "gval gomap \<Rightarrow> gval gomap" where
  "public_results results = mdel results step_outputs_key"

end
