(* ===== verification/Audit_Model.thy ===== *)
theory Audit_Model
  imports State_Store Engine_Model
begin

text \<open>
  Audit evidence (package audit): events and their redaction (audit.go), digests, sanitized values
  and the pipeline snapshot (reproducibility.go), the hash chain of the journal (chain.go) and
  the fan-out to several sinks (multi.go). SHA-256 of a JSON text and the parser and printer of
  URLs are arguments; a line of the journal is the JSON tree it holds.
\<close>

subsection \<open>Canonical JSON, digests\<close>

text \<open>
  Two values with the same JSON text have the same canonical form: object keys sorted, whole
  floats written as integers below 10 to the 21.
\<close>

fun json_canon :: "gval \<Rightarrow> gval" where
  "json_canon (GFloat (Fin q)) =
    (if q = of_int \<lfloor>q\<rfloor> \<and> \<bar>q\<bar> < 10 ^ 21 then GInt \<lfloor>q\<rfloor> else GFloat (Fin q))"
| "json_canon (GList xs) = GList (map json_canon xs)"
| "json_canon (GObj m) = GObj (sort_kv (map (\<lambda>(k, v). (k, json_canon v)) m))"
| "json_canon v = v"

record url_parts =
  up_scheme :: string
  up_host :: string
  up_user :: "(string \<times> string) option"
  up_query :: "(string \<times> string list) list"
  up_rest :: string

record audit_lib =
  al_sha :: "gval \<Rightarrow> string"
  al_parse_url :: "string \<Rightarrow> url_parts option"
  al_print_url :: "url_parts \<Rightarrow> string"

definition digest_bytes :: "audit_lib \<Rightarrow> gval \<Rightarrow> string" where
  "digest_bytes lib v = ''sha256:'' @ al_sha lib (json_canon v)"

definition digest :: "audit_lib \<Rightarrow> gval \<Rightarrow> string" where
  "digest lib v = (if json_ok v then digest_bytes lib v else '''')"

subsection \<open>Redaction\<close>

definition redacted :: string where "redacted = ''[REDACTED]''"

definition credential_word :: "string \<Rightarrow> bool" where
  "credential_word s = list_ex (str_contains s)
     [''password'', ''secret'', ''token'', ''api_key'', ''apikey'', ''authorization'']"

definition redact_params :: "gval gomap \<Rightarrow> gval gomap" where
  "redact_params m = map (\<lambda>(k, v). (k, if credential_word (to_lower k) then GStr redacted else v)) m"

definition secret_key :: "string \<Rightarrow> bool" where
  "secret_key k = (let lower = to_lower (replace_all (replace_all k ''-'' ''_'') '' '' ''_'') in
     credential_word lower \<or> lower = ''private_key'')"

definition url_key :: "string \<Rightarrow> bool" where
  "url_key k = (to_lower (replace_all (replace_all k ''-'' ''_'') '' '' ''_'') \<in> {''url'', ''base_url'', ''target''})"

definition secret_query_key :: "string \<Rightarrow> bool" where
  "secret_query_key k = (let lower = to_lower (replace_all k ''-'' ''_'') in
     credential_word lower \<or> lower = ''key'')"

definition sanitize_url :: "audit_lib \<Rightarrow> string \<Rightarrow> string" where
  "sanitize_url lib raw = (case al_parse_url lib raw of None \<Rightarrow> raw
     | Some p \<Rightarrow> if up_scheme p = '''' \<or> up_host p = '''' then raw
         else al_print_url lib (p\<lparr>
           up_user := (if up_user p = None then None else Some (redacted, redacted)),
           up_query := map (\<lambda>(k, vs). (k, if secret_query_key k then [redacted] else vs)) (up_query p)\<rparr>))"

fun sanitize_json :: "audit_lib \<Rightarrow> gval \<Rightarrow> gval" where
  "sanitize_json lib (GObj m) = GObj (map (\<lambda>(k, v). (k,
     if secret_key k then GStr redacted
     else case v of GStr raw \<Rightarrow> if url_key k then GStr (sanitize_url lib raw) else sanitize_json lib v
       | _ \<Rightarrow> sanitize_json lib v)) m)"
| "sanitize_json lib (GList xs) = GList (map (sanitize_json lib) xs)"
| "sanitize_json lib v = v"

definition sanitize_value :: "audit_lib \<Rightarrow> gval \<Rightarrow> string + gval" where
  "sanitize_value lib v = (if json_ok v then Inr (sanitize_json lib (json_norm v))
     else Inl ''marshal audit evidence: json: unsupported value'')"

definition sanitize_map :: "audit_lib \<Rightarrow> gval gomap \<Rightarrow> gval gomap" where
  "sanitize_map lib m = (case sanitize_value lib (GObj m) of
     Inl err \<Rightarrow> [(''_serialization_error'', GStr err)]
   | Inr v \<Rightarrow> (case v of GObj c \<Rightarrow> c | _ \<Rightarrow> []))"

text \<open>\<open>auditSafeToolResult\<close> (agent/verifier.go): the fields of a tool's answer that evidence may hold.\<close>

definition audit_safe_keys :: "string list" where
  "audit_safe_keys = [''ok'', ''status'', ''statusCode'', ''operationId'', ''txHash'', ''anchorTxHash'',
     ''blockNumber'', ''chainId'', ''assetId'', ''destination'', ''amount'', ''auditHash'', ''path'', ''language'']"

definition audit_safe_tool_result :: "audit_lib \<Rightarrow> gval gomap \<Rightarrow> gval gomap" where
  "audit_safe_tool_result lib out = fold (\<lambda>(k, v) safe0.
     let safe = (if k \<in> set audit_safe_keys then mput safe0 k v else safe0) in
     if k = ''content'' then (case v of GStr _ \<Rightarrow> mput safe ''content_digest'' (GStr (digest lib v)) | _ \<Rightarrow> safe)
     else safe) out []"

definition audit_safe_callback :: "audit_lib \<Rightarrow> gval \<Rightarrow> gval gomap" where
  "audit_safe_callback lib v = (case v of GObj m \<Rightarrow> audit_safe_tool_result lib m | _ \<Rightarrow> [])"

subsection \<open>The pipeline snapshot\<close>

definition jbool :: "string \<Rightarrow> bool \<Rightarrow> gval gomap" where "jbool k b = jfield b k (GBool b)"
definition jint :: "string \<Rightarrow> int \<Rightarrow> gval gomap" where "jint k i = jfield (i \<noteq> 0) k (GInt i)"

definition smap_json :: "string gomap \<Rightarrow> gval" where
  "smap_json m = (if m = [] then GNil else GObj (string_map_to_any m))"

definition step_json :: "pipeline_step \<Rightarrow> gval" where
  "step_json s = GObj (jstr ''id'' (ps_id s) @ jstr ''type'' (ps_type s) @ jstr ''agent'' (ps_agent s) @
     jfield (ps_depends_on s \<noteq> []) ''depends_on'' (GList (map GStr (ps_depends_on s))) @
     jstr ''tool'' (ps_tool s) @
     jfield (ps_with_params s \<noteq> []) ''with_params'' (GObj (string_map_to_any (ps_with_params s))) @
     jbool ''analyst'' (ps_analyst s) @ jstr ''human_approval'' (ps_human_gate s) @
     jstr ''no_approval_reason'' (ps_no_approval_reason s) @ jstr ''when'' (ps_when s) @
     jint ''retries'' (ps_retries s) @ jint ''timeout_ms'' (ps_timeout_ms s) @
     jint ''backoff_ms'' (ps_backoff_ms s) @ jstr ''callback_secret_env'' (ps_callback_secret_env s))"

definition pipeline_json :: "pipeline \<Rightarrow> gval" where
  "pipeline_json p = GObj ([(''Name'', GStr (pl_name p)), (''Description'', GStr (pl_description p)),
     (''Mode'', GStr (pl_mode p))] @ jstr ''llm_model'' (pl_llm_model p) @
     [(''SkipSummary'', GBool (pl_skip_summary p))] @ jstr ''ai_system'' (pl_ai_system p) @
     jbool ''governed'' (pl_governed p) @ [(''Steps'', GList (map step_json (pl_steps p)))])"

definition tool_json :: "tool_def \<Rightarrow> gval" where
  "tool_json t = GObj [(''Name'', GStr (tl_name t)), (''Description'', GStr (tl_description t)),
     (''Type'', GStr (tl_type t)), (''Method'', GStr (tl_method t)), (''URL'', GStr (tl_url t)),
     (''Mode'', GStr (tl_mode t)), (''TimeoutMs'', GInt (tl_timeout_ms t)), (''Body'', smap_json (tl_body t)),
     (''Model'', GStr (tl_model t)), (''Headers'', smap_json (tl_headers t)), (''Target'', GStr (tl_target t)),
     (''Service'', GStr (tl_service t)), (''Operation'', GStr (tl_operation t)), (''Agent'', GStr (tl_agent t)),
     (''Insecure'', GBool (tl_insecure t)), (''RemoteTool'', GStr (tl_remote_tool t)),
     (''Version'', GStr (tl_version t))]"

definition agent_json :: "agent_def \<Rightarrow> gval" where
  "agent_json a = GObj ([(''name'', GStr (ad_name a)), (''runtime'', GStr (ad_runtime a))] @ jstr ''binary'' (ad_binary a))"

text \<open>The definitions a pipeline can invoke, by name.\<close>

definition used_tools :: "config \<Rightarrow> pipeline \<Rightarrow> gval gomap" where
  "used_tools cfg p = fold (\<lambda>s m. if ps_tool s = '''' then m
     else (case mget (cf_tools cfg) (ps_tool s) of None \<Rightarrow> m | Some t \<Rightarrow> mput m (ps_tool s) (tool_json t)))
     (pl_steps p) []"

definition used_agents :: "config \<Rightarrow> pipeline \<Rightarrow> gval gomap" where
  "used_agents cfg p = fold (\<lambda>s m. if ps_agent s = '''' then m
     else (case mget (cf_agents cfg) (ps_agent s) of None \<Rightarrow> m | Some a \<Rightarrow> mput m (ps_agent s) (agent_json a)))
     (pl_steps p) []"

definition snapshot_json :: "config \<Rightarrow> pipeline \<Rightarrow> gval" where
  "snapshot_json cfg p = GObj ([(''schema_version'', GInt 1), (''pipeline'', pipeline_json p)] @
     jfield (used_tools cfg p \<noteq> []) ''tools'' (GObj (used_tools cfg p)) @
     jfield (used_agents cfg p \<noteq> []) ''agents'' (GObj (used_agents cfg p)))"

definition build_pipeline_snapshot :: "audit_lib \<Rightarrow> pipeline \<Rightarrow> config \<Rightarrow> string + gval \<times> string" where
  "build_pipeline_snapshot lib p cfg = (case sanitize_value lib (snapshot_json cfg p) of
     Inl err \<Rightarrow> Inl err | Inr clean \<Rightarrow> Inr (clean, digest_bytes lib clean))"

subsection \<open>Events\<close>

record event =
  ev_timestamp :: time
  ev_user :: string
  ev_roles :: "string list"
  ev_intent :: string
  ev_pipeline :: string
  ev_params :: "gval gomap"
  ev_tools :: "string list"
  ev_result :: string
  ev_error :: string
  ev_latency :: int
  ev_trace :: string
  ev_phase :: string
  ev_step :: string
  ev_details :: "gval gomap"
  ev_traceparent :: string

definition zero_event :: event where
  "zero_event = \<lparr>ev_timestamp = 0, ev_user = '''', ev_roles = [], ev_intent = '''', ev_pipeline = '''',
     ev_params = [], ev_tools = [], ev_result = '''', ev_error = '''', ev_latency = 0, ev_trace = '''',
     ev_phase = '''', ev_step = '''', ev_details = [], ev_traceparent = ''''\<rparr>"

definition event_doc :: "event \<Rightarrow> gval gomap" where
  "event_doc e =
     jfield True ''timestamp'' (GInt (ev_timestamp e)) @ jfield True ''user_id'' (GStr (ev_user e)) @
     jfield True ''roles'' (GList (map GStr (ev_roles e))) @ jfield True ''intent'' (GStr (ev_intent e)) @
     jfield True ''pipeline'' (GStr (ev_pipeline e)) @
     jfield True ''params'' (if ev_params e = [] then GNil else GObj (ev_params e)) @
     jfield True ''tools'' (GList (map GStr (ev_tools e))) @ jfield True ''result'' (GStr (ev_result e)) @
     jstr ''error'' (ev_error e) @ jfield True ''latency_ms'' (GInt (ev_latency e)) @
     jstr ''trace_id'' (ev_trace e) @ jstr ''phase'' (ev_phase e) @ jstr ''step'' (ev_step e) @
     jfield (ev_details e \<noteq> []) ''details'' (GObj (ev_details e)) @
     jstr ''traceparent'' (ev_traceparent e)"

text \<open>The text of an event, in canonical form. Decoding it, the typed fields keep their type and the
  numbers of the untyped ones become floats.\<close>

definition event_json :: "event \<Rightarrow> gval option" where
  "event_json e = (if json_ok (GObj (ev_params e)) \<and> json_ok (GObj (ev_details e))
     then Some (json_canon (GObj (event_doc e))) else None)"

definition json_int :: "gval gomap \<Rightarrow> string \<Rightarrow> int" where
  "json_int m k = (case mget m k of Some (GInt i) \<Rightarrow> i | _ \<Rightarrow> 0)"

text \<open>A missing key of an untyped map is nil.\<close>

definition oget_nil :: "gval gomap \<Rightarrow> string \<Rightarrow> gval" where
  "oget_nil m k = (case mget m k of Some v \<Rightarrow> v | None \<Rightarrow> GNil)"

definition json_obj :: "gval gomap \<Rightarrow> string \<Rightarrow> gval gomap" where
  "json_obj m k = (case as_obj (mget m k) of Some x \<Rightarrow> norm_map x | None \<Rightarrow> [])"

definition event_of_json :: "gval \<Rightarrow> event option" where
  "event_of_json v = (case v of GObj m \<Rightarrow> Some
     \<lparr>ev_timestamp = json_int m ''timestamp'', ev_user = json_str m ''user_id'', ev_roles = json_strs m ''roles'',
      ev_intent = json_str m ''intent'', ev_pipeline = json_str m ''pipeline'', ev_params = json_obj m ''params'',
      ev_tools = json_strs m ''tools'', ev_result = json_str m ''result'', ev_error = json_str m ''error'',
      ev_latency = json_int m ''latency_ms'', ev_trace = json_str m ''trace_id'', ev_phase = json_str m ''phase'',
      ev_step = json_str m ''step'', ev_details = json_obj m ''details'',
      ev_traceparent = json_str m ''traceparent''\<rparr>
   | _ \<Rightarrow> None)"

text \<open>An event after it was written and read.\<close>

definition canon_map :: "gval gomap \<Rightarrow> gval gomap" where
  "canon_map m = sort_kv (map (\<lambda>(k, v). (k, json_canon v)) m)"

definition event_norm :: "event \<Rightarrow> event" where
  "event_norm e = e\<lparr>ev_params := norm_map (canon_map (ev_params e)), ev_details := norm_map (canon_map (ev_details e))\<rparr>"

text \<open>Every number of a value is one that reading it as a float64 keeps.\<close>

fun json_stable :: "gval \<Rightarrow> bool" where
  "json_stable (GInt i) = (f64_of_int i = Fin (of_int i) \<and> \<bar>i\<bar> < 10 ^ 21)"
| "json_stable (GFloat x) = (case x of
     Fin q \<Rightarrow> q = of_int \<lfloor>q\<rfloor> \<and> \<bar>q\<bar> < 10 ^ 21 \<longrightarrow> f64_of_int \<lfloor>q\<rfloor> = Fin q | _ \<Rightarrow> False)"
| "json_stable (GList xs) = list_all json_stable xs"
| "json_stable (GObj m) = list_all (\<lambda>(k, v). json_stable v) m"
| "json_stable _ = True"

subsection \<open>Facts\<close>

lemma mget_insort_fst: "mget (insort_key fst kv xs) k = (if k = fst kv then Some (snd kv) else mget xs k)"
  by (induction xs) (auto simp: less_le_not_le)

lemma mget_sort_kv [simp]: "mget (sort_kv m) k = mget m k"
  unfolding sort_kv_def by (induction m) (auto simp: mget_insort_fst)

lemma sort_kv_map_snd: "sort_kv (map (\<lambda>(k, v). (k, f v)) m) = map (\<lambda>(k, v). (k, f v)) (sort_kv m)"
proof -
  have ins: "insort_key fst (k, f v) (map (\<lambda>(k, v). (k, f v)) xs) =
      map (\<lambda>(k, v). (k, f v)) (insort_key fst (k, v) xs)" for k v xs
    by (induction xs) auto
  show ?thesis unfolding sort_kv_def by (induction m) (auto simp: ins)
qed

lemma sort_kv_idem [simp]: "sort_kv (sort_kv m) = sort_kv m"
  unfolding sort_kv_def by (rule sort_key_id_if_sorted) simp

lemma set_sort_kv [simp]: "set (sort_kv m) = set m"
  by (simp add: sort_kv_def)

text \<open>The text of a stable value is kept by reading it.\<close>

lemma json_canon_norm: "json_stable v \<Longrightarrow> json_canon (json_norm (json_canon v)) = json_canon v"
proof (induction v)
  case (GFloat x)
  then show ?case
    by (cases x) (auto split: if_splits)
next
  case (GObj m)
  have c: "json_canon (GObj m') = GObj (map (\<lambda>(k, v). (k, json_canon v)) (sort_kv m'))" for m'
    by (simp add: sort_kv_map_snd)
  have "json_canon (json_norm (json_canon (GObj m))) =
      GObj (map (\<lambda>(k, v). (k, json_canon (json_norm (json_canon v)))) (sort_kv m))"
    unfolding c using sort_kv_map_snd [of "\<lambda>v. json_canon (json_norm (json_canon v))" "sort_kv m"]
    by (simp add: comp_def split_def)
  also have "\<dots> = GObj (map (\<lambda>(k, v). (k, json_canon v)) (sort_kv m))"
    using GObj by (fastforce simp: list_all_iff)
  finally show ?case unfolding c .
qed (auto simp: list_all_iff)

end
