(* ===== verification/Audit_Chain.thy ===== *)
theory Audit_Chain
  imports Audit_Model
begin

text \<open>
  The hash chain of the audit journal (audit/chain.go) and the fan-out logger (audit/multi.go).
  A line of the journal is the JSON document it holds with the length of its text, or text that is
  no JSON record; the writer's failures are arguments of each call.
\<close>

record audit_record =
  ar_sequence :: int
  ar_previous :: string
  ar_event :: event
  ar_hash :: string

datatype jline = JDoc (jl_doc: gval) (jl_size: int) | JBad (jl_size: int)

text \<open>\<open>hashInput\<close> and its hash; \<open>None\<close> when the event cannot be encoded.\<close>

definition hash_input :: "int \<Rightarrow> string \<Rightarrow> gval \<Rightarrow> gval" where
  "hash_input s prev ev = GObj ([(''sequence'', GInt s)] @ jstr ''previous_hash'' prev @ [(''event'', ev)])"

definition hash_record :: "audit_lib \<Rightarrow> int \<Rightarrow> string \<Rightarrow> event \<Rightarrow> string option" where
  "hash_record lib s prev e = map_option (\<lambda>ev. al_sha lib (hash_input s prev ev)) (event_json e)"

definition record_doc :: "audit_record \<Rightarrow> gval \<Rightarrow> gval" where
  "record_doc r ev = GObj (jfield True ''sequence'' (GInt (ar_sequence r)) @ jstr ''previous_hash'' (ar_previous r) @
     jfield True ''event'' ev @ jfield True ''hash'' (GStr (ar_hash r)))"

definition record_of_json :: "gval \<Rightarrow> audit_record option" where
  "record_of_json v = (case v of GObj m \<Rightarrow>
     (case event_of_json (case mget m ''event'' of Some x \<Rightarrow> x | None \<Rightarrow> GNil) of None \<Rightarrow> None
      | Some e \<Rightarrow> Some \<lparr>ar_sequence = json_int m ''sequence'', ar_previous = json_str m ''previous_hash'',
          ar_event = e, ar_hash = json_str m ''hash''\<rparr>)
   | _ \<Rightarrow> None)"

definition decode_line :: "jline \<Rightarrow> audit_record option" where
  "decode_line l = (case l of JDoc d _ \<Rightarrow> record_of_json d | JBad _ \<Rightarrow> None)"

subsection \<open>Verification\<close>

record verification =
  vf_valid :: bool
  vf_records :: int
  vf_head :: string
  vf_broken :: int

definition max_line :: int where "max_line = 8 * 2 ^ 20"

text \<open>The scanner gives up on a line that does not fit its buffer with the newline.\<close>

definition line_fits :: "jline \<Rightarrow> bool" where
  "line_fits l = (jl_size l < max_line)"

definition zero_verification :: verification where
  "zero_verification = \<lparr>vf_valid = False, vf_records = 0, vf_head = '''', vf_broken = 0\<rparr>"

fun verify_lines :: "audit_lib \<Rightarrow> jline list \<Rightarrow> int \<Rightarrow> string \<Rightarrow> verification \<times> string option" where
  "verify_lines lib [] n prev = (\<lparr>vf_valid = True, vf_records = n, vf_head = prev, vf_broken = 0\<rparr>, None)"
| "verify_lines lib (l # ls) n prev =
    (let broken = \<lparr>vf_valid = False, vf_records = n, vf_head = prev, vf_broken = n + 1\<rparr>; at_line = show_int (n + 1) in
     if \<not> line_fits l then (zero_verification, Some ''bufio.Scanner: token too long'')
     else (case decode_line l of
         None \<Rightarrow> (broken, Some (''invalid audit record at line '' @ at_line))
       | Some r \<Rightarrow>
         if ar_sequence r \<noteq> n + 1 \<or> ar_previous r \<noteq> prev
         then (broken, Some (''audit chain link mismatch at line '' @ at_line))
         else (case hash_record lib (ar_sequence r) (ar_previous r) (ar_event r) of
             None \<Rightarrow> (zero_verification, Some ''json: unsupported value'')
           | Some want \<Rightarrow>
             if ar_hash r \<noteq> want then (broken, Some (''audit record hash mismatch at line '' @ at_line))
             else verify_lines lib ls (n + 1) (ar_hash r))))"

definition verify_journal :: "audit_lib \<Rightarrow> jline list \<Rightarrow> verification \<times> string option" where
  "verify_journal lib ls = verify_lines lib ls 0 ''''"

text \<open>A missing file is an empty, valid journal.\<close>

definition verify_file :: "audit_lib \<Rightarrow> jline list option \<Rightarrow> verification \<times> string option" where
  "verify_file lib f = (case f of None \<Rightarrow> (zero_verification\<lparr>vf_valid := True\<rparr>, None)
     | Some ls \<Rightarrow> verify_journal lib ls)"

subsection \<open>The writer\<close>

record file_chain =
  fc_lines :: "jline list"
  fc_open :: bool
  fc_sequence :: int
  fc_head :: string
  fc_traces :: "string gomap"
  fc_err :: "string option"

fun trace_heads :: "jline list \<Rightarrow> string gomap \<Rightarrow> string gomap" where
  "trace_heads [] m = m"
| "trace_heads (l # ls) m = (case decode_line l of None \<Rightarrow> m
     | Some r \<Rightarrow> trace_heads ls (if ev_trace (ar_event r) \<noteq> '''' then mput m (ev_trace (ar_event r)) (ar_hash r) else m))"

definition new_file_chain :: "audit_lib \<Rightarrow> string \<Rightarrow> jline list option \<Rightarrow> string + file_chain" where
  "new_file_chain lib path f =
    (if path = '''' then Inl ''audit chain path is empty''
     else (case verify_file lib f of
         (_, Some err) \<Rightarrow> Inl (''verify existing audit chain: '' @ err)
       | (v, None) \<Rightarrow> (let ls = (case f of None \<Rightarrow> [] | Some ls \<Rightarrow> ls) in
           Inr \<lparr>fc_lines = ls, fc_open = True, fc_sequence = vf_records v, fc_head = vf_head v,
             fc_traces = trace_heads ls [], fc_err = None\<rparr>)))"

text \<open>The outcome of a write: done, failed with whatever part of the line reached the file, or written
  and not synced.\<close>

datatype write_outcome = WriteOk | WriteFailed string "jline list" | SyncFailed string

definition utc_event :: "time \<Rightarrow> event \<Rightarrow> event" where
  "utc_event now e = (if ev_timestamp e = 0 then e\<lparr>ev_timestamp := now\<rparr> else e)"

definition chain_log :: "audit_lib \<Rightarrow> (gval \<Rightarrow> int) \<Rightarrow> time \<Rightarrow> write_outcome \<Rightarrow> event \<Rightarrow> file_chain \<Rightarrow> file_chain" where
  "chain_log lib size_of now w e0 c =
    (if fc_err c \<noteq> None then c
     else (let e = utc_event now e0; s = fc_sequence c + 1 in
       case event_json e of None \<Rightarrow> c\<lparr>fc_err := Some ''json: unsupported value''\<rparr>
       | Some ev \<Rightarrow>
         (let h = al_sha lib (hash_input s (fc_head c) ev);
              r = \<lparr>ar_sequence = s, ar_previous = fc_head c, ar_event = e, ar_hash = h\<rparr>;
              line = JDoc (record_doc r ev) (size_of (record_doc r ev))
          in if \<not> fc_open c then c\<lparr>fc_err := Some ''audit chain is closed''\<rparr>
             else (case w of
                 WriteFailed err part \<Rightarrow> c\<lparr>fc_lines := fc_lines c @ part, fc_err := Some err\<rparr>
               | SyncFailed err \<Rightarrow> c\<lparr>fc_lines := fc_lines c @ [line], fc_err := Some err\<rparr>
               | WriteOk \<Rightarrow> c\<lparr>fc_lines := fc_lines c @ [line], fc_sequence := s, fc_head := h,
                   fc_traces := (if ev_trace e \<noteq> '''' then mput (fc_traces c) (ev_trace e) h else fc_traces c)\<rparr>))))"

definition chain_hash_for_trace :: "file_chain \<Rightarrow> string \<Rightarrow> string" where
  "chain_hash_for_trace c t = mstr (fc_traces c) t"

definition chain_close :: "file_chain \<Rightarrow> file_chain" where
  "chain_close c = c\<lparr>fc_open := False\<rparr>"

text \<open>\<open>LogChecked\<close> on a logger that reports its error: write, then ask.\<close>

definition chain_log_checked :: "audit_lib \<Rightarrow> (gval \<Rightarrow> int) \<Rightarrow> time \<Rightarrow> write_outcome \<Rightarrow> event \<Rightarrow> file_chain
    \<Rightarrow> file_chain \<times> string option" where
  "chain_log_checked lib size_of now w e c = (let c' = chain_log lib size_of now w e c in (c', fc_err c'))"

subsection \<open>Verification of one execution\<close>

record exec_verification =
  xv_valid :: bool
  xv_trace :: string
  xv_records :: int
  xv_version :: string
  xv_tool_calls :: int
  xv_error :: string

definition digest_matches :: "audit_lib \<Rightarrow> gval gomap \<Rightarrow> string \<Rightarrow> string \<Rightarrow> bool" where
  "digest_matches lib details value_key digest_key =
    (let d = str_of details digest_key in
     d \<noteq> '''' \<and> digest lib (case mget details value_key of Some (GObj m) \<Rightarrow> GObj m | _ \<Rightarrow> GNil) = d)"

text \<open>One record of the trace; \<open>Inl\<close> is the message that makes the execution invalid. The flag says
  whether a manifest was found.\<close>

definition verify_event :: "audit_lib \<Rightarrow> event \<Rightarrow> exec_verification \<times> bool \<Rightarrow> string + exec_verification \<times> bool" where
  "verify_event lib e st =
    (case st of (r0, found) \<Rightarrow>
      (let r = r0\<lparr>xv_records := xv_records r0 + 1\<rparr>; d = ev_details e in
       if ev_phase e = ''pipeline.started'' then
         (let version = str_of d ''pipeline_version''; snapshot = oget_nil d ''pipeline_snapshot'' in
          if version = '''' \<or> digest lib snapshot \<noteq> version
          then Inl ''pipeline snapshot does not match its version digest''
          else if \<not> digest_matches lib d ''inputs'' ''input_digest''
          then Inl ''pipeline inputs do not match their digest''
          else if found \<and> xv_version r \<noteq> version then Inl ''trace contains conflicting pipeline versions''
          else Inr (r\<lparr>xv_version := version\<rparr>, True))
       else if ev_phase e = ''tool.started'' then
         (if \<not> digest_matches lib d ''inputs'' ''input_digest'' then Inl ''tool inputs do not match their digest''
          else Inr (r\<lparr>xv_tool_calls := xv_tool_calls r + 1\<rparr>, found))
       else if ev_phase e = ''tool.completed'' then
         (if \<not> digest_matches lib d ''result'' ''output_digest'' then Inl ''tool result does not match its digest''
          else Inr (r, found))
       else Inr (r, found)))"

fun verify_trace :: "audit_lib \<Rightarrow> string \<Rightarrow> jline list \<Rightarrow> exec_verification \<times> bool
    \<Rightarrow> string + exec_verification \<times> bool" where
  "verify_trace lib t [] st = Inr st"
| "verify_trace lib t (l # ls) st =
    (case decode_line l of None \<Rightarrow> Inl ''invalid character''
     | Some r \<Rightarrow> if ev_trace (ar_event r) \<noteq> t then verify_trace lib t ls st
         else (case verify_event lib (ar_event r) st of Inl err \<Rightarrow> Inl err | Inr st' \<Rightarrow> verify_trace lib t ls st'))"

definition verify_execution :: "audit_lib \<Rightarrow> jline list \<Rightarrow> string \<Rightarrow> string + exec_verification" where
  "verify_execution lib ls t =
    (case verify_journal lib ls of (v, err) \<Rightarrow>
      if err \<noteq> None \<or> \<not> vf_valid v then Inl ''audit chain verification failed''
      else (case verify_trace lib t ls (\<lparr>xv_valid = False, xv_trace = t, xv_records = 0, xv_version = '''',
          xv_tool_calls = 0, xv_error = ''''\<rparr>, False) of
          Inl err \<Rightarrow> Inl err
        | Inr (r, found) \<Rightarrow> if \<not> found then Inl ''pipeline manifest not found for trace''
            else Inr (r\<lparr>xv_valid := True\<rparr>)))"

subsection \<open>Fan-out (multi.go)\<close>

text \<open>A sink takes an event and answers its error; the fan-out gives the event to every sink and joins
  the errors.\<close>

type_synonym 's sink = "event \<Rightarrow> 's \<Rightarrow> 's \<times> string option"

fun multi_log :: "'s sink list \<Rightarrow> event \<Rightarrow> 's list \<Rightarrow> 's list \<times> string list" where
  "multi_log (f # fs) e (s # ss) =
    (case f e s of (s', r) \<Rightarrow> (case multi_log fs e ss of (ss', errs) \<Rightarrow>
      (s' # ss', (case r of None \<Rightarrow> errs | Some err \<Rightarrow> err # errs))))"
| "multi_log fs e ss = (ss, [])"

definition multi_log_checked :: "'s sink list \<Rightarrow> time \<Rightarrow> event \<Rightarrow> 's list \<Rightarrow> 's list \<times> string option" where
  "multi_log_checked fs now e ss =
    (case multi_log fs (utc_event now e) ss of (ss', errs) \<Rightarrow>
      (ss', if errs = [] then None else Some (str_join [char_of (10 :: nat)] errs)))"

definition multi_hash_for_trace :: "('s \<Rightarrow> string \<Rightarrow> string) list \<Rightarrow> 's list \<Rightarrow> string \<Rightarrow> string" where
  "multi_hash_for_trace ps ss t =
    (case first_some (\<lambda>(p, s). if p s t \<noteq> '''' then Some (p s t) else None) (zip ps ss) of
       Some h \<Rightarrow> h | None \<Rightarrow> '''')"

subsection \<open>Reading back what was written\<close>

declare map_of_append [simp del]

lemma json_canon_GStr [simp]: "json_canon v = GStr s \<longleftrightarrow> v = GStr s"
  by (cases v rule: json_canon.cases) auto

lemma mget_canon_doc: "mget (sort_kv (map (\<lambda>(k, v). (k, json_canon v)) m)) k = map_option json_canon (mget m k)"
  by simp

definition canon_doc :: "gval gomap \<Rightarrow> gval gomap" where
  "canon_doc m = sort_kv (map (\<lambda>(k, v). (k, json_canon v)) m)"

lemma mget_canon [simp]: "mget (canon_doc m) k = map_option json_canon (mget m k)"
  by (simp add: canon_doc_def)

lemma event_json_eq: "event_json e = Some doc \<Longrightarrow> doc = GObj (canon_doc (event_doc e))"
  by (auto simp: event_json_def canon_doc_def split: if_splits)

lemmas event_doc_fields = event_doc_def jstr_def mget_jfield mget_jfield_last

lemma event_doc_strings:
  "json_str (canon_doc (event_doc e)) ''user_id'' = ev_user e"
  "json_str (canon_doc (event_doc e)) ''intent'' = ev_intent e"
  "json_str (canon_doc (event_doc e)) ''pipeline'' = ev_pipeline e"
  "json_str (canon_doc (event_doc e)) ''result'' = ev_result e"
  "json_str (canon_doc (event_doc e)) ''error'' = ev_error e"
  "json_str (canon_doc (event_doc e)) ''trace_id'' = ev_trace e"
  "json_str (canon_doc (event_doc e)) ''phase'' = ev_phase e"
  "json_str (canon_doc (event_doc e)) ''step'' = ev_step e"
  "json_str (canon_doc (event_doc e)) ''traceparent'' = ev_traceparent e"
  by (simp_all add: json_str_def str_of_def event_doc_fields)

lemma event_doc_others:
  "json_int (canon_doc (event_doc e)) ''timestamp'' = ev_timestamp e"
  "json_int (canon_doc (event_doc e)) ''latency_ms'' = ev_latency e"
  "json_strs (canon_doc (event_doc e)) ''roles'' = ev_roles e"
  "json_strs (canon_doc (event_doc e)) ''tools'' = ev_tools e"
  "json_obj (canon_doc (event_doc e)) ''params'' = norm_map (canon_map (ev_params e))"
  "json_obj (canon_doc (event_doc e)) ''details'' = norm_map (canon_map (ev_details e))"
  by (simp_all add: json_int_def json_strs_def json_obj_def event_doc_fields canon_map_def sort_kv_def comp_def)

lemma event_roundtrip: "event_json e = Some doc \<Longrightarrow> event_of_json doc = Some (event_norm e)"
  by (auto dest!: event_json_eq simp: event_of_json_def event_doc_strings event_doc_others event_norm_def)

definition event_stable :: "event \<Rightarrow> bool" where
  "event_stable e = (json_stable (GObj (ev_params e)) \<and> json_stable (GObj (ev_details e)))"

lemma canon_map_norm: "json_stable (GObj m) \<Longrightarrow> json_canon (GObj (norm_map (canon_map m))) = json_canon (GObj m)"
  using json_canon_norm [of "GObj m"] by (simp add: norm_map_def canon_map_def)

lemma json_stable_ok: "json_stable v \<Longrightarrow> json_ok (json_norm (json_canon v)) \<and> json_ok v"
proof (induction v)
  case (GFloat x)
  then show ?case by (cases x) (auto split: if_splits)
next
  case (GObj m)
  then show ?case by (fastforce simp: list_all_iff)
qed (auto simp: list_all_iff)

lemma canon_map_Nil_iff [simp]: "canon_map m = [] \<longleftrightarrow> m = []"
proof -
  have "length (canon_map m) = length m"
    by (simp add: canon_map_def sort_kv_def)
  then show ?thesis by (metis length_0_conv)
qed

lemma canon_map_Nil [simp]: "canon_map [] = []"
  by simp

lemma event_json_norm:
  assumes "event_stable e" shows "event_json (event_norm e) = event_json e"
proof -
  have ok: "json_ok (GObj (norm_map (canon_map m))) \<and> json_ok (GObj m)" if "json_stable (GObj m)" for m
    using json_stable_ok [OF that] by (simp add: norm_map_def canon_map_def)
  have field: "map (\<lambda>(k, v). (k, json_canon v)) (event_doc (event_norm e)) =
      map (\<lambda>(k, v). (k, json_canon v)) (event_doc e)"
    using assms canon_map_norm [of "ev_params e"] canon_map_norm [of "ev_details e"]
    by (simp add: event_doc_def event_norm_def jfield_def jstr_def event_stable_def)
  show ?thesis
    using assms ok [of "ev_params e"] ok [of "ev_details e"] field
    by (simp add: event_json_def event_stable_def event_norm_def del: json_stable.simps json_ok.simps)
qed

lemma record_roundtrip:
  "event_json (ar_event r) = Some ev \<Longrightarrow>
    record_of_json (record_doc r ev) = Some (r\<lparr>ar_event := event_norm (ar_event r)\<rparr>)"
  by (auto simp: record_of_json_def record_doc_def jstr_def mget_jfield mget_jfield_last json_int_def
      json_str_def str_of_def dest: event_roundtrip)

subsection \<open>The journal verifies\<close>

abbreviation good :: "int \<Rightarrow> string \<Rightarrow> verification \<times> string option" where
  "good n h \<equiv> (\<lparr>vf_valid = True, vf_records = n, vf_head = h, vf_broken = 0\<rparr>, None)"

definition line_links :: "audit_lib \<Rightarrow> int \<Rightarrow> string \<Rightarrow> jline \<Rightarrow> audit_record \<Rightarrow> bool" where
  "line_links lib n prev l r = (line_fits l \<and> decode_line l = Some r \<and> ar_sequence r = n + 1 \<and>
     ar_previous r = prev \<and> hash_record lib (n + 1) prev (ar_event r) = Some (ar_hash r))"

lemma verify_lines_Cons_good:
  "verify_lines lib (l # ls) n prev = good m h \<longleftrightarrow>
    (\<exists>r. line_links lib n prev l r \<and> verify_lines lib ls (n + 1) (ar_hash r) = good m h)"
  by (auto simp: Let_def line_links_def split: option.splits)

lemma verify_lines_append:
  "verify_lines lib (ls @ ks) n prev = good m h \<longleftrightarrow>
    (\<exists>m' h'. verify_lines lib ls n prev = good m' h' \<and> verify_lines lib ks m' h' = good m h)"
proof (induction ls arbitrary: n prev)
  case (Cons l ls)
  show ?case by (simp only: append_Cons verify_lines_Cons_good Cons) blast
qed auto

lemma verify_lines_count: "verify_lines lib ls n prev = good m h \<Longrightarrow> m = n + int (length ls)"
proof (induction ls arbitrary: n prev)
  case (Cons l ls)
  then show ?case by (auto simp only: verify_lines_Cons_good) force
qed auto

lemma verify_lines_snoc:
  "verify_lines lib (ls @ [l]) n prev = good m h \<longleftrightarrow>
    (\<exists>m' h' r. verify_lines lib ls n prev = good m' h' \<and> line_links lib m' h' l r \<and> m = m' + 1 \<and> h = ar_hash r)"
  by (simp only: verify_lines_append verify_lines_Cons_good) auto

definition chain_ok :: "audit_lib \<Rightarrow> file_chain \<Rightarrow> bool" where
  "chain_ok lib c = (fc_err c = None \<longrightarrow> verify_journal lib (fc_lines c) = good (fc_sequence c) (fc_head c))"

lemma chain_log_ok:
  assumes "chain_ok lib c" "event_stable e" "\<And>d. size_of d < max_line"
  shows "chain_ok lib (chain_log lib size_of now w e c)"
proof (cases "fc_err (chain_log lib size_of now w e c) = None")
  case True
  let ?e = "utc_event now e" and ?s = "fc_sequence c + 1"
  from True obtain ev where noerr: "fc_err c = None" and ev: "event_json ?e = Some ev"
    and w: "w = WriteOk" and op: "fc_open c"
    by (auto simp: chain_log_def Let_def split: if_splits option.splits write_outcome.splits)
  define r where "r = \<lparr>ar_sequence = ?s, ar_previous = fc_head c, ar_event = ?e,
    ar_hash = al_sha lib (hash_input ?s (fc_head c) ev)\<rparr>"
  have st: "event_stable ?e" using assms(2) by (simp add: event_stable_def utc_event_def)
  have "line_links lib (fc_sequence c) (fc_head c) (JDoc (record_doc r ev) (size_of (record_doc r ev)))
      (r\<lparr>ar_event := event_norm ?e\<rparr>)"
    using record_roundtrip [of r ev] ev event_json_norm [OF st] assms(3)
    by (simp add: line_links_def line_fits_def decode_line_def hash_record_def r_def)
  moreover have "verify_journal lib (fc_lines c) = good (fc_sequence c) (fc_head c)"
    using assms(1) noerr by (simp add: chain_ok_def)
  ultimately have "verify_journal lib (fc_lines c @ [JDoc (record_doc r ev) (size_of (record_doc r ev))]) =
      good ?s (ar_hash r)"
    unfolding verify_journal_def verify_lines_snoc by (auto simp: r_def)
  then show ?thesis
    using noerr ev w op by (simp add: chain_ok_def chain_log_def Let_def r_def)
next
  case False
  then show ?thesis unfolding chain_ok_def by blast
qed

lemma verify_lines_None: "snd (verify_lines lib ls n p) = None \<Longrightarrow> \<exists>m h. verify_lines lib ls n p = good m h"
proof (induction ls arbitrary: n p)
  case (Cons l ls)
  from Cons.prems obtain r where "line_links lib n p l r"
    by (auto simp: Let_def line_links_def split: if_splits option.splits)
  with Cons.prems have "verify_lines lib (l # ls) n p = verify_lines lib ls (n + 1) (ar_hash r)"
    by (simp add: line_links_def Let_def)
  with Cons show ?case by metis
qed simp

lemma new_file_chain_ok: "new_file_chain lib path f = Inr c \<Longrightarrow> chain_ok lib c"
proof -
  assume a: "new_file_chain lib path f = Inr c"
  have vg: "verify_lines lib ls n p = (v, None) \<Longrightarrow> \<exists>m h. (v, None) = good m h" for ls n p v
    using verify_lines_None [of lib ls n p] by auto
  show ?thesis
  proof (cases f)
    case None
    with a show ?thesis
      by (auto simp: new_file_chain_def verify_file_def chain_ok_def verify_journal_def zero_verification_def
          split: if_splits)
  next
    case (Some ls)
    with a obtain v where v: "verify_journal lib ls = (v, None)"
      by (auto simp: new_file_chain_def verify_file_def split: if_splits prod.splits option.splits)
    with vg [of ls 0 "''''" v] obtain m h where "(v, None) = good m h" by (auto simp: verify_journal_def)
    with a v Some show ?thesis
      by (auto simp: new_file_chain_def verify_file_def chain_ok_def Let_def split: if_splits)
  qed
qed

subsection \<open>Tampering\<close>

lemma hash_input_inj: "hash_input s p v = hash_input s' p' v' \<Longrightarrow> s = s' \<and> p = p' \<and> v = v'"
  by (auto simp: hash_input_def jstr_def jfield_def split: if_splits)

text \<open>The documents a journal's verification hashes.\<close>

definition hashed :: "jline list \<Rightarrow> gval list" where
  "hashed ls = List.map_filter (\<lambda>l. case decode_line l of None \<Rightarrow> None
     | Some r \<Rightarrow> map_option (hash_input (ar_sequence r) (ar_previous r)) (event_json (ar_event r))) ls"

lemma hashed_simps [simp]: "hashed [] = []" "hashed (xs @ ys) = hashed xs @ hashed ys"
  by (simp_all add: hashed_def map_filter_def)

text \<open>What a line commits to: its number, the hash before it, its hash and the text of its event.\<close>

definition line_content :: "jline \<Rightarrow> (int \<times> string \<times> string \<times> gval option) option" where
  "line_content l = map_option (\<lambda>r. (ar_sequence r, ar_previous r, ar_hash r, event_json (ar_event r))) (decode_line l)"

lemma line_links_hashed:
  "line_links lib n p l r \<Longrightarrow> \<exists>ev. event_json (ar_event r) = Some ev \<and> hashed [l] = [hash_input (n + 1) p ev] \<and>
    ar_hash r = al_sha lib (hash_input (n + 1) p ev)"
  by (auto simp: line_links_def hash_record_def hashed_def map_filter_def)

lemma line_links_same_hash:
  assumes "line_links lib n p l r" "line_links lib n' p' l' r'" "ar_hash r = ar_hash r'"
    and "inj_on (al_sha lib) (set (hashed [l]) \<union> set (hashed [l']))"
  shows "n = n' \<and> p = p' \<and> line_content l = line_content l'"
proof -
  obtain ev ev' where ev: "event_json (ar_event r) = Some ev" "event_json (ar_event r') = Some ev'"
    and h: "ar_hash r = al_sha lib (hash_input (n + 1) p ev)" "ar_hash r' = al_sha lib (hash_input (n' + 1) p' ev')"
    and s: "hashed [l] = [hash_input (n + 1) p ev]" "hashed [l'] = [hash_input (n' + 1) p' ev']"
    using line_links_hashed [OF assms(1)] line_links_hashed [OF assms(2)] by blast
  have "hash_input (n + 1) p ev = hash_input (n' + 1) p' ev'"
    by (rule inj_onD [OF assms(4)]) (use assms(3) h s in simp_all)
  then have "n = n'" "p = p'" "ev = ev'" by (auto dest: hash_input_inj)
  with assms ev show ?thesis by (simp add: line_links_def line_content_def)
qed

lemma verify_lines_same_head:
  assumes "\<And>v. al_sha lib v \<noteq> ''''"
  shows "verify_lines lib ls 0 '''' = good m h \<Longrightarrow> verify_lines lib ks 0 '''' = good m' h \<Longrightarrow>
    inj_on (al_sha lib) (set (hashed ls) \<union> set (hashed ks)) \<Longrightarrow> map line_content ls = map line_content ks"
proof (induction ls arbitrary: ks m m' h rule: rev_induct)
  case Nil
  show ?case
  proof (cases ks rule: rev_cases)
    case (snoc ks' k)
    with Nil.prems obtain m1 h1 r where b: "line_links lib m1 h1 k r" "h = ar_hash r" by (auto simp only: verify_lines_snoc)
    have "h = ''''" using Nil.prems(1) by simp
    with line_links_hashed [OF b(1)] b(2) assms show ?thesis by metis
  qed simp
next
  case (snoc l ls)
  from snoc.prems(1) obtain m1 h1 r where a: "verify_lines lib ls 0 '''' = good m1 h1"
    "line_links lib m1 h1 l r" "h = ar_hash r" by (auto simp only: verify_lines_snoc)
  show ?case
  proof (cases ks rule: rev_cases)
    case Nil
    then have "h = ''''" using snoc.prems(2) by simp
    with line_links_hashed [OF a(2)] a(3) assms show ?thesis by metis
  next
    case (snoc ks' k)
    from snoc.prems(2) snoc obtain m2 h2 r' where b: "verify_lines lib ks' 0 '''' = good m2 h2"
      "line_links lib m2 h2 k r'" "h = ar_hash r'" by (auto simp only: verify_lines_snoc)
    have inj: "inj_on (al_sha lib) (set (hashed ls) \<union> set (hashed ks'))"
      "inj_on (al_sha lib) (set (hashed [l]) \<union> set (hashed [k]))"
      using snoc.prems(3) snoc by (auto elim!: inj_on_subset)
    from line_links_same_hash [OF a(2) b(2)] a(3) b(3) inj(2)
    have "h1 = h2" "line_content l = line_content k" by simp_all
    with snoc.IH [OF a(1), of ks' m2] b(1) inj(1) snoc show ?thesis by simp
  qed
qed

subsection \<open>Executions\<close>

definition trace_events :: "string \<Rightarrow> jline list \<Rightarrow> event list" where
  "trace_events t ls = filter (\<lambda>e. ev_trace e = t) (List.map_filter (\<lambda>l. map_option ar_event (decode_line l)) ls)"

definition event_evidence_ok :: "audit_lib \<Rightarrow> string \<Rightarrow> event \<Rightarrow> bool" where
  "event_evidence_ok lib version e =
    ((ev_phase e = ''pipeline.started'' \<longrightarrow> str_of (ev_details e) ''pipeline_version'' = version \<and>
        digest lib (oget_nil (ev_details e) ''pipeline_snapshot'') = version \<and>
        digest_matches lib (ev_details e) ''inputs'' ''input_digest'') \<and>
     (ev_phase e = ''tool.started'' \<longrightarrow> digest_matches lib (ev_details e) ''inputs'' ''input_digest'') \<and>
     (ev_phase e = ''tool.completed'' \<longrightarrow> digest_matches lib (ev_details e) ''result'' ''output_digest''))"

lemma verify_event_spec:
  assumes "verify_event lib e (r, found) = Inr (r', found')"
  shows "event_evidence_ok lib (xv_version r') e \<and> (found \<longrightarrow> xv_version r' = xv_version r) \<and>
    (found' \<longleftrightarrow> found \<or> ev_phase e = ''pipeline.started'') \<and>
    xv_tool_calls r' = xv_tool_calls r + (if ev_phase e = ''tool.started'' then 1 else 0) \<and>
    xv_records r' = xv_records r + 1"
proof -
  consider "ev_phase e = ''pipeline.started''" | "ev_phase e = ''tool.started''" | "ev_phase e = ''tool.completed''"
    | "ev_phase e \<notin> {''pipeline.started'', ''tool.started'', ''tool.completed''}" by blast
  then show ?thesis
    by cases (use assms in \<open>simp_all add: verify_event_def Let_def event_evidence_ok_def split: if_splits\<close>, auto)
qed

lemma verify_trace_spec:
  assumes "verify_trace lib t ls (r, found) = Inr (r', found')"
  shows "(\<forall>e \<in> set (trace_events t ls). event_evidence_ok lib (xv_version r') e) \<and>
    (found \<longrightarrow> xv_version r' = xv_version r) \<and>
    (found' \<longleftrightarrow> found \<or> (\<exists>e \<in> set (trace_events t ls). ev_phase e = ''pipeline.started'')) \<and>
    xv_tool_calls r' = xv_tool_calls r +
      int (length (filter (\<lambda>e. ev_phase e = ''tool.started'') (trace_events t ls))) \<and>
    xv_records r' = xv_records r + int (length (trace_events t ls))"
  using assms
proof (induction ls arbitrary: r found)
  case (Cons l ls)
  then obtain a where a: "decode_line l = Some a" by (cases "decode_line l") auto
  show ?case
  proof (cases "ev_trace (ar_event a) = t")
    case False
    with a Cons show ?thesis by (simp add: trace_events_def List.map_filter_simps)
  next
    case True
    with a Cons.prems obtain r1 f1 where one: "verify_event lib (ar_event a) (r, found) = Inr (r1, f1)"
      and rest: "verify_trace lib t ls (r1, f1) = Inr (r', found')"
      by (auto split: sum.splits)
    have evs: "trace_events t (l # ls) = ar_event a # trace_events t ls"
      using a True by (simp add: trace_events_def List.map_filter_simps)
    note s1 = verify_event_spec [OF one] and s2 = Cons.IH [OF rest]
    have "event_evidence_ok lib (xv_version r') (ar_event a)"
    proof (cases f1)
      case True
      with s1 s2 show ?thesis by simp
    next
      case False
      with s1 have "ev_phase (ar_event a) \<noteq> ''pipeline.started''" by simp
      with s1 show ?thesis by (simp add: event_evidence_ok_def)
    qed
    with s1 s2 show ?thesis unfolding evs by auto
  qed
qed (auto simp: trace_events_def List.map_filter_simps)

subsection \<open>Properties\<close>

definition log_all :: "audit_lib \<Rightarrow> (gval \<Rightarrow> int) \<Rightarrow> (time \<times> write_outcome \<times> event) list \<Rightarrow> file_chain \<Rightarrow> file_chain" where
  "log_all lib size_of steps c = fold (\<lambda>(now, w, e). chain_log lib size_of now w e) steps c"

lemma log_all_ok:
  "chain_ok lib c \<Longrightarrow> (\<And>now w e. (now, w, e) \<in> set steps \<Longrightarrow> event_stable e) \<Longrightarrow> (\<And>d. size_of d < max_line) \<Longrightarrow>
    chain_ok lib (log_all lib size_of steps c)"
proof (induction steps arbitrary: c)
  case (Cons x steps)
  obtain now w e where x: "x = (now, w, e)" by (cases x)
  have "chain_ok lib (chain_log lib size_of now w e c)"
    by (rule chain_log_ok) (use Cons.prems x in auto)
  then have "chain_ok lib (log_all lib size_of steps (chain_log lib size_of now w e c))"
    by (rule Cons.IH) (use Cons.prems in auto)
  with x show ?case by (simp add: log_all_def)
qed (simp add: log_all_def)

lemma logged_journal_verifies_parts:
  assumes "new_file_chain lib path f = Inr c0" "c = log_all lib size_of steps c0"
    and "\<And>now w e. (now, w, e) \<in> set steps \<Longrightarrow> event_stable e" "\<And>d. size_of d < max_line"
    and "fc_err c = None"
  shows "verify_journal lib (fc_lines c) =
      (\<lparr>vf_valid = True, vf_records = fc_sequence c, vf_head = fc_head c, vf_broken = 0\<rparr>, None)"
    and "\<exists>c'. new_file_chain lib path (Some (fc_lines c)) = Inr c' \<and> fc_sequence c' = fc_sequence c \<and>
      fc_head c' = fc_head c"
proof -
  have "chain_ok lib c" using log_all_ok [OF new_file_chain_ok [OF assms(1)]] assms(2-4) by blast
  with assms(5) show v: "verify_journal lib (fc_lines c) = good (fc_sequence c) (fc_head c)"
    by (simp add: chain_ok_def)
  have "path \<noteq> ''''" using assms(1) by (auto simp: new_file_chain_def)
  with v show "\<exists>c'. new_file_chain lib path (Some (fc_lines c)) = Inr c' \<and> fc_sequence c' = fc_sequence c \<and>
      fc_head c' = fc_head c"
    by (simp add: new_file_chain_def verify_file_def Let_def)
qed

text \<open>
  C27: the journal a process writes verifies, while its records stay below 8 MiB, where the verifier's
  scanner gives up, and the numbers of its events are ones that reading JSON back does not change
  (\<open>event_stable\<close>: integers below 10^21 that a float64 holds exactly, and finite floats). Such events, given to a chain opened
  on a verified file, and whatever way their writes fail: as long as no error is reported the file
  verifies with the number of records and the head hash the writer holds, and a restart continues
  from both.
\<close>

theorem logged_journal_verifies:
  assumes "new_file_chain lib path f = Inr c0" "c = log_all lib size_of steps c0"
    and "\<And>now w e. (now, w, e) \<in> set steps \<Longrightarrow> event_stable e" "\<And>d. size_of d < max_line"
    and "fc_err c = None"
  shows "verify_journal lib (fc_lines c) =
      (\<lparr>vf_valid = True, vf_records = fc_sequence c, vf_head = fc_head c, vf_broken = 0\<rparr>, None) \<and>
    (\<exists>c'. new_file_chain lib path (Some (fc_lines c)) = Inr c' \<and> fc_sequence c' = fc_sequence c \<and>
      fc_head c' = fc_head c)"
  by (intro conjI logged_journal_verifies_parts [OF assms(1-4) _] assms(5)) (assumption | rule assms(5))+

definition demo_lib :: audit_lib where
  "demo_lib = \<lparr>al_sha = (\<lambda>v. fmt_v (\<lambda>_. ''f'') v), al_parse_url = (\<lambda>_. None), al_print_url = (\<lambda>_. '''')\<rparr>"

definition demo_event :: event where
  "demo_event = zero_event\<lparr>ev_user := ''ana'', ev_trace := ''t1'', ev_phase := ''tool.failed'',
     ev_details := [(''ok'', GBool True), (''step'', GStr ''s1'')]\<rparr>"

definition demo_chain :: file_chain where
  "demo_chain = \<lparr>fc_lines = [], fc_open = True, fc_sequence = 0, fc_head = '''', fc_traces = [], fc_err = None\<rparr>"

lemma demo_chain_new: "new_file_chain demo_lib ''j'' None = Inr demo_chain"
  by (simp add: new_file_chain_def verify_file_def zero_verification_def demo_chain_def Let_def)

lemma demo_log: "fc_err (log_all demo_lib (\<lambda>_. 100) [(5, WriteOk, demo_event), (6, WriteOk, demo_event)] demo_chain) = None"
  by (simp add: log_all_def chain_log_def demo_chain_def utc_event_def demo_event_def zero_event_def event_json_def Let_def)

lemma logged_journal_verifies_witness:
  "snd (verify_journal demo_lib (fc_lines
     (log_all demo_lib (\<lambda>_. 100) [(5, WriteOk, demo_event), (6, WriteOk, demo_event)] demo_chain))) = None"
proof -
  have "event_stable demo_event" by (simp add: event_stable_def demo_event_def zero_event_def)
  then show ?thesis
    by (subst logged_journal_verifies [OF demo_chain_new refl _ _ demo_log, THEN conjunct1]) (auto simp: max_line_def)
qed

text \<open>
  C11: the journal is tamper-evident. Take a journal that verifies, and a changed one, in which a record
  (number, previous hash, hash or text of the event) was altered, added, dropped or moved. As long as
  SHA-256 gives no two of the documents of these two journals the same digest, the changed journal does
  not verify to the head hash of the first: it is refused, or a recorded head tells them apart.
\<close>

theorem journal_tamper_evident:
  assumes "inj_on (al_sha lib) (set (hashed ls) \<union> set (hashed ks))" "\<And>v. al_sha lib v \<noteq> ''''"
    and "verify_journal lib ls = (v, None)" "map line_content ks \<noteq> map line_content ls"
  shows "snd (verify_journal lib ks) \<noteq> None \<or> vf_head (fst (verify_journal lib ks)) \<noteq> vf_head v"
proof (rule ccontr)
  assume "\<not> ?thesis"
  then have ks: "snd (verify_lines lib ks 0 '''') = None" "vf_head (fst (verify_lines lib ks 0 '''')) = vf_head v"
    by (simp_all add: verify_journal_def)
  obtain m h where l: "verify_lines lib ls 0 '''' = good m h" using verify_lines_None [of lib ls 0 "''''"] assms(3)
    by (auto simp: verify_journal_def)
  obtain m' h' where k: "verify_lines lib ks 0 '''' = good m' h'" using verify_lines_None [OF ks(1)] by blast
  have "v = fst (good m h)" using l assms(3) by (simp add: verify_journal_def)
  then have "h' = h" using ks(2) k by simp
  with verify_lines_same_head [OF assms(2) l, of ks m'] k assms(1,4) show False by simp
qed

definition demo_written :: file_chain where
  "demo_written = log_all demo_lib (\<lambda>_. 100) [(5, WriteOk, demo_event), (6, WriteOk, demo_event)] demo_chain"

lemma demo_written_verifies: "verify_journal demo_lib (fc_lines demo_written) =
    (\<lparr>vf_valid = True, vf_records = fc_sequence demo_written, vf_head = fc_head demo_written, vf_broken = 0\<rparr>, None)"
proof -
  have "event_stable demo_event" by (simp add: event_stable_def demo_event_def zero_event_def)
  then show ?thesis unfolding demo_written_def
    by (subst logged_journal_verifies_parts(1) [OF demo_chain_new refl _ _ demo_log]) (auto simp: max_line_def)
qed

text \<open>A journal of two events, and one in which the second was replaced by another user's.\<close>

definition injective_lib :: audit_lib where
  "injective_lib = demo_lib\<lparr>al_sha := (\<lambda>v. ''h'' @ fmt_v (\<lambda>_. ''f'') v)\<rparr>"

definition journal_of :: "event list \<Rightarrow> jline list" where
  "journal_of es = fc_lines (log_all injective_lib (\<lambda>_. 100) (map (\<lambda>e. (5, WriteOk, e)) es) demo_chain)"

definition first_journal :: "jline list" where "first_journal = journal_of [demo_event, demo_event]"
definition forged_journal :: "jline list" where "forged_journal = journal_of [demo_event, demo_event\<lparr>ev_user := ''eve''\<rparr>]"

lemma forged_parts:
  "snd (verify_journal injective_lib first_journal) = None" "snd (verify_journal injective_lib forged_journal) = None"
  "map line_content forged_journal \<noteq> map line_content first_journal"
  "distinct (map (al_sha injective_lib) (remdups (hashed first_journal @ hashed forged_journal)))"
  by code_simp+

lemma journal_tamper_evident_witness:
  "vf_head (fst (verify_journal injective_lib forged_journal)) \<noteq> vf_head (fst (verify_journal injective_lib first_journal))"
proof -
  have "verify_journal injective_lib first_journal = (fst (verify_journal injective_lib first_journal), None)"
    using forged_parts(1) by (metis prod.collapse)
  moreover have "inj_on (al_sha injective_lib) (set (hashed first_journal) \<union> set (hashed forged_journal))"
    using forged_parts(4) unfolding distinct_map set_remdups set_append by blast
  moreover have "al_sha injective_lib x \<noteq> ''''" for x by (simp add: injective_lib_def)
  ultimately show ?thesis using journal_tamper_evident [OF _ _ _ forged_parts(3)] forged_parts(2) by blast
qed

lemma chain_log_checked_durable_parts:
  "chain_log_checked lib size_of now w e c = (c', None) \<Longrightarrow>
     fc_err c = None \<and> w = WriteOk \<and> (\<exists>line r. fc_lines c' = fc_lines c @ [line] \<and> decode_line line = Some r \<and>
       ar_sequence r = fc_sequence c + 1 \<and> ar_previous r = fc_head c \<and> ar_hash r = fc_head c' \<and>
       ar_event r = event_norm (utc_event now e))"
  "fc_err c = Some err \<Longrightarrow> chain_log_checked lib size_of now w e c = (c, Some err)"
proof -
  assume a: "chain_log_checked lib size_of now w e c = (c', None)"
  then obtain ev where ev: "event_json (utc_event now e) = Some ev"
    by (auto simp: chain_log_checked_def chain_log_def Let_def split: if_splits option.splits)
  from a ev show "fc_err c = None \<and> w = WriteOk \<and> (\<exists>line r. fc_lines c' = fc_lines c @ [line] \<and> decode_line line = Some r \<and>
       ar_sequence r = fc_sequence c + 1 \<and> ar_previous r = fc_head c \<and> ar_hash r = fc_head c' \<and>
       ar_event r = event_norm (utc_event now e))"
    by (auto simp: chain_log_checked_def chain_log_def Let_def decode_line_def record_roundtrip
        split: if_splits write_outcome.splits)
qed (simp add: chain_log_checked_def chain_log_def)

text \<open>
  C35: an audit write that reports no error has put exactly this event, as the next record, at the
  end of the journal; and once a write failed, no later event is accepted or written.
\<close>

theorem chain_log_checked_durable:
  "(chain_log_checked lib size_of now w e c = (c', None) \<longrightarrow>
     fc_err c = None \<and> w = WriteOk \<and> (\<exists>line r. fc_lines c' = fc_lines c @ [line] \<and> decode_line line = Some r \<and>
       ar_sequence r = fc_sequence c + 1 \<and> ar_previous r = fc_head c \<and> ar_hash r = fc_head c' \<and>
       ar_event r = event_norm (utc_event now e))) \<and>
   (fc_err c = Some err \<longrightarrow> chain_log_checked lib size_of now w e c = (c, Some err))"
  using chain_log_checked_durable_parts by blast

lemma chain_log_checked_durable_witness:
  "\<exists>line r. fc_lines (fst (chain_log_checked demo_lib (\<lambda>_. 1) 5 WriteOk demo_event demo_chain)) = [line] \<and>
     decode_line line = Some r \<and> ar_event r = event_norm (utc_event 5 demo_event)"
proof -
  obtain c' r where c: "chain_log_checked demo_lib (\<lambda>_. 1) 5 WriteOk demo_event demo_chain = (c', r)" by fastforce
  then have "r = None"
    by (auto simp: chain_log_checked_def chain_log_def demo_chain_def utc_event_def demo_event_def zero_event_def
        event_json_def Let_def)
  with c chain_log_checked_durable [of demo_lib "\<lambda>_. 1" 5 WriteOk demo_event demo_chain c']
  show ?thesis by (simp add: demo_chain_def) blast
qed

text \<open>
  an execution that verification accepts has a manifest in a valid journal, its pipeline version
  is the digest of the recorded snapshot in every manifest of the trace, every recorded input and
  output of its tool calls matches its digest, and the count of tool calls is exact.
\<close>

theorem verified_execution_evidence:
  assumes "verify_execution lib ls t = Inr r"
  shows "snd (verify_journal lib ls) = None \<and>
    (\<exists>e \<in> set (trace_events t ls). ev_phase e = ''pipeline.started'') \<and>
    (\<forall>e \<in> set (trace_events t ls). event_evidence_ok lib (xv_version r) e) \<and>
    xv_tool_calls r = int (length (filter (\<lambda>e. ev_phase e = ''tool.started'') (trace_events t ls)))"
proof -
  obtain v where v: "verify_journal lib ls = (v, None)"
    using assms by (auto simp: verify_execution_def split: prod.splits if_splits)
  let ?z = "\<lparr>xv_valid = False, xv_trace = t, xv_records = 0, xv_version = '''', xv_tool_calls = 0, xv_error = ''''\<rparr>"
  obtain r0 found where tr: "verify_trace lib t ls (?z, False) = Inr (r0, found)" "found" "r = r0\<lparr>xv_valid := True\<rparr>"
    using assms v by (auto simp: verify_execution_def split: prod.splits if_splits sum.splits)
  with v verify_trace_spec [OF tr(1)] show ?thesis by simp
qed

definition demo_manifest :: event where
  "demo_manifest = zero_event\<lparr>ev_trace := ''t1'', ev_phase := ''pipeline.started'', ev_details :=
     [(''pipeline_version'', GStr (digest demo_lib (GStr ''p''))), (''pipeline_snapshot'', GStr ''p''),
      (''input_digest'', GStr (digest demo_lib (GObj [(''a'', GStr ''1'')]))), (''inputs'', GObj [(''a'', GStr ''1'')])]\<rparr>"

definition demo_journal :: "jline list" where
  "demo_journal = fc_lines (log_all demo_lib (\<lambda>_. 100) [(5, WriteOk, demo_manifest), (6, WriteOk, demo_event)] demo_chain)"

lemma demo_journal_verified: "verify_execution demo_lib demo_journal ''t1'' =
  Inr \<lparr>xv_valid = True, xv_trace = ''t1'', xv_records = 2, xv_version = ''sha256:p'', xv_tool_calls = 0, xv_error = ''''\<rparr>"
  by code_simp

lemma verified_execution_evidence_witness:
  "\<exists>e \<in> set (trace_events ''t1'' demo_journal). ev_phase e = ''pipeline.started''"
  using verified_execution_evidence [OF demo_journal_verified] by blast

lemma multi_log_reaches_all_parts:
  assumes "length fs = length ss" "multi_log_checked fs now e ss = (ss', err)"
  shows "ss' = map2 (\<lambda>f s. fst (f (utc_event now e) s)) fs ss"
    and "err = None \<longleftrightarrow> (\<forall>(f, s) \<in> set (zip fs ss). snd (f (utc_event now e) s) = None)"
proof -
  have "multi_log fs ev ss = (map2 (\<lambda>f s. fst (f ev s)) fs ss,
      List.map_filter (\<lambda>(f, s). snd (f ev s)) (zip fs ss))" if "length fs = length ss" for ev
    using that
    by (induction fs ev ss rule: multi_log.induct) (auto simp: List.map_filter_simps split: prod.splits option.splits)
  with assms have s: "ss' = map2 (\<lambda>f s. fst (f (utc_event now e) s)) fs ss"
    "err = (if List.map_filter (\<lambda>(f, s). snd (f (utc_event now e) s)) (zip fs ss) = [] then None
      else Some (str_join [char_of (10 :: nat)] (List.map_filter (\<lambda>(f, s). snd (f (utc_event now e) s)) (zip fs ss))))"
    by (auto simp: multi_log_checked_def)
  from s(1) show "ss' = map2 (\<lambda>f s. fst (f (utc_event now e) s)) fs ss" .
  have "List.map_filter g xs = [] \<longleftrightarrow> (\<forall>x \<in> set xs. g x = None)" for g :: "'a sink \<times> 'a \<Rightarrow> string option" and xs
    by (auto simp: List.map_filter_def filter_empty_conv)
  with s(2) have "err = None \<longleftrightarrow> (\<forall>x \<in> set (zip fs ss). (case x of (f, s) \<Rightarrow> snd (f (utc_event now e) s)) = None)"
    by simp
  then show "err = None \<longleftrightarrow> (\<forall>(f, s) \<in> set (zip fs ss). snd (f (utc_event now e) s) = None)"
    by (simp add: split_def)
qed

text \<open>
  every sink of the fan-out gets every event with a time stamp, in order and whatever the other
  sinks answered, and the checked write reports no error exactly when no sink reported one.
\<close>

theorem multi_log_reaches_all:
  assumes "length fs = length ss" "multi_log_checked fs now e ss = (ss', err)"
  shows "ss' = map2 (\<lambda>f s. fst (f (utc_event now e) s)) fs ss \<and>
    (err = None \<longleftrightarrow> (\<forall>(f, s) \<in> set (zip fs ss). snd (f (utc_event now e) s) = None))"
  using multi_log_reaches_all_parts [OF assms] by blast

lemma multi_log_reaches_all_witness:
  "fst (multi_log_checked [\<lambda>e n. (n + (1::nat), Some ''down''), \<lambda>e n. (n + 1, None)] 5 demo_event [0, 7]) = [1, 8]"
proof -
  obtain ss' err where r: "multi_log_checked [\<lambda>e n. (n + (1::nat), Some ''down''), \<lambda>e n. (n + 1, None)] 5 demo_event [0, 7] = (ss', err)"
    by fastforce
  with multi_log_reaches_all [OF _ r] show ?thesis by simp
qed

end
