(* ===== verification/Vector_Memory.thy ===== *)
theory Vector_Memory
  imports Engine_Model
begin

text \<open>
  Long-term memory: the in-memory vector store (state/vector_store.go), the facts kept of a run
  (agent/memory_facts.go) and the memory tools (agent/memory_tools.go). The tools are written
  against the operations of the store; embeddings and the printing of floats are arguments.
\<close>

subsection \<open>The store\<close>

record memory =
  me_id :: string
  me_session :: string
  me_text :: string
  me_embedding :: "f64 list"
  me_metadata :: "gval gomap"
  me_timestamp :: time

definition is_personal_fact :: "memory \<Rightarrow> bool" where
  "is_personal_fact m =
    (let present = (\<lambda>k. case mget (me_metadata m) k of None \<Rightarrow> False | Some v \<Rightarrow> v \<noteq> GNil) in
     if present ''execution_id'' \<or> present ''intent'' then False
     else \<not> has_prefix (me_text m) ''Preference:'' \<and> \<not> has_prefix (me_text m) ''Intent:'')"

record 'v vector_ops =
  vo_add :: "memory \<Rightarrow> 'v \<Rightarrow> 'v \<times> string option"
  vo_search :: "string \<Rightarrow> f64 list \<Rightarrow> nat \<Rightarrow> 'v \<Rightarrow> string + memory list"
  vo_list :: "string \<Rightarrow> 'v \<Rightarrow> string + memory list"
  vo_delete :: "string \<Rightarrow> string \<Rightarrow> 'v \<Rightarrow> 'v \<times> string option"
  vo_clear :: "string \<Rightarrow> 'v \<Rightarrow> 'v \<times> string option"

definition mv_add :: "memory \<Rightarrow> memory list \<Rightarrow> memory list \<times> string option" where
  "mv_add m ms = (ms @ [m], None)"

definition mv_list :: "string \<Rightarrow> memory list \<Rightarrow> string + memory list" where
  "mv_list s ms = Inr (filter (\<lambda>m. me_session m = s) ms)"

text \<open>The search of the in-memory store ignores the embedding and returns the whole session.\<close>

definition mv_search :: "string \<Rightarrow> f64 list \<Rightarrow> nat \<Rightarrow> memory list \<Rightarrow> string + memory list" where
  "mv_search s embedding top_k ms = Inr (filter (\<lambda>m. me_session m = s) ms)"

fun remove_first :: "string \<Rightarrow> string \<Rightarrow> memory list \<Rightarrow> memory list" where
  "remove_first s i [] = []"
| "remove_first s i (m # ms) = (if me_session m = s \<and> me_id m = i then ms else m # remove_first s i ms)"

definition mv_delete :: "string \<Rightarrow> string \<Rightarrow> memory list \<Rightarrow> memory list \<times> string option" where
  "mv_delete s i ms = (remove_first s i ms, None)"

definition mv_clear :: "string \<Rightarrow> memory list \<Rightarrow> memory list \<times> string option" where
  "mv_clear s ms = (filter (\<lambda>m. me_session m \<noteq> s) ms, None)"

definition mv_ops :: "memory list vector_ops" where
  "mv_ops = \<lparr>vo_add = mv_add, vo_search = mv_search, vo_list = mv_list, vo_delete = mv_delete,
     vo_clear = mv_clear\<rparr>"

subsection \<open>Facts of a run (memory_facts.go)\<close>

definition max_facts :: nat where "max_facts = 40"
definition max_fact_value_len :: nat where "max_fact_value_len = 200"

definition fact_noise :: "string \<Rightarrow> bool" where
  "fact_noise k = (k = ''ok'' \<or> k = ''statusCode'')"

definition add_fact :: "(f64 \<Rightarrow> string) \<Rightarrow> string \<Rightarrow> gval \<Rightarrow> string gomap \<Rightarrow> string gomap" where
  "add_fact ff key v out =
    (if max_facts \<le> length out then out else mput out key (take max_fact_value_len (fmt_v ff v)))"

fun flatten_fact :: "(f64 \<Rightarrow> string) \<Rightarrow> string \<Rightarrow> gval \<Rightarrow> string gomap \<Rightarrow> string gomap" where
  "flatten_fact ff key (GObj m) out =
    fold (\<lambda>(k, v) acc. if fact_noise k then acc
      else flatten_fact ff (if key \<noteq> '''' then key @ ''.'' @ k else k) v acc) m out"
| "flatten_fact ff key (GList xs) out =
    snd (fold (\<lambda>v (i, acc). (i + 1, flatten_fact ff (key @ ''.'' @ show_nat i) v acc)) xs (0 :: nat, out))"
| "flatten_fact ff key GNil out = out"
| "flatten_fact ff key v out = add_fact ff key v out"

definition extract_facts :: "(f64 \<Rightarrow> string) \<Rightarrow> gval gomap \<Rightarrow> string gomap" where
  "extract_facts ff raw = flatten_fact ff '''' (GObj raw) []"

definition facts_text :: "string gomap \<Rightarrow> string" where
  "facts_text facts = concat (map (\<lambda>(k, v). k @ '': '' @ v @ [char_of (10 :: nat)]) (sort_kv facts))"

subsection \<open>The memory tools (memory_tools.go)\<close>

text \<open>The loop that deletes the memories matching by id or by text, one store call each.\<close>

fun delete_matching :: "'v vector_ops \<Rightarrow> string \<Rightarrow> string \<Rightarrow> memory list \<Rightarrow> int \<Rightarrow> 'v \<Rightarrow> 'v \<times> (string + int)" where
  "delete_matching ops s target [] n v = (v, Inr n)"
| "delete_matching ops s target (m # ms) n v =
    (if me_id m = target \<or> equal_fold (trim_space (me_text m)) (trim_space target)
     then (case vo_delete ops s (me_id m) v of
         (v', Some err) \<Rightarrow> (v', Inl err)
       | (v', None) \<Rightarrow> delete_matching ops s target ms (n + 1) v')
     else delete_matching ops s target ms n v)"

definition memory_add :: "'v vector_ops \<Rightarrow> (string \<Rightarrow> string + f64 list) option \<Rightarrow> string \<Rightarrow> time \<Rightarrow> string \<Rightarrow>
    gval gomap \<Rightarrow> 'v \<Rightarrow> 'v \<times> (string + gval gomap)" where
  "memory_add ops emb_client uuid now s params v =
    (let fact = str_of params ''fact'' in
     if trim_space fact = '''' then (v, Inl ''fact required'')
     else (case emb_client of None \<Rightarrow> (v, Inl ''embedding client not configured'')
       | Some e \<Rightarrow> (case e fact of Inl err \<Rightarrow> (v, Inl err)
         | Inr emb \<Rightarrow>
           (case vo_add ops \<lparr>me_id = uuid, me_session = s, me_text = fact, me_embedding = emb,
               me_metadata = [(''kind'', GStr ''personal_fact'')], me_timestamp = now\<rparr> v of
             (v', Some err) \<Rightarrow> (v', Inl err)
           | (v', None) \<Rightarrow> (v', Inr [(''executed'', GBool True), (''status'', GStr ''fact added to memory''),
               (''fact'', GStr fact)])))))"

definition memory_list :: "'v vector_ops \<Rightarrow> string \<Rightarrow> 'v \<Rightarrow> 'v \<times> (string + gval gomap)" where
  "memory_list ops s v = (case vo_list ops s v of Inl err \<Rightarrow> (v, Inl err)
     | Inr ms \<Rightarrow> (v, Inr [(''executed'', GBool True),
         (''memories'', GList (map (\<lambda>m. GStr (me_text m)) (filter is_personal_fact ms)))]))"

definition memory_delete :: "'v vector_ops \<Rightarrow> string \<Rightarrow> gval gomap \<Rightarrow> 'v \<Rightarrow> 'v \<times> (string + gval gomap)" where
  "memory_delete ops s params v =
    (let target = str_of params ''fact_to_forget'' in
     if trim_space target = '''' then (v, Inl ''fact_to_forget required'')
     else (case vo_list ops s v of Inl err \<Rightarrow> (v, Inl err)
       | Inr ms \<Rightarrow> (case delete_matching ops s target ms 0 v of (v', Inl err) \<Rightarrow> (v', Inl err)
         | (v', Inr n) \<Rightarrow> (v', Inr [(''executed'', GBool True), (''deleted'', GInt n),
             (''status'', GStr (''deleted '' @ show_int n @
               '' matching memories; use the memory ID or exact text''))]))))"

definition execute_memory_tool :: "'v vector_ops \<Rightarrow> (string \<Rightarrow> string + f64 list) option \<Rightarrow> string \<Rightarrow> time \<Rightarrow>
    string \<Rightarrow> string \<Rightarrow> gval gomap \<Rightarrow> 'v option \<Rightarrow> 'v option \<times> (string + gval gomap)" where
  "execute_memory_tool ops emb_client uuid now tool s params vec =
    (case vec of None \<Rightarrow> (None, Inl ''vector store not configured'')
     | Some v \<Rightarrow>
       if s = '''' then (Some v, Inl ''memory owner required'')
       else (case (if tool = ''system.memory.add'' then memory_add ops emb_client uuid now s params v
           else if tool = ''system.memory.list'' then memory_list ops s v
           else if tool = ''system.memory.delete'' then memory_delete ops s params v
           else if tool = ''system.memory.clear'' then (case vo_clear ops s v of
               (v', Some err) \<Rightarrow> (v', Inl err)
             | (v', None) \<Rightarrow> (v', Inr [(''executed'', GBool True), (''status'', GStr ''all memories cleared'')]))
           else (v, Inl (''unknown memory tool: '' @ tool))) of (v', r) \<Rightarrow> (Some v', r)))"

subsection \<open>The contract of a store\<close>

text \<open>What the tools rely on: an operation of one session leaves what others list alone, and shows
  in the list of its own.\<close>

locale vector_store =
  fixes ops :: "'v vector_ops"
  assumes add_lists: "vo_add ops m v = (v', None) \<Longrightarrow> vo_list ops s v = Inr ms \<Longrightarrow>
      vo_list ops s v' = Inr (if me_session m = s then ms @ [m] else ms)"
    and add_fails: "vo_add ops m v = (v', Some err) \<Longrightarrow> s \<noteq> me_session m \<Longrightarrow> vo_list ops s v' = vo_list ops s v"
    and delete_others: "vo_delete ops t i v = (v', r) \<Longrightarrow> s \<noteq> t \<Longrightarrow> vo_list ops s v' = vo_list ops s v"
    and delete_lists: "vo_delete ops s i v = (v', None) \<Longrightarrow> vo_list ops s v = Inr ms \<Longrightarrow> distinct (map me_id ms) \<Longrightarrow>
      vo_list ops s v' = Inr (filter (\<lambda>m. me_id m \<noteq> i) ms)"
    and clear_others: "vo_clear ops t v = (v', r) \<Longrightarrow> s \<noteq> t \<Longrightarrow> vo_list ops s v' = vo_list ops s v"
    and clear_lists: "vo_clear ops s v = (v', None) \<Longrightarrow> vo_list ops s v' = Inr []"
    and list_session: "vo_list ops s v = Inr ms \<Longrightarrow> m \<in> set ms \<Longrightarrow> me_session m = s"
    and add_list_err: "vo_add ops m v = (v', r) \<Longrightarrow> s \<noteq> me_session m \<Longrightarrow> vo_list ops s v = Inl e \<Longrightarrow> vo_list ops s v' = Inl e"
begin

lemma add_others: "vo_add ops m v = (v', r) \<Longrightarrow> s \<noteq> me_session m \<Longrightarrow> vo_list ops s v' = vo_list ops s v"
proof -
  assume a: "vo_add ops m v = (v', r)" and s: "s \<noteq> me_session m"
  show ?thesis
  proof (cases r)
    case None
    with a s add_list_err [OF a s] add_lists [of m v v' s] show ?thesis by (cases "vo_list ops s v") auto
  next
    case (Some e)
    with a s add_fails show ?thesis by blast
  qed
qed

lemma delete_matching_others:
  "delete_matching ops t target ms n v = (v', r) \<Longrightarrow> s \<noteq> t \<Longrightarrow> vo_list ops s v' = vo_list ops s v"
proof (induction ms arbitrary: n v)
  case (Cons m ms)
  then show ?case by (fastforce split: if_splits prod.splits option.splits dest: delete_others)
qed auto

lemma memory_tool_isolated:
  assumes "execute_memory_tool ops emb_client uuid now tool t params (Some v) = (Some v', r)" "s \<noteq> t"
  shows "vo_list ops s v' = vo_list ops s v"
  using assms
  by (auto simp: execute_memory_tool_def memory_add_def memory_list_def memory_delete_def Let_def
      split: if_splits prod.splits option.splits sum.splits
      dest: add_others clear_others delete_matching_others)

lemma delete_matching_rest:
  assumes "delete_matching ops s target ms n v = (v', Inr k)" "vo_list ops s v = Inr (kept @ ms)"
    and "distinct (map me_id (kept @ ms))"
  shows "vo_list ops s v' = Inr (kept @ filter (\<lambda>m. \<not> (me_id m = target \<or> equal_fold (trim_space (me_text m)) (trim_space target))) ms)"
  using assms
proof (induction ms arbitrary: kept n v)
  case (Cons m ms)
  show ?case
  proof (cases "me_id m = target \<or> equal_fold (trim_space (me_text m)) (trim_space target)")
    case True
    with Cons(2) obtain v1 where d: "vo_delete ops s (me_id m) v = (v1, None)"
      "delete_matching ops s target ms (n + 1) v1 = (v', Inr k)"
      by (auto split: prod.splits option.splits)
    have "filter (\<lambda>x. me_id x \<noteq> me_id m) (kept @ m # ms) = kept @ ms"
      using Cons(4) by (fastforce simp: filter_id_conv image_iff intro!: arg_cong2 [where f = "(@)"])
    with delete_lists [OF d(1) Cons(3) Cons(4)] have "vo_list ops s v1 = Inr (kept @ ms)" by simp
    with Cons(1) [OF d(2)] Cons(4) True show ?thesis by auto
  next
    case False
    with Cons(1) [of n v "kept @ [m]"] Cons(2-4) show ?thesis by auto
  qed
qed auto

end

lemma remove_first_filter: "distinct (map me_id (filter (\<lambda>m. me_session m = s) ms)) \<Longrightarrow>
   filter (\<lambda>m. me_session m = s) (remove_first s i ms) = filter (\<lambda>m. me_id m \<noteq> i) (filter (\<lambda>m. me_session m = s) ms)"
proof (induction ms)
  case (Cons m ms)
  have "me_id m \<notin> me_id ` set (filter (\<lambda>m. me_session m = s) ms) \<Longrightarrow>
     filter (\<lambda>x. me_id x \<noteq> me_id m) (filter (\<lambda>m. me_session m = s) ms) = filter (\<lambda>m. me_session m = s) ms"
    by (rule filter_True) (auto simp: image_iff)
  with Cons show ?case by (cases "me_session m = s"; cases "me_id m = i") simp_all
qed simp

lemma remove_first_others: "s \<noteq> t \<Longrightarrow> filter (\<lambda>m. me_session m = s) (remove_first t i ms) = filter (\<lambda>m. me_session m = s) ms"
  by (induction ms) auto

interpretation mv: vector_store mv_ops
proof (unfold_locales, goal_cases)
  case (4 s i v v' ms)
  then show ?case by (auto simp: mv_ops_def mv_delete_def mv_list_def remove_first_filter)
next
  case (5 t v v' r s)
  then show ?case by (auto simp: mv_ops_def mv_clear_def mv_list_def intro: filter_cong)
qed (auto simp: mv_ops_def mv_add_def mv_list_def mv_delete_def mv_clear_def remove_first_others)

subsection \<open>Facts kept of a run\<close>

definition fact_map_ok :: "string gomap \<Rightarrow> bool" where
  "fact_map_ok out = (length out \<le> max_facts \<and> distinct (map fst out) \<and>
     list_all (\<lambda>(k, s). length s \<le> max_fact_value_len) out)"

lemma length_mput: "length (mput m k v) \<le> Suc (length m)"
  by (induction m) auto

lemma list_all_mput: "list_all (\<lambda>(k, v). P v) m \<Longrightarrow> P v \<Longrightarrow> list_all (\<lambda>(k, v). P v) (mput m k v)"
  by (induction m) auto

lemma add_fact_ok: "fact_map_ok out \<Longrightarrow> fact_map_ok (add_fact ff key v out)"
  using length_mput [of key "take max_fact_value_len (fmt_v ff v)" out]
  by (auto simp: fact_map_ok_def add_fact_def distinct_update
      intro!: list_all_mput [where P = "\<lambda>s. length s \<le> max_fact_value_len"])

lemma fold_inv: "(\<And>x acc. x \<in> set xs \<Longrightarrow> P acc \<Longrightarrow> P (f x acc)) \<Longrightarrow> P acc \<Longrightarrow> P (fold f xs acc)"
  by (induction xs arbitrary: acc) auto

lemma flatten_fact_ok: "fact_map_ok out \<Longrightarrow> fact_map_ok (flatten_fact ff key v out)"
proof (induction ff key v out rule: flatten_fact.induct)
  case (1 ff key m out)
  then show ?case
    by (auto intro!: fold_inv [where P = fact_map_ok])
next
  case (2 ff key xs out)
  have "fact_map_ok (snd (fold (\<lambda>v (i, acc). (i + 1, flatten_fact ff (key @ ''.'' @ show_nat i) v acc)) xs (0 :: nat, out)))"
    by (rule fold_inv [where P = "\<lambda>p. fact_map_ok (snd p)"]) (use 2 in \<open>auto split: prod.splits\<close>)
  then show ?case by simp
qed (auto intro: add_fact_ok)

text \<open>
  whatever a run returned, at most 40 facts are kept of it, under different keys, and none is
  longer than 200 bytes.
\<close>

theorem extract_facts_bounded:
  "length (extract_facts ff raw) \<le> 40 \<and> distinct (map fst (extract_facts ff raw)) \<and>
   (\<forall>k s. mget (extract_facts ff raw) k = Some s \<longrightarrow> length s \<le> 200)"
proof -
  have "fact_map_ok (extract_facts ff raw)"
    unfolding extract_facts_def by (rule flatten_fact_ok) (simp add: fact_map_ok_def)
  then show ?thesis
    by (auto simp: fact_map_ok_def max_facts_def max_fact_value_len_def list_all_iff dest!: map_of_SomeD)
qed

lemma extract_facts_bounded_witness:
  "length (extract_facts (\<lambda>_. ''1'') [(''a'', GList [GStr ''x'', GObj [(''ok'', GBool True), (''id'', GInt 7)]])]) \<le> 40 \<and>
   extract_facts (\<lambda>_. ''1'') [(''a'', GList [GStr ''x'', GObj [(''ok'', GBool True), (''id'', GInt 7)]])] =
     [(''a.0'', ''x''), (''a.1.id'', ''7'')]"
proof
  show "length (extract_facts (\<lambda>_. ''1'') [(''a'', GList [GStr ''x'', GObj [(''ok'', GBool True), (''id'', GInt 7)]])]) \<le> 40"
    using extract_facts_bounded by blast
qed code_simp

subsection \<open>The memory tools\<close>

text \<open>
  a memory tool serves its session only: whatever tool is run with whatever parameters and
  however the embedding fails, the memories that every other session lists stay the same. Clearing
  leaves the session with none, and deleting one leaves exactly those that match the target
  neither by id nor by text.
\<close>

theorem memory_tools_isolated:
  assumes "execute_memory_tool mv_ops emb_client uuid now tool t params (Some ms) = (Some ms', r)"
  shows "(\<forall>s. s \<noteq> t \<longrightarrow> mv_list s ms' = mv_list s ms) \<and>
    (tool = ''system.memory.clear'' \<and> is_ok r \<longrightarrow> mv_list t ms' = Inr []) \<and>
    (tool = ''system.memory.delete'' \<and> is_ok r \<and> distinct (map me_id (filter (\<lambda>m. me_session m = t) ms)) \<longrightarrow>
      mv_list t ms' = Inr (filter (\<lambda>m. me_session m = t \<and> me_id m \<noteq> str_of params ''fact_to_forget'' \<and>
        \<not> equal_fold (trim_space (me_text m)) (trim_space (str_of params ''fact_to_forget''))) ms))"
proof (intro conjI allI impI)
  have l: "vo_list mv_ops = mv_list" by (simp add: mv_ops_def)
  show "mv_list s ms' = mv_list s ms" if "s \<noteq> t" for s
    using mv.memory_tool_isolated [OF assms that] by (simp add: l)
  show "mv_list t ms' = Inr []" if "tool = ''system.memory.clear'' \<and> is_ok r"
    using assms that mv.clear_lists [of t ms ms']
    by (auto simp: l execute_memory_tool_def split: if_splits prod.splits option.splits)
  assume d: "tool = ''system.memory.delete'' \<and> is_ok r \<and> distinct (map me_id (filter (\<lambda>m. me_session m = t) ms))"
  then obtain n where n: "delete_matching mv_ops t (str_of params ''fact_to_forget'')
      (filter (\<lambda>m. me_session m = t) ms) 0 ms = (ms', Inr n)"
    using assms by (auto simp: l execute_memory_tool_def memory_delete_def mv_list_def Let_def
        split: if_splits prod.splits option.splits sum.splits)
  show "mv_list t ms' = Inr (filter (\<lambda>m. me_session m = t \<and> me_id m \<noteq> str_of params ''fact_to_forget'' \<and>
        \<not> equal_fold (trim_space (me_text m)) (trim_space (str_of params ''fact_to_forget''))) ms)"
    using mv.delete_matching_rest [OF n, of "[]"] d by (simp add: l mv_list_def conj_commute conj_left_commute)
qed

definition demo_memory :: "string \<Rightarrow> string \<Rightarrow> string \<Rightarrow> memory" where
  "demo_memory i s t = \<lparr>me_id = i, me_session = s, me_text = t, me_embedding = [], me_metadata = [], me_timestamp = 1\<rparr>"

lemma memory_tools_isolated_witness:
  "mv_list ''bob'' (remove_first ''ann'' ''1'' [demo_memory ''1'' ''ann'' ''likes tea'', demo_memory ''1'' ''bob'' ''likes tea'']) =
     Inr [demo_memory ''1'' ''bob'' ''likes tea'']"
proof -
  let ?ms = "[demo_memory ''1'' ''ann'' ''likes tea'', demo_memory ''1'' ''bob'' ''likes tea'']"
  have "execute_memory_tool mv_ops None ''u'' 1 ''system.memory.delete'' ''ann''
      [(''fact_to_forget'', GStr '' Likes tea'')] (Some ?ms) =
    (Some (remove_first ''ann'' ''1'' ?ms),
      Inr [(''executed'', GBool True), (''deleted'', GInt 1),
        (''status'', GStr ''deleted 1 matching memories; use the memory ID or exact text'')])"
    by code_simp
  from memory_tools_isolated [OF this] show ?thesis
    by (simp add: mv_list_def demo_memory_def)
qed

end
