(* ===== verification/Bus_Model.thy ===== *)
theory Bus_Model
  imports Auth_Model Config_Model
begin

text \<open>
  The message bus (bus/bus.go) and the access to payloads (payload/payload.go). A channel is a
  buffer with a capacity; sending never blocks: a message for a full channel is dropped.
\<close>

text \<open>What the program puts into a payload: untyped values, string maps, a pipeline or an identity.\<close>

datatype pval = PVal gval | PStrMap "string gomap" | PPipe pipeline | PIdent "identity option"

record message =
  ms_type :: string
  ms_payload :: "pval gomap"

subsection \<open>Payloads\<close>

definition get_string :: "pval gomap \<Rightarrow> string \<Rightarrow> string option" where
  "get_string m key = (case mget m key of Some (PVal (GStr s)) \<Rightarrow> Some s | _ \<Rightarrow> None)"

definition get_map_any :: "pval gomap \<Rightarrow> string \<Rightarrow> gval gomap option" where
  "get_map_any m key = (case mget m key of Some (PVal (GObj o1)) \<Rightarrow> Some o1 | _ \<Rightarrow> None)"

definition get_string_map :: "pval gomap \<Rightarrow> string \<Rightarrow> string gomap option" where
  "get_string_map m key = (case get_map_any m key of None \<Rightarrow> None
     | Some src \<Rightarrow> Some (fold (\<lambda>(k, v) out. case v of GStr s \<Rightarrow> mput out k s | _ \<Rightarrow> out) src []))"

text \<open>\<open>s, _ := payload.GetString(m, key)\<close>\<close>

definition get_string0 :: "pval gomap \<Rightarrow> string \<Rightarrow> string" where
  "get_string0 m key = (case get_string m key of Some s \<Rightarrow> s | None \<Rightarrow> '''')"

abbreviation PS :: "string \<Rightarrow> pval" where "PS s \<equiv> PVal (GStr s)"

subsection \<open>The bus\<close>

record channel =
  ch_cap :: nat
  ch_queue :: "message list"

record bus =
  bs_subs :: "nat list gomap"
  bs_chans :: "nat \<Rightarrow> channel"

definition new_bus :: "(nat \<Rightarrow> nat) \<Rightarrow> bus" where
  "new_bus cap = \<lparr>bs_subs = [], bs_chans = (\<lambda>c. \<lparr>ch_cap = cap c, ch_queue = []\<rparr>)\<rparr>"

definition subscribers :: "bus \<Rightarrow> string \<Rightarrow> nat list" where
  "subscribers b target = (case mget (bs_subs b) target of None \<Rightarrow> [] | Some cs \<Rightarrow> cs)"

definition bus_subscribe :: "string \<Rightarrow> nat \<Rightarrow> bus \<Rightarrow> bus" where
  "bus_subscribe target c b = b\<lparr>bs_subs := mput (bs_subs b) target (List.insert c (subscribers b target))\<rparr>"

definition bus_unsubscribe :: "string \<Rightarrow> nat \<Rightarrow> bus \<Rightarrow> bus" where
  "bus_unsubscribe target c b = (case mget (bs_subs b) target of None \<Rightarrow> b
     | Some cs \<Rightarrow> b\<lparr>bs_subs := mput (bs_subs b) target (removeAll c cs)\<rparr>)"

definition channel_offer :: "message \<Rightarrow> channel \<Rightarrow> channel" where
  "channel_offer m ch = (if length (ch_queue ch) < ch_cap ch then ch\<lparr>ch_queue := ch_queue ch @ [m]\<rparr> else ch)"

definition bus_send :: "string \<Rightarrow> message \<Rightarrow> bus \<Rightarrow> bus" where
  "bus_send target m b =
    fold (\<lambda>c b. b\<lparr>bs_chans := (bs_chans b)(c := channel_offer m (bs_chans b c))\<rparr>) (subscribers b target) b"

definition event_message :: "string \<Rightarrow> string \<Rightarrow> string \<Rightarrow> string \<Rightarrow> string \<Rightarrow> message" where
  "event_message task agent kind text duration = \<lparr>ms_type = ''agent_event'', ms_payload =
     [(''task_id'', PS task), (''agent'', PS agent), (''kind'', PS kind), (''message'', PS text),
      (''duration'', PS duration)]\<rparr>"

definition publish_event :: "string \<Rightarrow> string \<Rightarrow> string \<Rightarrow> string \<Rightarrow> string \<Rightarrow> bus \<Rightarrow> bus" where
  "publish_event task agent kind text duration b =
    bus_send ''system_events'' (event_message task agent kind text duration) b"

definition publish_event_with_data ::
    "string \<Rightarrow> string \<Rightarrow> string \<Rightarrow> string \<Rightarrow> string \<Rightarrow> string \<Rightarrow> bus \<Rightarrow> bus" where
  "publish_event_with_data task agent kind text duration data b =
    bus_send ''system_events'' ((event_message task agent kind text duration)\<lparr>ms_payload :=
      ms_payload (event_message task agent kind text duration) @ [(''data'', PS data)]\<rparr>) b"

text \<open>A receiver takes the oldest message of its channel.\<close>

definition bus_receive :: "nat \<Rightarrow> bus \<Rightarrow> (message \<times> bus) option" where
  "bus_receive c b = (case ch_queue (bs_chans b c) of [] \<Rightarrow> None
     | m # ms \<Rightarrow> Some (m, b\<lparr>bs_chans := (bs_chans b)(c := (bs_chans b c)\<lparr>ch_queue := ms\<rparr>)\<rparr>))"

subsection \<open>Delivery\<close>

definition bus_ok :: "bus \<Rightarrow> bool" where
  "bus_ok b = ((\<forall>c. length (ch_queue (bs_chans b c)) \<le> ch_cap (bs_chans b c)) \<and>
     (\<forall>t. distinct (subscribers b t)))"

lemma send_fold:
  "distinct cs \<Longrightarrow> bs_chans (fold (\<lambda>c b. b\<lparr>bs_chans := (bs_chans b)(c := channel_offer m (bs_chans b c))\<rparr>) cs b) =
     (\<lambda>c. if c \<in> set cs then channel_offer m (bs_chans b c) else bs_chans b c)"
  by (induction cs arbitrary: b) (auto simp: fun_eq_iff)

lemma send_fold_subs:
  "bs_subs (fold (\<lambda>c b. b\<lparr>bs_chans := (bs_chans b)(c := channel_offer m (bs_chans b c))\<rparr>) cs b) = bs_subs b"
  by (induction cs arbitrary: b) auto

lemma bus_send_chans: "bus_ok b \<Longrightarrow> bs_chans (bus_send target m b) =
    (\<lambda>c. if c \<in> set (subscribers b target) then channel_offer m (bs_chans b c) else bs_chans b c)"
  by (simp add: bus_send_def send_fold bus_ok_def)

lemma subscribers_send [simp]: "subscribers (bus_send target m b) t = subscribers b t"
  by (simp add: subscribers_def bus_send_def send_fold_subs)

lemma channel_offer_bounded: "length (ch_queue ch) \<le> ch_cap ch \<Longrightarrow>
    length (ch_queue (channel_offer m ch)) \<le> ch_cap (channel_offer m ch)"
  by (simp add: channel_offer_def)

lemma bus_ok_send: "bus_ok b \<Longrightarrow> bus_ok (bus_send target m b)"
  using bus_send_chans [of b target m] by (auto simp: bus_ok_def channel_offer_bounded)

lemma bus_ok_subscribe: "bus_ok b \<Longrightarrow> bus_ok (bus_subscribe target c b)"
  by (auto simp: bus_ok_def bus_subscribe_def subscribers_def split: option.splits)

lemma bus_ok_unsubscribe: "bus_ok b \<Longrightarrow> bus_ok (bus_unsubscribe target c b)"
  by (auto simp: bus_ok_def bus_unsubscribe_def subscribers_def distinct_removeAll split: option.splits)

lemma bus_ok_receive: "bus_ok b \<Longrightarrow> bus_receive c b = Some (m, b') \<Longrightarrow> bus_ok b'"
  by (auto simp: bus_ok_def bus_receive_def subscribers_def split: list.splits)
    (metis Suc_leD length_Cons)

lemma bus_ok_new: "bus_ok (new_bus cap)"
  by (simp add: bus_ok_def new_bus_def subscribers_def)

text \<open>The operations that clients of the bus call, as one step relation.\<close>

inductive bus_step :: "bus \<Rightarrow> bus \<Rightarrow> bool" where
  subscribe: "bus_step b (bus_subscribe target c b)"
| unsubscribe: "bus_step b (bus_unsubscribe target c b)"
| send: "bus_step b (bus_send target m b)"
| receive: "bus_receive c b = Some (m, b') \<Longrightarrow> bus_step b b'"

lemma bus_ok_reachable: "bus_step\<^sup>*\<^sup>* (new_bus cap) b \<Longrightarrow> bus_ok b"
proof (induction rule: rtranclp_induct)
  case (step b b')
  then show ?case
    by (auto elim!: bus_step.cases intro: bus_ok_send bus_ok_subscribe bus_ok_unsubscribe bus_ok_receive)
qed (rule bus_ok_new)

text \<open>
  on every bus that the program can reach, sending puts the message at the end of the queue of
  each subscriber of the topic that has room, changes no other queue, and never makes a queue
  longer than its capacity: what does not fit is dropped, the rest stays in order.
\<close>

theorem bus_send_exact:
  assumes "bus_step\<^sup>*\<^sup>* (new_bus cap) b"
  shows "ch_queue (bs_chans (bus_send target m b) c) =
      (if c \<in> set (subscribers b target) \<and> length (ch_queue (bs_chans b c)) < ch_cap (bs_chans b c)
       then ch_queue (bs_chans b c) @ [m] else ch_queue (bs_chans b c)) \<and>
    length (ch_queue (bs_chans (bus_send target m b) c)) \<le> ch_cap (bs_chans (bus_send target m b) c)"
  using bus_ok_reachable [OF assms] bus_ok_send [OF bus_ok_reachable [OF assms], of target m]
  by (auto simp: bus_send_chans channel_offer_def bus_ok_def)

lemma bus_send_exact_witness:
  "length (ch_queue (bs_chans (bus_send ''planner'' \<lparr>ms_type = ''x'', ms_payload = []\<rparr>
     (bus_subscribe ''planner'' 3 (new_bus (\<lambda>_. 16)))) 3)) \<le>
   ch_cap (bs_chans (bus_send ''planner'' \<lparr>ms_type = ''x'', ms_payload = []\<rparr>
     (bus_subscribe ''planner'' 3 (new_bus (\<lambda>_. 16)))) 3)"
proof -
  have "bus_step\<^sup>*\<^sup>* (new_bus (\<lambda>_. 16)) (bus_subscribe ''planner'' 3 (new_bus (\<lambda>_. 16)))"
    by (rule r_into_rtranclp) (rule bus_step.subscribe)
  from bus_send_exact [OF this] show ?thesis by blast
qed

end
