(* ===== verification/Agent_World.thy ===== *)
theory Agent_World
  imports Bus_Model State_Store Vector_Memory Audit_Model
begin

text \<open>
  The state the agents share and its primitive operations: results (agent/result_store.go), task
  contexts (agent/taskctx.go), stored executions, memories, the bus and the trace of effects.
  Everything outside the program (clock, stores' failures, audit sinks, tools, models) answers
  through \<open>env\<close>, indexed by a counter of the external operations so far.
\<close>

subsection \<open>Results and effects\<close>

record result =
  rs_status :: string
  rs_data :: "gval option"
  rs_err :: string

text \<open>A context is derived from the one of a task, whose id its calls carry, or from none.\<close>

record task_ctx =
  tc_task :: "string option"
  tc_ai_system :: string

definition background :: task_ctx where
  "background = \<lparr>tc_task = None, tc_ai_system = ''''\<rparr>"

text \<open>What a tool answers: its output, an error, or the refusal of a remote agent with a reason.\<close>

datatype tool_error = ToolFailed string | ToolRejected string string

fun tool_error_text :: "tool_error \<Rightarrow> string" where
  "tool_error_text (ToolFailed e) = e"
| "tool_error_text (ToolRejected e reason) = e"

text \<open>
  The trace: what the program did to the outside, in order. \<open>ECall\<close> is one attempt of a tool, with
  the index of its step, \<open>EAudit\<close> an event the journal accepted, \<open>EAuditFailed\<close> one it did not.
\<close>

datatype effect =
    EAudit event
  | EAuditFailed event string
  | ECall nat string "string gomap" "string option"
  | EAgent nat string "string gomap" "string option"
  | ESave exec_state
  | EDelete string
  | ESend string message
  | EEvent string string string string
  | EResult string result
  | EMetric string string
  | EReport string string
  | EWait int
  | EMemory memory
  | EChat string
  | EEmbed string

subsection \<open>The environment\<close>

record llm =
  lm_chat :: "nat \<Rightarrow> string \<Rightarrow> string \<Rightarrow> string + string"
  lm_embed :: "nat \<Rightarrow> string \<Rightarrow> string + f64 list"
  lm_routable :: bool

text \<open>An event that an agent adapter reports while it runs.\<close>

record agent_event =
  ge_type :: string
  ge_session :: string

record env =
  we_cfg :: config
  we_lib :: audit_lib
  we_ff :: "f64 \<Rightarrow> string"
  we_render :: renderer
  we_eval :: evaluator
  we_getenv :: "string \<Rightarrow> string"
  we_rfc3339 :: "time \<Rightarrow> string"
  we_now :: "nat \<Rightarrow> time"
  we_uuid :: "nat \<Rightarrow> string"
  we_save :: "nat \<Rightarrow> string option"
  we_load :: "nat \<Rightarrow> string option"
  we_audit :: "nat \<Rightarrow> string option"
  we_trace_hash :: "(nat \<Rightarrow> string \<Rightarrow> string) option"
  we_traceparent :: "nat \<Rightarrow> string \<Rightarrow> string"
  we_tool :: "nat \<Rightarrow> task_ctx \<Rightarrow> tool_def \<Rightarrow> string gomap \<Rightarrow> tool_error + gval gomap"
  we_ctx_err :: "nat \<Rightarrow> task_ctx \<Rightarrow> string option"
  we_agent :: "nat \<Rightarrow> task_ctx \<Rightarrow> agent_def \<Rightarrow> string gomap \<Rightarrow> agent_event list \<times> gval gomap \<times> string option"
  we_llm :: "llm option"

record sys =
  sy_tick :: nat
  sy_tasks :: "exec_state gomap"
  sy_results :: "result gomap"
  sy_ctxs :: "task_ctx gomap"
  sy_started :: "time gomap"
  sy_sessions :: "session_state gomap"
  sy_memories :: "memory list option"
  sy_bus :: bus
  sy_trace :: "effect list"

definition next_tick :: "sys \<Rightarrow> sys" where
  "next_tick sy = sy\<lparr>sy_tick := Suc (sy_tick sy)\<rparr>"

definition emit :: "effect \<Rightarrow> sys \<Rightarrow> sys" where
  "emit e sy = sy\<lparr>sy_trace := sy_trace sy @ [e]\<rparr>"

text \<open>The current time; reading the clock is an external operation.\<close>

definition now_of :: "env \<Rightarrow> sys \<Rightarrow> time" where "now_of ve sy = we_now ve (sy_tick sy)"

subsection \<open>Task contexts (taskctx.go)\<close>

definition new_task_context :: "string \<Rightarrow> sys \<Rightarrow> sys \<times> task_ctx" where
  "new_task_context i sy = (let c = \<lparr>tc_task = Some i, tc_ai_system = ''''\<rparr> in
     (sy\<lparr>sy_ctxs := mput (sy_ctxs sy) i c\<rparr>, c))"

definition get_task_context :: "string \<Rightarrow> sys \<Rightarrow> task_ctx option" where
  "get_task_context i sy = mget (sy_ctxs sy) i"

definition cancel_task :: "string \<Rightarrow> sys \<Rightarrow> sys" where
  "cancel_task i sy = sy\<lparr>sy_ctxs := mdel (sy_ctxs sy) i\<rparr>"

subsection \<open>Results (result_store.go)\<close>

definition run_outcome :: "string \<Rightarrow> string option" where
  "run_outcome status = mget [(''completed'', ''completed''), (''ok'', ''completed''),
     (''governance_blocked'', ''blocked''), (''rejected'', ''rejected''), (''error'', ''error''),
     (''timeout'', ''timeout'')] status"

definition mark_run_start :: "env \<Rightarrow> string \<Rightarrow> sys \<Rightarrow> sys" where
  "mark_run_start ve i sy = next_tick (sy\<lparr>sy_started := mput (sy_started sy) i (now_of ve sy)\<rparr>)"

definition observe_run :: "string \<Rightarrow> string \<Rightarrow> sys \<Rightarrow> sys" where
  "observe_run i status sy =
    (if has_prefix status ''await_'' then sy\<lparr>sy_started := mdel (sy_started sy) i\<rparr>
     else (case run_outcome status of None \<Rightarrow> sy
       | Some outcome \<Rightarrow> (case mget (sy_started sy) i of None \<Rightarrow> sy
           | Some t \<Rightarrow> emit (EMetric i outcome) (sy\<lparr>sy_started := mdel (sy_started sy) i\<rparr>))))"

definition store_result :: "string \<Rightarrow> result \<Rightarrow> sys \<Rightarrow> sys" where
  "store_result i r sy = (let sy1 = observe_run i (rs_status r) sy in
     emit (EResult i r) (sy1\<lparr>sy_results := mput (sy_results sy1) i r\<rparr>))"

definition get_result :: "string \<Rightarrow> sys \<Rightarrow> result option" where
  "get_result i sy = mget (sy_results sy) i"

definition delete_result :: "string \<Rightarrow> sys \<Rightarrow> sys" where
  "delete_result i sy = sy\<lparr>sy_results := mdel (sy_results sy) i\<rparr>"

definition err_result :: "string \<Rightarrow> result" where
  "err_result e = \<lparr>rs_status = ''error'', rs_data = None, rs_err = e\<rparr>"

subsection \<open>Stored executions\<close>

text \<open>
  Saving stamps the creation time into the record the caller holds, encodes it and writes it; what
  a later load returns is \<open>exec_norm\<close> of it (State_Store shows this for both local stores).
\<close>

definition save_state :: "env \<Rightarrow> exec_state \<Rightarrow> sys \<Rightarrow> sys \<times> exec_state \<times> string option" where
  "save_state ve st0 sy =
    (let st = stamp_created (now_of ve sy) st0; sy1 = next_tick sy in
     if \<not> exec_json_ok st then (sy1, st, Some ''json: unsupported value'')
     else (case we_save ve (sy_tick sy) of Some err \<Rightarrow> (sy1, st, Some err)
       | None \<Rightarrow> (emit (ESave st) (sy1\<lparr>sy_tasks := mput (sy_tasks sy) (es_id st) (exec_norm st)\<rparr>), st, None)))"

definition load_state :: "env \<Rightarrow> string \<Rightarrow> sys \<Rightarrow> sys \<times> (string + exec_state option)" where
  "load_state ve i sy = (next_tick sy, case we_load ve (sy_tick sy) of Some err \<Rightarrow> Inl err
     | None \<Rightarrow> Inr (mget (sy_tasks sy) i))"

definition delete_state :: "string \<Rightarrow> sys \<Rightarrow> sys" where
  "delete_state i sy = emit (EDelete i) (next_tick (sy\<lparr>sy_tasks := mdel (sy_tasks sy) i\<rparr>))"

text \<open>\<open>ListExecutionStates\<close>: all of them, newest first.\<close>

definition list_states :: "env \<Rightarrow> sys \<Rightarrow> sys \<times> (string + exec_state list)" where
  "list_states ve sy = (next_tick sy, case we_load ve (sy_tick sy) of Some err \<Rightarrow> Inl err
     | None \<Rightarrow> Inr (exchange_sort (map snd (sy_tasks sy))))"

subsection \<open>Messages and events\<close>

definition send_msg :: "string \<Rightarrow> string \<Rightarrow> pval gomap \<Rightarrow> sys \<Rightarrow> sys" where
  "send_msg target type payload sy = (let m = \<lparr>ms_type = type, ms_payload = payload\<rparr> in
     emit (ESend target m) (sy\<lparr>sy_bus := bus_send target m (sy_bus sy)\<rparr>))"

definition event :: "string \<Rightarrow> string \<Rightarrow> string \<Rightarrow> string \<Rightarrow> sys \<Rightarrow> sys" where
  "event task agent kind text sy = emit (EEvent task agent kind text) sy"

subsection \<open>Effects of an operation\<close>

text \<open>What an effect does to the bus: a message that was sent is offered to the subscribers.\<close>

fun deliver :: "effect \<Rightarrow> bus \<Rightarrow> bus" where
  "deliver (ESend target m) b = bus_send target m b"
| "deliver _ b = b"

text \<open>
  \<open>ext P sy sy'\<close>: the operation from \<open>sy\<close> to \<open>sy'\<close> only appended effects that satisfy \<open>P\<close>, and
  changed the bus as these effects say.
\<close>

definition ext :: "(effect \<Rightarrow> bool) \<Rightarrow> sys \<Rightarrow> sys \<Rightarrow> bool" where
  "ext P sy sy' = (\<exists>es. sy_trace sy' = sy_trace sy @ es \<and> list_all P es \<and> sy_bus sy' = fold deliver es (sy_bus sy))"

named_theorems ext \<open>what operations append to the trace\<close>

lemma ext_refl [simp, ext]: "ext P sy sy"
  by (simp add: ext_def)

lemma ext_trans: "ext P sy1 sy2 \<Longrightarrow> ext P sy2 sy3 \<Longrightarrow> ext P sy1 sy3"
  by (force simp: ext_def)

lemma ext_mono: "ext P sy sy' \<Longrightarrow> (\<And>e. P e \<Longrightarrow> Q e) \<Longrightarrow> ext Q sy sy'"
  unfolding ext_def list_all_iff by blast

lemma ext_trace: "sy_trace sy' = sy_trace sy \<Longrightarrow> sy_bus sy' = sy_bus sy \<Longrightarrow> ext P sy sy'"
  by (simp add: ext_def)

lemma ext_appends: "ext P sy sy' \<Longrightarrow> \<exists>es. sy_trace sy' = sy_trace sy @ es \<and> list_all P es"
  by (auto simp: ext_def)

lemma bus_simps [simp]:
  "sy_bus (next_tick sy) = sy_bus sy"
  "sy_bus (emit e sy) = sy_bus sy"
  "sy_bus (fst (load_state ve i sy)) = sy_bus sy"
  "sy_bus (fst (list_states ve sy)) = sy_bus sy"
  "sy_bus (fst (new_task_context i sy)) = sy_bus sy"
  "sy_bus (cancel_task i sy) = sy_bus sy"
  "sy_bus (mark_run_start ve i sy) = sy_bus sy"
  "sy_bus (delete_state i sy) = sy_bus sy"
  "sy_bus (send_msg t ty p sy) = bus_send t \<lparr>ms_type = ty, ms_payload = p\<rparr> (sy_bus sy)"
  "sy_bus (event a b c d sy) = sy_bus sy"
  by (simp_all add: next_tick_def emit_def load_state_def list_states_def new_task_context_def
      cancel_task_def mark_run_start_def delete_state_def send_msg_def event_def Let_def)

lemma trace_simps [simp]:
  "sy_trace (next_tick sy) = sy_trace sy"
  "sy_trace (emit e sy) = sy_trace sy @ [e]"
  "sy_trace (fst (load_state ve i sy)) = sy_trace sy"
  "sy_trace (fst (list_states ve sy)) = sy_trace sy"
  "sy_trace (fst (new_task_context i sy)) = sy_trace sy"
  "sy_trace (cancel_task i sy) = sy_trace sy"
  "sy_trace (mark_run_start ve i sy) = sy_trace sy"
  "sy_trace (delete_state i sy) = sy_trace sy @ [EDelete i]"
  "sy_trace (send_msg t ty p sy) = sy_trace sy @ [ESend t \<lparr>ms_type = ty, ms_payload = p\<rparr>]"
  "sy_trace (event a b c d sy) = sy_trace sy @ [EEvent a b c d]"
  by (simp_all add: next_tick_def emit_def load_state_def list_states_def new_task_context_def
      cancel_task_def mark_run_start_def delete_state_def send_msg_def event_def Let_def)

lemma ext_observe [ext]: "P (EMetric i (the (run_outcome s))) \<Longrightarrow> ext P sy (observe_run i s sy)"
  by (auto simp: observe_run_def ext_def split: option.splits)

lemma ext_store_result [ext]:
  "P (EResult i r) \<Longrightarrow> P (EMetric i (the (run_outcome (rs_status r)))) \<Longrightarrow> ext P sy (store_result i r sy)"
  unfolding store_result_def Let_def
  by (rule ext_trans [OF ext_observe]) (auto simp: ext_def)

lemma ext_save [ext]: "save_state ve st sy = (sy', st', r) \<Longrightarrow> (\<And>s. P (ESave s)) \<Longrightarrow> ext P sy sy'"
  by (auto simp: save_state_def Let_def ext_def split: if_splits option.splits)

subsection \<open>A concrete world\<close>

text \<open>Used where a property is applied to a concrete run: a quiet environment and an empty system.\<close>

definition demo_env :: "config \<Rightarrow> (nat \<Rightarrow> task_ctx \<Rightarrow> tool_def \<Rightarrow> string gomap \<Rightarrow> tool_error + gval gomap) \<Rightarrow> env" where
  "demo_env cfg tool = \<lparr>we_cfg = cfg,
     we_lib = \<lparr>al_sha = (\<lambda>v. ''h''), al_parse_url = (\<lambda>_. None), al_print_url = (\<lambda>_. '''')\<rparr>,
     we_ff = (\<lambda>_. ''1''), we_render = (\<lambda>t vars. Some t), we_eval = (\<lambda>_ _. EvValue (GBool True)),
     we_getenv = (\<lambda>_. ''''), we_rfc3339 = (\<lambda>_. ''2026''), we_now = (\<lambda>n. 1 + int n), we_uuid = (\<lambda>n. ''u'' @ show_nat n),
     we_save = (\<lambda>_. None), we_load = (\<lambda>_. None), we_audit = (\<lambda>_. None), we_trace_hash = None,
     we_traceparent = (\<lambda>_ _. ''''), we_tool = tool, we_ctx_err = (\<lambda>_ _. None),
     we_agent = (\<lambda>_ _ _ _. ([], [], None)), we_llm = None\<rparr>"

definition demo_sys :: "exec_state gomap \<Rightarrow> sys" where
  "demo_sys tasks = \<lparr>sy_tick = 0, sy_tasks = tasks, sy_results = [], sy_ctxs = [], sy_started = [],
     sy_sessions = [], sy_memories = None, sy_bus = new_bus (\<lambda>_. 16), sy_trace = []\<rparr>"

definition demo_cfg :: "string list \<Rightarrow> pipeline list \<Rightarrow> config" where
  "demo_cfg tools pipes = \<lparr>cf_tools = map (\<lambda>t. (t, zero_tool\<lparr>tl_name := t\<rparr>)) tools, cf_agents = [],
     cf_pipelines = map (\<lambda>p. (pl_name p, p)) pipes, cf_intents = [], cf_plugins = [], cf_rbac = None\<rparr>"

definition tool_step :: "string \<Rightarrow> pipeline_step" where
  "tool_step t = zero_step\<lparr>ps_id := t, ps_tool := t\<rparr>"

definition gate_step :: "string \<Rightarrow> pipeline_step" where
  "gate_step g = zero_step\<lparr>ps_id := g, ps_human_gate := g\<rparr>"

text \<open>Look up, ask a person, pay.\<close>

definition demo_pipe :: pipeline where
  "demo_pipe = zero_pipeline\<lparr>pl_name := ''refund'', pl_steps := [tool_step ''crm'', gate_step ''review'', tool_step ''pay'']\<rparr>"

end
