(* ===== verification/Verifier_Core.thy ===== *)
theory Verifier_Core
  imports Agent_World
begin

text \<open>
  What the executors of the verifier share: lifecycle audit and manifest (agent/verifier.go), the
  outcome of a failed run, the attempts of a tool and its waits (agent/verifier_linear.go), agent
  steps (agent/agent_step.go), memory tools and recall (agent/recall.go).
\<close>

subsection \<open>Lifecycle audit (verifier.go)\<close>

definition lifecycle_event :: "env \<Rightarrow> exec_state \<Rightarrow> string \<Rightarrow> string \<Rightarrow> gval gomap \<Rightarrow> sys \<Rightarrow> event" where
  "lifecycle_event ve st phase outcome details sy = zero_event\<lparr>
     ev_timestamp := now_of ve sy, ev_user := es_user st, ev_intent := es_intent st,
     ev_pipeline := es_pipeline st, ev_result := outcome, ev_trace := es_id st, ev_phase := phase,
     ev_details := details,
     ev_traceparent := (case get_task_context (es_id st) sy of None \<Rightarrow> ''''
       | Some _ \<Rightarrow> we_traceparent ve (sy_tick sy) (es_id st))\<rparr>"

definition log_lifecycle :: "env \<Rightarrow> exec_state option \<Rightarrow> string \<Rightarrow> string \<Rightarrow> gval gomap \<Rightarrow> sys \<Rightarrow> sys \<times> string option" where
  "log_lifecycle ve st phase outcome details sy =
    (case st of None \<Rightarrow> (sy, None)
     | Some s \<Rightarrow> (let e = lifecycle_event ve s phase outcome details sy in
         case we_audit ve (sy_tick sy) of
           None \<Rightarrow> (emit (EAudit e) (next_tick sy), None)
         | Some err \<Rightarrow> (emit (EAuditFailed e err) (next_tick sy), Some err)))"

subsection \<open>Failed runs\<close>

text \<open>\<open>failAuditExecution\<close>: the record it was given is changed as well; the caller gets it back.\<close>

definition fail_audit :: "env \<Rightarrow> exec_state option \<Rightarrow> string \<Rightarrow> string \<Rightarrow> sys \<Rightarrow> sys \<times> exec_state option" where
  "fail_audit ve st i err sy =
    (let (sy1, st1) = (case st of Some s \<Rightarrow> (sy, Some s)
           | None \<Rightarrow> (case load_state ve i sy of (sy1, Inr s) \<Rightarrow> (sy1, s) | (sy1, Inl _) \<Rightarrow> (sy1, None)));
         message = ''audit journal unavailable: '' @ err in
     case st1 of None \<Rightarrow> (store_result i (err_result message) sy1, None)
     | Some s \<Rightarrow> (case save_state ve (s\<lparr>es_status := ''error'', es_error := message, es_gate := '''',
           es_cb_token := '''', es_deadline := None\<rparr>) sy1 of
         (sy2, s2, _) \<Rightarrow> (store_result i (err_result message) sy2, Some s2)))"

definition store_error :: "string \<Rightarrow> string \<Rightarrow> sys \<Rightarrow> sys" where
  "store_error i err sy =
    event i ''Verifier'' ''error'' err (store_result i (err_result err) (delete_state i sy))"

definition rejection_data :: "string \<Rightarrow> string \<Rightarrow> string \<Rightarrow> gval gomap" where
  "rejection_data step_id tool_name reason =
    [(''step'', GStr step_id), (''tool'', GStr tool_name), (''reason'', GStr reason)]"

definition fail_outcome :: "string \<Rightarrow> string \<Rightarrow> tool_error \<Rightarrow> result" where
  "fail_outcome step_id tool_name err = (case err of
     ToolFailed e \<Rightarrow> \<lparr>rs_status = ''error'', rs_data = None, rs_err = ''tool error: '' @ e\<rparr>
   | ToolRejected e reason \<Rightarrow> \<lparr>rs_status = ''rejected'',
       rs_data = Some (GObj (rejection_data step_id tool_name reason)), rs_err = ''''\<rparr>)"

definition mark_failed :: "string \<Rightarrow> string \<Rightarrow> tool_error \<Rightarrow> exec_state \<Rightarrow> exec_state" where
  "mark_failed step_id tool_name err s0 =
    (let s = s0\<lparr>es_status := rs_status (fail_outcome step_id tool_name err),
       es_error := rs_err (fail_outcome step_id tool_name err)\<rparr> in
     case rs_data (fail_outcome step_id tool_name err) of None \<Rightarrow> s
     | Some d \<Rightarrow> s\<lparr>es_results := mput (es_results s) ''_rejection'' d\<rparr>)"

text \<open>The record the caller holds is only changed when the stored one cannot be read.\<close>

definition fail_tool_exec :: "env \<Rightarrow> exec_state option \<Rightarrow> string \<Rightarrow> string \<Rightarrow> string \<Rightarrow> tool_error \<Rightarrow> sys \<Rightarrow>
    sys \<times> exec_state option" where
  "fail_tool_exec ve st0 i step_id tool_name err sy =
    (let finish = store_result i (fail_outcome step_id tool_name err) in
     case load_state ve i sy of
       (sy1, Inr (Some fresh)) \<Rightarrow> (finish (fst (save_state ve (mark_failed step_id tool_name err fresh) sy1)), st0)
     | (sy1, _) \<Rightarrow> (case st0 of None \<Rightarrow> (finish sy1, None)
         | Some s \<Rightarrow> (case save_state ve (mark_failed step_id tool_name err s) sy1 of
             (sy2, s2, _) \<Rightarrow> (finish sy2, Some s2))))"

definition fail_tool :: "env \<Rightarrow> exec_state option \<Rightarrow> string \<Rightarrow> string \<Rightarrow> string \<Rightarrow> tool_error \<Rightarrow> sys \<Rightarrow> sys" where
  "fail_tool ve st0 i step_id tool_name err sy = fst (fail_tool_exec ve st0 i step_id tool_name err sy)"

definition audit_failure_result :: "tool_error \<Rightarrow> string" where
  "audit_failure_result err = (case err of ToolRejected _ _ \<Rightarrow> ''rejected'' | ToolFailed _ \<Rightarrow> ''error'')"

subsection \<open>The manifest\<close>

definition copy_manifest :: "exec_state \<Rightarrow> exec_state \<Rightarrow> exec_state" where
  "copy_manifest dst src = dst\<lparr>es_version := es_version src, es_snapshot := es_snapshot src,
     es_input_digest := es_input_digest src\<rparr>"

definition pipeline_version :: "exec_state option \<Rightarrow> string" where
  "pipeline_version st = (case st of None \<Rightarrow> '''' | Some s \<Rightarrow> es_version s)"

definition manifest_details :: "string \<Rightarrow> gval \<Rightarrow> string \<Rightarrow> gval gomap \<Rightarrow> gval gomap" where
  "manifest_details version snapshot input_digest inputs =
    [(''pipeline_version'', GStr version), (''pipeline_snapshot'', snapshot),
     (''input_digest'', GStr input_digest), (''inputs'', GObj inputs)]"

text \<open>The manifest is written into the record the run has, or into a new one.\<close>

definition manifest_record :: "string \<Rightarrow> string \<Rightarrow> string \<Rightarrow> pipeline \<Rightarrow> exec_state option \<Rightarrow> exec_state" where
  "manifest_record i session intent pipe ex = (case ex of Some s \<Rightarrow> s
     | None \<Rightarrow> zero_exec\<lparr>es_id := i, es_session := session, es_intent := intent, es_pipeline := pl_name pipe\<rparr>)"

text \<open>The record is changed in place: it is returned as well, with the error.\<close>

definition ensure_manifest :: "env \<Rightarrow> string \<Rightarrow> string \<Rightarrow> string \<Rightarrow> pipeline \<Rightarrow> gval gomap \<Rightarrow>
    exec_state option \<Rightarrow> sys \<Rightarrow> sys \<times> exec_state option \<times> string option" where
  "ensure_manifest ve i session intent pipe params existing sy =
    (case build_pipeline_snapshot (we_lib ve) pipe (we_cfg ve) of
       Inl err \<Rightarrow> (sy, existing, Some (''build pipeline snapshot: '' @ err))
     | Inr (snapshot, version) \<Rightarrow>
       (let st = manifest_record i session intent pipe existing in
        if es_version st \<noteq> '''' \<and> es_version st \<noteq> version
        then (sy, Some st, Some (''pipeline definition changed during execution (recorded '' @ es_version st @
          '', current '' @ version @ ''); refusing non-reproducible resume''))
        else if es_version st \<noteq> '''' then (sy, Some st, None)
        else (let clean = sanitize_map (we_lib ve) params;
                  st1 = st\<lparr>es_pipeline := pl_name pipe, es_version := version, es_snapshot := snapshot,
                    es_input_digest := digest (we_lib ve) (GObj clean),
                    es_params := (case es_params st of Some p \<Rightarrow> Some p
                      | None \<Rightarrow> Some (convert_vars (we_ff ve) params))\<rparr> in
              case save_state ve st1 sy of
                (sy1, st2, Some err) \<Rightarrow> (sy1, Some st2, Some (''persist pipeline manifest: '' @ err))
              | (sy1, st2, None) \<Rightarrow>
                (case log_lifecycle ve (Some st2) ''pipeline.started'' ''success''
                    (manifest_details version snapshot (es_input_digest st2) clean) sy1 of
                   (sy2, err) \<Rightarrow> (sy2, Some st2, err)))))"

subsection \<open>Attempts of a tool (verifier_linear.go)\<close>

definition default_backoff_ms :: int where "default_backoff_ms = 1000"

definition step_retries :: "pipeline_step \<Rightarrow> nat" where
  "step_retries s = nat (ps_retries s)"

definition step_backoff :: "pipeline_step \<Rightarrow> int" where
  "step_backoff s = (if ps_backoff_ms s \<le> 0 then default_backoff_ms else ps_backoff_ms s)"

text \<open>One attempt: a rag query answers its inputs, everything else is executed.\<close>

definition tool_attempt :: "env \<Rightarrow> task_ctx \<Rightarrow> nat \<Rightarrow> tool_def \<Rightarrow> string gomap \<Rightarrow> sys \<Rightarrow> sys \<times> (tool_error + gval gomap)" where
  "tool_attempt ve ctx idx t params sy =
    (if tl_name t = ''system.rag_query''
     then (sy, Inr [(''executed'', GBool True), (''query'', GStr (mstr params ''query'')),
       (''context'', GStr (mstr params ''context''))])
     else (let r = we_tool ve (sy_tick sy) ctx t params in
       (emit (ECall idx (tl_name t) params (tc_task ctx)) (next_tick sy), r)))"

fun tool_attempts :: "env \<Rightarrow> task_ctx \<Rightarrow> nat \<Rightarrow> tool_def \<Rightarrow> string gomap \<Rightarrow> nat \<Rightarrow> int \<Rightarrow> sys \<Rightarrow>
    sys \<times> (tool_error + gval gomap)" where
  "tool_attempts ve ctx idx t params left_over backoff sy =
    (case tool_attempt ve ctx idx t params sy of
       (sy1, Inr out) \<Rightarrow> (sy1, Inr out)
     | (sy1, Inl (ToolRejected e reason)) \<Rightarrow> (sy1, Inl (ToolRejected e reason))
     | (sy1, Inl (ToolFailed e)) \<Rightarrow>
       (case left_over of 0 \<Rightarrow> (sy1, Inl (ToolFailed e))
        | Suc n \<Rightarrow> (case we_ctx_err ve (sy_tick sy1) ctx of
            Some err \<Rightarrow> (next_tick sy1, Inl (ToolFailed err))
          | None \<Rightarrow> tool_attempts ve ctx idx t params n (wrap64 (2 * backoff))
              (emit (EWait backoff) (next_tick sy1)))))"

declare tool_attempts.simps [simp del]

definition execute_tool :: "env \<Rightarrow> task_ctx \<Rightarrow> nat \<Rightarrow> tool_def \<Rightarrow> string gomap \<Rightarrow> pipeline_step \<Rightarrow> sys \<Rightarrow>
    sys \<times> (tool_error + gval gomap)" where
  "execute_tool ve ctx idx t params step sy =
    tool_attempts ve ctx idx t params (step_retries step) (step_backoff step) sy"

subsection \<open>Agent steps (agent_step.go)\<close>

definition run_agent_step :: "env \<Rightarrow> task_ctx \<Rightarrow> string \<Rightarrow> nat \<Rightarrow> agent_def \<Rightarrow> string gomap \<Rightarrow> sys \<Rightarrow>
    sys \<times> gval gomap \<times> string option" where
  "run_agent_step ve ctx i idx a params sy =
    (case we_agent ve (sy_tick sy) ctx a params of (events, out, err) \<Rightarrow>
      (fold (\<lambda>e. event i ''Agent'' (ge_type e)
         (if ge_session e \<noteq> '''' then ge_type e @ '' session='' @ ge_session e else ge_type e)) events
        (emit (EAgent idx (ad_name a) params (tc_task ctx)) (next_tick sy)), out, err))"

definition publish_agent_failure :: "string \<Rightarrow> string \<Rightarrow> sys \<Rightarrow> sys" where
  "publish_agent_failure i err sy = event i ''Agent'' ''agent.failed'' err sy"

subsection \<open>Memory tools and recall\<close>

text \<open>The memory tool, with the embedding client and the store of the system.\<close>

definition run_memory_tool :: "env \<Rightarrow> string \<Rightarrow> string \<Rightarrow> gval gomap \<Rightarrow> sys \<Rightarrow> sys \<times> (string + gval gomap)" where
  "run_memory_tool ve tool session params sy =
    (case execute_memory_tool mv_ops (map_option (\<lambda>l. lm_embed l (sy_tick sy)) (we_llm ve))
        (we_uuid ve (sy_tick sy)) (now_of ve sy) tool session params (sy_memories sy) of
       (mem, r) \<Rightarrow> (next_tick (sy\<lparr>sy_memories := mem\<rparr>), r))"

definition max_recall_executions :: nat where "max_recall_executions = 10"

definition recalled :: "string \<Rightarrow> string \<Rightarrow> string \<Rightarrow> exec_state \<Rightarrow> bool" where
  "recalled user session current st =
    ((if user \<noteq> '''' then es_user st = user else es_session st = session) \<and> es_id st \<noteq> current \<and>
     \<not> has_prefix (es_intent st) ''system.'')"

definition recall_summary :: "exec_state \<Rightarrow> gval gomap" where
  "recall_summary st = (case mget (es_results st) ''_pipeline'' of
     Some (GObj wrap) \<Rightarrow> if str_of wrap ''summary'' \<noteq> '''' then [(''summary'', GStr (str_of wrap ''summary''))] else []
   | _ \<Rightarrow> [])"

definition recall_record :: "env \<Rightarrow> exec_state \<Rightarrow> gval" where
  "recall_record ve st =
    (let facts = extract_facts (we_ff ve) (filter (\<lambda>(k, v). k \<noteq> step_outputs_key \<and> k \<noteq> ''_pipeline'') (es_results st)) in
     GObj ([(''intent'', GStr (es_intent st)), (''pipeline'', GStr (es_pipeline st)),
       (''session_id'', GStr (es_session st)), (''created_at'', GStr (we_rfc3339 ve (es_created st)))] @
       recall_summary st @
       (if facts \<noteq> [] then [(''facts'', GObj (string_map_to_any facts))] else []) @
       (if es_error st \<noteq> '''' then [(''error'', GStr (es_error st))] else [])))"

definition build_recall :: "env \<Rightarrow> string \<Rightarrow> string \<Rightarrow> string \<Rightarrow> sys \<Rightarrow> sys \<times> gval gomap" where
  "build_recall ve user session current sy =
    (case list_states ve sy of
       (sy1, Inl err) \<Rightarrow> (sy1, [(''executions'', GList []), (''count'', GInt 0), (''error'', GStr err)])
     | (sy1, Inr sts) \<Rightarrow>
       (let rs = take max_recall_executions (map (recall_record ve) (filter (recalled user session current) sts)) in
        (sy1, [(''executions'', GList rs), (''count'', GInt (int (length rs)))])))"

definition save_preference :: "env \<Rightarrow> string \<Rightarrow> string \<Rightarrow> string \<Rightarrow> sys \<Rightarrow> sys" where
  "save_preference ve mem_id session pref sy =
    (case (sy_memories sy, we_llm ve) of
       (Some ms, Some l) \<Rightarrow> if pref = '''' then sy
         else (case lm_embed l (sy_tick sy) pref of
             Inl _ \<Rightarrow> emit (EEmbed pref) (next_tick sy)
           | Inr emb \<Rightarrow> (let m = \<lparr>me_id = mem_id, me_session = session, me_text = ''Preference: '' @ pref,
                 me_embedding = emb, me_metadata = [], me_timestamp = now_of ve sy\<rparr> in
               emit (EMemory m) (emit (EEmbed pref) (next_tick (sy\<lparr>sy_memories := Some (ms @ [m])\<rparr>)))))
     | _ \<Rightarrow> sy)"

end
