(* ===== verification/Exec_Linear.thy ===== *)
theory Exec_Linear
  imports Verifier_Core
begin

text \<open>
  The sequential executor \<open>executeLinear\<close> (agent/verifier_linear.go): one definition per branch of
  its loop, composed in the order of the code. A branch ends with the next iteration (\<open>Next\<close>) or
  with a return from the executor (\<open>Stop\<close>).
\<close>

subsection \<open>A run\<close>

text \<open>What stays fixed during a run.\<close>

record run_info =
  ri_pipe :: pipeline
  ri_id :: string
  ri_session :: string
  ri_intent :: string
  ri_language :: string
  ri_ctx :: task_ctx
  ri_cb_index :: int
  ri_cb_step :: string
  ri_cb_deadline :: "time option"

text \<open>
  The variables of the loop. \<open>ln_shared\<close> says that the step results of the execution record are
  the very map the run writes to, so that a later save of the record stores the current results.
\<close>

record lin =
  ln_sys :: sys
  ln_vars :: "gval gomap"
  ln_results :: "gval gomap"
  ln_exec :: "exec_state option"
  ln_shared :: bool

datatype flow = Next lin | Stop lin

fun flow_bind :: "flow \<Rightarrow> (lin \<Rightarrow> flow) \<Rightarrow> flow" where
  "flow_bind (Next lv) f = f lv"
| "flow_bind (Stop lv) f = Stop lv"

fun flow_lin :: "flow \<Rightarrow> lin" where
  "flow_lin (Next lv) = lv"
| "flow_lin (Stop lv) = lv"

definition with_sys :: "(sys \<Rightarrow> sys) \<Rightarrow> lin \<Rightarrow> lin" where
  "with_sys f lv = lv\<lparr>ln_sys := f (ln_sys lv)\<rparr>"

definition live_exec :: "lin \<Rightarrow> exec_state option" where
  "live_exec lv = (case ln_exec lv of None \<Rightarrow> None
     | Some st \<Rightarrow> Some (if ln_shared lv then st\<lparr>es_results := ln_results lv\<rparr> else st))"

text \<open>\<open>if err := v.logLifecycleAudit(...); err != nil { v.failAuditExecution(...); return }\<close>\<close>

definition audit_or_fail :: "env \<Rightarrow> run_info \<Rightarrow> string \<Rightarrow> string \<Rightarrow> gval gomap \<Rightarrow> lin \<Rightarrow> flow" where
  "audit_or_fail ve ri phase outcome details lv =
    (case log_lifecycle ve (ln_exec lv) phase outcome details (ln_sys lv) of
       (sy, None) \<Rightarrow> Next (lv\<lparr>ln_sys := sy\<rparr>)
     | (sy, Some err) \<Rightarrow> Stop (lv\<lparr>ln_sys := fst (fail_audit ve (live_exec lv) (ri_id ri) err sy)\<rparr>))"

definition stop_result :: "run_info \<Rightarrow> result \<Rightarrow> lin \<Rightarrow> flow" where
  "stop_result ri r lv = Stop (with_sys (store_result (ri_id ri) r) lv)"

text \<open>\<open>stepResults[key] = out\<close> and the output under the step's id.\<close>

definition put_result :: "string \<Rightarrow> gval gomap \<Rightarrow> lin \<Rightarrow> lin" where
  "put_result key out lv = lv\<lparr>ln_results := mput (ln_results lv) key (GObj out)\<rparr>"

definition record_output :: "string \<Rightarrow> gval gomap \<Rightarrow> lin \<Rightarrow> lin" where
  "record_output sid out lv = (case record_step_output sid out (ln_results lv, ln_vars lv) of
     (results, vars) \<Rightarrow> lv\<lparr>ln_results := results, ln_vars := vars\<rparr>)"

definition put_out_vars :: "string \<Rightarrow> gval gomap \<Rightarrow> lin \<Rightarrow> lin" where
  "put_out_vars key out lv = lv\<lparr>ln_vars := put_vars (\<lambda>k. key @ ''.'' @ k) out (ln_vars lv)\<rparr>"

definition output_details :: "env \<Rightarrow> gval gomap \<Rightarrow> gval gomap" where
  "output_details ve out = (let safe = audit_safe_tool_result (we_lib ve) out in
     [(''result'', GObj safe), (''output_digest'', GStr (digest (we_lib ve) (GObj safe)))])"

definition input_details :: "env \<Rightarrow> gval gomap \<Rightarrow> gval gomap" where
  "input_details ve inputs = (let clean = sanitize_map (we_lib ve) inputs in
     [(''input_digest'', GStr (digest (we_lib ve) (GObj clean))), (''inputs'', GObj clean)])"

definition call_params :: "env \<Rightarrow> lin \<Rightarrow> pipeline_step \<Rightarrow> gval gomap" where
  "call_params ve lv step = build_call_params (we_ff ve) (we_render ve) (ln_vars lv) (ps_with_params step)"

subsection \<open>Names of steps\<close>

definition linear_step_id :: "nat \<Rightarrow> pipeline_step \<Rightarrow> string" where
  "linear_step_id i step = (if ps_id step \<noteq> '''' then ps_id step
     else if ps_tool step \<noteq> '''' then ps_tool step else ''step_'' @ show_nat i)"

definition linear_step_ids :: "pipeline_step list \<Rightarrow> string list" where
  "linear_step_ids steps = map (\<lambda>(i, s). linear_step_id i s) (List.enumerate 0 steps)"

definition callback_step_id :: "nat \<Rightarrow> pipeline_step \<Rightarrow> string" where
  "callback_step_id i step = (if ps_id step = '''' then ''callback_'' @ show_nat i else ps_id step)"

definition step_uses_callback_credentials :: "pipeline_step \<Rightarrow> bool" where
  "step_uses_callback_credentials step = list_ex (\<lambda>(k, v). str_contains v ''callback_token'' \<or>
     str_contains v ''callback_url'' \<or> str_contains v ''callbackToken'' \<or> str_contains v ''callbackUrl'')
     (ps_with_params step)"

definition result_key :: "pipeline_step \<Rightarrow> string" where
  "result_key step = (if ps_agent step \<noteq> '''' then ''agent.'' @ ps_agent step else ps_tool step)"

subsection \<open>Before the loop\<close>

text \<open>
  The preallocation of callback credentials: variables, index, step id and deadline of the last
  step that awaits a callback.
\<close>

record cb_alloc =
  ca_vars :: "gval gomap"
  ca_index :: int
  ca_step :: string
  ca_deadline :: "time option"
  ca_sys :: sys

definition alloc_callback :: "env \<Rightarrow> nat \<times> pipeline_step \<Rightarrow> cb_alloc \<Rightarrow> cb_alloc" where
  "alloc_callback ve ic ca =
    (case ic of (i, c) \<Rightarrow>
      if ps_type c \<noteq> ''await_callback'' then ca
      else
        (let token = we_uuid ve (sy_tick (ca_sys ca));
             sy1 = next_tick (ca_sys ca);
             key = (if ps_id c = '''' then ''callback'' else ps_id c);
             v1 = mput (ca_vars ca) (key @ ''.callback_token'') (GStr token);
             v2 = (if mget v1 ''callback_token'' = None then mput v1 ''callback_token'' (GStr token) else v1);
             base = we_getenv ve ''AOS_CALLBACK_BASE_URL'';
             v3 = (if base \<noteq> '''' then mput v2 ''callback_url''
                 (GStr (trim_right (\<lambda>x. x = CHR ''/'') base @ ''/api/v1/callbacks/'' @ token)) else v2)
         in if ps_timeout_ms c > 0
            then \<lparr>ca_vars = v3, ca_index = int i, ca_step = callback_step_id i c,
              ca_deadline = Some (now_of ve sy1 + ps_timeout_ms c * 1000000), ca_sys = next_tick sy1\<rparr>
            else \<lparr>ca_vars = v3, ca_index = int i, ca_step = callback_step_id i c,
              ca_deadline = ca_deadline ca, ca_sys = sy1\<rparr>))"

definition alloc_callbacks :: "env \<Rightarrow> pipeline_step list \<Rightarrow> gval gomap \<Rightarrow> sys \<Rightarrow> cb_alloc" where
  "alloc_callbacks ve steps vars sy = fold (alloc_callback ve) (List.enumerate 0 steps)
     \<lparr>ca_vars = vars, ca_index = -1, ca_step = '''', ca_deadline = None, ca_sys = sy\<rparr>"

definition exec_params :: "exec_state option \<Rightarrow> string gomap" where
  "exec_params st = (case st of None \<Rightarrow> [] | Some s \<Rightarrow> (case es_params s of None \<Rightarrow> [] | Some p \<Rightarrow> p))"

subsection \<open>Branches of the loop\<close>

definition refresh_vars :: "env \<Rightarrow> run_info \<Rightarrow> lin \<Rightarrow> lin" where
  "refresh_vars ve ri lv = (let
     h = (case we_trace_hash ve of None \<Rightarrow> '''' | Some f \<Rightarrow> f (sy_tick (ln_sys lv)) (ri_id ri))
     in lv\<lparr>ln_sys := next_tick (ln_sys lv), ln_vars := auto_cast_vars (mput (ln_vars lv) ''audit_hash'' (GStr h))\<rparr>)"

definition skip_output :: "gval gomap" where
  "skip_output = [(''status'', GStr ''skipped''), (''effect'', GStr ''not_executed''),
     (''executed'', GBool False), (''reason'', GStr ''when=false'')]"

definition lin_skip :: "env \<Rightarrow> run_info \<Rightarrow> pipeline_step \<Rightarrow> lin \<Rightarrow> flow" where
  "lin_skip ve ri step lv =
    (if ps_human_gate step \<noteq> '''' then Next lv
     else audit_or_fail ve ri ''step.decision'' ''skipped''
       [(''step'', GStr (ps_id step)), (''tool'', GStr (ps_tool step)), (''agent'', GStr (ps_agent step)),
        (''when'', GStr (ps_when step)), (''decision'', GStr ''skip'')]
       (record_output (ps_id step) skip_output (put_result (result_key step) skip_output lv)))"

definition summarize_payload :: "run_info \<Rightarrow> gval gomap \<Rightarrow> pval gomap" where
  "summarize_payload ri results =
    [(''id'', PS (ri_id ri)), (''session_id'', PS (ri_session ri)), (''intent'', PS (ri_intent ri)),
     (''pipeline'', PS (pl_name (ri_pipe ri))), (''llm_model'', PS (pl_llm_model (ri_pipe ri))),
     (''rawResult'', PVal (GObj (public_results results))), (''language'', PS (ri_language ri))]"

definition complete_payload :: "run_info \<Rightarrow> gval gomap \<Rightarrow> pval gomap" where
  "complete_payload ri results =
    [(''id'', PS (ri_id ri)), (''session_id'', PS (ri_session ri)), (''intent'', PS (ri_intent ri)),
     (''pipeline'', PS (pl_name (ri_pipe ri))), (''rawResult'', PVal (GObj (public_results results)))]"

definition send_summarize :: "run_info \<Rightarrow> lin \<Rightarrow> lin" where
  "send_summarize ri lv = with_sys (send_msg ''analyst'' ''summarize'' (summarize_payload ri (ln_results lv))) lv"

text \<open>The record saved when a run waits: the owner, the creation time and the manifest are kept.\<close>

definition waiting_state :: "run_info \<Rightarrow> lin \<Rightarrow> exec_state \<Rightarrow> exec_state" where
  "waiting_state ri lv st =
    (let s = st\<lparr>es_id := ri_id ri, es_session := ri_session ri, es_intent := ri_intent ri,
       es_pipeline := pl_name (ri_pipe ri), es_results := ln_results lv\<rparr> in
     case ln_exec lv of None \<Rightarrow> s
     | Some old \<Rightarrow> copy_manifest (s\<lparr>es_user := es_user old, es_created := es_created old\<rparr>) old)"

definition lin_gate :: "env \<Rightarrow> run_info \<Rightarrow> nat \<Rightarrow> pipeline_step \<Rightarrow> lin \<Rightarrow> flow" where
  "lin_gate ve ri i step lv =
    (let gate = ps_human_gate step in
     if (case ln_exec lv of None \<Rightarrow> False | Some st \<Rightarrow> es_gate st = gate) then Next lv
     else
       (let ln1 = lv\<lparr>ln_vars := mput (mput (ln_vars lv) (gate @ ''_executed'') (GBool True))
              (gate @ ''_decision'') (GStr ''pending'')\<rparr>;
            st = waiting_state ri ln1 (zero_exec\<lparr>es_completed := linear_step_ids (take i (pl_steps (ri_pipe ri))),
              es_params := Some (convert_vars (we_ff ve) (ln_vars ln1)), es_gate := gate\<rparr>)
        in case save_state ve st (ln_sys ln1) of
             (sy, st', Some _) \<Rightarrow> Stop (ln1\<lparr>ln_sys := store_error (ri_id ri) ''cannot persist execution state'' sy\<rparr>)
           | (sy, st', None) \<Rightarrow>
             flow_bind (audit_or_fail ve ri ''human.approval_requested'' ''pending'' [(''gate'', GStr gate)]
                 (ln1\<lparr>ln_sys := sy, ln_exec := Some st', ln_shared := True\<rparr>))
               (\<lambda>ln2. Stop (with_sys (\<lambda>sy. send_msg ''api'' ''await_human''
                   [(''id'', PS (ri_id ri)), (''gate'', PS gate)]
                   (event (ri_id ri) ''Verifier'' ''await_human'' gate sy)) ln2))))"

definition lin_agent :: "env \<Rightarrow> run_info \<Rightarrow> nat \<Rightarrow> pipeline_step \<Rightarrow> lin \<Rightarrow> flow" where
  "lin_agent ve ri i step lv =
    (let name = ps_agent step; key = ''agent.'' @ name;
         who = [(''step'', GStr (ps_id step)), (''agent'', GStr name)] in
     case mget (cf_agents (we_cfg ve)) name of
       None \<Rightarrow> stop_result ri (err_result (''agent '' @ name @ '' not found'')) lv
     | Some a \<Rightarrow>
       (let params = convert_vars (we_ff ve) (call_params ve lv step) in
        flow_bind (audit_or_fail ve ri ''tool.started'' ''pending''
            (who @ [(''decision'', GStr ''invoke'')] @ input_details ve (string_map_to_any params)) lv)
          (\<lambda>ln1. case run_agent_step ve (ri_ctx ri) (ri_id ri) i a params (ln_sys ln1) of
             (sy, out, Some err) \<Rightarrow>
               flow_bind (audit_or_fail ve ri ''tool.failed'' ''error'' (who @ [(''error'', GStr err)])
                   (ln1\<lparr>ln_sys := sy\<rparr>))
                 (\<lambda>ln2. stop_result ri \<lparr>rs_status = ''error'', rs_data = Some (GObj [(key, GObj out)]),
                     rs_err = ''agent '' @ name @ '' failed: '' @ err\<rparr>
                   (with_sys (publish_agent_failure (ri_id ri) err) ln2))
           | (sy, out, None) \<Rightarrow>
               flow_bind (audit_or_fail ve ri ''tool.completed'' ''success'' (who @ output_details ve out)
                   (ln1\<lparr>ln_sys := sy\<rparr>))
                 (\<lambda>ln2. Next (record_output (ps_id step) out (put_out_vars key out (put_result key out ln2)))))))"

definition lin_await :: "env \<Rightarrow> run_info \<Rightarrow> nat \<Rightarrow> pipeline_step \<Rightarrow> lin \<Rightarrow> flow" where
  "lin_await ve ri i step lv =
    (let params = call_params ve lv step;
         t0 = str_of params ''callback_token'';
         token = (if t0 = '''' then we_uuid ve (sy_tick (ln_sys lv)) else t0);
         sid = callback_step_id i step;
         st = waiting_state ri lv (zero_exec\<lparr>es_completed := linear_step_ids (take i (pl_steps (ri_pipe ri))),
           es_params := Some (convert_vars (we_ff ve) (ln_vars lv)), es_gate := ''await_callback'',
           es_cb_token := token, es_await_step := sid, es_status := ''await_callback'',
           es_deadline := ri_cb_deadline ri\<rparr>)
     in case save_state ve st (next_tick (ln_sys lv)) of
          (sy, st', Some err) \<Rightarrow> Stop (lv\<lparr>ln_sys := store_error (ri_id ri) err sy\<rparr>)
        | (sy, st', None) \<Rightarrow>
          flow_bind (audit_or_fail ve ri ''callback.waiting'' ''pending''
              [(''step'', GStr sid), (''deadline'', case es_deadline st' of None \<Rightarrow> GNil | Some d \<Rightarrow> GInt d)]
              (lv\<lparr>ln_sys := sy, ln_exec := Some st', ln_shared := True\<rparr>))
            (\<lambda>ln2. Stop (with_sys (event (ri_id ri) ''Verifier'' ''await_callback'' sid) ln2)))"

definition tool_ok_event :: "run_info \<Rightarrow> string \<Rightarrow> lin \<Rightarrow> lin" where
  "tool_ok_event ri tool lv = with_sys (event (ri_id ri) ''Verifier'' (''tool '' @ tool) ''ok'') lv"

definition completed_details :: "env \<Rightarrow> pipeline_step \<Rightarrow> string \<Rightarrow> gval gomap \<Rightarrow> gval gomap" where
  "completed_details ve step tool out =
    [(''step'', GStr (ps_id step)), (''tool'', GStr tool)] @ output_details ve out"

definition lin_preference :: "env \<Rightarrow> run_info \<Rightarrow> pipeline_step \<Rightarrow> lin \<Rightarrow> flow" where
  "lin_preference ve ri step lv =
    (let tool = ps_tool step; out = [(''status'', GStr ''saved'')];
         ln1 = with_sys (save_preference ve (ri_id ri @ ''_pref'') (ri_session ri)
           (str_of (call_params ve lv step) ''preference'')) lv;
         ln2 = record_output (ps_id step) out (put_result tool out ln1) in
     flow_bind (audit_or_fail ve ri ''tool.completed'' ''success'' (completed_details ve step tool out) ln2)
       (\<lambda>ln3. Next (tool_ok_event ri tool ln3)))"

definition lin_recall :: "env \<Rightarrow> run_info \<Rightarrow> pipeline_step \<Rightarrow> lin \<Rightarrow> flow" where
  "lin_recall ve ri step lv =
    (let user = (case ln_exec lv of None \<Rightarrow> '''' | Some st \<Rightarrow> es_user st) in
     case build_recall ve user (ri_session ri) (ri_id ri) (ln_sys lv) of
       (sy, out) \<Rightarrow> Next (tool_ok_event ri (ps_tool step) (put_result (ps_tool step) out (lv\<lparr>ln_sys := sy\<rparr>))))"

definition lin_memory :: "env \<Rightarrow> run_info \<Rightarrow> pipeline_step \<Rightarrow> lin \<Rightarrow> flow" where
  "lin_memory ve ri step lv =
    (let tool = ps_tool step in
     case run_memory_tool ve tool (ri_session ri) (call_params ve lv step) (ln_sys lv) of
       (sy, Inl err) \<Rightarrow> Stop (with_sys (event (ri_id ri) ''Verifier'' (''tool '' @ tool) ''error'')
           (with_sys (store_result (ri_id ri) (err_result err)) (lv\<lparr>ln_sys := sy\<rparr>)))
     | (sy, Inr out) \<Rightarrow>
       flow_bind (audit_or_fail ve ri ''tool.completed'' ''success'' (completed_details ve step tool out)
           (record_output (ps_id step) out (put_result tool out (lv\<lparr>ln_sys := sy\<rparr>))))
         (\<lambda>ln2. Next (tool_ok_event ri tool ln2)))"

text \<open>Before a provider step that carries the callback credentials, the wait is made durable.\<close>

definition lin_prepare :: "env \<Rightarrow> run_info \<Rightarrow> nat \<Rightarrow> pipeline_step \<Rightarrow> lin \<Rightarrow> flow" where
  "lin_prepare ve ri i step lv =
    (if int i < ri_cb_index ri \<and> step_uses_callback_credentials step
     then (let st = waiting_state ri lv (zero_exec\<lparr>
                 es_completed := linear_step_ids (take (i + 1) (pl_steps (ri_pipe ri))),
                 es_params := Some (convert_vars (we_ff ve) (ln_vars lv)), es_gate := ''await_callback'',
                 es_cb_token := str_of (ln_vars lv) ''callback_token'', es_await_step := ri_cb_step ri,
                 es_deadline := ri_cb_deadline ri, es_status := ''submitting_callback''\<rparr>) in
           case save_state ve st (ln_sys lv) of
             (sy, st', Some err) \<Rightarrow> stop_result ri
               (err_result (''cannot persist callback wait before submission: '' @ err)) (lv\<lparr>ln_sys := sy\<rparr>)
           | (sy, st', None) \<Rightarrow> Next (lv\<lparr>ln_sys := sy, ln_exec := Some st', ln_shared := True\<rparr>))
     else Next lv)"

definition clear_prepared_wait :: "env \<Rightarrow> exec_state option \<Rightarrow> string \<Rightarrow> sys \<Rightarrow> sys \<times> exec_state option" where
  "clear_prepared_wait ve st cause sy = (case st of None \<Rightarrow> (sy, None)
     | Some s \<Rightarrow> if es_gate s \<noteq> ''await_callback'' \<or> es_cb_token s = '''' then (sy, Some s)
         else (case save_state ve (s\<lparr>es_gate := '''', es_cb_token := '''', es_deadline := None,
             es_status := ''error'', es_error := ''callback submission failed: '' @ cause\<rparr>) sy of
           (sy1, s1, _) \<Rightarrow> (sy1, Some s1)))"

definition lin_tool :: "env \<Rightarrow> run_info \<Rightarrow> nat \<Rightarrow> pipeline_step \<Rightarrow> tool_def \<Rightarrow> gval gomap \<Rightarrow> lin \<Rightarrow> flow" where
  "lin_tool ve ri i step t params lv =
    (let tool = ps_tool step in
     case execute_tool ve (ri_ctx ri) i t (convert_vars (we_ff ve) params) step (ln_sys lv) of
       (sy, Inl err) \<Rightarrow>
         (let sy1 = fst (log_lifecycle ve (ln_exec lv) ''tool.failed'' (audit_failure_result err)
                [(''step'', GStr (ps_id step)), (''tool'', GStr tool), (''error'', GStr (tool_error_text err))] sy);
              (sy2, st) = clear_prepared_wait ve (live_exec lv) (tool_error_text err) sy1
          in Stop (lv\<lparr>ln_sys := fail_tool ve st (ri_id ri) (ps_id step) tool err sy2\<rparr>))
     | (sy, Inr out0) \<Rightarrow>
         (let out = (if mget out0 ''executed'' = None then mput out0 ''executed'' (GBool True) else out0) in
          flow_bind (audit_or_fail ve ri ''tool.completed'' ''success'' (completed_details ve step tool out)
              (put_result tool out (lv\<lparr>ln_sys := sy\<rparr>)))
            (\<lambda>ln2. Next (record_output (ps_id step) out (put_out_vars tool out (tool_ok_event ri tool ln2))))))"

subsection \<open>Generated code\<close>

text \<open>\<open>fmt.Sprintf("%s", v)\<close> of an untyped value: other types than strings print as bad verbs.\<close>

fun fmt_s :: "(f64 \<Rightarrow> string) \<Rightarrow> gval \<Rightarrow> string" where
  "fmt_s ff GNil = ''%!s(<nil>)''"
| "fmt_s ff (GBool b) = ''%!s(bool='' @ (if b then ''true'' else ''false'') @ '')''"
| "fmt_s ff (GInt i) = ''%!s(int='' @ show_int i @ '')''"
| "fmt_s ff (GFloat x) = ''%!s(float64='' @ ff x @ '')''"
| "fmt_s ff (GStr s) = s"
| "fmt_s ff (GList xs) = ''['' @ str_join '' '' (map (fmt_s ff) xs) @ '']''"
| "fmt_s ff (GObj m) = ''map['' @ str_join '' ''
     (map (\<lambda>(k, s). k @ '':'' @ s) (sort_kv (map (\<lambda>(k, v). (k, fmt_s ff v)) m))) @ '']''"

definition newline :: char where "newline = char_of (10 :: nat)"
definition fence :: string where "fence = replicate 3 (char_of (96 :: nat))"

text \<open>What the code generator keeps of an answer: the first fenced block, without trailing prose.\<close>

definition strip_fence :: "string \<Rightarrow> string" where
  "strip_fence code =
    (if has_prefix code fence
     then (let body = (case str_index code [newline] of None \<Rightarrow> code | Some nl \<Rightarrow> drop (nl + 1) code) in
       case str_index body (newline # fence) of None \<Rightarrow> body | Some e \<Rightarrow> take e body)
     else (case str_index code (newline # fence) of None \<Rightarrow> code | Some e \<Rightarrow> take e code))"

definition prose_prefixes :: "string list" where
  "prose_prefixes = [''Please note:'', ''Please note that'', ''Explanation:'', ''Here is an explanation'',
     ''This code '', ''This implementation '', ''The code '']"

definition is_prose :: "string \<Rightarrow> bool" where
  "is_prose line = list_ex (has_prefix (trim_space line)) prose_prefixes"

definition strip_prose :: "string \<Rightarrow> string" where
  "strip_prose code = (case split_char newline code of [] \<Rightarrow> code
     | l # ls \<Rightarrow> if list_ex is_prose ls
         then trim_space (str_join [newline] (l # takeWhile (\<lambda>x. \<not> is_prose x) ls)) else code)"

definition clean_code :: "string \<Rightarrow> string" where
  "clean_code answer = strip_prose (trim_space (strip_fence (trim_space answer)))"

definition pipeline_model :: "llm \<Rightarrow> pipeline \<Rightarrow> string" where
  "pipeline_model l pipe = (if pl_llm_model pipe = '''' \<or> \<not> lm_routable l then '''' else pl_llm_model pipe)"

definition code_prompt :: "env \<Rightarrow> gval gomap \<Rightarrow> string" where
  "code_prompt ve params = (let p = (\<lambda>k. fmt_s (we_ff ve) (oget_nil params k)) in
     ''Generate production-ready '' @ p ''language'' @ '' code for file '' @ p ''path'' @ ''. User request: '' @
     p ''request'' @ ''. Return only the complete source code, without markdown fences.'')"

definition lin_generate :: "env \<Rightarrow> run_info \<Rightarrow> pipeline_step \<Rightarrow> gval gomap \<Rightarrow> lin \<Rightarrow> flow" where
  "lin_generate ve ri step params lv =
    (let tool = ps_tool step in
     case we_llm ve of None \<Rightarrow> stop_result ri (err_result ''LLM client unavailable'') lv
     | Some l \<Rightarrow>
       (let answer = lm_chat l (sy_tick (ln_sys lv)) (pipeline_model l (ri_pipe ri)) (code_prompt ve params);
            lv1 = with_sys (\<lambda>sy. emit (EChat (code_prompt ve params)) (next_tick sy)) lv in
        case answer of Inl err \<Rightarrow> stop_result ri (err_result err) lv1
        | Inr code \<Rightarrow>
          (let out = [(''executed'', GBool True), (''language'', oget_nil params ''language''),
                 (''path'', oget_nil params ''path''), (''content'', GStr (clean_code code))] in
           flow_bind (audit_or_fail ve ri ''tool.completed'' ''success'' (completed_details ve step tool out)
               (put_result tool out lv1))
             (\<lambda>lv2. Next (tool_ok_event ri tool (record_output (ps_id step) out (put_out_vars tool out lv2)))))))"

subsection \<open>One iteration and the loop\<close>

definition started_details :: "env \<Rightarrow> pipeline_step \<Rightarrow> gval gomap \<Rightarrow> gval gomap" where
  "started_details ve step inputs =
    [(''step'', GStr (ps_id step)), (''tool'', GStr (ps_tool step)), (''when'', GStr (ps_when step)),
     (''decision'', GStr ''invoke'')] @ input_details ve inputs"

definition lin_invoke :: "env \<Rightarrow> run_info \<Rightarrow> nat \<Rightarrow> pipeline_step \<Rightarrow> lin \<Rightarrow> flow" where
  "lin_invoke ve ri i step lv =
    (let tool = ps_tool step in
     if tool = ''system.save_preference'' then lin_preference ve ri step lv
     else if tool = ''system.recall'' then lin_recall ve ri step lv
     else if has_prefix tool ''system.memory.'' then lin_memory ve ri step lv
     else (case mget (cf_tools (we_cfg ve)) tool of
         None \<Rightarrow> stop_result ri (err_result (''tool '' @ tool @ '' not found'')) lv
       | Some t \<Rightarrow>
         (let params = call_params ve lv step in
          flow_bind (lin_prepare ve ri i step lv)
            (\<lambda>lv1. if tool = ''workspace.generate_code'' then lin_generate ve ri step params lv1
               else lin_tool ve ri i step t params lv1))))"

definition lin_step :: "env \<Rightarrow> run_info \<Rightarrow> nat \<Rightarrow> pipeline_step \<Rightarrow> lin \<Rightarrow> flow" where
  "lin_step ve ri i step lv0 =
    (let lv = refresh_vars ve ri lv0 in
     if \<not> step_should_run (we_eval ve) step (ln_vars lv) then lin_skip ve ri step lv
     else if ps_analyst step then Stop (send_summarize ri lv)
     else if ps_human_gate step \<noteq> '''' then lin_gate ve ri i step lv
     else if ps_agent step \<noteq> '''' then lin_agent ve ri i step lv
     else if ps_type step = ''await_callback'' then lin_await ve ri i step lv
     else flow_bind (audit_or_fail ve ri ''tool.started'' ''pending''
         (started_details ve step (call_params ve lv step)) lv) (lin_invoke ve ri i step))"

fun lin_loop :: "env \<Rightarrow> run_info \<Rightarrow> (nat \<times> pipeline_step) list \<Rightarrow> lin \<Rightarrow> flow" where
  "lin_loop ve ri [] lv = Next lv"
| "lin_loop ve ri ((i, s) # ss) lv = flow_bind (lin_step ve ri i s lv) (lin_loop ve ri ss)"

definition lin_finish :: "env \<Rightarrow> run_info \<Rightarrow> lin \<Rightarrow> lin" where
  "lin_finish ve ri lv =
    (let wrap = [(''pipeline'', GStr (pl_name (ri_pipe ri))),
           (''pipeline_version'', GStr (pipeline_version (ln_exec lv))), (''intent'', GStr (ri_intent ri)),
           (''status'', GStr ''success''), (''steps'', GInt (int (length (pl_steps (ri_pipe ri))))),
           (''endedAt'', GStr (we_rfc3339 ve (now_of ve (ln_sys lv))))];
         lv1 = put_result ''_pipeline'' wrap (with_sys next_tick lv) in
     if pl_skip_summary (ri_pipe ri)
     then with_sys (send_msg ''analyst'' ''complete'' (complete_payload ri (ln_results lv1))) lv1
     else send_summarize ri lv1)"

definition lin_run :: "env \<Rightarrow> run_info \<Rightarrow> nat \<Rightarrow> lin \<Rightarrow> lin" where
  "lin_run ve ri start lv =
    (case lin_loop ve ri (drop start (List.enumerate 0 (pl_steps (ri_pipe ri)))) lv of
       Next lv1 \<Rightarrow> lin_finish ve ri lv1 | Stop lv1 \<Rightarrow> lv1)"

text \<open>The state in which the loop starts and the index it starts at.\<close>

definition lin_setup :: "env \<Rightarrow> pipeline \<Rightarrow> string \<Rightarrow> string \<Rightarrow> string \<Rightarrow> string \<Rightarrow> task_ctx \<Rightarrow>
    gval gomap \<Rightarrow> gval gomap \<Rightarrow> sys \<Rightarrow> run_info \<times> lin" where
  "lin_setup ve pipe i session intent language ctx results base_params sy =
    (let ca = alloc_callbacks ve (pl_steps pipe) (mput (mputs [] base_params) ''trace_id'' (GStr i)) sy;
         (sy1, loaded) = load_state ve i (ca_sys ca);
         st = (case loaded of Inr s \<Rightarrow> s | Inl _ \<Rightarrow> None);
         vars = restore_result_vars results (mputs (ca_vars ca) (string_map_to_any (exec_params st))) in
     (\<lparr>ri_pipe = pipe, ri_id = i, ri_session = session, ri_intent = intent, ri_language = language,
       ri_ctx = ctx, ri_cb_index = ca_index ca, ri_cb_step = ca_step ca, ri_cb_deadline = ca_deadline ca\<rparr>,
      \<lparr>ln_sys = sy1, ln_vars = vars, ln_results = results, ln_exec = st, ln_shared = False\<rparr>))"

definition start_index :: "exec_state option \<Rightarrow> nat" where
  "start_index st = (case st of None \<Rightarrow> 0 | Some s \<Rightarrow> length (es_completed s))"

definition execute_linear :: "env \<Rightarrow> pipeline \<Rightarrow> string \<Rightarrow> string \<Rightarrow> string \<Rightarrow> string \<Rightarrow> task_ctx \<Rightarrow>
    gval gomap \<Rightarrow> gval gomap \<Rightarrow> sys \<Rightarrow> sys" where
  "execute_linear ve pipe i session intent language ctx results base_params sy =
    (case lin_setup ve pipe i session intent language ctx results base_params sy of
       (ri, lv) \<Rightarrow> ln_sys (lin_run ve ri (start_index (ln_exec lv)) lv))"

end
