(* ===== verification/Linear_Trace.thy ===== *)
theory Linear_Trace
  imports Exec_Linear
begin

text \<open>
  What a linear run does to the outside. Lemmas in the collection \<open>ext\<close> say that an operation appends
  only effects of a kind; from them follow that no tool or agent runs unannounced in the journal,
  that a run only runs the steps from its start index on, and the bound on the attempts of a tool.
\<close>

subsection \<open>Quiet operations\<close>

definition is_call :: "effect \<Rightarrow> bool" where
  "is_call e = (case e of ECall _ _ _ _ \<Rightarrow> True | EAgent _ _ _ _ \<Rightarrow> True | _ \<Rightarrow> False)"

text \<open>The verifier sends its messages to the analyst and to the API agent only.\<close>

definition foreign :: "effect \<Rightarrow> bool" where
  "foreign e = (case e of ESend target m \<Rightarrow> target \<noteq> ''analyst'' \<and> target \<noteq> ''api'' | _ \<Rightarrow> False)"

text \<open>A predicate that only constrains calls and messages to other agents.\<close>

definition noncall :: "(effect \<Rightarrow> bool) \<Rightarrow> bool" where
  "noncall P = (\<forall>e. \<not> is_call e \<and> \<not> foreign e \<longrightarrow> P e)"

lemma noncallD: "noncall P \<Longrightarrow> \<not> is_call e \<Longrightarrow> \<not> foreign e \<Longrightarrow> P e"
  by (simp add: noncall_def)

lemma noncall_simps:
  assumes "noncall P"
  shows "P (EAudit ev)" "P (EAuditFailed ev err)" "P (ESave st)" "P (EDelete i)" "t = ''analyst'' \<or> t = ''api'' \<Longrightarrow> P (ESend t m)"
    "P (EEvent a b c d)" "P (EResult i r)" "P (EMetric a b)" "P (EReport a b)" "P (EWait n)"
    "P (EMemory mem)" "P (EChat a)" "P (EEmbed a)"
  using assms by (auto simp: noncall_def is_call_def foreign_def)

lemma trace_with [simp]:
  "sy_trace (sy\<lparr>sy_tick := a\<rparr>) = sy_trace sy" "sy_trace (sy\<lparr>sy_tasks := b\<rparr>) = sy_trace sy"
  "sy_trace (sy\<lparr>sy_results := c\<rparr>) = sy_trace sy" "sy_trace (sy\<lparr>sy_ctxs := d\<rparr>) = sy_trace sy"
  "sy_trace (sy\<lparr>sy_started := e\<rparr>) = sy_trace sy" "sy_trace (sy\<lparr>sy_memories := f\<rparr>) = sy_trace sy"
  by simp_all

locale effect_pred =
  fixes P :: "effect \<Rightarrow> bool"
  assumes P: "noncall P"
begin

lemmas quiet = noncall_simps [OF P]

lemma ext_store_result': "ext P sy (store_result i r sy)"
  by (rule ext_store_result) (simp_all add: quiet)

lemma ext_save': "save_state ve st sy = (sy', st', r) \<Longrightarrow> ext P sy sy'"
  by (erule ext_save) (simp add: quiet)

lemma ext_save_fst: "ext P sy (fst (save_state ve st sy))"
  by (cases "save_state ve st sy") (auto intro: ext_save')

lemma ext_log: "log_lifecycle ve st ph oc d sy = (sy', r) \<Longrightarrow> ext P sy sy'"
  by (auto simp: log_lifecycle_def Let_def ext_def quiet split: option.splits)

lemma ext_log_fst: "ext P sy (fst (log_lifecycle ve st ph oc d sy))"
  by (cases "log_lifecycle ve st ph oc d sy") (auto intro: ext_log)

lemma ext_event: "ext P sy (event a b c d sy)"
  by (simp add: ext_def quiet)

lemma ext_send: "t = ''analyst'' \<or> t = ''api'' \<Longrightarrow> ext P sy (send_msg t ty p sy)"
  by (simp add: ext_def quiet)

lemma ext_delete_state: "ext P sy (delete_state i sy)"
  by (simp add: ext_def quiet)

lemma ext_load: "load_state ve i sy = (sy', r) \<Longrightarrow> ext P sy sy'"
  by (auto simp: load_state_def next_tick_def intro: ext_trace)

lemma ext_store_error: "ext P sy (store_error i err sy)"
  unfolding store_error_def
  by (rule ext_trans [OF ext_delete_state], rule ext_trans [OF ext_store_result' ext_event])

lemma ext_fail_audit: "ext P sy (fst (fail_audit ve st i err sy))"
  unfolding fail_audit_def
  by (auto simp: Let_def split: prod.splits option.splits sum.splits
      intro: ext_store_result' ext_trans [OF ext_save' ext_store_result']
        ext_trans [OF ext_load ext_store_result'] ext_trans [OF ext_load ext_trans [OF ext_save' ext_store_result']])

lemma ext_fail_tool: "ext P sy (fail_tool ve st i s t err sy)"
proof -
  obtain sy1 r where l: "load_state ve i sy = (sy1, r)" by fastforce
  show ?thesis
    unfolding fail_tool_def fail_tool_exec_def l
    by (rule ext_trans [OF ext_load [OF l]])
      (auto simp: Let_def split: option.splits sum.splits prod.splits
        intro: ext_store_result' ext_trans [OF ext_save_fst ext_store_result'] ext_trans [OF ext_save' ext_store_result'])
qed

lemma ext_clear_prepared: "clear_prepared_wait ve st cause sy = (sy', st') \<Longrightarrow> ext P sy sy'"
  by (auto simp: clear_prepared_wait_def split: option.splits if_splits prod.splits intro: ext_save')

lemma ext_preference: "ext P sy (save_preference ve i s p sy)"
  by (auto simp: save_preference_def ext_def quiet Let_def split: option.splits sum.splits)

lemma ext_recall: "build_recall ve u s i sy = (sy', r) \<Longrightarrow> ext P sy sy'"
  by (auto simp: build_recall_def Let_def list_states_def split: prod.splits sum.splits option.splits intro!: ext_trace)

lemma ext_memory_tool: "run_memory_tool ve t s p sy = (sy', r) \<Longrightarrow> ext P sy sy'"
  by (auto simp: run_memory_tool_def split: prod.splits intro!: ext_trace)

lemma ext_events: "ext P sy (fold (\<lambda>e. event i a (f e) (g e)) es sy)"
proof (induction es arbitrary: sy)
  case (Cons e es)
  then show ?case by (auto intro: ext_trans [OF ext_event])
qed simp

lemma ext_agent_run:
  assumes "run_agent_step ve ctx i idx a params sy = (sy', r)" "P (EAgent idx (ad_name a) params (tc_task ctx))"
  shows "ext P sy sy'"
proof -
  have "ext P sy (emit (EAgent idx (ad_name a) params (tc_task ctx)) (next_tick sy))"
    using assms(2) by (simp add: ext_def)
  with assms(1) show ?thesis
    by (auto simp: run_agent_step_def split: prod.splits intro: ext_trans [OF _ ext_events])
qed

lemma ext_tool_attempt: "tool_attempt ve ctx idx t params sy = (sy', r) \<Longrightarrow>
    P (ECall idx (tl_name t) params (tc_task ctx)) \<Longrightarrow> ext P sy sy'"
  by (auto simp: tool_attempt_def Let_def ext_def split: if_splits)

lemma ext_tool_attempts: "tool_attempts ve ctx idx t params n b sy = (sy', r) \<Longrightarrow>
    P (ECall idx (tl_name t) params (tc_task ctx)) \<Longrightarrow> ext P sy sy'"
proof (induction n arbitrary: b sy)
  case 0
  then show ?case
    by (subst (asm) tool_attempts.simps)
      (auto split: prod.splits sum.splits tool_error.splits intro: ext_tool_attempt)
next
  case (Suc n)
  have w: "ext P sy1 (emit (EWait x) (next_tick sy1))" for sy1 x by (simp add: ext_def quiet)
  from Suc.prems show ?case
    by (subst (asm) tool_attempts.simps)
      (auto split: prod.splits sum.splits tool_error.splits option.splits dest!: ext_tool_attempt
        intro: ext_trans [OF _ ext_trace] ext_trans [OF _ ext_trans [OF w Suc.IH]])
qed

end

text \<open>The executor's branches.\<close>

definition fext :: "(effect \<Rightarrow> bool) \<Rightarrow> lin \<Rightarrow> flow \<Rightarrow> bool" where
  "fext P lv fl = ext P (ln_sys lv) (ln_sys (flow_lin fl))"

lemma fext_bind:
  assumes "fext P lv m" "\<And>lv'. m = Next lv' \<Longrightarrow> fext P lv' (f lv')"
  shows "fext P lv (flow_bind m f)"
  using assms by (cases m) (auto simp: fext_def intro: ext_trans)

lemma fext_start: "ext P (ln_sys lv0) (ln_sys lv) \<Longrightarrow> fext P lv fl \<Longrightarrow> fext P lv0 fl"
  by (auto simp: fext_def intro: ext_trans)

lemma fext_Next: "ext P (ln_sys lv) (ln_sys lv') \<Longrightarrow> fext P lv (Next lv')"
  by (simp add: fext_def)

lemma fext_Stop: "ext P (ln_sys lv) (ln_sys lv') \<Longrightarrow> fext P lv (Stop lv')"
  by (simp add: fext_def)

lemma sys_simps [simp]:
  "ln_sys (with_sys f lv) = f (ln_sys lv)"
  "ln_sys (put_result k out lv) = ln_sys lv"
  "ln_sys (record_output sid out lv) = ln_sys lv"
  "ln_sys (put_out_vars k out lv) = ln_sys lv"
  "ln_sys (tool_ok_event ri t lv) = event (ri_id ri) ''Verifier'' (''tool '' @ t) ''ok'' (ln_sys lv)"
  by (simp_all add: with_sys_def put_result_def record_output_def put_out_vars_def tool_ok_event_def split: prod.splits)

lemma exec_simps [simp]:
  "ln_exec (with_sys f lv) = ln_exec lv" "ln_exec (put_result k out lv) = ln_exec lv"
  "ln_exec (record_output sid out lv) = ln_exec lv" "ln_exec (put_out_vars k out lv) = ln_exec lv"
  "ln_exec (tool_ok_event ri t lv) = ln_exec lv" "ln_exec (refresh_vars ve ri lv) = ln_exec lv"
  by (simp_all add: with_sys_def put_result_def record_output_def put_out_vars_def tool_ok_event_def
      refresh_vars_def Let_def split: prod.splits)

lemma trace_refresh [simp]:
  "sy_trace (ln_sys (refresh_vars ve ri lv)) = sy_trace (ln_sys lv)" "sy_bus (ln_sys (refresh_vars ve ri lv)) = sy_bus (ln_sys lv)"
  by (simp_all add: refresh_vars_def Let_def)

context effect_pred
begin

lemma fext_audit: "fext P lv (audit_or_fail ve ri ph oc d lv)"
  by (auto simp: audit_or_fail_def fext_def split: prod.splits option.splits
      intro: ext_log ext_trans [OF ext_log ext_fail_audit])

lemma fext_stop_result: "fext P lv (stop_result ri r lv)"
  by (simp add: stop_result_def fext_def ext_store_result')

lemma fext_skip: "fext P lv (lin_skip ve ri s lv)"
  unfolding lin_skip_def
  by (auto intro!: fext_Next intro: fext_start [OF _ fext_audit])

lemma fext_gate: "fext P lv (lin_gate ve ri i s lv)"
  unfolding lin_gate_def Let_def
  by (auto split: prod.splits option.splits
      intro!: fext_Next fext_bind fext_Stop intro: ext_trans [OF ext_save' ext_store_error]
        fext_start [OF ext_save' fext_audit] ext_trans [OF ext_event ext_send])

lemma fext_await: "fext P lv (lin_await ve ri i s lv)"
proof -
  have t: "ext P sy (next_tick sy)" for sy by (rule ext_trace) simp_all
  show ?thesis
    unfolding lin_await_def Let_def
    by (auto split: prod.splits option.splits
        intro!: fext_bind fext_Stop intro: ext_event
          ext_trans [OF t ext_trans [OF ext_save' ext_store_error]]
          fext_start [OF ext_trans [OF t ext_save'] fext_audit])
qed

lemma fext_preference: "fext P lv (lin_preference ve ri s lv)"
  unfolding lin_preference_def Let_def
  by (auto intro!: fext_bind fext_Next fext_start [OF _ fext_audit] ext_preference intro: ext_event)

lemma fext_recall: "fext P lv (lin_recall ve ri s lv)"
  unfolding lin_recall_def Let_def
  by (auto split: prod.splits intro!: fext_Next intro: ext_trans [OF ext_recall ext_event])

lemma fext_memory: "fext P lv (lin_memory ve ri s lv)"
  unfolding lin_memory_def Let_def
  by (auto split: prod.splits sum.splits intro!: fext_bind fext_Next fext_Stop fext_start [OF _ fext_audit]
      intro: ext_event ext_memory_tool
        ext_trans [OF ext_memory_tool ext_trans [OF ext_store_result' ext_event]])

lemma fext_prepare: "fext P lv (lin_prepare ve ri i s lv)"
  unfolding lin_prepare_def Let_def
  by (auto split: prod.splits option.splits intro!: fext_Next fext_start [OF _ fext_stop_result] intro: ext_save')

lemma fext_generate: "fext P lv (lin_generate ve ri s params lv)"
proof -
  have t: "ext P sy (emit (EChat x) (next_tick sy))" for sy x by (simp add: ext_def quiet)
  show ?thesis
    unfolding lin_generate_def Let_def
    by (auto split: prod.splits option.splits sum.splits intro!: fext_bind fext_Next fext_stop_result
        fext_start [OF _ fext_stop_result] fext_start [OF _ fext_audit] t intro: ext_event)
qed

lemma fext_tool:
  assumes "P (ECall i (tl_name t) (convert_vars (we_ff ve) params) (tc_task (ri_ctx ri)))"
  shows "fext P lv (lin_tool ve ri i s t params lv)"
proof -
  obtain sy r where x: "execute_tool ve (ri_ctx ri) i t (convert_vars (we_ff ve) params) s (ln_sys lv) = (sy, r)"
    by fastforce
  then have e: "ext P (ln_sys lv) sy"
    using ext_tool_attempts assms by (fastforce simp: execute_tool_def)
  show ?thesis
    unfolding lin_tool_def x Let_def
    by (auto split: prod.splits sum.splits intro!: fext_bind fext_Next fext_Stop fext_start [OF _ fext_audit] e
        intro: ext_event ext_trans [OF e ext_trans [OF ext_log_fst
          ext_trans [OF ext_clear_prepared ext_fail_tool]]])
qed

lemma fext_summarize: "fext P lv (Stop (send_summarize ri lv))"
  by (simp add: send_summarize_def fext_def ext_send)

lemma fext_stop_failure: "fext P lv (stop_result ri r (with_sys (publish_agent_failure i err) lv))"
  by (auto simp: publish_agent_failure_def fext_def stop_result_def
      intro: ext_trans [OF ext_event ext_store_result'])

lemma fext_agent_rest:
  assumes "P (EAgent i (ad_name a) params (tc_task (ri_ctx ri)))"
    and "run_agent_step ve (ri_ctx ri) (ri_id ri) i a params (ln_sys lv) = (sy, out, r)"
  shows "ext P (ln_sys lv) sy"
  by (rule ext_agent_run [OF assms(2)]) (rule assms(1))

lemma fext_agent_audit:
  assumes "P (EAgent i (ad_name a) params (tc_task (ri_ctx ri)))"
    and "run_agent_step ve (ri_ctx ri) (ri_id ri) i a params (ln_sys lv) = (sy, out, r)"
  shows "fext P lv (audit_or_fail ve ri ph oc d (lv\<lparr>ln_sys := sy\<rparr>))"
  by (rule fext_start [OF _ fext_audit]) (use fext_agent_rest [OF assms] in simp)

text \<open>A predicate that holds of the calls of a step as well holds along its iteration.\<close>

lemma fext_step:
  assumes "\<And>b c d. P (ECall i b c d)" "\<And>b c d. P (EAgent i b c d)"
  shows "fext P lv (lin_step ve ri i s lv)"
proof (rule fext_start [of _ _ "refresh_vars ve ri lv"])
  have agent: "fext P lv (lin_agent ve ri i s lv)" for lv
    unfolding lin_agent_def Let_def
    by (auto split: prod.splits option.splits intro!: fext_bind fext_Next fext_stop_failure fext_stop_result fext_audit assms
        fext_agent_audit)
  have invoke: "fext P lv (lin_invoke ve ri i s lv)" for lv
    unfolding lin_invoke_def Let_def
    by (auto split: option.splits intro!: fext_preference fext_recall fext_memory fext_stop_result fext_bind
        fext_prepare fext_generate fext_tool assms)
  show "fext P (refresh_vars ve ri lv) (lin_step ve ri i s lv)"
    unfolding lin_step_def Let_def
    by (auto intro!: fext_skip fext_gate fext_await fext_summarize fext_bind fext_audit agent invoke)
qed (simp add: ext_def)

end

subsection \<open>No call without its announcement\<close>

definition call_index :: "effect \<Rightarrow> nat" where
  "call_index e = (case e of ECall i _ _ _ \<Rightarrow> i | EAgent i _ _ _ \<Rightarrow> i | _ \<Rightarrow> 0)"

text \<open>The journal event \<open>ev\<close> announces the call \<open>e\<close> of \<open>step\<close>: same step, same tool or agent, and the
  call's parameters are the recorded inputs before their redaction.\<close>

definition announced_by :: "env \<Rightarrow> pipeline_step \<Rightarrow> event \<Rightarrow> effect \<Rightarrow> bool" where
  "announced_by ve step ev e = (ev_phase ev = ''tool.started'' \<and> (case e of
     ECall j name ps _ \<Rightarrow> \<exists>t inputs. mget (cf_tools (we_cfg ve)) (ps_tool step) = Some t \<and> name = tl_name t \<and>
       ps = convert_vars (we_ff ve) inputs \<and> ev_details ev = started_details ve step inputs
   | EAgent j name ps _ \<Rightarrow> \<exists>a. mget (cf_agents (we_cfg ve)) (ps_agent step) = Some a \<and> name = ad_name a \<and>
       ev_details ev = [(''step'', GStr (ps_id step)), (''agent'', GStr (ps_agent step)), (''decision'', GStr ''invoke'')] @
         input_details ve (string_map_to_any ps)
   | _ \<Rightarrow> True))"

definition call_ok :: "env \<Rightarrow> nat \<Rightarrow> pipeline_step \<Rightarrow> event \<Rightarrow> effect \<Rightarrow> bool" where
  "call_ok ve i step ev e = (is_call e \<longrightarrow> call_index e = i \<and> announced_by ve step ev e)"

definition step_trace :: "env \<Rightarrow> nat \<Rightarrow> pipeline_step \<Rightarrow> effect list \<Rightarrow> bool" where
  "step_trace ve i step es = (list_all (\<lambda>e. \<not> is_call e) es \<or>
     (\<exists>ev es'. es = EAudit ev # es' \<and> list_all (call_ok ve i step ev) es'))"

interpretation silent: effect_pred "\<lambda>e. \<not> is_call e"
  by unfold_locales (simp add: noncall_def)

interpretation called: effect_pred "call_ok ve i step ev" for ve i step ev
  by unfold_locales (simp add: noncall_def call_ok_def)

definition appends :: "(effect list \<Rightarrow> bool) \<Rightarrow> lin \<Rightarrow> flow \<Rightarrow> bool" where
  "appends Q lv fl = (\<exists>es. sy_trace (ln_sys (flow_lin fl)) = sy_trace (ln_sys lv) @ es \<and> Q es)"

lemma appends_silent: "fext (\<lambda>e. \<not> is_call e) lv fl \<Longrightarrow> appends (step_trace ve i s) lv fl"
  by (auto simp: fext_def ext_def appends_def step_trace_def)

lemma appends_refresh: "appends Q (refresh_vars ve ri lv) fl \<Longrightarrow> appends Q lv fl"
  by (simp add: appends_def)

lemma audit_Next:
  assumes "audit_or_fail ve ri ph oc d lv = Next lv'" "ln_exec lv \<noteq> None"
  obtains sy ev where "lv' = lv\<lparr>ln_sys := sy\<rparr>" "sy_trace sy = sy_trace (ln_sys lv) @ [EAudit ev]"
    "ev_phase ev = ph" "ev_details ev = d"
  using assms
  by (auto simp: audit_or_fail_def log_lifecycle_def lifecycle_event_def Let_def split: option.splits prod.splits)

lemma appends_announced:
  assumes "ln_exec lv \<noteq> None" "fext (\<lambda>e. \<not> is_call e) lv (audit_or_fail ve ri ''tool.started'' oc d lv)"
    and "\<And>sy ev. ev_phase ev = ''tool.started'' \<Longrightarrow> ev_details ev = d \<Longrightarrow> fext (call_ok ve i s ev) (lv\<lparr>ln_sys := sy\<rparr>) (f (lv\<lparr>ln_sys := sy\<rparr>))"
  shows "appends (step_trace ve i s) lv (flow_bind (audit_or_fail ve ri ''tool.started'' oc d lv) f)"
proof (cases "audit_or_fail ve ri ''tool.started'' oc d lv")
  case (Next lv')
  then obtain sy ev where "lv' = lv\<lparr>ln_sys := sy\<rparr>" "sy_trace sy = sy_trace (ln_sys lv) @ [EAudit ev]"
    "ev_phase ev = ''tool.started''" "ev_details ev = d"
    using assms(1) by (rule audit_Next)
  with assms(3) [of ev sy] Next show ?thesis
    by (fastforce simp: appends_def fext_def ext_def step_trace_def)
next
  case (Stop lv')
  with assms(2) show ?thesis using appends_silent by fastforce
qed

lemma fext_invoke:
  assumes "ev_phase ev = ''tool.started''" "ev_details ev = started_details ve s (call_params ve lv s)"
  shows "fext (call_ok ve i s ev) lv (lin_invoke ve ri i s lv)"
proof -
  have ok: "call_ok ve i s ev (ECall i (tl_name t) (convert_vars (we_ff ve) (call_params ve lv s)) c)"
    if "mget (cf_tools (we_cfg ve)) (ps_tool s) = Some t" for t c
    using assms that by (auto simp: call_ok_def announced_by_def call_index_def)
  show ?thesis
    unfolding lin_invoke_def Let_def
    by (auto split: option.splits intro!: called.fext_preference called.fext_recall called.fext_memory
        called.fext_stop_result fext_bind called.fext_prepare called.fext_generate called.fext_tool ok)
qed

lemma lin_agent_trace:
  assumes "ln_exec lv \<noteq> None"
  shows "appends (step_trace ve i s) lv (lin_agent ve ri i s lv)"
proof (cases "mget (cf_agents (we_cfg ve)) (ps_agent s)")
  case None
  then show ?thesis by (simp add: lin_agent_def appends_silent silent.fext_stop_result)
next
  case (Some a)
  let ?p = "convert_vars (we_ff ve) (call_params ve lv s)"
  have ok: "call_ok ve i s ev (EAgent i (ad_name a) ?p c)"
    if "ev_phase ev = ''tool.started''" "ev_details ev = [(''step'', GStr (ps_id s)), (''agent'', GStr (ps_agent s)),
      (''decision'', GStr ''invoke'')] @ input_details ve (string_map_to_any ?p)" for ev c
    using that Some by (auto simp: call_ok_def announced_by_def call_index_def)
  show ?thesis
    unfolding lin_agent_def Let_def Some option.case
    by (rule appends_announced [OF assms silent.fext_audit])
      (auto split: prod.splits option.splits intro!: fext_bind fext_Next called.fext_stop_failure ok
        intro: fext_start [OF called.fext_agent_rest [OF ok] called.fext_audit])
qed

lemma lin_step_trace:
  assumes "ln_exec lv \<noteq> None"
  shows "appends (step_trace ve i s) lv (lin_step ve ri i s lv)"
proof (rule appends_refresh [where ve = ve and ri = ri])
  let ?lv = "refresh_vars ve ri lv"
  have x: "ln_exec ?lv \<noteq> None" using assms by simp
  have "appends (step_trace ve i s) ?lv (flow_bind (audit_or_fail ve ri ''tool.started'' ''pending''
         (started_details ve s (call_params ve ?lv s)) ?lv) (lin_invoke ve ri i s))"
    by (rule appends_announced [OF x silent.fext_audit]) (rule fext_invoke, simp_all add: call_params_def)
  with x show "appends (step_trace ve i s) ?lv (lin_step ve ri i s lv)"
    unfolding lin_step_def Let_def
    by (auto intro: lin_agent_trace appends_silent silent.fext_skip silent.fext_gate silent.fext_await
        silent.fext_summarize)
qed

text \<open>The record of the execution never goes away during a run.\<close>

definition keeps_exec :: "lin \<Rightarrow> flow \<Rightarrow> bool" where
  "keeps_exec lv fl = (ln_exec lv \<noteq> None \<longrightarrow> ln_exec (flow_lin fl) \<noteq> None)"

lemma keeps_bind: "keeps_exec lv m \<Longrightarrow> (\<And>lv'. m = Next lv' \<Longrightarrow> keeps_exec lv' (f lv')) \<Longrightarrow> keeps_exec lv (flow_bind m f)"
  by (cases m) (auto simp: keeps_exec_def)

lemma keeps_audit: "ln_exec lv' = ln_exec lv \<or> ln_exec lv' \<noteq> None \<Longrightarrow> keeps_exec lv (audit_or_fail ve ri ph oc d lv')"
  by (auto simp: keeps_exec_def audit_or_fail_def split: prod.splits option.splits)

lemma keeps_Next: "ln_exec lv' = ln_exec lv \<or> ln_exec lv' \<noteq> None \<Longrightarrow> keeps_exec lv (Next lv')"
  by (auto simp: keeps_exec_def)

lemma keeps_Stop: "ln_exec lv' = ln_exec lv \<or> ln_exec lv' \<noteq> None \<Longrightarrow> keeps_exec lv (Stop lv')"
  by (auto simp: keeps_exec_def)

lemma keeps_stop_result: "ln_exec lv' = ln_exec lv \<or> ln_exec lv' \<noteq> None \<Longrightarrow> keeps_exec lv (stop_result ri r lv')"
  by (auto simp: keeps_exec_def stop_result_def)

lemmas keeps_now = keeps_bind keeps_Next keeps_Stop keeps_stop_result keeps_audit

lemma keeps_skip: "keeps_exec lv (lin_skip ve ri s lv)"
  unfolding lin_skip_def by (auto intro!: keeps_now)

lemma keeps_gate: "keeps_exec lv (lin_gate ve ri i s lv)"
  unfolding lin_gate_def Let_def by (auto split: prod.splits option.splits intro!: keeps_now)

lemma keeps_agent: "keeps_exec lv (lin_agent ve ri i s lv)"
  unfolding lin_agent_def Let_def by (auto split: prod.splits option.splits intro!: keeps_now)

lemma keeps_await: "keeps_exec lv (lin_await ve ri i s lv)"
  unfolding lin_await_def Let_def by (auto split: prod.splits option.splits intro!: keeps_now)

lemma keeps_prepare: "keeps_exec lv (lin_prepare ve ri i s lv)"
  unfolding lin_prepare_def Let_def by (auto split: prod.splits option.splits intro!: keeps_now)

lemma keeps_generate: "keeps_exec lv (lin_generate ve ri s params lv)"
  unfolding lin_generate_def Let_def
  by (auto split: prod.splits option.splits sum.splits intro!: keeps_now)

lemma keeps_tool: "keeps_exec lv (lin_tool ve ri i s t params lv)"
  unfolding lin_tool_def Let_def by (auto split: prod.splits sum.splits intro!: keeps_now)

lemma keeps_builtin:
  "keeps_exec lv (lin_preference ve ri s lv)" "keeps_exec lv (lin_recall ve ri s lv)"
  "keeps_exec lv (lin_memory ve ri s lv)"
  unfolding lin_preference_def lin_recall_def lin_memory_def Let_def
  by (auto split: prod.splits sum.splits intro!: keeps_now)

lemma keeps_invoke: "keeps_exec lv (lin_invoke ve ri i s lv)"
  unfolding lin_invoke_def Let_def
  by (auto split: option.splits intro!: keeps_bind keeps_builtin keeps_prepare keeps_generate keeps_tool keeps_stop_result)

lemma lin_step_exec: "ln_exec lv \<noteq> None \<Longrightarrow> ln_exec (flow_lin (lin_step ve ri i s lv)) \<noteq> None"
proof -
  have "keeps_exec (refresh_vars ve ri lv) (lin_step ve ri i s lv)"
    unfolding lin_step_def Let_def send_summarize_def
    by (auto intro!: keeps_skip keeps_gate keeps_agent keeps_await keeps_bind keeps_audit keeps_invoke keeps_Stop)
  then show "ln_exec lv \<noteq> None \<Longrightarrow> ?thesis" by (simp add: keeps_exec_def)
qed

end
