(* ===== verification/Exec_Dag.thy ===== *)
theory Exec_Dag
  imports Linear_Trace
begin

text \<open>
  The parallel executor \<open>executeDAG\<close> (agent/verifier_dag.go). Each node of the pipeline runs as its
  own goroutine: it waits for its dependencies one after the other, decides under the lock whether
  it runs, and executes. A goroutine is a program counter; one step of it is what it does between
  two points where another goroutine can come in. A schedule picks the goroutine of each step, so a
  statement about all schedules is one about all interleavings.
\<close>

subsection \<open>Nodes and shared variables\<close>

datatype dag_pc =
    PWait "string list"
  | PBody
  | PAgentAudit agent_def "string gomap"
  | PAgentCall agent_def "string gomap"
  | PAgentDone "gval gomap" "string option"
  | PToolAudit tool_def "gval gomap"
  | PToolCall tool_def "gval gomap"
  | PToolDone "tool_error + gval gomap"
  | PDone

record dag_node =
  dn_step :: pipeline_step
  dn_index :: nat
  dn_status :: string
  dn_closed :: bool
  dn_pc :: dag_pc

record dag_vars =
  dv_sys :: sys
  dv_vars :: "gval gomap"
  dv_results :: "gval gomap"
  dv_exec :: "exec_state option"

record dag =
  dg_vars :: dag_vars
  dg_nodes :: "dag_node gomap"
  dg_panic :: bool

definition dag_step_id :: "pipeline_step \<Rightarrow> string" where
  "dag_step_id s = (if ps_id s = '''' then (if ps_agent s \<noteq> '''' then ''agent.'' @ ps_agent s else ps_tool s) else ps_id s)"

definition new_node :: "nat \<Rightarrow> pipeline_step \<Rightarrow> dag_node" where
  "new_node i s = \<lparr>dn_step = s, dn_index = i, dn_status = ''pending'', dn_closed = False,
     dn_pc = PWait (ps_depends_on s)\<rparr>"

definition dag_nodes :: "pipeline_step list \<Rightarrow> dag_node gomap" where
  "dag_nodes steps = fold (\<lambda>(i, s) ns. mput ns (dag_step_id s) (new_node i s)) (List.enumerate 0 steps) []"

definition mark_completed :: "string list \<Rightarrow> dag_node gomap \<Rightarrow> dag_node gomap" where
  "mark_completed completed ns = map (\<lambda>(k, n). (k, if k \<in> set completed
     then n\<lparr>dn_status := ''success'', dn_closed := True\<rparr> else n)) ns"

definition bad_status :: "string \<Rightarrow> bool" where
  "bad_status s = (s = ''failed'' \<or> s = ''skipped'' \<or> s = ''cascaded_skip'' \<or> s = ''paused'' \<or> s = ''cascaded_pause'')"

definition paused_status :: "string \<Rightarrow> bool" where
  "paused_status s = (s = ''paused'' \<or> s = ''cascaded_pause'')"

text \<open>Closing a channel twice is a panic: here for a step that is listed as complete twice.\<close>

definition closed_twice :: "string list \<Rightarrow> dag_node gomap \<Rightarrow> bool" where
  "closed_twice completed ns = (\<not> distinct (filter (\<lambda>k. mget ns k \<noteq> None) completed))"

text \<open>\<open>n.Status = st; close(n.DoneCh); return\<close>\<close>

definition finish_node :: "string \<Rightarrow> dag_node \<Rightarrow> dag_node" where
  "finish_node st n = n\<lparr>dn_status := st, dn_closed := True, dn_pc := PDone\<rparr>"

definition set_pc :: "dag_pc \<Rightarrow> dag_node \<Rightarrow> dag_node" where
  "set_pc pc n = n\<lparr>dn_pc := pc\<rparr>"

subsection \<open>Steps of a goroutine\<close>

definition dv_with :: "(sys \<Rightarrow> sys) \<Rightarrow> dag_vars \<Rightarrow> dag_vars" where
  "dv_with f v = v\<lparr>dv_sys := f (dv_sys v)\<rparr>"

text \<open>An audit write; on an error the run's record is failed, and the caller fails its node.\<close>

definition dag_audit :: "env \<Rightarrow> string \<Rightarrow> string \<Rightarrow> string \<Rightarrow> gval gomap \<Rightarrow> dag_vars \<Rightarrow> dag_vars \<times> bool" where
  "dag_audit ve i phase outcome details v =
    (case log_lifecycle ve (dv_exec v) phase outcome details (dv_sys v) of
       (sy, None) \<Rightarrow> (v\<lparr>dv_sys := sy\<rparr>, True)
     | (sy, Some err) \<Rightarrow> (case fail_audit ve (dv_exec v) i err sy of
         (sy1, st) \<Rightarrow> (v\<lparr>dv_sys := sy1, dv_exec := (case dv_exec v of None \<Rightarrow> None | Some _ \<Rightarrow> st)\<rparr>, False)))"

definition dv_record :: "string \<Rightarrow> gval gomap \<Rightarrow> dag_vars \<Rightarrow> dag_vars" where
  "dv_record sid out v = (case record_step_output sid out (dv_results v, dv_vars v) of
     (results, vars) \<Rightarrow> v\<lparr>dv_results := results, dv_vars := vars\<rparr>)"

definition dv_put :: "string \<Rightarrow> gval gomap \<Rightarrow> dag_vars \<Rightarrow> dag_vars" where
  "dv_put key out v = v\<lparr>dv_results := mput (dv_results v) key (GObj out)\<rparr>"

definition dv_publish :: "string \<Rightarrow> gval gomap \<Rightarrow> dag_vars \<Rightarrow> dag_vars" where
  "dv_publish key out v = v\<lparr>dv_vars := put_vars (\<lambda>k. key @ ''.'' @ k) out (dv_vars v)\<rparr>"

definition dag_params :: "env \<Rightarrow> pipeline_step \<Rightarrow> dag_vars \<Rightarrow> gval gomap" where
  "dag_params ve s v = build_call_params (we_ff ve) (we_render ve) (dv_vars v) (ps_with_params s)"

text \<open>The decision whether the node runs.\<close>

definition dag_decide :: "env \<Rightarrow> run_info \<Rightarrow> dag_node \<Rightarrow> dag_vars \<Rightarrow> dag_vars \<times> dag_node" where
  "dag_decide ve ri n v0 =
    (let s = dn_step n; v = v0\<lparr>dv_vars := auto_cast_vars (dv_vars v0)\<rparr> in
     if step_should_run (we_eval ve) s (dv_vars v) then (v, n\<lparr>dn_status := ''running'', dn_pc := PBody\<rparr>)
     else if ps_human_gate s \<noteq> '''' then (v, finish_node ''skipped'' n)
     else (case dag_audit ve (ri_id ri) ''step.decision'' ''skipped''
           [(''step'', GStr (ps_id s)), (''tool'', GStr (ps_tool s)), (''agent'', GStr (ps_agent s)),
            (''when'', GStr (ps_when s)), (''decision'', GStr ''skip'')]
           (dv_record (ps_id s) skip_output (dv_put (result_key s) skip_output v)) of
         (v1, ok) \<Rightarrow> (v1, finish_node (if ok then ''skipped'' else ''failed'') n)))"

text \<open>The gate: the success of an approved one, or the pause with the record of what is complete.\<close>

definition dag_gate :: "env \<Rightarrow> run_info \<Rightarrow> string list \<Rightarrow> dag_node \<Rightarrow> dag_vars \<Rightarrow> dag_vars \<times> dag_node" where
  "dag_gate ve ri completed n v0 =
    (let s = dn_step n; gate = ps_human_gate s in
     if (case dv_exec v0 of None \<Rightarrow> False | Some st \<Rightarrow> es_gate st = gate) then (v0, finish_node ''success'' n)
     else
       (let v = v0\<lparr>dv_vars := mput (mput (dv_vars v0) (gate @ ''_executed'') (GBool True))
              (gate @ ''_decision'') (GStr ''pending'')\<rparr>;
            st0 = zero_exec\<lparr>es_id := ri_id ri, es_session := ri_session ri, es_intent := ri_intent ri,
              es_pipeline := pl_name (ri_pipe ri), es_completed := completed,
              es_params := Some (convert_vars (we_ff ve) (dv_vars v)), es_results := dv_results v, es_gate := gate\<rparr>;
            st = (case dv_exec v of None \<Rightarrow> st0
              | Some old \<Rightarrow> copy_manifest (st0\<lparr>es_user := es_user old, es_created := es_created old\<rparr>) old)
        in case save_state ve st (dv_sys v) of
             (sy, st', Some _) \<Rightarrow>
               (v\<lparr>dv_sys := store_error (ri_id ri) ''cannot persist execution state'' sy\<rparr>, finish_node ''failed'' n)
           | (sy, st', None) \<Rightarrow>
             (case log_lifecycle ve (Some st') ''human.approval_requested'' ''pending''
                 [(''gate'', GStr gate), (''step'', GStr (ps_id s))] sy of
                (sy1, Some err) \<Rightarrow> (v\<lparr>dv_sys := fst (fail_audit ve (Some st') (ri_id ri) err sy1)\<rparr>, finish_node ''failed'' n)
              | (sy1, None) \<Rightarrow> (v\<lparr>dv_sys := send_msg ''api'' ''await_human'' [(''id'', PS (ri_id ri)), (''gate'', PS gate)]
                  (event (ri_id ri) ''Verifier'' ''await_human'' gate sy1)\<rparr>, finish_node ''paused'' n))))"

definition dag_preference :: "env \<Rightarrow> run_info \<Rightarrow> dag_node \<Rightarrow> dag_vars \<Rightarrow> dag_vars \<times> dag_node" where
  "dag_preference ve ri n v =
    (let s = dn_step n; out = [(''status'', GStr ''saved'')] in
     (dv_with (event (ri_id ri) ''Verifier'' (''tool '' @ ps_tool s) ''ok'')
        (dv_record (ps_id s) out (dv_put (ps_tool s) out
          (dv_with (save_preference ve (ri_id ri @ ''_pref_'' @ ps_tool s) (ri_session ri)
            (str_of (dag_params ve s v) ''preference'')) v))),
      finish_node ''success'' n))"

definition dag_body :: "env \<Rightarrow> run_info \<Rightarrow> string list \<Rightarrow> dag_node \<Rightarrow> dag_vars \<Rightarrow> dag_vars \<times> dag_node" where
  "dag_body ve ri completed n v =
    (let s = dn_step n in
     if ps_agent s \<noteq> '''' then
       (case mget (cf_agents (we_cfg ve)) (ps_agent s) of
          None \<Rightarrow> (dv_with (store_result (ri_id ri) (err_result (''agent '' @ ps_agent s @ '' not found''))) v,
            finish_node ''failed'' n)
        | Some a \<Rightarrow> (v, set_pc (PAgentAudit a (convert_vars (we_ff ve) (dag_params ve s v))) n))
     else if ps_human_gate s \<noteq> '''' then dag_gate ve ri completed n v
     else if ps_analyst s then
       (dv_with (send_msg ''analyst'' ''summarize'' (summarize_payload ri (dv_results v))) v, finish_node ''success'' n)
     else if ps_tool s = ''system.save_preference'' then dag_preference ve ri n v
     else (case mget (cf_tools (we_cfg ve)) (ps_tool s) of
         None \<Rightarrow> (dv_with (store_error (ri_id ri) (''tool '' @ ps_tool s @ '' not found'')) v, finish_node ''failed'' n)
       | Some t \<Rightarrow> (v, set_pc (PToolAudit t (dag_params ve s v)) n)))"

definition agent_started :: "env \<Rightarrow> pipeline_step \<Rightarrow> string gomap \<Rightarrow> gval gomap" where
  "agent_started ve s params =
    [(''step'', GStr (ps_id s)), (''agent'', GStr (ps_agent s)), (''when'', GStr (ps_when s)),
     (''decision'', GStr ''invoke'')] @ input_details ve (string_map_to_any params)"

definition dag_agent_done :: "env \<Rightarrow> run_info \<Rightarrow> gval gomap \<Rightarrow> string option \<Rightarrow> dag_node \<Rightarrow> dag_vars \<Rightarrow> dag_vars \<times> dag_node" where
  "dag_agent_done ve ri out err n v =
    (let s = dn_step n; key = ''agent.'' @ ps_agent s; who = [(''step'', GStr (ps_id s)), (''agent'', GStr (ps_agent s))] in
     case err of
       Some e \<Rightarrow>
         (case dag_audit ve (ri_id ri) ''tool.failed'' ''error'' (who @ [(''error'', GStr e)]) v of
            (v1, _) \<Rightarrow> (dv_with (\<lambda>sy. store_result (ri_id ri) \<lparr>rs_status = ''error'', rs_data = Some (GObj [(key, GObj out)]),
                rs_err = ''agent '' @ ps_agent s @ '' failed: '' @ e\<rparr> (publish_agent_failure (ri_id ri) e sy)) v1,
              finish_node ''failed'' n))
     | None \<Rightarrow>
         (case dag_audit ve (ri_id ri) ''tool.completed'' ''success'' (who @ output_details ve out) v of
            (v1, False) \<Rightarrow> (v1, finish_node ''failed'' n)
          | (v1, True) \<Rightarrow> (dv_record (ps_id s) out (dv_publish key out (dv_put key out v1)), finish_node ''success'' n)))"

definition dag_tool_done :: "env \<Rightarrow> run_info \<Rightarrow> tool_error + gval gomap \<Rightarrow> dag_node \<Rightarrow> dag_vars \<Rightarrow> dag_vars \<times> dag_node" where
  "dag_tool_done ve ri r n v =
    (let s = dn_step n; tool = ps_tool s in
     case r of
       Inl err \<Rightarrow>
         (case dag_audit ve (ri_id ri) ''tool.failed'' (audit_failure_result err)
             [(''step'', GStr (ps_id s)), (''tool'', GStr tool), (''error'', GStr (tool_error_text err))] v of
            (v1, _) \<Rightarrow> (case fail_tool_exec ve (dv_exec v1) (ri_id ri) (ps_id s) tool err (dv_sys v1) of
              (sy, st) \<Rightarrow> (v1\<lparr>dv_sys := sy, dv_exec := st\<rparr>, finish_node ''failed'' n)))
     | Inr out0 \<Rightarrow>
         (let out1 = (if mget out0 ''executed'' = None then mput out0 ''executed'' (GBool True) else out0);
              out = mput out1 ''_executedAt'' (GStr (we_rfc3339 ve (now_of ve (dv_sys v)))) in
          case dag_audit ve (ri_id ri) ''tool.completed'' ''success'' (completed_details ve s tool out) (dv_with next_tick v) of
            (v1, False) \<Rightarrow> (v1, finish_node ''failed'' n)
          | (v1, True) \<Rightarrow> (dv_record (ps_id s) out (dv_publish tool out
              (dv_with (event (ri_id ri) ''Verifier'' (''tool '' @ tool) ''ok'') (dv_put tool out v1))),
            finish_node ''success'' n)))"

text \<open>The step after the wait is over.\<close>

definition dag_run_node :: "env \<Rightarrow> run_info \<Rightarrow> string list \<Rightarrow> dag_node \<Rightarrow> dag_vars \<Rightarrow> dag_vars \<times> dag_node" where
  "dag_run_node ve ri completed n v =
    (let s = dn_step n in
     case dn_pc n of
       PBody \<Rightarrow> dag_body ve ri completed n v
     | PAgentAudit a params \<Rightarrow>
         (case dag_audit ve (ri_id ri) ''tool.started'' ''pending'' (agent_started ve s params) v of
            (v1, ok) \<Rightarrow> (v1, if ok then set_pc (PAgentCall a params) n else finish_node ''failed'' n))
     | PAgentCall a params \<Rightarrow>
         (case run_agent_step ve (ri_ctx ri) (ri_id ri) (dn_index n) a params (dv_sys v) of
            (sy, out, err) \<Rightarrow> (v\<lparr>dv_sys := sy\<rparr>, set_pc (PAgentDone out err) n))
     | PAgentDone out err \<Rightarrow> dag_agent_done ve ri out err n v
     | PToolAudit t params \<Rightarrow>
         (case dag_audit ve (ri_id ri) ''tool.started'' ''pending'' (started_details ve s params) v of
            (v1, ok) \<Rightarrow> (v1, if ok then set_pc (PToolCall t params) n else finish_node ''failed'' n))
     | PToolCall t params \<Rightarrow>
         (case execute_tool ve (ri_ctx ri) (dn_index n) t (convert_vars (we_ff ve) params) s (dv_sys v) of
            (sy, r) \<Rightarrow> (v\<lparr>dv_sys := sy\<rparr>, set_pc (PToolDone r) n))
     | PToolDone r \<Rightarrow> dag_tool_done ve ri r n v
     | _ \<Rightarrow> (v, n))"

definition completed_ids :: "dag_node gomap \<Rightarrow> string list" where
  "completed_ids ns = map fst (filter (\<lambda>(k, n). dn_status n = ''success'') ns)"

text \<open>
  One step of the goroutine of a node; \<open>None\<close> when it is finished or blocked. Closing a closed
  channel is a panic, which ends the process.
\<close>

definition dag_advance :: "env \<Rightarrow> run_info \<Rightarrow> string \<Rightarrow> dag \<Rightarrow> dag option" where
  "dag_advance ve ri k d =
    (if dg_panic d then None
     else (case mget (dg_nodes d) k of None \<Rightarrow> None
       | Some n \<Rightarrow>
         (case dn_pc n of
            PDone \<Rightarrow> None
          | PWait (x # xs) \<Rightarrow>
            (case mget (dg_nodes d) x of
               None \<Rightarrow> Some (d\<lparr>dg_nodes := mput (dg_nodes d) k (set_pc (PWait xs) n)\<rparr>)
             | Some dep \<Rightarrow>
               if \<not> dn_closed dep then None
               else if bad_status (dn_status dep)
               then (if dn_closed n then Some (d\<lparr>dg_panic := True\<rparr>)
                     else Some (d\<lparr>dg_nodes := mput (dg_nodes d) k (finish_node
                       (if paused_status (dn_status dep) then ''cascaded_pause'' else ''cascaded_skip'') n)\<rparr>))
               else Some (d\<lparr>dg_nodes := mput (dg_nodes d) k (set_pc (PWait xs) n)\<rparr>))
          | PWait [] \<Rightarrow>
            if dn_status n = ''success'' then Some (d\<lparr>dg_nodes := mput (dg_nodes d) k (set_pc PDone n)\<rparr>)
            else (case dag_decide ve ri n (dg_vars d) of
                (v, n') \<Rightarrow> Some (d\<lparr>dg_vars := v, dg_nodes := mput (dg_nodes d) k n'\<rparr>))
          | _ \<Rightarrow> (case dag_run_node ve ri (completed_ids (mput (dg_nodes d) k (n\<lparr>dn_status := ''paused''\<rparr>))) n (dg_vars d) of
                (v, n') \<Rightarrow> Some (d\<lparr>dg_vars := v, dg_nodes := mput (dg_nodes d) k n'\<rparr>)))))"

inductive dag_step :: "env \<Rightarrow> run_info \<Rightarrow> dag \<Rightarrow> dag \<Rightarrow> bool" for ve ri where
  advance: "dag_advance ve ri k d = Some d' \<Longrightarrow> dag_step ve ri d d'"

inductive_cases dag_stepE: "dag_step ve ri d d'"

subsection \<open>The run\<close>

definition enabled :: "env \<Rightarrow> run_info \<Rightarrow> dag \<Rightarrow> string list" where
  "enabled ve ri d = filter (\<lambda>k. dag_advance ve ri k d \<noteq> None) (map fst (dg_nodes d))"

text \<open>\<open>sched\<close> chooses among the goroutines that can go on; \<open>fuel\<close> bounds the steps.\<close>

fun dag_loop :: "env \<Rightarrow> run_info \<Rightarrow> (nat \<Rightarrow> nat) \<Rightarrow> nat \<Rightarrow> dag \<Rightarrow> dag" where
  "dag_loop ve ri sched 0 d = d"
| "dag_loop ve ri sched (Suc fuel) d =
    (case enabled ve ri d of [] \<Rightarrow> d
     | k # ks \<Rightarrow> (case dag_advance ve ri ((k # ks) ! (sched fuel mod length (k # ks))) d of
         None \<Rightarrow> d | Some d' \<Rightarrow> dag_loop ve ri sched fuel d'))"

definition pc_measure :: "dag_pc \<Rightarrow> nat" where
  "pc_measure pc = (case pc of PWait ds \<Rightarrow> 6 + length ds | PBody \<Rightarrow> 5 | PAgentAudit _ _ \<Rightarrow> 4 | PToolAudit _ _ \<Rightarrow> 4
     | PAgentCall _ _ \<Rightarrow> 3 | PToolCall _ _ \<Rightarrow> 3 | PAgentDone _ _ \<Rightarrow> 2 | PToolDone _ \<Rightarrow> 2 | PDone \<Rightarrow> 0)"

definition nodes_measure :: "dag_node gomap \<Rightarrow> nat" where
  "nodes_measure ns = sum_list (map (\<lambda>(k, n). pc_measure (dn_pc n)) ns)"

definition dag_setup :: "env \<Rightarrow> pipeline \<Rightarrow> string \<Rightarrow> string \<Rightarrow> string \<Rightarrow> string \<Rightarrow> task_ctx \<Rightarrow>
    gval gomap \<Rightarrow> gval gomap \<Rightarrow> sys \<Rightarrow> run_info \<times> dag" where
  "dag_setup ve pipe i session intent language ctx results base_params sy =
    (let (sy1, loaded) = load_state ve i sy;
         st = (case loaded of Inr s \<Rightarrow> s | Inl _ \<Rightarrow> None);
         vars = restore_result_vars results (mputs (mputs [] base_params) (string_map_to_any (exec_params st)));
         completed = (case st of None \<Rightarrow> [] | Some s \<Rightarrow> es_completed s);
         nodes = dag_nodes (pl_steps pipe); panic = closed_twice completed nodes in
     (\<lparr>ri_pipe = pipe, ri_id = i, ri_session = session, ri_intent = intent, ri_language = language,
       ri_ctx = ctx, ri_cb_index = -1, ri_cb_step = '''', ri_cb_deadline = None\<rparr>,
      \<lparr>dg_vars = \<lparr>dv_sys = (if panic then sy1 else event i ''Verifier'' ''dag_structure'' '''' sy1), dv_vars = vars,
         dv_results = results, dv_exec = st\<rparr>,
       dg_nodes = mark_completed completed nodes, dg_panic = panic\<rparr>))"

definition all_done :: "dag \<Rightarrow> bool" where
  "all_done d = list_all (\<lambda>(k, n). dn_pc n = PDone) (dg_nodes d)"

text \<open>After \<open>wg.Wait()\<close>: a paused or failed run ends here, another goes to the analyst.\<close>

definition dag_finish :: "env \<Rightarrow> run_info \<Rightarrow> dag \<Rightarrow> sys" where
  "dag_finish ve ri d =
    (if list_ex (\<lambda>(k, n). paused_status (dn_status n) \<or> dn_status n = ''failed'') (dg_nodes d) then dv_sys (dg_vars d)
     else
       (let v = dv_with next_tick (dg_vars d);
            wrap = [(''pipeline'', GStr (pl_name (ri_pipe ri))),
              (''pipeline_version'', GStr (pipeline_version (dv_exec v))), (''intent'', GStr (ri_intent ri)),
              (''status'', GStr ''success''), (''steps'', GInt (int (length (pl_steps (ri_pipe ri))))),
              (''endedAt'', GStr (we_rfc3339 ve (now_of ve (dv_sys (dg_vars d)))))] in
        send_msg ''analyst'' ''summarize'' (summarize_payload ri (dv_results (dv_put ''_pipeline'' wrap v))) (dv_sys v)))"

text \<open>The executor returns when all goroutines have; otherwise \<open>wg.Wait()\<close> blocks for ever.\<close>

definition execute_dag :: "env \<Rightarrow> (nat \<Rightarrow> nat) \<Rightarrow> pipeline \<Rightarrow> string \<Rightarrow> string \<Rightarrow> string \<Rightarrow> string \<Rightarrow> task_ctx \<Rightarrow>
    gval gomap \<Rightarrow> gval gomap \<Rightarrow> sys \<Rightarrow> sys \<times> bool" where
  "execute_dag ve sched pipe i session intent language ctx results base_params sy =
    (case dag_setup ve pipe i session intent language ctx results base_params sy of
       (ri, d0) \<Rightarrow>
         (let d = dag_loop ve ri sched (nodes_measure (dg_nodes d0)) d0 in
          if all_done d \<and> \<not> dg_panic d then (dag_finish ve ri d, True) else (dv_sys (dg_vars d), False)))"

end
