(* ===== verification/Verifier_Handlers.thy ===== *)
theory Verifier_Handlers
  imports Exec_Dag Gov_Gate
begin

text \<open>
  The messages the verifier handles (agent/verifier.go): a new run, a human decision, a callback,
  and the periodic scan that recovers and expires callbacks. A handler answers the new system and
  whether it returned; it does not when the parallel executor blocks or panics.
\<close>

subsection \<open>Starting an executor\<close>

definition run_executor :: "env \<Rightarrow> (nat \<Rightarrow> nat) \<Rightarrow> pipeline \<Rightarrow> string \<Rightarrow> string \<Rightarrow> string \<Rightarrow> string \<Rightarrow> task_ctx \<Rightarrow>
    gval gomap \<Rightarrow> gval gomap \<Rightarrow> sys \<Rightarrow> sys \<times> bool" where
  "run_executor ve sched pipe i session intent language ctx results base_params sy =
    (if pl_mode pipe = ''dag'' then execute_dag ve sched pipe i session intent language ctx results base_params sy
     else (execute_linear ve pipe i session intent language ctx results base_params sy, True))"

text \<open>The parameters of a message: a map of strings or one of any values.\<close>

definition base_params_of :: "pval option \<Rightarrow> gval gomap" where
  "base_params_of p = (case p of Some (PStrMap m) \<Rightarrow> mputs [] (string_map_to_any m)
     | Some (PVal (GObj m)) \<Rightarrow> mputs [] m | _ \<Rightarrow> [])"

text \<open>The context of a new run: the task's one, which \<open>handleAsk\<close> made, or a new one.\<close>

definition run_context :: "string \<Rightarrow> string \<Rightarrow> sys \<Rightarrow> sys \<times> task_ctx" where
  "run_context i ai_system sy =
    (let (sy1, c) = (case get_task_context i sy of Some c \<Rightarrow> (sy, c) | None \<Rightarrow> new_task_context i sy)
     in (sy1, c\<lparr>tc_ai_system := ai_system\<rparr>))"

definition report_run :: "env \<Rightarrow> bool \<Rightarrow> string \<Rightarrow> string \<Rightarrow> string \<Rightarrow> sys \<Rightarrow> sys" where
  "report_run ve fresh i ai_system decision_id sy =
    (if fresh \<and> ai_system \<noteq> '''' \<and> reports_enabled (we_getenv ve) then emit (EReport i decision_id) (next_tick sy) else sy)"

definition handle_run_pipeline :: "env \<Rightarrow> (nat \<Rightarrow> nat) \<Rightarrow> message \<Rightarrow> sys \<Rightarrow> sys \<times> bool" where
  "handle_run_pipeline ve sched msg sy =
    (let pay = ms_payload msg in
     case (get_string pay ''id'', get_string pay ''intent'') of
       (None, _) \<Rightarrow> (sy, True)
     | (_, None) \<Rightarrow> (sy, True)
     | (Some i, Some intent) \<Rightarrow>
       (let language = (if get_string0 pay ''language'' = '''' then ''es'' else get_string0 pay ''language'');
            base_params = base_params_of (mget pay ''params''); session = get_string0 pay ''session_id'' in
        case mget pay ''pipeline'' of
          Some (PPipe pipe) \<Rightarrow>
            (case load_state ve i sy of
               (sy1, Inl err) \<Rightarrow> (store_result i (err_result (''cannot load execution state: '' @ err)) sy1, True)
             | (sy1, Inr st) \<Rightarrow>
               (case ensure_manifest ve i session intent pipe base_params st sy1 of
                  (sy2, _, Some err) \<Rightarrow> (fst (fail_audit ve None i err sy2), True)
                | (sy2, _, None) \<Rightarrow>
                  (let ai_system = trim_space (pl_ai_system pipe);
                       fresh = (case st of None \<Rightarrow> True | Some s \<Rightarrow> es_version s = '''');
                       (sy3, ctx) = run_context i ai_system sy2
                   in run_executor ve sched pipe i session intent language ctx [] base_params
                        (report_run ve fresh i ai_system (get_string0 pay ''decision_id'') sy3))))
        | _ \<Rightarrow> (store_result i (err_result ''invalid pipeline'') sy, True)))"

subsection \<open>Resuming\<close>

text \<open>
  The context of a resumed run is the task's one while it lives. Otherwise it is the background
  context: the new task context is made, and dropped.
\<close>

definition resume_context :: "env \<Rightarrow> string \<Rightarrow> sys \<Rightarrow> sys \<times> task_ctx" where
  "resume_context ve i sy =
    (case get_task_context i sy of
       None \<Rightarrow> (fst (new_task_context i sy), background)
     | Some c \<Rightarrow> (case we_ctx_err ve (sy_tick sy) c of
         None \<Rightarrow> (next_tick sy, c)
       | Some _ \<Rightarrow> (fst (new_task_context i (next_tick sy)), background)))"

definition resume_from_state :: "env \<Rightarrow> (nat \<Rightarrow> nat) \<Rightarrow> exec_state \<Rightarrow> sys \<Rightarrow> sys \<times> bool" where
  "resume_from_state ve sched st sy =
    (let i = es_id st in
     case mget (cf_pipelines (we_cfg ve)) (es_pipeline st) of
       None \<Rightarrow> (store_error i ''pipeline not found on resume'' sy, True)
     | Some pipe \<Rightarrow>
       (let params = string_map_to_any (case es_params st of None \<Rightarrow> [] | Some p \<Rightarrow> p) in
        case ensure_manifest ve i (es_session st) (es_intent st) pipe params (Some st) sy of
          (sy1, st1, Some err) \<Rightarrow> (fst (fail_audit ve st1 i err sy1), True)
        | (sy1, _, None) \<Rightarrow>
          (case resume_context ve i sy1 of
             (sy2, ctx) \<Rightarrow> run_executor ve sched pipe i (es_session st) (es_intent st) ''es'' ctx (es_results st) params
               (mark_run_start ve i sy2))))"

subsection \<open>Human decisions\<close>

definition record_decision :: "string \<Rightarrow> exec_state \<Rightarrow> exec_state" where
  "record_decision decision st = (if es_gate st = '''' then st
     else st\<lparr>es_params := Some (mput (case es_params st of None \<Rightarrow> [] | Some p \<Rightarrow> p) (es_gate st @ ''_decision'') decision)\<rparr>)"

definition rejected_data :: "exec_state \<Rightarrow> string \<Rightarrow> gval" where
  "rejected_data st decided_by = GObj [(''gate'', GStr (es_gate st)), (''decided_by'', GStr decided_by),
     (''reason'', GStr (''human rejected review at gate: '' @ es_gate st))]"

definition reject_state :: "string \<Rightarrow> exec_state \<Rightarrow> exec_state" where
  "reject_state decided_by st = st\<lparr>es_status := ''rejected'', es_gate := '''', es_cb_token := '''',
     es_results := mput (es_results st) ''_rejection'' (rejected_data st decided_by)\<rparr>"

definition handle_human_decision :: "env \<Rightarrow> (nat \<Rightarrow> nat) \<Rightarrow> message \<Rightarrow> sys \<Rightarrow> sys \<times> bool" where
  "handle_human_decision ve sched msg sy =
    (let pay = ms_payload msg in
     case (get_string pay ''id'', get_string pay ''decision'') of
       (None, _) \<Rightarrow> (sy, True)
     | (_, None) \<Rightarrow> (sy, True)
     | (Some i, Some decision) \<Rightarrow>
       (case load_state ve i sy of
          (sy1, Inr (Some st0)) \<Rightarrow>
            (let decided_by = get_string0 pay ''decided_by'';
                 sy2 = fst (log_lifecycle ve (Some st0) ''human.decision'' decision
                   [(''gate'', GStr (es_gate st0)), (''decided_by'', GStr decided_by)] sy1);
                 st = record_decision decision st0 in
             if decision \<noteq> ''approved''
             then (store_result i \<lparr>rs_status = ''rejected'', rs_data = Some (rejected_data st decided_by), rs_err = ''''\<rparr>
                 (fst (save_state ve (reject_state decided_by st) sy2)), True)
             else (case save_state ve st sy2 of
                 (sy3, st', Some _) \<Rightarrow> (store_error i ''cannot persist execution state'' sy3, True)
               | (sy3, st', None) \<Rightarrow> resume_from_state ve sched st' sy3))
        | (sy1, _) \<Rightarrow> (store_error i ''no execution state found'' sy1, True)))"

subsection \<open>Callbacks\<close>

text \<open>The deadline has passed and no answer was recorded in time.\<close>

definition answered_in_time :: "exec_state \<Rightarrow> time \<Rightarrow> bool" where
  "answered_in_time st deadline = (es_cb_data st \<noteq> None \<and> (case es_cb_at st of None \<Rightarrow> False | Some t \<Rightarrow> t \<le> deadline))"

definition too_late :: "time \<Rightarrow> exec_state \<Rightarrow> bool" where
  "too_late now st = (case es_deadline st of None \<Rightarrow> False | Some d \<Rightarrow> d \<le> now \<and> \<not> answered_in_time st d)"

definition awaits_token :: "string \<Rightarrow> exec_state \<Rightarrow> bool" where
  "awaits_token token st = (es_cb_token st = token \<and> es_gate st = ''await_callback'')"

text \<open>The first state that waits for the token; the clock is read for each one with a deadline.\<close>

fun find_callback :: "env \<Rightarrow> string \<Rightarrow> exec_state list \<Rightarrow> sys \<Rightarrow> sys \<times> exec_state option" where
  "find_callback ve token [] sy = (sy, None)"
| "find_callback ve token (st # sts) sy =
    (if \<not> awaits_token token st then find_callback ve token sts sy
     else (let sy1 = (if es_deadline st = None then sy else next_tick sy) in
       if too_late (now_of ve sy) st then find_callback ve token sts sy1 else (sy1, Some st)))"

definition callback_value :: "pval gomap \<Rightarrow> gval" where
  "callback_value pay = (case mget pay ''data'' of Some (PVal v) \<Rightarrow> v
     | Some (PStrMap m) \<Rightarrow> GObj (string_map_to_any m) | _ \<Rightarrow> GNil)"

definition resolve_callback :: "gval \<Rightarrow> exec_state \<Rightarrow> exec_state" where
  "resolve_callback data st = st\<lparr>es_results := mput (es_results st) (es_await_step st)
       (case es_cb_data st of Some m \<Rightarrow> GObj m | None \<Rightarrow> data),
     es_completed := es_completed st @ [es_await_step st], es_gate := '''', es_cb_token := '''', es_cb_data := None,
     es_cb_at := None, es_deadline := None, es_status := ''running''\<rparr>"

definition audit_stopped :: "string \<Rightarrow> exec_state \<Rightarrow> exec_state" where
  "audit_stopped err st = st\<lparr>es_status := ''error'', es_error := ''audit journal unavailable: '' @ err\<rparr>"

text \<open>The event could not be written: the record and the result say so.\<close>

definition stop_unaudited :: "env \<Rightarrow> string \<Rightarrow> exec_state \<Rightarrow> sys \<Rightarrow> sys" where
  "stop_unaudited ve err st sy = store_result (es_id st) (err_result (''audit journal unavailable: '' @ err))
     (fst (save_state ve (audit_stopped err st) sy))"

definition handle_callback :: "env \<Rightarrow> (nat \<Rightarrow> nat) \<Rightarrow> message \<Rightarrow> sys \<Rightarrow> sys \<times> bool" where
  "handle_callback ve sched msg sy =
    (let pay = ms_payload msg; token = get_string0 pay ''token'' in
     if token = '''' then (sy, True)
     else (case list_states ve sy of
         (sy1, Inl _) \<Rightarrow> (sy1, True)
       | (sy1, Inr sts) \<Rightarrow>
         (case find_callback ve token sts sy1 of
            (sy2, None) \<Rightarrow> (sy2, True)
          | (sy2, Some st0) \<Rightarrow>
            (case save_state ve (resolve_callback (callback_value pay) st0) sy2 of
               (sy3, st, Some _) \<Rightarrow> (sy3, True)
             | (sy3, st, None) \<Rightarrow>
               (case log_lifecycle ve (Some st) ''callback.received'' ''success''
                   [(''step'', GStr (es_await_step st)),
                    (''data'', GObj (audit_safe_callback (we_lib ve) (callback_value pay)))] sy3 of
                  (sy4, Some err) \<Rightarrow> (stop_unaudited ve err st sy4, True)
                | (sy4, None) \<Rightarrow> resume_from_state ve sched st sy4)))))"

text \<open>Answers that were recorded while the verifier was down.\<close>

definition callback_recorded :: "exec_state \<Rightarrow> bool" where
  "callback_recorded st = (es_gate st = ''await_callback'' \<and> es_cb_token st \<noteq> '''' \<and> es_cb_data st \<noteq> None \<and>
     (case es_deadline st of None \<Rightarrow> True | Some d \<Rightarrow> (case es_cb_at st of None \<Rightarrow> False | Some t \<Rightarrow> t \<le> d)))"

definition callback_message :: "exec_state \<Rightarrow> message" where
  "callback_message st = \<lparr>ms_type = ''callback_received'', ms_payload = [(''token'', PS (es_cb_token st)),
     (''data'', PVal (case es_cb_data st of None \<Rightarrow> GNil | Some m \<Rightarrow> GObj m))]\<rparr>"

fun handle_all :: "env \<Rightarrow> (nat \<Rightarrow> nat) \<Rightarrow> message list \<Rightarrow> sys \<Rightarrow> sys \<times> bool" where
  "handle_all ve sched [] sy = (sy, True)"
| "handle_all ve sched (m # ms) sy = (case handle_callback ve sched m sy of
     (sy1, False) \<Rightarrow> (sy1, False) | (sy1, True) \<Rightarrow> handle_all ve sched ms sy1)"

definition recover_callbacks :: "env \<Rightarrow> (nat \<Rightarrow> nat) \<Rightarrow> sys \<Rightarrow> sys \<times> bool" where
  "recover_callbacks ve sched sy = (case list_states ve sy of (sy1, Inl _) \<Rightarrow> (sy1, True)
     | (sy1, Inr sts) \<Rightarrow> handle_all ve sched (map callback_message (filter callback_recorded sts)) sy1)"

text \<open>Waits whose deadline has passed.\<close>

definition expired :: "time \<Rightarrow> exec_state \<Rightarrow> bool" where
  "expired now st = (es_gate st = ''await_callback'' \<and> es_deadline st \<noteq> None \<and> too_late now st)"

definition time_out :: "exec_state \<Rightarrow> exec_state" where
  "time_out st = st\<lparr>es_gate := '''', es_cb_token := '''', es_status := ''timed_out'',
     es_error := ''callback deadline exceeded'', es_deadline := None\<rparr>"

definition expire_one :: "env \<Rightarrow> exec_state \<Rightarrow> sys \<Rightarrow> sys" where
  "expire_one ve st0 sy =
    (case save_state ve (time_out st0) sy of
       (sy1, st, Some _) \<Rightarrow> sy1
     | (sy1, st, None) \<Rightarrow>
       (let sy2 = store_result (es_id st) (err_result ''callback deadline exceeded'') sy1;
            (sy3, err) = log_lifecycle ve (Some st) ''callback.timed_out'' ''error''
              [(''deadline'', GInt (the (es_deadline st0)))] sy2;
            sy4 = (case err of None \<Rightarrow> sy3 | Some e \<Rightarrow> stop_unaudited ve e st sy3)
        in event (es_id st) ''Verifier'' ''callback_timeout'' ''Callback deadline exceeded'' sy4))"

definition expire_callbacks :: "env \<Rightarrow> sys \<Rightarrow> sys" where
  "expire_callbacks ve sy = (case list_states ve sy of (sy1, Inl _) \<Rightarrow> sy1
     | (sy1, Inr sts) \<Rightarrow> fold (expire_one ve) (filter (expired (now_of ve sy1)) sts) (next_tick sy1))"

subsection \<open>The loop of the verifier\<close>

definition verifier_dispatch :: "env \<Rightarrow> (nat \<Rightarrow> nat) \<Rightarrow> message \<Rightarrow> sys \<Rightarrow> sys \<times> bool" where
  "verifier_dispatch ve sched msg sy =
    (if ms_type msg = ''run_pipeline'' then handle_run_pipeline ve sched msg sy
     else if ms_type msg = ''human_decision'' then handle_human_decision ve sched msg sy
     else if ms_type msg = ''callback_received'' then handle_callback ve sched msg sy
     else (sy, True))"

text \<open>What the loop does when its ticker fires.\<close>

definition verifier_scan :: "env \<Rightarrow> (nat \<Rightarrow> nat) \<Rightarrow> sys \<Rightarrow> sys \<times> bool" where
  "verifier_scan ve sched sy = (case recover_callbacks ve sched sy of
     (sy1, False) \<Rightarrow> (sy1, False) | (sy1, True) \<Rightarrow> (expire_callbacks ve sy1, True))"

end
