(* ===== verification/Dag_Protocol.thy ===== *)
theory Dag_Protocol
  imports Exec_Dag
begin

text \<open>
  The protocol of the parallel executor: an abstract relation \<open>node_change\<close> between the nodes before
  and after a step, which the executor refines, and the invariant and the termination that follow
  from the relation alone.
\<close>

subsection \<open>The abstract protocol\<close>

definition waiting :: "dag_pc \<Rightarrow> bool" where
  "waiting pc = (case pc of PWait _ \<Rightarrow> True | _ \<Rightarrow> False)"

definition calling :: "dag_pc \<Rightarrow> bool" where
  "calling pc = (case pc of PAgentCall _ _ \<Rightarrow> True | PToolCall _ _ \<Rightarrow> True | _ \<Rightarrow> False)"

lemma waiting_simps [simp]: "waiting (PWait ds)" "\<not> waiting PBody" "\<not> waiting PDone"
    "\<not> waiting (PAgentAudit a p)" "\<not> waiting (PAgentCall a p)" "\<not> waiting (PAgentDone o1 e)"
    "\<not> waiting (PToolAudit t q)" "\<not> waiting (PToolCall t q)" "\<not> waiting (PToolDone r)"
  by (simp_all add: waiting_def)

lemma waiting_iff: "waiting pc \<longleftrightarrow> (\<exists>ds. pc = PWait ds)"
  by (cases pc) simp_all

inductive node_change :: "dag_node gomap \<Rightarrow> dag_node \<Rightarrow> dag_node \<Rightarrow> bool" for ns where
  dep_passed: "dn_pc n = PWait (x # xs) \<Longrightarrow>
      (\<And>dep. mget ns x = Some dep \<Longrightarrow> dn_closed dep \<and> \<not> bad_status (dn_status dep)) \<Longrightarrow>
      node_change ns n (set_pc (PWait xs) n)"
| cascade: "dn_pc n = PWait (x # xs) \<Longrightarrow> \<not> dn_closed n \<Longrightarrow> st = ''cascaded_pause'' \<or> st = ''cascaded_skip'' \<Longrightarrow>
      node_change ns n (finish_node st n)"
| already: "dn_pc n = PWait [] \<Longrightarrow> dn_status n = ''success'' \<Longrightarrow> node_change ns n (set_pc PDone n)"
| start: "dn_pc n = PWait [] \<Longrightarrow> dn_status n \<noteq> ''success'' \<Longrightarrow>
      node_change ns n (n\<lparr>dn_status := ''running'', dn_pc := PBody\<rparr>)"
| not_started: "dn_pc n = PWait [] \<Longrightarrow> dn_status n \<noteq> ''success'' \<Longrightarrow> st = ''skipped'' \<or> st = ''failed'' \<Longrightarrow>
      node_change ns n (finish_node st n)"
| go_on: "\<not> waiting (dn_pc n) \<Longrightarrow> \<not> waiting pc \<Longrightarrow> pc \<noteq> PDone \<Longrightarrow> pc_measure pc < pc_measure (dn_pc n) \<Longrightarrow>
      node_change ns n (set_pc pc n)"
| finished: "\<not> waiting (dn_pc n) \<Longrightarrow> dn_pc n \<noteq> PDone \<Longrightarrow> st = ''success'' \<or> st = ''failed'' \<or> st = ''paused'' \<Longrightarrow>
      node_change ns n (finish_node st n)"

lemma finish_simps [simp]: "dn_status (finish_node st n) = st" "dn_closed (finish_node st n)" "dn_pc (finish_node st n) = PDone"
    "dn_step (finish_node st n) = dn_step n" "dn_index (finish_node st n) = dn_index n"
    "dn_status (set_pc pc n) = dn_status n" "dn_closed (set_pc pc n) = dn_closed n" "dn_pc (set_pc pc n) = pc"
    "dn_step (set_pc pc n) = dn_step n" "dn_index (set_pc pc n) = dn_index n"
  by (simp_all add: finish_node_def set_pc_def)

lemma pc_measure_simps [simp]: "pc_measure PBody = 5" "pc_measure (PAgentAudit a p) = 4" "pc_measure (PToolAudit t q) = 4"
    "pc_measure (PAgentCall a p) = 3" "pc_measure (PToolCall t q) = 3" "pc_measure (PAgentDone o1 e) = 2"
    "pc_measure (PToolDone r) = 2" "pc_measure PDone = 0" "pc_measure (PWait ds) = 6 + length ds"
  by (simp_all add: pc_measure_def)

lemma node_change_same: "node_change ns n n' \<Longrightarrow> dn_step n' = dn_step n \<and> dn_index n' = dn_index n"
  by (cases rule: node_change.cases) auto

lemma not_waiting_measure: "pc \<noteq> PDone \<Longrightarrow> 0 < pc_measure pc"
  by (cases pc) simp_all

lemma node_change_measure: "node_change ns n n' \<Longrightarrow> pc_measure (dn_pc n') < pc_measure (dn_pc n)"
  by (erule node_change.cases) (simp_all add: not_waiting_measure)

text \<open>Every step of the executor is one of the protocol, or the panic.\<close>

lemma decide_change: "dn_pc n = PWait [] \<Longrightarrow> dn_status n \<noteq> ''success'' \<Longrightarrow>
    node_change ns n (snd (dag_decide ve ri n v))"
  by (auto simp: dag_decide_def Let_def split: prod.splits intro: node_change.start node_change.not_started)

lemma gate_change: "dn_pc n = PBody \<Longrightarrow> node_change ns n (snd (dag_gate ve ri c n v))"
  by (auto simp: dag_gate_def Let_def split: prod.splits option.splits intro: node_change.finished)

lemma body_change: "dn_pc n = PBody \<Longrightarrow> node_change ns n (snd (dag_body ve ri c n v))"
  by (auto simp: dag_body_def dag_preference_def Let_def split: option.splits
      intro: gate_change node_change.finished node_change.go_on)

lemma run_change:
  assumes "\<not> waiting (dn_pc n)" "dn_pc n \<noteq> PDone"
  shows "node_change ns n (snd (dag_run_node ve ri c n v))"
proof (cases "dn_pc n")
  case PBody
  then show ?thesis by (simp add: dag_run_node_def body_change)
next
  case (PAgentDone o1 e)
  then show ?thesis
    by (auto simp: dag_run_node_def dag_agent_done_def Let_def split: option.splits prod.splits bool.splits
        intro: node_change.finished)
next
  case (PToolDone r)
  then show ?thesis
    by (auto simp: dag_run_node_def dag_tool_done_def Let_def split: sum.splits prod.splits bool.splits
        intro: node_change.finished)
qed (use assms in \<open>auto simp: dag_run_node_def Let_def split: prod.splits intro: node_change.finished node_change.go_on\<close>)

lemma advance_refines:
  assumes "dag_advance ve ri k d = Some d'"
  shows "(\<exists>n x dep. mget (dg_nodes d) k = Some n \<and> dn_closed n \<and> dn_pc n \<noteq> PDone \<and> mget (dg_nodes d) x = Some dep \<and>
      x \<in> set (case dn_pc n of PWait ds \<Rightarrow> ds | _ \<Rightarrow> []) \<and>
      dn_closed dep \<and> bad_status (dn_status dep) \<and> d' = d\<lparr>dg_panic := True\<rparr>) \<or>
    (\<exists>n n'. mget (dg_nodes d) k = Some n \<and> node_change (dg_nodes d) n n' \<and>
      dg_nodes d' = mput (dg_nodes d) k n' \<and> \<not> dg_panic d')"
proof -
  from assms obtain n where n: "mget (dg_nodes d) k = Some n" "\<not> dg_panic d"
    by (auto simp: dag_advance_def split: if_splits option.splits)
  show ?thesis
  proof (cases "dn_pc n")
    case (PWait ds)
    show ?thesis
    proof (cases ds)
      case Nil
      show ?thesis
      proof (cases "dn_status n = ''success''")
        case True
        with assms n PWait Nil show ?thesis by (auto simp: dag_advance_def intro: node_change.already)
      next
        case False
        with assms n PWait Nil decide_change [of n "dg_nodes d" ve ri "dg_vars d"] show ?thesis
          by (cases "dag_decide ve ri n (dg_vars d)") (auto simp: dag_advance_def)
      qed
    next
      case (Cons x xs)
      show ?thesis
      proof (cases "mget (dg_nodes d) x")
        case None
        with PWait Cons have "node_change (dg_nodes d) n (set_pc (PWait xs) n)" by (intro node_change.dep_passed) auto
        with assms n PWait Cons None show ?thesis by (auto simp: dag_advance_def)
      next
        case (Some dep)
        have "dn_closed dep \<Longrightarrow> \<not> bad_status (dn_status dep) \<Longrightarrow> node_change (dg_nodes d) n (set_pc (PWait xs) n)"
          using PWait Cons Some by (intro node_change.dep_passed) auto
        with assms n PWait Cons Some show ?thesis
          by (auto simp: dag_advance_def split: if_splits intro: node_change.cascade)
      qed
    qed
  next
    case PDone
    with assms n show ?thesis by (simp add: dag_advance_def)
  qed (use assms n run_change [of n "dg_nodes d" ve ri "completed_ids (mput (dg_nodes d) k (n\<lparr>dn_status := ''paused''\<rparr>))" "dg_vars d"]
      in \<open>cases "dag_run_node ve ri (completed_ids (mput (dg_nodes d) k (n\<lparr>dn_status := ''paused''\<rparr>))) n (dg_vars d)";
        auto simp: dag_advance_def\<close>)+
qed

subsection \<open>Termination\<close>

lemma nodes_measure_mput: "distinct (map fst ns) \<Longrightarrow> mget ns k = Some n \<Longrightarrow>
    nodes_measure (mput ns k n') + pc_measure (dn_pc n) = nodes_measure ns + pc_measure (dn_pc n')"
proof (induction ns)
  case (Cons kv ns)
  obtain k1 n1 where kv: "kv = (k1, n1)" by fastforce
  show ?case
  proof (cases "k1 = k")
    case True
    with Cons.prems kv show ?thesis by (simp add: nodes_measure_def)
  next
    case False
    with Cons kv show ?thesis by (auto simp: nodes_measure_def)
  qed
qed simp

lemma dag_advance_measure:
  assumes "dag_advance ve ri k d = Some d'" "distinct (map fst (dg_nodes d))"
  shows "dg_panic d' \<or> nodes_measure (dg_nodes d') < nodes_measure (dg_nodes d)"
  using advance_refines [OF assms(1)]
proof (elim disjE exE conjE)
  fix n n' assume n: "mget (dg_nodes d) k = Some n" "node_change (dg_nodes d) n n'" "dg_nodes d' = mput (dg_nodes d) k n'"
  with nodes_measure_mput [OF assms(2) n(1), of n'] node_change_measure [OF n(2)] show ?thesis by simp
qed simp

lemma dag_advance_keys: "dag_advance ve ri k d = Some d' \<Longrightarrow> map fst (dg_nodes d') = map fst (dg_nodes d)"
proof -
  have "mget ns k = Some n \<Longrightarrow> map fst (mput ns k n') = map fst ns" for ns and n n' :: dag_node
    by (induction ns) auto
  then show "dag_advance ve ri k d = Some d' \<Longrightarrow> ?thesis"
    using advance_refines [of ve ri k d d'] by auto
qed

lemma dag_advance_panic: "dg_panic d \<Longrightarrow> dag_advance ve ri k d = None"
  by (simp add: dag_advance_def)

lemma enabled_panic: "dg_panic d \<Longrightarrow> enabled ve ri d = []"
  by (simp add: enabled_def dag_advance_panic)

lemma enabled_choice: "enabled ve ri d = ks \<Longrightarrow> ks \<noteq> [] \<Longrightarrow> \<exists>d'. dag_advance ve ri (ks ! (m mod length ks)) d = Some d'"
proof -
  assume "enabled ve ri d = ks" "ks \<noteq> []"
  then have "ks ! (m mod length ks) \<in> set (enabled ve ri d)" by simp
  then show ?thesis by (auto simp: enabled_def)
qed

text \<open>With the measure as fuel, the loop ends where no goroutine can go on.\<close>

lemma dag_loop_ends: "distinct (map fst (dg_nodes d)) \<Longrightarrow> nodes_measure (dg_nodes d) \<le> fuel \<Longrightarrow>
    enabled ve ri (dag_loop ve ri sched fuel d) = []"
proof (induction fuel arbitrary: d)
  case 0
  then have z: "nodes_measure (dg_nodes d) = 0" by simp
  have "dag_advance ve ri k d = None" for k
  proof (cases "dag_advance ve ri k d")
    case (Some d')
    with advance_refines [OF Some] show ?thesis
    proof (elim disjE exE conjE)
      fix n n' assume "mget (dg_nodes d) k = Some n" "node_change (dg_nodes d) n n'"
      with nodes_measure_mput [OF 0(1), of k n n'] node_change_measure [of "dg_nodes d" n n'] z show ?thesis by simp
    next
      fix n x dep assume n: "mget (dg_nodes d) k = Some n" "dn_pc n \<noteq> PDone"
      then have "0 < pc_measure (dn_pc n)" by (simp add: pc_measure_def split: dag_pc.splits)
      with n(1) z show ?thesis
        using nodes_measure_mput [OF 0(1) n(1), of "set_pc PDone n"] by simp
    qed
  qed simp
  then show ?case by (simp add: enabled_def)
next
  case (Suc fuel)
  show ?case
  proof (cases "enabled ve ri d")
    case (Cons k ks)
    obtain d' where d': "dag_advance ve ri ((k # ks) ! (sched fuel mod length (k # ks))) d = Some d'"
      using enabled_choice [OF Cons] by blast
    have keys: "distinct (map fst (dg_nodes d'))" using dag_advance_keys [OF d'] Suc.prems(1) by simp
    from dag_advance_measure [OF d' Suc.prems(1)] show ?thesis
    proof
      assume "dg_panic d'"
      then have "dag_loop ve ri sched fuel d' = d'" by (cases fuel) (simp_all add: enabled_panic)
      with Cons d' \<open>dg_panic d'\<close> show ?thesis by (simp add: enabled_panic)
    next
      assume "nodes_measure (dg_nodes d') < nodes_measure (dg_nodes d)"
      with Suc.IH [OF keys] Suc.prems(2) Cons d' show ?thesis by simp
    qed
  qed simp
qed

lemma dag_loop_reach: "(dag_step ve ri)\<^sup>*\<^sup>* d (dag_loop ve ri sched fuel d)"
proof (induction fuel arbitrary: d)
  case (Suc fuel)
  show ?case
  proof (cases "enabled ve ri d")
    case (Cons k ks)
    then show ?thesis
      by (auto split: option.splits intro: converse_rtranclp_into_rtranclp [OF dag_step.advance Suc.IH])
  qed simp
qed simp

subsection \<open>The invariant\<close>

definition dep_ok :: "dag_node gomap \<Rightarrow> string \<Rightarrow> bool" where
  "dep_ok ns x = (case mget ns x of None \<Rightarrow> True | Some dep \<Rightarrow> dn_closed dep \<and> dn_status dep = ''success'')"

text \<open>\<open>C\<close> are the nodes that were complete at the start.\<close>

definition node_inv :: "string set \<Rightarrow> dag_node gomap \<Rightarrow> string \<Rightarrow> dag_node \<Rightarrow> bool" where
  "node_inv C ns k n =
    ((k \<in> C \<longrightarrow> dn_status n = ''success'' \<and> dn_closed n \<and> (waiting (dn_pc n) \<or> dn_pc n = PDone)) \<and>
     (k \<notin> C \<longrightarrow> dn_closed n = (dn_pc n = PDone)) \<and>
     (k \<notin> C \<longrightarrow> waiting (dn_pc n) \<longrightarrow> dn_status n = ''pending'') \<and>
     (k \<notin> C \<longrightarrow> \<not> waiting (dn_pc n) \<longrightarrow> dn_pc n \<noteq> PDone \<longrightarrow> dn_status n = ''running'') \<and>
     (dn_pc n = PDone \<longrightarrow> dn_status n = ''success'' \<or> bad_status (dn_status n)) \<and>
     (\<forall>ds. dn_pc n = PWait ds \<longrightarrow> (\<exists>pre. ps_depends_on (dn_step n) = pre @ ds \<and> (\<forall>x \<in> set pre. dep_ok ns x))) \<and>
     (k \<notin> C \<longrightarrow> \<not> waiting (dn_pc n) \<longrightarrow> dn_status n \<noteq> ''cascaded_pause'' \<longrightarrow> dn_status n \<noteq> ''cascaded_skip'' \<longrightarrow>
       (\<forall>x \<in> set (ps_depends_on (dn_step n)). dep_ok ns x)))"

definition dag_inv :: "string set \<Rightarrow> dag_node gomap \<Rightarrow> bool" where
  "dag_inv C ns = (distinct (map fst ns) \<and> (\<forall>k n. mget ns k = Some n \<longrightarrow> node_inv C ns k n) \<and>
     (\<forall>k \<in> C. \<forall>n. mget ns k = Some n \<longrightarrow> (\<forall>x \<in> set (ps_depends_on (dn_step n)). mget ns x \<noteq> None \<longrightarrow> x \<in> C)))"

lemma dag_inv_node: "dag_inv C ns \<Longrightarrow> mget ns k = Some n \<Longrightarrow> node_inv C ns k n"
  by (simp add: dag_inv_def)

text \<open>A closed node keeps its status, so a dependency that was met stays met.\<close>

lemma dep_ok_stable:
  assumes "dag_inv C ns" "mget ns k = Some n" "node_change ns n n'" "dep_ok ns x"
  shows "dep_ok (mput ns k n') x"
proof (cases "x = k")
  case True
  with assms(2,4) have n: "dn_closed n" "dn_status n = ''success''" by (auto simp: dep_ok_def)
  have "\<not> (\<not> waiting (dn_pc n) \<and> dn_pc n \<noteq> PDone)"
    using dag_inv_node [OF assms(1,2)] n by (auto simp: node_inv_def)
  moreover have "dn_pc n \<noteq> PDone" using node_change_measure [OF assms(3)] by auto
  ultimately have "waiting (dn_pc n)" by blast
  with assms(3) n have "dn_closed n' \<and> dn_status n' = ''success''"
    by (cases rule: node_change.cases) auto
  with True show ?thesis by (simp add: dep_ok_def)
qed (use assms(4) in \<open>simp add: dep_ok_def\<close>)

lemma pending_not: "''pending'' \<noteq> ''success''" "''running'' \<noteq> ''cascaded_pause''" "''running'' \<noteq> ''cascaded_skip''"
  by simp_all

lemma bad_statuses: "bad_status ''failed''" "bad_status ''skipped''" "bad_status ''cascaded_skip''"
    "bad_status ''paused''" "bad_status ''cascaded_pause''" "\<not> bad_status ''success''"
  by (simp_all add: bad_status_def)

lemma not_bad_closed:
  assumes "dag_inv C ns" "mget ns x = Some dep" "dn_closed dep" "\<not> bad_status (dn_status dep)"
  shows "dn_status dep = ''success''"
proof (cases "x \<in> C")
  case False
  with dag_inv_node [OF assms(1,2)] assms(3,4) show ?thesis by (auto simp: node_inv_def)
qed (use dag_inv_node [OF assms(1,2)] in \<open>auto simp: node_inv_def\<close>)

lemma changed_node_inv:
  assumes inv: "dag_inv C ns" and n: "mget ns k = Some n" and ch: "node_change ns n n'"
  shows "node_inv C ns k n'"
proof -
  note ni = dag_inv_node [OF inv n]
  from ch show ?thesis
  proof cases
    case (dep_passed x xs)
    obtain pre where pre: "ps_depends_on (dn_step n) = pre @ x # xs" "\<forall>y \<in> set pre. dep_ok ns y"
      using ni dep_passed(2) by (auto simp: node_inv_def)
    have "dep_ok ns x" using dep_passed(3) not_bad_closed [OF inv] by (auto simp: dep_ok_def split: option.splits)
    with pre have "\<exists>pre. ps_depends_on (dn_step n) = pre @ xs \<and> (\<forall>y \<in> set pre. dep_ok ns y)"
      by (intro exI [of _ "pre @ [x]"]) auto
    with ni dep_passed(1,2) show ?thesis by (auto simp: node_inv_def)
  next
    case (cascade x xs st)
    with ni show ?thesis by (auto simp: node_inv_def bad_statuses)
  next
    case already
    with ni show ?thesis by (auto simp: node_inv_def)
  next
    case start
    with ni show ?thesis by (auto simp: node_inv_def)
  next
    case (not_started st)
    with ni show ?thesis by (auto simp: node_inv_def bad_statuses)
  next
    case (go_on pc)
    have "pc_measure (dn_pc n) \<noteq> 0" using go_on(5) by simp
    then have "dn_pc n \<noteq> PDone" by auto
    with go_on ni show ?thesis by (auto simp: node_inv_def)
  next
    case (finished st)
    then have "bad_status st \<or> st = ''success''" by (auto simp: bad_statuses)
    with finished ni show ?thesis by (auto simp: node_inv_def)
  qed
qed

lemma node_inv_mono: "node_inv C ns k n \<Longrightarrow> (\<And>x. dep_ok ns x \<Longrightarrow> dep_ok ns' x) \<Longrightarrow> node_inv C ns' k n"
  unfolding node_inv_def by (elim conjE, intro conjI) blast+

lemma dag_inv_change:
  assumes inv: "dag_inv C ns" and n: "mget ns k = Some n" and ch: "node_change ns n n'"
  shows "dag_inv C (mput ns k n')"
  unfolding dag_inv_def
proof (intro conjI allI impI ballI)
  show "distinct (map fst (mput ns k n'))" using inv by (simp add: dag_inv_def distinct_update)
  fix j m assume m: "mget (mput ns k n') j = Some m"
  have "node_inv C ns j m"
    using m changed_node_inv [OF assms] dag_inv_node [OF inv] by (auto split: if_splits)
  then show "node_inv C (mput ns k n') j m" by (rule node_inv_mono) (rule dep_ok_stable [OF assms])
next
  fix j m x assume j: "j \<in> C" "mget (mput ns k n') j = Some m" "x \<in> set (ps_depends_on (dn_step m))"
    "mget (mput ns k n') x \<noteq> None"
  have "\<exists>m0. mget ns j = Some m0 \<and> dn_step m0 = dn_step m"
    using j(2) n node_change_same [OF ch] by (auto split: if_splits)
  moreover have "mget ns x \<noteq> None" using j(4) n by (auto split: if_splits)
  ultimately show "x \<in> C" using inv j(1,3) unfolding dag_inv_def by metis
qed

lemma dag_inv_no_panic:
  assumes "dag_inv C (dg_nodes d)" "dag_advance ve ri k d = Some d'"
  shows "dag_inv C (dg_nodes d') \<and> \<not> dg_panic d'"
  using advance_refines [OF assms(2)]
proof (elim disjE exE conjE)
  fix n x dep assume n: "mget (dg_nodes d) k = Some n" "dn_closed n" "dn_pc n \<noteq> PDone"
    "mget (dg_nodes d) x = Some dep" "x \<in> set (case dn_pc n of PWait ds \<Rightarrow> ds | _ \<Rightarrow> [])" "bad_status (dn_status dep)"
  have ni: "node_inv C (dg_nodes d) k n" using dag_inv_node [OF assms(1) n(1)] .
  with n have "k \<in> C" by (auto simp: node_inv_def)
  moreover obtain ds where ds: "dn_pc n = PWait ds" "x \<in> set ds" using n(5) by (cases "dn_pc n") auto
  moreover have "x \<in> set (ps_depends_on (dn_step n))" using ni ds unfolding node_inv_def by (metis in_set_conv_decomp in_set_conv_decomp_first append_assoc set_append UnCI)
  ultimately have "x \<in> C" using assms(1) n(1,4) unfolding dag_inv_def by (metis option.distinct(1))
  then have "dn_status dep = ''success''" using dag_inv_node [OF assms(1) n(4)] by (simp add: node_inv_def)
  with n(6) show ?thesis by (simp add: bad_statuses)
next
  fix n n' assume n: "mget (dg_nodes d) k = Some n" "node_change (dg_nodes d) n n'"
    "dg_nodes d' = mput (dg_nodes d) k n'" "\<not> dg_panic d'"
  then show ?thesis using dag_inv_change [OF assms(1)] by simp
qed

lemma dag_inv_reach: "(dag_step ve ri)\<^sup>*\<^sup>* d d' \<Longrightarrow> dag_inv C (dg_nodes d) \<Longrightarrow> \<not> dg_panic d \<Longrightarrow>
    dag_inv C (dg_nodes d') \<and> \<not> dg_panic d'"
proof (induction rule: rtranclp_induct)
  case (step y z)
  then show ?case by (auto elim!: dag_stepE dest: dag_inv_no_panic)
qed simp

end
