(* ===== verification/Linear_Props.thy ===== *)
theory Linear_Props
  imports Linear_Trace
begin

text \<open>
  The properties of the sequential executor: announced and ordered calls, the pause at a human
  gate, the resume after it, and the bound on the attempts of a tool.
\<close>

subsection \<open>Traces of whole runs\<close>

definition calls :: "effect list \<Rightarrow> nat list" where
  "calls es = map call_index (filter is_call es)"

definition announced :: "env \<Rightarrow> pipeline_step list \<Rightarrow> effect list \<Rightarrow> bool" where
  "announced ve steps es = (\<forall>p < length es. is_call (es ! p) \<longrightarrow> call_index (es ! p) < length steps \<and>
     (\<exists>q < p. \<exists>ev. es ! q = EAudit ev \<and> announced_by ve (steps ! call_index (es ! p)) ev (es ! p)))"

lemma calls_append [simp]: "calls (xs @ ys) = calls xs @ calls ys"
  by (simp add: calls_def)

lemma calls_quiet: "list_all (\<lambda>e. \<not> is_call e) es \<Longrightarrow> calls es = []"
  by (auto simp: calls_def list_all_iff filter_empty_conv)

lemma announced_append:
  assumes "announced ve steps xs" "announced ve steps ys"
  shows "announced ve steps (xs @ ys)"
  unfolding announced_def
proof (intro allI impI)
  fix p assume p: "p < length (xs @ ys)" and c: "is_call ((xs @ ys) ! p)"
  show "call_index ((xs @ ys) ! p) < length steps \<and> (\<exists>q < p. \<exists>ev. (xs @ ys) ! q = EAudit ev \<and>
      announced_by ve (steps ! call_index ((xs @ ys) ! p)) ev ((xs @ ys) ! p))"
  proof (cases "p < length xs")
    case True
    with c assms(1) obtain q ev where "call_index (xs ! p) < length steps" "q < p" "xs ! q = EAudit ev"
      "announced_by ve (steps ! call_index (xs ! p)) ev (xs ! p)" by (auto simp: announced_def nth_append)
    with True show ?thesis by (auto simp: nth_append intro!: exI [of _ q])
  next
    case False
    with p c have "p - length xs < length ys" "is_call (ys ! (p - length xs))" by (auto simp: nth_append)
    with assms(2) obtain q ev where q: "call_index (ys ! (p - length xs)) < length steps"
      "q < p - length xs" "ys ! q = EAudit ev"
      "announced_by ve (steps ! call_index (ys ! (p - length xs))) ev (ys ! (p - length xs))"
      unfolding announced_def by blast
    with False show ?thesis by (auto simp: nth_append intro!: exI [of _ "q + length xs"])
  qed
qed

lemma step_trace_announced:
  assumes "step_trace ve i s es" "i < length steps" "steps ! i = s"
  shows "announced ve steps es \<and> set (calls es) \<subseteq> {i}"
proof -
  consider "list_all (\<lambda>e. \<not> is_call e) es"
    | ev es' where "es = EAudit ev # es'" "list_all (call_ok ve i s ev) es'"
    using assms(1) by (auto simp: step_trace_def)
  then show ?thesis
  proof cases
    case 1
    then show ?thesis by (auto simp: announced_def calls_quiet list_all_length)
  next
    case 2
    have "announced ve steps es"
      unfolding announced_def
    proof (intro allI impI)
      fix p assume p: "p < length es" "is_call (es ! p)"
      with 2(1) obtain p' where "p = Suc p'" by (cases p) (auto simp: is_call_def)
      with p 2 have "call_ok ve i s ev (es ! p)" by (auto simp: list_all_length)
      with p assms(2,3) have "call_index (es ! p) < length steps"
        "announced_by ve (steps ! call_index (es ! p)) ev (es ! p)" by (auto simp: call_ok_def)
      with 2(1) \<open>p = Suc p'\<close> show "call_index (es ! p) < length steps \<and> (\<exists>q < p. \<exists>ev. es ! q = EAudit ev \<and>
          announced_by ve (steps ! call_index (es ! p)) ev (es ! p))" by force
    qed
    moreover have "set (calls es) \<subseteq> {i}"
      using 2 by (auto simp: calls_def call_ok_def list_all_iff is_call_def)
    ultimately show ?thesis by blast
  qed
qed

lemma sorted_const: "set xs \<subseteq> {i} \<Longrightarrow> sorted (xs :: nat list)"
  by (induction xs) auto

text \<open>The effects of the loop from index \<open>k\<close> on.\<close>

lemma drop_enumerate: "k < length xs \<Longrightarrow> drop k (List.enumerate 0 xs) = (k, xs ! k) # drop (Suc k) (List.enumerate 0 xs)"
  by (metis Cons_nth_drop_Suc add_0 length_enumerate nth_enumerate_eq)

definition good_from :: "env \<Rightarrow> pipeline_step list \<Rightarrow> nat \<Rightarrow> effect list \<Rightarrow> bool" where
  "good_from ve steps k es = (announced ve steps es \<and> sorted (calls es) \<and> set (calls es) \<subseteq> {k..<length steps})"

lemma good_quiet: "list_all (\<lambda>e. \<not> is_call e) es \<Longrightarrow> good_from ve steps k es"
  by (auto simp: good_from_def calls_quiet announced_def list_all_length)

lemma good_step:
  assumes "step_trace ve k (steps ! k) es" "k < length steps" "good_from ve steps (Suc k) fs"
  shows "good_from ve steps k (es @ fs)"
proof -
  have "announced ve steps es" "set (calls es) \<subseteq> {k}" using step_trace_announced [OF assms(1,2) refl] by auto
  with assms(3) show ?thesis
    using assms(2) by (fastforce simp: good_from_def sorted_append sorted_const intro: announced_append)
qed

lemma lin_loop_trace:
  assumes "ln_exec lv \<noteq> None"
  shows "appends (good_from ve steps k) lv (lin_loop ve ri (drop k (List.enumerate 0 steps)) lv)"
  using assms
proof (induction "length steps - k" arbitrary: k lv)
  case 0
  then have "drop k (List.enumerate 0 steps) = []" by simp
  then show ?case by (simp add: appends_def good_quiet)
next
  case (Suc n)
  then have k: "k < length steps" by simp
  obtain es where es: "sy_trace (ln_sys (flow_lin (lin_step ve ri k (steps ! k) lv))) = sy_trace (ln_sys lv) @ es"
    "step_trace ve k (steps ! k) es"
    using lin_step_trace [OF Suc.prems] by (force simp: appends_def)
  show ?case
  proof (cases "lin_step ve ri k (steps ! k) lv")
    case (Stop lv')
    with es good_step [OF es(2) k, of "[]"] show ?thesis
      by (simp add: drop_enumerate [OF k] appends_def good_quiet)
  next
    case (Next lv')
    with lin_step_exec [OF Suc.prems, of ve ri k "steps ! k"] have "ln_exec lv' \<noteq> None" by simp
    from Suc.hyps(1) [OF _ this, of "Suc k"] Suc.hyps(2)
    have "appends (good_from ve steps (Suc k)) lv' (lin_loop ve ri (drop (Suc k) (List.enumerate 0 steps)) lv')" by simp
    with Next es good_step [OF es(2) k] show ?thesis
      by (auto simp: drop_enumerate [OF k] appends_def)
  qed
qed

lemma lin_finish_quiet: "ext (\<lambda>e. \<not> is_call e) (ln_sys lv) (ln_sys (lin_finish ve ri lv))"
  by (auto simp: lin_finish_def send_summarize_def Let_def ext_def is_call_def with_sys_def put_result_def)

lemma lin_run_trace:
  assumes "ln_exec lv \<noteq> None" "pl_steps (ri_pipe ri) = steps"
  shows "\<exists>es. sy_trace (ln_sys (lin_run ve ri k lv)) = sy_trace (ln_sys lv) @ es \<and> good_from ve steps k es"
proof -
  obtain es where es: "sy_trace (ln_sys (flow_lin (lin_loop ve ri (drop k (List.enumerate 0 steps)) lv))) =
      sy_trace (ln_sys lv) @ es" "good_from ve steps k es"
    using lin_loop_trace [OF assms(1)] by (force simp: appends_def)
  show ?thesis
  proof (cases "lin_loop ve ri (drop k (List.enumerate 0 steps)) lv")
    case (Next lv')
    obtain fs where "sy_trace (ln_sys (lin_finish ve ri lv')) = sy_trace (ln_sys lv') @ fs" "list_all (\<lambda>e. \<not> is_call e) fs"
      using lin_finish_quiet [of lv' ve ri] by (auto simp: ext_def)
    with Next es assms(2) show ?thesis
      by (auto simp: lin_run_def good_from_def calls_quiet intro!: announced_append)
        (auto simp: announced_def list_all_length)
  next
    case (Stop lv')
    with es assms(2) show ?thesis by (auto simp: lin_run_def)
  qed
qed

text \<open>The state in which the loop starts.\<close>

lemma alloc_callback_sys: "sy_trace (ca_sys (alloc_callback ve ic ca)) = sy_trace (ca_sys ca) \<and>
    sy_tasks (ca_sys (alloc_callback ve ic ca)) = sy_tasks (ca_sys ca) \<and> sy_bus (ca_sys (alloc_callback ve ic ca)) = sy_bus (ca_sys ca)"
  by (auto simp: alloc_callback_def Let_def next_tick_def split: prod.splits)

lemma alloc_callbacks_sys: "sy_trace (ca_sys (alloc_callbacks ve steps vars sy)) = sy_trace sy \<and>
    sy_tasks (ca_sys (alloc_callbacks ve steps vars sy)) = sy_tasks sy \<and> sy_bus (ca_sys (alloc_callbacks ve steps vars sy)) = sy_bus sy"
proof -
  have "sy_trace (ca_sys (fold (alloc_callback ve) xs ca)) = sy_trace (ca_sys ca) \<and>
    sy_tasks (ca_sys (fold (alloc_callback ve) xs ca)) = sy_tasks (ca_sys ca) \<and>
    sy_bus (ca_sys (fold (alloc_callback ve) xs ca)) = sy_bus (ca_sys ca)" for xs ca
    by (induction xs arbitrary: ca) (simp_all add: alloc_callback_sys)
  then show ?thesis by (simp add: alloc_callbacks_def)
qed

lemma lin_setup_loaded:
  assumes "lin_setup ve pipe i session intent language ctx results base sy = (ri, lv)"
    and "\<And>n. we_load ve n = None"
  shows "ln_exec lv = mget (sy_tasks sy) i" "sy_trace (ln_sys lv) = sy_trace sy" "ri_pipe ri = pipe" "ri_id ri = i"
    "ln_shared lv = False"
  using assms alloc_callbacks_sys [of ve "pl_steps pipe" "mput (mputs [] base) ''trace_id'' (GStr i)" sy]
  by (auto simp: lin_setup_def Let_def load_state_def split: prod.splits)

lemma execute_linear_announced:
  assumes "mget (sy_tasks sy) i = Some st" "\<And>n. we_load ve n = None"
  shows "\<exists>es. sy_trace (execute_linear ve pipe i session intent language ctx results base sy) = sy_trace sy @ es \<and>
    announced ve (pl_steps pipe) es \<and> sorted (calls es) \<and>
    set (calls es) \<subseteq> {length (es_completed st)..<length (pl_steps pipe)}"
proof -
  obtain ri lv where s: "lin_setup ve pipe i session intent language ctx results base sy = (ri, lv)" by fastforce
  note l = lin_setup_loaded [OF s assms(2)]
  from l(1) assms(1) have "ln_exec lv \<noteq> None" by simp
  from lin_run_trace [OF this, of ri "pl_steps pipe" ve "start_index (ln_exec lv)"] l assms(1) show ?thesis
    by (auto simp: execute_linear_def s good_from_def start_index_def)
qed

text \<open>
  C5: no tool and no agent of a linear run goes unrecorded, provided that the run has a stored record
  and the store can be read (without it a run goes on unrecorded, as the last section shows). Then every
  attempt to call a tool or an agent comes after a tool.started event that the journal accepted in this run, for the step, tool and inputs of that call; the calls are in the order of
  the steps, and none belongs to a step before the first one that was not completed yet.
\<close>

theorem linear_calls_announced:
  assumes "mget (sy_tasks sy) i = Some st" "\<And>n. we_load ve n = None"
  shows "\<exists>es. sy_trace (execute_linear ve pipe i session intent language ctx results base sy) = sy_trace sy @ es \<and>
    announced ve (pl_steps pipe) es \<and> sorted (calls es) \<and>
    set (calls es) \<subseteq> {length (es_completed st)..<length (pl_steps pipe)}"
  by (rule execute_linear_announced [OF assms])

subsection \<open>The pause at a human gate\<close>

text \<open>The gate of the record only changes to the one of a prepared callback while the loop goes on.\<close>

definition gate_in :: "string set \<Rightarrow> lin \<Rightarrow> bool" where
  "gate_in G lv = (\<forall>s. ln_exec lv = Some s \<longrightarrow> es_gate s \<in> G)"

definition keeps_gates :: "string set \<Rightarrow> lin \<Rightarrow> flow \<Rightarrow> bool" where
  "keeps_gates G lv fl = (gate_in G lv \<longrightarrow> (case fl of Next lv' \<Rightarrow> gate_in G lv' | Stop _ \<Rightarrow> True))"

lemma kg_bind: "keeps_gates G lv m \<Longrightarrow> (\<And>lv'. m = Next lv' \<Longrightarrow> keeps_gates G lv' (f lv')) \<Longrightarrow>
    keeps_gates G lv (flow_bind m f)"
  by (cases m) (auto simp: keeps_gates_def)

lemma kg_Stop [simp]: "keeps_gates G lv (Stop lv')" "keeps_gates G lv (stop_result ri r lv')"
    "keeps_gates G lv (flow_bind m (\<lambda>x. Stop (f x)))" "keeps_gates G lv (flow_bind m (\<lambda>x. stop_result ri r (f x)))"
  by (cases m; simp add: keeps_gates_def stop_result_def)+

lemma kg_Next: "ln_exec lv' = ln_exec lv \<Longrightarrow> keeps_gates G lv (Next lv')"
  by (simp add: keeps_gates_def gate_in_def)

lemma kg_audit: "ln_exec lv' = ln_exec lv \<Longrightarrow> keeps_gates G lv (audit_or_fail ve ri ph oc d lv')"
  by (auto simp: keeps_gates_def gate_in_def audit_or_fail_def split: prod.splits option.splits)

lemma save_gate: "save_state ve st sy = (sy', st', r) \<Longrightarrow> es_gate st' = es_gate st"
  by (auto simp: save_state_def stamp_created_def Let_def split: if_splits option.splits)

lemma kg_prepare: "''await_callback'' \<in> G \<Longrightarrow> keeps_gates G lv (lin_prepare ve ri i s lv)"
  by (auto simp: lin_prepare_def Let_def keeps_gates_def gate_in_def waiting_state_def copy_manifest_def stop_result_def
      split: prod.splits option.splits dest!: save_gate)

lemmas kg_now = kg_bind kg_Next kg_audit

lemma kg_gate: "keeps_gates G lv (lin_gate ve ri i s lv)"
  unfolding lin_gate_def Let_def by (auto split: prod.splits option.splits intro!: kg_Next)

lemma kg_await: "keeps_gates G lv (lin_await ve ri i s lv)"
  unfolding lin_await_def Let_def by (auto split: prod.splits option.splits)

lemma kg_skip: "keeps_gates G lv (lin_skip ve ri s lv)"
  unfolding lin_skip_def by (auto intro!: kg_now)

lemma kg_agent: "keeps_gates G lv (lin_agent ve ri i s lv)"
  unfolding lin_agent_def Let_def by (auto split: prod.splits option.splits intro!: kg_now)

lemma kg_builtin: "keeps_gates G lv (lin_preference ve ri s lv)" "keeps_gates G lv (lin_recall ve ri s lv)"
    "keeps_gates G lv (lin_memory ve ri s lv)"
  unfolding lin_preference_def lin_recall_def lin_memory_def Let_def
  by (auto split: prod.splits sum.splits intro!: kg_now)

lemma kg_generate: "keeps_gates G lv (lin_generate ve ri s params lv)"
  unfolding lin_generate_def Let_def by (auto split: prod.splits option.splits sum.splits intro!: kg_now)

lemma kg_tool: "keeps_gates G lv (lin_tool ve ri i s t params lv)"
  unfolding lin_tool_def Let_def by (auto split: prod.splits sum.splits intro!: kg_now)

lemma kg_invoke: "''await_callback'' \<in> G \<Longrightarrow> keeps_gates G lv (lin_invoke ve ri i s lv)"
  unfolding lin_invoke_def Let_def
  by (auto split: option.splits intro!: kg_bind kg_prepare kg_builtin kg_generate kg_tool)

lemma kg_step: "''await_callback'' \<in> G \<Longrightarrow> keeps_gates G lv (lin_step ve ri i s lv)"
proof -
  assume "''await_callback'' \<in> G"
  then have "keeps_gates G (refresh_vars ve ri lv) (lin_step ve ri i s lv)"
    unfolding lin_step_def Let_def
    by (auto intro!: kg_skip kg_gate kg_agent kg_await kg_bind kg_audit kg_invoke)
  then show ?thesis by (simp add: keeps_gates_def gate_in_def)
qed

lemma lin_gate_stops:
  assumes "gate_in G lv" "ps_human_gate s \<notin> G" "ps_human_gate s \<noteq> ''''" "ps_when s = ''''"
  shows "\<exists>lv'. lin_step ve ri i s lv = Stop lv' \<and> ext (\<lambda>e. \<not> is_call e) (ln_sys lv) (ln_sys lv')"
proof -
  let ?lv = "refresh_vars ve ri lv"
  have start: "ext (\<lambda>e. \<not> is_call e) (ln_sys lv) (ln_sys ?lv)" by (simp add: ext_def)
  show ?thesis
  proof (cases "ps_analyst s")
    case True
    then have "lin_step ve ri i s lv = Stop (send_summarize ri ?lv)"
      using assms by (simp add: lin_step_def step_should_run_def Let_def)
    with fext_start [OF start silent.fext_summarize] show ?thesis by (simp add: fext_def)
  next
    case False
    then have "lin_step ve ri i s lv = lin_gate ve ri i s ?lv"
      using assms by (simp add: lin_step_def step_should_run_def Let_def)
    moreover have "(case ln_exec ?lv of None \<Rightarrow> False | Some st \<Rightarrow> es_gate st = ps_human_gate s) = False"
      using assms(1,2) by (auto simp: gate_in_def split: option.splits)
    then have "\<exists>lv'. lin_gate ve ri i s ?lv = Stop lv'"
      unfolding lin_gate_def Let_def
      by (simp add: audit_or_fail_def split: prod.splits option.splits)
    moreover have "fext (\<lambda>e. \<not> is_call e) lv (lin_gate ve ri i s ?lv)"
      by (rule fext_start [OF start silent.fext_gate])
    ultimately show ?thesis by (auto simp: fext_def)
  qed
qed

lemma lin_loop_gate:
  assumes "gate_in G lv" "''await_callback'' \<in> G" "k \<le> g" "g < length steps"
    and "ps_human_gate (steps ! g) \<notin> G" "ps_human_gate (steps ! g) \<noteq> ''''" "ps_when (steps ! g) = ''''"
  shows "\<exists>lv'. lin_loop ve ri (drop k (List.enumerate 0 steps)) lv = Stop lv' \<and>
    ext (\<lambda>e. is_call e \<longrightarrow> call_index e \<in> {k..<g}) (ln_sys lv) (ln_sys lv')"
  using assms(1,3)
proof (induction "g - k" arbitrary: k lv)
  case 0
  then have "k = g" by simp
  with lin_gate_stops [OF 0(2) assms(5-7), of ve ri g] assms(4) show ?case
    by (auto simp: drop_enumerate intro: ext_mono)
next
  case (Suc n)
  then have k: "k < length steps" "k < g" using assms(4) by auto
  let ?P = "\<lambda>e. is_call e \<longrightarrow> call_index e \<in> {k..<g}"
  have e: "ext ?P (ln_sys lv) (ln_sys (flow_lin (lin_step ve ri k (steps ! k) lv)))"
    using effect_pred.fext_step [of ?P k lv ve ri "steps ! k"] k(2)
    by (simp add: effect_pred_def noncall_def fext_def call_index_def)
  show ?case
  proof (cases "lin_step ve ri k (steps ! k) lv")
    case (Stop lv')
    with e k show ?thesis by (auto simp: drop_enumerate)
  next
    case (Next lv')
    have "gate_in G lv'"
      using kg_step [OF assms(2), of lv ve ri k "steps ! k"] Suc.prems(1) Next by (simp add: keeps_gates_def)
    moreover have "n = g - Suc k" "Suc k \<le> g" using Suc.hyps(2) k by auto
    ultimately obtain lv2 where l: "lin_loop ve ri (drop (Suc k) (List.enumerate 0 steps)) lv' = Stop lv2"
      "ext (\<lambda>e. is_call e \<longrightarrow> call_index e \<in> {Suc k..<g}) (ln_sys lv') (ln_sys lv2)"
      using Suc.hyps(1) by blast
    have "ext ?P (ln_sys lv) (ln_sys lv2)"
      by (rule ext_trans [OF _ ext_mono [OF l(2)]]) (use e Next in auto)
    with Next l(1) k show ?thesis by (simp add: drop_enumerate)
  qed
qed

lemma calls_within: "ext (\<lambda>e. is_call e \<longrightarrow> call_index e \<in> A) sy sy' \<Longrightarrow>
    \<exists>es. sy_trace sy' = sy_trace sy @ es \<and> set (calls es) \<subseteq> A"
  by (force simp: ext_def calls_def list_all_iff)

text \<open>A run that starts without the approval of its next gate calls nothing from the gate on.\<close>

lemma execute_linear_gate:
  assumes "lin_setup ve pipe i session intent language ctx results base sy = (ri, lv)"
    and "gate_in G lv" "''await_callback'' \<in> G" "start_index (ln_exec lv) \<le> g" "g < length (pl_steps pipe)"
    and "ps_human_gate (pl_steps pipe ! g) \<notin> G" "ps_human_gate (pl_steps pipe ! g) \<noteq> ''''" "ps_when (pl_steps pipe ! g) = ''''"
  shows "ext (\<lambda>e. is_call e \<longrightarrow> call_index e \<in> {start_index (ln_exec lv)..<g}) sy
    (execute_linear ve pipe i session intent language ctx results base sy)"
proof -
  have l: "sy_trace (ln_sys lv) = sy_trace sy" "sy_bus (ln_sys lv) = sy_bus sy" "ri_pipe ri = pipe"
    using assms(1) alloc_callbacks_sys [of ve "pl_steps pipe" "mput (mputs [] base) ''trace_id'' (GStr i)" sy]
    by (auto simp: lin_setup_def Let_def load_state_def split: prod.splits)
  from lin_loop_gate [OF assms(2-8)] obtain lv' where
    "lin_loop ve ri (drop (start_index (ln_exec lv)) (List.enumerate 0 (pl_steps pipe))) lv = Stop lv'"
    "ext (\<lambda>e. is_call e \<longrightarrow> call_index e \<in> {start_index (ln_exec lv)..<g}) (ln_sys lv) (ln_sys lv')" by blast
  with l show ?thesis by (simp add: execute_linear_def assms(1) lin_run_def ext_def)
qed

text \<open>
  C15: a linear run stops at a plain human gate: one whose step has no condition (a gate with a false
  condition is passed over) and that is not the wait for a callback. When the run has a stored record
  that can be read, and the gate it was last approved at is not this one, then whatever the tools
  answer and whatever else fails, the run makes no call of the gate's step or of a later one: it ends
  before or at the gate.
\<close>

theorem linear_pauses_at_gate:
  assumes "mget (sy_tasks sy) i = Some st" "\<And>n. we_load ve n = None"
    and "g < length (pl_steps pipe)" "length (es_completed st) \<le> g"
    and "ps_human_gate (pl_steps pipe ! g) \<notin> {'''', es_gate st, ''await_callback''}"
    and "ps_when (pl_steps pipe ! g) = ''''"
  shows "\<exists>es. sy_trace (execute_linear ve pipe i session intent language ctx results base sy) = sy_trace sy @ es \<and>
    set (calls es) \<subseteq> {length (es_completed st)..<g}"
proof -
  obtain ri lv where s: "lin_setup ve pipe i session intent language ctx results base sy = (ri, lv)" by fastforce
  note l = lin_setup_loaded [OF s assms(2)]
  let ?G = "{es_gate st, ''await_callback''}"
  have "gate_in ?G lv" "start_index (ln_exec lv) = length (es_completed st)"
    using l(1) assms(1) by (auto simp: gate_in_def start_index_def)
  with execute_linear_gate [OF s, of ?G g] assms(3-6) show ?thesis by (intro calls_within) auto
qed

subsection \<open>Attempts of a tool\<close>

definition attempts :: "effect list \<Rightarrow> nat" where
  "attempts es = length (filter is_call es)"

definition waits :: "effect list \<Rightarrow> int list" where
  "waits es = List.map_filter (\<lambda>e. case e of EWait n \<Rightarrow> Some n | _ \<Rightarrow> None) es"

lemma attempts_simps [simp]: "attempts (xs @ ys) = attempts xs + attempts ys" "attempts [] = 0"
    "attempts [ECall a b c d] = 1" "attempts [EWait n] = 0"
  by (simp_all add: attempts_def is_call_def)

lemma waits_simps [simp]: "waits (xs @ ys) = waits xs @ waits ys" "waits [] = []"
    "waits [ECall a b c d] = []" "waits [EWait n] = [n]"
  by (simp_all add: waits_def List.map_filter_def)

lemma tool_attempts_bound:
  assumes "tool_attempts ve ctx idx t params n b sy = (sy', r)" "tl_name t \<noteq> ''system.rag_query''"
  shows "\<exists>es. sy_trace sy' = sy_trace sy @ es \<and> 1 \<le> attempts es \<and> attempts es \<le> Suc n \<and>
    length (waits es) \<le> n \<and> length (waits es) = attempts es - 1 \<and>
    (\<forall>j < length (waits es). 0 < b \<and> b * 2 ^ n < 2 ^ 63 \<longrightarrow> waits es ! j = b * 2 ^ j) \<and>
    (attempts es \<le> n \<longrightarrow> (case r of Inl (ToolFailed e) \<Rightarrow> \<exists>m. we_ctx_err ve m ctx = Some e | _ \<Rightarrow> True))"
  using assms(1)
proof (induction n arbitrary: b sy)
  case 0
  then show ?case using assms(2)
    by (subst (asm) tool_attempts.simps)
      (auto simp: tool_attempt_def Let_def split: prod.splits sum.splits tool_error.splits)
next
  case (Suc n)
  show ?case
  proof (cases "we_tool ve (sy_tick sy) ctx t params")
    case (Inl err)
    show ?thesis
    proof (cases err)
      case (ToolRejected e reason)
      with Inl Suc.prems assms(2) show ?thesis
        by (subst (asm) tool_attempts.simps) (auto simp: tool_attempt_def Let_def split: sum.splits tool_error.splits)
    next
      case (ToolFailed e)
      let ?sy1 = "emit (ECall idx (tl_name t) params (tc_task ctx)) (next_tick sy)"
      show ?thesis
      proof (cases "we_ctx_err ve (sy_tick ?sy1) ctx")
        case (Some ce)
        with Inl ToolFailed Suc.prems assms(2) show ?thesis
          by (subst (asm) tool_attempts.simps) (auto simp: tool_attempt_def Let_def)
      next
        case None
        with Inl ToolFailed Suc.prems assms(2)
        have "tool_attempts ve ctx idx t params n (wrap64 (2 * b)) (emit (EWait b) (next_tick ?sy1)) = (sy', r)"
          by (subst (asm) tool_attempts.simps) (simp add: tool_attempt_def Let_def)
        from Suc.IH [OF this] obtain es where es: "sy_trace sy' = sy_trace sy @ [ECall idx (tl_name t) params (tc_task ctx), EWait b] @ es"
          "1 \<le> attempts es" "attempts es \<le> Suc n" "length (waits es) \<le> n" "length (waits es) = attempts es - 1"
          "\<forall>j < length (waits es). 0 < wrap64 (2 * b) \<and> wrap64 (2 * b) * 2 ^ n < 2 ^ 63 \<longrightarrow> waits es ! j = wrap64 (2 * b) * 2 ^ j"
          "attempts es \<le> n \<longrightarrow> (case r of Inl (ToolFailed e) \<Rightarrow> \<exists>m. we_ctx_err ve m ctx = Some e | _ \<Rightarrow> True)" by auto
        have w: "wrap64 (2 * b) = 2 * b" if "0 < b" "b * 2 ^ Suc n < 2 ^ 63"
        proof -
          have "b * 1 \<le> b * 2 ^ n" using that(1) by (intro mult_left_mono) auto
          moreover have "2 * (b * 2 ^ n) < 2 ^ 63" using that(2) by (simp add: mult.left_commute)
          ultimately have "2 * b < 2 ^ 63" by linarith
          with that(1) show ?thesis by (simp add: wrap64_def)
        qed
        have "attempts ([ECall idx (tl_name t) params (tc_task ctx), EWait b] @ es) = Suc (attempts es)"
          "waits ([ECall idx (tl_name t) params (tc_task ctx), EWait b] @ es) = b # waits es"
          using attempts_simps waits_simps by (auto simp: attempts_def waits_def is_call_def List.map_filter_simps)
        moreover have "(b # waits es) ! j = b * 2 ^ j" if "j < Suc (length (waits es))" "0 < b \<and> b * 2 ^ Suc n < 2 ^ 63" for j
          using that es(6) w by (cases j) (auto simp: mult.commute mult.left_commute)
        ultimately show ?thesis using es by (intro exI [of _ "[ECall idx (tl_name t) params (tc_task ctx), EWait b] @ es"]) auto
      qed
    qed
  next
    case (Inr out)
    with Suc.prems assms(2) show ?thesis
      by (subst (asm) tool_attempts.simps) (auto simp: tool_attempt_def Let_def split: sum.splits)
  qed
qed

text \<open>The calls at times \<open>ts\<close>, of at most \<open>Suc n\<close>, and what comes of them: only a plain failure is followed by
  another call, and it is the result only when no attempt is left.\<close>

definition answered :: "env \<Rightarrow> task_ctx \<Rightarrow> tool_def \<Rightarrow> string gomap \<Rightarrow> nat \<Rightarrow> nat list \<Rightarrow> tool_error + gval gomap \<Rightarrow> bool" where
  "answered ve ctx t params n ts r = (ts \<noteq> [] \<and> sorted_wrt (<) ts \<and> length ts \<le> Suc n \<and>
     (\<forall>x \<in> set (butlast ts). \<exists>e. we_tool ve x ctx t params = Inl (ToolFailed e)) \<and>
     (case we_tool ve (last ts) ctx t params of
        Inl (ToolFailed e) \<Rightarrow> length ts = Suc n \<and> r = Inl (ToolFailed e) \<or>
          length ts \<le> n \<and> (\<exists>m ce. we_ctx_err ve m ctx = Some ce \<and> r = Inl (ToolFailed ce))
      | a \<Rightarrow> r = a))"

lemma answered_once:
  "(case we_tool ve x ctx t params of Inl (ToolFailed e) \<Rightarrow> n = 0 \<and> r = Inl (ToolFailed e) \<or>
      0 < n \<and> (\<exists>m ce. we_ctx_err ve m ctx = Some ce \<and> r = Inl (ToolFailed ce)) | a \<Rightarrow> r = a) \<Longrightarrow>
    answered ve ctx t params n [x] r"
  by (auto simp: answered_def split: sum.splits tool_error.splits)

lemma answered_again:
  assumes "answered ve ctx t params n ts r" "we_tool ve x ctx t params = Inl (ToolFailed e)" "x < hd ts"
  shows "answered ve ctx t params (Suc n) (x # ts) r"
proof -
  have "sorted_wrt (<) (x # ts)" using assms(1,3) by (cases ts) (auto simp: answered_def)
  with assms(1,2) show ?thesis by (auto simp: answered_def split: sum.splits tool_error.splits)
qed

lemma tool_attempts_answers:
  assumes "tool_attempts ve ctx idx t params n b sy = (sy', r)" "tl_name t \<noteq> ''system.rag_query''"
  shows "\<exists>es ts. sy_trace sy' = sy_trace sy @ es \<and> attempts es = length ts \<and> hd ts = sy_tick sy \<and> answered ve ctx t params n ts r"
  using assms(1)
proof (induction n arbitrary: b sy)
  case 0
  let ?e = "ECall idx (tl_name t) params (tc_task ctx)"
  have r: "sy_trace sy' = sy_trace sy @ [?e]" "r = we_tool ve (sy_tick sy) ctx t params"
    using 0 assms(2) by (auto simp: tool_attempts.simps tool_attempt_def Let_def split: sum.splits tool_error.splits)
  then have "answered ve ctx t params 0 [sy_tick sy] r"
    by (intro answered_once) (simp split: sum.splits tool_error.splits)
  with r(1) show ?case by (intro exI [of _ "[?e]"] exI [of _ "[sy_tick sy]"]) simp
next
  case (Suc n)
  let ?e = "ECall idx (tl_name t) params (tc_task ctx)" and ?a = "we_tool ve (sy_tick sy) ctx t params"
  let ?sy1 = "emit ?e (next_tick sy)"
  have att: "tool_attempt ve ctx idx t params sy = (?sy1, ?a)" using assms(2) by (simp add: tool_attempt_def Let_def)
  have one: ?case if "sy_trace sy' = sy_trace sy @ [?e]" "answered ve ctx t params (Suc n) [sy_tick sy] r"
    using that by (intro exI [of _ "[?e]"] exI [of _ "[sy_tick sy]"]) simp
  show ?case
  proof (cases "\<exists>e. ?a = Inl (ToolFailed e)")
    case False
    then have "sy' = ?sy1" "r = ?a"
      using Suc.prems att by (auto simp: tool_attempts.simps [of ve ctx idx t params "Suc n"] split: sum.splits tool_error.splits)
    then show ?thesis using False by (intro one answered_once) (auto split: sum.splits tool_error.splits)
  next
    case True
    then obtain e where e: "?a = Inl (ToolFailed e)" by blast
    show ?thesis
    proof (cases "we_ctx_err ve (sy_tick ?sy1) ctx")
      case (Some ce)
      then have "sy' = next_tick ?sy1" "r = Inl (ToolFailed ce)"
        using Suc.prems att e by (simp_all add: tool_attempts.simps [of ve ctx idx t params "Suc n"])
      then show ?thesis using e Some by (intro one answered_once) auto
    next
      case None
      let ?sy2 = "emit (EWait b) (next_tick ?sy1)"
      have "tool_attempts ve ctx idx t params n (wrap64 (2 * b)) ?sy2 = (sy', r)"
        using Suc.prems att e None by (simp add: tool_attempts.simps [of ve ctx idx t params "Suc n"])
      from Suc.IH [OF this] obtain es ts where es: "sy_trace sy' = sy_trace ?sy2 @ es" "attempts es = length ts"
        "hd ts = sy_tick ?sy2" "answered ve ctx t params n ts r" by blast
      have "answered ve ctx t params (Suc n) (sy_tick sy # ts) r"
        by (rule answered_again [OF es(4) e]) (simp add: es(3) emit_def next_tick_def)
      moreover have "attempts ([?e, EWait b] @ es) = length (sy_tick sy # ts)"
        using es(2) by (simp add: attempts_def is_call_def)
      ultimately show ?thesis
        using es(1) by (intro exI [of _ "[?e, EWait b] @ es"] exI [of _ "sy_tick sy # ts"]) simp
    qed
  qed
qed

text \<open>
  C34: the attempts of a tool, other than the built-in rag query, which is not called. It is called at least
  once and at most one time more than its step allows retries, with a wait before each further attempt; the
  waits start at the step's backoff, or at one second, and double, as long as they stay within 64 bits. Only
  a plain failure is followed by another attempt: a rejection or a success ends them and is the result. A
  plain failure is the result when no attempt is left, and otherwise only because the task was cancelled.
\<close>

theorem execute_tool_attempts:
  assumes "execute_tool ve ctx idx t params step sy = (sy', r)" "tl_name t \<noteq> ''system.rag_query''"
  shows "\<exists>es ts. sy_trace sy' = sy_trace sy @ es \<and> attempts es = length ts \<and> hd ts = sy_tick sy \<and>
    length (waits es) = length ts - 1 \<and>
    (\<forall>j < length (waits es). step_backoff step * 2 ^ nat (ps_retries step) < 2 ^ 63 \<longrightarrow> waits es ! j = step_backoff step * 2 ^ j) \<and>
    ts \<noteq> [] \<and> sorted_wrt (<) ts \<and> length ts \<le> 1 + nat (ps_retries step) \<and>
    (\<forall>n \<in> set (butlast ts). \<exists>e. we_tool ve n ctx t params = Inl (ToolFailed e)) \<and>
    (case we_tool ve (last ts) ctx t params of
       Inl (ToolFailed e) \<Rightarrow> length ts = Suc (nat (ps_retries step)) \<and> r = Inl (ToolFailed e) \<or>
         length ts \<le> nat (ps_retries step) \<and> (\<exists>m ce. we_ctx_err ve m ctx = Some ce \<and> r = Inl (ToolFailed ce))
     | a \<Rightarrow> r = a)"
proof -
  have b: "0 < step_backoff step" by (simp add: step_backoff_def default_backoff_ms_def)
  from assms(1) have run: "tool_attempts ve ctx idx t params (nat (ps_retries step)) (step_backoff step) sy = (sy', r)"
    by (simp add: execute_tool_def step_retries_def)
  from tool_attempts_answers [OF run assms(2)] obtain es ts where a: "sy_trace sy' = sy_trace sy @ es" "attempts es = length ts"
    "hd ts = sy_tick sy" "answered ve ctx t params (nat (ps_retries step)) ts r" by blast
  from tool_attempts_bound [OF run assms(2)] a(1) b have "length (waits es) = attempts es - 1"
    "\<forall>j < length (waits es). step_backoff step * 2 ^ nat (ps_retries step) < 2 ^ 63 \<longrightarrow> waits es ! j = step_backoff step * 2 ^ j" by auto
  with a show ?thesis by (intro exI [of _ es] exI [of _ ts]) (simp add: answered_def)
qed

subsection \<open>The properties on a concrete run\<close>

definition demo_tool :: "nat \<Rightarrow> task_ctx \<Rightarrow> tool_def \<Rightarrow> string gomap \<Rightarrow> tool_error + gval gomap" where
  "demo_tool n ctx t params = Inr [(''ok'', GBool True)]"

definition demo_run :: "exec_state \<Rightarrow> sys" where
  "demo_run st = execute_linear (demo_env (demo_cfg [''crm'', ''pay''] [demo_pipe]) demo_tool) demo_pipe ''t1'' ''s''
     ''refund'' ''en'' background [] [] (demo_sys [(''t1'', st)])"

definition demo_record :: exec_state where
  "demo_record = zero_exec\<lparr>es_id := ''t1'', es_version := ''v1'', es_created := 1\<rparr>"

definition demo_approved :: exec_state where
  "demo_approved = demo_record\<lparr>es_completed := [''crm''], es_gate := ''review''\<rparr>"

lemma demo_run_calls: "calls (sy_trace (demo_run demo_record)) = [0]" "calls (sy_trace (demo_run demo_approved)) = [2]"
  by code_simp+

lemma linear_calls_announced_witness:
  "announced (demo_env (demo_cfg [''crm'', ''pay''] [demo_pipe]) demo_tool) (pl_steps demo_pipe)
     (sy_trace (demo_run demo_approved)) \<and> calls (sy_trace (demo_run demo_approved)) = [2]"
  using linear_calls_announced [of "demo_sys [(''t1'', demo_approved)]" "''t1''" demo_approved
      "demo_env (demo_cfg [''crm'', ''pay''] [demo_pipe]) demo_tool" demo_pipe "''s''" "''refund''" "''en''" background "[]" "[]"]
    demo_run_calls(2)
  by (auto simp: demo_run_def demo_sys_def demo_env_def)

lemma linear_pauses_at_gate_witness: "set (calls (sy_trace (demo_run demo_record))) \<subseteq> {0..<1}"
  using linear_pauses_at_gate [of "demo_sys [(''t1'', demo_record)]" "''t1''" demo_record
      "demo_env (demo_cfg [''crm'', ''pay''] [demo_pipe]) demo_tool" 1 demo_pipe "''s''" "''refund''" "''en''" background "[]" "[]"]
  by (auto simp: demo_run_def demo_sys_def demo_env_def demo_pipe_def demo_record_def zero_exec_def zero_pipeline_def
      gate_step_def zero_step_def)

text \<open>A tool that fails once and then rejects, called by a step with two retries.\<close>

definition failing_tool :: "nat \<Rightarrow> task_ctx \<Rightarrow> tool_def \<Rightarrow> string gomap \<Rightarrow> tool_error + gval gomap" where
  "failing_tool n ctx t params = Inl (if n = 0 then ToolFailed ''503'' else ToolRejected ''403'' ''no'')"

lemma execute_tool_attempts_witness:
  "\<exists>es. sy_trace (fst (execute_tool (demo_env (demo_cfg [] []) failing_tool) background 4
       (zero_tool\<lparr>tl_name := ''pay''\<rparr>) [] (zero_step\<lparr>ps_retries := 2, ps_backoff_ms := 5\<rparr>) (demo_sys []))) = es \<and>
     attempts es = 2 \<and> length (waits es) = 1"
proof -
  let ?ve = "demo_env (demo_cfg [] []) failing_tool" and ?t = "zero_tool\<lparr>tl_name := ''pay''\<rparr>"
  obtain sy' r where x: "execute_tool ?ve background 4 ?t [] (zero_step\<lparr>ps_retries := 2, ps_backoff_ms := 5\<rparr>) (demo_sys []) = (sy', r)"
    by fastforce
  have t: "tl_name ?t \<noteq> ''system.rag_query''" by simp
  have we: "we_tool ?ve n c u p = failing_tool n c u p" "we_ctx_err ?ve n c = None" for n c u p by (simp_all add: demo_env_def)
  from execute_tool_attempts [OF x t] obtain es ts where r: "sy_trace sy' = sy_trace (demo_sys []) @ es" "attempts es = length ts"
    "hd ts = sy_tick (demo_sys [])" "length (waits es) = length ts - 1" "ts \<noteq> []" "sorted_wrt (<) ts"
    "\<forall>n \<in> set (butlast ts). \<exists>e. we_tool ?ve n background ?t [] = Inl (ToolFailed e)"
    "case we_tool ?ve (last ts) background ?t [] of
       Inl (ToolFailed e) \<Rightarrow> length ts = Suc (nat (ps_retries (zero_step\<lparr>ps_retries := 2, ps_backoff_ms := 5\<rparr>))) \<and> r = Inl (ToolFailed e) \<or>
         length ts \<le> nat (ps_retries (zero_step\<lparr>ps_retries := 2, ps_backoff_ms := 5\<rparr>)) \<and>
           (\<exists>m ce. we_ctx_err ?ve m background = Some ce \<and> r = Inl (ToolFailed ce))
     | a \<Rightarrow> r = a" by blast
  have "length ts = 2"
  proof (cases ts)
    case (Cons n0 us)
    then have "n0 = 0" using r(3) by (simp add: demo_sys_def)
    show ?thesis
    proof (cases us)
      case Nil
      with Cons \<open>n0 = 0\<close> r(8) show ?thesis by (simp add: we failing_tool_def)
    next
      case (Cons n1 vs)
      with \<open>ts = n0 # us\<close> r(6,7) \<open>n0 = 0\<close> show ?thesis by (cases vs) (auto simp: we failing_tool_def)
    qed
  qed (use r(5) in simp)
  with r(1,2,4) x show ?thesis by (simp add: demo_sys_def)
qed

subsection \<open>A store that cannot be read\<close>

interpretation anyeff: effect_pred "\<lambda>_. True"
  by unfold_locales (simp add: noncall_def)

lemma lin_loop_any: "fext (\<lambda>_. True) lv (lin_loop ve ri ss lv)"
proof (induction ve ri ss lv rule: lin_loop.induct)
  case (2 ve ri i s ss lv)
  then show ?case by (auto intro!: fext_bind anyeff.fext_step)
qed (simp add: fext_def)

definition plain_tool_step :: "config \<Rightarrow> pipeline_step \<Rightarrow> tool_def \<Rightarrow> bool" where
  "plain_tool_step cfg s t = (mget (cf_tools cfg) (ps_tool s) = Some t \<and> tl_name t \<noteq> ''system.rag_query'' \<and>
     ps_when s = '''' \<and> \<not> ps_analyst s \<and> ps_human_gate s = '''' \<and> ps_agent s = '''' \<and> ps_type s \<noteq> ''await_callback'' \<and>
     \<not> has_prefix (ps_tool s) ''system.'' \<and> ps_tool s \<noteq> ''workspace.generate_code'' \<and>
     \<not> step_uses_callback_credentials s)"

lemma tool_attempts_first: "tool_attempts ve ctx idx t params n b sy = (sy', r) \<Longrightarrow> tl_name t \<noteq> ''system.rag_query'' \<Longrightarrow>
    \<exists>fs. sy_trace sy' = sy_trace sy @ ECall idx (tl_name t) params (tc_task ctx) # fs"
proof (induction n arbitrary: b sy)
  case (Suc n)
  then show ?case
    using anyeff.ext_tool_attempts [of ve ctx idx t params n]
    by (subst (asm) (2) tool_attempts.simps)
      (fastforce simp: tool_attempt_def Let_def ext_def split: prod.splits sum.splits tool_error.splits option.splits)
qed (auto simp: tool_attempts.simps tool_attempt_def Let_def split: prod.splits sum.splits tool_error.splits)

lemma execute_tool_first: "execute_tool ve ctx idx t params s sy = (sy', r) \<Longrightarrow> tl_name t \<noteq> ''system.rag_query'' \<Longrightarrow>
    \<exists>fs. sy_trace sy' = sy_trace sy @ ECall idx (tl_name t) params (tc_task ctx) # fs"
  unfolding execute_tool_def by (rule tool_attempts_first)

lemma lin_tool_any:
  assumes "execute_tool ve (ri_ctx ri) i t (convert_vars (we_ff ve) params) s (ln_sys lv) = (sy, r)"
  shows "ext (\<lambda>_. True) sy (ln_sys (flow_lin (lin_tool ve ri i s t params lv)))"
proof (cases r)
  case (Inl err)
  then show ?thesis
    by (auto simp: lin_tool_def assms Let_def split: prod.splits
        intro: ext_trans [OF anyeff.ext_log_fst ext_trans [OF anyeff.ext_clear_prepared anyeff.ext_fail_tool]])
next
  case (Inr out)
  have "fext (\<lambda>_. True) (lv\<lparr>ln_sys := sy\<rparr>) (lin_tool ve ri i s t params lv)"
    by (auto simp: lin_tool_def assms Inr Let_def intro!: fext_bind fext_Next fext_start [OF _ anyeff.fext_audit]
        intro: anyeff.ext_event)
  then show ?thesis by (simp add: fext_def)
qed

lemma lin_run_any: "pl_steps (ri_pipe ri) = s # ss \<Longrightarrow>
    ext (\<lambda>_. True) (ln_sys (flow_lin (lin_step ve ri 0 s lv))) (ln_sys (lin_run ve ri 0 lv))"
proof (cases "lin_step ve ri 0 s lv")
  case (Next lv1)
  assume p: "pl_steps (ri_pipe ri) = s # ss"
  have "ext (\<lambda>_. True) (ln_sys lv1) (ln_sys (flow_lin (lin_loop ve ri (List.enumerate 1 ss) lv1)))"
    using lin_loop_any by (simp add: fext_def)
  moreover have "ext (\<lambda>_. True) (ln_sys lv2) (ln_sys (lin_finish ve ri lv2))" for lv2
    using lin_finish_quiet by (rule ext_mono) simp
  ultimately show ?thesis
    using Next p by (cases "lin_loop ve ri (List.enumerate 1 ss) lv1") (auto simp: lin_run_def intro: ext_trans)
qed (simp add: lin_run_def)

text \<open>
  a defect. \<open>executeLinear\<close> drops the error of loading the execution: when the store cannot be
  read, the run starts again at the first step, whatever was completed, and calls its tool without
  any audit event before it, although the journal works.
\<close>

theorem linear_load_failure_restarts:
  assumes "\<And>n. we_load ve n = Some err" "pl_steps pipe = s # ss" "plain_tool_step (we_cfg ve) s t"
  shows "\<exists>params fs. sy_trace (execute_linear ve pipe i session intent language ctx results base sy) =
    sy_trace sy @ ECall 0 (tl_name t) params (tc_task ctx) # fs"
proof -
  obtain ri lv where s: "lin_setup ve pipe i session intent language ctx results base sy = (ri, lv)" by fastforce
  then have l: "ln_exec lv = None" "sy_trace (ln_sys lv) = sy_trace sy" "ri_pipe ri = pipe" "ri_ctx ri = ctx"
    using alloc_callbacks_sys [of ve "pl_steps pipe" "mput (mputs [] base) ''trace_id'' (GStr i)" sy] assms(1)
    by (auto simp: lin_setup_def Let_def load_state_def split: prod.splits)
  let ?lv = "refresh_vars ve ri lv" and ?p = "convert_vars (we_ff ve) (call_params ve (refresh_vars ve ri lv) s)"
  obtain sy1 r where x: "execute_tool ve ctx 0 t ?p s (ln_sys ?lv) = (sy1, r)" by fastforce
  then obtain fs where fs: "sy_trace sy1 = sy_trace sy @ ECall 0 (tl_name t) ?p (tc_task ctx) # fs"
    using execute_tool_first [OF x] assms(3) l(2) by (auto simp: plain_tool_step_def)
  have "\<not> has_prefix (ps_tool s) ''system.memory.''" "ps_tool s \<noteq> ''system.save_preference''" "ps_tool s \<noteq> ''system.recall''"
    using assms(3) by (auto simp: plain_tool_step_def has_prefix_iff)
  then have step: "lin_step ve ri 0 s lv = lin_tool ve ri 0 s t (call_params ve ?lv s) ?lv"
    using assms(3) l(1)
    by (simp add: lin_step_def plain_tool_step_def step_should_run_def audit_or_fail_def log_lifecycle_def Let_def
        lin_invoke_def lin_prepare_def)
  have "ext (\<lambda>_. True) sy1 (ln_sys (lin_run ve ri 0 lv))"
  proof (rule ext_trans)
    show "ext (\<lambda>_. True) sy1 (ln_sys (flow_lin (lin_step ve ri 0 s lv)))"
      using lin_tool_any [of ve ri 0 t "call_params ve ?lv s" s ?lv sy1 r] x l(4) step by simp
    show "ext (\<lambda>_. True) (ln_sys (flow_lin (lin_step ve ri 0 s lv))) (ln_sys (lin_run ve ri 0 lv))"
      using lin_run_any l(3) assms(2) by simp
  qed
  then show ?thesis
    using fs by (auto simp: execute_linear_def s start_index_def l(1) ext_def)
qed

definition unreadable_env :: env where
  "unreadable_env = (demo_env (demo_cfg [''crm'', ''pay''] [demo_pipe]) demo_tool)\<lparr>we_load := (\<lambda>_. Some ''db down'')\<rparr>"

lemma linear_load_failure_restarts_witness:
  "\<exists>params fs. sy_trace (execute_linear unreadable_env demo_pipe ''t1'' ''s'' ''refund'' ''en'' background [] []
     (demo_sys [(''t1'', demo_approved)])) = ECall 0 ''crm'' params None # fs"
  using linear_load_failure_restarts [of unreadable_env "''db down''" demo_pipe "tool_step ''crm''"
      "[gate_step ''review'', tool_step ''pay'']" "zero_tool\<lparr>tl_name := ''crm''\<rparr>" "''t1''" "''s''" "''refund''" "''en''" background
      "[]" "[]" "demo_sys [(''t1'', demo_approved)]"]
  by (simp add: unreadable_env_def demo_env_def demo_pipe_def demo_cfg_def plain_tool_step_def tool_step_def zero_step_def
      zero_tool_def has_prefix_def step_uses_callback_credentials_def demo_sys_def background_def zero_pipeline_def)

end
