(* ===== verification/Dag_Props.thy ===== *)
theory Dag_Props
  imports Dag_Protocol Config_Load Linear_Props
begin

text \<open>
  The properties of the parallel executor, for every schedule: it ends, an acyclic pipeline runs to
  the end, nothing is called before its dependencies succeeded, and a dangerous tool of a loaded
  configuration is not called before a person approved.
\<close>

subsection \<open>The nodes of a pipeline\<close>

lemma dag_nodes_gen:
  "\<forall>k n. mget ns k = Some n \<longrightarrow> Q k n \<Longrightarrow>
    (\<And>j s. j < length ss \<Longrightarrow> s = ss ! j \<Longrightarrow> Q (dag_step_id s) (new_node (i + j) s)) \<Longrightarrow>
    mget (fold (\<lambda>(i, s) ns. mput ns (dag_step_id s) (new_node i s)) (List.enumerate i ss) ns) k = Some n \<Longrightarrow> Q k n"
proof (induction ss arbitrary: i ns)
  case (Cons s ss)
  have "Q (dag_step_id s) (new_node i s)" using Cons.prems(2) [of 0] by simp
  with Cons.prems(1) have m: "\<forall>k n. mget (mput ns (dag_step_id s) (new_node i s)) k = Some n \<longrightarrow> Q k n" by simp
  show ?case
    by (rule Cons.IH [OF m]) (use Cons.prems(2) [of "Suc _"] Cons.prems(3) in auto)
qed simp

text \<open>A node is a step of the pipeline under its id, and has not started.\<close>

definition fresh_node :: "pipeline_step list \<Rightarrow> string \<Rightarrow> dag_node \<Rightarrow> bool" where
  "fresh_node steps k n = (\<exists>i < length steps. k = dag_step_id (steps ! i) \<and> n = new_node i (steps ! i))"

lemma dag_nodes_fresh: "mget (dag_nodes steps) k = Some n \<Longrightarrow> fresh_node steps k n"
  unfolding dag_nodes_def
  by (rule dag_nodes_gen [where ns = "[]" and i = 0]) (auto simp: fresh_node_def)

lemma dag_nodes_distinct: "distinct (map fst (dag_nodes steps))"
proof -
  have "distinct (map fst ns) \<Longrightarrow>
    distinct (map fst (fold (\<lambda>(i, s) ns. mput ns (dag_step_id s) (new_node i s)) xs ns))" for xs :: "(nat \<times> pipeline_step) list" and ns
    by (induction xs arbitrary: ns) (auto simp: distinct_update)
  then show ?thesis by (simp add: dag_nodes_def)
qed

text \<open>When every step has an id, the static check and the executor see the same graph.\<close>

lemma dag_nodes_by_label_gen:
  "\<forall>s \<in> set ss. ps_id s \<noteq> '''' \<Longrightarrow> \<forall>k. map_option dn_step (mget ns k) = mget m k \<Longrightarrow>
    map_option dn_step (mget (fold (\<lambda>(i, s) ns. mput ns (dag_step_id s) (new_node i s)) (List.enumerate i ss) ns) k) =
    mget (label_steps i ss m) k"
proof (induction ss arbitrary: i ns m)
  case (Cons s ss)
  have "\<forall>k. map_option dn_step (mget (mput ns (dag_step_id s) (new_node i s)) k) = mget (mput m (step_label s i) s) k"
    using Cons.prems by (auto simp: dag_step_id_def step_label_def new_node_def)
  with Cons show ?case by simp
qed simp

lemma dag_nodes_by_label:
  "\<forall>s \<in> set (pl_steps p). ps_id s \<noteq> '''' \<Longrightarrow> map_option dn_step (mget (dag_nodes (pl_steps p)) k) = mget (by_label p) k"
  unfolding dag_nodes_def by_label_def by (rule dag_nodes_by_label_gen) simp_all

lemma mget_mark_completed: "mget (mark_completed C ns) k = map_option (\<lambda>n. if k \<in> set C
    then n\<lparr>dn_status := ''success'', dn_closed := True\<rparr> else n) (mget ns k)"
  by (simp add: mark_completed_def mget_map_val)

lemma keys_mark_completed [simp]: "map fst (mark_completed C ns) = map fst ns"
  by (auto simp: mark_completed_def)

text \<open>The steps that are complete at the start, with all that they depend on.\<close>

definition dag_completed :: "exec_state option \<Rightarrow> string list" where
  "dag_completed st = (case st of None \<Rightarrow> [] | Some s \<Rightarrow> es_completed s)"

definition deps_closed :: "string list \<Rightarrow> dag_node gomap \<Rightarrow> bool" where
  "deps_closed C ns = (\<forall>k \<in> set C. \<forall>n. mget ns k = Some n \<longrightarrow>
     (\<forall>x \<in> set (ps_depends_on (dn_step n)). mget ns x \<noteq> None \<longrightarrow> x \<in> set C))"

lemma mark_completed_inv:
  assumes "deps_closed C (dag_nodes steps)"
  shows "dag_inv (set C) (mark_completed C (dag_nodes steps))"
  unfolding dag_inv_def
proof (intro conjI allI impI ballI)
  show "distinct (map fst (mark_completed C (dag_nodes steps)))" by (simp add: dag_nodes_distinct)
  fix k n assume "mget (mark_completed C (dag_nodes steps)) k = Some n"
  then obtain n0 where "mget (dag_nodes steps) k = Some n0"
    "n = (if k \<in> set C then n0\<lparr>dn_status := ''success'', dn_closed := True\<rparr> else n0)"
    by (auto simp: mget_mark_completed)
  moreover from this(1) have "dn_pc n0 = PWait (ps_depends_on (dn_step n0))" "dn_status n0 = ''pending''" "\<not> dn_closed n0"
    by (auto dest!: dag_nodes_fresh simp: fresh_node_def new_node_def)
  ultimately show "node_inv (set C) (mark_completed C (dag_nodes steps)) k n" by (simp add: node_inv_def)
next
  fix k n x assume "k \<in> set C" "mget (mark_completed C (dag_nodes steps)) k = Some n"
    "x \<in> set (ps_depends_on (dn_step n))" "mget (mark_completed C (dag_nodes steps)) x \<noteq> None"
  with assms show "x \<in> set C" by (auto simp: mget_mark_completed deps_closed_def)
qed

subsection \<open>Every schedule ends\<close>

definition run_measure :: "dag \<Rightarrow> nat" where
  "run_measure d = nodes_measure (dg_nodes d) + (if dg_panic d then 0 else 1)"

lemma dag_step_measure:
  assumes "dag_step ve ri d d'" "distinct (map fst (dg_nodes d))"
  shows "run_measure d' < run_measure d \<and> distinct (map fst (dg_nodes d'))"
proof -
  obtain k where k: "dag_advance ve ri k d = Some d'" using assms(1) by (elim dag_stepE)
  then have p: "\<not> dg_panic d" by (auto simp: dag_advance_panic)
  from advance_refines [OF k] have "run_measure d' < run_measure d"
  proof (elim disjE exE conjE)
    fix n n' assume n: "mget (dg_nodes d) k = Some n" "node_change (dg_nodes d) n n'" "dg_nodes d' = mput (dg_nodes d) k n'"
    with nodes_measure_mput [OF assms(2) n(1), of n'] node_change_measure [OF n(2)] p show ?thesis by (simp add: run_measure_def)
  qed (use p in \<open>simp add: run_measure_def\<close>)
  with dag_advance_keys [OF k] assms(2) show ?thesis by simp
qed

lemma dag_steps_measure:
  "(dag_step ve ri ^^ m) d d' \<Longrightarrow> distinct (map fst (dg_nodes d)) \<Longrightarrow> m + run_measure d' \<le> run_measure d \<and> distinct (map fst (dg_nodes d'))"
proof (induction m arbitrary: d')
  case (Suc m)
  then obtain d1 where "(dag_step ve ri ^^ m) d d1" "dag_step ve ri d1 d'" by auto
  with Suc dag_step_measure [of ve ri d1 d'] show ?case by fastforce
qed simp

lemma nodes_measure_new: "nodes_measure (mput ns k (new_node i s)) \<le> nodes_measure ns + 6 + length (ps_depends_on s)"
  by (induction ns) (auto simp: nodes_measure_def new_node_def)

lemma nodes_measure_dag:
  "nodes_measure (fold (\<lambda>(i, s) ns. mput ns (dag_step_id s) (new_node i s)) (List.enumerate i ss) ns) \<le>
    nodes_measure ns + sum_list (map (\<lambda>s. 6 + length (ps_depends_on s)) ss)"
proof (induction ss arbitrary: i ns)
  case (Cons s ss)
  show ?case
    using Cons.IH [of "Suc i" "mput ns (dag_step_id s) (new_node i s)"] nodes_measure_new [where ns = ns and k = "dag_step_id s" and i = i and s = s]
    by simp
qed simp

lemma nodes_measure_mark [simp]: "nodes_measure (mark_completed C ns) = nodes_measure ns"
  by (auto simp: nodes_measure_def mark_completed_def intro!: arg_cong [where f = sum_list])

lemma dag_setup_simps:
  assumes "dag_setup ve pipe i session intent language ctx results base sy = (ri, d0)"
  shows "ri_pipe ri = pipe"
    "dg_nodes d0 = mark_completed (dag_completed (dv_exec (dg_vars d0))) (dag_nodes (pl_steps pipe))"
    "dg_panic d0 = closed_twice (dag_completed (dv_exec (dg_vars d0))) (dag_nodes (pl_steps pipe))"
  using assms by (auto simp: dag_setup_def Let_def dag_completed_def split: prod.splits)

text \<open>
  the goroutines of a run take finitely many steps, whatever the schedule, the tools and the
  pipeline: at most six for a step of the pipeline, one for each of its dependencies, and one more.
\<close>

theorem dag_runs_finite:
  assumes "dag_setup ve pipe i session intent language ctx results base sy = (ri, d0)"
    and "(dag_step ve ri ^^ m) d0 d"
  shows "m \<le> 1 + sum_list (map (\<lambda>s. 6 + length (ps_depends_on s)) (pl_steps pipe))"
proof -
  note s = dag_setup_simps [OF assms(1)]
  have "m \<le> run_measure d0" using dag_steps_measure [OF assms(2)] s(2) dag_nodes_distinct by simp
  also have "\<dots> \<le> 1 + nodes_measure (dag_nodes (pl_steps pipe))" by (simp add: run_measure_def s(2))
  also have "\<dots> \<le> 1 + sum_list (map (\<lambda>s. 6 + length (ps_depends_on s)) (pl_steps pipe))"
    using nodes_measure_dag [of 0 "pl_steps pipe" "[]"] by (simp add: dag_nodes_def nodes_measure_def)
  finally show ?thesis .
qed

subsection \<open>An acyclic pipeline runs to the end\<close>

lemma dag_reach_static: "(dag_step ve ri)\<^sup>*\<^sup>* d d' \<Longrightarrow> mget (dg_nodes d') k = Some n' \<Longrightarrow>
    \<exists>n. mget (dg_nodes d) k = Some n \<and> dn_step n = dn_step n' \<and> dn_index n = dn_index n'"
proof (induction arbitrary: n' rule: rtranclp_induct)
  case (step d1 d2)
  from step.hyps(2) obtain j where "dag_advance ve ri j d1 = Some d2" by (elim dag_stepE)
  then have "\<exists>n. mget (dg_nodes d1) k = Some n \<and> dn_step n = dn_step n' \<and> dn_index n = dn_index n'"
    using step.prems by (auto dest!: advance_refines node_change_same split: if_splits)
  with step.IH show ?case by metis
qed simp

lemma dag_reach_known: "(dag_step ve ri)\<^sup>*\<^sup>* d d' \<Longrightarrow> mget (dg_nodes d') k = None \<longleftrightarrow> mget (dg_nodes d) k = None"
proof (induction rule: rtranclp_induct)
  case (step d1 d2)
  from step.hyps(2) obtain j where "dag_advance ve ri j d1 = Some d2" by (elim dag_stepE)
  with step.IH show ?case by (auto dest!: advance_refines split: if_splits)
qed simp

lemma dag_setup_inv:
  assumes "dag_setup ve pipe i session intent language ctx results base sy = (ri, d0)"
    and "deps_closed (dag_completed (dv_exec (dg_vars d0))) (dag_nodes (pl_steps pipe))"
  shows "dag_inv (set (dag_completed (dv_exec (dg_vars d0)))) (dg_nodes d0)"
  using mark_completed_inv [OF assms(2)] dag_setup_simps(2) [OF assms(1)] by simp

text \<open>What a blocked goroutine waits for.\<close>

lemma blocked_waits:
  assumes "dag_advance ve ri k d = None" "\<not> dg_panic d" "mget (dg_nodes d) k = Some n" "dn_pc n \<noteq> PDone"
  shows "\<exists>x xs dep. dn_pc n = PWait (x # xs) \<and> mget (dg_nodes d) x = Some dep \<and> \<not> dn_closed dep"
proof (cases "dn_pc n")
  case (PWait ds)
  with assms show ?thesis
    by (cases ds) (auto simp: dag_advance_def split: option.splits if_splits prod.splits)
qed (use assms in \<open>auto simp: dag_advance_def split: prod.splits\<close>)

definition ranked :: "(string \<Rightarrow> nat) \<Rightarrow> dag_node gomap \<Rightarrow> bool" where
  "ranked rank ns = (\<forall>k n. mget ns k = Some n \<longrightarrow>
     (\<forall>x \<in> set (ps_depends_on (dn_step n)). mget ns x \<noteq> None \<longrightarrow> rank x < rank k))"

lemma ranked_stuck_done:
  assumes inv: "dag_inv C (dg_nodes d)" and panic: "\<not> dg_panic d" and rk: "ranked rank (dg_nodes d)"
    and stuck: "\<And>k. dag_advance ve ri k d = None"
  shows "mget (dg_nodes d) k = Some n \<Longrightarrow> dn_pc n = PDone"
proof (induction "rank k" arbitrary: k n rule: less_induct)
  case less
  show ?case
  proof (rule ccontr)
    assume "dn_pc n \<noteq> PDone"
    from blocked_waits [OF stuck panic less.prems this] obtain x xs dep where
      x: "dn_pc n = PWait (x # xs)" "mget (dg_nodes d) x = Some dep" "\<not> dn_closed dep" by blast
    have "x \<in> set (ps_depends_on (dn_step n))"
      using dag_inv_node [OF inv less.prems] x(1) by (auto simp: node_inv_def)
    then have "rank x < rank k" using rk less.prems x(2) by (auto simp: ranked_def)
    then have "dn_pc dep = PDone" using less.hyps x(2) by blast
    with dag_inv_node [OF inv x(2)] x(3) show False by (auto simp: node_inv_def)
  qed
qed

lemma enabled_none: "enabled ve ri d = [] \<Longrightarrow> dag_advance ve ri k d = None"
proof -
  assume e: "enabled ve ri d = []"
  show ?thesis
  proof (cases "mget (dg_nodes d) k")
    case None
    then show ?thesis by (simp add: dag_advance_def)
  next
    case (Some n)
    then have "(k, n) \<in> set (dg_nodes d)" by (rule map_of_SomeD)
    then have k: "k \<in> set (map fst (dg_nodes d))" by force
    have "k \<notin> set (enabled ve ri d)" by (simp only: e list.set) simp
    with k show ?thesis by (simp add: enabled_def)
  qed
qed

text \<open>
  C7: a run never hangs on an acyclic pipeline. If the dependencies that name a step lead down some
  rank, and the steps recorded as complete are listed once and with all they depend on, then
  \<open>executeDAG\<close> returns, for every schedule and whatever tools, agents and the journal answer; with no
  such record the second condition is void.
\<close>

theorem dag_acyclic_returns:
  assumes "dag_setup ve pipe i session intent language ctx results base sy = (ri, d0)"
    and "ranked rank (dag_nodes (pl_steps pipe))"
    and "distinct (dag_completed (dv_exec (dg_vars d0)))"
    and "deps_closed (dag_completed (dv_exec (dg_vars d0))) (dag_nodes (pl_steps pipe))"
  shows "snd (execute_dag ve sched pipe i session intent language ctx results base sy)"
proof -
  let ?C = "dag_completed (dv_exec (dg_vars d0))"
  note s = dag_setup_simps [OF assms(1)]
  define d where "d = dag_loop ve ri sched (nodes_measure (dg_nodes d0)) d0"
  have p0: "\<not> dg_panic d0" using s(3) assms(3) by (simp add: closed_twice_def)
  have reach: "(dag_step ve ri)\<^sup>*\<^sup>* d0 d" unfolding d_def by (rule dag_loop_reach)
  have inv: "dag_inv (set ?C) (dg_nodes d)" "\<not> dg_panic d"
    using dag_inv_reach [OF reach dag_setup_inv [OF assms(1,4)] p0] by auto
  have "enabled ve ri d = []" unfolding d_def by (rule dag_loop_ends) (simp_all add: s(2) dag_nodes_distinct)
  then have stuck: "dag_advance ve ri k d = None" for k by (rule enabled_none)
  have "ranked rank (dg_nodes d)"
    unfolding ranked_def
  proof (intro allI impI ballI)
    fix k n x assume k: "mget (dg_nodes d) k = Some n" "x \<in> set (ps_depends_on (dn_step n))" "mget (dg_nodes d) x \<noteq> None"
    obtain n0 where "mget (dg_nodes d0) k = Some n0" "dn_step n0 = dn_step n" using dag_reach_static [OF reach k(1)] by blast
    then obtain n1 where "mget (dag_nodes (pl_steps pipe)) k = Some n1" "dn_step n1 = dn_step n"
      by (auto simp: s(2) mget_mark_completed split: if_splits)
    moreover have "mget (dag_nodes (pl_steps pipe)) x \<noteq> None"
      using k(3) dag_reach_known [OF reach, of x] by (auto simp: s(2) mget_mark_completed)
    ultimately show "rank x < rank k" using assms(2) k(2) by (auto simp: ranked_def)
  qed
  from ranked_stuck_done [OF inv this stuck] inv(1) have "all_done d"
    by (auto simp: all_done_def list_all_iff dag_inv_def)
  with inv(2) show ?thesis by (simp add: execute_dag_def assms(1) d_def [symmetric])
qed

subsection \<open>Calls and their dependencies\<close>

text \<open>Only a goroutine at its call calls, and it calls its own step.\<close>

lemma dv_sys_simps [simp]:
  "dv_sys (dv_with f v) = f (dv_sys v)" "dv_sys (dv_record sid out v) = dv_sys v" "dv_sys (dv_put k out v) = dv_sys v"
  "dv_sys (dv_publish k out v) = dv_sys v"
  by (simp_all add: dv_with_def dv_record_def dv_put_def dv_publish_def split: prod.splits)

context effect_pred
begin

lemma ext_fail_audit': "fail_audit ve st i err sy = (sy', r) \<Longrightarrow> ext P sy sy'"
  using ext_fail_audit [of sy ve st i err] by simp

lemma ext_dag_audit: "dag_audit ve i ph oc d v = (v', ok) \<Longrightarrow> ext P (dv_sys v) (dv_sys v')"
  by (auto simp: dag_audit_def split: prod.splits option.splits intro: ext_log ext_trans [OF ext_log ext_fail_audit'])

lemma ext_fail_tool_exec: "fail_tool_exec ve st i s t err sy = (sy', r) \<Longrightarrow> ext P sy sy'"
  using ext_fail_tool [of sy ve st i s t err] by (simp add: fail_tool_def)

lemma ext_dag_gate: "dag_gate ve ri c n v = (v', n') \<Longrightarrow> ext P (dv_sys v) (dv_sys v')"
  unfolding dag_gate_def Let_def
  by (auto split: prod.splits option.splits if_splits intro: ext_trans [OF ext_save' ext_store_error]
      ext_trans [OF ext_save' ext_trans [OF ext_log ext_fail_audit]]
      ext_trans [OF ext_save' ext_trans [OF ext_log ext_trans [OF ext_event ext_send]]])

lemma ext_dag_body: "dag_body ve ri c n v = (v', n') \<Longrightarrow> ext P (dv_sys v) (dv_sys v')"
  unfolding dag_body_def Let_def
  by (auto simp: dag_preference_def Let_def split: option.splits if_splits intro: ext_dag_gate ext_store_result' ext_send ext_store_error
      ext_trans [OF ext_preference ext_event])

lemma ext_dag_decide: "dag_decide ve ri n v = (v', n') \<Longrightarrow> ext P (dv_sys v) (dv_sys v')"
  unfolding dag_decide_def Let_def
  by (auto split: prod.splits if_splits dest!: ext_dag_audit)

lemma ext_next_tick: "ext P sy (next_tick sy)"
  by (rule ext_trace) simp_all

lemma ext_dag_agent_done: "dag_agent_done ve ri out err n v = (v', n') \<Longrightarrow> ext P (dv_sys v) (dv_sys v')"
  unfolding dag_agent_done_def Let_def publish_agent_failure_def
  by (auto split: prod.splits option.splits bool.splits dest!: ext_dag_audit
      intro: ext_trans [OF _ ext_trans [OF ext_event ext_store_result']])

lemma ext_dag_tool_done: "dag_tool_done ve ri r n v = (v', n') \<Longrightarrow> ext P (dv_sys v) (dv_sys v')"
  unfolding dag_tool_done_def Let_def
  by (auto split: prod.splits sum.splits bool.splits dest!: ext_dag_audit ext_fail_tool_exec
      intro: ext_trans ext_trans [OF ext_next_tick] ext_trans [OF ext_next_tick ext_trans [OF _ ext_event]])

lemma ext_dag_run:
  assumes "dag_run_node ve ri c n v = (v', n')"
    and "\<And>e. is_call e \<Longrightarrow> calling (dn_pc n) \<Longrightarrow> call_index e = dn_index n \<Longrightarrow> P e"
  shows "ext P (dv_sys v) (dv_sys v')"
proof (cases "dn_pc n")
  case (PAgentCall a params)
  have "P (EAgent (dn_index n) x y z)" for x y z using assms(2) PAgentCall by (simp add: is_call_def calling_def call_index_def)
  with assms(1) PAgentCall show ?thesis
    by (auto simp: dag_run_node_def Let_def split: prod.splits dest!: ext_agent_run)
next
  case (PToolCall t params)
  have "P (ECall (dn_index n) x y z)" for x y z using assms(2) PToolCall by (simp add: is_call_def calling_def call_index_def)
  with assms(1) PToolCall show ?thesis
    by (auto simp: dag_run_node_def Let_def execute_tool_def split: prod.splits dest!: ext_tool_attempts)
qed (use assms(1) in \<open>auto simp: dag_run_node_def Let_def split: prod.splits
      dest: ext_dag_body ext_dag_audit ext_dag_agent_done ext_dag_tool_done\<close>)

lemma ext_dag_advance:
  assumes "dag_advance ve ri k d = Some d'"
    and "\<And>n e. mget (dg_nodes d) k = Some n \<Longrightarrow> is_call e \<Longrightarrow> calling (dn_pc n) \<Longrightarrow> call_index e = dn_index n \<Longrightarrow> P e"
  shows "ext P (dv_sys (dg_vars d)) (dv_sys (dg_vars d'))"
proof -
  obtain n where n: "mget (dg_nodes d) k = Some n" "\<not> dg_panic d"
    using assms(1) by (auto simp: dag_advance_def split: if_splits option.splits)
  show ?thesis
  proof (cases "dn_pc n")
    case (PWait ds)
    with assms(1) n show ?thesis
      by (cases ds) (auto simp: dag_advance_def split: option.splits if_splits prod.splits dest!: ext_dag_decide)
  qed (use assms n ext_dag_run [of ve ri _ n "dg_vars d"] in \<open>fastforce simp: dag_advance_def split: prod.splits\<close>)+
qed

end

subsection \<open>Approvals\<close>

text \<open>\<open>G\<close> holds the gate that the stored execution says a person approved.\<close>

definition exec_gates :: "string set \<Rightarrow> dag_vars \<Rightarrow> bool" where
  "exec_gates G v = (\<forall>s. dv_exec v = Some s \<longrightarrow> es_gate s \<in> insert '''' G)"

definition node_gate :: "string set \<Rightarrow> string set \<Rightarrow> string \<Rightarrow> dag_node \<Rightarrow> bool" where
  "node_gate G C k n = (k \<notin> C \<longrightarrow> ps_human_gate (dn_step n) \<noteq> '''' \<longrightarrow> ps_agent (dn_step n) = '''' \<longrightarrow>
     (waiting (dn_pc n) \<or> dn_pc n = PBody \<or> dn_pc n = PDone) \<and>
     (dn_status n = ''success'' \<longrightarrow> ps_human_gate (dn_step n) \<in> G))"

lemma dv_exec_simps [simp]:
  "dv_exec (dv_with f v) = dv_exec v" "dv_exec (dv_record sid out v) = dv_exec v" "dv_exec (dv_put k out v) = dv_exec v"
  "dv_exec (dv_publish k out v) = dv_exec v"
  by (simp_all add: dv_with_def dv_record_def dv_put_def dv_publish_def split: prod.splits)

lemma fail_audit_gate: "fail_audit ve st i err sy = (sy', Some s) \<Longrightarrow> es_gate s = ''''"
  by (auto simp: fail_audit_def Let_def split: prod.splits option.splits sum.splits dest!: save_gate)

lemma fail_tool_exec_gate: "fail_tool_exec ve st i sid t err sy = (sy', Some s') \<Longrightarrow> \<exists>s. st = Some s \<and> es_gate s' = es_gate s"
  by (auto simp: fail_tool_exec_def mark_failed_def Let_def split: prod.splits option.splits sum.splits dest!: save_gate)

lemma dag_audit_gates: "dag_audit ve i ph oc d v = (v', ok) \<Longrightarrow> exec_gates G v \<Longrightarrow> exec_gates G v'"
  by (auto simp: dag_audit_def exec_gates_def split: prod.splits option.splits dest!: fail_audit_gate)

lemma exec_gates_cong: "dv_exec v' = dv_exec v \<Longrightarrow> exec_gates G v \<Longrightarrow> exec_gates G v'"
  by (simp add: exec_gates_def)

lemma dag_decide_gates: "dag_decide ve ri n v = (v', n') \<Longrightarrow> exec_gates G v \<Longrightarrow>
    exec_gates G v' \<and> (dn_pc n' = PBody \<or> dn_pc n' = PDone) \<and> dn_status n' \<noteq> ''success''"
  by (auto simp: dag_decide_def Let_def split: prod.splits if_splits elim!: dag_audit_gates intro: exec_gates_cong)

lemma dag_gate_gates: "dag_gate ve ri c n v = (v', n') \<Longrightarrow> exec_gates G v \<Longrightarrow> ps_human_gate (dn_step n) \<noteq> '''' \<Longrightarrow>
    exec_gates G v' \<and> dn_pc n' = PDone \<and> (dn_status n' = ''success'' \<longrightarrow> ps_human_gate (dn_step n) \<in> G)"
  by (auto simp: dag_gate_def Let_def exec_gates_def split: prod.splits option.splits if_splits)

lemma dag_body_gates:
  assumes "dag_body ve ri c n v = (v', n')" "exec_gates G v"
  shows "exec_gates G v' \<and> (ps_human_gate (dn_step n) \<noteq> '''' \<longrightarrow> ps_agent (dn_step n) = '''' \<longrightarrow>
    dn_pc n' = PDone \<and> (dn_status n' = ''success'' \<longrightarrow> ps_human_gate (dn_step n) \<in> G))"
proof (cases "ps_agent (dn_step n) = '''' \<and> ps_human_gate (dn_step n) \<noteq> ''''")
  case True
  with assms dag_gate_gates [of ve ri c n v v' n' G] show ?thesis by (simp add: dag_body_def)
next
  case False
  with assms have "exec_gates G v'"
    by (auto simp: dag_body_def dag_preference_def Let_def exec_gates_def split: option.splits if_splits)
  with False show ?thesis by auto
qed

lemma dag_run_gates:
  assumes "dag_run_node ve ri c n v = (v', n')" "exec_gates G v"
  shows "exec_gates G v'"
proof (cases "dn_pc n")
  case PBody
  with assms dag_body_gates [of ve ri c n v v' n' G] show ?thesis by (simp add: dag_run_node_def)
next
  case (PAgentDone out err)
  with assms show ?thesis
    by (auto simp: dag_run_node_def dag_agent_done_def Let_def split: prod.splits option.splits bool.splits
        dest!: dag_audit_gates [where G = G] intro: exec_gates_cong)
next
  case (PToolDone r)
  show ?thesis
  proof (cases r)
    case (Inl err)
    obtain v1 ok where a: "dag_audit ve (ri_id ri) ''tool.failed'' (audit_failure_result err)
        [(''step'', GStr (ps_id (dn_step n))), (''tool'', GStr (ps_tool (dn_step n))), (''error'', GStr (tool_error_text err))] v = (v1, ok)"
      by fastforce
    obtain sy st where f: "fail_tool_exec ve (dv_exec v1) (ri_id ri) (ps_id (dn_step n)) (ps_tool (dn_step n)) err (dv_sys v1) = (sy, st)"
      by fastforce
    from assms(1) PToolDone Inl a f have "v' = v1\<lparr>dv_sys := sy, dv_exec := st\<rparr>"
      by (simp add: dag_run_node_def dag_tool_done_def)
    with dag_audit_gates [OF a assms(2)] fail_tool_exec_gate show ?thesis
      using f by (fastforce simp: exec_gates_def)
  next
    case (Inr out)
    with assms PToolDone show ?thesis
      by (auto simp: dag_run_node_def dag_tool_done_def Let_def split: prod.splits bool.splits
          dest!: dag_audit_gates [where G = G] intro: exec_gates_cong)
  qed
qed (use assms in \<open>auto simp: dag_run_node_def Let_def exec_gates_def split: prod.splits
    dest!: dag_audit_gates [where G = G]\<close>)

definition gates_inv :: "string set \<Rightarrow> string set \<Rightarrow> dag \<Rightarrow> bool" where
  "gates_inv G C d = (exec_gates G (dg_vars d) \<and> (\<forall>k n. mget (dg_nodes d) k = Some n \<longrightarrow> node_gate G C k n))"

lemma gates_inv_step:
  assumes "dag_advance ve ri k d = Some d'" "gates_inv G C d"
  shows "gates_inv G C d'"
proof -
  obtain n where n: "mget (dg_nodes d) k = Some n" "\<not> dg_panic d"
    using assms(1) by (auto simp: dag_advance_def split: if_splits option.splits)
  have v: "exec_gates G (dg_vars d)" and ng: "node_gate G C k n"
    using assms(2) n(1) by (auto simp: gates_inv_def)
  have put: "gates_inv G C d'" if "dg_nodes d' = mput (dg_nodes d) k n'" "exec_gates G (dg_vars d')" "node_gate G C k n'" for n'
    using that assms(2) by (simp add: gates_inv_def)
  have same: "dn_step n' = dn_step n" if "dg_nodes d' = mput (dg_nodes d) k n'" for n'
    using advance_refines [OF assms(1)] n that node_change_same by (auto dest: arg_cong [where f = "\<lambda>m. mget m k"])
  show ?thesis
  proof (cases "dn_pc n")
    case (PWait ds)
    show ?thesis
    proof (cases ds)
      case Nil
      show ?thesis
      proof (cases "dn_status n = ''success''")
        case True
        with assms(1) n PWait Nil v ng put [of "set_pc PDone n"] show ?thesis by (auto simp: dag_advance_def node_gate_def)
      next
        case False
        obtain v' n' where dd: "dag_decide ve ri n (dg_vars d) = (v', n')" by fastforce
        with assms(1) n PWait Nil False have d': "d' = d\<lparr>dg_vars := v', dg_nodes := mput (dg_nodes d) k n'\<rparr>"
          by (simp add: dag_advance_def)
        with dag_decide_gates [OF dd v] put [of n'] show ?thesis by (auto simp: node_gate_def)
      qed
    next
      case (Cons x xs)
      have "d' = d\<lparr>dg_panic := True\<rparr> \<or> d' = d\<lparr>dg_nodes := mput (dg_nodes d) k (set_pc (PWait xs) n)\<rparr> \<or>
          d' = d\<lparr>dg_nodes := mput (dg_nodes d) k (finish_node ''cascaded_pause'' n)\<rparr> \<or>
          d' = d\<lparr>dg_nodes := mput (dg_nodes d) k (finish_node ''cascaded_skip'' n)\<rparr>"
        using assms(1) n PWait Cons by (auto simp: dag_advance_def split: option.splits if_splits)
      then show ?thesis
      proof (elim disjE)
        assume "d' = d\<lparr>dg_panic := True\<rparr>"
        with assms(2) show ?thesis by (simp add: gates_inv_def)
      next
        assume "d' = d\<lparr>dg_nodes := mput (dg_nodes d) k (set_pc (PWait xs) n)\<rparr>"
        with put [of "set_pc (PWait xs) n"] v ng show ?thesis by (simp add: node_gate_def)
      qed (use put [of "finish_node _ n"] v in \<open>simp_all add: node_gate_def\<close>)
    qed
  next
    case PBody
    let ?c = "completed_ids (mput (dg_nodes d) k (n\<lparr>dn_status := ''paused''\<rparr>))"
    obtain v' n' where b: "dag_body ve ri ?c n (dg_vars d) = (v', n')" by fastforce
    with assms(1) n PBody have d': "d' = d\<lparr>dg_vars := v', dg_nodes := mput (dg_nodes d) k n'\<rparr>"
      by (simp add: dag_advance_def dag_run_node_def)
    with dag_body_gates [OF b v] put [of n'] same [of n'] show ?thesis by (auto simp: node_gate_def)
  next
    case PDone
    with assms(1) n show ?thesis by (simp add: dag_advance_def)
  qed (use assms(1) n ng v put same in \<open>fastforce simp: dag_advance_def node_gate_def split: prod.splits dest: dag_run_gates\<close>)+
qed

lemma gates_inv_reach: "(dag_step ve ri)\<^sup>*\<^sup>* d d' \<Longrightarrow> gates_inv G C d \<Longrightarrow> gates_inv G C d'"
  by (induction rule: rtranclp_induct) (auto elim!: dag_stepE dest: gates_inv_step)

text \<open>The gate of the record the run started from.\<close>

definition approved_gates :: "exec_state option \<Rightarrow> string set" where
  "approved_gates st = (case st of None \<Rightarrow> {} | Some s \<Rightarrow> {es_gate s} - {''''})"

lemma setup_gates_inv:
  assumes "dag_setup ve pipe i session intent language ctx results base sy = (ri, d0)"
  shows "gates_inv (approved_gates (dv_exec (dg_vars d0))) (set (dag_completed (dv_exec (dg_vars d0)))) d0"
proof -
  have "node_gate G (set C) k n" if "mget (mark_completed C (dag_nodes (pl_steps pipe))) k = Some n" for G C k n
    using that by (auto simp: mget_mark_completed node_gate_def new_node_def fresh_node_def dest!: dag_nodes_fresh split: if_splits)
  then show ?thesis
    by (auto simp: gates_inv_def exec_gates_def approved_gates_def dag_setup_simps(2) [OF assms])
qed

subsection \<open>Dependencies of a call\<close>

text \<open>The steps a label leads to, over the nodes of the run.\<close>

definition node_steps :: "dag_node gomap \<Rightarrow> pipeline_step gomap" where
  "node_steps ns = map (\<lambda>(k, n). (k, dn_step n)) ns"

lemma mget_node_steps: "mget (node_steps ns) k = map_option dn_step (mget ns k)"
  by (simp add: node_steps_def)

lemma dep_reach_cong: "(\<And>k. mget m k = mget m' k) \<Longrightarrow> dep_reach m A sid = dep_reach m' A sid"
proof -
  have "dep_reach m A sid \<Longrightarrow> (\<And>k. mget m k = mget m' k) \<Longrightarrow> dep_reach m' A sid" for m m' :: "pipeline_step gomap"
    by (induction rule: dep_reach.induct) (auto intro: dep_reach.intros)
  then show "(\<And>k. mget m k = mget m' k) \<Longrightarrow> ?thesis" by metis
qed

lemma met_dependencies:
  assumes inv: "dag_inv C ns" and k: "mget ns k = Some n" "dn_closed n" "dn_status n = ''success''"
    and x: "x \<in> set (ps_depends_on (dn_step n))"
  shows "dep_ok ns x"
proof (cases "k \<in> C")
  case True
  show ?thesis
  proof (cases "mget ns x")
    case (Some dep)
    with inv True k(1) x have "x \<in> C" by (auto simp: dag_inv_def)
    with dag_inv_node [OF inv Some] Some show ?thesis by (auto simp: node_inv_def dep_ok_def)
  qed (simp add: dep_ok_def)
qed (use dag_inv_node [OF inv k(1)] k x in \<open>auto simp: node_inv_def\<close>)

lemma reached_met:
  assumes "dag_inv C ns" "dep_reach (node_steps ns) A sid" "\<forall>x \<in> A. dep_ok ns x"
  shows "dep_ok ns sid"
  using assms(2)
proof (induction rule: dep_reach.induct)
  case (step sid s sid')
  then obtain n where n: "mget ns sid = Some n" "dn_step n = s" by (auto simp: mget_node_steps)
  with step.IH met_dependencies [OF assms(1) n(1)] step.hyps(3) show ?case by (auto simp: dep_ok_def)
qed (use assms(3) in blast)

lemma calling_met:
  assumes "dag_inv C ns" "mget ns k = Some n" "calling (dn_pc n)" "x \<in> set (ps_depends_on (dn_step n))"
  shows "dep_ok ns x"
proof -
  have "\<not> waiting (dn_pc n)" "dn_pc n \<noteq> PDone" using assms(3) by (auto simp: calling_def waiting_def split: dag_pc.splits)
  with dag_inv_node [OF assms(1,2)] assms(4) show ?thesis by (auto simp: node_inv_def)
qed

lemma dag_inv_reach':
  assumes "(dag_step ve ri)\<^sup>*\<^sup>* d d'" "dag_inv C (dg_nodes d)"
  shows "dag_inv C (dg_nodes d')"
proof (cases "dg_panic d")
  case True
  with assms(1) have "d' = d"
    by (induction rule: converse_rtranclp_induct) (auto elim!: dag_stepE simp: dag_advance_panic)
  with assms(2) show ?thesis by simp
qed (use dag_inv_reach [OF assms] in blast)

text \<open>
  C6: no step of a parallel run overtakes a dependency. Whatever goroutine goes on next, what it
  calls is the tool or agent of its own step, and when it calls, every dependency of that step which
  names a step has finished with success.
\<close>

theorem dag_calls_after_dependencies:
  assumes "dag_setup ve pipe i session intent language ctx results base sy = (ri, d0)"
    and "deps_closed (dag_completed (dv_exec (dg_vars d0))) (dag_nodes (pl_steps pipe))"
    and "(dag_step ve ri)\<^sup>*\<^sup>* d0 d" "dag_advance ve ri k d = Some d'" "mget (dg_nodes d) k = Some n"
  shows "\<exists>es. sy_trace (dv_sys (dg_vars d')) = sy_trace (dv_sys (dg_vars d)) @ es \<and>
    (\<forall>e \<in> set es. is_call e \<longrightarrow> call_index e = dn_index n \<and>
      (\<forall>x \<in> set (ps_depends_on (dn_step n)). \<forall>dep. mget (dg_nodes d) x = Some dep \<longrightarrow>
        dn_closed dep \<and> dn_status dep = ''success''))"
proof -
  have inv: "dag_inv (set (dag_completed (dv_exec (dg_vars d0)))) (dg_nodes d)"
    by (rule dag_inv_reach' [OF assms(3) dag_setup_inv [OF assms(1,2)]])
  have "ext (\<lambda>e. is_call e \<longrightarrow> calling (dn_pc n) \<and> call_index e = dn_index n) (dv_sys (dg_vars d)) (dv_sys (dg_vars d'))"
    by (rule effect_pred.ext_dag_advance [OF _ assms(4)]) (use assms(5) in \<open>auto simp: effect_pred_def noncall_def\<close>)
  then obtain es where "sy_trace (dv_sys (dg_vars d')) = sy_trace (dv_sys (dg_vars d)) @ es"
    "\<forall>e \<in> set es. is_call e \<longrightarrow> calling (dn_pc n) \<and> call_index e = dn_index n" by (auto simp: ext_def list_all_iff)
  with calling_met [OF inv assms(5)] show ?thesis by (fastforce simp: dep_ok_def)
qed

lemma nodes_by_label:
  assumes "dag_setup ve p i session intent language ctx results base sy = (ri, d0)" "(dag_step ve ri)\<^sup>*\<^sup>* d0 d"
    and "\<forall>s \<in> set (pl_steps p). ps_id s \<noteq> ''''"
  shows "mget (node_steps (dg_nodes d)) k = mget (by_label p) k"
proof -
  have "map_option dn_step (mget (dg_nodes d) k) = map_option dn_step (mget (dg_nodes d0) k)"
    using dag_reach_static [OF assms(2), of k] dag_reach_known [OF assms(2), of k] by (cases "mget (dg_nodes d) k") force+
  also have "\<dots> = map_option dn_step (mget (dag_nodes (pl_steps p)) k)"
    by (auto simp: dag_setup_simps(2) [OF assms(1)] mget_mark_completed option.map_comp comp_def intro!: option.map_cong)
  finally show ?thesis using dag_nodes_by_label [OF assms(3)] by (simp add: mget_node_steps)
qed

lemma node_of_step:
  assumes "dag_setup ve p i session intent language ctx results base sy = (ri, d0)" "(dag_step ve ri)\<^sup>*\<^sup>* d0 d"
    and "mget (dg_nodes d) k = Some n"
  shows "dn_index n < length (pl_steps p) \<and> dn_step n = pl_steps p ! dn_index n"
  using dag_reach_static [OF assms(2,3)]
  by (auto simp: dag_setup_simps(2) [OF assms(1)] mget_mark_completed fresh_node_def new_node_def dest!: dag_nodes_fresh
      split: if_splits)

text \<open>Behind a step that calls, every gate it depends on was approved.\<close>

lemma gate_behind_call:
  assumes start: "dag_setup ve p i session intent language ctx results base sy = (ri, d0)"
    and closed: "deps_closed (dag_completed (dv_exec (dg_vars d0))) (dag_nodes (pl_steps p))"
    and reach: "(dag_step ve ri)\<^sup>*\<^sup>* d0 d"
    and ids: "\<forall>s \<in> set (pl_steps p). ps_id s \<noteq> '''' \<and> (ps_human_gate s \<noteq> '''' \<longrightarrow> ps_agent s = '''')"
    and n: "mget (dg_nodes d) k = Some n" "calling (dn_pc n)"
    and l: "dep_reach (by_label p) (set (ps_depends_on (dn_step n))) l" "mget (by_label p) l = Some s" "ps_human_gate s \<noteq> ''''"
  shows "l \<in> set (dag_completed (dv_exec (dg_vars d0))) \<or> ps_human_gate s \<in> approved_gates (dv_exec (dg_vars d0))"
proof -
  let ?C = "set (dag_completed (dv_exec (dg_vars d0)))"
  have inv: "dag_inv ?C (dg_nodes d)" by (rule dag_inv_reach' [OF reach dag_setup_inv [OF start closed]])
  have labels: "mget (node_steps (dg_nodes d)) x = mget (by_label p) x" for x
    using nodes_by_label [OF start reach] ids by blast
  have "dep_reach (node_steps (dg_nodes d)) (set (ps_depends_on (dn_step n))) l"
    using l(1) dep_reach_cong [of "by_label p" "node_steps (dg_nodes d)"] labels by simp
  then have "dep_ok (dg_nodes d) l" by (rule reached_met [OF inv]) (use calling_met [OF inv n] in blast)
  moreover obtain g where g: "mget (dg_nodes d) l = Some g" "dn_step g = s"
    using labels [of l] l(2) by (auto simp: mget_node_steps)
  ultimately have "dn_status g = ''success''" by (simp add: dep_ok_def)
  moreover have "s \<in> set (pl_steps p)"
    using node_of_step [OF start reach g(1)] g(2) by auto
  moreover have "node_gate (approved_gates (dv_exec (dg_vars d0))) ?C l g"
    using gates_inv_reach [OF reach setup_gates_inv [OF start]] g(1) by (simp add: gates_inv_def)
  ultimately show ?thesis using g(2) l(3) ids by (auto simp: node_gate_def)
qed

lemma reach_ext:
  assumes "noncall P" "(dag_step ve ri)\<^sup>*\<^sup>* d0 d"
    and "\<And>d k n e. (dag_step ve ri)\<^sup>*\<^sup>* d0 d \<Longrightarrow> mget (dg_nodes d) k = Some n \<Longrightarrow> calling (dn_pc n) \<Longrightarrow>
      is_call e \<Longrightarrow> call_index e = dn_index n \<Longrightarrow> P e"
  shows "ext P (dv_sys (dg_vars d0)) (dv_sys (dg_vars d))"
  using assms(2)
proof (induction rule: rtranclp_induct)
  case (step d1 d2)
  then obtain k where k: "dag_advance ve ri k d1 = Some d2" by (auto elim: dag_stepE)
  have "ext P (dv_sys (dg_vars d1)) (dv_sys (dg_vars d2))"
    by (rule effect_pred.ext_dag_advance [OF _ k]) (use assms(1,3) step.hyps(1) in \<open>auto simp: effect_pred_def\<close>)
  with step.IH show ?case by (rule ext_trans)
qed simp

lemma dag_finish_ext: "noncall P \<Longrightarrow> ext P (dv_sys (dg_vars d)) (dag_finish ve ri d)"
  by (auto simp: dag_finish_def Let_def ext_def noncall_simps)

text \<open>A first parallel run never reaches the call of a step with a dangerous tool.\<close>

lemma dag_dangerous_quiet:
  assumes "load_from_dir e dir = Inr cfg" "mget (cf_pipelines cfg) name = Some p" "pl_mode p = ''dag''"
    and "\<forall>s \<in> set (pl_steps p). ps_id s \<noteq> '''' \<and> (ps_human_gate s \<noteq> '''' \<longrightarrow> ps_agent s = '''')"
    and "j < length (pl_steps p)" "mget (cf_tools cfg) (ps_tool (pl_steps p ! j)) = Some t"
    and "tl_mode t = ''dangerous''" "blank (ps_no_approval_reason (pl_steps p ! j))"
    and "\<forall>st. mget (sy_tasks sy) i = Some st \<longrightarrow> es_completed st = [] \<and> es_gate st = ''''"
  shows "ext (\<lambda>e. is_call e \<longrightarrow> call_index e \<noteq> j) sy
    (fst (execute_dag ve sched p i session intent language ctx results base sy))"
proof -
  let ?P = "\<lambda>e. is_call e \<longrightarrow> call_index e \<noteq> j"
  have nc: "noncall ?P" by (simp add: noncall_def)
  obtain ri d0 where s: "dag_setup ve p i session intent language ctx results base sy = (ri, d0)" by fastforce
  have st: "dag_completed (dv_exec (dg_vars d0)) = []" "approved_gates (dv_exec (dg_vars d0)) = {}"
    using s assms(9) by (auto simp: dag_setup_def Let_def load_state_def dag_completed_def approved_gates_def
        split: option.splits)
  have gate: "\<exists>l g. dep_reach (by_label p) (set (ps_depends_on (pl_steps p ! j))) l \<and> mget (by_label p) l = Some g \<and>
      ps_human_gate g \<noteq> ''''"
    using load_from_dir_safe [OF assms(1)] assms(2,3,5-8)
    by (fastforce simp: validate_pipeline_safety_None_iff gate_before_def gate_at_def split: option.splits)
  have call: "call_index e \<noteq> j" if d: "(dag_step ve ri)\<^sup>*\<^sup>* d0 d" and k: "mget (dg_nodes d) k = Some n" "calling (dn_pc n)"
    and e: "call_index e = dn_index n" for d k n e
  proof
    assume "call_index e = j"
    with e have "dn_step n = pl_steps p ! j"
      using node_of_step [OF s d k(1)] by simp
    with gate gate_behind_call [OF s _ d assms(4) k] st show False by (auto simp: deps_closed_def)
  qed
  define d where "d = dag_loop ve ri sched (nodes_measure (dg_nodes d0)) d0"
  have "ext ?P sy (dv_sys (dg_vars d0))"
    using s by (auto simp: dag_setup_def Let_def load_state_def ext_def is_call_def split: option.splits)
  also have "ext ?P (dv_sys (dg_vars d0)) (dv_sys (dg_vars d))"
    unfolding d_def by (rule reach_ext [OF nc dag_loop_reach]) (use call in blast)
  finally (ext_trans) have x: "ext ?P sy (dv_sys (dg_vars d))" .
  show ?thesis
    using x ext_trans [OF x dag_finish_ext [OF nc]] by (simp add: execute_dag_def s d_def [symmetric] Let_def)
qed

subsection \<open>The protocol, and the record of a pause\<close>

text \<open>One goroutine takes one step of the protocol.\<close>

inductive protocol_step :: "dag_node gomap \<Rightarrow> dag_node gomap \<Rightarrow> bool" where
  one: "mget ns k = Some n \<Longrightarrow> node_change ns n n' \<Longrightarrow> protocol_step ns (mput ns k n')"

lemma dag_step_protocol:
  assumes "dag_step ve ri d d'" "dag_inv C (dg_nodes d)"
  shows "protocol_step (dg_nodes d) (dg_nodes d')"
proof -
  obtain k where k: "dag_advance ve ri k d = Some d'" using assms(1) by (elim dag_stepE)
  from advance_refines [OF k] dag_inv_no_panic [OF assms(2) k] show ?thesis
    by (elim disjE exE conjE) (auto intro: protocol_step.one)
qed

text \<open>
  C8: the executor refines the protocol of its nodes. Seen through the states of its nodes, every
  run of \<open>executeDAG\<close> with its store, journal, tools, agents and shared variables is a run of
  \<open>protocol_step\<close>, which only knows statuses and program counters: it starts a step after its
  dependencies passed, cascades a failure or a pause, and finishes a step once.
\<close>

theorem dag_refines_protocol:
  assumes "dag_setup ve pipe i session intent language ctx results base sy = (ri, d0)"
    and "deps_closed (dag_completed (dv_exec (dg_vars d0))) (dag_nodes (pl_steps pipe))"
    and "(dag_step ve ri)\<^sup>*\<^sup>* d0 d"
  shows "protocol_step\<^sup>*\<^sup>* (dg_nodes d0) (dg_nodes d)"
  using assms(3)
proof (induction rule: rtranclp_induct)
  case (step d1 d2)
  have "dag_inv (set (dag_completed (dv_exec (dg_vars d0)))) (dg_nodes d1)"
    by (rule dag_inv_reach' [OF step.hyps(1) dag_setup_inv [OF assms(1,2)]])
  with step.IH dag_step_protocol [OF step.hyps(2)] show ?case by (meson rtranclp.rtrancl_into_rtrancl)
qed simp

lemma success_closed:
  assumes "dag_inv C ns" "mget ns k = Some n" "dn_status n = ''success''"
  shows "dn_closed n"
proof (cases "k \<in> C")
  case False
  with dag_inv_node [OF assms(1,2)] assms(3) show ?thesis by (auto simp: node_inv_def)
qed (use dag_inv_node [OF assms(1,2)] in \<open>simp add: node_inv_def\<close>)

lemma completed_ids_iff: "distinct (map fst ns) \<Longrightarrow> k \<in> set (completed_ids ns) \<longleftrightarrow>
    (\<exists>n. mget ns k = Some n \<and> dn_status n = ''success'')"
  by (force simp: completed_ids_def)

lemma completed_ids_distinct: "distinct (map fst ns) \<Longrightarrow> distinct (completed_ids ns)"
  unfolding completed_ids_def by (rule distinct_map_filter)

text \<open>What a pause lists as complete: steps listed once, and with each of them all the steps it depends on.\<close>

lemma completed_ids_closed:
  assumes "dag_setup ve pipe i session intent language ctx results base sy = (ri, d0)"
    and "deps_closed (dag_completed (dv_exec (dg_vars d0))) (dag_nodes (pl_steps pipe))"
    and "(dag_step ve ri)\<^sup>*\<^sup>* d0 d" "mget (dg_nodes d) k = Some n" "dn_pc n = PBody"
    and "completed_ids (mput (dg_nodes d) k (n\<lparr>dn_status := ''paused''\<rparr>)) = saved"
  shows "distinct saved \<and> deps_closed saved (dag_nodes (pl_steps pipe))"
proof
  let ?C = "set (dag_completed (dv_exec (dg_vars d0)))"
  let ?ns = "mput (dg_nodes d) k (n\<lparr>dn_status := ''paused''\<rparr>)"
  have inv: "dag_inv ?C (dg_nodes d)" by (rule dag_inv_reach' [OF assms(3) dag_setup_inv [OF assms(1,2)]])
  then have dist: "distinct (map fst ?ns)" by (simp add: dag_inv_def distinct_update)
  then show "distinct saved" using completed_ids_distinct assms(6) by blast
  have run: "dn_status n = ''running''" using dag_inv_node [OF inv assms(4)] assms(5) by (auto simp: node_inv_def)
  have known: "mget (dg_nodes d) x \<noteq> None" if "mget (dag_nodes (pl_steps pipe)) x \<noteq> None" for x
    using that dag_reach_known [OF assms(3), of x] by (auto simp: dag_setup_simps(2) [OF assms(1)] mget_mark_completed)
  have step: "dn_step m = dn_step m0" if "mget (dg_nodes d) j = Some m" "mget (dag_nodes (pl_steps pipe)) j = Some m0" for j m m0
    using that dag_reach_static [OF assms(3), of j m]
    by (auto simp: dag_setup_simps(2) [OF assms(1)] mget_mark_completed split: if_splits)
  show "deps_closed saved (dag_nodes (pl_steps pipe))"
    unfolding deps_closed_def
  proof (intro ballI allI impI)
    fix j m0 x assume j: "j \<in> set saved" "mget (dag_nodes (pl_steps pipe)) j = Some m0"
      "x \<in> set (ps_depends_on (dn_step m0))" "mget (dag_nodes (pl_steps pipe)) x \<noteq> None"
    then obtain m where m: "mget (dg_nodes d) j = Some m" "dn_status m = ''success''"
      using completed_ids_iff [OF dist, of j] assms(6) by (auto split: if_splits)
    obtain dep where dep: "mget (dg_nodes d) x = Some dep" using known [OF j(4)] by blast
    have "dep_ok (dg_nodes d) x"
      using met_dependencies [OF inv m(1) success_closed [OF inv m] m(2)] step [OF m(1) j(2)] j(3) by simp
    with dep have ok: "dn_status dep = ''success''" by (simp add: dep_ok_def)
    then have "x \<noteq> k" using run dep assms(4) by auto
    with dep ok have "\<exists>n. mget ?ns x = Some n \<and> dn_status n = ''success''" by simp
    then show "x \<in> set saved" using completed_ids_iff [OF dist, of x] assms(6) by blast
  qed
qed

text \<open>The step in which a goroutine pauses is the one that saves the record of the pause.\<close>

lemma log_tasks: "log_lifecycle ve st ph oc d sy = (sy', r) \<Longrightarrow> sy_tasks sy' = sy_tasks sy"
  by (auto simp: log_lifecycle_def Let_def emit_def next_tick_def split: option.splits)

lemma save_stored: "save_state ve st sy = (sy', st', None) \<Longrightarrow> mget (sy_tasks sy') (es_id st) = Some (exec_norm st') \<and>
    st' = stamp_created (now_of ve sy) st"
  by (auto simp: save_state_def Let_def emit_def stamp_created_def split: if_splits option.splits)

lemma dag_gate_pauses:
  assumes "dag_gate ve ri completed n v = (v', n')" "dn_status n' = ''paused''"
  shows "\<exists>st. mget (sy_tasks (dv_sys v')) (ri_id ri) = Some st \<and> es_gate st = ps_human_gate (dn_step n) \<and> es_completed st = completed"
proof -
  let ?gate = "ps_human_gate (dn_step n)"
  let ?v = "v\<lparr>dv_vars := mput (mput (dv_vars v) (?gate @ ''_executed'') (GBool True)) (?gate @ ''_decision'') (GStr ''pending'')\<rparr>"
  let ?st0 = "zero_exec\<lparr>es_id := ri_id ri, es_session := ri_session ri, es_intent := ri_intent ri,
      es_pipeline := pl_name (ri_pipe ri), es_completed := completed,
      es_params := Some (convert_vars (we_ff ve) (dv_vars ?v)), es_results := dv_results ?v, es_gate := ?gate\<rparr>"
  define st where "st = (case dv_exec ?v of None \<Rightarrow> ?st0
      | Some old \<Rightarrow> copy_manifest (?st0\<lparr>es_user := es_user old, es_created := es_created old\<rparr>) old)"
  have st: "es_id st = ri_id ri" "es_gate st = ?gate" "es_completed st = completed"
    by (auto simp: st_def copy_manifest_def split: option.splits)
  obtain sy st' err where s: "save_state ve st (dv_sys ?v) = (sy, st', err)" by (metis surj_pair)
  obtain sy1 aerr where g: "log_lifecycle ve (Some st') ''human.approval_requested'' ''pending''
      [(''gate'', GStr ?gate), (''step'', GStr (ps_id (dn_step n)))] sy = (sy1, aerr)" by fastforce
  have fresh: "\<not> (case dv_exec v of None \<Rightarrow> False | Some st \<Rightarrow> es_gate st = ?gate)"
    using assms by (auto simp: dag_gate_def finish_node_def)
  have gate: "dag_gate ve ri completed n v = (case save_state ve st (dv_sys ?v) of
      (sy, st', Some _) \<Rightarrow> (?v\<lparr>dv_sys := store_error (ri_id ri) ''cannot persist execution state'' sy\<rparr>, finish_node ''failed'' n)
    | (sy, st', None) \<Rightarrow> (case log_lifecycle ve (Some st') ''human.approval_requested'' ''pending''
          [(''gate'', GStr ?gate), (''step'', GStr (ps_id (dn_step n)))] sy of
        (sy1, Some err) \<Rightarrow> (?v\<lparr>dv_sys := fst (fail_audit ve (Some st') (ri_id ri) err sy1)\<rparr>, finish_node ''failed'' n)
      | (sy1, None) \<Rightarrow> (?v\<lparr>dv_sys := send_msg ''api'' ''await_human'' [(''id'', PS (ri_id ri)), (''gate'', PS ?gate)]
          (event (ri_id ri) ''Verifier'' ''await_human'' ?gate sy1)\<rparr>, finish_node ''paused'' n)))"
    unfolding dag_gate_def Let_def if_not_P [OF fresh] st_def by (rule refl)
  have ok: "err = None" "aerr = None" "sy_tasks (dv_sys v') = sy_tasks sy1"
    using assms s g unfolding gate by (auto simp: finish_node_def send_msg_def event_def emit_def Let_def split: option.splits)
  with save_stored [of ve st "dv_sys ?v" sy st'] s log_tasks [OF g] st show ?thesis
    by (auto simp: exec_norm_def stamp_created_def)
qed

lemma dag_body_pauses:
  assumes "dag_body ve ri completed n v = (v', n')" "dn_status n' = ''paused''" "dn_status n \<noteq> ''paused''"
  shows "dag_gate ve ri completed n v = (v', n')"
  using assms by (auto simp: dag_body_def dag_preference_def finish_node_def set_pc_def Let_def split: if_splits option.splits)

lemma dag_run_pauses:
  assumes "dag_run_node ve ri completed n v = (v', n')" "dn_status n' = ''paused''" "dn_status n \<noteq> ''paused''"
  shows "dn_pc n = PBody \<and> dag_gate ve ri completed n v = (v', n')"
  using assms dag_body_pauses [of ve ri completed n v v' n']
  by (auto simp: dag_run_node_def dag_agent_done_def dag_tool_done_def finish_node_def set_pc_def Let_def
      split: dag_pc.splits prod.splits option.splits sum.splits bool.splits if_splits)

lemma dag_advance_pauses:
  assumes "dag_advance ve ri k d = Some d'" "mget (dg_nodes d) k = Some n" "dn_status n \<noteq> ''paused''"
    and "mget (dg_nodes d') k = Some n'" "dn_status n' = ''paused''"
  shows "dn_pc n = PBody \<and> dag_gate ve ri (completed_ids (mput (dg_nodes d) k (n\<lparr>dn_status := ''paused''\<rparr>))) n (dg_vars d) = (dg_vars d', n')"
proof -
  let ?ids = "completed_ids (mput (dg_nodes d) k (n\<lparr>dn_status := ''paused''\<rparr>))"
  have run: ?thesis if "Some d' = (case dag_run_node ve ri ?ids n (dg_vars d) of
      (v, n') \<Rightarrow> Some (d\<lparr>dg_vars := v, dg_nodes := mput (dg_nodes d) k n'\<rparr>))"
    using that assms(3-5) dag_run_pauses [of ve ri ?ids n "dg_vars d"] by (auto split: prod.splits)
  have wait: False if "dn_pc n = PWait xs" for xs
    using that assms by (cases xs)
      (auto simp: dag_advance_def dag_decide_def finish_node_def set_pc_def Let_def split: if_splits option.splits prod.splits)
  show ?thesis
    using assms(1,2) run wait by (cases "dn_pc n") (simp_all add: dag_advance_def split: if_splits)
qed

text \<open>
  C32: the record that a pause saves can be resumed. When a goroutine of a parallel run pauses at its
  gate, the store then holds a record of that gate, whose completed steps are the ones that had
  succeeded by then: each listed once, and with each of them all the steps it depends on. These are the
  conditions under which a resumed run neither panics nor hangs.
\<close>

theorem dag_pause_record_complete:
  assumes "dag_setup ve pipe i session intent language ctx results base sy = (ri, d0)"
    and "deps_closed (dag_completed (dv_exec (dg_vars d0))) (dag_nodes (pl_steps pipe))"
    and "(dag_step ve ri)\<^sup>*\<^sup>* d0 d" "dag_advance ve ri k d = Some d'"
    and "mget (dg_nodes d) k = Some n" "dn_status n \<noteq> ''paused''" "mget (dg_nodes d') k = Some n'" "dn_status n' = ''paused''"
  shows "\<exists>st. mget (sy_tasks (dv_sys (dg_vars d'))) i = Some st \<and> es_gate st = ps_human_gate (dn_step n) \<and>
    distinct (es_completed st) \<and> deps_closed (es_completed st) (dag_nodes (pl_steps pipe)) \<and>
    (\<forall>x. x \<in> set (es_completed st) \<longleftrightarrow> (\<exists>m. mget (dg_nodes d) x = Some m \<and> dn_status m = ''success''))"
proof -
  define saved where "saved = completed_ids (mput (dg_nodes d) k (n\<lparr>dn_status := ''paused''\<rparr>))"
  from dag_advance_pauses [OF assms(4-8)] have g: "dn_pc n = PBody" "dag_gate ve ri saved n (dg_vars d) = (dg_vars d', n')"
    by (simp_all add: saved_def)
  have ri: "ri_id ri = i" using assms(1) by (auto simp: dag_setup_def Let_def split: prod.splits)
  have inv: "dag_inv (set (dag_completed (dv_exec (dg_vars d0)))) (dg_nodes d)"
    by (rule dag_inv_reach' [OF assms(3) dag_setup_inv [OF assms(1,2)]])
  then have dist: "distinct (map fst (mput (dg_nodes d) k (n\<lparr>dn_status := ''paused''\<rparr>)))" by (simp add: dag_inv_def distinct_update)
  have run: "dn_status n = ''running''" using dag_inv_node [OF inv assms(5)] g(1) by (auto simp: node_inv_def)
  have all: "x \<in> set saved \<longleftrightarrow> (\<exists>m. mget (dg_nodes d) x = Some m \<and> dn_status m = ''success'')" for x
    using completed_ids_iff [OF dist, of x] run assms(5) by (auto simp: saved_def)
  from dag_gate_pauses [OF g(2) assms(8)] obtain st where st: "mget (sy_tasks (dv_sys (dg_vars d'))) i = Some st"
    "es_gate st = ps_human_gate (dn_step n)" "es_completed st = saved" unfolding ri by blast
  from completed_ids_closed [OF assms(1-3,5) g(1) saved_def [symmetric]] st all show ?thesis by auto
qed

subsection \<open>The properties on concrete runs\<close>

definition demo_dag_env :: env where
  "demo_dag_env = (demo_env demo_config demo_tool)\<lparr>we_cfg := demo_config\<lparr>cf_tools :=
     [(''look'', zero_tool\<lparr>tl_name := ''look''\<rparr>), (''transfer'', demo_transfer)]\<rparr>\<rparr>"

definition demo_dag_setup :: "exec_state gomap \<Rightarrow> run_info \<times> dag" where
  "demo_dag_setup tasks = dag_setup demo_dag_env demo_pipeline ''t1'' ''s'' ''pay'' ''en'' background [] [] (demo_sys tasks)"

definition demo_dag_run :: "exec_state gomap \<Rightarrow> sys \<times> bool" where
  "demo_dag_run tasks = execute_dag demo_dag_env (\<lambda>m. m) demo_pipeline ''t1'' ''s'' ''pay'' ''en'' background [] [] (demo_sys tasks)"

text \<open>A person approved the gate of the first step.\<close>

definition demo_dag_record :: exec_state where
  "demo_dag_record = zero_exec\<lparr>es_id := ''t1'', es_version := ''v1'', es_created := 1, es_gate := ''ok''\<rparr>"

definition demo_rank :: "string \<Rightarrow> nat" where
  "demo_rank k = (if k = ''ask'' then 0 else if k = ''mid'' then 1 else 2)"

lemma demo_dag_nodes: "dag_nodes (pl_steps demo_pipeline) =
    [(''ask'', new_node 0 (pl_steps demo_pipeline ! 0)), (''mid'', new_node 1 (pl_steps demo_pipeline ! 1)),
     (''send'', new_node 2 (pl_steps demo_pipeline ! 2))]"
  by code_simp

lemma demo_ranked: "ranked demo_rank (dag_nodes (pl_steps demo_pipeline))"
  unfolding ranked_def demo_dag_nodes
  by (auto simp: demo_rank_def new_node_def demo_pipeline_def zero_step_def zero_pipeline_def split: if_splits)

lemma demo_setup: "demo_dag_setup tasks = (ri, d0) \<Longrightarrow> dv_exec (dg_vars d0) = mget tasks ''t1''"
  by (auto simp: demo_dag_setup_def dag_setup_def Let_def load_state_def demo_dag_env_def demo_env_def demo_sys_def)

lemma demo_deps_closed: "deps_closed [] ns"
  by (simp add: deps_closed_def)

lemma demo_completed: "demo_dag_setup [(''t1'', demo_dag_record)] = (ri, d0) \<Longrightarrow> dag_completed (dv_exec (dg_vars d0)) = []"
  using demo_setup [of "[(''t1'', demo_dag_record)]" ri d0]
  by (simp add: dag_completed_def demo_dag_record_def zero_exec_def)

lemma dag_acyclic_returns_witness: "snd (demo_dag_run [(''t1'', demo_dag_record)])"
proof -
  obtain ri d0 where s: "demo_dag_setup [(''t1'', demo_dag_record)] = (ri, d0)" by fastforce
  show ?thesis
    unfolding demo_dag_run_def
    by (rule dag_acyclic_returns [OF s [unfolded demo_dag_setup_def] demo_ranked])
      (simp_all add: demo_completed [OF s] demo_deps_closed)
qed

text \<open>A schedule written out.\<close>

definition dag_path :: "env \<Rightarrow> run_info \<Rightarrow> string list \<Rightarrow> dag \<Rightarrow> dag option" where
  "dag_path ve ri ks d = fold (\<lambda>k r. case r of None \<Rightarrow> None | Some d \<Rightarrow> dag_advance ve ri k d) ks (Some d)"

lemma dag_path_snoc: "dag_path ve ri (ks @ [k]) d = (case dag_path ve ri ks d of None \<Rightarrow> None | Some d' \<Rightarrow> dag_advance ve ri k d')"
  by (simp add: dag_path_def)

lemma dag_path_reach: "dag_path ve ri ks d = Some d' \<Longrightarrow> (dag_step ve ri)\<^sup>*\<^sup>* d d'"
proof (induction ks arbitrary: d' rule: rev_induct)
  case (snoc k ks)
  then show ?case by (auto simp: dag_path_snoc split: option.splits intro: rtranclp.rtrancl_into_rtrancl dag_step.advance)
qed (simp add: dag_path_def)

definition demo_path :: "string list \<Rightarrow> dag option" where
  "demo_path ks = (case demo_dag_setup [(''t1'', demo_dag_record)] of (ri, d0) \<Rightarrow> dag_path demo_dag_env ri ks d0)"

lemma demo_paths:
  "map_option (\<lambda>d. map_option dn_pc (mget (dg_nodes d) ''mid'')) (demo_path [''ask'', ''ask'', ''mid'', ''mid'']) = Some (Some PBody)"
  "map_option (\<lambda>d. calls (sy_trace (dv_sys (dg_vars d)))) (demo_path [''ask'', ''ask'', ''mid'', ''mid'', ''mid'', ''mid'', ''mid'']) = Some [1]"
  by code_simp+

lemma demo_path_obtain:
  assumes "demo_path ks \<noteq> None"
  obtains ri d0 d where "demo_dag_setup [(''t1'', demo_dag_record)] = (ri, d0)" "demo_path ks = Some d"
    "dag_path demo_dag_env ri ks d0 = Some d"
  using assms by (auto simp: demo_path_def split: prod.splits)

lemma dag_runs_finite_witness: "\<exists>ri d0 d. demo_dag_setup [(''t1'', demo_dag_record)] = (ri, d0) \<and> (dag_step demo_dag_env ri ^^ 0) d0 d \<and>
    0 \<le> (1 :: nat) + sum_list (map (\<lambda>s. 6 + length (ps_depends_on s)) (pl_steps demo_pipeline))"
proof -
  obtain ri d0 where s: "demo_dag_setup [(''t1'', demo_dag_record)] = (ri, d0)" by fastforce
  have "(dag_step demo_dag_env ri ^^ 0) d0 d0" by simp
  with s dag_runs_finite [OF s [unfolded demo_dag_setup_def] this] show ?thesis by blast
qed

lemma dag_calls_after_dependencies_witness:
  "\<exists>d d' es. demo_path [''ask'', ''ask'', ''mid'', ''mid'', ''mid'', ''mid''] = Some d \<and>
     demo_path [''ask'', ''ask'', ''mid'', ''mid'', ''mid'', ''mid'', ''mid''] = Some d' \<and>
     sy_trace (dv_sys (dg_vars d')) = sy_trace (dv_sys (dg_vars d)) @ es"
proof -
  let ?ks = "[''ask'', ''ask'', ''mid'', ''mid'', ''mid'', ''mid'']"
  have "demo_path (?ks @ [''mid'']) \<noteq> None" using demo_paths(2) by auto
  then obtain ri d0 d' where s: "demo_dag_setup [(''t1'', demo_dag_record)] = (ri, d0)" "demo_path (?ks @ [''mid'']) = Some d'"
    "dag_path demo_dag_env ri (?ks @ [''mid'']) d0 = Some d'" by (rule demo_path_obtain)
  then obtain d where d: "dag_path demo_dag_env ri ?ks d0 = Some d" "dag_advance demo_dag_env ri ''mid'' d = Some d'"
    unfolding dag_path_snoc by (auto split: option.splits)
  then obtain n where n: "mget (dg_nodes d) ''mid'' = Some n" by (auto simp: dag_advance_def split: if_splits option.splits)
  have c: "deps_closed (dag_completed (dv_exec (dg_vars d0))) (dag_nodes (pl_steps demo_pipeline))"
    by (simp add: demo_completed [OF s(1)] demo_deps_closed)
  have "demo_path ?ks = Some d" using d(1) s(1) by (simp add: demo_path_def)
  with s(2) dag_calls_after_dependencies [OF s(1) [unfolded demo_dag_setup_def] c dag_path_reach [OF d(1)] d(2) n]
  show ?thesis by auto
qed

lemma dag_refines_protocol_witness:
  "\<exists>ri d0 d. demo_dag_setup [(''t1'', demo_dag_record)] = (ri, d0) \<and>
     demo_path [''ask'', ''ask'', ''mid'', ''mid''] = Some d \<and> protocol_step\<^sup>*\<^sup>* (dg_nodes d0) (dg_nodes d)"
proof -
  have "demo_path [''ask'', ''ask'', ''mid'', ''mid''] \<noteq> None" using demo_paths(1) by auto
  then obtain ri d0 d where s: "demo_dag_setup [(''t1'', demo_dag_record)] = (ri, d0)"
    "demo_path [''ask'', ''ask'', ''mid'', ''mid''] = Some d" "dag_path demo_dag_env ri [''ask'', ''ask'', ''mid'', ''mid''] d0 = Some d"
    by (rule demo_path_obtain)
  have c: "deps_closed (dag_completed (dv_exec (dg_vars d0))) (dag_nodes (pl_steps demo_pipeline))"
    by (simp add: demo_completed [OF s(1)] demo_deps_closed)
  show ?thesis
    using s(1,2) dag_refines_protocol [OF s(1) [unfolded demo_dag_setup_def] c dag_path_reach [OF s(3)]] by blast
qed

text \<open>A pipeline that looks something up and then pauses.\<close>

definition late_gate :: pipeline where
  "late_gate = zero_pipeline\<lparr>pl_name := ''late'', pl_mode := ''dag'', pl_steps :=
     [zero_step\<lparr>ps_id := ''mid'', ps_tool := ''look''\<rparr>, zero_step\<lparr>ps_id := ''ask'', ps_human_gate := ''ok'', ps_depends_on := [''mid'']\<rparr>]\<rparr>"

definition late_setup :: "run_info \<times> dag" where
  "late_setup = dag_setup demo_dag_env late_gate ''t1'' ''s'' ''pay'' ''en'' background [] [] (demo_sys [])"

definition late_path :: "string list \<Rightarrow> dag option" where
  "late_path ks = (case late_setup of (ri, d0) \<Rightarrow> dag_path demo_dag_env ri ks d0)"

definition late_schedule :: "string list" where
  "late_schedule = [''mid'', ''mid'', ''mid'', ''mid'', ''mid'', ''ask'', ''ask'']"

lemma late_paths:
  "map_option (\<lambda>d. map_option dn_status (mget (dg_nodes d) ''ask'')) (late_path late_schedule) = Some (Some ''running'')"
  "map_option (\<lambda>d. map_option dn_status (mget (dg_nodes d) ''mid'')) (late_path late_schedule) = Some (Some ''success'')"
  "map_option (\<lambda>d. map_option dn_status (mget (dg_nodes d) ''ask'')) (late_path (late_schedule @ [''ask''])) = Some (Some ''paused'')"
  "map_option (\<lambda>d. map_option (\<lambda>n. ps_human_gate (dn_step n)) (mget (dg_nodes d) ''ask'')) (late_path late_schedule) = Some (Some ''ok'')"
  by code_simp+

lemma dag_pause_record_complete_witness:
  "\<exists>d st. late_path (late_schedule @ [''ask'']) = Some d \<and> mget (sy_tasks (dv_sys (dg_vars d))) ''t1'' = Some st \<and>
     es_gate st = ''ok'' \<and> ''mid'' \<in> set (es_completed st)"
proof -
  obtain ri d0 where s: "late_setup = (ri, d0)" by fastforce
  obtain d' n' where d': "late_path (late_schedule @ [''ask'']) = Some d'" "mget (dg_nodes d') ''ask'' = Some n'" "dn_status n' = ''paused''"
    using late_paths(3) by auto
  then obtain d where d: "dag_path demo_dag_env ri late_schedule d0 = Some d" "dag_advance demo_dag_env ri ''ask'' d = Some d'"
    by (auto simp: late_path_def s dag_path_snoc split: option.splits)
  then have p: "late_path late_schedule = Some d" by (simp add: late_path_def s)
  obtain n where n: "mget (dg_nodes d) ''ask'' = Some n" "dn_status n = ''running''" using late_paths(1) p by auto
  obtain m where m: "mget (dg_nodes d) ''mid'' = Some m" "dn_status m = ''success''" using late_paths(2) p by auto
  have "dv_exec (dg_vars d0) = None"
    using s by (auto simp: late_setup_def dag_setup_def Let_def load_state_def demo_sys_def demo_dag_env_def demo_env_def)
  then have c: "deps_closed (dag_completed (dv_exec (dg_vars d0))) (dag_nodes (pl_steps late_gate))"
    by (simp add: dag_completed_def demo_deps_closed)
  have "ps_human_gate (dn_step n) = ''ok''" using late_paths(4) p n(1) by auto
  with dag_pause_record_complete [OF s [unfolded late_setup_def] c dag_path_reach [OF d(1)] d(2) n(1) _ d'(2,3)] n(2) d'(1) m show ?thesis
    by fastforce
qed

end
