(* ===== verification/Verifier_Props.thy ===== *)
theory Verifier_Props
  imports Verifier_Handlers Dag_Props Linear_Props
begin

text \<open>
  The properties of the verifier's handlers: a dangerous tool waits for a person from the message
  that starts a run on, a decision other than an approval ends the run, a callback only resumes the
  run that waits for its token, and an expired wait is closed.
\<close>

subsection \<open>The manifest\<close>

context effect_pred
begin

lemma ext_manifest: "ensure_manifest ve i se it p ps ex sy = (sy', st, r) \<Longrightarrow> ext P sy sy'"
  by (auto simp: ensure_manifest_def Let_def split: sum.splits prod.splits option.splits if_splits
      intro: ext_save' ext_trans [OF ext_save' ext_log])

end

lemmas ensure_manifest_quiet = silent.ext_manifest

lemma save_state_tasks: "save_state ve st sy = (sy', st', r) \<Longrightarrow>
    (sy_tasks sy' = sy_tasks sy \<or> sy_tasks sy' = mput (sy_tasks sy) (es_id st) (exec_norm (stamp_created (now_of ve sy) st)))"
  by (auto simp: save_state_def Let_def next_tick_def emit_def stamp_created_def split: if_splits option.splits)

lemma log_lifecycle_tasks: "log_lifecycle ve st ph oc d sy = (sy', r) \<Longrightarrow> sy_tasks sy' = sy_tasks sy"
  by (auto simp: log_lifecycle_def Let_def emit_def next_tick_def split: option.splits)

text \<open>A record that has passed no step and no gate.\<close>

definition unstarted :: "exec_state \<Rightarrow> bool" where
  "unstarted st = (es_completed st = [] \<and> es_gate st = '''')"

definition unstarted_task :: "string \<Rightarrow> sys \<Rightarrow> bool" where
  "unstarted_task i sy = (\<forall>st. mget (sy_tasks sy) i = Some st \<longrightarrow> unstarted st)"

lemma unstarted_norm [simp]: "unstarted (exec_norm (stamp_created now st)) = unstarted st"
  by (simp add: unstarted_def exec_norm_def stamp_created_def)

lemma ensure_manifest_tasks:
  assumes "ensure_manifest ve i se it p ps ex sy = (sy', st, r)" "manifest_record i se it p ex = st0"
  shows "sy_tasks sy' = sy_tasks sy \<or> (\<exists>s. sy_tasks sy' = mput (sy_tasks sy) (es_id st0) s \<and>
    es_completed s = es_completed st0 \<and> es_gate s = es_gate st0)"
proof -
  have save: "sy_tasks sy2 = sy_tasks sy \<or> (\<exists>s. sy_tasks sy2 = mput (sy_tasks sy) (es_id st0) s \<and>
      es_completed s = es_completed st0 \<and> es_gate s = es_gate st0)"
    if "save_state ve (st0\<lparr>es_pipeline := a, es_version := b, es_snapshot := c, es_input_digest := d, es_params := e\<rparr>) sy =
      (sy2, st2, r2)" for a b c d e sy2 st2 r2
    using save_state_tasks [OF that] by (auto simp: exec_norm_def stamp_created_def)
  show ?thesis
    using assms(1) unfolding ensure_manifest_def Let_def assms(2)
    by (auto split: sum.splits prod.splits option.splits if_splits dest!: save log_lifecycle_tasks)
qed

lemma ensure_manifest_unstarted:
  assumes "ensure_manifest ve i se it p ps ex sy = (sy', st, r)" "unstarted_task i sy"
    and "\<forall>s. ex = Some s \<longrightarrow> unstarted s"
  shows "unstarted_task i sy'"
proof -
  have "unstarted (manifest_record i se it p ex)"
    using assms(3) by (simp add: unstarted_def zero_exec_def manifest_record_def split: option.splits)
  with ensure_manifest_tasks [OF assms(1) refl] assms(2) show ?thesis
    by (auto simp: unstarted_task_def unstarted_def split: if_splits)
qed

subsection \<open>A new run and its gates\<close>

text \<open>What a context or a report leaves alone.\<close>

lemma run_context_same: "run_context i a sy = (sy', ctx) \<Longrightarrow>
    sy_trace sy' = sy_trace sy \<and> sy_tasks sy' = sy_tasks sy \<and> sy_bus sy' = sy_bus sy"
  by (auto simp: run_context_def new_task_context_def Let_def split: option.splits prod.splits)

lemma report_run_same: "noncall P \<Longrightarrow> ext P sy (report_run ve f i a d sy) \<and> sy_tasks (report_run ve f i a d sy) = sy_tasks sy"
  by (simp add: report_run_def ext_def emit_def next_tick_def noncall_simps)

lemma load_state_unstarted:
  "load_state ve i sy = (sy', Inr st) \<Longrightarrow> unstarted_task i sy \<Longrightarrow> unstarted_task i sy' \<and> (\<forall>s. st = Some s \<longrightarrow> unstarted s)"
  by (auto simp: load_state_def unstarted_task_def next_tick_def split: option.splits)

text \<open>A message that starts a run reaches the executor or only reports an error.\<close>

lemma handle_run_cases:
  assumes "noncall P" "unstarted_task i sy" "get_string (ms_payload msg) ''id'' = Some i"
    and "mget (ms_payload msg) ''pipeline'' = Some (PPipe p)"
    and run: "\<And>session intent language ctx base sy1. unstarted_task i sy1 \<Longrightarrow>
      ext P sy1 (fst (run_executor ve sched p i session intent language ctx [] base sy1))"
  shows "ext P sy (fst (handle_run_pipeline ve sched msg sy))"
proof (cases "get_string (ms_payload msg) ''intent''")
  case None
  with assms(3) show ?thesis by (simp add: handle_run_pipeline_def Let_def)
next
  case (Some intent)
  have P: "effect_pred P" using assms(1) by (simp add: effect_pred_def)
  let ?base = "base_params_of (mget (ms_payload msg) ''params'')" and ?session = "get_string0 (ms_payload msg) ''session_id''"
  obtain sy1 r where l: "load_state ve i sy = (sy1, r)" by fastforce
  have e1: "ext P sy sy1" using effect_pred.ext_load [OF P l] .
  show ?thesis
  proof (cases r)
    case (Inl err)
    with Some assms(3,4) l show ?thesis
      by (simp add: handle_run_pipeline_def Let_def ext_trans [OF e1 effect_pred.ext_store_result' [OF P]])
  next
    case (Inr st)
    note u1 = load_state_unstarted [OF l [unfolded Inr] assms(2)]
    obtain sy2 st2 err where m: "ensure_manifest ve i ?session intent p ?base st sy1 = (sy2, st2, err)" by (metis surj_pair)
    have e2: "ext P sy sy2"
      by (rule ext_trans [OF e1 effect_pred.ext_manifest [OF P m]])
    have u2: "unstarted_task i sy2" using ensure_manifest_unstarted [OF m] u1 by blast
    show ?thesis
    proof (cases err)
      case None
      let ?ai = "trim_space (pl_ai_system p)"
      obtain sy3 ctx where c: "run_context i ?ai sy2 = (sy3, ctx)" by fastforce
      let ?sy4 = "report_run ve (case st of None \<Rightarrow> True | Some s \<Rightarrow> es_version s = '''') i ?ai
        (get_string0 (ms_payload msg) ''decision_id'') sy3"
      have "unstarted_task i ?sy4"
        using u2 run_context_same [OF c] report_run_same [OF assms(1), of sy3] by (simp add: unstarted_task_def)
      moreover have "ext P sy ?sy4"
      proof (rule ext_trans [OF e2 ext_trans])
        show "ext P sy2 sy3" by (rule ext_trace) (simp_all add: run_context_same [OF c])
        show "ext P sy3 ?sy4" by (rule report_run_same [OF assms(1), THEN conjunct1])
      qed
      ultimately show ?thesis
        using Some assms(3,4) l Inr m None c ext_trans [OF _ run]
        by (simp add: handle_run_pipeline_def Let_def)
    next
      case (Some e)
      with \<open>get_string (ms_payload msg) ''intent'' = Some intent\<close> assms(3,4) l Inr m show ?thesis
        by (simp add: handle_run_pipeline_def Let_def ext_trans [OF e2 effect_pred.ext_fail_audit [OF P]])
    qed
  qed
qed

lemma linear_run_gate:
  assumes "unstarted_task i sy" "g < length (pl_steps p)" "ps_human_gate (pl_steps p ! g) \<notin> {'''', ''await_callback''}"
    and "ps_when (pl_steps p ! g) = ''''" "g \<le> j"
  shows "ext (\<lambda>e. is_call e \<longrightarrow> call_index e \<noteq> j) sy (execute_linear ve p i session intent language ctx results base sy)"
proof -
  obtain ri lv where s: "lin_setup ve p i session intent language ctx results base sy = (ri, lv)" by fastforce
  have "sy_tasks (ca_sys (alloc_callbacks ve (pl_steps p) (mput (mputs [] base) ''trace_id'' (GStr i)) sy)) = sy_tasks sy"
    by (simp add: alloc_callbacks_sys)
  then have "ln_exec lv = None \<or> ln_exec lv = mget (sy_tasks sy) i"
    using s by (auto simp: lin_setup_def Let_def load_state_def split: prod.splits option.splits)
  with assms(1) have "gate_in {'''', ''await_callback''} lv" "start_index (ln_exec lv) = 0"
    by (auto simp: gate_in_def start_index_def unstarted_task_def unstarted_def split: option.splits)
  with execute_linear_gate [OF s, of "{'''', ''await_callback''}" g] assms(2-4) show ?thesis
    by (auto elim!: ext_mono) (use assms(5) in fastforce)
qed

text \<open>
  C1: from the message that starts a run on, a dangerous tool waits for a person. In a loaded
  configuration, take a pipeline whose steps have ids and whose gates are plain gates, without a
  condition and not on an agent step; a step of it that runs a dangerous tool and states no reason
  against an approval is not called by \<open>handleRunPipeline\<close> for a task that has passed no step yet,
  neither in a linear nor in a parallel run, whatever the schedule and the environment do.
\<close>

theorem dangerous_tool_waits_for_person:
  assumes "load_from_dir e dir = Inr cfg" "mget (cf_pipelines cfg) name = Some p"
    and "\<forall>s \<in> set (pl_steps p). ps_id s \<noteq> '''' \<and> (ps_human_gate s \<noteq> '''' \<longrightarrow>
      ps_agent s = '''' \<and> ps_when s = '''' \<and> ps_human_gate s \<noteq> ''await_callback'')"
    and "j < length (pl_steps p)" "mget (cf_tools cfg) (ps_tool (pl_steps p ! j)) = Some t"
    and "tl_mode t = ''dangerous''" "blank (ps_no_approval_reason (pl_steps p ! j))"
    and "get_string (ms_payload msg) ''id'' = Some i" "mget (ms_payload msg) ''pipeline'' = Some (PPipe p)"
    and "\<forall>st. mget (sy_tasks sy) i = Some st \<longrightarrow> es_completed st = [] \<and> es_gate st = ''''"
  shows "\<exists>es. sy_trace (fst (handle_run_pipeline ve sched msg sy)) = sy_trace sy @ es \<and> j \<notin> set (calls es)"
proof -
  let ?P = "\<lambda>e. is_call e \<longrightarrow> call_index e \<noteq> j"
  have run: "ext ?P sy1 (fst (run_executor ve sched p i session intent language ctx [] base sy1))"
    if u: "unstarted_task i sy1" for session intent language ctx base sy1
  proof (cases "pl_mode p = ''dag''")
    case True
    have "ext ?P sy1 (fst (execute_dag ve sched p i session intent language ctx [] base sy1))"
      by (rule dag_dangerous_quiet [OF assms(1,2) True _ assms(4-7)])
        (use assms(3) u in \<open>auto simp: unstarted_task_def unstarted_def\<close>)
    with True show ?thesis by (simp add: run_executor_def)
  next
    case False
    have "gate_before p j"
      using load_from_dir_safe [OF assms(1)] assms(2,4-7) by (auto simp: validate_pipeline_safety_None_iff)
    with False obtain g where g: "g < j" "ps_human_gate (pl_steps p ! g) \<noteq> ''''" by (auto simp: gate_before_def)
    with assms(3,4) have "pl_steps p ! g \<in> set (pl_steps p)" by simp
    with g assms(3,4) have "ext ?P sy1 (execute_linear ve p i session intent language ctx [] base sy1)"
      by (intro linear_run_gate [OF u, of g]) auto
    with False show ?thesis by (simp add: run_executor_def)
  qed
  have "ext ?P sy (fst (handle_run_pipeline ve sched msg sy))"
    by (rule handle_run_cases [OF _ _ assms(8,9) run])
      (use assms(10) in \<open>auto simp: noncall_def unstarted_task_def unstarted_def\<close>)
  then show ?thesis by (force simp: ext_def calls_def list_all_iff)
qed

definition demo_message :: message where
  "demo_message = \<lparr>ms_type = ''run_pipeline'', ms_payload = [(''id'', PS ''t1''), (''intent'', PS ''pay''),
     (''pipeline'', PPipe demo_pipeline)]\<rparr>"

lemma dangerous_tool_waits_for_person_witness:
  "2 \<notin> set (calls (sy_trace (fst (handle_run_pipeline demo_dag_env (\<lambda>m. m) demo_message (demo_sys [])))))"
  using dangerous_tool_waits_for_person [OF demo_loads, of "''pay''" demo_pipeline 2 demo_transfer demo_message "''t1''"
      "demo_sys []" demo_dag_env "\<lambda>m. m"]
  by (simp add: demo_config_def demo_pipeline_def demo_transfer_def zero_step_def zero_pipeline_def
      empty_config_def numeral_2_eq_2 blank_def demo_sys_def demo_message_def get_string_def)

subsection \<open>Human decisions\<close>

lemma json_ok_mput: "json_ok (GObj m) \<Longrightarrow> json_ok v \<Longrightarrow> json_ok (GObj (mput m k v))"
  by (induction m) auto

lemma reject_state_ok: "exec_json_ok st \<Longrightarrow> exec_json_ok (stamp_created now (reject_state by (record_decision d st)))"
  by (auto simp: exec_json_ok_def reject_state_def record_decision_def stamp_created_def cb_map_def rejected_data_def
      intro!: json_ok_mput simp del: json_ok.simps(3)) (simp_all add: rejected_data_def)

lemma save_state_ok:
  "exec_json_ok (stamp_created (now_of ve sy) st) \<Longrightarrow> we_save ve (sy_tick sy) = None \<Longrightarrow>
    save_state ve st sy = (emit (ESave (stamp_created (now_of ve sy) st))
      ((next_tick sy)\<lparr>sy_tasks := mput (sy_tasks sy) (es_id st) (exec_norm (stamp_created (now_of ve sy) st))\<rparr>),
      stamp_created (now_of ve sy) st, None)"
  by (simp add: save_state_def Let_def stamp_created_def next_tick_def)

lemma log_lifecycle_same: "sy_tasks (fst (log_lifecycle ve st ph oc d sy)) = sy_tasks sy"
  by (cases "log_lifecycle ve st ph oc d sy") (auto dest: log_lifecycle_tasks)

lemma store_result_same [simp]: "sy_tasks (store_result i r sy) = sy_tasks sy"
    "get_result i (store_result i r sy) = Some r"
  by (auto simp: store_result_def observe_run_def get_result_def emit_def Let_def split: option.splits)

lemma decided_state_simps [simp]:
  "es_id (reject_state by (record_decision d st)) = es_id st" "es_status (reject_state by st) = ''rejected''"
  "es_gate (reject_state by st) = ''''" "es_cb_token (reject_state by st) = ''''"
  "es_completed (reject_state by (record_decision d st)) = es_completed st" "es_gate (record_decision d st) = es_gate st"
  by (simp_all add: reject_state_def record_decision_def)

lemma stored_simps [simp]: "es_status (exec_norm (stamp_created t st)) = es_status st" "es_gate (exec_norm (stamp_created t st)) = es_gate st"
    "es_cb_token (exec_norm (stamp_created t st)) = es_cb_token st" "es_completed (exec_norm (stamp_created t st)) = es_completed st"
    "es_deadline (exec_norm (stamp_created t st)) = es_deadline st"
  by (simp_all add: exec_norm_def stamp_created_def)

definition demo_decision :: "string \<Rightarrow> message" where
  "demo_decision d = \<lparr>ms_type = ''human_decision'', ms_payload = [(''id'', PS ''t1''), (''decision'', PS d)]\<rparr>"

text \<open>
  a run does not go on with another pipeline than it began with. If the digest of the pipeline,
  with the tools and agents it uses, differs from the one recorded when the run started, an approval
  calls nothing and the run ends with an error.
\<close>

theorem changed_pipeline_not_resumed:
  assumes "get_string (ms_payload msg) ''id'' = Some (es_id st)" "get_string (ms_payload msg) ''decision'' = Some ''approved''"
    and "mget (sy_tasks sy) (es_id st) = Some st" "\<And>n. we_load ve n = None"
    and "mget (cf_pipelines (we_cfg ve)) (es_pipeline st) = Some pipe"
    and "build_pipeline_snapshot (we_lib ve) pipe (we_cfg ve) = Inr (snapshot, version)" "es_version st \<notin> {'''', version}"
  shows "\<exists>sy' r es. handle_human_decision ve sched msg sy = (sy', True) \<and> get_result (es_id st) sy' = Some r \<and>
    rs_status r = ''error'' \<and> sy_trace sy' = sy_trace sy @ es \<and> calls es = []"
proof -
  let ?by = "get_string0 (ms_payload msg) ''decided_by''"
  let ?sy2 = "fst (log_lifecycle ve (Some st) ''human.decision'' ''approved'' [(''gate'', GStr (es_gate st)), (''decided_by'', GStr ?by)] (next_tick sy))"
  obtain sy3 st' err where s: "save_state ve (record_decision ''approved'' st) ?sy2 = (sy3, st', err)" by (metis surj_pair)
  have st': "es_id st' = es_id st" "es_pipeline st' = es_pipeline st" "es_version st' = es_version st"
    using s by (auto simp: save_state_def Let_def stamp_created_def record_decision_def split: if_splits option.splits)
  have h: "handle_human_decision ve sched msg sy = (case err of Some _ \<Rightarrow> (store_error (es_id st) ''cannot persist execution state'' sy3, True)
      | None \<Rightarrow> resume_from_state ve sched st' sy3)"
    using assms(1-4) s by (simp add: handle_human_decision_def Let_def load_state_def split: option.splits)
  have e3: "ext (\<lambda>e. \<not> is_call e) sy sy3"
    by (rule ext_trans [OF _ ext_trans [OF silent.ext_log_fst silent.ext_save' [OF s]]]) (simp add: ext_trace)
  have error: "\<exists>r. get_result i (store_error i e sy) = Some r \<and> rs_status r = ''error''" for i e sy
    by (simp add: store_error_def event_def emit_def get_result_def store_result_def err_result_def Let_def)
  have failed: "\<exists>r. get_result i (fst (fail_audit ve (Some s) i e sy)) = Some r \<and> rs_status r = ''error''" for s i e sy
    by (simp add: fail_audit_def Let_def err_result_def split: prod.splits)
  show ?thesis
  proof (cases err)
    case None
    let ?msg = "''pipeline definition changed during execution (recorded '' @ es_version st @ '', current '' @ version @
      ''); refusing non-reproducible resume''"
    have r: "resume_from_state ve sched st' sy3 = (fst (fail_audit ve (Some st') (es_id st) ?msg sy3), True)"
      using assms(5-7) st' by (simp add: resume_from_state_def ensure_manifest_def manifest_record_def Let_def)
    obtain es where "sy_trace (fst (fail_audit ve (Some st') (es_id st) ?msg sy3)) = sy_trace sy @ es" "list_all (\<lambda>e. \<not> is_call e) es"
      using ext_trans [OF e3 silent.ext_fail_audit] unfolding ext_def by blast
    with h None r failed [of "es_id st" st' ?msg sy3] show ?thesis by (auto simp: calls_quiet)
  next
    case (Some e)
    obtain es where "sy_trace (store_error (es_id st) ''cannot persist execution state'' sy3) = sy_trace sy @ es" "list_all (\<lambda>e. \<not> is_call e) es"
      using ext_trans [OF e3 silent.ext_store_error] unfolding ext_def by blast
    with h Some error show ?thesis by (auto simp: calls_quiet)
  qed
qed

definition demo_pay_record :: exec_state where
  "demo_pay_record = demo_dag_record\<lparr>es_pipeline := ''pay''\<rparr>"

lemma demo_snapshot: "\<exists>s v. build_pipeline_snapshot (we_lib demo_dag_env) demo_pipeline (we_cfg demo_dag_env) = Inr (s, v) \<and> v \<noteq> ''v1''"
proof -
  have "case build_pipeline_snapshot (we_lib demo_dag_env) demo_pipeline (we_cfg demo_dag_env) of
      Inl _ \<Rightarrow> False | Inr (s, v) \<Rightarrow> v \<noteq> ''v1''" by code_simp
  then show ?thesis by (auto split: sum.splits)
qed

lemma changed_pipeline_not_resumed_witness:
  "\<exists>sy'. handle_human_decision demo_dag_env (\<lambda>m. m) (demo_decision ''approved'') (demo_sys [(''t1'', demo_pay_record)]) = (sy', True) \<and>
     calls (sy_trace sy') = []"
proof -
  obtain s v where "build_pipeline_snapshot (we_lib demo_dag_env) demo_pipeline (we_cfg demo_dag_env) = Inr (s, v)" "v \<noteq> ''v1''"
    using demo_snapshot by blast
  with changed_pipeline_not_resumed [of "demo_decision ''approved''" demo_pay_record "demo_sys [(''t1'', demo_pay_record)]"
      demo_dag_env demo_pipeline s v "\<lambda>m. m"] show ?thesis
    by (auto simp: demo_decision_def get_string_def demo_sys_def demo_dag_env_def demo_env_def demo_pay_record_def
        demo_dag_record_def zero_exec_def demo_config_def)
qed

subsection \<open>Callbacks\<close>

lemma list_states_parts: "list_states ve sy = (sy1, Inr sts) \<Longrightarrow>
    sy_trace sy1 = sy_trace sy \<and> sy_bus sy1 = sy_bus sy \<and> sy_tasks sy1 = sy_tasks sy \<and> sy_results sy1 = sy_results sy \<and>
    set sts = snd ` set (sy_tasks sy)"
  by (cases "we_load ve (sy_tick sy)") (auto simp: list_states_def next_tick_def exchange_sort_set simp flip: set_map)

lemma find_callback_same: "find_callback ve token sts sy = (sy', r) \<Longrightarrow>
    sy_trace sy' = sy_trace sy \<and> sy_bus sy' = sy_bus sy \<and> sy_tasks sy' = sy_tasks sy \<and> sy_results sy' = sy_results sy"
  by (induction sts arbitrary: sy) (auto simp: next_tick_def Let_def split: if_splits)

lemma find_callback_Some: "find_callback ve token sts sy = (sy', Some st) \<Longrightarrow>
    st \<in> set sts \<and> awaits_token token st \<and> (\<exists>n. \<not> too_late (we_now ve n) st)"
proof (induction sts arbitrary: sy)
  case (Cons s sts)
  then show ?case by (fastforce simp: Let_def now_of_def split: if_splits)
qed simp

text \<open>
  a callback only concerns the run that waits for its token. If every record that waits for the
  token of the message has missed its deadline without an answer, and so in particular when no
  record waits for it, the message changes nothing.
\<close>

theorem callback_needs_waiting_token:
  assumes "\<forall>(k, st) \<in> set (sy_tasks sy). awaits_token (get_string0 (ms_payload msg) ''token'') st \<longrightarrow>
    (\<forall>n. too_late (we_now ve n) st)"
  shows "\<exists>sy'. handle_callback ve sched msg sy = (sy', True) \<and> sy_trace sy' = sy_trace sy \<and> sy_tasks sy' = sy_tasks sy \<and>
    sy_results sy' = sy_results sy"
proof (cases "get_string0 (ms_payload msg) ''token'' = ''''")
  case True
  then show ?thesis by (simp add: handle_callback_def)
next
  case False
  obtain sy1 r where l: "list_states ve sy = (sy1, r)" by fastforce
  show ?thesis
  proof (cases r)
    case (Inl err)
    with l False show ?thesis by (auto simp: handle_callback_def Let_def list_states_def next_tick_def split: option.splits)
  next
    case (Inr sts)
    note p = list_states_parts [OF l [unfolded Inr]]
    obtain sy2 r2 where f: "find_callback ve (get_string0 (ms_payload msg) ''token'') sts sy1 = (sy2, r2)" by fastforce
    have "r2 = None"
    proof (cases r2)
      case (Some st)
      with find_callback_Some f p assms show ?thesis by fastforce
    qed simp
    with l Inr f False p find_callback_same [OF f] show ?thesis by (simp add: handle_callback_def Let_def)
  qed
qed

lemma resume_context_same: "resume_context ve i sy = (sy', ctx) \<Longrightarrow>
    sy_trace sy' = sy_trace sy \<and> sy_tasks sy' = sy_tasks sy \<and> sy_bus sy' = sy_bus sy"
  by (auto simp: resume_context_def new_task_context_def next_tick_def Let_def split: option.splits)

text \<open>A resumed linear run continues with the first step that the stored record does not list.\<close>

lemma resume_linear:
  assumes "mget (cf_pipelines (we_cfg ve)) (es_pipeline st) = Some pipe" "pl_mode pipe \<noteq> ''dag''"
    and "\<And>n. we_load ve n = None" "mget (sy_tasks sy) (es_id st) = Some s" "es_completed s = es_completed st"
  shows "\<exists>sy' es. resume_from_state ve sched st sy = (sy', True) \<and> sy_trace sy' = sy_trace sy @ es \<and>
    announced ve (pl_steps pipe) es \<and> sorted (calls es) \<and> set (calls es) \<subseteq> {length (es_completed st)..<length (pl_steps pipe)}"
proof -
  let ?i = "es_id st"
  let ?params = "string_map_to_any (case es_params st of None \<Rightarrow> [] | Some p \<Rightarrow> p)"
  obtain sy1 st1 err where m: "ensure_manifest ve ?i (es_session st) (es_intent st) pipe ?params (Some st) sy = (sy1, st1, err)"
    by (metis surj_pair)
  have quiet: "announced ve (pl_steps pipe) es \<and> sorted (calls es) \<and> set (calls es) \<subseteq> A" if "list_all (\<lambda>e. \<not> is_call e) es" for es A
    using that by (auto simp: calls_quiet announced_def list_all_length)
  show ?thesis
  proof (cases err)
    case (Some e)
    have "ext (\<lambda>e. \<not> is_call e) sy (fst (fail_audit ve st1 ?i e sy1))"
      by (rule ext_trans [OF ensure_manifest_quiet [OF m] silent.ext_fail_audit])
    with Some m assms(1) quiet show ?thesis by (simp add: resume_from_state_def Let_def ext_def) blast
  next
    case None
    obtain sy2 ctx where c: "resume_context ve ?i sy1 = (sy2, ctx)" by fastforce
    let ?sy3 = "mark_run_start ve ?i sy2"
    obtain es1 where es1: "sy_trace sy1 = sy_trace sy @ es1" "list_all (\<lambda>e. \<not> is_call e) es1"
      using ensure_manifest_quiet [OF m] by (auto simp: ext_def)
    obtain s' where s': "mget (sy_tasks sy1) ?i = Some s'" "es_completed s' = es_completed st"
      using ensure_manifest_tasks [OF m refl] assms(4,5) by (auto simp: manifest_record_def)
    have "mget (sy_tasks ?sy3) ?i = Some s'" using s'(1) resume_context_same [OF c] by (simp add: mark_run_start_def next_tick_def)
    from execute_linear_announced [OF this assms(3), of pipe "es_session st" "es_intent st" "''es''" ctx "es_results st" ?params]
    obtain es2 where es2: "sy_trace (execute_linear ve pipe ?i (es_session st) (es_intent st) ''es'' ctx (es_results st) ?params ?sy3) =
        sy_trace sy1 @ es2" "announced ve (pl_steps pipe) es2" "sorted (calls es2)"
      "set (calls es2) \<subseteq> {length (es_completed st)..<length (pl_steps pipe)}"
      using resume_context_same [OF c] s'(2) by auto
    have "announced ve (pl_steps pipe) (es1 @ es2)" using announced_append quiet [OF es1(2)] es2(2) by blast
    with es1 es2 None m c assms(1,2) show ?thesis
      by (simp add: resume_from_state_def Let_def run_executor_def calls_quiet)
  qed
qed

lemma save_state_id: "save_state ve st sy = (sy', st', r) \<Longrightarrow> es_id st' = es_id st \<and> es_pipeline st' = es_pipeline st \<and>
    es_completed st' = es_completed st \<and> (r = None \<longrightarrow> (\<exists>s. mget (sy_tasks sy') (es_id st) = Some s \<and> es_completed s = es_completed st))"
  by (auto simp: save_state_def Let_def stamp_created_def exec_norm_def emit_def split: if_splits option.splits)

lemma nothing_called: "announced ve steps [] \<and> sorted (calls []) \<and> set (calls []) \<subseteq> A"
  by (simp add: announced_def calls_def)

lemma silent_then:
  assumes "ext (\<lambda>e. \<not> is_call e) sy sy1" "sy_trace sy2 = sy_trace sy1 @ es"
    and "announced ve steps es \<and> sorted (calls es) \<and> set (calls es) \<subseteq> A"
  shows "\<exists>es. sy_trace sy2 = sy_trace sy @ es \<and> announced ve steps es \<and> sorted (calls es) \<and> set (calls es) \<subseteq> A"
proof -
  obtain es1 where e: "sy_trace sy1 = sy_trace sy @ es1" "list_all (\<lambda>e. \<not> is_call e) es1" using assms(1) by (auto simp: ext_def)
  then have "announced ve steps es1" by (auto simp: announced_def list_all_length)
  with e assms(2,3) announced_append show ?thesis by (auto simp: calls_quiet)
qed

lemmas silent_end = silent_then [where es = "[]", OF _ _ nothing_called, simplified]

definition demo_lin_env :: env where
  "demo_lin_env = demo_env (demo_cfg [''crm'', ''pay''] [demo_pipe]) demo_tool"

definition demo_await :: exec_state where
  "demo_await = demo_record\<lparr>es_pipeline := ''refund'', es_gate := ''await_callback'', es_cb_token := ''tok'', es_completed := [''crm'']\<rparr>"

definition demo_callback :: message where
  "demo_callback = \<lparr>ms_type = ''callback_received'', ms_payload = [(''token'', PS ''tok''), (''data'', PVal (GObj []))]\<rparr>"

lemma demo_lin_env_simps [simp]: "we_load demo_lin_env = (\<lambda>_. None)" "we_save demo_lin_env = (\<lambda>_. None)"
    "we_audit demo_lin_env = (\<lambda>_. None)" "mget (cf_pipelines (we_cfg demo_lin_env)) ''refund'' = Some demo_pipe"
    "pl_mode demo_pipe = ''''"
  by (simp_all add: demo_lin_env_def demo_env_def demo_cfg_def demo_pipe_def zero_pipeline_def)

lemma callback_needs_waiting_token_witness:
  "\<exists>sy'. handle_callback demo_lin_env (\<lambda>m. m) demo_callback (demo_sys [(''t1'', demo_record)]) = (sy', True) \<and> sy_trace sy' = []"
  using callback_needs_waiting_token [of "demo_sys [(''t1'', demo_record)]" demo_callback demo_lin_env "\<lambda>m. m"]
  by (auto simp: demo_sys_def demo_record_def zero_exec_def awaits_token_def demo_callback_def get_string0_def get_string_def)

subsection \<open>Expired waits\<close>

lemma exec_ok_time_out: "exec_json_ok st \<Longrightarrow> exec_json_ok (stamp_created now (time_out st))"
  by (simp add: exec_json_ok_def time_out_def stamp_created_def cb_map_def)

lemma expire_one_ok:
  assumes "exec_json_ok st" "\<And>n. we_save ve n = None" "\<And>n. we_audit ve n = None"
  shows "(\<exists>t. sy_tasks (expire_one ve st sy) = mput (sy_tasks sy) (es_id st) (exec_norm (stamp_created t (time_out st)))) \<and>
    get_result (es_id st) (expire_one ve st sy) = Some (err_result ''callback deadline exceeded'') \<and>
    (\<forall>k. k \<noteq> es_id st \<longrightarrow> get_result k (expire_one ve st sy) = get_result k sy) \<and>
    ext (\<lambda>e. \<not> is_call e) sy (expire_one ve st sy)"
proof -
  let ?st = "stamp_created (now_of ve sy) (time_out st)"
  let ?sy1 = "emit (ESave ?st) ((next_tick sy)\<lparr>sy_tasks := mput (sy_tasks sy) (es_id st) (exec_norm ?st)\<rparr>)"
  have s: "save_state ve (time_out st) sy = (?sy1, ?st, None)"
    using save_state_ok [where sy = sy and ve = ve and st = "time_out st"] exec_ok_time_out [OF assms(1)] assms(2)
    by (simp add: time_out_def)
  have i: "es_id ?st = es_id st" by (simp add: stamp_created_def time_out_def)
  let ?sy2 = "store_result (es_id st) (err_result ''callback deadline exceeded'') ?sy1"
  obtain e where g: "log_lifecycle ve (Some ?st) ''callback.timed_out'' ''error'' [(''deadline'', GInt (the (es_deadline st)))] ?sy2 =
      (emit e (next_tick ?sy2), None)" "\<not> is_call e"
    using assms(3) by (simp add: log_lifecycle_def Let_def is_call_def)
  have x: "expire_one ve st sy = event (es_id st) ''Verifier'' ''callback_timeout'' ''Callback deadline exceeded'' (emit e (next_tick ?sy2))"
    by (simp add: expire_one_def s i g(1))
  have "ext (\<lambda>e. \<not> is_call e) sy (expire_one ve st sy)"
  proof -
    have 1: "ext (\<lambda>e. \<not> is_call e) sy ?sy1" by (simp add: ext_def is_call_def)
    have 2: "ext (\<lambda>e. \<not> is_call e) ?sy1 ?sy2" by (rule silent.ext_store_result')
    have 3: "ext (\<lambda>e. \<not> is_call e) ?sy2 sy3" if "log_lifecycle ve (Some ?st) ''callback.timed_out'' ''error''
        [(''deadline'', GInt (the (es_deadline st)))] ?sy2 = (sy3, None)" for sy3 by (rule silent.ext_log [OF that])
    show ?thesis unfolding x by (rule ext_trans [OF 1 ext_trans [OF 2 ext_trans [OF 3 [OF g(1)] silent.ext_event]]])
  qed
  then show ?thesis
    unfolding x by (auto simp: event_def emit_def next_tick_def get_result_def store_result_def observe_run_def Let_def
        split: option.splits)
qed

lemma expire_fold:
  assumes "\<And>n. we_save ve n = None" "\<And>n. we_audit ve n = None"
  shows "distinct (map es_id sts) \<Longrightarrow> \<forall>st \<in> set sts. exec_json_ok st \<Longrightarrow>
    (\<forall>st \<in> set sts. (\<exists>t. mget (sy_tasks (fold (expire_one ve) sts sy)) (es_id st) = Some (exec_norm (stamp_created t (time_out st)))) \<and>
       get_result (es_id st) (fold (expire_one ve) sts sy) = Some (err_result ''callback deadline exceeded'')) \<and>
    (\<forall>k. k \<notin> es_id ` set sts \<longrightarrow> mget (sy_tasks (fold (expire_one ve) sts sy)) k = mget (sy_tasks sy) k \<and>
       get_result k (fold (expire_one ve) sts sy) = get_result k sy) \<and>
    ext (\<lambda>e. \<not> is_call e) sy (fold (expire_one ve) sts sy)"
proof (induction sts arbitrary: sy)
  case (Cons st sts)
  let ?sy = "expire_one ve st sy"
  note one = expire_one_ok [OF _ assms, of st sy]
  from Cons.prems have d: "distinct (map es_id sts)" "\<forall>st \<in> set sts. exec_json_ok st" "es_id st \<notin> es_id ` set sts" by auto
  note ih = Cons.IH [OF d(1,2), of ?sy]
  have o: "(\<exists>t. sy_tasks ?sy = mput (sy_tasks sy) (es_id st) (exec_norm (stamp_created t (time_out st))))"
    "get_result (es_id st) ?sy = Some (err_result ''callback deadline exceeded'')"
    "\<And>k. k \<noteq> es_id st \<Longrightarrow> get_result k ?sy = get_result k sy" "ext (\<lambda>e. \<not> is_call e) sy ?sy"
    using one Cons.prems(2) by auto
  have "ext (\<lambda>e. \<not> is_call e) sy (fold (expire_one ve) sts ?sy)" using ext_trans [OF o(4)] ih by blast
  with o(1-3) ih d(3) show ?case by auto
qed simp

text \<open>
  the scan closes exactly the callback waits that missed their deadline. With a store and a
  journal that work, each record that waits for a callback and whose deadline passed without an
  answer in time is closed as timed out, with an error as its result; every other record and its
  result stay as they are, and nothing is called.
\<close>

theorem expire_closes_missed_waits:
  assumes "distinct (map fst (sy_tasks sy))" "\<forall>(k, st) \<in> set (sy_tasks sy). es_id st = k \<and> exec_json_ok st"
    and "\<And>n. we_load ve n = None" "\<And>n. we_save ve n = None" "\<And>n. we_audit ve n = None"
    and "we_now ve (Suc (sy_tick sy)) = now"
  shows "(\<forall>k st. mget (sy_tasks sy) k = Some st \<longrightarrow> (\<exists>st'. mget (sy_tasks (expire_callbacks ve sy)) k = Some st' \<and>
      (if expired now st
       then es_status st' = ''timed_out'' \<and> es_gate st' = '''' \<and> es_cb_token st' = '''' \<and> es_deadline st' = None \<and>
         get_result k (expire_callbacks ve sy) = Some (err_result ''callback deadline exceeded'')
       else st' = st \<and> get_result k (expire_callbacks ve sy) = get_result k sy))) \<and>
    (\<exists>es. sy_trace (expire_callbacks ve sy) = sy_trace sy @ es \<and> calls es = [])"
proof -
  let ?sts = "exchange_sort (map snd (sy_tasks sy))"
  let ?xs = "filter (expired now) ?sts" and ?sy1 = "next_tick (next_tick sy)"
  have x: "expire_callbacks ve sy = fold (expire_one ve) ?xs ?sy1"
    using assms(3,6) by (simp add: expire_callbacks_def list_states_def now_of_def next_tick_def)
  have keys: "map es_id (map snd (sy_tasks sy)) = map fst (sy_tasks sy)" using assms(2) by auto
  have "mset (map es_id ?sts) = mset (map es_id (map snd (sy_tasks sy)))" by (simp only: mset_map exchange_sort_mset)
  then have "distinct (map es_id ?sts)" using assms(1) keys by (metis mset_eq_imp_distinct_iff)
  then have d: "distinct (map es_id ?xs)" by (rule distinct_map_filter)
  have mem: "st \<in> set ?sts \<longleftrightarrow> mget (sy_tasks sy) (es_id st) = Some st" for st
  proof -
    have "st \<in> set ?sts \<longleftrightarrow> (es_id st, st) \<in> set (sy_tasks sy)" using assms(2) by (force simp: exchange_sort_set)
    then show ?thesis using assms(1) by simp
  qed
  have ok: "\<forall>st \<in> set ?xs. exec_json_ok st" using assms(2) by (auto simp: exchange_sort_set)
  note f = expire_fold [OF assms(4,5) d ok, of ?sy1]
  have same: "sy_tasks ?sy1 = sy_tasks sy" "get_result k ?sy1 = get_result k sy" "sy_trace ?sy1 = sy_trace sy" for k
    by (simp_all add: next_tick_def get_result_def)
  have "\<exists>st'. mget (sy_tasks (expire_callbacks ve sy)) k = Some st' \<and> (if expired now st
       then es_status st' = ''timed_out'' \<and> es_gate st' = '''' \<and> es_cb_token st' = '''' \<and> es_deadline st' = None \<and>
         get_result k (expire_callbacks ve sy) = Some (err_result ''callback deadline exceeded'')
       else st' = st \<and> get_result k (expire_callbacks ve sy) = get_result k sy)" if k: "mget (sy_tasks sy) k = Some st" for k st
  proof -
    have id: "es_id st = k" using k assms(2) by (auto dest: map_of_SomeD)
    show ?thesis
    proof (cases "expired now st")
      case True
      then have "st \<in> set ?xs" using mem [of st] id k by simp
      with f True id show ?thesis unfolding x by (auto simp: time_out_def)
    next
      case False
      have "k \<notin> es_id ` set ?xs"
      proof
        assume "k \<in> es_id ` set ?xs"
        then obtain s where "s \<in> set ?sts" "expired now s" "es_id s = k" by auto
        with mem [of s] k False show False by simp
      qed
      with f False k same show ?thesis unfolding x by auto
    qed
  qed
  moreover have "\<exists>es. sy_trace (expire_callbacks ve sy) = sy_trace sy @ es \<and> calls es = []"
    using f same(3) unfolding x by (auto simp: ext_def calls_quiet)
  ultimately show ?thesis by blast
qed

lemma expire_closes_missed_waits_witness:
  "es_status (the (mget (sy_tasks (expire_callbacks demo_lin_env (demo_sys [(''t1'', demo_await\<lparr>es_deadline := Some 1\<rparr>)]))) ''t1'')) =
    ''timed_out''"
proof -
  let ?st = "demo_await\<lparr>es_deadline := Some 1\<rparr>"
  have "es_id ?st = ''t1''" "exec_json_ok ?st" "expired 2 ?st" "we_now demo_lin_env (Suc 0) = 2"
    by (simp_all add: demo_await_def demo_record_def zero_exec_def exec_json_ok_def cb_map_def expired_def too_late_def
        answered_in_time_def demo_lin_env_def demo_env_def)
  note st = this
  have tasks: "sy_tasks (demo_sys [(''t1'', ?st)]) = [(''t1'', ?st)]" "sy_tick (demo_sys [(''t1'', ?st)]) = 0"
    by (simp_all add: demo_sys_def)
  have "\<exists>st'. mget (sy_tasks (expire_callbacks demo_lin_env (demo_sys [(''t1'', ?st)]))) ''t1'' = Some st' \<and> es_status st' = ''timed_out''"
    using expire_closes_missed_waits [of "demo_sys [(''t1'', ?st)]" demo_lin_env 2, THEN conjunct1, rule_format, of "''t1''" ?st] st tasks
    by auto
  then show ?thesis by auto
qed

end
