(* ===== verification/Resume_Props.thy ===== *)
theory Resume_Props
  imports Verifier_Props
begin

text \<open>
  How a linear run goes on. The first section shows which call comes first when an executor starts at
  a step, the second what an approval or a callback makes of the record of a waiting run; the
  properties then say where a run continues, that a rejection cannot be taken back, and the defect
  that an approval can be used twice.
\<close>

subsection \<open>The first call\<close>

text \<open>The store answers and the journal accepts, always.\<close>

definition works :: "env \<Rightarrow> bool" where
  "works ve \<longleftrightarrow> (\<forall>n. we_load ve n = None \<and> we_save ve n = None \<and> we_audit ve n = None)"

lemma worksD [simp]: "works ve \<Longrightarrow> we_load ve n = None" "works ve \<Longrightarrow> we_save ve n = None" "works ve \<Longrightarrow> we_audit ve n = None"
  by (simp_all add: works_def)

lemma works_log:
  assumes "works ve" "log_lifecycle ve st ph oc d sy = (sy', r)"
  shows "r = None \<and> sy_tasks sy' = sy_tasks sy \<and> ext (\<lambda>e. \<not> is_call e) sy sy'"
proof -
  have "r = None" using assms by (auto simp: log_lifecycle_def Let_def split: option.splits)
  with log_lifecycle_tasks [OF assms(2)] silent.ext_log [OF assms(2)] show ?thesis by simp
qed

lemma works_audit:
  assumes "works ve"
  shows "\<exists>sy. audit_or_fail ve ri ph oc d lv = Next (lv\<lparr>ln_sys := sy\<rparr>) \<and> sy_tasks sy = sy_tasks (ln_sys lv) \<and>
    ext (\<lambda>e. \<not> is_call e) (ln_sys lv) sy"
proof -
  obtain sy r where l: "log_lifecycle ve (ln_exec lv) ph oc d (ln_sys lv) = (sy, r)" by fastforce
  with works_log [OF assms l] show ?thesis by (intro exI [of _ sy]) (simp add: audit_or_fail_def)
qed

text \<open>A step that calls: one without a condition or a gate, that runs a tool of the configuration or an agent.\<close>

definition plain_agent_step :: "config \<Rightarrow> pipeline_step \<Rightarrow> agent_def \<Rightarrow> bool" where
  "plain_agent_step cfg s a = (ps_agent s \<noteq> '''' \<and> mget (cf_agents cfg) (ps_agent s) = Some a \<and> ps_when s = '''' \<and>
     \<not> ps_analyst s \<and> ps_human_gate s = '''')"

definition calling_step :: "config \<Rightarrow> pipeline_step \<Rightarrow> bool" where
  "calling_step cfg s = ((case mget (cf_tools cfg) (ps_tool s) of None \<Rightarrow> False | Some t \<Rightarrow> plain_tool_step cfg s t) \<or>
     (case mget (cf_agents cfg) (ps_agent s) of None \<Rightarrow> False | Some a \<Rightarrow> plain_agent_step cfg s a))"

text \<open>The trace goes on with a call of step \<open>k\<close>.\<close>

definition calls_next :: "nat \<Rightarrow> sys \<Rightarrow> sys \<Rightarrow> bool" where
  "calls_next k sy sy' = (\<exists>es rest. sy_trace sy' = sy_trace sy @ es \<and> calls es = k # rest)"

lemma calls_next_ext:
  assumes "calls_next k sy sy1" "ext P sy1 sy2"
  shows "calls_next k sy sy2"
proof -
  obtain es fs rest where "sy_trace sy1 = sy_trace sy @ es" "calls es = k # rest" "sy_trace sy2 = sy_trace sy1 @ fs"
    using assms by (auto simp: calls_next_def ext_def)
  then show ?thesis unfolding calls_next_def by (intro exI [of _ "es @ fs"]) simp
qed

lemma calls_next_after:
  assumes "ext (\<lambda>e. \<not> is_call e) sy sy1" "calls_next k sy1 sy2"
  shows "calls_next k sy sy2"
proof -
  obtain es fs rest where "sy_trace sy1 = sy_trace sy @ es" "list_all (\<lambda>e. \<not> is_call e) es"
    "sy_trace sy2 = sy_trace sy1 @ fs" "calls fs = k # rest" using assms by (auto simp: calls_next_def ext_def)
  then show ?thesis unfolding calls_next_def by (intro exI [of _ "es @ fs"]) (simp add: calls_quiet)
qed

lemma calls_next_call: "sy_trace sy' = sy_trace sy @ e # es \<Longrightarrow> is_call e \<Longrightarrow> call_index e = k \<Longrightarrow> calls_next k sy sy'"
  by (auto simp: calls_next_def calls_def)

lemma tool_step_form:
  assumes "works ve" "plain_tool_step (we_cfg ve) s t"
  shows "\<exists>sy. ext (\<lambda>e. \<not> is_call e) (ln_sys lv) sy \<and> sy_tasks sy = sy_tasks (ln_sys lv) \<and>
    lin_step ve ri k s lv = lin_tool ve ri k s t (call_params ve (refresh_vars ve ri lv) s) ((refresh_vars ve ri lv)\<lparr>ln_sys := sy\<rparr>)"
proof -
  let ?lv = "refresh_vars ve ri lv"
  have start: "ext (\<lambda>e. \<not> is_call e) (ln_sys lv) (ln_sys ?lv)" "sy_tasks (ln_sys ?lv) = sy_tasks (ln_sys lv)"
    by (simp_all add: ext_def refresh_vars_def Let_def next_tick_def)
  obtain sy where a: "audit_or_fail ve ri ''tool.started'' ''pending'' (started_details ve s (call_params ve ?lv s)) ?lv = Next (?lv\<lparr>ln_sys := sy\<rparr>)"
    "sy_tasks sy = sy_tasks (ln_sys ?lv)" "ext (\<lambda>e. \<not> is_call e) (ln_sys ?lv) sy"
    using works_audit [OF assms(1)] by blast
  have "\<not> has_prefix (ps_tool s) ''system.memory.''" "ps_tool s \<noteq> ''system.save_preference''" "ps_tool s \<noteq> ''system.recall''"
    using assms(2) by (auto simp: plain_tool_step_def has_prefix_iff)
  with a(1) assms(2) have "lin_step ve ri k s lv = lin_tool ve ri k s t (call_params ve ?lv s) (?lv\<lparr>ln_sys := sy\<rparr>)"
    by (simp add: lin_step_def plain_tool_step_def step_should_run_def Let_def lin_invoke_def lin_prepare_def call_params_def)
  with a start ext_trans [OF start(1) a(3)] show ?thesis by auto
qed

lemma tool_step_first:
  assumes "works ve" "plain_tool_step (we_cfg ve) s t"
  shows "calls_next k (ln_sys lv) (ln_sys (flow_lin (lin_step ve ri k s lv)))"
proof -
  let ?p = "call_params ve (refresh_vars ve ri lv) s"
  obtain sy where f: "ext (\<lambda>e. \<not> is_call e) (ln_sys lv) sy"
    "lin_step ve ri k s lv = lin_tool ve ri k s t ?p ((refresh_vars ve ri lv)\<lparr>ln_sys := sy\<rparr>)"
    using tool_step_form [OF assms] by blast
  obtain sy1 r where x: "execute_tool ve (ri_ctx ri) k t (convert_vars (we_ff ve) ?p) s sy = (sy1, r)" by fastforce
  have "\<exists>fs. sy_trace sy1 = sy_trace sy @ ECall k (tl_name t) (convert_vars (we_ff ve) ?p) (tc_task (ri_ctx ri)) # fs"
    by (rule execute_tool_first [OF x]) (use assms(2) in \<open>simp add: plain_tool_step_def\<close>)
  then have "calls_next k sy sy1" by (auto intro!: calls_next_call simp: is_call_def call_index_def)
  moreover have "ext (\<lambda>_. True) sy1 (ln_sys (flow_lin (lin_step ve ri k s lv)))"
    unfolding f(2) by (rule lin_tool_any) (use x in simp)
  ultimately show ?thesis using f(1) calls_next_after calls_next_ext by blast
qed

lemma agent_step_first:
  assumes "works ve" "plain_agent_step (we_cfg ve) s a"
  shows "calls_next k (ln_sys lv) (ln_sys (flow_lin (lin_step ve ri k s lv)))"
proof -
  let ?lv = "refresh_vars ve ri lv" and ?p = "convert_vars (we_ff ve) (call_params ve (refresh_vars ve ri lv) s)"
  let ?who = "[(''step'', GStr (ps_id s)), (''agent'', GStr (ps_agent s))]"
  obtain sy where a: "audit_or_fail ve ri ''tool.started'' ''pending''
      (?who @ [(''decision'', GStr ''invoke'')] @ input_details ve (string_map_to_any ?p)) ?lv = Next (?lv\<lparr>ln_sys := sy\<rparr>)"
    "ext (\<lambda>e. \<not> is_call e) (ln_sys ?lv) sy"
    using works_audit [OF assms(1)] by blast
  obtain sy1 out r where x: "run_agent_step ve (ri_ctx ri) (ri_id ri) k a ?p sy = (sy1, out, r)" by (metis surj_pair)
  let ?sy0 = "emit (EAgent k (ad_name a) ?p (tc_task (ri_ctx ri))) (next_tick sy)"
  have "calls_next k sy ?sy0" by (auto intro!: calls_next_call simp: is_call_def call_index_def)
  moreover have "ext (\<lambda>_. True) ?sy0 sy1"
    using x by (auto simp: run_agent_step_def intro: anyeff.ext_events split: prod.splits)
  moreover have "ext (\<lambda>_. True) sy1 (ln_sys (flow_lin (lin_step ve ri k s lv)))"
  proof (cases r)
    case None
    have "fext (\<lambda>_. True) (?lv\<lparr>ln_sys := sy1\<rparr>) (lin_step ve ri k s lv)"
      using a(1) x assms(2) None
      by (auto simp: lin_step_def plain_agent_step_def step_should_run_def Let_def lin_agent_def
          intro!: fext_bind fext_Next fext_start [OF _ anyeff.fext_audit])
    then show ?thesis by (simp add: fext_def)
  next
    case (Some err)
    have "fext (\<lambda>_. True) (?lv\<lparr>ln_sys := sy1\<rparr>) (lin_step ve ri k s lv)"
      using a(1) x assms(2) Some
      by (auto simp: lin_step_def plain_agent_step_def step_should_run_def Let_def lin_agent_def
          intro!: fext_bind anyeff.fext_stop_failure fext_start [OF _ anyeff.fext_audit])
    then show ?thesis by (simp add: fext_def)
  qed
  moreover have "ext (\<lambda>e. \<not> is_call e) (ln_sys lv) sy" using a(2) by (auto simp: ext_def)
  ultimately show ?thesis using calls_next_after calls_next_ext by blast
qed

lemma calling_step_first:
  assumes "works ve" "calling_step (we_cfg ve) s"
  shows "calls_next k (ln_sys lv) (ln_sys (flow_lin (lin_step ve ri k s lv)))"
  using assms tool_step_first agent_step_first by (auto simp: calling_step_def split: option.splits)

text \<open>
  Where a resumed run is to go on: at the first step the record does not list, or behind it when that
  is the gate the record waits at. It goes on when that step's call is the next one, or, behind the
  last step, when the run is handed to the analyst.
\<close>

definition passed_gate :: "pipeline_step \<Rightarrow> string \<Rightarrow> bool" where
  "passed_gate s gate = (ps_human_gate s = gate \<and> gate \<noteq> '''' \<and> ps_when s = '''' \<and> \<not> ps_analyst s)"

definition resume_step :: "pipeline \<Rightarrow> exec_state \<Rightarrow> nat" where
  "resume_step pipe st = (let k = length (es_completed st) in
     if k < length (pl_steps pipe) \<and> passed_gate (pl_steps pipe ! k) (es_gate st) then Suc k else k)"

definition handed_over :: "sys \<Rightarrow> sys \<Rightarrow> bool" where
  "handed_over sy sy' = (\<exists>es m. sy_trace sy' = sy_trace sy @ es @ [ESend ''analyst'' m] \<and> calls es = [])"

definition goes_on :: "env \<Rightarrow> pipeline \<Rightarrow> nat \<Rightarrow> sys \<Rightarrow> sys \<Rightarrow> bool" where
  "goes_on ve pipe k sy sy' = (if k < length (pl_steps pipe)
     then calling_step (we_cfg ve) (pl_steps pipe ! k) \<longrightarrow> calls_next k sy sy' else handed_over sy sy')"

text \<open>The same of the effects that were added.\<close>

definition proceeds :: "env \<Rightarrow> pipeline \<Rightarrow> nat \<Rightarrow> effect list \<Rightarrow> bool" where
  "proceeds ve pipe k es = (if k < length (pl_steps pipe)
     then calling_step (we_cfg ve) (pl_steps pipe ! k) \<longrightarrow> (\<exists>rest. calls es = k # rest)
     else calls es = [] \<and> (\<exists>m. ESend ''analyst'' m \<in> set es))"

lemma goes_on_proceeds: "goes_on ve pipe k sy sy' \<Longrightarrow> sy_trace sy' = sy_trace sy @ es \<Longrightarrow> proceeds ve pipe k es"
  by (auto simp: goes_on_def proceeds_def calls_next_def handed_over_def calls_def is_call_def split: if_splits)

lemma goes_on_after:
  assumes "ext (\<lambda>e. \<not> is_call e) sy sy1" "goes_on ve pipe k sy1 sy2"
  shows "goes_on ve pipe k sy sy2"
proof (cases "k < length (pl_steps pipe)")
  case True
  with assms(2) calls_next_after [OF assms(1)] show ?thesis by (simp add: goes_on_def)
next
  case False
  obtain es fs m where "sy_trace sy1 = sy_trace sy @ es" "list_all (\<lambda>e. \<not> is_call e) es"
    "sy_trace sy2 = sy_trace sy1 @ fs @ [ESend ''analyst'' m]" "calls fs = []"
    using assms False by (auto simp: goes_on_def handed_over_def ext_def)
  then have "handed_over sy sy2"
    unfolding handed_over_def by (intro exI [of _ "es @ fs"] exI [of _ m]) (simp add: calls_quiet)
  with False show ?thesis by (simp add: goes_on_def)
qed

lemma finish_handed_over: "handed_over (ln_sys lv) (ln_sys (lin_finish ve ri lv))"
  by (auto simp: handed_over_def lin_finish_def send_summarize_def Let_def send_msg_def calls_def is_call_def emit_def next_tick_def)

lemma lin_run_unfold:
  assumes "k < length (pl_steps (ri_pipe ri))"
  shows "lin_run ve ri k lv = (case lin_step ve ri k (pl_steps (ri_pipe ri) ! k) lv of
    Next lv1 \<Rightarrow> lin_run ve ri (Suc k) lv1 | Stop lv1 \<Rightarrow> lv1)"
  using assms by (simp add: lin_run_def drop_enumerate split: flow.splits)

lemma lin_run_ext: "ext (\<lambda>_. True) (ln_sys lv) (ln_sys (lin_run ve ri k lv))"
proof -
  have "ext (\<lambda>_. True) (ln_sys lv) (ln_sys (flow_lin (lin_loop ve ri (drop k (List.enumerate 0 (pl_steps (ri_pipe ri)))) lv)))"
    using lin_loop_any by (simp add: fext_def)
  moreover have "ext (\<lambda>_. True) (ln_sys lv1) (ln_sys (lin_finish ve ri lv1))" for lv1
    using lin_finish_quiet by (rule ext_mono) simp
  ultimately show ?thesis by (auto simp: lin_run_def intro: ext_trans split: flow.splits)
qed

lemma lin_run_goes_on:
  assumes "works ve" "ri_pipe ri = pipe"
  shows "goes_on ve pipe k (ln_sys lv) (ln_sys (lin_run ve ri k lv))"
proof (cases "k < length (pl_steps pipe)")
  case True
  let ?fl = "lin_step ve ri k (pl_steps pipe ! k) lv"
  have "ext (\<lambda>_. True) (ln_sys (flow_lin ?fl)) (ln_sys (lin_run ve ri k lv))"
    using True assms(2) by (cases ?fl) (simp_all add: lin_run_unfold lin_run_ext)
  with True calls_next_ext [OF calling_step_first [OF assms(1)]] show ?thesis by (simp add: goes_on_def)
next
  case False
  then show ?thesis using finish_handed_over assms(2) by (simp add: goes_on_def lin_run_def)
qed

lemma gate_step_passed:
  assumes "passed_gate s (es_gate st)" "ln_exec lv = Some st"
  shows "lin_step ve ri k s lv = Next (refresh_vars ve ri lv)"
  using assms by (simp add: passed_gate_def lin_step_def step_should_run_def Let_def lin_gate_def)

lemma execute_linear_goes_on:
  assumes "works ve" "mget (sy_tasks sy) i = Some st"
  shows "goes_on ve pipe (resume_step pipe st) sy (execute_linear ve pipe i session intent language ctx results base sy)"
proof -
  obtain ri lv where s: "lin_setup ve pipe i session intent language ctx results base sy = (ri, lv)" by fastforce
  have l: "ln_exec lv = Some st" "ri_pipe ri = pipe" "sy_trace (ln_sys lv) = sy_trace sy"
    using lin_setup_loaded [OF s] assms by simp_all
  let ?k = "length (es_completed st)"
  have run: "goes_on ve pipe (resume_step pipe st) (ln_sys lv) (ln_sys (lin_run ve ri ?k lv))"
  proof (cases "?k < length (pl_steps pipe) \<and> passed_gate (pl_steps pipe ! ?k) (es_gate st)")
    case True
    then have "lin_run ve ri ?k lv = lin_run ve ri (Suc ?k) (refresh_vars ve ri lv)"
      using l gate_step_passed [of _ st lv] by (simp add: lin_run_unfold)
    moreover have "ext (\<lambda>e. \<not> is_call e) (ln_sys lv) (ln_sys (refresh_vars ve ri lv))" by (simp add: ext_def)
    ultimately show ?thesis
      using goes_on_after lin_run_goes_on [OF assms(1) l(2)] True by (simp add: resume_step_def)
  next
    case False
    then have "resume_step pipe st = ?k" unfolding resume_step_def Let_def by (rule if_not_P)
    with lin_run_goes_on [OF assms(1) l(2)] show ?thesis by simp
  qed
  then show ?thesis
    using l by (simp add: execute_linear_def s start_index_def goes_on_def calls_next_def handed_over_def split: if_splits)
qed

subsection \<open>The record of a waiting run\<close>

text \<open>The pipeline is still the one the run began with, or the run has recorded none yet.\<close>

definition manifest_current :: "env \<Rightarrow> pipeline \<Rightarrow> exec_state \<Rightarrow> bool" where
  "manifest_current ve pipe st = (case build_pipeline_snapshot (we_lib ve) pipe (we_cfg ve) of
     Inl _ \<Rightarrow> False | Inr (_, version) \<Rightarrow> es_version st \<in> {'''', version})"

definition same_wait :: "exec_state \<Rightarrow> exec_state \<Rightarrow> bool" where
  "same_wait st s = (es_id s = es_id st \<and> es_gate s = es_gate st \<and> es_completed s = es_completed st)"

text \<open>The task's stored record waits where \<open>st\<close> waits, for the pipeline \<open>pipe\<close>.\<close>

definition parked :: "env \<Rightarrow> pipeline \<Rightarrow> exec_state \<Rightarrow> sys \<Rightarrow> bool" where
  "parked ve pipe st sy = (case mget (sy_tasks sy) (es_id st) of None \<Rightarrow> False
     | Some s \<Rightarrow> same_wait st s \<and> es_pipeline s = pl_name pipe \<and> manifest_current ve pipe s \<and> exec_json_ok s \<and> exec_norm s = s)"

lemma exec_ok_stamp [simp]: "exec_json_ok (stamp_created now st) = exec_json_ok st"
  by (simp add: exec_json_ok_def stamp_created_def cb_map_def)

lemma exec_ok_decision [simp]: "exec_json_ok (record_decision d st) = exec_json_ok st"
  by (simp add: exec_json_ok_def record_decision_def cb_map_def)

lemma stamp_simps [simp]:
  "es_id (stamp_created t st) = es_id st" "es_gate (stamp_created t st) = es_gate st" "es_completed (stamp_created t st) = es_completed st"
  "es_pipeline (stamp_created t st) = es_pipeline st" "es_version (stamp_created t st) = es_version st"
  by (simp_all add: stamp_created_def)

lemma works_save:
  assumes "works ve" "exec_json_ok st" "save_state ve st sy = (sy', st', r)"
  shows "r = None \<and> st' = stamp_created (now_of ve sy) st \<and>
    mget (sy_tasks sy') (es_id st) = Some (exec_norm st') \<and> ext (\<lambda>e. \<not> is_call e) sy sy'"
  using save_state_ok [where sy = sy and ve = ve and st = st] assms silent.ext_save' [OF assms(3)]
  by (auto simp: emit_def)

text \<open>What \<open>ensureManifest\<close> writes into a record that has no manifest yet.\<close>

definition with_manifest :: "env \<Rightarrow> pipeline \<Rightarrow> gval gomap \<Rightarrow> gval \<Rightarrow> string \<Rightarrow> exec_state \<Rightarrow> exec_state" where
  "with_manifest ve pipe params snapshot version st = st\<lparr>es_pipeline := pl_name pipe, es_version := version, es_snapshot := snapshot,
     es_input_digest := digest (we_lib ve) (GObj (sanitize_map (we_lib ve) params)),
     es_params := (case es_params st of Some p \<Rightarrow> Some p | None \<Rightarrow> Some (convert_vars (we_ff ve) params))\<rparr>"

lemma with_manifest_simps [simp]:
  "es_id (with_manifest ve pipe params snapshot version st) = es_id st"
  "es_gate (with_manifest ve pipe params snapshot version st) = es_gate st"
  "es_completed (with_manifest ve pipe params snapshot version st) = es_completed st"
  "es_pipeline (with_manifest ve pipe params snapshot version st) = pl_name pipe"
  "es_version (with_manifest ve pipe params snapshot version st) = version"
  "exec_json_ok (with_manifest ve pipe params snapshot version st) = exec_json_ok st"
  by (simp_all add: with_manifest_def exec_json_ok_def cb_map_def)

lemma works_manifest:
  assumes "works ve" "manifest_current ve pipe st" "exec_json_ok st"
    and "ensure_manifest ve i session intent pipe params (Some st) sy = (sy', st', r)"
  shows "r = None \<and> ext (\<lambda>e. \<not> is_call e) sy sy' \<and> (sy_tasks sy' = sy_tasks sy \<or> (\<exists>snapshot version t.
    build_pipeline_snapshot (we_lib ve) pipe (we_cfg ve) = Inr (snapshot, version) \<and> mget (sy_tasks sy') (es_id st) =
      Some (exec_norm (stamp_created t (with_manifest ve pipe params snapshot version st)))))"
proof -
  obtain snapshot version where v: "build_pipeline_snapshot (we_lib ve) pipe (we_cfg ve) = Inr (snapshot, version)"
      "es_version st \<in> {'''', version}"
    using assms(2) by (auto simp: manifest_current_def split: sum.splits)
  note e = silent.ext_manifest [OF assms(4)]
  show ?thesis
  proof (cases "es_version st = ''''")
    case False
    with v assms(4) e show ?thesis by (auto simp: ensure_manifest_def manifest_record_def)
  next
    case True
    let ?st = "with_manifest ve pipe params snapshot version st"
    obtain sy1 st2 r2 where s: "save_state ve ?st sy = (sy1, st2, r2)" by (metis surj_pair)
    have ok: "exec_json_ok ?st" using assms(3) by simp
    note saved = works_save [OF assms(1) ok s]
    obtain sy2 r3 where l: "log_lifecycle ve (Some st2) ''pipeline.started'' ''success''
        (manifest_details version snapshot (es_input_digest st2) (sanitize_map (we_lib ve) params)) sy1 = (sy2, r3)" by fastforce
    have "sy' = sy2 \<and> r = None"
      using assms(4) v True s saved l works_log [OF assms(1) l]
      by (simp add: ensure_manifest_def manifest_record_def Let_def with_manifest_def)
    with saved works_log [OF assms(1) l] v(1) e show ?thesis by auto
  qed
qed

lemma resume_goes_on:
  assumes "works ve" "manifest_current ve pipe st" "exec_json_ok st"
    and "mget (cf_pipelines (we_cfg ve)) (es_pipeline st) = Some pipe" "pl_mode pipe \<noteq> ''dag''"
    and "mget (sy_tasks sy) (es_id st) = Some s" "es_completed s = es_completed st" "es_gate s = es_gate st"
  shows "goes_on ve pipe (resume_step pipe st) sy (fst (resume_from_state ve sched st sy))"
proof -
  let ?i = "es_id st" and ?params = "string_map_to_any (case es_params st of None \<Rightarrow> [] | Some p \<Rightarrow> p)"
  obtain sy1 st1 err where m: "ensure_manifest ve ?i (es_session st) (es_intent st) pipe ?params (Some st) sy = (sy1, st1, err)"
    by (metis surj_pair)
  note ok = works_manifest [OF assms(1-3) m]
  obtain sy2 ctx where c: "resume_context ve ?i sy1 = (sy2, ctx)" by fastforce
  let ?sy3 = "mark_run_start ve ?i sy2"
  obtain s' where s': "mget (sy_tasks sy1) ?i = Some s'" "es_completed s' = es_completed st" "es_gate s' = es_gate st"
    using ensure_manifest_tasks [OF m refl] assms(6-8) by (auto simp: manifest_record_def)
  have t: "mget (sy_tasks ?sy3) ?i = Some s'" using s'(1) resume_context_same [OF c] by (simp add: mark_run_start_def next_tick_def)
  have "ext (\<lambda>e. \<not> is_call e) sy1 ?sy3"
    using resume_context_same [OF c] by (simp add: ext_def mark_run_start_def next_tick_def)
  with ok have e: "ext (\<lambda>e. \<not> is_call e) sy ?sy3" by (blast intro: ext_trans)
  have "resume_step pipe s' = resume_step pipe st" using s' by (simp add: resume_step_def)
  with execute_linear_goes_on [OF assms(1) t, of pipe "es_session st" "es_intent st" "''es''" ctx "es_results st" ?params]
  have "goes_on ve pipe (resume_step pipe st) ?sy3 (fst (resume_from_state ve sched st sy))"
    using m ok c assms(4,5) by (simp add: resume_from_state_def Let_def run_executor_def)
  with e show ?thesis by (rule goes_on_after)
qed

lemma manifest_current_cong: "es_version s = es_version st \<Longrightarrow> manifest_current ve pipe s = manifest_current ve pipe st"
  by (simp add: manifest_current_def split: sum.splits prod.splits)

lemma decision_simps [simp]:
  "es_id (record_decision d st) = es_id st" "es_completed (record_decision d st) = es_completed st"
  "es_pipeline (record_decision d st) = es_pipeline st" "es_version (record_decision d st) = es_version st"
  by (simp_all add: record_decision_def)

lemma norm_simps [simp]:
  "es_id (exec_norm st) = es_id st" "es_completed (exec_norm st) = es_completed st" "es_gate (exec_norm st) = es_gate st"
  "es_pipeline (exec_norm st) = es_pipeline st" "es_version (exec_norm st) = es_version st"
  by (simp_all add: exec_norm_def)

text \<open>An approval saves the decision and resumes.\<close>

lemma approval_resumes:
  assumes "works ve" "exec_json_ok st"
    and "get_string (ms_payload msg) ''id'' = Some i" "get_string (ms_payload msg) ''decision'' = Some ''approved''"
    and "mget (sy_tasks sy) i = Some st" "es_id st = i"
  shows "\<exists>t sy3. handle_human_decision ve sched msg sy = resume_from_state ve sched (stamp_created t (record_decision ''approved'' st)) sy3 \<and>
    mget (sy_tasks sy3) i = Some (exec_norm (stamp_created t (record_decision ''approved'' st))) \<and> ext (\<lambda>e. \<not> is_call e) sy sy3"
proof -
  let ?by = "get_string0 (ms_payload msg) ''decided_by''"
  obtain sy2 r2 where l: "log_lifecycle ve (Some st) ''human.decision'' ''approved''
      [(''gate'', GStr (es_gate st)), (''decided_by'', GStr ?by)] (next_tick sy) = (sy2, r2)" by fastforce
  obtain sy3 st' r3 where s: "save_state ve (record_decision ''approved'' st) sy2 = (sy3, st', r3)" by (metis surj_pair)
  have ok: "exec_json_ok (record_decision ''approved'' st)" using assms(2) by simp
  note saved = works_save [OF assms(1) ok s]
  have "ext (\<lambda>e. \<not> is_call e) sy sy3"
    by (rule ext_trans [OF _ ext_trans [OF works_log [OF assms(1) l, THEN conjunct2, THEN conjunct2]]])
      (use saved in \<open>simp_all add: ext_trace\<close>)
  moreover have "handle_human_decision ve sched msg sy = resume_from_state ve sched st' sy3"
    using assms(1,3-6) l s saved by (simp add: handle_human_decision_def Let_def load_state_def)
  ultimately show ?thesis using saved assms(6) by (intro exI [of _ "now_of ve sy2"] exI [of _ sy3]) simp
qed

lemma resume_step_cong: "es_completed s = es_completed st \<Longrightarrow> es_gate s = es_gate st \<Longrightarrow> resume_step pipe s = resume_step pipe st"
  by (simp add: resume_step_def)

lemma approval_goes_on:
  assumes "works ve" "exec_json_ok st"
    and "get_string (ms_payload msg) ''id'' = Some i" "get_string (ms_payload msg) ''decision'' = Some ''approved''"
    and "mget (sy_tasks sy) i = Some st" "es_id st = i"
    and "mget (cf_pipelines (we_cfg ve)) (es_pipeline st) = Some pipe" "pl_mode pipe \<noteq> ''dag''" "manifest_current ve pipe st"
  shows "goes_on ve pipe (resume_step pipe st) sy (fst (handle_human_decision ve sched msg sy))"
proof -
  from approval_resumes [OF assms(1-6), of sched] obtain t sy3 where
    h: "handle_human_decision ve sched msg sy = resume_from_state ve sched (stamp_created t (record_decision ''approved'' st)) sy3"
      "mget (sy_tasks sy3) i = Some (exec_norm (stamp_created t (record_decision ''approved'' st)))" "ext (\<lambda>e. \<not> is_call e) sy sy3"
    by blast
  let ?st = "stamp_created t (record_decision ''approved'' st)"
  have "manifest_current ve pipe ?st" using assms(9) manifest_current_cong [of ?st st] by simp
  then have "goes_on ve pipe (resume_step pipe ?st) sy3 (fst (resume_from_state ve sched ?st sy3))"
    by (rule resume_goes_on [OF assms(1), where s = "exec_norm ?st"]) (use assms h(2) in simp_all)
  moreover have "resume_step pipe ?st = resume_step pipe st" by (simp add: resume_step_def)
  ultimately show ?thesis using h(1,3) goes_on_after by simp
qed

subsection \<open>Callbacks\<close>

lemma find_callback_first:
  assumes "st0 \<in> set sts" "awaits_token token st0" "\<forall>st \<in> set sts. awaits_token token st \<longrightarrow> st = st0"
    and "\<forall>n. \<not> too_late (we_now ve n) st0"
  shows "\<exists>sy'. find_callback ve token sts sy = (sy', Some st0)"
  using assms(1,3)
proof (induction sts arbitrary: sy)
  case (Cons st sts)
  show ?case
  proof (cases "awaits_token token st")
    case True
    with Cons.prems assms(4) show ?thesis by (simp add: Let_def now_of_def)
  next
    case False
    with assms(2) Cons.prems(1) have "st0 \<in> set sts" by auto
    with Cons.IH [of sy] Cons.prems(2) False show ?thesis by simp
  qed
qed simp

lemma resolve_ok:
  assumes "exec_json_ok st" "json_ok data"
  shows "exec_json_ok (resolve_callback data st)"
proof -
  have "json_ok (case es_cb_data st of Some m \<Rightarrow> GObj m | None \<Rightarrow> data)"
    using assms by (auto simp: exec_json_ok_def cb_map_def split: option.splits)
  then show ?thesis
    using assms(1) json_ok_mput [of "es_results st"] by (simp add: exec_json_ok_def resolve_callback_def cb_map_def)
qed

lemma resolve_simps [simp]:
  "es_id (resolve_callback data st) = es_id st" "es_pipeline (resolve_callback data st) = es_pipeline st"
  "es_version (resolve_callback data st) = es_version st" "es_gate (resolve_callback data st) = ''''"
  "es_completed (resolve_callback data st) = es_completed st @ [es_await_step st]"
  by (simp_all add: resolve_callback_def)

lemma resume_step_ungated: "es_gate st = '''' \<Longrightarrow> resume_step pipe st = length (es_completed st)"
  by (simp add: resume_step_def passed_gate_def Let_def)

text \<open>A callback that finds its run saves the answer and resumes.\<close>

lemma callback_goes_on:
  assumes "works ve" "exec_json_ok st0" "json_ok (callback_value (ms_payload msg))"
    and "\<forall>(k, st) \<in> set (sy_tasks sy). awaits_token (get_string0 (ms_payload msg) ''token'') st \<longrightarrow> st = st0"
    and "st0 \<in> snd ` set (sy_tasks sy)" "awaits_token (get_string0 (ms_payload msg) ''token'') st0"
    and "get_string0 (ms_payload msg) ''token'' \<noteq> ''''" "\<forall>n. \<not> too_late (we_now ve n) st0"
    and "mget (cf_pipelines (we_cfg ve)) (es_pipeline st0) = Some pipe" "pl_mode pipe \<noteq> ''dag''" "manifest_current ve pipe st0"
  shows "goes_on ve pipe (Suc (length (es_completed st0))) sy (fst (handle_callback ve sched msg sy))"
proof -
  let ?token = "get_string0 (ms_payload msg) ''token''" and ?data = "callback_value (ms_payload msg)"
  obtain sy1 sts where l: "list_states ve sy = (sy1, Inr sts)" using assms(1) by (simp add: list_states_def)
  note p = list_states_parts [OF l]
  have "\<forall>st \<in> set sts. awaits_token ?token st \<longrightarrow> st = st0" "st0 \<in> set sts" using p assms(4,5) by auto
  then obtain sy2 where f: "find_callback ve ?token sts sy1 = (sy2, Some st0)"
    using find_callback_first [OF _ assms(6) _ assms(8)] by blast
  note f2 = find_callback_same [OF f]
  obtain sy3 st1 err where s: "save_state ve (resolve_callback ?data st0) sy2 = (sy3, st1, err)" by (metis surj_pair)
  note saved = works_save [OF assms(1) resolve_ok [OF assms(2,3)] s]
  obtain sy4 r where g: "log_lifecycle ve (Some st1) ''callback.received'' ''success''
      [(''step'', GStr (es_await_step st1)), (''data'', GObj (audit_safe_callback (we_lib ve) ?data))] sy3 = (sy4, r)"
    by fastforce
  note logged = works_log [OF assms(1) g]
  have e: "ext (\<lambda>e. \<not> is_call e) sy sy4"
    by (rule ext_trans [OF ext_trace ext_trans [OF saved [THEN conjunct2, THEN conjunct2, THEN conjunct2]
          logged [THEN conjunct2, THEN conjunct2]]])
      (use f2 p in simp_all)
  have h: "handle_callback ve sched msg sy = resume_from_state ve sched st1 sy4"
    using assms(7) l f s saved g logged by (simp add: handle_callback_def Let_def)
  have st1: "es_id st1 = es_id st0" "es_pipeline st1 = es_pipeline st0" "es_version st1 = es_version st0" "es_gate st1 = ''''"
    "es_completed st1 = es_completed st0 @ [es_await_step st0]" "exec_json_ok st1"
    using saved resolve_ok [OF assms(2,3)] by simp_all
  have "manifest_current ve pipe st1" using assms(11) manifest_current_cong [OF st1(3)] by simp
  then have "goes_on ve pipe (resume_step pipe st1) sy4 (fst (resume_from_state ve sched st1 sy4))"
    by (rule resume_goes_on [OF assms(1), where s = "exec_norm st1"]) (use assms(9,10) st1 saved logged in simp_all)
  with e h st1(4,5) show ?thesis using goes_on_after by (simp add: resume_step_ungated)
qed

lemma callback_bound:
  assumes "\<forall>(k, st) \<in> set (sy_tasks sy). awaits_token (get_string0 (ms_payload msg) ''token'') st \<longrightarrow> st = st0"
    and "mget (cf_pipelines (we_cfg ve)) (es_pipeline st0) = Some pipe" "pl_mode pipe \<noteq> ''dag''" "\<And>n. we_load ve n = None"
  shows "\<exists>sy' es. handle_callback ve sched msg sy = (sy', True) \<and> sy_trace sy' = sy_trace sy @ es \<and>
    announced ve (pl_steps pipe) es \<and> sorted (calls es) \<and>
    set (calls es) \<subseteq> {Suc (length (es_completed st0))..<length (pl_steps pipe)}"
proof -
  let ?token = "get_string0 (ms_payload msg) ''token''" and ?data = "callback_value (ms_payload msg)"
  let ?good = "\<lambda>sy'. \<exists>es. sy_trace sy' = sy_trace sy @ es \<and> announced ve (pl_steps pipe) es \<and> sorted (calls es) \<and>
    set (calls es) \<subseteq> {Suc (length (es_completed st0))..<length (pl_steps pipe)}"
  have "\<exists>sy'. handle_callback ve sched msg sy = (sy', True) \<and> ?good sy'"
  proof (cases "?token = ''''")
    case True
    then show ?thesis using nothing_called by (intro exI [of _ sy]) (auto simp: handle_callback_def)
  next
    case False
    obtain sy1 sts where l: "list_states ve sy = (sy1, Inr sts)" using assms(4) by (simp add: list_states_def)
    note p = list_states_parts [OF l]
    obtain sy2 r where f: "find_callback ve ?token sts sy1 = (sy2, r)" by fastforce
    note f2 = find_callback_same [OF f]
    show ?thesis
    proof (cases r)
      case None
      with False l f have "handle_callback ve sched msg sy = (sy2, True)" by (simp add: handle_callback_def Let_def)
      with f2 p nothing_called show ?thesis by (intro exI [of _ sy2]) (auto intro: exI [of _ "[]"])
    next
      case (Some st)
      with find_callback_Some f p assms(1) have st: "st = st0" by fastforce
      obtain sy3 st1 err where s: "save_state ve (resolve_callback ?data st0) sy2 = (sy3, st1, err)" by (metis surj_pair)
      have st1: "es_pipeline st1 = es_pipeline st0" "length (es_completed st1) = Suc (length (es_completed st0))"
        using save_state_id [OF s] by (auto simp: resolve_callback_def)
      have e3: "ext (\<lambda>e. \<not> is_call e) sy sy3"
        by (rule ext_trans [OF ext_trace silent.ext_save' [OF s]]) (use f2 p in simp_all)
      show ?thesis
      proof (cases err)
        case (Some e)
        with \<open>r = Some st\<close> False l f s st have "handle_callback ve sched msg sy = (sy3, True)"
          by (simp add: handle_callback_def Let_def)
        with silent_end [OF e3 refl] show ?thesis by blast
      next
        case None
        obtain sy4 aerr where g: "log_lifecycle ve (Some st1) ''callback.received'' ''success''
            [(''step'', GStr (es_await_step st1)), (''data'', GObj (audit_safe_callback (we_lib ve) ?data))] sy3 = (sy4, aerr)"
          by fastforce
        have e4: "ext (\<lambda>e. \<not> is_call e) sy sy4" by (rule ext_trans [OF e3 silent.ext_log [OF g]])
        show ?thesis
        proof (cases aerr)
          case (Some e)
          have e5: "ext (\<lambda>e. \<not> is_call e) sy (stop_unaudited ve e st1 sy4)" unfolding stop_unaudited_def
            by (rule ext_trans [OF e4 ext_trans [OF silent.ext_save_fst silent.ext_store_result']])
          from Some None \<open>r = Some st\<close> False l f s st g have "handle_callback ve sched msg sy = (stop_unaudited ve e st1 sy4, True)"
            by (simp add: handle_callback_def Let_def)
          with silent_end [OF e5 refl] show ?thesis by blast
        next
          case None2: None
          obtain s' where s': "mget (sy_tasks sy4) (es_id st1) = Some s'" "es_completed s' = es_completed st1"
            using save_state_id [OF s] None log_lifecycle_tasks [OF g] by auto
          have pl: "mget (cf_pipelines (we_cfg ve)) (es_pipeline st1) = Some pipe" using st1(1) assms(2) by simp
          from resume_linear [OF pl assms(3,4) s', of sched] obtain sy5 es where
            r5: "resume_from_state ve sched st1 sy4 = (sy5, True)" "sy_trace sy5 = sy_trace sy4 @ es"
            "announced ve (pl_steps pipe) es \<and> sorted (calls es) \<and> set (calls es) \<subseteq> {length (es_completed st1)..<length (pl_steps pipe)}"
            by blast
          have "handle_callback ve sched msg sy = (sy5, True)"
            using None2 None \<open>r = Some st\<close> False l f s st g r5(1) by (simp add: handle_callback_def Let_def)
          with silent_then [OF e4 r5(2,3)] show ?thesis unfolding st1(2) by blast
        qed
      qed
    qed
  qed
  then show ?thesis by blast
qed

text \<open>
  C16: an answered callback continues a linear run behind the step that waited. When no other record
  waits for the token and the store can be read, every call that handling the message leads to is
  announced in the journal, in the order of the steps, and is one of a step after the steps that the
  record lists and the one it waits at. And the run does go on: when the store and the journal work,
  the record is stored and waits for the token, the answer is valid JSON and not too late, and the
  pipeline is the one the run began with, the first call is the one of the very next step, if that is
  a plain tool or agent step; behind the last step the run is handed to the analyst, with no call.
\<close>

theorem callback_resumes_after_wait:
  assumes "\<forall>(k, st) \<in> set (sy_tasks sy). awaits_token (get_string0 (ms_payload msg) ''token'') st \<longrightarrow> st = st0"
    and "mget (cf_pipelines (we_cfg ve)) (es_pipeline st0) = Some pipe" "pl_mode pipe \<noteq> ''dag''" "\<And>n. we_load ve n = None"
  shows "\<exists>sy' es. handle_callback ve sched msg sy = (sy', True) \<and> sy_trace sy' = sy_trace sy @ es \<and>
    announced ve (pl_steps pipe) es \<and> sorted (calls es) \<and>
    set (calls es) \<subseteq> {Suc (length (es_completed st0))..<length (pl_steps pipe)} \<and>
    (works ve \<and> st0 \<in> snd ` set (sy_tasks sy) \<and> awaits_token (get_string0 (ms_payload msg) ''token'') st0 \<and>
      get_string0 (ms_payload msg) ''token'' \<noteq> '''' \<and> (\<forall>n. \<not> too_late (we_now ve n) st0) \<and> exec_json_ok st0 \<and>
      json_ok (callback_value (ms_payload msg)) \<and> manifest_current ve pipe st0 \<longrightarrow>
     proceeds ve pipe (Suc (length (es_completed st0))) es)"
proof -
  from callback_bound [OF assms, of sched] obtain sy' es where b: "handle_callback ve sched msg sy = (sy', True)"
    "sy_trace sy' = sy_trace sy @ es" "announced ve (pl_steps pipe) es" "sorted (calls es)"
    "set (calls es) \<subseteq> {Suc (length (es_completed st0))..<length (pl_steps pipe)}" by blast
  show ?thesis
    using b callback_goes_on [OF _ _ _ assms(1) _ _ _ _ assms(2,3), of sched]
    by (intro exI [of _ sy'] exI [of _ es]) (auto intro: goes_on_proceeds)
qed

subsection \<open>Approvals\<close>

lemma approval_bound:
  assumes "get_string (ms_payload msg) ''id'' = Some (es_id st)" "get_string (ms_payload msg) ''decision'' = Some ''approved''"
    and "mget (sy_tasks sy) (es_id st) = Some st" "\<And>n. we_load ve n = None"
    and "mget (cf_pipelines (we_cfg ve)) (es_pipeline st) = Some pipe" "pl_mode pipe \<noteq> ''dag''"
  shows "\<exists>sy' es. handle_human_decision ve sched msg sy = (sy', True) \<and> sy_trace sy' = sy_trace sy @ es \<and>
    announced ve (pl_steps pipe) es \<and> sorted (calls es) \<and>
    set (calls es) \<subseteq> {length (es_completed st)..<length (pl_steps pipe)}"
proof -
  let ?by = "get_string0 (ms_payload msg) ''decided_by''"
  let ?sy2 = "fst (log_lifecycle ve (Some st) ''human.decision'' ''approved'' [(''gate'', GStr (es_gate st)), (''decided_by'', GStr ?by)] (next_tick sy))"
  obtain sy3 st' err where s: "save_state ve (record_decision ''approved'' st) ?sy2 = (sy3, st', err)" by (metis surj_pair)
  have st': "es_id st' = es_id st" "es_pipeline st' = es_pipeline st" "es_completed st' = es_completed st"
    using save_state_id [OF s] by (auto simp: record_decision_def)
  have h: "handle_human_decision ve sched msg sy = (case err of Some _ \<Rightarrow> (store_error (es_id st) ''cannot persist execution state'' sy3, True)
      | None \<Rightarrow> resume_from_state ve sched st' sy3)"
    using assms(1-4) s by (simp add: handle_human_decision_def Let_def load_state_def split: option.splits)
  have e3: "ext (\<lambda>e. \<not> is_call e) sy sy3"
    by (rule ext_trans [OF _ ext_trans [OF silent.ext_log_fst silent.ext_save' [OF s]]]) (simp add: ext_trace)
  show ?thesis
  proof (cases err)
    case (Some e)
    with h silent_end [OF ext_trans [OF e3 silent.ext_store_error] refl] show ?thesis by simp
  next
    case None
    obtain s' where s': "mget (sy_tasks sy3) (es_id st') = Some s'" "es_completed s' = es_completed st'"
      using save_state_id [OF s] None by (auto simp: record_decision_def)
    have pl: "mget (cf_pipelines (we_cfg ve)) (es_pipeline st') = Some pipe" using st'(2) assms(5) by simp
    from resume_linear [OF pl assms(6,4) s', of sched] obtain sy5 es where r5:
      "resume_from_state ve sched st' sy3 = (sy5, True)" "sy_trace sy5 = sy_trace sy3 @ es"
      "announced ve (pl_steps pipe) es \<and> sorted (calls es) \<and> set (calls es) \<subseteq> {length (es_completed st')..<length (pl_steps pipe)}"
      by blast
    from h None r5(1) have "handle_human_decision ve sched msg sy = (sy5, True)" by simp
    with silent_then [OF e3 r5(2,3)] show ?thesis unfolding st'(3) by blast
  qed
qed

text \<open>
  C18: an approval continues a linear run where it waits. When the store can be read, each call after
  it is announced in the journal and is one of the first step the record does not list or of a later
  one, in the order of the steps. And the run does go on: when the store and the journal work and the
  pipeline is the one the run began with, the first call is the one of the first step the record does
  not list, or of the one behind it when that step is the gate the record waits at, if this is a plain
  tool or agent step; behind the last step the run is handed to the analyst, with no call.
\<close>

theorem approval_resumes_linear:
  assumes "get_string (ms_payload msg) ''id'' = Some (es_id st)" "get_string (ms_payload msg) ''decision'' = Some ''approved''"
    and "mget (sy_tasks sy) (es_id st) = Some st" "\<And>n. we_load ve n = None"
    and "mget (cf_pipelines (we_cfg ve)) (es_pipeline st) = Some pipe" "pl_mode pipe \<noteq> ''dag''"
  shows "\<exists>sy' es. handle_human_decision ve sched msg sy = (sy', True) \<and> sy_trace sy' = sy_trace sy @ es \<and>
    announced ve (pl_steps pipe) es \<and> sorted (calls es) \<and>
    set (calls es) \<subseteq> {length (es_completed st)..<length (pl_steps pipe)} \<and>
    (works ve \<and> exec_json_ok st \<and> manifest_current ve pipe st \<longrightarrow> proceeds ve pipe (resume_step pipe st) es)"
proof -
  from approval_bound [OF assms, of sched] obtain sy' es where b: "handle_human_decision ve sched msg sy = (sy', True)"
    "sy_trace sy' = sy_trace sy @ es" "announced ve (pl_steps pipe) es" "sorted (calls es)"
    "set (calls es) \<subseteq> {length (es_completed st)..<length (pl_steps pipe)}" by blast
  show ?thesis
    using b approval_goes_on [OF _ _ assms(1-3) refl assms(5,6), of sched]
    by (intro exI [of _ sy'] exI [of _ es]) (auto intro: goes_on_proceeds)
qed

text \<open>An approval of a record that waits at no gate gets no run past its next gate.\<close>

lemma approval_without_gate:
  assumes "get_string (ms_payload msg) ''id'' = Some (es_id st)" "get_string (ms_payload msg) ''decision'' = Some ''approved''"
    and "mget (sy_tasks sy) (es_id st) = Some st" "es_gate st = ''''" "\<And>n. we_load ve n = None"
    and "mget (cf_pipelines (we_cfg ve)) (es_pipeline st) = Some pipe" "pl_mode pipe \<noteq> ''dag''"
    and "length (es_completed st) < length (pl_steps pipe)"
    and "ps_human_gate (pl_steps pipe ! length (es_completed st)) \<notin> {'''', ''await_callback''}"
    and "ps_when (pl_steps pipe ! length (es_completed st)) = ''''"
  shows "ext (\<lambda>e. \<not> is_call e) sy (fst (handle_human_decision ve sched msg sy))"
proof -
  let ?by = "get_string0 (ms_payload msg) ''decided_by''" and ?i = "es_id st"
  let ?sy2 = "fst (log_lifecycle ve (Some st) ''human.decision'' ''approved'' [(''gate'', GStr (es_gate st)), (''decided_by'', GStr ?by)] (next_tick sy))"
  have same: "record_decision ''approved'' st = st" using assms(4) by (simp add: record_decision_def)
  obtain sy3 st' err where s: "save_state ve st ?sy2 = (sy3, st', err)" by (metis surj_pair)
  have e3: "ext (\<lambda>e. \<not> is_call e) sy sy3"
    by (rule ext_trans [OF _ ext_trans [OF silent.ext_log_fst silent.ext_save' [OF s]]]) (simp add: ext_trace)
  have h: "handle_human_decision ve sched msg sy = (case err of Some _ \<Rightarrow> (store_error ?i ''cannot persist execution state'' sy3, True)
      | None \<Rightarrow> resume_from_state ve sched st' sy3)"
    using assms(1-3,5) s same by (simp add: handle_human_decision_def Let_def load_state_def split: option.splits)
  show ?thesis
  proof (cases err)
    case (Some e)
    with h ext_trans [OF e3 silent.ext_store_error] show ?thesis by simp
  next
    case None
    with s have st': "st' = stamp_created (now_of ve ?sy2) st" "mget (sy_tasks sy3) ?i = Some (exec_norm st')"
      by (auto simp: save_state_def Let_def emit_def stamp_created_def split: if_splits option.splits)
    let ?params = "string_map_to_any (case es_params st' of None \<Rightarrow> [] | Some p \<Rightarrow> p)"
    obtain sy4 st4 err4 where m: "ensure_manifest ve ?i (es_session st') (es_intent st') pipe ?params (Some st') sy3 = (sy4, st4, err4)"
      by (metis surj_pair)
    note e4 = ext_trans [OF e3 ensure_manifest_quiet [OF m]]
    show ?thesis
    proof (cases err4)
      case (Some e)
      with h None m st'(1) assms(6) ext_trans [OF e4 silent.ext_fail_audit] show ?thesis
        by (simp add: resume_from_state_def Let_def)
    next
      case None2: None
      obtain sy5 ctx where c: "resume_context ve ?i sy4 = (sy5, ctx)" by fastforce
      let ?sy6 = "mark_run_start ve ?i sy5"
      obtain s' where s': "mget (sy_tasks ?sy6) ?i = Some s'" "es_completed s' = es_completed st" "es_gate s' = ''''"
        using ensure_manifest_tasks [OF m refl] st' assms(4) resume_context_same [OF c]
        by (auto simp: manifest_record_def mark_run_start_def next_tick_def)
      have e6: "ext (\<lambda>e. \<not> is_call e) sy ?sy6"
        by (rule ext_trans [OF e4]) (use resume_context_same [OF c] in \<open>simp add: ext_def mark_run_start_def next_tick_def\<close>)
      obtain ri lv where l: "lin_setup ve pipe ?i (es_session st') (es_intent st') ''es'' ctx (es_results st') ?params ?sy6 = (ri, lv)"
        by fastforce
      have "gate_in {'''', ''await_callback''} lv" "start_index (ln_exec lv) = length (es_completed st)"
        using lin_setup_loaded [OF l assms(5)] s' by (simp_all add: gate_in_def start_index_def)
      with execute_linear_gate [OF l, of "{'''', ''await_callback''}" "length (es_completed st)"] assms(8-10)
      have "ext (\<lambda>e. \<not> is_call e) ?sy6 (execute_linear ve pipe ?i (es_session st') (es_intent st') ''es'' ctx (es_results st') ?params ?sy6)"
        by (auto elim!: ext_mono)
      with h None None2 m c st'(1) assms(6,7) ext_trans [OF e6] show ?thesis
        by (simp add: resume_from_state_def Let_def run_executor_def)
    qed
  qed
qed

subsection \<open>Rejections\<close>

lemma rejection_closes:
  assumes "get_string (ms_payload msg) ''id'' = Some i" "get_string (ms_payload msg) ''decision'' = Some d" "d \<noteq> ''approved''"
    and "mget (sy_tasks sy) i = Some st" "es_id st = i" "exec_json_ok st"
    and "\<And>n. we_load ve n = None" "\<And>n. we_save ve n = None"
  shows "\<exists>sy' st' es. handle_human_decision ve sched msg sy = (sy', True) \<and>
    mget (sy_tasks sy') i = Some st' \<and> es_status st' = ''rejected'' \<and> es_gate st' = '''' \<and> es_cb_token st' = '''' \<and>
    es_completed st' = es_completed st \<and> es_id st' = i \<and> es_pipeline st' = es_pipeline st \<and>
    get_result i sy' = Some \<lparr>rs_status = ''rejected'', rs_data = Some (rejected_data st (get_string0 (ms_payload msg) ''decided_by'')),
      rs_err = ''''\<rparr> \<and>
    sy_trace sy' = sy_trace sy @ es \<and> calls es = []"
proof -
  let ?by = "get_string0 (ms_payload msg) ''decided_by''"
  let ?sy1 = "next_tick sy"
  let ?sy2 = "fst (log_lifecycle ve (Some st) ''human.decision'' d [(''gate'', GStr (es_gate st)), (''decided_by'', GStr ?by)] ?sy1)"
  let ?st = "reject_state ?by (record_decision d st)"
  let ?sy3 = "fst (save_state ve ?st ?sy2)"
  let ?r = "\<lparr>rs_status = ''rejected'', rs_data = Some (rejected_data st ?by), rs_err = ''''\<rparr>"
  have data: "rejected_data (record_decision d st) ?by = rejected_data st ?by" by (simp add: rejected_data_def)
  have h: "handle_human_decision ve sched msg sy = (store_result i ?r ?sy3, True)"
    using assms(1-4,7) data by (simp add: handle_human_decision_def Let_def load_state_def)
  have "mget (sy_tasks ?sy3) i = Some (exec_norm (stamp_created (now_of ve ?sy2) ?st))"
    using save_state_ok [OF reject_state_ok [OF assms(6)] assms(8)] assms(5) by (simp add: emit_def next_tick_def)
  moreover have "ext (\<lambda>e. \<not> is_call e) sy (store_result i ?r ?sy3)"
    by (rule ext_trans [OF _ ext_trans [OF silent.ext_log_fst ext_trans [OF silent.ext_save_fst silent.ext_store_result']]])
      (simp add: ext_trace)
  then obtain es where "sy_trace (store_result i ?r ?sy3) = sy_trace sy @ es" "list_all (\<lambda>e. \<not> is_call e) es"
    by (auto simp: ext_def)
  ultimately show ?thesis using h assms(5) by (simp add: calls_quiet reject_state_def)
qed

text \<open>
  C19: a decision other than "approved" ends the run. With a store that works, the record of the run is
  kept, rejected, without a gate or a callback token to resume it by; the result names the gate and who
  decided; and no tool or agent is called. An approval that the verifier takes later, while the record
  still is the rejected one, calls nothing either, if the run is linear and waited at a plain gate,
  without a condition: the run pauses at that gate again.
\<close>

theorem human_rejection_ends_run:
  assumes "get_string (ms_payload msg) ''id'' = Some i" "get_string (ms_payload msg) ''decision'' = Some d" "d \<noteq> ''approved''"
    and "mget (sy_tasks sy) i = Some st" "es_id st = i" "exec_json_ok st"
    and "\<And>n. we_load ve n = None" "\<And>n. we_save ve n = None"
  shows "\<exists>sy' st' es. handle_human_decision ve sched msg sy = (sy', True) \<and>
    mget (sy_tasks sy') i = Some st' \<and> es_status st' = ''rejected'' \<and> es_gate st' = '''' \<and> es_cb_token st' = '''' \<and>
    es_completed st' = es_completed st \<and>
    get_result i sy' = Some \<lparr>rs_status = ''rejected'', rs_data = Some (rejected_data st (get_string0 (ms_payload msg) ''decided_by'')),
      rs_err = ''''\<rparr> \<and>
    sy_trace sy' = sy_trace sy @ es \<and> calls es = [] \<and>
    (\<forall>msg2 sched2 sy2 pipe. mget (sy_tasks sy2) i = Some st' \<and> get_string (ms_payload msg2) ''id'' = Some i \<and>
      get_string (ms_payload msg2) ''decision'' = Some ''approved'' \<and>
      mget (cf_pipelines (we_cfg ve)) (es_pipeline st) = Some pipe \<and> pl_mode pipe \<noteq> ''dag'' \<and>
      length (es_completed st) < length (pl_steps pipe) \<and> ps_when (pl_steps pipe ! length (es_completed st)) = '''' \<and>
      ps_human_gate (pl_steps pipe ! length (es_completed st)) \<notin> {'''', ''await_callback''} \<longrightarrow>
      (\<exists>es2. sy_trace (fst (handle_human_decision ve sched2 msg2 sy2)) = sy_trace sy2 @ es2 \<and> calls es2 = []))"
proof -
  from rejection_closes [OF assms, of sched] obtain sy' st' es where r: "handle_human_decision ve sched msg sy = (sy', True)"
    "mget (sy_tasks sy') i = Some st'" "es_status st' = ''rejected''" "es_gate st' = ''''" "es_cb_token st' = ''''"
    "es_completed st' = es_completed st" "es_id st' = i" "es_pipeline st' = es_pipeline st"
    "get_result i sy' = Some \<lparr>rs_status = ''rejected'', rs_data = Some (rejected_data st (get_string0 (ms_payload msg) ''decided_by'')),
      rs_err = ''''\<rparr>" "sy_trace sy' = sy_trace sy @ es" "calls es = []" by blast
  have "\<exists>es2. sy_trace (fst (handle_human_decision ve sched2 msg2 sy2)) = sy_trace sy2 @ es2 \<and> calls es2 = []"
    if "mget (sy_tasks sy2) i = Some st'" "get_string (ms_payload msg2) ''id'' = Some i"
      "get_string (ms_payload msg2) ''decision'' = Some ''approved''"
      "mget (cf_pipelines (we_cfg ve)) (es_pipeline st) = Some pipe" "pl_mode pipe \<noteq> ''dag''"
      "length (es_completed st) < length (pl_steps pipe)" "ps_when (pl_steps pipe ! length (es_completed st)) = ''''"
      "ps_human_gate (pl_steps pipe ! length (es_completed st)) \<notin> {'''', ''await_callback''}" for msg2 sched2 sy2 pipe
  proof -
    have "ext (\<lambda>e. \<not> is_call e) sy2 (fst (handle_human_decision ve sched2 msg2 sy2))"
      by (rule approval_without_gate [where st = st' and pipe = pipe]) (use that r(4,6-8) assms(7) in simp_all)
    then show ?thesis by (auto simp: ext_def calls_quiet)
  qed
  with r show ?thesis by (intro exI [of _ sy'] exI [of _ st'] exI [of _ es]) blast
qed

subsection \<open>Approving twice\<close>

text \<open>Running plain tool steps leaves the record at its gate.\<close>

lemma norm_mput: "norm_map (mput m k v) = mput (norm_map m) k (json_norm v)"
  by (induction m) (auto simp: norm_map_def)

lemma norm_iff: "exec_norm s = s \<longleftrightarrow> norm_map (es_results s) = es_results s \<and>
    (case es_cb_data s of None \<Rightarrow> True | Some d \<Rightarrow> d \<noteq> [] \<and> norm_map d = d)"
proof
  assume "exec_norm s = s"
  then have "es_results (exec_norm s) = es_results s" "es_cb_data (exec_norm s) = es_cb_data s" by simp_all
  then show "norm_map (es_results s) = es_results s \<and> (case es_cb_data s of None \<Rightarrow> True | Some d \<Rightarrow> d \<noteq> [] \<and> norm_map d = d)"
    by (auto simp: exec_norm_def cb_map_def split: option.splits if_splits)
next
  assume "norm_map (es_results s) = es_results s \<and> (case es_cb_data s of None \<Rightarrow> True | Some d \<Rightarrow> d \<noteq> [] \<and> norm_map d = d)"
  then show "exec_norm s = s" by (cases "es_cb_data s") (simp_all add: exec_norm_def cb_map_def)
qed

lemma mark_failed_simps [simp]:
  "es_id (mark_failed sid tool err s) = es_id s" "es_gate (mark_failed sid tool err s) = es_gate s"
  "es_completed (mark_failed sid tool err s) = es_completed s" "es_pipeline (mark_failed sid tool err s) = es_pipeline s"
  "es_version (mark_failed sid tool err s) = es_version s"
  by (cases err; simp add: mark_failed_def fail_outcome_def Let_def)+

lemma mark_failed_ok: "exec_json_ok s \<Longrightarrow> exec_json_ok (mark_failed sid tool err s)"
  by (cases err) (auto simp: mark_failed_def fail_outcome_def Let_def exec_json_ok_def cb_map_def rejection_data_def
      intro!: json_ok_mput simp del: json_ok.simps(3), simp_all add: rejection_data_def)

lemma norm_kept:
  assumes "exec_norm s = s"
  shows "exec_norm (mark_failed sid tool err s) = mark_failed sid tool err s" "exec_norm (stamp_created t s) = stamp_created t s"
    "exec_norm (record_decision d s) = record_decision d s"
    "exec_norm (with_manifest ve pipe params snapshot version s) = with_manifest ve pipe params snapshot version s"
proof -
  show "exec_norm (mark_failed sid tool err s) = mark_failed sid tool err s"
    using assms by (cases err) (simp_all add: norm_iff mark_failed_def fail_outcome_def Let_def norm_mput rejection_data_def)
  show "exec_norm (stamp_created t s) = stamp_created t s" "exec_norm (record_decision d s) = record_decision d s"
    "exec_norm (with_manifest ve pipe params snapshot version s) = with_manifest ve pipe params snapshot version s"
    using assms by (simp_all add: norm_iff stamp_created_def record_decision_def with_manifest_def)
qed

lemma parked_tasks: "sy_tasks sy' = sy_tasks sy \<Longrightarrow> parked ve pipe st sy' = parked ve pipe st sy"
  by (simp add: parked_def)

lemma parkedD: "parked ve pipe st sy \<Longrightarrow> \<exists>s. mget (sy_tasks sy) (es_id st) = Some s \<and> same_wait st s \<and> es_pipeline s = pl_name pipe \<and>
    manifest_current ve pipe s \<and> exec_json_ok s \<and> exec_norm s = s"
  by (auto simp: parked_def split: option.splits)

lemma parkedI: "mget (sy_tasks sy) (es_id st) = Some s \<Longrightarrow> same_wait st s \<Longrightarrow> es_pipeline s = pl_name pipe \<Longrightarrow>
    manifest_current ve pipe s \<Longrightarrow> exec_json_ok s \<Longrightarrow> exec_norm s = s \<Longrightarrow> parked ve pipe st sy"
  by (simp add: parked_def)

lemma parked_save:
  assumes "works ve" "save_state ve s sy = (sy', s', r)" "same_wait st s" "es_pipeline s = pl_name pipe"
    "manifest_current ve pipe s" "exec_json_ok s" "exec_norm s = s"
  shows "parked ve pipe st sy'"
proof -
  note saved = works_save [OF assms(1,6,2)]
  then have "mget (sy_tasks sy') (es_id st) = Some (stamp_created (now_of ve sy) s)"
    using assms(3) norm_kept(2) [OF assms(7)] by (auto simp: same_wait_def)
  then show ?thesis
    by (rule parkedI)
      (use assms(3-7) norm_kept(2) manifest_current_cong [of "stamp_created (now_of ve sy) s" s] in \<open>simp_all add: same_wait_def\<close>)
qed

lemma fail_tool_parked:
  assumes "works ve" "parked ve pipe st sy"
  shows "parked ve pipe st (fail_tool ve st0 (es_id st) sid tool err sy)"
proof -
  obtain s where s: "mget (sy_tasks sy) (es_id st) = Some s" "same_wait st s" "es_pipeline s = pl_name pipe"
    "manifest_current ve pipe s" "exec_json_ok s" "exec_norm s = s" using parkedD [OF assms(2)] by blast
  obtain sy1 s1 r where sv: "save_state ve (mark_failed sid tool err s) (next_tick sy) = (sy1, s1, r)" by (metis surj_pair)
  have "same_wait st (mark_failed sid tool err s)" "es_pipeline (mark_failed sid tool err s) = pl_name pipe"
    "manifest_current ve pipe (mark_failed sid tool err s)"
    using s manifest_current_cong [of "mark_failed sid tool err s" s] by (simp_all add: same_wait_def)
  then have "parked ve pipe st sy1" by (rule parked_save [OF assms(1) sv _ _ _ mark_failed_ok [OF s(5)] norm_kept(1) [OF s(6)]])
  then show ?thesis
    using sv s(1) assms(1) by (simp add: fail_tool_def fail_tool_exec_def Let_def load_state_def parked_def)
qed

lemma execute_tool_tasks: "execute_tool ve ctx idx t params step sy = (sy', r) \<Longrightarrow> sy_tasks sy' = sy_tasks sy"
proof -
  have "tool_attempts ve ctx idx t params n b sy = (sy', r) \<Longrightarrow> sy_tasks sy' = sy_tasks sy" for n b
  proof (induction n arbitrary: b sy)
    case 0
    then show ?case
      by (subst (asm) tool_attempts.simps)
        (auto simp: tool_attempt_def Let_def next_tick_def emit_def split: if_splits prod.splits sum.splits tool_error.splits)
  next
    case (Suc n)
    from Suc.prems show ?case
      by (subst (asm) tool_attempts.simps)
        (auto simp: tool_attempt_def Let_def next_tick_def emit_def dest!: Suc.IH
          split: if_splits prod.splits sum.splits tool_error.splits option.splits)
  qed
  then show "execute_tool ve ctx idx t params step sy = (sy', r) \<Longrightarrow> sy_tasks sy' = sy_tasks sy" by (simp add: execute_tool_def)
qed

lemma live_exec_gate: "gate_in G lv \<Longrightarrow> live_exec lv = Some s \<Longrightarrow> es_gate s \<in> G"
  by (auto simp: live_exec_def gate_in_def split: option.splits if_splits)

lemma tool_step_parked:
  assumes "works ve" "plain_tool_step (we_cfg ve) s t" "parked ve pipe st (ln_sys lv)" "gate_in {es_gate st} lv"
    and "es_gate st \<noteq> ''await_callback''" "ri_id ri = es_id st"
  shows "parked ve pipe st (ln_sys (flow_lin (lin_step ve ri k s lv)))"
    and "lin_step ve ri k s lv = Next lv' \<Longrightarrow> gate_in {es_gate st} lv'"
proof -
  let ?p = "call_params ve (refresh_vars ve ri lv) s"
  obtain sy where f: "sy_tasks sy = sy_tasks (ln_sys lv)"
    "lin_step ve ri k s lv = lin_tool ve ri k s t ?p ((refresh_vars ve ri lv)\<lparr>ln_sys := sy\<rparr>)"
    using tool_step_form [OF assms(1,2)] by blast
  let ?lv = "(refresh_vars ve ri lv)\<lparr>ln_sys := sy\<rparr>"
  obtain sy1 r where x: "execute_tool ve (ri_ctx ri) k t (convert_vars (we_ff ve) ?p) s sy = (sy1, r)" by fastforce
  have p1: "parked ve pipe st sy1" using execute_tool_tasks [OF x] f(1) assms(3) parked_tasks by metis
  have g: "gate_in {es_gate st} ?lv" using assms(4) by (simp add: gate_in_def)
  have "parked ve pipe st (ln_sys (flow_lin (lin_tool ve ri k s t ?p ?lv))) \<and>
    (\<forall>lv'. lin_tool ve ri k s t ?p ?lv = Next lv' \<longrightarrow> gate_in {es_gate st} lv')"
  proof (cases r)
    case (Inl err)
    obtain sy2 r2 where l: "log_lifecycle ve (ln_exec ?lv) ''tool.failed'' (audit_failure_result err)
        [(''step'', GStr (ps_id s)), (''tool'', GStr (ps_tool s)), (''error'', GStr (tool_error_text err))] sy1 = (sy2, r2)" by fastforce
    have "clear_prepared_wait ve (live_exec ?lv) (tool_error_text err) sy2 = (sy2, live_exec ?lv)"
      using live_exec_gate [OF g] assms(5) by (cases "live_exec ?lv") (auto simp: clear_prepared_wait_def)
    moreover have "parked ve pipe st (fail_tool ve (live_exec ?lv) (es_id st) (ps_id s) (ps_tool s) err sy2)"
      by (rule fail_tool_parked [OF assms(1)]) (use p1 works_log [OF assms(1) l] parked_tasks in metis)
    ultimately show ?thesis using x l Inl assms(6) by (simp add: lin_tool_def Let_def)
  next
    case (Inr out0)
    let ?out = "if mget out0 ''executed'' = None then mput out0 ''executed'' (GBool True) else out0"
    obtain sy2 where a: "audit_or_fail ve ri ''tool.completed'' ''success'' (completed_details ve s (ps_tool s) ?out)
        (put_result (ps_tool s) ?out (?lv\<lparr>ln_sys := sy1\<rparr>)) = Next ((put_result (ps_tool s) ?out (?lv\<lparr>ln_sys := sy1\<rparr>))\<lparr>ln_sys := sy2\<rparr>)"
      "sy_tasks sy2 = sy_tasks sy1"
      using works_audit [OF assms(1), of ri "''tool.completed''" "''success''" "completed_details ve s (ps_tool s) ?out"
          "put_result (ps_tool s) ?out (?lv\<lparr>ln_sys := sy1\<rparr>)"] by auto
    have "parked ve pipe st (event (ri_id ri) ''Verifier'' (''tool '' @ ps_tool s) ''ok'' sy2)"
      using p1 a(2) parked_tasks [of "event (ri_id ri) ''Verifier'' (''tool '' @ ps_tool s) ''ok'' sy2" sy1] by (simp add: event_def emit_def)
    with x a(1) Inr g show ?thesis by (simp add: lin_tool_def Let_def gate_in_def)
  qed
  with f(2) show "parked ve pipe st (ln_sys (flow_lin (lin_step ve ri k s lv)))"
    "lin_step ve ri k s lv = Next lv' \<Longrightarrow> gate_in {es_gate st} lv'" by simp_all
qed

definition plain_tools_from :: "env \<Rightarrow> pipeline \<Rightarrow> nat \<Rightarrow> bool" where
  "plain_tools_from ve pipe k = list_all (\<lambda>s. case mget (cf_tools (we_cfg ve)) (ps_tool s) of None \<Rightarrow> False
     | Some t \<Rightarrow> plain_tool_step (we_cfg ve) s t) (drop k (pl_steps pipe))"

lemma plain_tools_step: "plain_tools_from ve pipe k \<Longrightarrow> k < length (pl_steps pipe) \<Longrightarrow>
    (\<exists>t. plain_tool_step (we_cfg ve) (pl_steps pipe ! k) t) \<and> plain_tools_from ve pipe (Suc k)"
  by (auto simp: plain_tools_from_def simp flip: Cons_nth_drop_Suc split: option.splits)

lemma plain_tools_calling: "plain_tools_from ve pipe k \<Longrightarrow> k < length (pl_steps pipe) \<Longrightarrow> calling_step (we_cfg ve) (pl_steps pipe ! k)"
  by (auto simp: plain_tools_from_def calling_step_def simp flip: Cons_nth_drop_Suc split: option.splits)

lemma lin_run_parked:
  assumes "works ve" "ri_pipe ri = pipe" "ri_id ri = es_id st" "es_gate st \<noteq> ''await_callback''"
  shows "parked ve pipe st (ln_sys lv) \<Longrightarrow> gate_in {es_gate st} lv \<Longrightarrow> plain_tools_from ve pipe k \<Longrightarrow>
    parked ve pipe st (ln_sys (lin_run ve ri k lv))"
proof (induction "length (pl_steps pipe) - k" arbitrary: k lv)
  case 0
  then have "sy_tasks (ln_sys (lin_run ve ri k lv)) = sy_tasks (ln_sys lv)"
    using assms(2) by (auto simp: lin_run_def lin_finish_def send_summarize_def Let_def with_sys_def put_result_def send_msg_def next_tick_def emit_def)
  with 0 parked_tasks show ?case by metis
next
  case (Suc n)
  then have k: "k < length (pl_steps pipe)" "n = length (pl_steps pipe) - Suc k" by simp_all
  from plain_tools_step [OF Suc.prems(3) k(1)] obtain t where t: "plain_tool_step (we_cfg ve) (pl_steps pipe ! k) t"
    "plain_tools_from ve pipe (Suc k)" by blast
  note st = tool_step_parked [OF assms(1) t(1) Suc.prems(1,2) assms(4,3), of k]
  show ?case
  proof (cases "lin_step ve ri k (pl_steps pipe ! k) lv")
    case (Next lv1)
    with Suc.hyps(1) [OF k(2), of lv1] st t(2) k(1) assms(2) show ?thesis by (simp add: lin_run_unfold)
  next
    case (Stop lv1)
    with st(1) k(1) assms(2) show ?thesis by (simp add: lin_run_unfold)
  qed
qed

lemma execute_linear_parked:
  assumes "works ve" "parked ve pipe st sy" "es_gate st \<noteq> ''await_callback''" "plain_tools_from ve pipe (resume_step pipe st)"
  shows "parked ve pipe st (execute_linear ve pipe (es_id st) session intent language ctx results base sy)"
proof -
  obtain s where s: "mget (sy_tasks sy) (es_id st) = Some s" "same_wait st s" using parkedD [OF assms(2)] by blast
  obtain ri lv where l: "lin_setup ve pipe (es_id st) session intent language ctx results base sy = (ri, lv)" by fastforce
  have lv: "ln_exec lv = Some s" "ri_pipe ri = pipe" "ri_id ri = es_id st" "sy_tasks (ln_sys lv) = sy_tasks sy"
    using lin_setup_loaded [OF l] assms(1) s(1) l alloc_callbacks_sys [of ve "pl_steps pipe" "mput (mputs [] base) ''trace_id'' (GStr (es_id st))" sy]
    by (auto simp: lin_setup_def Let_def load_state_def next_tick_def)
  let ?k = "length (es_completed st)"
  have w: "es_completed s = es_completed st" "es_gate s = es_gate st" using s(2) by (simp_all add: same_wait_def)
  have start: "parked ve pipe st (ln_sys lv)" "gate_in {es_gate st} lv"
    using assms(2) lv(1,4) w parked_tasks [of "ln_sys lv" sy ve pipe st] by (simp_all add: gate_in_def)
  note run = lin_run_parked [OF assms(1) lv(2,3) assms(3)]
  have "parked ve pipe st (ln_sys (lin_run ve ri ?k lv))"
  proof (cases "?k < length (pl_steps pipe) \<and> passed_gate (pl_steps pipe ! ?k) (es_gate st)")
    case True
    then have "lin_run ve ri ?k lv = lin_run ve ri (Suc ?k) (refresh_vars ve ri lv)"
      using lv w gate_step_passed [of _ s lv] by (simp add: lin_run_unfold)
    moreover have "parked ve pipe st (ln_sys (refresh_vars ve ri lv))"
      using start(1) by (simp add: refresh_vars_def Let_def parked_def next_tick_def)
    moreover have "gate_in {es_gate st} (refresh_vars ve ri lv)" using start(2) by (simp add: gate_in_def)
    ultimately show ?thesis using run assms(4) True by (simp add: resume_step_def)
  next
    case False
    then have "resume_step pipe st = ?k" unfolding resume_step_def Let_def by (rule if_not_P)
    with run start assms(4) show ?thesis by simp
  qed
  with lv(1) w show ?thesis by (simp add: execute_linear_def l start_index_def)
qed

text \<open>What \<open>approval_resumes\<close> says, with the record still parked after the run.\<close>

lemma approval_parked:
  assumes "works ve" "parked ve pipe st sy" "es_gate st \<noteq> ''await_callback''" "plain_tools_from ve pipe (resume_step pipe st)"
    and "get_string (ms_payload msg) ''id'' = Some (es_id st)" "get_string (ms_payload msg) ''decision'' = Some ''approved''"
    and "mget (cf_pipelines (we_cfg ve)) (pl_name pipe) = Some pipe" "pl_mode pipe \<noteq> ''dag''"
  shows "goes_on ve pipe (resume_step pipe st) sy (fst (handle_human_decision ve sched msg sy))"
    and "parked ve pipe st (fst (handle_human_decision ve sched msg sy))"
proof -
  obtain s where s: "mget (sy_tasks sy) (es_id st) = Some s" "same_wait st s" "es_pipeline s = pl_name pipe"
    "manifest_current ve pipe s" "exec_json_ok s" "exec_norm s = s" using parkedD [OF assms(2)] by blast
  have w: "es_id s = es_id st" "es_gate s = es_gate st" "es_completed s = es_completed st" using s(2) by (simp_all add: same_wait_def)
  have pl: "mget (cf_pipelines (we_cfg ve)) (es_pipeline s) = Some pipe" using s(3) assms(7) by simp
  from approval_goes_on [OF assms(1) s(5) assms(5,6) s(1) w(1) pl assms(8) s(4)] resume_step_cong [of s st pipe] w
  show "goes_on ve pipe (resume_step pipe st) sy (fst (handle_human_decision ve sched msg sy))" by simp
  from approval_resumes [OF assms(1) s(5) assms(5,6) s(1) w(1), of sched] obtain t sy3 where
    h: "handle_human_decision ve sched msg sy = resume_from_state ve sched (stamp_created t (record_decision ''approved'' s)) sy3"
      "mget (sy_tasks sy3) (es_id st) = Some (exec_norm (stamp_created t (record_decision ''approved'' s)))" by blast
  let ?st = "stamp_created t (record_decision ''approved'' s)"
  have n: "exec_norm ?st = ?st" using norm_kept [OF norm_kept(3) [OF s(6)]] by simp
  have cur: "manifest_current ve pipe ?st" using s(4) manifest_current_cong [of ?st s] by simp
  have same: "es_id ?st = es_id st" "es_pipeline ?st = pl_name pipe" "exec_json_ok ?st" "same_wait st ?st"
    using w s(3,5) by (simp_all add: same_wait_def)
  have p3: "parked ve pipe st sy3" by (rule parkedI [of _ _ ?st]) (use h(2) n same cur in simp_all)
  let ?params = "string_map_to_any (case es_params ?st of None \<Rightarrow> [] | Some p \<Rightarrow> p)"
  obtain sy4 st4 r4 where m: "ensure_manifest ve (es_id st) (es_session ?st) (es_intent ?st) pipe ?params (Some ?st) sy3 = (sy4, st4, r4)"
    by (metis surj_pair)
  note ok = works_manifest [OF assms(1) cur same(3) m]
  have p4: "parked ve pipe st sy4"
  proof (cases "sy_tasks sy4 = sy_tasks sy3")
    case True
    with p3 parked_tasks show ?thesis by metis
  next
    case False
    with ok obtain snapshot version t4 where v: "build_pipeline_snapshot (we_lib ve) pipe (we_cfg ve) = Inr (snapshot, version)"
      "mget (sy_tasks sy4) (es_id ?st) = Some (exec_norm (stamp_created t4 (with_manifest ve pipe ?params snapshot version ?st)))" by blast
    let ?s4 = "stamp_created t4 (with_manifest ve pipe ?params snapshot version ?st)"
    have "exec_norm ?s4 = ?s4" using norm_kept [OF norm_kept(4) [OF n]] by simp
    moreover have "manifest_current ve pipe ?s4" using v(1) by (simp add: manifest_current_def)
    moreover have "same_wait st ?s4" using same(4) by (simp add: same_wait_def)
    ultimately show ?thesis by (intro parkedI [of _ _ ?s4]) (use v(2) same in simp_all)
  qed
  obtain sy5 ctx where c: "resume_context ve (es_id st) sy4 = (sy5, ctx)" by fastforce
  let ?sy6 = "mark_run_start ve (es_id st) sy5"
  have "sy_tasks ?sy6 = sy_tasks sy4" using resume_context_same [OF c] by (simp add: mark_run_start_def next_tick_def)
  with p4 have "parked ve pipe st ?sy6" using parked_tasks by metis
  from execute_linear_parked [OF assms(1) this assms(3,4)]
  have "parked ve pipe st (fst (resume_from_state ve sched ?st sy3))"
    using m ok c assms(7,8) same(1,2) by (simp add: resume_from_state_def Let_def run_executor_def)
  with h(1) show "parked ve pipe st (fst (handle_human_decision ve sched msg sy))" by simp
qed

text \<open>
  C38: a defect. An approval does not clear the gate of the stored record, and no handler checks that
  the run still waits at it. Let the record of a linear run wait at a plain gate of its pipeline, as the
  store returns it, let only plain tool steps follow the gate, and let the store and the journal work.
  Two approvals of the task, whoever gave them and whatever the tools answer, then both call the step
  behind the gate, for instance a payment, as long as nothing else touches the record in between.
\<close>

theorem second_approval_pays_twice:
  assumes "works ve" "mget (sy_tasks sy) i = Some st" "es_id st = i" "exec_json_ok st" "exec_norm st = st"
    and "mget (cf_pipelines (we_cfg ve)) (es_pipeline st) = Some pipe" "es_pipeline st = pl_name pipe" "pl_mode pipe \<noteq> ''dag''"
    and "manifest_current ve pipe st" "g = length (es_completed st)" "Suc g < length (pl_steps pipe)"
    and "passed_gate (pl_steps pipe ! g) (es_gate st)" "es_gate st \<noteq> ''await_callback''" "plain_tools_from ve pipe (Suc g)"
    and "get_string (ms_payload msg1) ''id'' = Some i" "get_string (ms_payload msg1) ''decision'' = Some ''approved''"
    and "get_string (ms_payload msg2) ''id'' = Some i" "get_string (ms_payload msg2) ''decision'' = Some ''approved''"
    and "sy1 = fst (handle_human_decision ve sched1 msg1 sy)" "sy2 = fst (handle_human_decision ve sched2 msg2 sy1)"
  shows "\<exists>es1 rest1 es2 rest2. sy_trace sy1 = sy_trace sy @ es1 \<and> calls es1 = Suc g # rest1 \<and>
    sy_trace sy2 = sy_trace sy1 @ es2 \<and> calls es2 = Suc g # rest2"
proof -
  have k: "resume_step pipe st = Suc g" using assms(10-12) by (simp add: resume_step_def)
  have p: "parked ve pipe st sy" by (rule parkedI [of _ _ st]) (use assms(2-9) in \<open>simp_all add: same_wait_def\<close>)
  have tools: "plain_tools_from ve pipe (resume_step pipe st)" using assms(14) k by simp
  have pl: "mget (cf_pipelines (we_cfg ve)) (pl_name pipe) = Some pipe" using assms(6,7) by simp
  have ids: "get_string (ms_payload msg1) ''id'' = Some (es_id st)" "get_string (ms_payload msg2) ''id'' = Some (es_id st)"
    using assms(3,15,17) by simp_all
  note one = approval_parked [OF assms(1) p assms(13) tools ids(1) assms(16) pl assms(8), of sched1, folded assms(19)]
  note two = approval_parked(1) [OF assms(1) one(2) assms(13) tools ids(2) assms(18) pl assms(8), of sched2, folded assms(20)]
  from plain_tools_calling [OF assms(14,11)] one(1) two k assms(11) show ?thesis by (simp add: goes_on_def calls_next_def)
qed

subsection \<open>The properties on concrete runs\<close>

lemma human_rejection_ends_run_witness:
  "\<exists>sy'. handle_human_decision demo_dag_env (\<lambda>m. m) (demo_decision ''no'') (demo_sys [(''t1'', demo_dag_record)]) = (sy', True) \<and>
     calls (sy_trace sy') = []"
proof -
  have "exec_json_ok demo_dag_record" by (simp add: exec_json_ok_def demo_dag_record_def zero_exec_def cb_map_def)
  with human_rejection_ends_run [of "demo_decision ''no''" "''t1''" "''no''" "demo_sys [(''t1'', demo_dag_record)]"
      demo_dag_record demo_dag_env "\<lambda>m. m"] show ?thesis
    by (auto simp: demo_decision_def get_string_def demo_sys_def demo_dag_env_def demo_env_def demo_dag_record_def zero_exec_def)
qed

definition demo_waiting :: exec_state where
  "demo_waiting = demo_approved\<lparr>es_pipeline := ''refund'', es_version := ''''\<rparr>"

definition demo_answered :: exec_state where
  "demo_answered = demo_await\<lparr>es_version := ''''\<rparr>"

lemma demo_lin_works: "works demo_lin_env"
  by (simp add: works_def)

lemma demo_lin_steps: "calling_step (we_cfg demo_lin_env) (pl_steps demo_pipe ! 2)" "plain_tools_from demo_lin_env demo_pipe 2"
  "manifest_current demo_lin_env demo_pipe demo_waiting" "manifest_current demo_lin_env demo_pipe demo_answered"
  "resume_step demo_pipe demo_waiting = 2" "length (pl_steps demo_pipe) = 3"
  by code_simp+

lemma demo_records: "exec_json_ok demo_waiting" "exec_json_ok demo_answered" "exec_norm demo_waiting = demo_waiting"
  "es_id demo_waiting = ''t1''" "es_pipeline demo_waiting = ''refund''" "es_pipeline demo_answered = ''refund''"
  "es_completed demo_waiting = [''crm'']" "es_completed demo_answered = [''crm'']"
  "es_gate demo_waiting = ''review''" "awaits_token ''tok'' demo_answered" "es_deadline demo_answered = None"
  by (simp_all add: demo_waiting_def demo_answered_def demo_approved_def demo_await_def demo_record_def zero_exec_def exec_json_ok_def
      cb_map_def exec_norm_def awaits_token_def)

lemma callback_resumes_after_wait_witness:
  "\<exists>sy' rest. handle_callback demo_lin_env (\<lambda>m. m) demo_callback (demo_sys [(''t1'', demo_answered)]) = (sy', True) \<and>
     calls (sy_trace sy') = 2 # rest"
proof -
  have m: "get_string0 (ms_payload demo_callback) ''token'' = ''tok''" "json_ok (callback_value (ms_payload demo_callback))"
    by (simp_all add: demo_callback_def get_string0_def get_string_def callback_value_def)
  have t: "sy_tasks (demo_sys [(''t1'', demo_answered)]) = [(''t1'', demo_answered)]" "sy_trace (demo_sys [(''t1'', demo_answered)]) = []"
    by (simp_all add: demo_sys_def)
  have "\<forall>n. \<not> too_late (we_now demo_lin_env n) demo_answered" by (simp add: too_late_def demo_records)
  with callback_resumes_after_wait [of "demo_sys [(''t1'', demo_answered)]" demo_callback demo_answered demo_lin_env demo_pipe "\<lambda>m. m"]
    m t demo_lin_works demo_lin_steps demo_records obtain sy' es where
    "handle_callback demo_lin_env (\<lambda>m. m) demo_callback (demo_sys [(''t1'', demo_answered)]) = (sy', True)" "sy_trace sy' = es"
    "proceeds demo_lin_env demo_pipe (Suc (length (es_completed demo_answered))) es"
    by auto
  with demo_lin_steps demo_records show ?thesis by (auto simp: proceeds_def numeral_2_eq_2)
qed

lemma approval_resumes_linear_witness:
  "\<exists>sy' rest. handle_human_decision demo_lin_env (\<lambda>m. m) (demo_decision ''approved'') (demo_sys [(''t1'', demo_waiting)]) = (sy', True) \<and>
     calls (sy_trace sy') = 2 # rest"
proof -
  have m: "get_string (ms_payload (demo_decision ''approved'')) ''id'' = Some ''t1''"
    "get_string (ms_payload (demo_decision ''approved'')) ''decision'' = Some ''approved''"
    by (simp_all add: demo_decision_def get_string_def)
  have t: "sy_tasks (demo_sys [(''t1'', demo_waiting)]) = [(''t1'', demo_waiting)]" "sy_trace (demo_sys [(''t1'', demo_waiting)]) = []"
    by (simp_all add: demo_sys_def)
  from approval_resumes_linear [of "demo_decision ''approved''" demo_waiting "demo_sys [(''t1'', demo_waiting)]" demo_lin_env demo_pipe
      "\<lambda>m. m"] m t demo_lin_works demo_lin_steps demo_records obtain sy' es where
    "handle_human_decision demo_lin_env (\<lambda>m. m) (demo_decision ''approved'') (demo_sys [(''t1'', demo_waiting)]) = (sy', True)"
    "sy_trace sy' = es" "proceeds demo_lin_env demo_pipe (resume_step demo_pipe demo_waiting) es"
    by auto
  with demo_lin_steps show ?thesis by (auto simp: proceeds_def)
qed

lemma second_approval_pays_twice_witness:
  "\<exists>sy1 es1 sy2 es2. sy1 = fst (handle_human_decision demo_lin_env (\<lambda>m. m) (demo_decision ''approved'') (demo_sys [(''t1'', demo_waiting)])) \<and>
     sy2 = fst (handle_human_decision demo_lin_env (\<lambda>m. m) (demo_decision ''approved'') sy1) \<and>
     sy_trace sy1 = es1 \<and> 2 \<in> set (calls es1) \<and> sy_trace sy2 = sy_trace sy1 @ es2 \<and> 2 \<in> set (calls es2)"
proof -
  have m: "get_string (ms_payload (demo_decision ''approved'')) ''id'' = Some ''t1''"
    "get_string (ms_payload (demo_decision ''approved'')) ''decision'' = Some ''approved''"
    by (simp_all add: demo_decision_def get_string_def)
  have t: "mget (sy_tasks (demo_sys [(''t1'', demo_waiting)])) ''t1'' = Some demo_waiting" "sy_trace (demo_sys [(''t1'', demo_waiting)]) = []"
    by (simp_all add: demo_sys_def)
  have g: "passed_gate (pl_steps demo_pipe ! 1) (es_gate demo_waiting)" "es_gate demo_waiting \<noteq> ''await_callback''"
    "es_pipeline demo_waiting = pl_name demo_pipe" "Suc 1 = (2 :: nat)" "pl_mode demo_pipe \<noteq> ''dag''"
    "(1 :: nat) = length (es_completed demo_waiting)" "Suc 1 < length (pl_steps demo_pipe)"
    by (simp_all add: demo_records demo_lin_steps, code_simp+)
  have pl: "mget (cf_pipelines (we_cfg demo_lin_env)) (es_pipeline demo_waiting) = Some demo_pipe" by (simp add: demo_records)
  have tools: "plain_tools_from demo_lin_env demo_pipe (Suc 1)" unfolding g(4) by (rule demo_lin_steps(2))
  from second_approval_pays_twice [OF demo_lin_works t(1) demo_records(4,1,3) pl g(3,5) demo_lin_steps(3) g(6,7,1,2) tools m m refl refl,
      of "\<lambda>m. m" "\<lambda>m. m"] g(4) t(2) show ?thesis by fastforce
qed

end
