(* ===== verification/Llm_Model.thy ===== *)
theory Llm_Model
  imports Config_Model
begin

text \<open>
  What package llm does around a model's answer: the catalog of intents in the prompt, the
  extraction of the JSON object from the answer, the facts that are kept, the parameters that are
  missing (llm/detect_intent.go, llm/extract_params.go), and the summary of a memory operation
  (llm/analyst.go). The prompt texts, the JSON parser and the schema library are arguments.
\<close>

definition nl :: string where "nl = [char_of (10 :: nat)]"

subsection \<open>Cleaning an answer (detect_intent.go)\<close>

definition fence :: string where "fence = ''```''"
definition json_fence :: string where "json_fence = ''```json''"

text \<open>The object that starts at a brace: up to the brace that closes it, if there is one.\<close>

fun match_braces :: "nat \<Rightarrow> string \<Rightarrow> string option" where
  "match_braces depth [] = None"
| "match_braces depth (c # cs) =
    (if c = CHR ''{'' then map_option ((#) c) (match_braces (Suc depth) cs)
     else if c = CHR ''}'' then (if depth \<le> 1 then Some [c] else map_option ((#) c) (match_braces (depth - 1) cs))
     else map_option ((#) c) (match_braces depth cs))"

definition strip_outer_fence :: "string \<Rightarrow> string" where
  "strip_outer_fence raw =
    (if \<not> has_prefix raw fence then raw
     else (let s = trim_space (trim_prefix (trim_prefix raw json_fence) fence) in
       if has_suffix s fence then trim_space (trim_suffix s fence) else s))"

text \<open>The first match of the pattern (?s)```json(.*?)```.\<close>

definition inner_fence :: "string \<Rightarrow> string" where
  "inner_fence raw =
    (case str_cut raw json_fence of (_, _, False) \<Rightarrow> raw
     | (_, after, True) \<Rightarrow> (case str_cut after fence of (body, _, True) \<Rightarrow> trim_space body | _ \<Rightarrow> raw))"

definition first_object :: "string \<Rightarrow> string" where
  "first_object raw =
    (case str_index raw ''{'' of None \<Rightarrow> raw
     | Some start \<Rightarrow> (case match_braces 0 (drop start raw) of None \<Rightarrow> raw | Some obj \<Rightarrow> obj))"

definition sanitize_llm_output :: "string \<Rightarrow> string" where
  "sanitize_llm_output raw = trim_space (first_object (inner_fence (strip_outer_fence (trim_space raw))))"

subsection \<open>Facts and parameters\<close>

definition normalize_text :: "string \<Rightarrow> string" where
  "normalize_text s = to_lower (str_join '' '' (fields_func is_space s))"

definition fact_from_message :: "string \<Rightarrow> string \<Rightarrow> bool" where
  "fact_from_message message claim =
    (let f = normalize_text claim in f \<noteq> '''' \<and> str_contains (normalize_text message) f)"

text \<open>What the planner gets. The raw text, which nothing reads, is left out.\<close>

record detected =
  di_type :: string
  di_params :: "string gomap"
  di_confidence :: f64
  di_language :: string
  di_errors :: "string list"
  di_new_facts :: "string list"

text \<open>The catalog in the prompt: every intent but the nameless one and the fallback.\<close>

definition intent_defs :: "intent gomap \<Rightarrow> gval gomap" where
  "intent_defs intents = map (\<lambda>(name, d). (name, GObj (
      [(''description'', GStr (it_description d)),
       (''required_params'', GList (map GStr (it_required_params d)))] @
      (if it_examples d \<noteq> [] then [(''examples'', GList (map GStr (it_examples d)))] else []))))
    (filter (\<lambda>(name, d). name \<noteq> '''' \<and> name \<noteq> ''system.fallback'') intents)"

text \<open>
  \<open>json.Unmarshal\<close> into the struct of the answer, from the parsed document: a null leaves the
  zero value and a value of another type is an error. (Keys that only match when case is ignored
  do not pass the schema.)
\<close>

definition unmarshal_error :: string where "unmarshal_error = ''json: cannot unmarshal''"

fun dec_str :: "gval option \<Rightarrow> string + string" where
  "dec_str None = Inr ''''"
| "dec_str (Some GNil) = Inr ''''"
| "dec_str (Some (GStr s)) = Inr s"
| "dec_str (Some _) = Inl unmarshal_error"

fun dec_float :: "gval option \<Rightarrow> string + f64" where
  "dec_float None = Inr (Fin 0)"
| "dec_float (Some GNil) = Inr (Fin 0)"
| "dec_float (Some (GFloat x)) = Inr x"
| "dec_float (Some _) = Inl unmarshal_error"

fun dec_list :: "gval list \<Rightarrow> string + string list" where
  "dec_list [] = Inr []"
| "dec_list (v # vs) = (case dec_str (Some v) of Inl err \<Rightarrow> Inl err
     | Inr s \<Rightarrow> (case dec_list vs of Inl err \<Rightarrow> Inl err | Inr ss \<Rightarrow> Inr (s # ss)))"

fun dec_strs :: "gval option \<Rightarrow> string + string list" where
  "dec_strs None = Inr []"
| "dec_strs (Some GNil) = Inr []"
| "dec_strs (Some (GList vs)) = dec_list vs"
| "dec_strs (Some _) = Inl unmarshal_error"

text \<open>The map is nil when the field is absent or null.\<close>

fun dec_map :: "gval option \<Rightarrow> string + string gomap option" where
  "dec_map None = Inr None"
| "dec_map (Some GNil) = Inr None"
| "dec_map (Some (GObj kvs)) = (case dec_list (map snd kvs) of Inl err \<Rightarrow> Inl err
     | Inr ss \<Rightarrow> Inr (Some (zip (map fst kvs) ss)))"
| "dec_map (Some _) = Inl unmarshal_error"

record intent_answer =
  ian_intent :: string
  ian_confidence :: f64
  ian_language :: string
  ian_params :: "string gomap option"
  ian_errors :: "string list"
  ian_new_facts :: "string list"

definition decode_answer :: "gval \<Rightarrow> string + intent_answer" where
  "decode_answer v = (case v of
     GObj m \<Rightarrow>
       (case (dec_str (mget m ''intent''), dec_float (mget m ''confidence''), dec_str (mget m ''language''),
           dec_map (mget m ''parameters''), dec_strs (mget m ''errors''), dec_strs (mget m ''new_facts'')) of
          (Inr i, Inr c, Inr l, Inr p, Inr e, Inr f) \<Rightarrow> Inr \<lparr>ian_intent = i, ian_confidence = c,
            ian_language = l, ian_params = p, ian_errors = e, ian_new_facts = f\<rparr>
        | _ \<Rightarrow> Inl unmarshal_error)
   | GNil \<Rightarrow> Inr \<lparr>ian_intent = '''', ian_confidence = Fin 0, ian_language = '''', ian_params = None,
       ian_errors = [], ian_new_facts = []\<rparr>
   | _ \<Rightarrow> Inl unmarshal_error)"

text \<open>An explicit memory intent owns what is stored: the facts beside it are dropped.\<close>

definition drop_memory_facts :: "gval \<Rightarrow> gval" where
  "drop_memory_facts v = (case v of
     GObj m \<Rightarrow> if has_prefix (str_of m ''intent'') ''memory.'' then GObj (mput m ''new_facts'' (GList [])) else v
   | _ \<Rightarrow> v)"

text \<open>Only facts that the message states are kept.\<close>

definition ground_answer :: "string \<Rightarrow> intent_answer \<Rightarrow> intent_answer" where
  "ground_answer text a0 =
    (let a = a0\<lparr>ian_new_facts := filter (fact_from_message text) (ian_new_facts a0)\<rparr>;
         params = (case ian_params a of None \<Rightarrow> [] | Some p \<Rightarrow> p) in
     if ian_intent a = ''memory.add'' \<and> \<not> fact_from_message text (mstr params ''fact'')
     then a\<lparr>ian_params := Some (mput params ''fact'' '''')\<rparr> else a)"

text \<open>The required parameters that are absent or empty: each gets an entry and an error.\<close>

fun require_params :: "string list \<Rightarrow> string gomap \<Rightarrow> string list \<Rightarrow> string gomap \<times> string list" where
  "require_params [] params errs = (params, errs)"
| "require_params (r # rs) params errs =
    (if mstr params r = '''' then require_params rs (mput params r '''') (errs @ [r])
     else require_params rs params errs)"

definition conclude_intent :: "intent gomap \<Rightarrow> intent_answer \<Rightarrow> detected" where
  "conclude_intent intents a =
    (case mget intents (ian_intent a) of
       Some it \<Rightarrow> if ian_intent a = '''' then
           \<lparr>di_type = '''', di_params = [], di_confidence = Fin 0, di_language = '''',
            di_errors = [''invalid_intent''], di_new_facts = ian_new_facts a\<rparr>
         else (case require_params (it_required_params it) (case ian_params a of None \<Rightarrow> [] | Some p \<Rightarrow> p)
             (ian_errors a) of (params, errs) \<Rightarrow>
           \<lparr>di_type = ian_intent a, di_params = params, di_confidence = ian_confidence a,
            di_language = ian_language a, di_errors = errs, di_new_facts = ian_new_facts a\<rparr>)
     | None \<Rightarrow> \<lparr>di_type = '''', di_params = [], di_confidence = Fin 0, di_language = '''',
         di_errors = [''invalid_intent''], di_new_facts = ian_new_facts a\<rparr>)"

text \<open>\<open>DetectIntentAndParams\<close> from the model's answer on.\<close>

definition read_intent :: "(string \<Rightarrow> string + gval) \<Rightarrow> (gval \<Rightarrow> string option) \<Rightarrow> intent gomap \<Rightarrow>
    string \<Rightarrow> string \<Rightarrow> string + detected" where
  "read_intent parse schema intents text raw =
    (case parse (sanitize_llm_output raw) of
       Inl err \<Rightarrow> Inl (''invalid JSON from LLM: '' @ err)
     | Inr doc \<Rightarrow> (let tmp = drop_memory_facts doc in
         case schema tmp of Some err \<Rightarrow> Inl (''schema validation failed: '' @ err)
         | None \<Rightarrow> (case decode_answer tmp of
             Inl err \<Rightarrow> Inl (''invalid JSON from LLM: '' @ err @ '' | raw='' @ raw)
           | Inr a \<Rightarrow> Inr (conclude_intent intents (ground_answer text a)))))"

text \<open>\<open>ExtractParams\<close> from the model's answer on (extract_params.go).\<close>

definition read_params :: "(f64 \<Rightarrow> string) \<Rightarrow> (string \<Rightarrow> string + gval) \<Rightarrow> string \<Rightarrow> string + string gomap" where
  "read_params ff parse raw =
    (let clean = sanitize_llm_output raw in
     case parse clean of
       Inl err \<Rightarrow> Inl (''error parsing parameters JSON: '' @ err @ ''; clean='' @ clean)
     | Inr (GObj m) \<Rightarrow> Inr (map (\<lambda>(k, v). (k, fmt_v ff v)) m)
     | Inr GNil \<Rightarrow> Inr []
     | Inr _ \<Rightarrow> Inl (''error parsing parameters JSON: '' @ unmarshal_error @ ''; clean='' @ clean))"

subsection \<open>Summaries (analyst.go)\<close>

definition memory_tool_of :: "string \<Rightarrow> string option" where
  "memory_tool_of intent = mget [(''memory.add'', ''system.memory.add''), (''memory.list'', ''system.memory.list''),
     (''memory.forget'', ''system.memory.delete''), (''memory.clear'', ''system.memory.clear'')] intent"

text \<open>The result of a memory tool that says it was executed, without an error.\<close>

definition confirmed_result :: "string \<Rightarrow> gval gomap \<Rightarrow> gval gomap option" where
  "confirmed_result tool raw = (case mget raw tool of
     Some (GObj r) \<Rightarrow> if mget r ''executed'' = Some (GBool True) \<and> (mget r ''error'' = None \<or> mget r ''error'' = Some GNil)
       then Some r else None
   | _ \<Rightarrow> None)"

definition listed_facts :: "gval gomap \<Rightarrow> string list option" where
  "listed_facts r = map_option (List.map_filter (\<lambda>v. as_str (Some v))) (as_list (mget r ''memories''))"

definition summarize_memory_result :: "string \<Rightarrow> gval gomap \<Rightarrow> string \<Rightarrow> string + string" where
  "summarize_memory_result intent raw lang =
    (case memory_tool_of intent of None \<Rightarrow> Inl (''unknown memory intent: '' @ intent)
     | Some tool \<Rightarrow> (case confirmed_result tool raw of None \<Rightarrow> Inl ''memory operation not confirmed''
       | Some r \<Rightarrow> (let es = (lang = ''es'') in
           if intent = ''memory.add''
           then (let claim = str_of r ''fact'' in
             if claim = '''' then Inl ''saved fact missing from result''
             else Inr ((if es then ''He guardado este recuerdo: '' else ''I saved this memory: '') @ claim))
           else if intent = ''memory.list''
           then (case listed_facts r of None \<Rightarrow> Inl ''memory list missing from result''
             | Some [] \<Rightarrow> Inr (if es then ''No tengo recuerdos personales guardados para ti.''
                 else ''I have no personal memories saved for you.'')
             | Some facts \<Rightarrow> Inr ((if es then ''Esto es lo que recuerdo:'' else ''Here is what I remember:'') @
                 nl @ ''- '' @ str_join (nl @ ''- '') facts))
           else if intent = ''memory.forget''
           then (case mget r ''deleted'' of Some (GInt n) \<Rightarrow>
               Inr (if es then ''He borrado '' @ show_int n @ '' recuerdos. Si no hay coincidencias, usa el ID o el texto exacto.''
                 else ''I deleted '' @ show_int n @ '' memories. If none matched, use the ID or exact text.'')
             | _ \<Rightarrow> Inl ''deleted count missing from result'')
           else Inr (if es then ''He borrado todos tus recuerdos guardados.'' else ''I cleared all your saved memories.''))))"

text \<open>\<open>template\<close> builds the text for a language, the fallback or not, an intent and the result.\<close>

definition build_summarize_prompt :: "(string \<Rightarrow> bool \<Rightarrow> string \<Rightarrow> gval \<Rightarrow> string) \<Rightarrow> string \<Rightarrow> gval gomap \<Rightarrow> string
    \<Rightarrow> string + string" where
  "build_summarize_prompt template intent raw lang =
    (if \<not> json_ok (GObj raw) then Inl ''json: unsupported value''
     else if lang = ''es'' \<or> lang = ''en'' then Inr (template lang (intent = ''system.fallback'') intent (GObj raw))
     else Inl (''unsupported language: '' @ lang))"

text \<open>\<open>SummarizeResult\<close>: an error, a text, or a question for the model.\<close>

datatype summary = SumError string | SumText string | SumAsk string

definition plan_summary :: "(string \<Rightarrow> bool \<Rightarrow> string \<Rightarrow> gval \<Rightarrow> string) \<Rightarrow> string \<Rightarrow> gval gomap \<Rightarrow> string \<Rightarrow> summary" where
  "plan_summary template intent raw lang =
    (if has_prefix intent ''memory.''
     then (case summarize_memory_result intent raw lang of Inl err \<Rightarrow> SumError err | Inr s \<Rightarrow> SumText s)
     else (case build_summarize_prompt template intent raw lang of Inl err \<Rightarrow> SumError err | Inr p \<Rightarrow> SumAsk p))"

subsection \<open>Facts\<close>

lemma require_params_spec:
  "require_params rs params errs = (params', errs') \<Longrightarrow>
    (\<forall>r. mstr params' r = mstr params r) \<and> set errs' = set errs \<union> {r \<in> set rs. mstr params r = ''''}"
proof (induction rs arbitrary: params errs)
  case (Cons r rs)
  show ?case
  proof (cases "mstr params r = ''''")
    case True
    then have same: "mstr (mput params r '''') q = mstr params q" for q
      by (auto simp: mstr_def update_conv' split: option.splits)
    from Cons True have "require_params rs (mput params r '''') (errs @ [r]) = (params', errs')" by simp
    from Cons.IH [OF this] same True show ?thesis by auto
  next
    case False
    then show ?thesis using Cons by auto
  qed
qed simp

lemma ground_answer_facts:
  "set (ian_new_facts (ground_answer utext a)) \<subseteq> {f. fact_from_message utext f}"
  by (auto simp: ground_answer_def Let_def)

lemma ground_answer_intent [simp]: "ian_intent (ground_answer utext a) = ian_intent a"
  by (simp add: ground_answer_def Let_def)

lemma ground_answer_memory:
  assumes "ian_intent a = ''memory.add''"
    and "p = mstr (case ian_params (ground_answer utext a) of None \<Rightarrow> [] | Some p \<Rightarrow> p) ''fact''"
  shows "p = '''' \<or> fact_from_message utext p"
  using assms by (auto simp: ground_answer_def Let_def mstr_def update_conv')

lemma has_suffix_Cons: "has_suffix s q \<Longrightarrow> has_suffix (c # s) q"
  using length_take [of "length q" "rev s"] by (auto simp: has_suffix_def has_prefix_def simp del: length_take)

lemma has_suffix_refl [simp]: "has_suffix q q"
  by (simp add: has_suffix_def has_prefix_def)

lemma normalize_contains: "fact_from_message utext f \<Longrightarrow> str_contains (normalize_text utext) (normalize_text f)"
  by (simp add: fact_from_message_def Let_def)

subsection \<open>Properties\<close>

text \<open>
  C36: whatever the model answers, a detected intent is a configured one, every parameter it
  requires has a value or is reported as missing, a fact is only kept when the user's message
  states it (up to case and white space), and the fact that \<open>memory.add\<close> stores is one of those.
  Without a configured intent the answer is the error \<open>invalid_intent\<close>.
\<close>

theorem detected_intent_grounded:
  assumes "read_intent parse schema intents utext raw = Inr d"
  shows "(\<forall>f \<in> set (di_new_facts d). normalize_text f \<noteq> '''' \<and> str_contains (normalize_text utext) (normalize_text f)) \<and>
    (if di_type d = '''' then di_errors d = [''invalid_intent''] \<and> di_params d = []
     else (\<exists>it. mget intents (di_type d) = Some it \<and>
         (\<forall>r \<in> set (it_required_params it). mstr (di_params d) r \<noteq> '''' \<or> r \<in> set (di_errors d))) \<and>
       (di_type d = ''memory.add'' \<longrightarrow> mstr (di_params d) ''fact'' = '''' \<or> fact_from_message utext (mstr (di_params d) ''fact'')))"
proof -
  obtain a where d: "d = conclude_intent intents (ground_answer utext a)"
    using assms by (auto simp: read_intent_def Let_def split: sum.splits option.splits)
  let ?g = "ground_answer utext a"
  let ?p = "case ian_params ?g of None \<Rightarrow> [] | Some p \<Rightarrow> p"
  have facts: "di_new_facts d = ian_new_facts ?g"
    by (simp add: d conclude_intent_def split: option.splits prod.splits)
  have g: "\<forall>f \<in> set (di_new_facts d). normalize_text f \<noteq> '''' \<and> str_contains (normalize_text utext) (normalize_text f)"
    unfolding facts using ground_answer_facts [of utext a] by (auto simp: fact_from_message_def Let_def)
  show ?thesis
  proof (cases "ian_intent a = '''' \<or> mget intents (ian_intent a) = None")
    case True
    then have "di_type d = '''' \<and> di_errors d = [''invalid_intent''] \<and> di_params d = []"
      by (auto simp: d conclude_intent_def split: option.splits)
    with g show ?thesis by simp
  next
    case False
    then obtain it where it: "ian_intent a \<noteq> ''''" "mget intents (ian_intent a) = Some it" by auto
    obtain params errs where rp: "require_params (it_required_params it) ?p (ian_errors ?g) = (params, errs)" by fastforce
    from it rp have "di_type d = ian_intent a" "di_params d = params" "di_errors d = errs"
      by (auto simp: d conclude_intent_def)
    with g it require_params_spec [OF rp] ground_answer_memory [of a "mstr ?p ''fact''" utext] show ?thesis by auto
  qed
qed

definition demo_memory_intent :: "intent gomap" where
  "demo_memory_intent = [(''memory.add'', \<lparr>it_type = ''memory.add'', it_description = '''', it_pipeline = ''mem'',
     it_required_params = [''fact''], it_examples = [], it_allow_dangerous = False, it_requires_amount = False,
     it_requires_phone = False, it_max_amount = Fin 0, it_shadow_mode = False\<rparr>)]"

lemma detected_intent_grounded_witness:
  "\<exists>d. read_intent (\<lambda>_. Inr (GObj [(''intent'', GStr ''memory.add''),
        (''parameters'', GObj [(''fact'', GStr ''I like tea'')])])) (\<lambda>_. None)
      demo_memory_intent ''remember: i  like tea!'' ''{}'' = Inr d \<and> di_errors d = [] \<and>
    fact_from_message ''remember: i  like tea!'' (mstr (di_params d) ''fact'')"
proof -
  let ?parse = "\<lambda>_ :: string. (Inr (GObj [(''intent'', GStr ''memory.add''),
        (''parameters'', GObj [(''fact'', GStr ''I like tea'')])])) :: string + gval"
  let ?text = "''remember: i  like tea!''"
  have run: "read_intent ?parse (\<lambda>_. None) demo_memory_intent ?text ''{}'' =
    Inr \<lparr>di_type = ''memory.add'', di_params = [(''fact'', ''I like tea'')], di_confidence = Fin 0,
      di_language = '''', di_errors = [], di_new_facts = []\<rparr>"
    by code_simp
  from detected_intent_grounded [OF run] run show ?thesis
    by (auto simp: mstr_def demo_memory_intent_def)
qed

text \<open>
  a memory operation is only reported as done when the tool's recorded result says that it was
  executed and holds no error; a stored fact is repeated as the tool recorded it.
\<close>

theorem memory_summary_confirmed:
  assumes "plan_summary template intent raw lang = SumText s"
  shows "\<exists>tool r. memory_tool_of intent = Some tool \<and> mget raw tool = Some (GObj r) \<and>
    mget r ''executed'' = Some (GBool True) \<and> (case mget r ''error'' of None \<Rightarrow> True | Some e \<Rightarrow> e = GNil) \<and>
    (intent = ''memory.add'' \<longrightarrow> str_of r ''fact'' \<noteq> '''' \<and> has_suffix s (str_of r ''fact''))"
proof -
  have sm: "summarize_memory_result intent raw lang = Inr s"
    using assms by (auto simp: plan_summary_def split: if_splits sum.splits)
  then obtain tool r where t: "memory_tool_of intent = Some tool" "confirmed_result tool raw = Some r"
    by (auto simp: summarize_memory_result_def split: option.splits)
  have "intent = ''memory.add'' \<longrightarrow> str_of r ''fact'' \<noteq> '''' \<and> has_suffix s (str_of r ''fact'')"
    using sm t by (auto simp: summarize_memory_result_def Let_def intro!: has_suffix_Cons split: if_splits)
  with t show ?thesis
    by (auto simp: confirmed_result_def split: option.splits gval.splits if_splits)
qed

lemma memory_summary_confirmed_witness:
  "\<exists>s tool r. plan_summary (\<lambda>_ _ _ _. ''?'') ''memory.add''
      [(''system.memory.add'', GObj [(''executed'', GBool True), (''fact'', GStr ''tea'')])] ''en'' = SumText s \<and>
    memory_tool_of ''memory.add'' = Some tool \<and>
    mget [(''system.memory.add'', GObj [(''executed'', GBool True), (''fact'', GStr ''tea'')])] tool = Some (GObj r)"
proof -
  have run: "plan_summary (\<lambda>_ _ _ _. ''?'') ''memory.add''
      [(''system.memory.add'', GObj [(''executed'', GBool True), (''fact'', GStr ''tea'')])] ''en'' = SumText ''I saved this memory: tea''"
    by code_simp
  from memory_summary_confirmed [OF run] run show ?thesis by blast
qed

end
