(* ===== verification/Planner_Model.thy ===== *)
theory Planner_Model
  imports Agent_World Guard_Model Gov_Gate Llm_Model
begin

text \<open>
  The planner (agent/planner.go): it turns a request into an intent with parameters, decides whether
  the person may run it, checks the parameters, asks the governance gate, and only then sends the
  pipeline to the verifier. A handler answers the new system and whether it returned; it does not
  when Go panics, which \<open>Start\<close> recovers, dropping the message.
\<close>

subsection \<open>The world of the planner\<close>

text \<open>
  \<open>pr_gate\<close> is the world of a call to the decision point, \<open>pr_json\<close> and \<open>pr_schema\<close> the JSON parser and
  the schema check of an answer, and the last three fields the failures of the session store and of
  the memory store.
\<close>

record planner =
  pr_deterministic :: bool
  pr_gate :: "nat \<Rightarrow> gate_env"
  pr_intent_prompt :: "gval gomap \<Rightarrow> string \<Rightarrow> string \<Rightarrow> string"
  pr_extract_prompt :: "string list \<Rightarrow> string \<Rightarrow> string"
  pr_json :: "string \<Rightarrow> string + gval"
  pr_schema :: "gval \<Rightarrow> string option"
  pr_session :: "nat \<Rightarrow> string option"
  pr_search :: "nat \<Rightarrow> string option"
  pr_add :: "nat \<Rightarrow> string option"

text \<open>A request on its way to the verifier.\<close>

record plan_req =
  pq_id :: string
  pq_session :: string
  pq_user :: string
  pq_roles :: "string list"
  pq_domains :: "string list"
  pq_lang :: string
  pq_message :: string

subsection \<open>Errors and the governance gate\<close>

definition planner_store_error :: "env \<Rightarrow> string \<Rightarrow> string \<Rightarrow> sys \<Rightarrow> sys" where
  "planner_store_error ve i err sy =
    (let sy1 = store_result i (err_result err) sy in
     case get_task_context i sy1 of None \<Rightarrow> sy1
     | Some _ \<Rightarrow> (case load_state ve i sy1 of (sy2, Inl _) \<Rightarrow> sy2
       | (sy2, Inr st) \<Rightarrow> fst (save_state ve
           ((case st of None \<Rightarrow> zero_exec\<lparr>es_id := i\<rparr> | Some s \<Rightarrow> s)\<lparr>es_error := err\<rparr>) sy2)))"

definition governance_missing :: "string \<Rightarrow> string" where
  "governance_missing pipe_name = ''governance: pipeline '' @ pipe_name @
    '' requires a Prudence verdict but ai_system or PRUDENCE_PDP_URL is not configured (fail-closed)''"

definition blocked_message :: "string \<Rightarrow> decision \<Rightarrow> string" where
  "blocked_message pipe_name dec =
    (if dc_status dec = ApprovalRequired then ''governance approval required in Prudence''
     else ''governance: denied running '' @ pipe_name) @
    (if dc_reason dec \<noteq> '''' then '': '' @ dc_reason dec else '''')"

definition verdict_of :: "string \<Rightarrow> pipeline \<Rightarrow> decision \<Rightarrow> gval" where
  "verdict_of pipe_name pipe dec = GObj
    [(''decision'', GStr (if dc_status dec = ApprovalRequired then ApprovalRequired else Deny)),
     (''reason'', GStr (dc_reason dec)), (''approver'', GStr (dc_approver dec)),
     (''aiSystemId'', GStr (pl_ai_system pipe)), (''pipeline'', GStr pipe_name),
     (''message'', GStr (blocked_message pipe_name dec))]"

text \<open>The subject of the decision: the configured service identity, or the user.\<close>

definition gate_subject :: "env \<Rightarrow> string \<Rightarrow> string" where
  "gate_subject ve user = (let s = trim_space (we_getenv ve ''PRUDENCE_PDP_SUBJECT'') in if s = '''' then user else s)"

definition gate_answer :: "planner \<Rightarrow> env \<Rightarrow> string \<Rightarrow> string \<Rightarrow> string \<Rightarrow> pipeline \<Rightarrow> sys \<Rightarrow> string + decision" where
  "gate_answer pl ve i user pipe_name pipe sy = snd (Evaluate ((pr_gate pl (sy_tick sy))\<lparr>ge_correlation := i\<rparr>)
     (we_getenv ve ''PRUDENCE_PDP_URL'') (gate_subject ve user) pipe_name (pl_ai_system pipe) ''run'')"

definition governance_gate :: "planner \<Rightarrow> env \<Rightarrow> string \<Rightarrow> string \<Rightarrow> string \<Rightarrow> string \<Rightarrow> string \<Rightarrow> pipeline \<Rightarrow>
    string gomap \<Rightarrow> sys \<Rightarrow> sys \<times> string \<times> bool" where
  "governance_gate pl ve i session user intent pipe_name pipe params sy =
    (if pl_governed pipe \<and> (trim_space (pl_ai_system pipe) = '''' \<or> we_getenv ve ''PRUDENCE_PDP_URL'' = '''')
     then (store_result i (err_result (governance_missing pipe_name)) sy, '''', False)
     else (case gate_answer pl ve i user pipe_name pipe sy of
         Inl err \<Rightarrow> (store_result i (err_result err) (next_tick sy), '''', False)
       | Inr dec \<Rightarrow>
         if dc_status dec = Allow
         then (event i ''Governance'' ''governance_allowed'' (''Prudence allowed '' @ pipe_name) (next_tick sy), dc_id dec, True)
         else (let verdict = verdict_of pipe_name pipe dec;
                 sy1 = event i ''Governance'' ''governance_blocked'' (blocked_message pipe_name dec) (next_tick sy);
                 st = zero_exec\<lparr>es_id := i, es_session := session, es_user := user, es_intent := intent,
                   es_pipeline := pipe_name, es_params := Some params, es_status := ''governance_blocked'',
                   es_ai_system := pl_ai_system pipe, es_results := [(''_governance'', verdict)]\<rparr> in
               (store_result i \<lparr>rs_status = ''governance_blocked'', rs_data = Some verdict, rs_err = ''''\<rparr>
                 (fst (save_state ve st sy1)), '''', False))))"

subsection \<open>From an intent to the verifier\<close>

definition run_payload :: "string \<Rightarrow> string \<Rightarrow> string \<Rightarrow> pipeline \<Rightarrow> string gomap \<Rightarrow> string \<Rightarrow> string \<Rightarrow> string \<Rightarrow> pval gomap" where
  "run_payload i session intent pipe params language message decision_id =
    [(''id'', PS i), (''session_id'', PS session), (''intent'', PS intent), (''pipeline'', PPipe pipe),
     (''params'', PStrMap params), (''language'', PS language), (''message'', PS message),
     (''decision_id'', PS decision_id)]"

text \<open>The gate, the last record and the message (planner.go, from the gate on).\<close>

definition dispatch_run :: "planner \<Rightarrow> env \<Rightarrow> plan_req \<Rightarrow> string \<Rightarrow> string \<Rightarrow> pipeline \<Rightarrow> string gomap \<Rightarrow> sys \<Rightarrow> sys" where
  "dispatch_run pl ve rq intent pipe_name pipe params sy =
    (case governance_gate pl ve (pq_id rq) (pq_session rq) (pq_user rq) intent pipe_name pipe params sy of
       (sy1, _, False) \<Rightarrow> sy1
     | (sy1, decision_id, True) \<Rightarrow>
       (let sy2 = event (pq_id rq) ''Planner'' ''intent'' intent sy1;
            st = zero_exec\<lparr>es_id := pq_id rq, es_session := pq_session rq, es_user := pq_user rq, es_intent := intent,
              es_pipeline := pipe_name, es_params := Some params, es_decision := decision_id,
              es_ai_system := pl_ai_system pipe\<rparr>
        in send_msg ''verifier'' ''run_pipeline''
             (run_payload (pq_id rq) (pq_session rq) intent pipe params (pq_lang rq) (pq_message rq) decision_id)
             (fst (save_state ve st sy2))))"

text \<open>The checks between the permission and the gate: \<open>Inl\<close> with whether the record keeps the error.\<close>

definition check_request :: "planner \<Rightarrow> env \<Rightarrow> string \<Rightarrow> intent \<Rightarrow> string gomap \<Rightarrow> string list option \<Rightarrow> (string \<times> bool) + pipeline" where
  "check_request pl ve name it params structured =
    (case mget (cf_pipelines (we_cfg ve)) (it_pipeline it) of
       None \<Rightarrow> Inl (''pipeline not found: '' @ it_pipeline it, True)
     | Some pipe \<Rightarrow>
       if pr_deterministic pl \<and> intent_requires_llm (we_cfg ve) name
       then Inl (''intent requires an LLM, unavailable in deterministic mode: '' @ name, True)
       else (case (case structured of None \<Rightarrow> None | Some ns \<Rightarrow> validate_structured_params it params ns) of
           Some err \<Rightarrow> Inl (err, True)
         | None \<Rightarrow> (case validate_all (we_ff ve) (we_getenv ve) it pipe params (cf_tools (we_cfg ve)) of
             Some err \<Rightarrow> Inl (err, False) | None \<Rightarrow> Inr pipe)))"

definition rbac_allows :: "config \<Rightarrow> string \<Rightarrow> string list \<Rightarrow> bool" where
  "rbac_allows c intent domains = (case cf_rbac c of None \<Rightarrow> True
     | Some r \<Rightarrow> fst (is_allowed_for_functions r intent domains))"

definition rbac_event :: "env \<Rightarrow> plan_req \<Rightarrow> string \<Rightarrow> intent \<Rightarrow> string gomap \<Rightarrow> bool \<Rightarrow> sys \<Rightarrow> event" where
  "rbac_event ve rq name it params allowed sy = zero_event\<lparr>
     ev_timestamp := now_of ve sy, ev_user := pq_user rq, ev_roles := pq_roles rq, ev_intent := name,
     ev_pipeline := it_pipeline it, ev_params := redact_params (string_map_to_any params), ev_trace := pq_id rq,
     ev_traceparent := we_traceparent ve (sy_tick sy) (pq_id rq),
     ev_result := (if allowed then ''success'' else ''denied''),
     ev_phase := (if allowed then ''intent.rbac_allowed'' else ''intent.denied''),
     ev_error := (if allowed then '''' else ''RBAC policy denied access'')\<rparr>"

definition audit_checked :: "env \<Rightarrow> event \<Rightarrow> sys \<Rightarrow> sys \<times> string option" where
  "audit_checked ve e sy = (case we_audit ve (sy_tick sy) of
     None \<Rightarrow> (emit (EAudit e) (next_tick sy), None)
   | Some err \<Rightarrow> (emit (EAuditFailed e err) (next_tick sy), Some err))"

text \<open>Steps 3 to 7 of \<open>handleDetectIntent\<close>; \<open>structured\<close> carries the parameters that are no strings.\<close>

definition plan_intent :: "planner \<Rightarrow> env \<Rightarrow> plan_req \<Rightarrow> string \<Rightarrow> string gomap \<Rightarrow> string list option \<Rightarrow> sys \<Rightarrow> sys" where
  "plan_intent pl ve rq name params structured sy =
    (case mget (cf_intents (we_cfg ve)) name of
       None \<Rightarrow> planner_store_error ve (pq_id rq) (''intent unknown: '' @ name) sy
     | Some it \<Rightarrow>
       (let allowed = rbac_allows (we_cfg ve) name (pq_domains rq);
            (sy1, err) = audit_checked ve (rbac_event ve rq name it params allowed sy) sy in
        if \<not> allowed then planner_store_error ve (pq_id rq) ''access denied by rbac'' sy1
        else (case err of
            Some e \<Rightarrow> planner_store_error ve (pq_id rq) (''audit journal unavailable: '' @ e) sy1
          | None \<Rightarrow> (case check_request pl ve name it params structured of
              Inl (e, True) \<Rightarrow> planner_store_error ve (pq_id rq) e sy1
            | Inl (e, False) \<Rightarrow> store_result (pq_id rq) (err_result e) sy1
            | Inr pipe \<Rightarrow> dispatch_run pl ve rq name (it_pipeline it) pipe params sy1))))"

subsection \<open>Natural language\<close>

definition short_term :: "interaction list \<Rightarrow> string" where
  "short_term ias = (if ias = [] then '''' else ''=== SHORT-TERM MEMORY (Recent History) ==='' @ nl @
     concat (map (\<lambda>a. ''User: '' @ ia_user_message a @ nl @ ''System: '' @ ia_summary a @ nl) ias))"

definition long_term :: "memory list \<Rightarrow> string" where
  "long_term ms = ''=== LONG-TERM KNOWLEDGE (RAG) ==='' @ nl @ concat (map (\<lambda>m. me_text m @ nl @ ''---'' @ nl) ms)"

text \<open>The context of a question: the last turns of the session and what memory knows.\<close>

definition recall_context :: "planner \<Rightarrow> env \<Rightarrow> string \<Rightarrow> string \<Rightarrow> sys \<Rightarrow> sys \<times> string" where
  "recall_context pl ve session user_msg sy =
    (if session = '''' then (sy, '''')
     else (let short = (case pr_session pl (sy_tick sy) of Some _ \<Rightarrow> ''''
             | None \<Rightarrow> (case mget (sy_sessions sy) session of None \<Rightarrow> '''' | Some s \<Rightarrow> short_term (ss_interactions s)));
           sy1 = next_tick sy in
       case (sy_memories sy1, we_llm ve) of
         (Some ms, Some l) \<Rightarrow>
           (let sy2 = emit (EEmbed user_msg) (next_tick sy1) in
            case lm_embed l (sy_tick sy1) user_msg of
              Inl _ \<Rightarrow> (sy2, short)
            | Inr emb \<Rightarrow> (next_tick sy2, case pr_search pl (sy_tick sy2) of Some _ \<Rightarrow> short
                | None \<Rightarrow> (case mv_search session emb 3 ms of
                    Inr (m # ms') \<Rightarrow> long_term (m # ms') @ nl @ short | _ \<Rightarrow> short)))
       | _ \<Rightarrow> (sy1, short)))"

text \<open>
  One fact of the goroutine that keeps the facts of a message. It only works on the memories; here
  it runs at the point where it is started.
\<close>

definition store_fact :: "planner \<Rightarrow> env \<Rightarrow> string \<Rightarrow> string \<Rightarrow> sys \<Rightarrow> sys" where
  "store_fact pl ve session claim sy =
    (case (sy_memories sy, we_llm ve) of
       (Some ms, Some l) \<Rightarrow>
         (let sy1 = emit (EEmbed claim) (next_tick sy) in
          case lm_embed l (sy_tick sy) claim of
            Inl _ \<Rightarrow> sy1
          | Inr emb \<Rightarrow> (let m = \<lparr>me_id = we_uuid ve (sy_tick sy1), me_session = session, me_text = claim,
                me_embedding = emb, me_metadata = [], me_timestamp = now_of ve sy1\<rparr> in
              case pr_add pl (sy_tick sy1) of Some _ \<Rightarrow> next_tick sy1
              | None \<Rightarrow> emit (EMemory m) (next_tick (sy1\<lparr>sy_memories := Some (fst (mv_add m ms))\<rparr>))))
     | _ \<Rightarrow> sy)"

text \<open>No declared intent matched: the general question, with what is known as its context.\<close>

definition with_fallback :: "string \<Rightarrow> string \<Rightarrow> detected \<Rightarrow> detected" where
  "with_fallback user_msg context di = (if di_type di \<noteq> '''' then di
     else di\<lparr>di_type := ''system.fallback'', di_errors := [],
       di_params := mput (mput (di_params di) ''query'' user_msg) ''context'' context\<rparr>)"

definition ask_result :: "string \<Rightarrow> string list \<Rightarrow> result" where
  "ask_result intent missing = \<lparr>rs_status = ''await_clarification'',
     rs_data = Some (GObj [(''intent'', GStr intent), (''missing'', GList (map GStr missing))]),
     rs_err = ''missing required parameters''\<rparr>"

definition await_clarification :: "string \<Rightarrow> sys \<Rightarrow> sys" where
  "await_clarification i sy = send_msg ''api'' ''await_human'' [(''id'', PS i), (''gate'', PS ''clarification'')] sy"

text \<open>Ask for the missing parameters and keep what is known.\<close>

definition ask_clarification :: "env \<Rightarrow> plan_req \<Rightarrow> detected \<Rightarrow> sys \<Rightarrow> sys" where
  "ask_clarification ve rq di sy =
    (let sy1 = event (pq_id rq) ''Planner'' ''await_clarification'' (str_join '', '' (di_errors di)) sy;
         st = zero_exec\<lparr>es_id := pq_id rq, es_session := pq_session rq, es_user := pq_user rq, es_intent := di_type di,
           es_params := Some (di_params di), es_missing := di_errors di, es_gate := ''clarification''\<rparr>;
         sy2 = fst (save_state ve st sy1)
     in store_result (pq_id rq) (ask_result (di_type di) (di_errors di)) (await_clarification (pq_id rq) sy2))"

datatype nl_outcome = NlPanic | NlHandled | NlIntent string "string gomap"

text \<open>Without a client the call panics.\<close>

definition detect_intent :: "planner \<Rightarrow> env \<Rightarrow> string \<Rightarrow> string \<Rightarrow> sys \<Rightarrow> sys \<times> (string + detected) option" where
  "detect_intent pl ve user_msg context sy =
    (case we_llm ve of None \<Rightarrow> (sy, None)
     | Some l \<Rightarrow> (let prompt = pr_intent_prompt pl (intent_defs (cf_intents (we_cfg ve))) context user_msg in
         (emit (EChat prompt) (next_tick sy), Some (case lm_chat l (sy_tick sy) '''' prompt of
            Inl err \<Rightarrow> Inl err
          | Inr raw \<Rightarrow> read_intent (pr_json pl) (pr_schema pl) (cf_intents (we_cfg ve)) user_msg raw))))"

definition understand :: "planner \<Rightarrow> env \<Rightarrow> plan_req \<Rightarrow> sys \<Rightarrow> sys \<times> nl_outcome" where
  "understand pl ve rq sy =
    (case recall_context pl ve (pq_session rq) (pq_message rq) sy of (sy1, context) \<Rightarrow>
      (case detect_intent pl ve (pq_message rq) context sy1 of
         (sy2, None) \<Rightarrow> (sy2, NlPanic)
       | (sy2, Some (Inl err)) \<Rightarrow>
           (planner_store_error ve (pq_id rq) err (event (pq_id rq) ''Planner'' ''failed'' err sy2), NlHandled)
       | (sy2, Some (Inr di0)) \<Rightarrow>
           (let di = with_fallback (pq_message rq) context di0 in
            if di_errors di \<noteq> [] then (ask_clarification ve rq di sy2, NlHandled)
            else ((if has_prefix (di_type di) ''memory.'' then sy2
                else fold (store_fact pl ve (pq_session rq)) (di_new_facts di) sy2),
              NlIntent (di_type di) (di_params di)))))"

subsection \<open>Messages\<close>

text \<open>The parameters of a structured request that are strings, and the names of the others.\<close>

definition string_params :: "gval gomap \<Rightarrow> string gomap" where
  "string_params m = List.map_filter (\<lambda>(k, v). case v of GStr s \<Rightarrow> Some (k, s) | _ \<Rightarrow> None) m"

definition non_string_params :: "gval gomap \<Rightarrow> string list" where
  "non_string_params m = List.map_filter (\<lambda>(k, v). case v of GStr s \<Rightarrow> None | _ \<Rightarrow> Some k) m"

text \<open>The identity of a message; reading the fields of a nil one panics.\<close>

definition message_identity :: "pval gomap \<Rightarrow> identity option option" where
  "message_identity pay = (case mget pay ''identity'' of Some (PIdent None) \<Rightarrow> None
     | Some (PIdent (Some d)) \<Rightarrow> Some (Some d) | _ \<Rightarrow> Some None)"

definition plan_req_of :: "string \<Rightarrow> pval gomap \<Rightarrow> identity option \<Rightarrow> plan_req" where
  "plan_req_of i pay idn = \<lparr>pq_id = i, pq_session = get_string0 pay ''session_id'',
     pq_user = (case idn of None \<Rightarrow> '''' | Some d \<Rightarrow> idn_user d),
     pq_roles = (case idn of None \<Rightarrow> [] | Some d \<Rightarrow> idn_roles d), pq_domains = use_domains idn,
     pq_lang = get_string0 pay ''lang'', pq_message = get_string0 pay ''message''\<rparr>"

definition planner_context :: "env \<Rightarrow> string \<Rightarrow> sys \<Rightarrow> sys" where
  "planner_context ve i sy = mark_run_start ve i
     (case get_task_context i sy of None \<Rightarrow> fst (new_task_context i sy) | Some _ \<Rightarrow> sy)"

definition detect_request :: "planner \<Rightarrow> env \<Rightarrow> plan_req \<Rightarrow> pval gomap \<Rightarrow> sys \<Rightarrow> sys \<times> bool" where
  "detect_request pl ve rq pay sy =
    (if get_string0 pay ''operation'' \<noteq> ''''
     then (let m = (case get_map_any pay ''params'' of None \<Rightarrow> [] | Some m \<Rightarrow> m) in
       (plan_intent pl ve rq (get_string0 pay ''operation'') (string_params m) (Some (non_string_params m)) sy, True))
     else (case understand pl ve rq sy of
         (sy1, NlPanic) \<Rightarrow> (sy1, False)
       | (sy1, NlHandled) \<Rightarrow> (sy1, True)
       | (sy1, NlIntent name params) \<Rightarrow> (plan_intent pl ve rq name params None sy1, True)))"

definition handle_detect_intent :: "planner \<Rightarrow> env \<Rightarrow> message \<Rightarrow> sys \<Rightarrow> sys \<times> bool" where
  "handle_detect_intent pl ve msg sy =
    (let pay = ms_payload msg in
     case get_string pay ''id'' of None \<Rightarrow> (sy, True)
     | Some i \<Rightarrow>
       (let sy1 = planner_context ve i sy in
        case message_identity pay of None \<Rightarrow> (sy1, False)
        | Some idn \<Rightarrow>
          (let rq = plan_req_of i pay idn in
           case save_state ve (zero_exec\<lparr>es_id := i, es_session := pq_session rq, es_user := pq_user rq\<rparr>) sy1 of
             (sy2, _, Some _) \<Rightarrow> (planner_store_error ve i ''cannot persist task owner'' sy2, True)
           | (sy2, _, None) \<Rightarrow> detect_request pl ve rq pay sy2)))"

subsection \<open>Clarifications\<close>

text \<open>The parameters of the answer that are not empty replace the recorded ones.\<close>

definition merge_params :: "string gomap \<Rightarrow> string gomap option \<Rightarrow> string gomap" where
  "merge_params found known = fold (\<lambda>(k, v) m. if v \<noteq> '''' then mput m k v else m) found
     (case known of None \<Rightarrow> [] | Some p \<Rightarrow> p)"

definition missing_params :: "intent \<Rightarrow> string gomap \<Rightarrow> string list" where
  "missing_params it params = filter (\<lambda>r. mstr params r = '''') (it_required_params it)"

text \<open>\<open>ExtractParams\<close>; without a client the call panics.\<close>

definition extract_params :: "planner \<Rightarrow> env \<Rightarrow> string \<Rightarrow> string list \<Rightarrow> sys \<Rightarrow> sys \<times> (string + string gomap) option" where
  "extract_params pl ve user_msg required sy =
    (case we_llm ve of None \<Rightarrow> (sy, None)
     | Some l \<Rightarrow> (let prompt = pr_extract_prompt pl required user_msg in
         (emit (EChat prompt) (next_tick sy), Some (case lm_chat l (sy_tick sy) '''' prompt of
            Inl err \<Rightarrow> Inl (''error LLM: '' @ err)
          | Inr raw \<Rightarrow> read_params (we_ff ve) (pr_json pl) raw))))"

text \<open>Still incomplete: the record keeps what is known, and the question is asked again.\<close>

definition ask_again :: "env \<Rightarrow> string \<Rightarrow> exec_state \<Rightarrow> string list \<Rightarrow> sys \<Rightarrow> sys" where
  "ask_again ve i st missing sy =
    (let sy1 = fst (save_state ve (st\<lparr>es_missing := missing\<rparr>) sy);
         sy2 = event i ''Planner'' ''await_clarification'' (str_join '', '' missing) sy1
     in store_result i (ask_result (es_intent st) missing) (await_clarification i sy2))"

text \<open>Complete: the guard-rails, the gate and the message. Nothing here asks for the permission.\<close>

definition run_clarified :: "planner \<Rightarrow> env \<Rightarrow> string \<Rightarrow> string \<Rightarrow> intent \<Rightarrow> pipeline \<Rightarrow> string gomap \<Rightarrow> exec_state \<Rightarrow> sys \<Rightarrow> sys" where
  "run_clarified pl ve i user_msg it pipe params st0 sy =
    (let (sy1, st, _) = save_state ve (st0\<lparr>es_gate := '''', es_missing := [], es_ai_system := pl_ai_system pipe\<rparr>) sy in
     case validate_all (we_ff ve) (we_getenv ve) it pipe params (cf_tools (we_cfg ve)) of
       Some err \<Rightarrow> store_result i (err_result err) sy1
     | None \<Rightarrow>
       (case governance_gate pl ve i (es_session st) (es_user st) (es_intent st) (pl_name pipe) pipe params sy1 of
          (sy2, _, False) \<Rightarrow> sy2
        | (sy2, decision_id, True) \<Rightarrow>
          send_msg ''verifier'' ''run_pipeline''
            (run_payload i (es_session st) (es_intent st) pipe params ''es'' user_msg decision_id)
            (event i ''Planner'' ''intent'' (es_intent st) sy2)))"

definition apply_clarification :: "planner \<Rightarrow> env \<Rightarrow> string \<Rightarrow> string \<Rightarrow> string gomap \<Rightarrow> exec_state \<Rightarrow> sys \<Rightarrow> sys" where
  "apply_clarification pl ve i user_msg found st0 sy =
    (let params = merge_params found (es_params st0); st = st0\<lparr>es_params := Some params\<rparr> in
     case mget (cf_intents (we_cfg ve)) (es_intent st) of
       None \<Rightarrow> planner_store_error ve i (''unknown intent from state: '' @ es_intent st) sy
     | Some it \<Rightarrow> (case mget (cf_pipelines (we_cfg ve)) (it_pipeline it) of
         None \<Rightarrow> planner_store_error ve i (''pipeline not found: '' @ it_pipeline it) sy
       | Some pipe \<Rightarrow>
         if missing_params it params \<noteq> [] then ask_again ve i st (missing_params it params) sy
         else run_clarified pl ve i user_msg it pipe params st sy))"

definition handle_clarify_intent :: "planner \<Rightarrow> env \<Rightarrow> message \<Rightarrow> sys \<Rightarrow> sys \<times> bool" where
  "handle_clarify_intent pl ve msg sy =
    (let i = get_string0 (ms_payload msg) ''id''; user_msg = get_string0 (ms_payload msg) ''message'' in
     if get_task_context i sy = None then (planner_store_error ve i ''task context not found'' sy, True)
     else (case load_state ve i sy of
         (sy1, Inl err) \<Rightarrow> (planner_store_error ve i (''state load error: '' @ err) sy1, True)
       | (sy1, Inr None) \<Rightarrow> (planner_store_error ve i ''task not awaiting clarification'' sy1, True)
       | (sy1, Inr (Some st)) \<Rightarrow>
         if es_gate st \<noteq> ''clarification'' then (planner_store_error ve i ''task not awaiting clarification'' sy1, True)
         else (case extract_params pl ve user_msg (es_missing st) sy1 of
             (sy2, None) \<Rightarrow> (sy2, False)
           | (sy2, Some (Inl err)) \<Rightarrow>
               (planner_store_error ve i (''clarification param extraction failed: '' @ err) sy2, True)
           | (sy2, Some (Inr found)) \<Rightarrow> (apply_clarification pl ve i user_msg found st sy2, True))))"

subsection \<open>The loop of the planner\<close>

definition payload_any :: "pval gomap \<Rightarrow> string \<Rightarrow> pval" where
  "payload_any pay k = (case mget pay k of Some v \<Rightarrow> v | None \<Rightarrow> PVal GNil)"

definition planner_dispatch :: "planner \<Rightarrow> env \<Rightarrow> message \<Rightarrow> sys \<Rightarrow> sys \<times> bool" where
  "planner_dispatch pl ve msg sy =
    (let pay = ms_payload msg in
     if ms_type msg = ''detect_intent'' then handle_detect_intent pl ve msg sy
     else if ms_type msg = ''clarify_intent'' then handle_clarify_intent pl ve msg sy
     else if ms_type msg = ''new_task''
     then (case get_string pay ''id'' of None \<Rightarrow> (sy, True)
       | Some i \<Rightarrow> (send_msg ''planner'' ''detect_intent'' [(''id'', PS i), (''message'', payload_any pay ''message''),
           (''mode'', payload_any pay ''mode'')] sy, True))
     else (sy, True))"

end
