(* ===== verification/Planner_Props.thy ===== *)
theory Planner_Props
  imports Planner_Model
begin

text \<open>
  The properties of the planner: which requests reach the verifier, that every one of them was
  permitted, recorded, checked and allowed, and that a clarified request is not asked for a
  permission.
\<close>

subsection \<open>Effects that start no run\<close>

definition is_run :: "effect \<Rightarrow> bool" where
  "is_run e = (case e of ESend target m \<Rightarrow> target = ''verifier'' \<and> ms_type m = ''run_pipeline'' | _ \<Rightarrow> False)"

lemma is_run_simps [simp]:
  "\<not> is_run (EAudit ev)" "\<not> is_run (EAuditFailed ev err)" "\<not> is_run (ESave st)" "\<not> is_run (EDelete i)"
  "\<not> is_run (EEvent a b c d)" "\<not> is_run (EResult i r)" "\<not> is_run (EMetric a b)" "\<not> is_run (EMemory mem)"
  "\<not> is_run (EChat a)" "\<not> is_run (EEmbed a)" "\<not> is_run (ECall n a ps t)" "\<not> is_run (EAgent n a ps t)"
  "is_run (ESend target m) \<longleftrightarrow> target = ''verifier'' \<and> ms_type m = ''run_pipeline''"
  by (simp_all add: is_run_def)

text \<open>A predicate that holds of every effect but messages to agents other than the API agent.\<close>

locale planner_pred =
  fixes P :: "effect \<Rightarrow> bool"
  assumes other: "(\<And>t m. e = ESend t m \<Longrightarrow> t = ''api'') \<Longrightarrow> P e"
begin

lemma quiet [simp]: "P (EAudit ev)" "P (EAuditFailed ev err)" "P (ESave st)" "P (EDelete i)" "P (ESend ''api'' m)"
    "P (EEvent a b c d)" "P (EResult i r)" "P (EMetric a b)" "P (EReport a b)" "P (EWait n)"
    "P (EMemory mem)" "P (EChat a)" "P (EEmbed a)"
  by (rule other; simp)+

lemma pext_result [intro]: "ext P sy (store_result i r sy)"
  by (rule ext_store_result) simp_all

lemma pext_save: "save_state ve st sy = (sy', st', r) \<Longrightarrow> ext P sy sy'"
  by (erule ext_save) simp

lemma pext_save_fst [intro]: "ext P sy (fst (save_state ve st sy))"
  by (cases "save_state ve st sy") (auto intro: pext_save)

lemma pext_event [intro]: "ext P sy (event a b c d sy)"
  by (simp add: ext_def)

lemma pext_tick [intro]: "ext P sy (next_tick sy)"
  by (rule ext_trace) simp_all

lemma pext_load: "load_state ve i sy = (sy', r) \<Longrightarrow> ext P sy sy'"
  by (auto simp: load_state_def next_tick_def intro: ext_trace)

lemma pext_error [intro]: "ext P sy (planner_store_error ve i err sy)"
proof -
  have 1: "ext P sy (store_result i (err_result err) sy)" by (rule pext_result)
  have 2: "ext P sy2 (fst (save_state ve st sy2))" if "load_state ve i sy1 = (sy2, r)" for sy1 sy2 st r
    by (rule pext_save_fst)
  show ?thesis
    using 1 by (auto simp: planner_store_error_def Let_def split: option.splits prod.splits sum.splits
        intro: ext_trans [OF ext_trans [OF 1 pext_load] 2] ext_trans [OF 1 pext_load])
qed

lemma pext_audit: "audit_checked ve e sy = (sy', r) \<Longrightarrow> ext P sy sy'"
  by (auto simp: audit_checked_def ext_def split: option.splits)

lemma pext_context [intro]: "ext P sy (planner_context ve i sy)"
  by (auto simp: planner_context_def ext_def split: option.splits)

lemma pext_gate: "governance_gate pl ve i session user intent pipe_name pipe params sy = (sy', d, b) \<Longrightarrow> ext P sy sy'"
  by (auto simp: governance_gate_def Let_def split: if_splits sum.splits
      intro: ext_trans [OF pext_tick pext_result] ext_trans [OF pext_tick pext_event]
        ext_trans [OF ext_trans [OF ext_trans [OF pext_tick pext_event] pext_save_fst] pext_result])

lemma pext_clarification: "ext P sy (await_clarification i sy)"
  by (simp add: await_clarification_def ext_def)

lemma pext_ask: "ext P sy (ask_clarification ve rq di sy)"
  unfolding ask_clarification_def Let_def
  by (intro ext_trans [OF _ pext_result] ext_trans [OF _ pext_clarification] ext_trans [OF _ pext_save_fst] pext_event)

lemma pext_ask_again: "ext P sy (ask_again ve i st missing sy)"
  unfolding ask_again_def Let_def
  by (intro ext_trans [OF _ pext_result] ext_trans [OF _ pext_clarification] ext_trans [OF _ pext_event] pext_save_fst)

lemma pext_recall: "recall_context pl ve s msg sy = (sy', c) \<Longrightarrow> ext P sy sy'"
  by (auto simp: recall_context_def Let_def ext_def split: if_splits option.splits sum.splits list.splits)

lemma pext_fact: "ext P sy (store_fact pl ve s c sy)"
  by (auto simp: store_fact_def Let_def ext_def split: option.splits sum.splits)

lemma pext_facts: "ext P sy (fold (store_fact pl ve s) cs sy)"
  by (induction cs arbitrary: sy) (auto intro: ext_trans [OF pext_fact])

lemma pext_detect: "detect_intent pl ve msg c sy = (sy', r) \<Longrightarrow> ext P sy sy'"
  by (auto simp: detect_intent_def Let_def ext_def split: option.splits)

lemma pext_extract: "extract_params pl ve msg rs sy = (sy', r) \<Longrightarrow> ext P sy sy'"
  by (auto simp: extract_params_def Let_def ext_def split: option.splits)

lemma pext_understand:
  assumes "understand pl ve rq sy = (sy', r)"
  shows "ext P sy sy'"
proof -
  obtain sy1 c where rc: "recall_context pl ve (pq_session rq) (pq_message rq) sy = (sy1, c)" by fastforce
  obtain sy2 d where di: "detect_intent pl ve (pq_message rq) c sy1 = (sy2, d)" by fastforce
  have "ext P sy sy2" by (rule ext_trans [OF pext_recall [OF rc] pext_detect [OF di]])
  moreover have "ext P sy2 sy'"
    using assms rc di
    by (auto simp: understand_def Let_def split: option.splits sum.splits if_splits
        intro: ext_trans [OF pext_event pext_error] pext_ask pext_facts)
  ultimately show ?thesis by (rule ext_trans)
qed

end

abbreviation norun :: "sys \<Rightarrow> sys \<Rightarrow> bool" where "norun \<equiv> ext (\<lambda>e. \<not> is_run e)"

interpretation norun: planner_pred "\<lambda>e. \<not> is_run e"
  by unfold_locales (force simp: is_run_def split: effect.splits)

lemmas norun_result [intro] = norun.pext_result
lemmas norun_save = norun.pext_save
lemmas norun_save_fst [intro] = norun.pext_save_fst
lemmas norun_event [intro] = norun.pext_event
lemmas norun_tick [intro] = norun.pext_tick
lemmas norun_load = norun.pext_load
lemmas norun_error [intro] = norun.pext_error
lemmas norun_audit = norun.pext_audit
lemmas norun_context [intro] = norun.pext_context
lemmas norun_gate = norun.pext_gate
lemmas norun_clarification = norun.pext_clarification
lemmas norun_ask = norun.pext_ask
lemmas norun_ask_again = norun.pext_ask_again
lemmas norun_recall = norun.pext_recall
lemmas norun_fact = norun.pext_fact
lemmas norun_facts = norun.pext_facts
lemmas norun_detect = norun.pext_detect
lemmas norun_extract = norun.pext_extract
lemmas norun_understand = norun.pext_understand

subsection \<open>What the checks establish\<close>

lemma gate_post_Allow:
  "gate_post e pdp_url rq tok = Inr d \<Longrightarrow> dc_status d = Allow \<Longrightarrow>
    \<exists>dr. ge_post e (pdp_url @ ''/api/policy/decisions'') rq tok = PdpAnswer 200 (Some dr) \<and>
      ds_decision dr = Allow \<and> \<not> blank (ds_id dr) \<and> dc_id d = ds_id dr"
  by (auto simp: gate_post_def decide_answer_Inr decision_for_status_Allow split: pdp_answer.splits)

lemma gate_evaluate_Allow:
  assumes "snd (Evaluate e pdp_url subject pipeline ai_system action) = Inr d" "dc_status d = Allow"
    and "pdp_url \<noteq> ''''" "ai_system \<noteq> ''''"
  shows "\<exists>tok dr. ge_post e (pdp_url @ ''/api/policy/decisions'') (gate_request e subject pipeline ai_system action) tok =
      PdpAnswer 200 (Some dr) \<and> ds_decision dr = Allow \<and> \<not> blank (ds_id dr) \<and> dc_id d = ds_id dr"
proof (cases "ge_auth e")
  case None
  then show ?thesis using assms by (auto simp: Evaluate_def gate_evaluate_def Let_def dest!: gate_post_Allow)
next
  case (Some a)
  obtain c r where b: "bearer (ge_token e) (ge_now e) (ge_now' e) (ge_cache e) = (c, r)" by fastforce
  then show ?thesis using assms Some
    by (cases r) (auto simp: Evaluate_def gate_evaluate_def Let_def dest!: gate_post_Allow)
qed

text \<open>
  The decision point recorded an ALLOW under the id: what a governed pipeline needs. \<open>recorded\<close> says
  so for some call the planner made.
\<close>

definition recorded_allow :: "planner \<Rightarrow> env \<Rightarrow> string \<Rightarrow> string \<Rightarrow> string \<Rightarrow> pipeline \<Rightarrow> string \<Rightarrow> bool" where
  "recorded_allow pl ve i user pipe_name pipe decision_id \<longleftrightarrow>
    (\<exists>n tok dr. let e = (pr_gate pl n)\<lparr>ge_correlation := i\<rparr> in
       ge_post e (we_getenv ve ''PRUDENCE_PDP_URL'' @ ''/api/policy/decisions'')
         (gate_request e (gate_subject ve user) pipe_name (pl_ai_system pipe) ''run'') tok = PdpAnswer 200 (Some dr) \<and>
       ds_decision dr = Allow \<and> ds_id dr = decision_id \<and> \<not> blank decision_id)"

lemma governance_gate_True:
  assumes "governance_gate pl ve i session user intent pipe_name pipe params sy = (sy', d, True)"
  shows "(\<exists>dec. gate_answer pl ve i user pipe_name pipe sy = Inr dec \<and> dc_status dec = Allow \<and> dc_id dec = d) \<and>
    (pl_governed pipe \<longrightarrow> recorded_allow pl ve i user pipe_name pipe d) \<and>
    sy' = event i ''Governance'' ''governance_allowed'' (''Prudence allowed '' @ pipe_name) (next_tick sy)"
proof -
  from assms obtain dec where d: "gate_answer pl ve i user pipe_name pipe sy = Inr dec" "dc_status dec = Allow" "dc_id dec = d"
      "sy' = event i ''Governance'' ''governance_allowed'' (''Prudence allowed '' @ pipe_name) (next_tick sy)"
      "pl_governed pipe \<longrightarrow> trim_space (pl_ai_system pipe) \<noteq> '''' \<and> we_getenv ve ''PRUDENCE_PDP_URL'' \<noteq> ''''"
    by (auto simp: governance_gate_def Let_def split: if_splits sum.splits)
  have "recorded_allow pl ve i user pipe_name pipe d" if g: "pl_governed pipe"
  proof -
    from g d(5) have "pl_ai_system pipe \<noteq> ''''" "we_getenv ve ''PRUDENCE_PDP_URL'' \<noteq> ''''"
      by (auto simp: trim_space_def trim_left_def trim_right_def)
    with gate_evaluate_Allow [OF d(1) [unfolded gate_answer_def] d(2)] d(3) show ?thesis
      unfolding recorded_allow_def Let_def by metis
  qed
  with d show ?thesis by auto
qed

text \<open>Two traces: an operation that starts no run, and one whose last effect is the run.\<close>

lemma dispatch_run_cases:
  "norun sy (dispatch_run pl ve rq intent pipe_name pipe params sy) \<or>
   (\<exists>es d dec. sy_trace (dispatch_run pl ve rq intent pipe_name pipe params sy) = sy_trace sy @ es @
      [ESend ''verifier'' \<lparr>ms_type = ''run_pipeline'', ms_payload =
         run_payload (pq_id rq) (pq_session rq) intent pipe params (pq_lang rq) (pq_message rq) d\<rparr>] \<and>
      list_all (\<lambda>e. \<not> is_run e) es \<and> gate_answer pl ve (pq_id rq) (pq_user rq) pipe_name pipe sy = Inr dec \<and>
      dc_status dec = Allow \<and> (pl_governed pipe \<longrightarrow> recorded_allow pl ve (pq_id rq) (pq_user rq) pipe_name pipe d))"
proof -
  obtain sy1 d b where g: "governance_gate pl ve (pq_id rq) (pq_session rq) (pq_user rq) intent pipe_name pipe params sy = (sy1, d, b)"
    using prod_cases3 by blast
  show ?thesis
  proof (cases b)
    case False
    with g norun_gate [OF g] show ?thesis by (simp add: dispatch_run_def)
  next
    case True
    define st where "st = zero_exec\<lparr>es_id := pq_id rq, es_session := pq_session rq, es_user := pq_user rq, es_intent := intent,
      es_pipeline := pipe_name, es_params := Some params, es_decision := d, es_ai_system := pl_ai_system pipe\<rparr>"
    define sy3 where "sy3 = fst (save_state ve st (event (pq_id rq) ''Planner'' ''intent'' intent sy1))"
    have "norun sy sy3"
      unfolding sy3_def by (rule ext_trans [OF ext_trans [OF norun_gate [OF g] norun_event] norun_save_fst])
    then obtain es where es: "sy_trace sy3 = sy_trace sy @ es" "list_all (\<lambda>e. \<not> is_run e) es" by (auto simp: ext_def)
    have run: "sy_trace (dispatch_run pl ve rq intent pipe_name pipe params sy) = sy_trace sy @ es @
      [ESend ''verifier'' \<lparr>ms_type = ''run_pipeline'', ms_payload =
         run_payload (pq_id rq) (pq_session rq) intent pipe params (pq_lang rq) (pq_message rq) d\<rparr>]"
      using g True es by (simp add: dispatch_run_def Let_def sy3_def st_def)
    from g True have "governance_gate pl ve (pq_id rq) (pq_session rq) (pq_user rq) intent pipe_name pipe params sy = (sy1, d, True)"
      by simp
    from governance_gate_True [OF this] run es(2) show ?thesis by blast
  qed
qed

lemma check_request_Inr:
  "check_request pl ve name it params structured = Inr pipe \<longleftrightarrow>
    mget (cf_pipelines (we_cfg ve)) (it_pipeline it) = Some pipe \<and>
    (pr_deterministic pl \<longrightarrow> \<not> intent_requires_llm (we_cfg ve) name) \<and>
    (case structured of None \<Rightarrow> True | Some ns \<Rightarrow> validate_structured_params it params ns = None) \<and>
    validate_all (we_ff ve) (we_getenv ve) it pipe params (cf_tools (we_cfg ve)) = None"
  by (auto simp: check_request_def split: option.splits)

text \<open>What has been established when a run of the intent is sent.\<close>

definition run_checked :: "planner \<Rightarrow> env \<Rightarrow> plan_req \<Rightarrow> string \<Rightarrow> intent \<Rightarrow> pipeline \<Rightarrow> string gomap \<Rightarrow> string list option \<Rightarrow> string \<Rightarrow> bool" where
  "run_checked pl ve rq name it pipe params structured d \<longleftrightarrow>
    mget (cf_intents (we_cfg ve)) name = Some it \<and> rbac_allows (we_cfg ve) name (pq_domains rq) \<and>
    check_request pl ve name it params structured = Inr pipe \<and>
    (pl_governed pipe \<longrightarrow> recorded_allow pl ve (pq_id rq) (pq_user rq) (it_pipeline it) pipe d)"

lemma plan_intent_cases:
  "norun sy (plan_intent pl ve rq name params structured sy) \<or>
   (\<exists>it pipe es d. sy_trace (plan_intent pl ve rq name params structured sy) = sy_trace sy @
      EAudit (rbac_event ve rq name it params True sy) # es @ [ESend ''verifier'' \<lparr>ms_type = ''run_pipeline'',
        ms_payload = run_payload (pq_id rq) (pq_session rq) name pipe params (pq_lang rq) (pq_message rq) d\<rparr>] \<and>
      list_all (\<lambda>e. \<not> is_run e) es \<and> run_checked pl ve rq name it pipe params structured d)"
proof (cases "mget (cf_intents (we_cfg ve)) name")
  case None
  then show ?thesis by (auto simp: plan_intent_def)
next
  case (Some it)
  let ?al = "rbac_allows (we_cfg ve) name (pq_domains rq)"
  obtain sy1 err where a: "audit_checked ve (rbac_event ve rq name it params ?al sy) sy = (sy1, err)" by fastforce
  note q = norun_audit [OF a]
  show ?thesis
  proof (cases "?al \<and> err = None")
    case False
    then have "norun sy (plan_intent pl ve rq name params structured sy)"
      using Some a by (auto simp: plan_intent_def Let_def intro: ext_trans [OF q norun_error] split: option.splits)
    then show ?thesis by blast
  next
    case True
    then have au: "sy_trace sy1 = sy_trace sy @ [EAudit (rbac_event ve rq name it params True sy)]"
      using a by (auto simp: audit_checked_def split: option.splits)
    show ?thesis
    proof (cases "check_request pl ve name it params structured")
      case (Inl e)
      with True Some a have "norun sy (plan_intent pl ve rq name params structured sy)"
        by (cases e) (auto simp: plan_intent_def Let_def split: bool.splits
            intro: ext_trans [OF q norun_error] ext_trans [OF q norun_result])
      then show ?thesis by blast
    next
      case (Inr pipe)
      with True Some a have p: "plan_intent pl ve rq name params structured sy = dispatch_run pl ve rq name (it_pipeline it) pipe params sy1"
        by (simp add: plan_intent_def)
      from dispatch_run_cases [of sy1 pl ve rq name "it_pipeline it" pipe params] show ?thesis
      proof
        assume "norun sy1 (dispatch_run pl ve rq name (it_pipeline it) pipe params sy1)"
        with q p show ?thesis by (auto intro: ext_trans)
      next
        assume "\<exists>es d dec. sy_trace (dispatch_run pl ve rq name (it_pipeline it) pipe params sy1) = sy_trace sy1 @ es @
          [ESend ''verifier'' \<lparr>ms_type = ''run_pipeline'', ms_payload =
            run_payload (pq_id rq) (pq_session rq) name pipe params (pq_lang rq) (pq_message rq) d\<rparr>] \<and>
          list_all (\<lambda>e. \<not> is_run e) es \<and> gate_answer pl ve (pq_id rq) (pq_user rq) (it_pipeline it) pipe sy1 = Inr dec \<and>
          dc_status dec = Allow \<and> (pl_governed pipe \<longrightarrow> recorded_allow pl ve (pq_id rq) (pq_user rq) (it_pipeline it) pipe d)"
        with p au True Some Inr show ?thesis by (fastforce simp: run_checked_def)
      qed
    qed
  qed
qed

text \<open>The intent and parameters a request leads to, structured or not.\<close>

lemma detect_request_cases:
  assumes "detect_request pl ve rq pay sy = (sy', ok)"
  shows "norun sy sy' \<or> (\<exists>sy1 name params structured. norun sy sy1 \<and> sy' = plan_intent pl ve rq name params structured sy1 \<and>
    (get_string0 pay ''operation'' \<noteq> '''' \<longrightarrow> name = get_string0 pay ''operation'' \<and>
      params = string_params (case get_map_any pay ''params'' of None \<Rightarrow> [] | Some m \<Rightarrow> m) \<and>
      structured = Some (non_string_params (case get_map_any pay ''params'' of None \<Rightarrow> [] | Some m \<Rightarrow> m))))"
proof (cases "get_string0 pay ''operation'' \<noteq> ''''")
  case True
  with assms show ?thesis by (intro disjI2 exI [of _ sy]) (auto simp: detect_request_def Let_def)
next
  case False
  obtain sy1 r where u: "understand pl ve rq sy = (sy1, r)" by fastforce
  show ?thesis
    by (cases r) (use False assms u norun_understand [OF u] in \<open>auto simp: detect_request_def\<close>)
qed

lemma handle_detect_cases:
  assumes "handle_detect_intent pl ve msg sy = (sy', ok)"
  shows "norun sy sy' \<or> (\<exists>i idn sy1. get_string (ms_payload msg) ''id'' = Some i \<and> message_identity (ms_payload msg) = Some idn \<and>
    norun sy sy1 \<and> detect_request pl ve (plan_req_of i (ms_payload msg) idn) (ms_payload msg) sy1 = (sy', ok))"
proof (cases "get_string (ms_payload msg) ''id''")
  case None
  with assms show ?thesis by (auto simp: handle_detect_intent_def)
next
  case (Some i)
  show ?thesis
  proof (cases "message_identity (ms_payload msg)")
    case None
    with assms Some show ?thesis by (auto simp: handle_detect_intent_def Let_def)
  next
    case (Some idn)
    define rq where "rq = plan_req_of i (ms_payload msg) idn"
    obtain sy2 st r where s: "save_state ve (zero_exec\<lparr>es_id := i, es_session := pq_session rq, es_user := pq_user rq\<rparr>)
        (planner_context ve i sy) = (sy2, st, r)" using prod_cases3 by blast
    have q: "norun sy sy2" by (rule ext_trans [OF norun_context norun_save [OF s]])
    show ?thesis
    proof (cases r)
      case None
      with assms \<open>get_string _ _ = Some i\<close> Some s q show ?thesis by (auto simp: handle_detect_intent_def Let_def rq_def)
    next
      case (Some e)
      with assms \<open>get_string _ _ = Some i\<close> \<open>message_identity _ = Some idn\<close> s have "sy' = planner_store_error ve i ''cannot persist task owner'' sy2"
        by (simp add: handle_detect_intent_def Let_def rq_def)
      with q show ?thesis by (auto intro: ext_trans)
    qed
  qed
qed

lemma plan_req_of_simps [simp]:
  "pq_id (plan_req_of i pay idn) = i" "pq_domains (plan_req_of i pay idn) = use_domains idn"
  "pq_user (plan_req_of i pay idn) = (case idn of None \<Rightarrow> '''' | Some p \<Rightarrow> idn_user p)"
  "pq_session (plan_req_of i pay idn) = get_string0 pay ''session_id''"
  "pq_lang (plan_req_of i pay idn) = get_string0 pay ''lang''"
  "pq_message (plan_req_of i pay idn) = get_string0 pay ''message''"
  by (simp_all add: plan_req_of_def)

lemma run_only_last:
  assumes "t @ es @ [ESend ''verifier'' m] @ rest = t @ pre @ [e]" "list_all (\<lambda>e. \<not> is_run e) pre"
    and "ms_type m = ''run_pipeline''"
  shows "rest = [] \<and> es = pre \<and> e = ESend ''verifier'' m"
proof (cases rest rule: rev_cases)
  case Nil
  with assms(1) show ?thesis by simp
next
  case (snoc rs x)
  with assms(1) have "pre = es @ [ESend ''verifier'' m] @ rs" by simp
  with assms(2,3) show ?thesis by simp
qed

lemma detect_run_checked:
  assumes "handle_detect_intent pl ve msg sy = (sy', ok)"
    and "sy_trace sy' = sy_trace sy @ es @ [ESend ''verifier'' m] @ rest" "ms_type m = ''run_pipeline''"
  shows "\<exists>i idn name it pipe params structured d sy1. get_string (ms_payload msg) ''id'' = Some i \<and>
    message_identity (ms_payload msg) = Some idn \<and> rest = [] \<and>
    EAudit (rbac_event ve (plan_req_of i (ms_payload msg) idn) name it params True sy1) \<in> set es \<and>
    run_checked pl ve (plan_req_of i (ms_payload msg) idn) name it pipe params structured d \<and>
    ms_payload m = run_payload i (get_string0 (ms_payload msg) ''session_id'') name pipe params
      (get_string0 (ms_payload msg) ''lang'') (get_string0 (ms_payload msg) ''message'') d \<and>
    (get_string0 (ms_payload msg) ''operation'' \<noteq> '''' \<longrightarrow> name = get_string0 (ms_payload msg) ''operation'' \<and>
      params = string_params (case get_map_any (ms_payload msg) ''params'' of None \<Rightarrow> [] | Some o1 \<Rightarrow> o1) \<and>
      structured = Some (non_string_params (case get_map_any (ms_payload msg) ''params'' of None \<Rightarrow> [] | Some o1 \<Rightarrow> o1)))"
proof -
  have runs: "\<not> norun sy sy'" using assms(2,3) by (auto simp: ext_def)
  from handle_detect_cases [OF assms(1)] runs obtain i idn sy1 where i: "get_string (ms_payload msg) ''id'' = Some i"
      "message_identity (ms_payload msg) = Some idn" "norun sy sy1"
      "detect_request pl ve (plan_req_of i (ms_payload msg) idn) (ms_payload msg) sy1 = (sy', ok)" by blast
  let ?rq = "plan_req_of i (ms_payload msg) idn"
  from detect_request_cases [OF i(4)] i(3) runs obtain sy2 name params structured where p: "norun sy1 sy2"
      "sy' = plan_intent pl ve ?rq name params structured sy2"
      "get_string0 (ms_payload msg) ''operation'' \<noteq> '''' \<longrightarrow> name = get_string0 (ms_payload msg) ''operation'' \<and>
        params = string_params (case get_map_any (ms_payload msg) ''params'' of None \<Rightarrow> [] | Some m \<Rightarrow> m) \<and>
        structured = Some (non_string_params (case get_map_any (ms_payload msg) ''params'' of None \<Rightarrow> [] | Some m \<Rightarrow> m))"
    by (blast intro: ext_trans)
  have q: "norun sy sy2" by (rule ext_trans [OF i(3) p(1)])
  then obtain pre where pre: "sy_trace sy2 = sy_trace sy @ pre" "list_all (\<lambda>e. \<not> is_run e) pre" by (auto simp: ext_def)
  from plan_intent_cases [of sy2 pl ve ?rq name params structured] q p(2) runs obtain it pipe es1 d where r:
      "sy_trace sy' = sy_trace sy2 @ EAudit (rbac_event ve ?rq name it params True sy2) # es1 @ [ESend ''verifier''
        \<lparr>ms_type = ''run_pipeline'', ms_payload = run_payload (pq_id ?rq) (pq_session ?rq) name pipe params
          (pq_lang ?rq) (pq_message ?rq) d\<rparr>]"
      "list_all (\<lambda>e. \<not> is_run e) es1" "run_checked pl ve ?rq name it pipe params structured d"
    by (blast intro: ext_trans)
  define ev where "ev = EAudit (rbac_event ve ?rq name it params True sy2)"
  have "sy_trace sy @ es @ [ESend ''verifier'' m] @ rest = sy_trace sy @ (pre @ ev # es1) @ [ESend ''verifier''
        \<lparr>ms_type = ''run_pipeline'', ms_payload = run_payload (pq_id ?rq) (pq_session ?rq) name pipe params
          (pq_lang ?rq) (pq_message ?rq) d\<rparr>]"
    using assms(2) r(1) pre(1) by (simp add: ev_def)
  from run_only_last [OF this _ assms(3)] pre(2) r(2)
  have "rest = []" "es = pre @ ev # es1" "m = \<lparr>ms_type = ''run_pipeline'', ms_payload = run_payload (pq_id ?rq) (pq_session ?rq)
      name pipe params (pq_lang ?rq) (pq_message ?rq) d\<rparr>"
    by (auto simp: ev_def)
  with i(1,2) p(3) r(3) show ?thesis
    by (intro exI [of _ i] exI [of _ idn] exI [of _ name] exI [of _ it] exI [of _ pipe] exI [of _ params]
        exI [of _ structured] exI [of _ d] exI [of _ sy2]) (simp add: ev_def)
qed

subsection \<open>Properties\<close>

text \<open>
  C4: when the planner, handling a detect_intent message, sends a run to the verifier (the answer to a
  clarification is another message: C39), it sends one, as the last thing it does, and for an intent of the configuration that the permissions grant the requesting
  person's ai.use domains; the journal accepted an event of that decision before; the guard-rails
  and, for a structured request, the check of its parameters accepted it; in deterministic mode the
  intent needs no model; and for a governed pipeline the decision point recorded an ALLOW under the
  decision id that the message carries. The pipeline is the one the configuration gives the intent.
\<close>

theorem planned_run_authorized:
  assumes "planner_dispatch pl ve msg sy = (sy', ok)" "ms_type msg = ''detect_intent''"
    and "sy_trace sy' = sy_trace sy @ es @ [ESend ''verifier'' m] @ rest" "ms_type m = ''run_pipeline''"
  shows "\<exists>i idn name it pipe params d. get_string (ms_payload msg) ''id'' = Some i \<and>
    message_identity (ms_payload msg) = Some idn \<and> rest = [] \<and>
    mget (cf_intents (we_cfg ve)) name = Some it \<and> mget (cf_pipelines (we_cfg ve)) (it_pipeline it) = Some pipe \<and>
    ms_payload m = run_payload i (get_string0 (ms_payload msg) ''session_id'') name pipe params
      (get_string0 (ms_payload msg) ''lang'') (get_string0 (ms_payload msg) ''message'') d \<and>
    rbac_allows (we_cfg ve) name (use_domains idn) \<and>
    (\<exists>ev. EAudit ev \<in> set es \<and> ev_phase ev = ''intent.rbac_allowed'' \<and> ev_trace ev = i \<and> ev_intent ev = name \<and>
      ev_user ev = (case idn of None \<Rightarrow> '''' | Some p \<Rightarrow> idn_user p)) \<and>
    validate_all (we_ff ve) (we_getenv ve) it pipe params (cf_tools (we_cfg ve)) = None \<and>
    (get_string0 (ms_payload msg) ''operation'' \<noteq> '''' \<longrightarrow> name = get_string0 (ms_payload msg) ''operation'' \<and>
      (\<exists>o1 ns. params = string_params o1 \<and> ns = non_string_params o1 \<and> validate_structured_params it params ns = None)) \<and>
    (pr_deterministic pl \<longrightarrow> \<not> intent_requires_llm (we_cfg ve) name) \<and>
    (pl_governed pipe \<longrightarrow> recorded_allow pl ve i (case idn of None \<Rightarrow> '''' | Some p \<Rightarrow> idn_user p) (it_pipeline it) pipe d)"
proof -
  from assms(1,2) have h: "handle_detect_intent pl ve msg sy = (sy', ok)"
    by (simp add: planner_dispatch_def)
  from detect_run_checked [OF h assms(3,4)] obtain i idn name it pipe params structured d sy1 where r:
    "get_string (ms_payload msg) ''id'' = Some i" "message_identity (ms_payload msg) = Some idn" "rest = []"
    "EAudit (rbac_event ve (plan_req_of i (ms_payload msg) idn) name it params True sy1) \<in> set es"
    "run_checked pl ve (plan_req_of i (ms_payload msg) idn) name it pipe params structured d"
    "ms_payload m = run_payload i (get_string0 (ms_payload msg) ''session_id'') name pipe params
      (get_string0 (ms_payload msg) ''lang'') (get_string0 (ms_payload msg) ''message'') d"
    "get_string0 (ms_payload msg) ''operation'' \<noteq> '''' \<longrightarrow> name = get_string0 (ms_payload msg) ''operation'' \<and>
      params = string_params (case get_map_any (ms_payload msg) ''params'' of None \<Rightarrow> [] | Some o1 \<Rightarrow> o1) \<and>
      structured = Some (non_string_params (case get_map_any (ms_payload msg) ''params'' of None \<Rightarrow> [] | Some o1 \<Rightarrow> o1))"
    by blast
  let ?u = "case idn of None \<Rightarrow> '''' | Some p \<Rightarrow> idn_user p"
  have ev: "\<exists>ev. EAudit ev \<in> set es \<and> ev_phase ev = ''intent.rbac_allowed'' \<and> ev_trace ev = i \<and> ev_intent ev = name \<and> ev_user ev = ?u"
    by (rule exI [of _ "rbac_event ve (plan_req_of i (ms_payload msg) idn) name it params True sy1"])
      (use r(4) in \<open>simp add: rbac_event_def\<close>)
  have st: "get_string0 (ms_payload msg) ''operation'' \<noteq> '''' \<longrightarrow> name = get_string0 (ms_payload msg) ''operation'' \<and>
      (\<exists>o1 ns. params = string_params o1 \<and> ns = non_string_params o1 \<and> validate_structured_params it params ns = None)"
    using r(5,7) by (auto simp: run_checked_def check_request_Inr)
  show ?thesis
    by (intro exI [of _ i] exI [of _ idn] exI [of _ name] exI [of _ it] exI [of _ pipe] exI [of _ params] exI [of _ d])
      (use r(1-3,5,6) ev st in \<open>simp add: run_checked_def check_request_Inr\<close>)
qed

definition demo_intent :: intent where
  "demo_intent = \<lparr>it_type = ''lookup'', it_description = '''', it_pipeline = ''lookup'', it_required_params = [''customer''],
     it_examples = [], it_allow_dangerous = False, it_requires_amount = False, it_requires_phone = False,
     it_max_amount = Fin 0, it_shadow_mode = False\<rparr>"

text \<open>One intent, for the support domain only.\<close>

definition plan_cfg :: config where
  "plan_cfg = (demo_cfg [''crm''] [zero_pipeline\<lparr>pl_name := ''lookup'', pl_steps := [tool_step ''crm'']\<rparr>])
     \<lparr>cf_intents := [(''lookup'', demo_intent)],
      cf_rbac := Some \<lparr>rb_permissions = [(''lookup'', [''support''])], rb_unknown_intent = ''''\<rparr>\<rparr>"

definition demo_planner :: "gval \<Rightarrow> planner" where
  "demo_planner answer = \<lparr>pr_deterministic = False, pr_gate = (\<lambda>_. demo_gate), pr_intent_prompt = (\<lambda>_ _ _. ''?''),
     pr_extract_prompt = (\<lambda>_ _. ''?''), pr_json = (\<lambda>_. Inr answer), pr_schema = (\<lambda>_. None), pr_session = (\<lambda>_. None),
     pr_search = (\<lambda>_. None), pr_add = (\<lambda>_. None)\<rparr>"

definition demo_person :: "string \<Rightarrow> string list \<Rightarrow> identity" where
  "demo_person user fs = \<lparr>idn_user = user, idn_roles = [], idn_email = '''', idn_source = ''jwt'', idn_functions = fs\<rparr>"

definition lookup_message :: message where
  "lookup_message = \<lparr>ms_type = ''detect_intent'', ms_payload = [(''id'', PS ''t1''), (''operation'', PS ''lookup''),
     (''params'', PVal (GObj [(''customer'', GStr ''c9'')])), (''lang'', PS ''en''),
     (''identity'', PIdent (Some (demo_person ''ana'' [''ai.use:support''])))]\<rparr>"

lemma is_run_iff: "is_run e \<longleftrightarrow> (\<exists>m. e = ESend ''verifier'' m \<and> ms_type m = ''run_pipeline'')"
  by (cases e) (auto simp: is_run_def)

lemma run_in_trace: "t = us @ es @ [ESend ''verifier'' m] \<Longrightarrow> ms_type m = ''run_pipeline'' \<Longrightarrow> \<exists>e. is_run e \<and> e \<in> set t"
  by (auto simp: is_run_iff)

lemma planned_run_authorized_witness:
  "\<exists>name it. mget (cf_intents plan_cfg) name = Some it \<and> rbac_allows plan_cfg name [''support'']"
proof -
  let ?ve = "demo_env plan_cfg (\<lambda>_ _ _ _. Inr [])"
  let ?r = "planner_dispatch (demo_planner GNil) ?ve lookup_message (demo_sys [])"
  obtain sy' ok where r: "?r = (sy', ok)" by fastforce
  have "is_run (last (sy_trace (fst ?r))) \<and> sy_trace (fst ?r) \<noteq> []" by code_simp
  with r obtain m where m: "last (sy_trace sy') = ESend ''verifier'' m" "ms_type m = ''run_pipeline''" "sy_trace sy' \<noteq> []"
    by (auto simp: is_run_iff)
  then have "sy_trace sy' = sy_trace (demo_sys []) @ butlast (sy_trace sy') @ [ESend ''verifier'' m] @ []"
    by (simp add: demo_sys_def) (metis append_butlast_last_id)
  from planned_run_authorized [OF r _ this m(2)] obtain idn name it where
    "message_identity (ms_payload lookup_message) = Some idn" "mget (cf_intents (we_cfg ?ve)) name = Some it"
    "rbac_allows (we_cfg ?ve) name (use_domains idn)" by (auto simp: lookup_message_def)
  moreover have "use_domains (Some (demo_person ''ana'' [''ai.use:support''])) = [''support'']" by code_simp
  ultimately show ?thesis by (auto simp: lookup_message_def message_identity_def demo_env_def)
qed

lemma planner_save_ok:
  assumes "\<And>n. we_save ve n = None" "es_results st = []" "es_cb_data st = None"
  shows "\<exists>st'. save_state ve st sy = (emit (ESave st') (next_tick (sy\<lparr>sy_tasks := mput (sy_tasks sy) (es_id st) (exec_norm st')\<rparr>)), st', None) \<and>
    st' = stamp_created (now_of ve sy) st"
  using assms by (auto simp: save_state_def Let_def exec_json_ok_def cb_map_def stamp_created_def next_tick_def emit_def)

text \<open>
  C14: a structured request is dispatched when it should be. With stores and a journal that work, a
  request for an intent that the person's domains permit, whose parameters pass the checks and whose
  pipeline the gate allows, makes the planner return with the message to the verifier as its last
  effect; the execution is then stored under its id, with its owner, intent, pipeline and
  parameters.
\<close>

theorem permitted_request_dispatched:
  assumes "ms_type msg = ''detect_intent''" "get_string (ms_payload msg) ''id'' = Some i"
    and "message_identity (ms_payload msg) = Some idn" "get_string (ms_payload msg) ''operation'' = Some name"
    and "name \<noteq> ''''" "get_map_any (ms_payload msg) ''params'' = Some o1"
    and "\<And>n. we_save ve n = None" "\<And>n. we_audit ve n = None"
    and "mget (cf_intents (we_cfg ve)) name = Some it" "rbac_allows (we_cfg ve) name (use_domains idn)"
    and "check_request pl ve name it (string_params o1) (Some (non_string_params o1)) = Inr pipe"
    and "\<And>sy user. \<exists>sy1 d. governance_gate pl ve i (get_string0 (ms_payload msg) ''session_id'') user name (it_pipeline it) pipe
      (string_params o1) sy = (sy1, d, True)"
  shows "\<exists>sy' es d st. planner_dispatch pl ve msg sy = (sy', True) \<and>
    sy_trace sy' = sy_trace sy @ es @ [ESend ''verifier'' \<lparr>ms_type = ''run_pipeline'', ms_payload =
      run_payload i (get_string0 (ms_payload msg) ''session_id'') name pipe (string_params o1)
        (get_string0 (ms_payload msg) ''lang'') (get_string0 (ms_payload msg) ''message'') d\<rparr>] \<and>
    mget (sy_tasks sy') i = Some (exec_norm st) \<and> es_user st = (case idn of None \<Rightarrow> '''' | Some p \<Rightarrow> idn_user p) \<and>
    es_intent st = name \<and> es_pipeline st = it_pipeline it \<and> es_params st = Some (string_params o1) \<and> es_decision st = d"
proof -
  let ?pay = "ms_payload msg"
  define rq where "rq = plan_req_of i ?pay idn"
  have rq: "pq_id rq = i" "pq_session rq = get_string0 ?pay ''session_id''" "pq_domains rq = use_domains idn"
    "pq_user rq = (case idn of None \<Rightarrow> '''' | Some p \<Rightarrow> idn_user p)" "pq_lang rq = get_string0 ?pay ''lang''"
    "pq_message rq = get_string0 ?pay ''message''" by (simp_all add: rq_def)
  define st0 where "st0 = zero_exec\<lparr>es_id := i, es_session := pq_session rq, es_user := pq_user rq\<rparr>"
  obtain sy2 st' where s2: "save_state ve st0 (planner_context ve i sy) = (sy2, st', None)"
    using planner_save_ok [of ve st0 "planner_context ve i sy"] assms(7) by (auto simp: st0_def zero_exec_def)
  have q2: "norun sy sy2" by (rule ext_trans [OF norun_context norun_save [OF s2]])
  obtain sy3 where a3: "audit_checked ve (rbac_event ve rq name it (string_params o1) True sy2) sy2 = (sy3, None)"
    using assms(8) by (simp add: audit_checked_def)
  obtain sy4 d where g4: "governance_gate pl ve i (pq_session rq) (pq_user rq) name (it_pipeline it) pipe (string_params o1) sy3 = (sy4, d, True)"
    using assms(12) rq(2) by metis
  define st where "st = zero_exec\<lparr>es_id := i, es_session := pq_session rq, es_user := pq_user rq, es_intent := name,
      es_pipeline := it_pipeline it, es_params := Some (string_params o1), es_decision := d, es_ai_system := pl_ai_system pipe\<rparr>"
  define sy5 where "sy5 = event i ''Planner'' ''intent'' name sy4"
  define sy6 where "sy6 = fst (save_state ve st sy5)"
  obtain st6 where s6: "sy6 = emit (ESave st6) (next_tick (sy5\<lparr>sy_tasks := mput (sy_tasks sy5) i (exec_norm st6)\<rparr>))"
      "st6 = stamp_created (now_of ve sy5) st"
    using planner_save_ok [of ve st sy5] assms(7) by (auto simp: st_def zero_exec_def sy6_def)
  let ?m = "\<lparr>ms_type = ''run_pipeline'', ms_payload = run_payload i (pq_session rq) name pipe (string_params o1)
      (pq_lang rq) (pq_message rq) d\<rparr>"
  have plan: "plan_intent pl ve rq name (string_params o1) (Some (non_string_params o1)) sy2 =
      send_msg ''verifier'' ''run_pipeline'' (ms_payload ?m) sy6"
    using assms(9-11) rq a3 g4 by (simp add: plan_intent_def dispatch_run_def Let_def sy6_def sy5_def st_def)
  have run: "planner_dispatch pl ve msg sy = (send_msg ''verifier'' ''run_pipeline'' (ms_payload ?m) sy6, True)"
    using assms(1-6) s2 plan
    by (simp add: planner_dispatch_def handle_detect_intent_def detect_request_def Let_def rq_def [symmetric] st0_def [symmetric]
        get_string0_def [of ?pay "''operation''"])
  have "norun sy sy6"
    unfolding sy6_def sy5_def
    by (rule ext_trans [OF ext_trans [OF ext_trans [OF ext_trans [OF q2 norun_audit [OF a3]] norun_gate [OF g4]] norun_event] norun_save_fst])
  then obtain es where es: "sy_trace sy6 = sy_trace sy @ es" by (auto simp: ext_def)
  have stored: "mget (sy_tasks (send_msg ''verifier'' ''run_pipeline'' (ms_payload ?m) sy6)) i = Some (exec_norm st6)"
    by (simp add: send_msg_def Let_def s6(1) emit_def next_tick_def update_conv')
  have fields: "es_user st6 = pq_user rq" "es_intent st6 = name" "es_pipeline st6 = it_pipeline it"
    "es_params st6 = Some (string_params o1)" "es_decision st6 = d"
    by (simp_all add: s6(2) st_def stamp_created_def)
  show ?thesis
    by (intro exI [of _ "send_msg ''verifier'' ''run_pipeline'' (ms_payload ?m) sy6"] exI [of _ es] exI [of _ d] exI [of _ st6])
      (use run es stored fields rq in simp)
qed

lemma gate_open:
  "\<not> pl_governed pipe \<Longrightarrow> pl_ai_system pipe = '''' \<Longrightarrow>
    governance_gate pl ve i session user intent pipe_name pipe params sy =
      (event i ''Governance'' ''governance_allowed'' (''Prudence allowed '' @ pipe_name) (next_tick sy), '''', True)"
  by (simp add: governance_gate_def gate_answer_def Evaluate_def zero_decision_def)

lemma permitted_request_dispatched_witness:
  "\<exists>sy'. planner_dispatch (demo_planner GNil) (demo_env plan_cfg (\<lambda>_ _ _ _. Inr [])) lookup_message (demo_sys []) = (sy', True) \<and>
    (\<exists>st. mget (sy_tasks sy') ''t1'' = Some (exec_norm st) \<and> es_user st = ''ana'')"
proof -
  let ?ve = "demo_env plan_cfg (\<lambda>_ _ _ _. Inr [])"
  let ?pipe = "zero_pipeline\<lparr>pl_name := ''lookup'', pl_steps := [tool_step ''crm'']\<rparr>"
  let ?o = "[(''customer'', GStr ''c9'')]"
  let ?ana = "demo_person ''ana'' [''ai.use:support'']"
  have 1: "ms_type lookup_message = ''detect_intent''" "get_string (ms_payload lookup_message) ''id'' = Some ''t1''"
    "message_identity (ms_payload lookup_message) = Some (Some ?ana)"
    "get_string (ms_payload lookup_message) ''operation'' = Some ''lookup''" "''lookup'' \<noteq> ''''"
    "get_map_any (ms_payload lookup_message) ''params'' = Some ?o"
    by (simp_all add: lookup_message_def get_string_def get_map_any_def message_identity_def)
  have 2: "we_save ?ve n = None" "we_audit ?ve n = None" for n by (simp_all add: demo_env_def)
  have 3: "mget (cf_intents (we_cfg ?ve)) ''lookup'' = Some demo_intent" by (simp add: demo_env_def plan_cfg_def)
  have 4: "rbac_allows (we_cfg ?ve) ''lookup'' (use_domains (Some ?ana))" by code_simp
  have "mget (cf_pipelines (we_cfg ?ve)) (it_pipeline demo_intent) = Some ?pipe"
    by (simp add: demo_env_def plan_cfg_def demo_cfg_def demo_intent_def zero_pipeline_def)
  moreover have "validate_structured_params demo_intent (string_params ?o) (non_string_params ?o) = None" by code_simp
  moreover have "validate_all (we_ff ?ve) (we_getenv ?ve) demo_intent ?pipe (string_params ?o) (cf_tools (we_cfg ?ve)) = None"
    by code_simp
  ultimately have 5: "check_request (demo_planner GNil) ?ve ''lookup'' demo_intent (string_params ?o) (Some (non_string_params ?o)) = Inr ?pipe"
    by (simp add: check_request_Inr demo_planner_def)
  have "\<exists>sy1 d. governance_gate (demo_planner GNil) ?ve ''t1'' (get_string0 (ms_payload lookup_message) ''session_id'') user
      ''lookup'' (it_pipeline demo_intent) ?pipe (string_params ?o) sy = (sy1, d, True)" for sy user
    by (subst gate_open) (simp_all add: zero_pipeline_def)
  from permitted_request_dispatched [OF 1 2 3 4 5 this, of "demo_sys []"] show ?thesis by (auto simp: demo_person_def)
qed

text \<open>
  C39: a clarified request is not asked for a permission. Whoever owns the record at the
  clarification gate, and whatever the permissions file says, the answer that completes the
  parameters makes the planner send the run of an ungoverned pipeline to the verifier once the
  guard-rails pass, without an entry in the journal about a permission. Since the natural-language
  path asks for missing parameters before it looks at the permissions, a person without the domain
  of an intent runs it by leaving a parameter out first.
\<close>

theorem clarification_skips_permissions:
  assumes "get_string0 (ms_payload msg) ''id'' = i" "get_task_context i sy \<noteq> None"
    and "we_load ve (sy_tick sy) = None" "mget (sy_tasks sy) i = Some st" "es_gate st = ''clarification''"
    and "extract_params pl ve (get_string0 (ms_payload msg) ''message'') (es_missing st) (next_tick sy) = (sy2, Some (Inr found))"
    and "mget (cf_intents (we_cfg ve)) (es_intent st) = Some it"
    and "mget (cf_pipelines (we_cfg ve)) (it_pipeline it) = Some pipe"
    and "params = merge_params found (es_params st)" "missing_params it params = []"
    and "validate_all (we_ff ve) (we_getenv ve) it pipe params (cf_tools (we_cfg ve)) = None"
    and "\<not> pl_governed pipe" "pl_ai_system pipe = ''''"
  shows "\<exists>es. sy_trace (fst (handle_clarify_intent pl ve msg sy)) = sy_trace sy @ es @
      [ESend ''verifier'' \<lparr>ms_type = ''run_pipeline'', ms_payload = run_payload i (es_session st) (es_intent st) pipe params
        ''es'' (get_string0 (ms_payload msg) ''message'') ''''\<rparr>] \<and>
    list_all (\<lambda>e. \<forall>ev. e \<noteq> EAudit ev) es"
proof -
  let ?um = "get_string0 (ms_payload msg) ''message''"
  define st1 where "st1 = st\<lparr>es_params := Some params, es_gate := '''', es_missing := [], es_ai_system := pl_ai_system pipe\<rparr>"
  obtain sy3 st3 r where s: "save_state ve st1 sy2 = (sy3, st3, r)" using prod_cases3 by blast
  then have st3: "es_session st3 = es_session st" "es_intent st3 = es_intent st" "es_user st3 = es_user st"
    by (auto simp: save_state_def Let_def st1_def stamp_created_def split: if_splits option.splits)
  have app: "handle_clarify_intent pl ve msg sy = (apply_clarification pl ve i ?um found st sy2, True)"
    using assms(1-6) by (auto simp: handle_clarify_intent_def Let_def load_state_def)
  have res: "apply_clarification pl ve i ?um found st sy2 = run_clarified pl ve i ?um it pipe params (st\<lparr>es_params := Some params\<rparr>) sy2"
    using assms(7-10) by (simp add: apply_clarification_def Let_def)
  have run: "run_clarified pl ve i ?um it pipe params (st\<lparr>es_params := Some params\<rparr>) sy2 =
      send_msg ''verifier'' ''run_pipeline'' (run_payload i (es_session st) (es_intent st) pipe params ''es'' ?um '''')
       (event i ''Planner'' ''intent'' (es_intent st) (event i ''Governance'' ''governance_allowed'' (''Prudence allowed '' @ pl_name pipe) (next_tick sy3)))"
    using s assms(11-13) st3 by (simp add: run_clarified_def gate_open st1_def Let_def)
  have "ext (\<lambda>e. \<forall>ev. e \<noteq> EAudit ev) sy sy2"
    using assms(6) by (auto simp: extract_params_def Let_def ext_def split: option.splits)
  moreover have "ext (\<lambda>e. \<forall>ev. e \<noteq> EAudit ev) sy2 sy3" using s by (rule ext_save) simp
  ultimately have "ext (\<lambda>e. \<forall>ev. e \<noteq> EAudit ev) sy sy3" by (rule ext_trans)
  then obtain es where "sy_trace sy3 = sy_trace sy @ es" "list_all (\<lambda>e. \<forall>ev. e \<noteq> EAudit ev) es" by (auto simp: ext_def)
  then show ?thesis
    by (intro exI [of _ "es @ [EEvent i ''Governance'' ''governance_allowed'' (''Prudence allowed '' @ pl_name pipe),
        EEvent i ''Planner'' ''intent'' (es_intent st)]"]) (simp add: app res run)
qed

text \<open>
  A person without any domain. The model finds the intent but no customer, the planner asks, and the
  answer names the customer.
\<close>

definition bypass_planner :: planner where
  "bypass_planner = (demo_planner GNil)\<lparr>pr_intent_prompt := (\<lambda>_ _ _. ''intent''), pr_extract_prompt := (\<lambda>_ _. ''params''),
     pr_json := (\<lambda>raw. if raw = ''params'' then Inr (GObj [(''customer'', GStr ''c9'')])
       else Inr (GObj [(''intent'', GStr ''lookup''), (''parameters'', GObj [])]))\<rparr>"

definition bypass_env :: env where
  "bypass_env = (demo_env plan_cfg (\<lambda>_ _ _ _. Inr []))
     \<lparr>we_llm := Some \<lparr>lm_chat = (\<lambda>_ _ prompt. Inr prompt), lm_embed = (\<lambda>_ _. Inl ''''), lm_routable = False\<rparr>\<rparr>"

definition bypass_ask :: message where
  "bypass_ask = \<lparr>ms_type = ''detect_intent'', ms_payload = [(''id'', PS ''t1''), (''message'', PS ''look it up''),
     (''lang'', PS ''en''), (''identity'', PIdent (Some (demo_person ''mallory'' [])))]\<rparr>"

definition bypass_answer :: message where
  "bypass_answer = \<lparr>ms_type = ''clarify_intent'', ms_payload = [(''id'', PS ''t1''), (''message'', PS ''customer c9'')]\<rparr>"

definition bypass_record :: exec_state where
  "bypass_record = zero_exec\<lparr>es_id := ''t1'', es_user := ''mallory'', es_intent := ''lookup'',
     es_params := Some [(''customer'', '''')], es_missing := [''customer''], es_gate := ''clarification'', es_created := 4\<rparr>"

lemma bypass_reached:
  "mget (sy_tasks (fst (planner_dispatch bypass_planner bypass_env bypass_ask (demo_sys [])))) ''t1'' = Some bypass_record"
  by code_simp

lemma clarification_skips_permissions_witness:
  "\<not> rbac_allows (we_cfg bypass_env) ''lookup'' (use_domains (Some (demo_person ''mallory'' []))) \<and>
   (\<exists>e. is_run e \<and> e \<in> set (sy_trace (fst (handle_clarify_intent bypass_planner bypass_env bypass_answer
     (fst (planner_dispatch bypass_planner bypass_env bypass_ask (demo_sys [])))))))"
proof -
  define sy where "sy = fst (planner_dispatch bypass_planner bypass_env bypass_ask (demo_sys []))"
  let ?pipe = "zero_pipeline\<lparr>pl_name := ''lookup'', pl_steps := [tool_step ''crm'']\<rparr>"
  let ?found = "[(''customer'', ''c9'')]"
  have 1: "get_string0 (ms_payload bypass_answer) ''id'' = ''t1''" "get_string0 (ms_payload bypass_answer) ''message'' = ''customer c9''"
    by (simp_all add: bypass_answer_def get_string0_def get_string_def)
  have "(get_task_context ''t1'' (fst (planner_dispatch bypass_planner bypass_env bypass_ask (demo_sys []))) = None) = False"
    by code_simp
  then have 2: "get_task_context ''t1'' sy \<noteq> None" by (simp add: sy_def)
  have 3: "we_load bypass_env (sy_tick sy) = None" by (simp add: bypass_env_def demo_env_def)
  have 4: "mget (sy_tasks sy) ''t1'' = Some bypass_record" "es_gate bypass_record = ''clarification''"
    "es_intent bypass_record = ''lookup''"
    using bypass_reached by (simp_all add: sy_def bypass_record_def)
  have clean: "sanitize_llm_output ''params'' = ''params''" by code_simp
  have rp: "read_params ff (pr_json bypass_planner) ''params'' = Inr ?found" for ff
    by (simp add: read_params_def Let_def bypass_planner_def clean)
  have 5: "\<exists>sy2. extract_params bypass_planner bypass_env (get_string0 (ms_payload bypass_answer) ''message'')
      (es_missing bypass_record) (next_tick sy) = (sy2, Some (Inr ?found))"
    using rp by (simp add: extract_params_def Let_def bypass_env_def demo_env_def bypass_planner_def)
  then obtain sy2 where 5: "extract_params bypass_planner bypass_env (get_string0 (ms_payload bypass_answer) ''message'')
      (es_missing bypass_record) (next_tick sy) = (sy2, Some (Inr ?found))" by blast
  have 6: "mget (cf_intents (we_cfg bypass_env)) (es_intent bypass_record) = Some demo_intent"
    by (simp add: bypass_env_def demo_env_def plan_cfg_def bypass_record_def)
  have 7: "mget (cf_pipelines (we_cfg bypass_env)) (it_pipeline demo_intent) = Some ?pipe"
    by (simp add: bypass_env_def demo_env_def plan_cfg_def demo_cfg_def demo_intent_def zero_pipeline_def)
  have 8: "missing_params demo_intent (merge_params ?found (es_params bypass_record)) = []" by code_simp
  have 9: "validate_all (we_ff bypass_env) (we_getenv bypass_env) demo_intent ?pipe (merge_params ?found (es_params bypass_record))
      (cf_tools (we_cfg bypass_env)) = None" by code_simp
  have 10: "\<not> pl_governed ?pipe" "pl_ai_system ?pipe = ''''" by (simp_all add: zero_pipeline_def)
  from clarification_skips_permissions [OF 1(1) 2 3 4(1,2) 5 6 7 refl 8 9 10]
  have "\<exists>e. is_run e \<and> e \<in> set (sy_trace (fst (handle_clarify_intent bypass_planner bypass_env bypass_answer sy)))"
    by (auto intro: run_in_trace)
  moreover have "\<not> rbac_allows (we_cfg bypass_env) ''lookup'' (use_domains (Some (demo_person ''mallory'' [])))"
    by code_simp
  ultimately show ?thesis by (simp add: sy_def)
qed

end
