(* ===== verification/Api_Model.thy ===== *)
theory Api_Model
  imports Agent_World Llm_Model
begin

text \<open>
  The HTTP interface of the agents (agent/api_agent.go): requests, decisions, replies and callbacks
  become messages to the other agents, and tasks, memories and results become replies. A request is
  what a handler reads of it; its identity is the one the middleware put into its context. The state
  manager is configured, as app.go does.
\<close>

subsection \<open>Requests and replies\<close>

text \<open>A body: it was too large, is no JSON, or is the document with the bytes it was read from.\<close>

datatype http_body = BodyTooLarge | BodyNoJson | BodyJson gval string

record http_request =
  hr_method :: string
  hr_path :: string
  hr_header :: "string \<Rightarrow> string"
  hr_query :: "string \<Rightarrow> string"
  hr_remote :: string
  hr_body :: http_body
  hr_identity :: "identity option"

text \<open>
  \<open>HttpWait\<close> is the synchronous answer, written when the result is there or the time is over, and
  \<open>HttpStream\<close> the stream of the events of a task.
\<close>

datatype reply = HttpError int string | HttpJson int gval | HttpTasks "exec_state list"
  | HttpMemories "memory list" | HttpStatus int | HttpWait string | HttpStream string

text \<open>One counter per client: the start of its window and the hits in it.\<close>

record rate_bucket =
  rb_start :: time
  rb_hits :: nat

record api =
  ap_dev_login :: bool
  ap_deterministic :: bool
  ap_key :: string
  ap_gov :: "gov_model option"
  ap_hmac :: "string \<Rightarrow> string \<Rightarrow> string \<Rightarrow> string"
  ap_sign :: "string \<Rightarrow> gval gomap \<Rightarrow> string + string"

record api_state =
  as_buckets :: "rate_bucket gomap"
  as_sys :: sys

definition on_sys :: "(sys \<Rightarrow> sys) \<Rightarrow> api_state \<Rightarrow> api_state" where
  "on_sys f s = s\<lparr>as_sys := f (as_sys s)\<rparr>"

subsection \<open>Rate limit and API key\<close>

definition rl_window :: duration where "rl_window = 60000000000"
definition rl_limit :: nat where "rl_limit = 60"

text \<open>\<open>acquireRL\<close> at a time: the buckets after it, and whether the request may go on.\<close>

definition acquire_rl :: "time \<Rightarrow> string \<Rightarrow> rate_bucket gomap \<Rightarrow> rate_bucket gomap \<times> bool" where
  "acquire_rl now key0 bs =
    (let key = (if key0 = '''' then ''anon'' else key0); fresh = mput bs key \<lparr>rb_start = now, rb_hits = 1\<rparr> in
     case mget bs key of None \<Rightarrow> (fresh, True)
     | Some b \<Rightarrow> if now - rb_start b \<ge> rl_window then (fresh, True)
         else if rb_hits b \<ge> rl_limit then (bs, False)
         else (mput bs key (b\<lparr>rb_hits := Suc (rb_hits b)\<rparr>), True))"

definition bearer_of :: "http_request \<Rightarrow> string option" where
  "bearer_of r = (let a = hr_header r ''Authorization'' in
     if has_prefix (to_lower a) ''bearer '' then Some (trim_space (drop 7 a)) else None)"

definition get_client_key :: "http_request \<Rightarrow> string" where
  "get_client_key r =
    (if hr_header r ''X-API-Key'' \<noteq> '''' then ''key:'' @ hr_header r ''X-API-Key''
     else (case bearer_of r of Some t \<Rightarrow> ''key:'' @ t
       | None \<Rightarrow> ''ip:'' @ (case last_index (CHR '':'') (hr_remote r) of
           Some (Suc n) \<Rightarrow> take (Suc n) (hr_remote r) | _ \<Rightarrow> hr_remote r)))"

definition check_auth :: "api \<Rightarrow> http_request \<Rightarrow> bool" where
  "check_auth ap r =
    (if ap_key ap = '''' then True
     else if hr_header r ''X-API-Key'' \<noteq> '''' \<and> hr_header r ''X-API-Key'' = ap_key ap then True
     else (case bearer_of r of Some t \<Rightarrow> t = ap_key ap | None \<Rightarrow> False))"

text \<open>Take a hit and go on, or answer 429.\<close>

definition rate_limited :: "env \<Rightarrow> http_request \<Rightarrow> (api_state \<Rightarrow> api_state \<times> reply) \<Rightarrow> api_state \<Rightarrow> api_state \<times> reply" where
  "rate_limited ve r k s =
    (case acquire_rl (now_of ve (as_sys s)) (get_client_key r) (as_buckets s) of
       (bs, ok) \<Rightarrow> (let s1 = on_sys next_tick (s\<lparr>as_buckets := bs\<rparr>) in
         if ok then k s1 else (s1, HttpError 429 ''too many requests'')))"

definition id_char :: "char \<Rightarrow> bool" where
  "id_char c = (is_alpha c \<or> is_digit c \<or> c = CHR ''_'' \<or> c = CHR ''-'')"

text \<open>The pattern \<open>^[a-zA-Z0-9_-]{1,64}$\<close>.\<close>

definition valid_id :: "string \<Rightarrow> bool" where
  "valid_id s = (1 \<le> length s \<and> length s \<le> 64 \<and> list_all id_char s)"

definition json_content :: "http_request \<Rightarrow> bool" where
  "json_content r = has_prefix (to_lower (hr_header r ''Content-Type'')) ''application/json''"

subsection \<open>Access to a task\<close>

definition holds_any :: "identity \<Rightarrow> string list \<Rightarrow> bool" where
  "holds_any d functions = list_ex (has_function (Some d)) functions"

text \<open>The identity of a request, when it names a user.\<close>

definition signed_in :: "http_request \<Rightarrow> identity option" where
  "signed_in r = (case hr_identity r of None \<Rightarrow> None | Some d \<Rightarrow> if idn_user d = '''' then None else Some d)"

definition may_access :: "identity \<Rightarrow> string list \<Rightarrow> exec_state \<Rightarrow> bool" where
  "may_access d functions st = (es_user st \<noteq> '''' \<and> (es_user st = idn_user d \<or> holds_any d functions))"

definition require_task_access :: "env \<Rightarrow> http_request \<Rightarrow> string \<Rightarrow> string list \<Rightarrow> sys \<Rightarrow> sys \<times> (reply + identity \<times> exec_state)" where
  "require_task_access ve r i functions sy =
    (case signed_in r of None \<Rightarrow> (sy, Inl (HttpError 401 ''identity required''))
     | Some d \<Rightarrow> (case load_state ve i sy of
         (sy1, Inl _) \<Rightarrow> (sy1, Inl (HttpError 503 ''state unavailable''))
       | (sy1, Inr None) \<Rightarrow> (sy1, Inl (HttpError 404 ''task not found''))
       | (sy1, Inr (Some st)) \<Rightarrow> if may_access d functions st then (sy1, Inr (d, st))
           else (sy1, Inl (HttpError 404 ''task not found''))))"

subsection \<open>Views of a task\<close>

definition credential_param :: "string \<Rightarrow> bool" where
  "credential_param k = (k = ''callback_url'' \<or> k = ''callback_token'' \<or> has_suffix k ''.callback_token'')"

definition task_view :: "exec_state \<Rightarrow> exec_state" where
  "task_view st = st\<lparr>es_cb_token := '''',
     es_params := Some (filter (\<lambda>(k, v). \<not> credential_param k) (case es_params st of None \<Rightarrow> [] | Some p \<Rightarrow> p))\<rparr>"

definition results_value :: "exec_state \<Rightarrow> gval" where
  "results_value st = (if es_results st = [] then GNil else GObj (es_results st))"

definition result_field :: "exec_state \<Rightarrow> string \<Rightarrow> gval" where
  "result_field st k = (case mget (es_results st) k of None \<Rightarrow> GNil | Some v \<Rightarrow> v)"

text \<open>What a stored task is reported as: its status, its data and its error.\<close>

definition task_status :: "exec_state \<Rightarrow> string \<times> gval \<times> string" where
  "task_status st =
    (if es_status st = ''timed_out'' then (''timed_out'', GNil, es_error st)
     else if es_error st \<noteq> '''' then (''error'', GNil, es_error st)
     else if es_status st \<noteq> '''' then (es_status st,
       (if es_status st = ''completed'' then results_value st
        else if es_status st = ''governance_blocked'' then result_field st ''_governance''
        else if es_status st = ''rejected'' then result_field st ''_rejection'' else GNil), '''')
     else if es_gate st \<noteq> '''' then ((if es_gate st = ''clarification'' then ''await_clarification'' else ''await_human''), GNil, '''')
     else if (case mget (es_results st) ''_pipeline'' of Some (GObj p) \<Rightarrow> mget p ''status'' = Some (GStr ''success'') | _ \<Rightarrow> False)
     then (''success'', results_value st, '''')
     else if es_results st \<noteq> [] then (''pending'', results_value st, '''')
     else if es_completed st \<noteq> [] then (''success'', GObj [(''info'', GStr ''Task completed (no step results saved)'')], '''')
     else (''pending'', GNil, ''''))"

definition str_list :: "string list \<Rightarrow> gval" where
  "str_list xs = (if xs = [] then GNil else GList (map GStr xs))"

definition with_governance_refs :: "gval gomap \<Rightarrow> exec_state \<Rightarrow> gval gomap" where
  "with_governance_refs body st =
    body @ (if es_ai_system st \<noteq> '''' then [(''ai_system_id'', GStr (es_ai_system st))] else []) @
      (if es_decision st \<noteq> '''' then [(''decision_id'', GStr (es_decision st))] else [])"

definition result_body :: "string \<Rightarrow> result \<Rightarrow> gval gomap" where
  "result_body i res = [(''id'', GStr i), (''status'', GStr (rs_status res)),
     (''data'', case rs_data res of None \<Rightarrow> GNil | Some d \<Rightarrow> d), (''error'', GStr (rs_err res))]"

definition state_body :: "string \<Rightarrow> exec_state \<Rightarrow> gval gomap" where
  "state_body i st = (case task_status st of (status, data, err) \<Rightarrow>
    [(''id'', GStr i), (''status'', GStr status), (''data'', data), (''error'', GStr err),
     (''completed_steps'', str_list (es_completed st)), (''pipeline'', GStr (es_pipeline st))] @
    (if status = ''await_human''
     then [(''gate'', GStr (es_gate st)), (''params'', str_map_json (es_params (task_view st)))]
     else if status = ''await_clarification''
     then [(''gate'', GStr (es_gate st)), (''missing_params'', str_list (es_missing st))] else []))"

definition pending_body :: "string \<Rightarrow> gval gomap" where
  "pending_body i = [(''id'', GStr i), (''status'', GStr ''pending'')]"

text \<open>The owner, or someone who oversees or audits.\<close>

definition may_read :: "identity option \<Rightarrow> exec_state \<Rightarrow> bool" where
  "may_read idn st = (case idn of None \<Rightarrow> False
     | Some d \<Rightarrow> es_user st = idn_user d \<or> holds_any d [''oversight'', ''audit''])"

text \<open>Once the reader may see the task: its one-shot result, which is consumed, or its record.\<close>

definition read_task :: "env \<Rightarrow> string \<Rightarrow> exec_state \<Rightarrow> sys \<Rightarrow> sys \<times> reply" where
  "read_task ve i owned sy =
    (case get_result i sy of
       Some res \<Rightarrow> (delete_result i sy, HttpJson 200 (GObj (with_governance_refs (result_body i res) owned)))
     | None \<Rightarrow> (case load_state ve i sy of
         (sy1, Inr (Some st)) \<Rightarrow> (sy1, HttpJson 200 (GObj (with_governance_refs (state_body i st) st)))
       | (sy1, _) \<Rightarrow> (sy1, HttpJson 200 (GObj (pending_body i)))))"

definition show_task :: "env \<Rightarrow> http_request \<Rightarrow> sys \<Rightarrow> sys \<times> reply" where
  "show_task ve r sy =
    (let i = hr_query r ''id'' in
     if i = '''' then (sy, HttpError 400 ''id required'')
     else if \<not> valid_id i then (sy, HttpError 400 ''id is not valid'')
     else (case load_state ve i sy of
         (sy1, Inl _) \<Rightarrow> (sy1, HttpError 503 ''state unavailable'')
       | (sy1, Inr None) \<Rightarrow> (sy1, HttpError 404 ''task not found'')
       | (sy1, Inr (Some st)) \<Rightarrow>
           if may_read (signed_in r) st then read_task ve i st sy1 else (sy1, HttpError 404 ''task not found'')))"

definition on_reply :: "(sys \<Rightarrow> sys \<times> reply) \<Rightarrow> api_state \<Rightarrow> api_state \<times> reply" where
  "on_reply f s = (case f (as_sys s) of (sy, rep) \<Rightarrow> (s\<lparr>as_sys := sy\<rparr>, rep))"

definition handle_task :: "api \<Rightarrow> env \<Rightarrow> http_request \<Rightarrow> api_state \<Rightarrow> api_state \<times> reply" where
  "handle_task ap ve r s =
    (if hr_method r \<noteq> ''GET'' then (s, HttpStatus 405)
     else if \<not> check_auth ap r then (s, HttpError 401 ''unauthorized'')
     else rate_limited ve r (on_reply (show_task ve r)) s)"

definition handle_list_tasks :: "env \<Rightarrow> http_request \<Rightarrow> sys \<Rightarrow> sys \<times> reply" where
  "handle_list_tasks ve r sy =
    (if hr_method r \<noteq> ''GET'' then (sy, HttpError 405 ''Method not allowed'')
     else (case signed_in r of None \<Rightarrow> (sy, HttpError 401 ''identity required'')
       | Some d \<Rightarrow> (case list_states ve sy of
           (sy1, Inl err) \<Rightarrow> (sy1, HttpError 500 err)
         | (sy1, Inr sts) \<Rightarrow> (sy1, HttpTasks (map task_view
             (filter (\<lambda>st. holds_any d [''oversight'', ''audit''] \<or> es_user st = idn_user d) sts))))))"

subsection \<open>Memories, intents and events\<close>

text \<open>The failure of a memory operation is an argument.\<close>

definition handle_memories :: "string option \<Rightarrow> http_request \<Rightarrow> sys \<Rightarrow> sys \<times> reply" where
  "handle_memories failure r sy =
    (if hr_method r \<noteq> ''GET'' \<and> hr_method r \<noteq> ''DELETE'' then (sy, HttpStatus 405)
     else (case signed_in r of None \<Rightarrow> (sy, HttpError 401 ''identity required'')
       | Some d \<Rightarrow> (case sy_memories sy of None \<Rightarrow> (sy, HttpError 503 ''vector store not configured'')
         | Some ms \<Rightarrow>
           if hr_method r = ''GET''
           then (case failure of Some err \<Rightarrow> (sy, HttpError 500 err)
             | None \<Rightarrow> (case mv_list (idn_user d) ms of Inl err \<Rightarrow> (sy, HttpError 500 err)
               | Inr own \<Rightarrow> (sy, HttpMemories (filter is_personal_fact own))))
           else if hr_query r ''id'' = '''' then (sy, HttpError 400 ''missing id parameter'')
           else (case failure of Some err \<Rightarrow> (sy, HttpError 500 err)
             | None \<Rightarrow> (case mv_delete (idn_user d) (hr_query r ''id'') ms of
                 (ms', Some err) \<Rightarrow> (sy\<lparr>sy_memories := Some ms'\<rparr>, HttpError 500 err)
               | (ms', None) \<Rightarrow> (sy\<lparr>sy_memories := Some ms'\<rparr>, HttpJson 200 (GObj [(''success'', GBool True)])))))))"

definition intent_view :: "config \<Rightarrow> intent \<Rightarrow> gval" where
  "intent_view c it = GObj ([(''type'', GStr (it_type it)), (''description'', GStr (it_description it))] @
     (case it_examples it of e # es \<Rightarrow> (if e \<noteq> '''' then [(''example'', GStr e)] else []) | [] \<Rightarrow> []) @
     [(''required_params'', GList (map GStr (it_required_params it))), (''allow_dangerous'', GBool (it_allow_dangerous it)),
      (''requires_llm'', GBool (intent_requires_llm c (it_type it)))])"

definition handle_intents :: "env \<Rightarrow> http_request \<Rightarrow> sys \<Rightarrow> sys \<times> reply" where
  "handle_intents ve r sy =
    (if hr_method r \<noteq> ''GET'' then (sy, HttpStatus 405)
     else (sy, HttpJson 200 (let xs = map (\<lambda>(k, it). intent_view (we_cfg ve) it) (cf_intents (we_cfg ve)) in
       if xs = [] then GNil else GList xs)))"

text \<open>The stream of the events of one task, once the reader may see it.\<close>

definition stream_events :: "string \<Rightarrow> message list \<Rightarrow> message list" where
  "stream_events i ms = filter (\<lambda>m. ms_type m = ''agent_event'' \<and> mget (ms_payload m) ''task_id'' = Some (PS i)) ms"

definition handle_event_stream :: "env \<Rightarrow> http_request \<Rightarrow> sys \<Rightarrow> sys \<times> reply" where
  "handle_event_stream ve r sy =
    (let i = hr_query r ''task_id'' in
     if hr_method r \<noteq> ''GET'' then (sy, HttpError 405 ''method not allowed'')
     else if i = '''' \<or> \<not> valid_id i then (sy, HttpError 400 ''valid task_id query parameter required'')
     else (case require_task_access ve r i [''oversight'', ''audit''] sy of
         (sy1, Inl rep) \<Rightarrow> (sy1, rep) | (sy1, Inr _) \<Rightarrow> (sy1, HttpStream i)))"

subsection \<open>Requests\<close>

text \<open>\<open>Decode\<close> into the request structs; a field of another type is an error.\<close>

record ask_request =
  aq_operation :: string
  aq_params :: "gval gomap option"
  aq_message :: string
  aq_async :: bool

fun dec_bool :: "gval option \<Rightarrow> string + bool" where
  "dec_bool None = Inr False"
| "dec_bool (Some GNil) = Inr False"
| "dec_bool (Some (GBool b)) = Inr b"
| "dec_bool (Some _) = Inl unmarshal_error"

fun dec_obj :: "gval option \<Rightarrow> string + gval gomap option" where
  "dec_obj None = Inr None"
| "dec_obj (Some GNil) = Inr None"
| "dec_obj (Some (GObj m)) = Inr (Some m)"
| "dec_obj (Some _) = Inl unmarshal_error"

definition body_fields :: "http_body \<Rightarrow> gval gomap option" where
  "body_fields b = (case b of BodyJson (GObj m) _ \<Rightarrow> Some m | BodyJson GNil _ \<Rightarrow> Some [] | _ \<Rightarrow> None)"

definition decode_ask :: "http_body \<Rightarrow> ask_request option" where
  "decode_ask b = (case body_fields b of None \<Rightarrow> None
     | Some m \<Rightarrow> (case (dec_str (mget m ''operation''), dec_obj (mget m ''params''), dec_str (mget m ''message''),
           dec_bool (mget m ''async'')) of
         (Inr op, Inr ps, Inr msg, Inr as) \<Rightarrow>
           Some \<lparr>aq_operation = op, aq_params = ps, aq_message = msg, aq_async = as\<rparr>
       | _ \<Rightarrow> None))"

text \<open>The fields of a natural-language request: message and language (its session is replaced).\<close>

definition decode_message :: "http_body \<Rightarrow> (string \<times> string) option" where
  "decode_message b = (case body_fields b of None \<Rightarrow> None
     | Some m \<Rightarrow> (case (dec_str (mget m ''session_id''), dec_str (mget m ''lang''), dec_str (mget m ''message'')) of
         (Inr _, Inr lang, Inr msg) \<Rightarrow> Some (msg, lang) | _ \<Rightarrow> None))"

definition bad_body :: "http_body \<Rightarrow> reply" where
  "bad_body b = HttpError (if b = BodyTooLarge then 413 else 400) ''invalid request body''"

definition fresh_id :: "env \<Rightarrow> sys \<Rightarrow> sys \<times> string" where
  "fresh_id ve sy = (next_tick sy, we_uuid ve (sy_tick sy))"

text \<open>The record that gives a task its owner, before anything else happens.\<close>

definition owner_record :: "string \<Rightarrow> string \<Rightarrow> identity option \<Rightarrow> exec_state" where
  "owner_record i session idn = zero_exec\<lparr>es_id := i, es_session := session,
     es_user := (case idn of None \<Rightarrow> '''' | Some d \<Rightarrow> idn_user d), es_status := ''processing''\<rparr>"

definition ask_payload :: "string \<Rightarrow> string \<Rightarrow> string \<Rightarrow> string \<Rightarrow> identity option \<Rightarrow> pval gomap" where
  "ask_payload i session msg lang idn = [(''id'', PS i), (''session_id'', PS session), (''mode'', PS ''structured''),
     (''message'', PS msg), (''lang'', PS lang), (''identity'', PIdent idn)]"

definition submit_message :: "env \<Rightarrow> http_request \<Rightarrow> string \<Rightarrow> string \<Rightarrow> sys \<Rightarrow> sys \<times> reply" where
  "submit_message ve r msg lang0 sy =
    (let lang = (if lang0 = '''' then ''es'' else lang0); idn = hr_identity r;
         (sy1, session) = (case signed_in r of Some d \<Rightarrow> (sy, idn_user d) | None \<Rightarrow> fresh_id ve sy);
         (sy2, i) = fresh_id ve sy1 in
     case save_state ve (owner_record i session idn) sy2 of
       (sy3, _, Some _) \<Rightarrow> (sy3, HttpError 503 ''could not persist task owner'')
     | (sy3, _, None) \<Rightarrow>
       (send_msg ''inspector'' ''new_task'' (ask_payload i session msg lang idn)
          (fst (new_task_context i (event i ''Api'' ''request'' msg sy3))),
        HttpJson 202 (GObj [(''id'', GStr i), (''session_id'', GStr session), (''status'', GStr ''accepted'')])))"

definition handle_ask :: "api \<Rightarrow> env \<Rightarrow> http_request \<Rightarrow> api_state \<Rightarrow> api_state \<times> reply" where
  "handle_ask ap ve r s =
    (if hr_method r \<noteq> ''POST'' then (s, HttpStatus 405)
     else if ap_deterministic ap
     then (s, HttpError 501 ''natural language is unavailable in deterministic mode; use /ask_structured'')
     else rate_limited ve r (\<lambda>s1.
       if \<not> json_content r then (s1, HttpError 415 ''unsupported media type'')
       else (case decode_message (hr_body r) of None \<Rightarrow> (s1, bad_body (hr_body r))
         | Some (msg, lang) \<Rightarrow> if msg = '''' then (s1, HttpError 400 ''message and lang are required'')
             else on_reply (submit_message ve r msg lang) s1)) s)"

definition structured_payload :: "string \<Rightarrow> string \<Rightarrow> ask_request \<Rightarrow> identity option \<Rightarrow> pval gomap" where
  "structured_payload i session q idn = [(''id'', PS i), (''mode'', PS ''structured''), (''operation'', PS (aq_operation q)),
     (''session_id'', PS session), (''lang'', PS ''en''),
     (''params'', PVal (case aq_params q of None \<Rightarrow> GNil | Some m \<Rightarrow> GObj m)), (''identity'', PIdent idn)]"

definition submit_operation :: "env \<Rightarrow> http_request \<Rightarrow> ask_request \<Rightarrow> sys \<Rightarrow> sys \<times> reply" where
  "submit_operation ve r q sy =
    (let (sy1, i) = fresh_id ve sy; (sy2, anonymous) = fresh_id ve sy1;
         session = (case signed_in r of Some d \<Rightarrow> idn_user d | None \<Rightarrow> anonymous) in
     case save_state ve (owner_record i session (signed_in r)) sy2 of
       (sy3, _, Some _) \<Rightarrow> (sy3, HttpError 503 ''could not persist task owner'')
     | (sy3, _, None) \<Rightarrow>
       (send_msg ''inspector'' ''new_task'' (structured_payload i session q (hr_identity r)) sy3,
        if aq_async q then HttpJson 200 (GObj [(''id'', GStr i), (''status'', GStr ''processing'')]) else HttpWait i))"

definition handle_ask2 :: "api \<Rightarrow> env \<Rightarrow> http_request \<Rightarrow> api_state \<Rightarrow> api_state \<times> reply" where
  "handle_ask2 ap ve r s =
    (if hr_method r \<noteq> ''POST'' then (s, HttpStatus 405)
     else rate_limited ve r (\<lambda>s1.
       if \<not> json_content r then (s1, HttpError 415 ''unsupported media type'')
       else (case decode_ask (hr_body r) of None \<Rightarrow> (s1, HttpJson 400 (GObj [(''error'', GStr ''json is not valid'')]))
         | Some q \<Rightarrow>
           if aq_operation q = '''' \<and> (aq_message q = '''' \<or> ap_deterministic ap)
           then (s1, HttpError 400 ''operation required'')
           else on_reply (submit_operation ve r q) s1)) s)"

text \<open>The synchronous answer: the result, or the one \<open>waitForResult\<close> gives after 30 seconds.\<close>

definition timeout_result :: result where
  "timeout_result = \<lparr>rs_status = ''timeout'', rs_data = None, rs_err = ''timeout waiting for a result''\<rparr>"

definition wait_reply :: "string \<Rightarrow> sys \<Rightarrow> reply" where
  "wait_reply i sy = (let res = (case get_result i sy of Some res \<Rightarrow> res | None \<Rightarrow> timeout_result) in
     HttpJson (if rs_err res \<noteq> '''' then 500 else 200)
       (GObj ([(''id'', GStr i), (''status'', GStr (rs_status res))] @
         (case rs_data res of None \<Rightarrow> [] | Some d \<Rightarrow> [(''result'', d)]) @
         (if rs_err res \<noteq> '''' then [(''error'', GStr (rs_err res))] else []))))"

definition dispatch_ask_internal :: "env \<Rightarrow> string \<Rightarrow> string \<Rightarrow> sys \<Rightarrow> sys \<times> (string + string)" where
  "dispatch_ask_internal ve msg lang sy =
    (if msg = '''' then (sy, Inl ''message required'')
     else (let (sy1, i) = fresh_id ve sy in
       (send_msg ''inspector'' ''new_task'' [(''id'', PS i), (''mode'', PS ''structured''), (''message'', PS msg), (''lang'', PS lang)]
          (fst (new_task_context i (event i ''UI'' ''request'' msg sy1))), Inr i)))"

subsection \<open>Decisions and clarifications\<close>

definition decision_payload :: "string \<Rightarrow> string \<Rightarrow> string \<Rightarrow> string \<Rightarrow> pval gomap" where
  "decision_payload i gate decision decided_by =
    [(''id'', PS i), (''gate'', PS gate), (''decision'', PS decision), (''decided_by'', PS decided_by)]"

definition handle_human_decision_request :: "api \<Rightarrow> env \<Rightarrow> string \<Rightarrow> http_request \<Rightarrow> sys \<Rightarrow> sys \<times> reply" where
  "handle_human_decision_request ap ve decision r sy =
    (let i = hr_query r ''id''; gate = hr_query r ''gate'' in
     if hr_method r \<noteq> ''POST'' then (sy, HttpError 405 ''method not allowed'')
     else if \<not> valid_id i \<or> gate = '''' \<or> length gate > 128 \<or> gate = ''clarification''
     then (sy, HttpError 400 ''valid task id and human gate required'')
     else (case require_task_access ve r i [''oversight''] sy of
         (sy1, Inl rep) \<Rightarrow> (sy1, rep)
       | (sy1, Inr (d, st)) \<Rightarrow>
         if idn_user d = es_user st \<and> incompatible (ap_gov ap) ''ai.use'' ''oversight''
         then (sy1, HttpError 403 (''whoever started a task cannot decide its human step '' @
           ''(ai.use and oversight are incompatible in the governance model)''))
         else if es_gate st \<noteq> gate then (sy1, HttpError 409 ''task is not waiting at this gate'')
         else (send_msg ''verifier'' ''human_decision'' (decision_payload i gate decision (idn_user d))
             (event i ''UI'' ''human_decision'' decision sy1),
           HttpJson 200 (GObj [(''status'', GStr decision), (''id'', GStr i)]))))"

definition clarify_request :: "env \<Rightarrow> http_request \<Rightarrow> sys \<Rightarrow> sys \<times> reply" where
  "clarify_request ve r sy =
    (let i = hr_query r ''id'' in
     if \<not> valid_id i then (sy, HttpError 400 ''valid id query param required'')
     else (case require_task_access ve r i [] sy of
         (sy1, Inl rep) \<Rightarrow> (sy1, rep)
       | (sy1, Inr (d, st)) \<Rightarrow>
         if es_gate st \<noteq> ''clarification'' then (sy1, HttpError 409 ''task is not waiting for clarification'')
         else (case decode_ask (hr_body r) of None \<Rightarrow> (sy1, bad_body (hr_body r))
           | Some q \<Rightarrow>
             if aq_message q = '''' then (sy1, HttpError 400 ''message required'')
             else (send_msg ''planner'' ''clarify_intent'' [(''id'', PS i), (''message'', PS (aq_message q))]
                 (event i ''Api'' ''reply'' (aq_message q) sy1),
               HttpJson 202 (GObj [(''id'', GStr i), (''status'', GStr ''accepted'')])))))"

definition handle_clarify_reply :: "api \<Rightarrow> env \<Rightarrow> http_request \<Rightarrow> api_state \<Rightarrow> api_state \<times> reply" where
  "handle_clarify_reply ap ve r s =
    (if hr_method r \<noteq> ''POST'' then (s, HttpStatus 405)
     else if ap_deterministic ap then (s, HttpError 501 ''clarification is unavailable in deterministic mode'')
     else if \<not> check_auth ap r then (s, HttpError 401 ''unauthorized'')
     else rate_limited ve r (on_reply (clarify_request ve r)) s)"

subsection \<open>Callbacks of providers\<close>

definition callback_clock_skew :: duration where "callback_clock_skew = 300000000000"

text \<open>The name of a step that awaits a callback, as the verifier names it.\<close>

definition step_id_of :: "pipeline_step \<Rightarrow> nat \<Rightarrow> string" where
  "step_id_of step i = (if ps_id step \<noteq> '''' then ps_id step else ''callback_'' @ show_nat i)"

definition await_step :: "config \<Rightarrow> exec_state \<Rightarrow> pipeline_step option" where
  "await_step c st = (case mget (cf_pipelines c) (es_pipeline st) of None \<Rightarrow> None
     | Some pipe \<Rightarrow> map_option snd (List.find (\<lambda>(i, s). ps_type s = ''await_callback'' \<and> step_id_of s i = es_await_step st)
         (List.enumerate 0 (pl_steps pipe))))"

text \<open>\<open>time.Unix(seconds, 0)\<close>: the seconds are shifted to Go's zero time in 64 bits.\<close>

definition time_unix :: "int \<Rightarrow> time" where
  "time_unix seconds = wrap64 (seconds + 62135596800) * 1000000000"

definition provider_signature :: "api \<Rightarrow> string \<Rightarrow> string \<Rightarrow> string \<Rightarrow> string" where
  "provider_signature ap key timestamp body = ''sha256='' @ ap_hmac ap key timestamp body"

text \<open>\<open>Some\<close> is the reason of a refusal; \<open>now\<close> is read once.\<close>

definition verify_callback_signature :: "api \<Rightarrow> env \<Rightarrow> http_request \<Rightarrow> exec_state \<Rightarrow> string \<Rightarrow> time \<Rightarrow> string option" where
  "verify_callback_signature ap ve r st body now =
    (case await_step (we_cfg ve) st of None \<Rightarrow> None
     | Some step \<Rightarrow>
       if ps_callback_secret_env step = '''' then None
       else (let secret = we_getenv ve (ps_callback_secret_env step); timestamp = hr_header r ''X-AOS-Callback-Timestamp'' in
         if secret = ''''
         then Some (ps_callback_secret_env step @ '' is not set, so no callback for step '' @ es_await_step st @ '' can be verified'')
         else (case atoi timestamp of None \<Rightarrow> Some ''missing or invalid X-AOS-Callback-Timestamp''
           | Some seconds \<Rightarrow>
             if \<bar>now - time_unix seconds\<bar> > callback_clock_skew then Some ''callback timestamp is away from now''
             else if provider_signature ap secret timestamp body \<noteq> hr_header r ''X-AOS-Callback-Signature''
             then Some ''callback signature does not match'' else None)))"

definition waits_for :: "string \<Rightarrow> time \<Rightarrow> exec_state \<Rightarrow> bool" where
  "waits_for token now st = (es_cb_token st = token \<and> es_gate st = ''await_callback'' \<and>
     (case es_deadline st of None \<Rightarrow> True | Some d \<Rightarrow> now < d))"

text \<open>The first record that waits for the token; the clock is read where there is a deadline.\<close>

fun find_waiting :: "env \<Rightarrow> string \<Rightarrow> exec_state list \<Rightarrow> sys \<Rightarrow> sys \<times> exec_state option" where
  "find_waiting ve token [] sy = (sy, None)"
| "find_waiting ve token (st # sts) sy =
    (let sy1 = (if es_cb_token st = token \<and> es_gate st = ''await_callback'' \<and> es_deadline st \<noteq> None then next_tick sy else sy) in
     if waits_for token (now_of ve sy) st then (sy1, Some st) else find_waiting ve token sts sy1)"

definition received_state :: "gval gomap option \<Rightarrow> time \<Rightarrow> exec_state \<Rightarrow> exec_state" where
  "received_state data now st = st\<lparr>es_cb_data := data, es_cb_at := Some now, es_status := ''callback_received''\<rparr>"

definition callback_payload :: "string \<Rightarrow> gval gomap option \<Rightarrow> pval gomap" where
  "callback_payload token data = [(''token'', PS token), (''data'', PVal (case data of None \<Rightarrow> GNil | Some m \<Rightarrow> GObj m))]"

definition callback_reply :: "exec_state \<Rightarrow> bool \<Rightarrow> reply" where
  "callback_reply st duplicate = HttpJson 200 (GObj [(''status'', GStr ''accepted''), (''id'', GStr (es_id st)),
     (''duplicate'', GBool duplicate)])"

text \<open>The first answer is stored before it is handed on; a second one repeats the first.\<close>

definition accept_callback :: "env \<Rightarrow> string \<Rightarrow> gval gomap option \<Rightarrow> exec_state \<Rightarrow> sys \<Rightarrow> sys \<times> reply" where
  "accept_callback ve token data st sy =
    (case es_cb_data st of
       Some m \<Rightarrow> (send_msg ''verifier'' ''callback_received'' (callback_payload token (Some m)) sy, callback_reply st True)
     | None \<Rightarrow>
       (case save_state ve (received_state data (now_of ve sy) st) (next_tick sy) of
          (sy1, _, Some _) \<Rightarrow> (sy1, HttpError 503 ''could not persist callback'')
        | (sy1, _, None) \<Rightarrow> (send_msg ''verifier'' ''callback_received'' (callback_payload token data)
            (event (es_id st) ''API'' ''callback_received'' ''Callback received'' sy1), callback_reply st False)))"

definition callback_data :: "http_body \<Rightarrow> gval gomap option option" where
  "callback_data b = (case b of BodyJson (GObj m) _ \<Rightarrow> Some (Some m) | BodyJson GNil _ \<Rightarrow> Some None | _ \<Rightarrow> None)"

definition raw_body :: "http_body \<Rightarrow> string" where
  "raw_body b = (case b of BodyJson v raw \<Rightarrow> raw | _ \<Rightarrow> '''')"

definition handle_callback_request :: "api \<Rightarrow> env \<Rightarrow> http_request \<Rightarrow> sys \<Rightarrow> sys \<times> reply" where
  "handle_callback_request ap ve r sy =
    (let token = trim_prefix (hr_path r) ''/api/v1/callbacks/'' in
     if hr_method r \<noteq> ''POST'' then (sy, HttpError 405 ''method not allowed'')
     else if token = '''' \<or> length token > 200 then (sy, HttpError 400 ''invalid callback token'')
     else (case callback_data (hr_body r) of None \<Rightarrow> (sy, HttpError 400 ''invalid callback body'')
       | Some data \<Rightarrow> (case list_states ve sy of
           (sy1, Inl _) \<Rightarrow> (sy1, HttpError 503 ''state unavailable'')
         | (sy1, Inr sts) \<Rightarrow> (case find_waiting ve token sts sy1 of
             (sy2, None) \<Rightarrow> (sy2, HttpError 404 ''callback not found or already consumed'')
           | (sy2, Some st) \<Rightarrow>
             (case verify_callback_signature ap ve r st (raw_body (hr_body r)) (now_of ve sy2) of
                Some _ \<Rightarrow> (next_tick sy2, HttpError 401 ''callback signature refused'')
              | None \<Rightarrow> accept_callback ve token data st (next_tick sy2))))))"

subsection \<open>Development login and the agent's own messages\<close>

definition login_ttl :: duration where "login_ttl = 28800000000000"

definition handle_login :: "api \<Rightarrow> env \<Rightarrow> http_request \<Rightarrow> sys \<Rightarrow> sys \<times> reply" where
  "handle_login ap ve r sy =
    (if \<not> ap_dev_login ap then (sy, HttpError 404 ''development login is disabled'')
     else if hr_method r \<noteq> ''POST'' then (sy, HttpError 405 ''method not allowed'')
     else (case (case body_fields (hr_body r) of None \<Rightarrow> None
           | Some m \<Rightarrow> (case (dec_str (mget m ''username''), dec_str (mget m ''password''), dec_strs (mget m ''roles'')) of
               (Inr user, Inr _, Inr roles) \<Rightarrow> if user = '''' then None else Some (user, roles) | _ \<Rightarrow> None)) of
         None \<Rightarrow> (sy, HttpError 400 ''username is required'')
       | Some (user, roles) \<Rightarrow>
         (case issue_token (we_getenv ve) (ap_sign ap) user roles login_ttl (now_of ve sy) of
            Inl _ \<Rightarrow> (next_tick sy, HttpError 500 ''cannot issue token'')
          | Inr token \<Rightarrow> (next_tick sy, HttpJson 200 (GObj [(''token'', GStr token), (''token_type'', GStr ''Bearer''),
              (''user_id'', GStr user), (''roles'', GList (map GStr (if roles = [] then [''user''] else roles))),
              (''expires_in'', GInt (login_ttl div 1000000000))])))))"

definition api_dispatch :: "message \<Rightarrow> sys \<Rightarrow> sys" where
  "api_dispatch msg sy =
    (if ms_type msg \<noteq> ''await_human'' then sy
     else (case (get_string (ms_payload msg) ''id'', get_string (ms_payload msg) ''gate'') of
         (Some i, Some gate) \<Rightarrow>
           store_result i \<lparr>rs_status = ''await_human'', rs_data = Some (GObj [(''gate'', GStr gate)]), rs_err = ''''\<rparr> sy
       | _ \<Rightarrow> sy))"

subsection \<open>Routes\<close>

text \<open>\<open>RegisterHTTP\<close>: exact paths, and one prefix. \<open>failure\<close> is the failure of the memory store.\<close>

definition api_route :: "api \<Rightarrow> env \<Rightarrow> string option \<Rightarrow> http_request \<Rightarrow> api_state \<Rightarrow> api_state \<times> reply" where
  "api_route ap ve failure r s =
    (let p = hr_path r in
     if p = ''/auth/login'' then on_reply (handle_login ap ve r) s
     else if p = ''/ask'' then handle_ask ap ve r s
     else if p = ''/ask_structured'' then handle_ask2 ap ve r s
     else if p = ''/task'' then handle_task ap ve r s
     else if p = ''/task/approve'' then on_reply (handle_human_decision_request ap ve ''approved'' r) s
     else if p = ''/task/reject'' then on_reply (handle_human_decision_request ap ve ''rejected'' r) s
     else if p = ''/task/reply'' then handle_clarify_reply ap ve r s
     else if p = ''/intents'' then on_reply (handle_intents ve r) s
     else if p = ''/api/v1/tasks'' then on_reply (handle_list_tasks ve r) s
     else if p = ''/api/v1/memories'' then on_reply (handle_memories failure r) s
     else if p = ''/api/v1/events/stream'' then on_reply (handle_event_stream ve r) s
     else if has_prefix p ''/api/v1/callbacks/'' then on_reply (handle_callback_request ap ve r) s
     else (s, HttpError 404 ''404 page not found''))"

end
