(* ===== verification/Api_Props.thy ===== *)
theory Api_Props
  imports Api_Model
begin

text \<open>
  The properties of the HTTP interface: the rate limit, who sees a task and what of it, who decides
  at a human gate, and how the answer of a provider gets to the verifier.
\<close>

subsection \<open>The rate limit over a sequence of requests\<close>

definition rl_key :: "string \<Rightarrow> string" where "rl_key k = (if k = '''' then ''anon'' else k)"

text \<open>Requests as pairs of time and client; the answers in the same order.\<close>

fun rl_run :: "(time \<times> string) list \<Rightarrow> rate_bucket gomap \<Rightarrow> bool list" where
  "rl_run [] bs = []"
| "rl_run ((now, k) # rs) bs = (case acquire_rl now k bs of (bs', ok) \<Rightarrow> ok # rl_run rs bs')"

text \<open>The requests of a client that were let through from \<open>t\<close> on, for one window.\<close>

definition rl_passed :: "string \<Rightarrow> time \<Rightarrow> (time \<times> string) list \<Rightarrow> rate_bucket gomap \<Rightarrow> nat" where
  "rl_passed k t rs bs = length (filter (\<lambda>((now, k'), ok). ok \<and> rl_key k' = k \<and> t \<le> now \<and> now < t + rl_window)
     (zip rs (rl_run rs bs)))"

lemma rl_passed_Nil [simp]: "rl_passed k t [] bs = 0"
  by (simp add: rl_passed_def)

lemma rl_passed_Cons:
  "rl_passed k t ((now, k') # rs) bs = (if snd (acquire_rl now k' bs) \<and> rl_key k' = k \<and> t \<le> now \<and> now < t + rl_window then 1 else 0) +
    rl_passed k t rs (fst (acquire_rl now k' bs))"
  by (simp add: rl_passed_def split: prod.split)

lemma acquire_other: "rl_key k' \<noteq> k \<Longrightarrow> mget (fst (acquire_rl now k' bs)) k = mget bs k"
  by (cases "k' = ''''") (auto simp: acquire_rl_def Let_def rl_key_def update_conv' split: option.splits)

lemma acquire_own:
  "rl_key k' = k \<Longrightarrow> acquire_rl now k' bs = (case mget bs k of
     None \<Rightarrow> (mput bs k \<lparr>rb_start = now, rb_hits = Suc 0\<rparr>, True)
   | Some b \<Rightarrow> if now - rb_start b \<ge> rl_window then (mput bs k \<lparr>rb_start = now, rb_hits = Suc 0\<rparr>, True)
       else if rb_hits b \<ge> rl_limit then (bs, False) else (mput bs k (b\<lparr>rb_hits := Suc (rb_hits b)\<rparr>), True))"
  by (auto simp: acquire_rl_def Let_def rl_key_def split: option.splits)

lemma rl_passed_late: "\<forall>r \<in> set rs. t + rl_window \<le> fst r \<Longrightarrow> rl_passed k t rs bs = 0"
  by (induction rs arbitrary: bs) (auto simp: rl_passed_Cons)

text \<open>What may still pass in the window from \<open>t\<close>, once the clock is there.\<close>

definition rl_room :: "time \<Rightarrow> rate_bucket option \<Rightarrow> nat" where
  "rl_room t b = (case b of None \<Rightarrow> rl_limit
     | Some b \<Rightarrow> (if rb_start b < t then rl_limit else 0) + (rl_limit - rb_hits b))"

lemma rl_limit_pos: "1 \<le> rl_limit" by (simp add: rl_limit_def)

lemma rl_passed_room:
  "sorted (map fst rs) \<Longrightarrow> \<forall>r \<in> set rs. t \<le> fst r \<Longrightarrow> rl_passed k t rs bs \<le> rl_room t (mget bs k)"
proof (induction rs arbitrary: bs)
  case (Cons r rs)
  obtain now k' where r: "r = (now, k')" by fastforce
  let ?bs = "fst (acquire_rl now k' bs)"
  have ih: "rl_passed k t rs ?bs \<le> rl_room t (mget ?bs k)"
    using Cons.prems by (intro Cons.IH) auto
  have t: "t \<le> now" using Cons.prems(2) r by simp
  show ?case
  proof (cases "rl_key k' = k")
    case False
    then show ?thesis using ih acquire_other [OF False, of now bs] by (simp add: r rl_passed_Cons)
  next
    case True
    note own = acquire_own [OF True, of now bs]
    have fresh: "rl_passed k t rs (mput bs k \<lparr>rb_start = now, rb_hits = Suc 0\<rparr>) \<le> rl_limit - 1"
      if "?bs = mput bs k \<lparr>rb_start = now, rb_hits = Suc 0\<rparr>"
      using ih t by (simp add: that rl_room_def update_conv')
    show ?thesis
    proof (cases "mget bs k")
      case None
      with own have b: "?bs = mput bs k \<lparr>rb_start = now, rb_hits = Suc 0\<rparr>" by simp
      from fresh [OF b] None rl_limit_pos show ?thesis by (auto simp: r rl_passed_Cons b rl_room_def)
    next
      case (Some b)
      show ?thesis
      proof (cases "now - rb_start b \<ge> rl_window")
        case over: True
        with own Some have bq: "?bs = mput bs k \<lparr>rb_start = now, rb_hits = Suc 0\<rparr>" by simp
        show ?thesis
        proof (cases "rb_start b < t")
          case True
          from fresh [OF bq] True Some rl_limit_pos show ?thesis
            by (auto simp: r rl_passed_Cons bq rl_room_def)
        next
          case False
          with over have "t + rl_window \<le> now" by simp
          moreover from this Cons.prems(1) r have "\<forall>q \<in> set rs. t + rl_window \<le> fst q" by force
          ultimately show ?thesis by (simp add: r rl_passed_Cons rl_passed_late)
        qed
      next
        case False
        then show ?thesis
        proof (cases "rb_hits b \<ge> rl_limit")
          case True
          with own Some False have "?bs = bs" "\<not> snd (acquire_rl now k' bs)" by auto
          with ih show ?thesis by (simp add: r rl_passed_Cons)
        next
          case hits: False
          with own Some False have "?bs = mput bs k (b\<lparr>rb_hits := Suc (rb_hits b)\<rparr>)" by simp
          with ih Some hits show ?thesis by (auto simp: r rl_passed_Cons rl_room_def update_conv' split: if_splits)
        qed
      qed
    qed
  qed
qed simp

text \<open>
  in any minute, at most 120 requests of one client pass the rate limiter (it counts in
  windows of a minute that start with a request, 60 hits each, so two of them can meet in a
  minute), whatever the other clients do.
\<close>

theorem rate_limit_bounded:
  assumes "sorted (map fst rs)"
  shows "rl_passed k t rs bs \<le> 120"
  using assms
proof (induction rs arbitrary: bs)
  case (Cons r rs)
  obtain now k' where r: "r = (now, k')" by fastforce
  show ?case
  proof (cases "now < t")
    case True
    with Cons show ?thesis by (simp add: r rl_passed_Cons)
  next
    case False
    with Cons.prems r have "\<forall>q \<in> set (r # rs). t \<le> fst q" by force
    from rl_passed_room [OF Cons.prems this, of k bs] show ?thesis
      by (auto simp: rl_room_def rl_limit_def split: option.splits if_splits)
  qed
qed simp

lemma rate_limit_bounded_witness:
  "rl_passed ''ip:a'' 0 [(0, ''ip:a''), (5, ''ip:b''), (9, ''ip:a'')] [] \<le> 120 \<and>
   rl_passed ''ip:a'' 0 [(0, ''ip:a''), (5, ''ip:b''), (9, ''ip:a'')] [] = 2"
proof -
  have "rl_passed ''ip:a'' 0 [(0, ''ip:a''), (5, ''ip:b''), (9, ''ip:a'')] [] \<le> 120"
    by (rule rate_limit_bounded) simp
  moreover have "rl_passed ''ip:a'' 0 [(0, ''ip:a''), (5, ''ip:b''), (9, ''ip:a'')] [] = 2" by code_simp
  ultimately show ?thesis by simp
qed

subsection \<open>Who sees a task\<close>

text \<open>The system without the record of a task.\<close>

definition without_task :: "string \<Rightarrow> api_state \<Rightarrow> api_state" where
  "without_task i s = s\<lparr>as_sys := (as_sys s)\<lparr>sy_tasks := mdel (sy_tasks (as_sys s)) i\<rparr>\<rparr>"

lemma without_task_simps [simp]:
  "as_buckets (without_task i s) = as_buckets s" "now_of ve (as_sys (without_task i s)) = now_of ve (as_sys s)"
  "on_sys next_tick (without_task i s\<lparr>as_buckets := bs\<rparr>) = without_task i (on_sys next_tick (s\<lparr>as_buckets := bs\<rparr>))"
  by (simp_all add: without_task_def now_of_def on_sys_def next_tick_def)

lemma show_task_hidden:
  assumes "mget (sy_tasks (as_sys s)) i = Some st" "hr_query r ''id'' = i" "\<not> may_read (signed_in r) st"
  shows "snd (on_reply (show_task ve r) (without_task i s)) = snd (on_reply (show_task ve r) s)"
    and "fst (on_reply (show_task ve r) s) = s \<or> fst (on_reply (show_task ve r) s) = on_sys next_tick s"
  using assms by (auto simp: on_reply_def show_task_def Let_def load_state_def without_task_def on_sys_def next_tick_def
      split: option.splits)

text \<open>
  someone who neither owns a task nor holds the oversight or audit function learns nothing of it
  from /task and changes nothing: the answer is the one given if the task did not exist, and its
  record, its one-shot result and the rest of the system stay as they were.
\<close>

theorem task_hidden_from_others:
  assumes "mget (sy_tasks (as_sys s)) i = Some st" "hr_query r ''id'' = i" "\<not> may_read (signed_in r) st"
    and "handle_task ap ve r s = (s', rep)"
  shows "snd (handle_task ap ve r (without_task i s)) = rep \<and> sy_tasks (as_sys s') = sy_tasks (as_sys s) \<and>
    sy_results (as_sys s') = sy_results (as_sys s) \<and> sy_trace (as_sys s') = sy_trace (as_sys s) \<and>
    sy_bus (as_sys s') = sy_bus (as_sys s)"
proof -
  obtain bs ok where rl: "acquire_rl (now_of ve (as_sys s)) (get_client_key r) (as_buckets s) = (bs, ok)" by fastforce
  let ?s1 = "on_sys next_tick (s\<lparr>as_buckets := bs\<rparr>)"
  have "mget (sy_tasks (as_sys ?s1)) i = Some st" using assms(1) by (simp add: on_sys_def next_tick_def)
  note h = show_task_hidden [OF this assms(2,3)]
  have "snd (handle_task ap ve r (without_task i s)) = snd (handle_task ap ve r s)"
    using h(1) [of ve] by (simp add: handle_task_def rate_limited_def rl Let_def)
  moreover have "fst (handle_task ap ve r s) \<in> {s, ?s1, on_sys next_tick ?s1}"
    using h(2) [of ve] by (auto simp: handle_task_def rate_limited_def rl Let_def)
  ultimately show ?thesis using assms(4) by (auto simp: on_sys_def next_tick_def)
qed

definition demo_request :: "string \<Rightarrow> string \<Rightarrow> (string \<times> string) list \<Rightarrow> identity option \<Rightarrow> http_request" where
  "demo_request method path query idn = \<lparr>hr_method = method, hr_path = path, hr_header = (\<lambda>_. ''''),
     hr_query = (\<lambda>k. case map_of query k of None \<Rightarrow> '''' | Some v \<Rightarrow> v), hr_remote = ''10.0.0.1:80'', hr_body = BodyNoJson,
     hr_identity = idn\<rparr>"

definition demo_api :: api where
  "demo_api = \<lparr>ap_dev_login = False, ap_deterministic = False, ap_key = '''', ap_gov = None,
     ap_hmac = (\<lambda>k t b. k @ t @ b), ap_sign = (\<lambda>_ _. Inr ''token'')\<rparr>"

definition person :: "string \<Rightarrow> string list \<Rightarrow> identity" where
  "person user fs = \<lparr>idn_user = user, idn_roles = [], idn_email = '''', idn_source = ''jwt'', idn_functions = fs\<rparr>"

definition ana_task :: exec_state where
  "ana_task = zero_exec\<lparr>es_id := ''t1'', es_user := ''ana'', es_gate := ''review'', es_status := ''''\<rparr>"

lemma task_hidden_from_others_witness:
  "snd (handle_task demo_api (demo_env (demo_cfg [] []) (\<lambda>_ _ _ _. Inr [])) (demo_request ''GET'' ''/task'' [(''id'', ''t1'')]
     (Some (person ''bob'' []))) \<lparr>as_buckets = [], as_sys = demo_sys [(''t1'', ana_task)]\<rparr>) = HttpError 404 ''task not found''"
proof -
  let ?ve = "demo_env (demo_cfg [] []) (\<lambda>_ _ _ _. Inr [])"
  let ?r = "demo_request ''GET'' ''/task'' [(''id'', ''t1'')] (Some (person ''bob'' []))"
  let ?s = "\<lparr>as_buckets = [], as_sys = demo_sys [(''t1'', ana_task)]\<rparr>"
  obtain s' rep where h: "handle_task demo_api ?ve ?r ?s = (s', rep)" by fastforce
  have 1: "mget (sy_tasks (as_sys ?s)) ''t1'' = Some ana_task" by (simp add: demo_sys_def)
  have 2: "hr_query ?r ''id'' = ''t1''" by (simp add: demo_request_def)
  have 3: "\<not> may_read (signed_in ?r) ana_task"
    by (simp add: may_read_def signed_in_def demo_request_def person_def ana_task_def zero_exec_def holds_any_def)
  have "snd (handle_task demo_api ?ve ?r (without_task ''t1'' ?s)) = HttpError 404 ''task not found''" by code_simp
  with task_hidden_from_others [OF 1 2 3 h] h show ?thesis by simp
qed

lemma load_state_Some: "load_state ve i sy = (sy1, Inr (Some st)) \<longleftrightarrow>
    sy1 = next_tick sy \<and> we_load ve (sy_tick sy) = None \<and> mget (sy_tasks sy) i = Some st"
  by (auto simp: load_state_def split: option.splits)

lemma require_task_access_Inr:
  "require_task_access ve r i functions sy = (sy1, Inr (d, st)) \<longleftrightarrow>
    signed_in r = Some d \<and> load_state ve i sy = (sy1, Inr (Some st)) \<and> may_access d functions st"
  by (auto simp: require_task_access_def split: option.splits sum.splits prod.splits if_splits)

lemma signed_in_Some: "signed_in r = Some d \<longleftrightarrow> hr_identity r = Some d \<and> idn_user d \<noteq> ''''"
  by (auto simp: signed_in_def split: option.splits)

lemma require_task_access_trace: "require_task_access ve r i functions sy = (sy1, x) \<Longrightarrow> sy_trace sy1 = sy_trace sy"
  by (auto simp: require_task_access_def load_state_def split: option.splits sum.splits prod.splits if_splits)

text \<open>
  a decision at a human gate only reaches the verifier from a signed-in person who owns the task
  or holds the oversight function, while the task's record waits at exactly the gate the person
  named; where the governance model keeps ai.use and oversight apart, the person is not the owner.
  The message names the person, and a clarification is never decided this way.
\<close>

lemma decision_sent:
  assumes "handle_human_decision_request ap ve decision r sy = (sy', rep)"
    and "sy_trace sy' = sy_trace sy @ es" "ESend target m \<in> set es"
  shows "\<exists>d st. hr_identity r = Some d \<and> idn_user d \<noteq> '''' \<and> mget (sy_tasks sy) (hr_query r ''id'') = Some st \<and>
    es_gate st = hr_query r ''gate'' \<and> es_gate st \<notin> {'''', ''clarification''} \<and>
    (es_user st = idn_user d \<or> ''oversight'' \<in> set (idn_functions d)) \<and>
    (incompatible (ap_gov ap) ''ai.use'' ''oversight'' \<longrightarrow> es_user st \<noteq> idn_user d) \<and>
    target = ''verifier'' \<and> m = \<lparr>ms_type = ''human_decision'', ms_payload =
      decision_payload (hr_query r ''id'') (hr_query r ''gate'') decision (idn_user d)\<rparr> \<and>
    es = [EEvent (hr_query r ''id'') ''UI'' ''human_decision'' decision, ESend target m]"
proof -
  let ?i = "hr_query r ''id''" and ?g = "hr_query r ''gate''"
  have q: "hr_method r = ''POST''" "valid_id ?i" "?g \<noteq> ''''" "?g \<noteq> ''clarification''"
    using assms by (auto simp: handle_human_decision_request_def Let_def split: if_splits)
  obtain sy1 x where a: "require_task_access ve r ?i [''oversight''] sy = (sy1, x)" by fastforce
  note tr = require_task_access_trace [OF a]
  have "\<exists>d st. x = Inr (d, st)" using assms a q tr
    by (cases x) (auto simp: handle_human_decision_request_def Let_def split: if_splits)
  then obtain d st where x: "x = Inr (d, st)" by blast
  with a have acc: "signed_in r = Some d" "load_state ve ?i sy = (sy1, Inr (Some st))" "may_access d [''oversight''] st"
    by (simp_all add: require_task_access_Inr)
  have n: "\<not> (idn_user d = es_user st \<and> incompatible (ap_gov ap) ''ai.use'' ''oversight'')" "es_gate st = ?g"
    using assms a x q tr by (auto simp: handle_human_decision_request_def Let_def split: if_splits)
  have res: "es = [EEvent ?i ''UI'' ''human_decision'' decision, ESend ''verifier'' \<lparr>ms_type = ''human_decision'',
      ms_payload = decision_payload ?i ?g decision (idn_user d)\<rparr>]"
    using assms a x q tr n by (auto simp: handle_human_decision_request_def Let_def split: if_splits)
  with assms(3) have "target = ''verifier'' \<and> m = \<lparr>ms_type = ''human_decision'', ms_payload = decision_payload ?i ?g decision (idn_user d)\<rparr>"
    by auto
  with res n acc q(3,4) show ?thesis
    by (intro exI [of _ d] exI [of _ st]) (auto simp: signed_in_Some load_state_Some may_access_def holds_any_def)
qed

definition review_sys :: sys where "review_sys = demo_sys [(''t1'', ana_task)]"

text \<open>
  the list of tasks shows a signed-in person their own ones, and all of them to someone with the
  oversight or audit function; no entry carries the token of a callback or a parameter with callback
  credentials, and nothing else of a record is changed.
\<close>

theorem listing_own_without_credentials:
  assumes "handle_list_tasks ve r sy = (sy', HttpTasks ts)"
  shows "\<exists>d. hr_identity r = Some d \<and> idn_user d \<noteq> '''' \<and>
    set ts = task_view ` {st \<in> snd ` set (sy_tasks sy). es_user st = idn_user d \<or>
      ''oversight'' \<in> set (idn_functions d) \<or> ''audit'' \<in> set (idn_functions d)} \<and>
    list_all (\<lambda>t. es_cb_token t = '''' \<and> (\<exists>ps. es_params t = Some ps \<and> list_all (\<lambda>(k, v). \<not> credential_param k) ps)) ts"
proof -
  from assms obtain d where d: "signed_in r = Some d"
    "ts = map task_view (filter (\<lambda>st. holds_any d [''oversight'', ''audit''] \<or> es_user st = idn_user d)
      (exchange_sort (map snd (sy_tasks sy))))"
    by (auto simp: handle_list_tasks_def list_states_def split: if_splits option.splits)
  then have "set ts = task_view ` {st \<in> snd ` set (sy_tasks sy). es_user st = idn_user d \<or>
      ''oversight'' \<in> set (idn_functions d) \<or> ''audit'' \<in> set (idn_functions d)}"
    by (auto simp: exchange_sort_set holds_any_def)
  moreover have "list_all (\<lambda>t. es_cb_token t = '''' \<and> (\<exists>ps. es_params t = Some ps \<and> list_all (\<lambda>(k, v). \<not> credential_param k) ps)) ts"
    by (auto simp: d(2) task_view_def list_all_iff)
  ultimately show ?thesis using d(1) by (auto simp: signed_in_Some)
qed

lemma listing_own_without_credentials_witness:
  "\<exists>ts d. handle_list_tasks (demo_env (demo_cfg [] []) (\<lambda>_ _ _ _. Inr []))
      (demo_request ''GET'' ''/api/v1/tasks'' [] (Some (person ''ana'' []))) review_sys = (next_tick review_sys, HttpTasks ts) \<and>
    hr_identity (demo_request ''GET'' ''/api/v1/tasks'' [] (Some (person ''ana'' []))) = Some d \<and> idn_user d \<noteq> ''''"
proof -
  let ?ve = "demo_env (demo_cfg [] []) (\<lambda>_ _ _ _. Inr [])"
  let ?r = "demo_request ''GET'' ''/api/v1/tasks'' [] (Some (person ''ana'' []))"
  have "\<exists>ts. handle_list_tasks ?ve ?r review_sys = (next_tick review_sys, HttpTasks ts)"
    by (simp add: handle_list_tasks_def demo_request_def signed_in_def person_def list_states_def demo_env_def)
  then obtain ts where h: "handle_list_tasks ?ve ?r review_sys = (next_tick review_sys, HttpTasks ts)" by blast
  with listing_own_without_credentials [OF h] show ?thesis by blast
qed

subsection \<open>Callbacks\<close>

lemma find_waiting_Some:
  "find_waiting ve token sts sy = (sy', Some st) \<Longrightarrow> st \<in> set sts \<and> es_cb_token st = token \<and> es_gate st = ''await_callback'' \<and>
    (\<exists>n. case es_deadline st of None \<Rightarrow> True | Some d \<Rightarrow> we_now ve n < d)"
  by (induction sts arbitrary: sy) (auto simp: Let_def waits_for_def now_of_def split: if_splits)

lemma find_waiting_sys:
  "find_waiting ve token sts sy = (sy', r) \<Longrightarrow> sy_trace sy' = sy_trace sy \<and> sy_tasks sy' = sy_tasks sy \<and>
    sy_bus sy' = sy_bus sy \<and> sy_results sy' = sy_results sy"
  by (induction sts arbitrary: sy) (auto simp: Let_def next_tick_def split: if_splits)

text \<open>The signature that a step with a secret asks for: over exactly the bytes of the body.\<close>

definition signed_by_provider :: "api \<Rightarrow> env \<Rightarrow> http_request \<Rightarrow> exec_state \<Rightarrow> bool" where
  "signed_by_provider ap ve r st \<longleftrightarrow>
    (\<forall>step. await_step (we_cfg ve) st = Some step \<longrightarrow> ps_callback_secret_env step \<noteq> '''' \<longrightarrow>
      (\<exists>seconds n. we_getenv ve (ps_callback_secret_env step) \<noteq> '''' \<and>
        atoi (hr_header r ''X-AOS-Callback-Timestamp'') = Some seconds \<and>
        \<bar>we_now ve n - time_unix seconds\<bar> \<le> callback_clock_skew \<and>
        hr_header r ''X-AOS-Callback-Signature'' = provider_signature ap (we_getenv ve (ps_callback_secret_env step))
          (hr_header r ''X-AOS-Callback-Timestamp'') (raw_body (hr_body r))))"

lemma verify_signature_None:
  "verify_callback_signature ap ve r st (raw_body (hr_body r)) (now_of ve sy) = None \<Longrightarrow> signed_by_provider ap ve r st"
  unfolding signed_by_provider_def
  by (intro allI impI exI [of _ "the (atoi (hr_header r ''X-AOS-Callback-Timestamp''))"] exI [of _ "sy_tick sy"])
    (auto simp: verify_callback_signature_def Let_def now_of_def split: option.splits if_splits)

lemma accept_callback_sends:
  assumes "accept_callback ve token data st sy = (sy', rep)" "sy_trace sy' = sy_trace sy @ es" "ESend target m \<in> set es"
  shows "target = ''verifier'' \<and>
    (\<exists>kept. m = \<lparr>ms_type = ''callback_received'', ms_payload = callback_payload token kept\<rparr> \<and>
      (if es_cb_data st \<noteq> None then kept = es_cb_data st \<and> sy_tasks sy' = sy_tasks sy
       else kept = data \<and> (\<exists>t t'. mget (sy_tasks sy') (es_id st) = Some (exec_norm (stamp_created t' (received_state data t st))))))"
proof (cases "es_cb_data st")
  case None
  obtain sy1 st1 err where s: "save_state ve (received_state data (now_of ve sy) st) (next_tick sy) = (sy1, st1, err)"
    using prod_cases3 by blast
  have e: "err = None" and sy': "sy' = send_msg ''verifier'' ''callback_received'' (callback_payload token data)
      (event (es_id st) ''API'' ''callback_received'' ''Callback received'' sy1)"
    using assms None s
    by (auto simp: accept_callback_def save_state_def Let_def split: option.splits if_splits)
  from s [unfolded e] have m: "mget (sy_tasks sy1) (es_id st) = Some (exec_norm (stamp_created (now_of ve (next_tick sy)) (received_state data (now_of ve sy) st)))"
    "sy_trace sy1 = sy_trace sy @ [ESave (stamp_created (now_of ve (next_tick sy)) (received_state data (now_of ve sy) st))]"
    by (auto simp: save_state_def Let_def emit_def next_tick_def stamp_created_def received_state_def update_conv'
        split: option.splits if_splits)
  have "sy_tasks sy' = sy_tasks sy1" by (simp add: sy' send_msg_def event_def emit_def Let_def)
  with assms(2,3) None m show ?thesis by (auto simp: sy')
next
  case (Some kept)
  with assms show ?thesis by (auto simp: accept_callback_def send_msg_def emit_def Let_def)
qed

text \<open>
  C17: the answer of a provider only reaches the verifier for a task that waits for the token of the
  address, before its deadline, and, where the waiting step names a secret, with a fresh timestamp
  and a signature over exactly the bytes received. What the verifier gets is what the task's record
  holds: the answer recorded before, if there is one, or else this one, recorded first.
\<close>

theorem callback_authentic_and_recorded:
  assumes "handle_callback_request ap ve r sy = (sy', rep)"
    and "sy_trace sy' = sy_trace sy @ es" "ESend target m \<in> set es"
  shows "\<exists>st kept. st \<in> snd ` set (sy_tasks sy) \<and> es_cb_token st = trim_prefix (hr_path r) ''/api/v1/callbacks/'' \<and>
    es_cb_token st \<noteq> '''' \<and> es_gate st = ''await_callback'' \<and>
    (\<exists>n. case es_deadline st of None \<Rightarrow> True | Some d \<Rightarrow> we_now ve n < d) \<and> signed_by_provider ap ve r st \<and>
    target = ''verifier'' \<and> m = \<lparr>ms_type = ''callback_received'', ms_payload = callback_payload (es_cb_token st) kept\<rparr> \<and>
    (if es_cb_data st \<noteq> None then kept = es_cb_data st
     else callback_data (hr_body r) = Some kept \<and>
       (\<exists>t t'. mget (sy_tasks sy') (es_id st) = Some (exec_norm (stamp_created t' (received_state kept t st)))))"
proof -
  let ?token = "trim_prefix (hr_path r) ''/api/v1/callbacks/''"
  have tr: "sy_trace sy' \<noteq> sy_trace sy" using assms(2,3) by auto
  obtain sy1 l where ls: "list_states ve sy = (sy1, l)" by fastforce
  have l1: "sy_trace sy1 = sy_trace sy" "sy_tasks sy1 = sy_tasks sy"
    using ls by (auto simp: list_states_def next_tick_def)
  obtain data sts where d: "callback_data (hr_body r) = Some data" "l = Inr sts" "?token \<noteq> ''''"
    using assms(1) tr ls l1 by (auto simp: handle_callback_request_def Let_def split: if_splits option.splits sum.splits)
  obtain sy2 f where fw: "find_waiting ve ?token sts sy1 = (sy2, f)" by fastforce
  note f2 = find_waiting_sys [OF fw]
  have "f \<noteq> None \<and> verify_callback_signature ap ve r (the f) (raw_body (hr_body r)) (now_of ve sy2) = None"
    using assms(1) tr ls l1 d fw f2
    by (auto simp: handle_callback_request_def Let_def split: if_splits option.splits)
  then obtain st where st: "f = Some st" "verify_callback_signature ap ve r st (raw_body (hr_body r)) (now_of ve sy2) = None"
    by auto
  have acc: "accept_callback ve ?token data st (next_tick sy2) = (sy', rep)"
    using assms(1) tr ls l1 d fw f2 st by (auto simp: handle_callback_request_def Let_def split: if_splits)
  have "sy_trace sy' = sy_trace (next_tick sy2) @ es" using assms(2) f2 l1 by simp
  note sends = accept_callback_sends [OF acc this assms(3)]
  from fw st have w: "st \<in> set sts" "es_cb_token st = ?token" "es_gate st = ''await_callback''"
    "\<exists>n. case es_deadline st of None \<Rightarrow> True | Some d \<Rightarrow> we_now ve n < d" by (auto dest: find_waiting_Some)
  moreover have "set sts = snd ` set (sy_tasks sy)"
    using ls d(2) by (auto simp: list_states_def exchange_sort_set image_iff split: option.splits) force+
  ultimately show ?thesis
    using sends d verify_signature_None [OF st(2)] by (intro exI [of _ st]) (auto split: if_splits; blast)
qed

text \<open>A task that waits for a signed answer of the step \<open>scan\<close>.\<close>

definition signed_cfg :: config where
  "signed_cfg = demo_cfg [] [zero_pipeline\<lparr>pl_name := ''p'',
     pl_steps := [zero_step\<lparr>ps_id := ''scan'', ps_type := ''await_callback'', ps_callback_secret_env := ''KEY''\<rparr>]\<rparr>]"

definition signed_env :: env where
  "signed_env = (demo_env signed_cfg (\<lambda>_ _ _ _. Inr []))\<lparr>we_getenv := (\<lambda>k. if k = ''KEY'' then ''k'' else ''''),
     we_now := (\<lambda>n. time_unix 100 + int n)\<rparr>"

definition waiting_task :: exec_state where
  "waiting_task = zero_exec\<lparr>es_id := ''t1'', es_user := ''ana'', es_pipeline := ''p'', es_gate := ''await_callback'',
     es_cb_token := ''tok'', es_await_step := ''scan'', es_status := ''await_callback'', es_created := 1\<rparr>"

definition signed_request :: "string \<Rightarrow> http_request" where
  "signed_request sig = (demo_request ''POST'' ''/api/v1/callbacks/tok'' [] None)\<lparr>
     hr_header := (\<lambda>k. if k = ''X-AOS-Callback-Timestamp'' then ''100''
       else if k = ''X-AOS-Callback-Signature'' then sig else ''''),
     hr_body := BodyJson (GObj [(''ok'', GBool True)]) ''b''\<rparr>"

lemma callback_authentic_and_recorded_witness:
  "signed_by_provider demo_api signed_env (signed_request ''sha256=k100b'') waiting_task"
proof -
  let ?sy = "demo_sys [(''t1'', waiting_task)]"
  let ?h = "handle_callback_request demo_api signed_env (signed_request ''sha256=k100b'') ?sy"
  let ?m = "\<lparr>ms_type = ''callback_received'', ms_payload = callback_payload ''tok'' (Some [(''ok'', GBool True)])\<rparr>"
  obtain sy' rep where h: "?h = (sy', rep)" by fastforce
  have last: "last (sy_trace (fst ?h)) = ESend ''verifier'' ?m \<and> sy_trace (fst ?h) \<noteq> []" by code_simp
  with h have l: "last (sy_trace sy') = ESend ''verifier'' ?m" "sy_trace sy' \<noteq> []" by simp_all
  have "sy_trace sy' = sy_trace ?sy @ sy_trace sy'" by (simp add: demo_sys_def)
  moreover have "ESend ''verifier'' ?m \<in> set (sy_trace sy')" using l last_in_set by metis
  ultimately obtain st where "st \<in> snd ` set (sy_tasks ?sy)" "signed_by_provider demo_api signed_env (signed_request ''sha256=k100b'') st"
    using callback_authentic_and_recorded [OF h] by blast
  then show ?thesis by (simp add: demo_sys_def)
qed

end
