(* ===== verification/Analyst_Model.thy ===== *)
theory Analyst_Model
  imports Exec_Linear Llm_Model
begin

text \<open>
  The inspector (agent/inspector.go), which passes a new task on to the planner, and the analyst
  (agent/analyst.go), which closes a run: it writes the summary, the final record, the memory of the
  run and its result.
\<close>

subsection \<open>The inspector\<close>

definition opt_entry :: "bool \<Rightarrow> string \<Rightarrow> pval \<Rightarrow> pval gomap" where
  "opt_entry present k v = (if present then [(k, v)] else [])"

definition forward_payload :: "string \<Rightarrow> string \<Rightarrow> pval gomap \<Rightarrow> pval gomap" where
  "forward_payload i mode pay =
    [(''id'', PS i), (''message'', case mget pay ''message'' of None \<Rightarrow> PVal GNil | Some v \<Rightarrow> v), (''mode'', PS mode),
     (''lang'', PS (get_string0 pay ''lang''))] @
    opt_entry (get_string0 pay ''session_id'' \<noteq> '''') ''session_id'' (PS (get_string0 pay ''session_id'')) @
    opt_entry (get_string0 pay ''operation'' \<noteq> '''') ''operation'' (PS (get_string0 pay ''operation'')) @
    (case get_map_any pay ''params'' of None \<Rightarrow> [] | Some m \<Rightarrow> [(''params'', PVal (GObj m))]) @
    (case mget pay ''identity'' of None \<Rightarrow> [] | Some v \<Rightarrow> opt_entry (v \<noteq> PVal GNil) ''identity'' v)"

definition inspector_dispatch :: "message \<Rightarrow> sys \<Rightarrow> sys" where
  "inspector_dispatch msg sy =
    (let pay = ms_payload msg in
     if ms_type msg \<noteq> ''new_task'' then sy
     else (case get_string pay ''id'' of None \<Rightarrow> sy
       | Some i \<Rightarrow> (let sy1 = event i ''Inspector'' ''started'' ''Pipeline started'' sy in
           case get_string pay ''mode'' of None \<Rightarrow> sy1
           | Some mode \<Rightarrow> send_msg ''planner'' ''detect_intent'' (forward_payload i mode pay) sy1)))"

subsection \<open>The steps a snapshot names\<close>

text \<open>
  Of a recorded snapshot the analyst reads the id, the tool and the analyst mark of each step. The
  snapshot was written by \<open>BuildPipelineSnapshot\<close>; decoding it fails where a definition was redacted
  as a whole, because the name of the tool or agent looks like a secret.
\<close>

fun is_obj :: "gval \<Rightarrow> bool" where
  "is_obj (GObj m) = True"
| "is_obj v = False"

definition all_objects :: "gval option \<Rightarrow> bool" where
  "all_objects v = (case v of None \<Rightarrow> True | Some GNil \<Rightarrow> True
     | Some (GObj m) \<Rightarrow> list_all (\<lambda>(k, x). is_obj x \<or> x = GNil) m | Some _ \<Rightarrow> False)"

definition decode_step :: "gval \<Rightarrow> pipeline_step" where
  "decode_step v = (case v of
     GObj m \<Rightarrow> zero_step\<lparr>ps_id := str_of m ''id'', ps_tool := str_of m ''tool'', ps_analyst := (mget m ''analyst'' = Some (GBool True))\<rparr>
   | _ \<Rightarrow> zero_step)"

definition decode_snapshot :: "gval \<Rightarrow> pipeline_step list option" where
  "decode_snapshot v = (case v of
     GObj m \<Rightarrow> if \<not> all_objects (mget m ''tools'') \<or> \<not> all_objects (mget m ''agents'') then None
       else (case mget m ''pipeline'' of
           Some (GObj p) \<Rightarrow> (case as_list (mget p ''Steps'') of None \<Rightarrow> Some [] | Some xs \<Rightarrow> Some (map decode_step xs))
         | _ \<Rightarrow> Some [])
   | _ \<Rightarrow> None)"

text \<open>Up to the analyst's own step.\<close>

definition snapshot_steps :: "gval \<Rightarrow> pipeline_step list" where
  "snapshot_steps v = (case decode_snapshot v of None \<Rightarrow> [] | Some steps \<Rightarrow> takeWhile (\<lambda>s. \<not> ps_analyst s) steps)"

subsection \<open>Completion\<close>

record analyst =
  an_template :: "string \<Rightarrow> bool \<Rightarrow> string \<Rightarrow> gval \<Rightarrow> string"
  an_add :: "nat \<Rightarrow> string option"

definition completed_state :: "gval \<Rightarrow> string \<Rightarrow> string \<Rightarrow> exec_state \<Rightarrow> exec_state" where
  "completed_state raw summary pipeline st =
    (let steps = snapshot_steps (es_snapshot st) in
     st\<lparr>es_pipeline := (if es_pipeline st = '''' then pipeline else es_pipeline st),
       es_results := mput (es_results st) ''_pipeline''
         (GObj [(''raw'', raw), (''summary'', GStr summary), (''status'', GStr ''success'')]),
       es_status := ''completed'', es_error := '''', es_gate := '''', es_await_step := '''', es_deadline := None,
       es_cb_token := '''',
       es_completed := (if steps \<noteq> [] then linear_step_ids steps else es_completed st)\<rparr>)"

text \<open>\<open>persistCompletion\<close>; it returns the name of the pipeline.\<close>

definition persist_completion :: "env \<Rightarrow> string \<Rightarrow> string \<Rightarrow> string \<Rightarrow> string \<Rightarrow> gval \<Rightarrow> string \<Rightarrow> sys \<Rightarrow> sys \<times> string" where
  "persist_completion ve i session intent pipeline raw summary sy =
    (case load_state ve i sy of
       (sy1, Inl _) \<Rightarrow> (sy1, pipeline)
     | (sy1, Inr found) \<Rightarrow>
       (let st0 = (case found of Some st \<Rightarrow> st
              | None \<Rightarrow> zero_exec\<lparr>es_id := i, es_session := session, es_intent := intent, es_pipeline := pipeline\<rparr>);
            st = completed_state raw summary pipeline st0
        in (fst (save_state ve st sy1), es_pipeline st)))"

definition raw_value :: "pval gomap \<Rightarrow> gval" where
  "raw_value pay = (case get_map_any pay ''rawResult'' of None \<Rightarrow> GNil | Some m \<Rightarrow> GObj m)"

definition handle_complete :: "env \<Rightarrow> message \<Rightarrow> sys \<Rightarrow> sys" where
  "handle_complete ve msg sy =
    (let pay = ms_payload msg in
     case get_string pay ''id'' of None \<Rightarrow> sy
     | Some i \<Rightarrow> store_result i \<lparr>rs_status = ''completed'', rs_data = Some (GObj [(''raw'', raw_value pay)]), rs_err = ''''\<rparr>
         (fst (persist_completion ve i (get_string0 pay ''session_id'') (get_string0 pay ''intent'')
           (get_string0 pay ''pipeline'') (raw_value pay) '''' sy)))"

subsection \<open>Summaries\<close>

text \<open>The text to remember a run by.\<close>

definition memory_text :: "(f64 \<Rightarrow> string) \<Rightarrow> string \<Rightarrow> string \<Rightarrow> string \<Rightarrow> gval gomap \<Rightarrow> string" where
  "memory_text ff intent pipeline summary raw =
    ''Intent: '' @ intent @ nl @ ''Pipeline: '' @ pipeline @ nl @ ''Action Summary: '' @ summary @
    (let ft = facts_text (extract_facts ff raw) in if ft \<noteq> '''' then nl @ ''Facts:'' @ nl @ ft else '''')"

definition remember_run :: "analyst \<Rightarrow> env \<Rightarrow> string \<Rightarrow> string \<Rightarrow> string \<Rightarrow> string \<Rightarrow> string \<Rightarrow> gval gomap \<Rightarrow> sys \<Rightarrow> sys" where
  "remember_run an ve i session intent pipeline summary raw sy =
    (if session = '''' \<or> has_prefix intent ''system.'' \<or> has_prefix intent ''memory.'' then sy
     else (case (sy_memories sy, we_llm ve) of
         (Some ms, Some l) \<Rightarrow>
           (let txt = memory_text (we_ff ve) intent pipeline summary raw; sy1 = emit (EEmbed txt) (next_tick sy) in
            case lm_embed l (sy_tick sy) txt of Inl _ \<Rightarrow> sy1
            | Inr emb \<Rightarrow>
              (let m = \<lparr>me_id = we_uuid ve (sy_tick sy1), me_session = session, me_text = txt, me_embedding = emb,
                   me_metadata = [(''execution_id'', GStr i), (''intent'', GStr intent), (''pipeline'', GStr pipeline),
                     (''facts'', GObj (string_map_to_any (extract_facts (we_ff ve) raw)))], me_timestamp = now_of ve sy1\<rparr> in
               case an_add an (sy_tick sy1) of Some _ \<Rightarrow> next_tick sy1
               | None \<Rightarrow> emit (EMemory m) (next_tick (sy1\<lparr>sy_memories := Some (fst (mv_add m ms))\<rparr>))))
       | _ \<Rightarrow> sy))"

text \<open>The summary: a text, or none when the model or the operation did not give one.\<close>

definition ask_summary :: "analyst \<Rightarrow> env \<Rightarrow> string \<Rightarrow> string \<Rightarrow> string \<Rightarrow> gval gomap \<Rightarrow> sys \<Rightarrow> sys \<times> string option" where
  "ask_summary an ve llm_model lang intent raw sy =
    (case plan_summary (an_template an) intent raw lang of
       SumError _ \<Rightarrow> (sy, None)
     | SumText s \<Rightarrow> (sy, Some s)
     | SumAsk prompt \<Rightarrow> (case we_llm ve of None \<Rightarrow> (sy, None)
         | Some l \<Rightarrow> (emit (EChat prompt) (next_tick sy),
             case lm_chat l (sy_tick sy) (if lm_routable l then llm_model else '''') prompt of Inl _ \<Rightarrow> None | Inr s \<Rightarrow> Some s)))"

definition ok_result :: "gval gomap \<Rightarrow> result" where
  "ok_result raw = \<lparr>rs_status = ''ok'', rs_data = Some (GObj [(''raw'', GObj raw)]), rs_err = ''''\<rparr>"

definition summarize_run :: "analyst \<Rightarrow> env \<Rightarrow> string \<Rightarrow> pval gomap \<Rightarrow> gval gomap \<Rightarrow> sys \<Rightarrow> sys" where
  "summarize_run an ve i pay raw sy =
    (let intent = get_string0 pay ''intent''; pipeline = get_string0 pay ''pipeline''; session = get_string0 pay ''session_id'';
         lang = (if get_string0 pay ''language'' = '''' then ''es'' else get_string0 pay ''language'') in
     if we_llm ve = None \<and> \<not> has_prefix intent ''memory.''
     then store_result i (ok_result raw) (fst (persist_completion ve i session intent pipeline (GObj raw) '''' sy))
     else (case ask_summary an ve (get_string0 pay ''llm_model'') lang intent raw sy of
         (sy1, None) \<Rightarrow> store_result i (ok_result raw) (fst (persist_completion ve i session intent pipeline (GObj raw) '''' sy1))
       | (sy1, Some summary) \<Rightarrow>
         (let sy2 = event i ''Analyst'' ''completed'' ''Pipeline completed'' (event i ''Analyst'' ''summary'' summary sy1);
              (sy3, name) = persist_completion ve i session intent pipeline (GObj raw) summary sy2
          in store_result i \<lparr>rs_status = ''completed'', rs_data = Some (GObj [(''raw'', GObj raw), (''summary'', GStr summary)]),
               rs_err = ''''\<rparr> (remember_run an ve i session intent name summary raw sy3))))"

definition handle_summarize :: "analyst \<Rightarrow> env \<Rightarrow> message \<Rightarrow> sys \<Rightarrow> sys" where
  "handle_summarize an ve msg sy =
    (let pay = ms_payload msg in
     case get_string pay ''id'' of None \<Rightarrow> sy
     | Some i \<Rightarrow> (case get_map_any pay ''rawResult'' of
         None \<Rightarrow> store_result i (err_result ''invalid rawResult: expected map[string]any, got'') sy
       | Some raw \<Rightarrow>
         (let sy1 = event i ''Analyst'' ''summarizing'' ''Requesting final summary to LLM...'' sy;
              sy2 = (case get_task_context i sy1 of None \<Rightarrow> fst (new_task_context i sy1) | Some _ \<Rightarrow> sy1)
          in summarize_run an ve i pay raw sy2)))"

definition analyst_dispatch :: "analyst \<Rightarrow> env \<Rightarrow> message \<Rightarrow> sys \<Rightarrow> sys" where
  "analyst_dispatch an ve msg sy =
    (if ms_type msg = ''summarize'' then handle_summarize an ve msg sy
     else if ms_type msg = ''complete'' then handle_complete ve msg sy
     else sy)"

end
