(* ===== verification/Go_Path.thy ===== *)
theory Go_Path
  imports Go_Strings
begin

text \<open>
  Paths as Go's packages \<open>path\<close> and \<open>path/filepath\<close> treat them on Unix: text, split at slashes,
  with dots resolved by the text alone, never by the file system.
\<close>

abbreviation slash :: string where "slash \<equiv> ''/''"

definition comps :: "string \<Rightarrow> string list" where
  "comps p = split_char CHR ''/'' p"

definition is_abs :: "string \<Rightarrow> bool" where
  "is_abs p = has_prefix p slash"

subsection \<open>Clean\<close>

text \<open>The components kept so far, the last one first.\<close>

fun clean_push :: "bool \<Rightarrow> string \<Rightarrow> string list \<Rightarrow> string list" where
  "clean_push rooted c kept =
    (if c = '''' \<or> c = ''.'' then kept
     else if c = ''..'' then (case kept of
         [] \<Rightarrow> if rooted then [] else [''..'']
       | d # ds \<Rightarrow> if d = ''..'' then ''..'' # kept else ds)
     else c # kept)"

declare clean_push.simps [simp del]

definition clean_comps :: "bool \<Rightarrow> string list \<Rightarrow> string list" where
  "clean_comps rooted cs = rev (fold (clean_push rooted) cs [])"

definition path_clean :: "string \<Rightarrow> string" where
  "path_clean p = (let cs = clean_comps (is_abs p) (comps p) in
     if is_abs p then slash @ str_join slash cs
     else if cs = [] then ''.'' else str_join slash cs)"

definition path_join :: "string list \<Rightarrow> string" where
  "path_join elems = (let es = filter (\<lambda>e. e \<noteq> '''') elems in
     if es = [] then '''' else path_clean (str_join slash es))"

text \<open>\<open>Dir\<close>: everything up to the last slash, cleaned.\<close>

definition path_dir :: "string \<Rightarrow> string" where
  "path_dir p = path_clean (case last_index CHR ''/'' p of None \<Rightarrow> '''' | Some n \<Rightarrow> take (Suc n) p)"

text \<open>\<open>Rel\<close> between two absolute paths.\<close>

fun strip_common :: "string list \<Rightarrow> string list \<Rightarrow> string list \<times> string list" where
  "strip_common (a # as) (b # bs) = (if a = b then strip_common as bs else (a # as, b # bs))"
| "strip_common as bs = (as, bs)"

definition path_rel :: "string \<Rightarrow> string \<Rightarrow> string" where
  "path_rel base target =
    (case strip_common (clean_comps True (comps base)) (clean_comps True (comps target)) of
       (as, bs) \<Rightarrow> let r = map (\<lambda>_. ''..'') as @ bs in if r = [] then ''.'' else str_join slash r)"

text \<open>\<open>Abs\<close>, with the working directory.\<close>

definition path_abs :: "string \<Rightarrow> string \<Rightarrow> string" where
  "path_abs wd p = (if is_abs p then path_clean p else path_join [wd, p])"

subsection \<open>Clean absolute paths\<close>

definition plain_comp :: "string \<Rightarrow> bool" where
  "plain_comp c = (c \<noteq> '''' \<and> c \<noteq> ''.'' \<and> c \<noteq> ''..'' \<and> CHR ''/'' \<notin> set c)"

text \<open>A directory as the list of names from the root of the file system down.\<close>

definition abs_path :: "string list \<Rightarrow> string" where
  "abs_path cs = slash @ str_join slash cs"

lemma clean_push_rooted:
  "list_all plain_comp kept \<Longrightarrow> CHR ''/'' \<notin> set c \<Longrightarrow> list_all plain_comp (clean_push True c kept)"
  by (cases kept) (auto simp: clean_push.simps plain_comp_def)

lemma clean_fold_rooted:
  "list_all plain_comp kept \<Longrightarrow> \<forall>c \<in> set cs. CHR ''/'' \<notin> set c \<Longrightarrow> list_all plain_comp (fold (clean_push True) cs kept)"
  by (induction cs arbitrary: kept) (simp_all add: clean_push_rooted)

lemma comps_no_slash: "c \<in> set (comps p) \<Longrightarrow> CHR ''/'' \<notin> set c"
  by (simp add: comps_def split_char_no_sep)

lemma clean_comps_plain: "list_all plain_comp (clean_comps True (comps p))"
  by (simp add: clean_comps_def clean_fold_rooted comps_no_slash list_all_rev)

lemma path_clean_abs: "is_abs p \<Longrightarrow> path_clean p = abs_path (clean_comps True (comps p))"
  by (simp add: path_clean_def abs_path_def)

lemma path_clean_absE:
  assumes "is_abs p" obtains cs where "path_clean p = abs_path cs" "list_all plain_comp cs"
  using assms clean_comps_plain path_clean_abs by blast

lemma comps_abs_path: "list_all plain_comp cs \<Longrightarrow> comps (abs_path cs) = '''' # (if cs = [] then [''''] else cs)"
proof (cases "cs = []")
  case False
  assume "list_all plain_comp cs"
  then have "\<And>p. p \<in> set cs \<Longrightarrow> CHR ''/'' \<notin> set p" by (simp add: list_all_iff plain_comp_def)
  then show ?thesis using split_char_str_join [OF False, of "CHR ''/''"]
    by (simp add: abs_path_def comps_def False)
qed (simp add: abs_path_def comps_def)

lemma clean_fold_plain: "list_all plain_comp cs \<Longrightarrow> fold (clean_push r) cs kept = rev cs @ kept"
  by (induction cs arbitrary: kept) (simp_all add: clean_push.simps plain_comp_def)

lemma clean_comps_abs_path: "list_all plain_comp cs \<Longrightarrow> clean_comps True (comps (abs_path cs)) = cs"
  by (simp add: comps_abs_path clean_comps_def clean_fold_plain clean_push.simps)

lemma abs_path_inject:
  "list_all plain_comp cs \<Longrightarrow> list_all plain_comp ds \<Longrightarrow> abs_path cs = abs_path ds \<longleftrightarrow> cs = ds"
  by (metis clean_comps_abs_path)

lemma is_abs_abs_path [simp]: "is_abs (abs_path cs)"
  by (simp add: is_abs_def abs_path_def has_prefix_def)

lemma path_clean_abs_path [simp]: "list_all plain_comp cs \<Longrightarrow> path_clean (abs_path cs) = abs_path cs"
  by (simp add: path_clean_abs clean_comps_abs_path)

lemma str_join_append: "xs \<noteq> [] \<Longrightarrow> ys \<noteq> [] \<Longrightarrow> str_join sep (xs @ ys) = str_join sep xs @ sep @ str_join sep ys"
proof (induction sep xs rule: str_join.induct)
  case (2 sep x) then show ?case by (cases ys) auto
qed auto

lemma abs_path_append: "cs \<noteq> [] \<Longrightarrow> ds \<noteq> [] \<Longrightarrow> abs_path (cs @ ds) = abs_path cs @ abs_path ds"
  by (simp add: abs_path_def str_join_append)

subsection \<open>Below a directory\<close>

text \<open>The test the program makes on the text: the root itself, or the root and a slash as prefix.\<close>

definition under_text :: "string \<Rightarrow> string \<Rightarrow> bool" where
  "under_text dir p = (p = dir \<or> has_prefix p (dir @ slash))"

lemma split_char_mid: "split_char c (s @ c # t) = split_char c s @ split_char c t"
proof (induction s)
  case (Cons x s)
  then show ?case by (cases "split_char c s") (auto simp: split: list.splits)
qed simp

text \<open>On clean paths the test on the text is the prefix relation on the names.\<close>

lemma under_text_iff:
  assumes rs: "list_all plain_comp rs" "rs \<noteq> []" and cs: "list_all plain_comp cs"
  shows "under_text (abs_path rs) (abs_path cs) \<longleftrightarrow> (\<exists>ds. cs = rs @ ds)"
proof
  assume "under_text (abs_path rs) (abs_path cs)"
  then consider "abs_path cs = abs_path rs" | t where "abs_path cs = abs_path rs @ CHR ''/'' # t"
    unfolding under_text_def has_prefix_iff by auto
  then show "\<exists>ds. cs = rs @ ds"
  proof cases
    case 1 then show ?thesis using abs_path_inject [OF cs rs(1)] by simp
  next
    case 2
    then have "comps (abs_path cs) = '''' # rs @ comps t"
      using comps_abs_path [OF rs(1)] rs(2) by (simp add: comps_def split_char_mid)
    then have "rs @ comps t = (if cs = [] then [''''] else cs)" using comps_abs_path [OF cs] by simp
    moreover have "rs @ comps t \<noteq> ['''']" using rs(2) by (auto simp: append_eq_Cons_conv comps_def)
    ultimately show ?thesis by (auto split: if_splits)
  qed
next
  assume "\<exists>ds. cs = rs @ ds"
  then obtain ds where cs_eq: "cs = rs @ ds" by blast
  show "under_text (abs_path rs) (abs_path cs)"
  proof (cases "ds = []")
    case False
    then show ?thesis using abs_path_append [OF rs(2) False] by (auto simp: under_text_def cs_eq abs_path_def has_prefix_def)
  qed (simp add: cs_eq under_text_def)
qed

lemma under_text_root: "list_all plain_comp cs \<Longrightarrow> under_text slash (abs_path cs) \<longleftrightarrow> cs = []"
proof (cases cs)
  case (Cons c ds)
  assume "list_all plain_comp cs"
  then have "c \<noteq> ''''" "CHR ''/'' \<noteq> hd c" using Cons by (cases c; simp add: plain_comp_def)+
  then show ?thesis using Cons by (cases c; cases ds) (auto simp: under_text_def abs_path_def has_prefix_def)
qed (simp add: under_text_def abs_path_def)

lemma strip_common_same: "strip_common rs (rs @ ds) = ([], ds)"
  by (induction rs) (cases ds; simp)+

lemma path_rel_below:
  "list_all plain_comp rs \<Longrightarrow> list_all plain_comp (rs @ ds) \<Longrightarrow>
    path_rel (abs_path rs) (abs_path (rs @ ds)) = (if ds = [] then ''.'' else str_join slash ds)"
  by (simp add: path_rel_def clean_comps_abs_path strip_common_same)

lemma is_abs_Cons: "is_abs p \<longleftrightarrow> (\<exists>q. p = CHR ''/'' # q)"
  by (auto simp: is_abs_def has_prefix_iff)

lemma path_join_abs: "is_abs wd \<Longrightarrow> path_join [wd, p] = path_clean (if p = '''' then wd else wd @ slash @ p)"
  by (auto simp: path_join_def is_abs_Cons)

lemma path_abs_plain: "is_abs wd \<Longrightarrow> \<exists>cs. path_abs wd p = abs_path cs \<and> list_all plain_comp cs"
proof -
  assume wd: "is_abs wd"
  then have "is_abs (if p = '''' then wd else wd @ slash @ p)" by (auto simp: is_abs_Cons)
  then show ?thesis using path_join_abs [OF wd, of p] path_clean_absE unfolding path_abs_def by metis
qed

end
