(* ===== verification/Http_Model.thy ===== *)
theory Http_Model
  imports Api_Model Go_Path
begin

text \<open>
  The HTTP server around the API agent (app/http.go) and the routes of the application (app/app.go):
  middleware, the router of net/http, the settings of the language model and the access log. A path
  is given as its text without escapes, so the path and its escaped form agree. The random part of a
  request id, the clock and the authenticator's world are arguments.
\<close>

subsection \<open>Settings of the language model (app.go)\<close>

text \<open>The client the agents use: which provider, at which address, with which key and model.\<close>

datatype llm_client = NoClient | Gemini string | Ollama (oc_url: string) (oc_model: string) (oc_embed: string)
  | OpenAI (ai_url: string) (ai_key: string) (ai_model: string)

record settings =
  se_mode :: string
  se_engine :: string
  se_model :: string
  se_llm_url :: string
  se_llm_key :: string
  se_ollama_url :: string
  se_embed :: string
  se_client :: llm_client

definition is_deterministic :: "settings \<Rightarrow> bool" where
  "is_deterministic se = (se_mode se = ''deterministic'')"

definition new_gemini :: "(string \<Rightarrow> string) \<Rightarrow> string \<Rightarrow> string + llm_client" where
  "new_gemini getenv model = (if trim_space (getenv ''GEMINI_API_KEY'') = '''' then Inl ''GEMINI_API_KEY not set''
     else Inr (Gemini (if model = '''' then ''gemini-2.5-flash'' else model)))"

definition new_openai :: "string \<Rightarrow> string \<Rightarrow> string \<Rightarrow> llm_client" where
  "new_openai url key model = OpenAI (if url = '''' then ''https://api.openai.com/v1'' else url) key model"

text \<open>The client at the start (\<open>NewWithEnv\<close>).\<close>

definition initial_client :: "(string \<Rightarrow> string) \<Rightarrow> settings \<Rightarrow> string + llm_client" where
  "initial_client getenv se =
    (if is_deterministic se then Inr NoClient
     else if se_engine se = ''gemini'' then new_gemini getenv (se_model se)
     else if se_engine se = ''ollama'' then Inr (Ollama (se_ollama_url se) (se_model se) (se_embed se))
     else Inr (new_openai (se_llm_url se) (se_llm_key se) (se_model se)))"

text \<open>The client after a change (\<open>SetLLMClient\<close>); the settings follow it.\<close>

definition changed_client :: "(string \<Rightarrow> string) \<Rightarrow> string \<Rightarrow> string \<Rightarrow> string \<Rightarrow> settings \<Rightarrow> string + llm_client" where
  "changed_client getenv engine model url se =
    (if engine = ''gemini'' then new_gemini getenv model
     else if engine = ''ollama''
     then Inr (Ollama url model (if se_embed se \<noteq> '''' then se_embed se else ''nomic-embed-text''))
     else Inr (new_openai url '''' model))"

definition set_llm_client :: "(string \<Rightarrow> string) \<Rightarrow> string \<Rightarrow> string \<Rightarrow> string \<Rightarrow> settings \<Rightarrow> string + settings" where
  "set_llm_client getenv engine model url se =
    (if is_deterministic se then Inl ''deterministic execution mode has no LLM''
     else (case changed_client getenv engine model url se of Inl err \<Rightarrow> Inl err
       | Inr c \<Rightarrow> Inr (let se1 = se\<lparr>se_client := c, se_engine := engine, se_model := model\<rparr> in
           if engine = ''ollama'' then se1\<lparr>se_ollama_url := url\<rparr> else se1\<lparr>se_llm_url := url\<rparr>)))"

definition settings_view :: "settings \<Rightarrow> gval" where
  "settings_view se = GObj [(''engine'', GStr (se_engine se)), (''model'', GStr (se_model se)),
     (''baseUrl'', GStr (if se_engine se = ''ollama'' then se_ollama_url se else se_llm_url se))]"

definition decode_settings :: "http_body \<Rightarrow> (string \<times> string \<times> string) option" where
  "decode_settings b = (case body_fields b of None \<Rightarrow> None
     | Some m \<Rightarrow> (case (dec_str (mget m ''engine''), dec_str (mget m ''model''), dec_str (mget m ''baseUrl'')) of
         (Inr e, Inr mo, Inr u) \<Rightarrow> Some (e, mo, u) | _ \<Rightarrow> None))"

definition handle_settings_llm :: "(string \<Rightarrow> string) \<Rightarrow> http_request \<Rightarrow> settings \<Rightarrow> settings \<times> reply" where
  "handle_settings_llm getenv r se =
    (case signed_in r of None \<Rightarrow> (se, HttpError 401 ''identity required'')
     | Some d \<Rightarrow>
       if hr_method r = ''POST'' \<and> \<not> has_function (Some d) ''platform.admin''
       then (se, HttpError 403 ''platform.admin required'')
       else if hr_method r = ''GET'' then (se, HttpJson 200 (settings_view se))
       else if hr_method r = ''POST''
       then (case decode_settings (hr_body r) of None \<Rightarrow> (se, HttpError 400 ''Invalid request body'')
         | Some (engine, model, url) \<Rightarrow> (case set_llm_client getenv engine model url se of
             Inl err \<Rightarrow> (se, HttpError 500 err)
           | Inr se1 \<Rightarrow> (se1, HttpJson 200 (GObj [(''status'', GStr ''ok'')]))))
       else (se, HttpError 405 ''Method not allowed''))"

subsection \<open>Route labels and the access log\<close>

definition segment_char :: "char \<Rightarrow> bool" where
  "segment_char c = (is_alpha c \<or> is_digit c \<or> c = CHR ''_'' \<or> c = CHR ''-'')"

definition is_id :: "string \<Rightarrow> bool" where
  "is_id segment = (segment \<noteq> '''' \<and> list_all segment_char segment \<and>
     (list_all is_digit segment \<or> (16 \<le> length segment \<and> list_ex is_digit segment)))"

definition callback_prefix :: string where "callback_prefix = ''/api/v1/callbacks/''"

definition route_label :: "string \<Rightarrow> string" where
  "route_label p = (if has_prefix p callback_prefix then ''/api/v1/callbacks/{token}''
     else str_join slash (map (\<lambda>s. if is_id s then ''{id}'' else s) (comps p)))"

definition outcome_of :: "int \<Rightarrow> string" where
  "outcome_of status = (if status \<ge> 500 then ''failure'' else ''success'')"

definition remote_host :: "string \<Rightarrow> string" where
  "remote_host a = (case last_index CHR '':'' a of Some (Suc n) \<Rightarrow> take (Suc n) a | _ \<Rightarrow> a)"

definition sanitize_user_agent :: "string \<Rightarrow> string" where
  "sanitize_user_agent ua = take 200 (trim_space ua)"

text \<open>Both spellings of the correlation header name the same header.\<close>

definition request_and_correlation_id :: "string \<Rightarrow> http_request \<Rightarrow> string \<times> string" where
  "request_and_correlation_id generated r =
    ((if hr_header r ''X-Request-Id'' = '''' then generated else hr_header r ''X-Request-Id''), hr_header r ''X-Correlation-Id'')"

definition noisy :: "string \<Rightarrow> bool" where
  "noisy p = (p = ''/ui/task/events'' \<or> p = ''/task'' \<or> has_prefix p ''/health/'')"

text \<open>What is recorded of a request: the labels of its metrics, and the fields of its log line.\<close>

record access =
  ac_method :: string
  ac_route :: string
  ac_status :: int

datatype access_record = HttpMetric access
  | AccessLog access (al_outcome: string) (al_ids: "string \<times> string") (al_client: string) (al_agent: string)

text \<open>The status of a reply; that of an answer given after the wait for a result is an argument.\<close>

definition reply_status :: "int \<Rightarrow> reply \<Rightarrow> int" where
  "reply_status waited rep = (case rep of HttpError c _ \<Rightarrow> c | HttpJson c _ \<Rightarrow> c | HttpStatus c \<Rightarrow> c
     | HttpWait _ \<Rightarrow> waited | _ \<Rightarrow> 200)"

definition access_records :: "string \<Rightarrow> http_request \<Rightarrow> int \<Rightarrow> access_record list" where
  "access_records generated r status =
    (let a = \<lparr>ac_method = hr_method r, ac_route = route_label (hr_path r), ac_status = status\<rparr> in
     HttpMetric a # (if noisy (hr_path r) then []
       else [AccessLog a (outcome_of status) (request_and_correlation_id generated r)
         (remote_host (hr_remote r)) (sanitize_user_agent (hr_header r ''User-Agent''))]))"

definition span_name :: "http_request \<Rightarrow> string option" where
  "span_name r = (if has_prefix (hr_path r) ''/health/'' \<or> hr_path r = ''/metrics'' \<or> hr_path r = ''/ui/task/events'' \<or>
       hr_path r = ''/task'' then None
     else Some (hr_method r @ '' '' @ route_label (hr_path r)))"

subsection \<open>The router\<close>

text \<open>
  \<open>http.ServeMux\<close>: a path that is not clean is redirected to its clean form, unless the method is
  CONNECT, and one that only lacks the slash of a registered subtree to that subtree.
\<close>

definition clean_url_path :: "string \<Rightarrow> string" where
  "clean_url_path p0 =
    (if p0 = '''' then slash
     else (let p = (if is_abs p0 then p0 else slash @ p0); np = path_clean p in
       if last p = CHR ''/'' \<and> np \<noteq> slash then np @ slash else np))"

definition mux_redirects :: "http_request \<Rightarrow> bool" where
  "mux_redirects r = (hr_path r @ slash = callback_prefix \<or>
     (hr_method r \<noteq> ''CONNECT'' \<and> (clean_url_path (hr_path r) \<noteq> hr_path r)))"

record 'k server =
  sv_api :: api_state
  sv_jwks :: "'k jwks_cache"
  sv_settings :: settings
  sv_log :: "access_record list"

text \<open>The world of one request, and what the deployment fixed.\<close>

record 'k http_world =
  hw_api :: api
  hw_env :: env
  hw_auth :: "'k auth_env"
  hw_jwt :: jwt_config
  hw_memory_failure :: "string option"
  hw_ready :: reply
  hw_metrics :: reply
  hw_pipelines :: reply
  hw_request_id :: string
  hw_waited :: int
  hw_tls :: bool

definition mux_serve :: "'k http_world \<Rightarrow> http_request \<Rightarrow> 'k server \<Rightarrow> 'k server \<times> reply" where
  "mux_serve w r sv =
    (let p = hr_path r in
     if mux_redirects r then (sv, HttpStatus 301)
     else if p = ''/ui/pipelines''
     then (sv, if hr_method r \<noteq> ''GET'' then HttpError 405 ''Method not allowed'' else hw_pipelines w)
     else if p = ''/ui/settings/llm''
     then (case handle_settings_llm (we_getenv (hw_env w)) r (sv_settings sv) of
         (se, rep) \<Rightarrow> (sv\<lparr>sv_settings := se\<rparr>, rep))
     else if p = ''/health/live'' then (sv, HttpJson 200 (GObj [(''status'', GStr ''ok'')]))
     else if p = ''/health/ready'' then (sv, hw_ready w)
     else if p = ''/metrics'' then (sv, hw_metrics w)
     else (case api_route (hw_api w) (hw_env w) (hw_memory_failure w) r (sv_api sv) of
         (s, rep) \<Rightarrow> (sv\<lparr>sv_api := s\<rparr>, rep)))"

subsection \<open>Middleware\<close>

definition auth_exempt :: "string \<Rightarrow> bool" where
  "auth_exempt p = (has_prefix p ''/health'' \<or> p = ''/metrics'' \<or> p = ''/auth/login'' \<or> has_prefix p callback_prefix)"

definition auth_request_of :: "http_request \<Rightarrow> auth_request" where
  "auth_request_of r = \<lparr>rq_authorization = hr_header r ''Authorization'', rq_mock_role = hr_header r ''X-Mock-Role'',
     rq_api_key = hr_header r ''X-API-Key''\<rparr>"

text \<open>The context of an incoming request has no identity; the middleware puts in the one it checked.\<close>

definition authenticated :: "'k http_world \<Rightarrow> http_request \<Rightarrow> 'k server \<Rightarrow> 'k server \<times> reply" where
  "authenticated w r0 sv =
    (let r = r0\<lparr>hr_identity := None\<rparr> in
     if auth_exempt (hr_path r) then mux_serve w r sv
     else (case jwt_authenticate (hw_auth w) (hw_jwt w) (auth_request_of r) (sv_jwks sv) of
         (c, Inl (AuthError code m)) \<Rightarrow> (sv\<lparr>sv_jwks := c\<rparr>, HttpError code m)
       | (c, Inl (PlainError m)) \<Rightarrow> (sv\<lparr>sv_jwks := c\<rparr>, HttpError 401 m)
       | (c, Inr d) \<Rightarrow> mux_serve w (r\<lparr>hr_identity := Some d\<rparr>) (sv\<lparr>sv_jwks := c\<rparr>)))"

text \<open>A response: its headers and the reply.\<close>

record response =
  hp_headers :: "string gomap"
  hp_reply :: reply

definition put_headers :: "(string \<times> string) list \<Rightarrow> string gomap \<Rightarrow> string gomap" where
  "put_headers kvs hs = fold (\<lambda>(k, v) m. mput m k v) kvs hs"

definition observed :: "'k http_world \<Rightarrow> http_request \<Rightarrow> string gomap \<Rightarrow> 'k server \<Rightarrow> 'k server \<times> response" where
  "observed w r hs sv =
    (case request_and_correlation_id (hw_request_id w) r of (req_id, corr) \<Rightarrow>
     (case authenticated w r sv of (sv1, rep) \<Rightarrow>
       (sv1\<lparr>sv_log := sv_log sv1 @ access_records req_id r (reply_status (hw_waited w) rep)\<rparr>,
        \<lparr>hp_headers = put_headers ((''X-Request-Id'', req_id) # (if corr \<noteq> '''' then [(''X-Correlation-Id'', corr)] else [])) hs,
          hp_reply = rep\<rparr>)))"

definition squote :: "string \<Rightarrow> string" where
  "squote s = [CHR 0x27] @ s @ [CHR 0x27]"

definition csp :: string where
  "csp = ''default-src '' @ squote ''self'' @ ''; img-src '' @ squote ''self'' @ '' data:; style-src '' @ squote ''self'' @ '' '' @
     squote ''unsafe-inline'' @ ''; script-src '' @ squote ''self'' @ '' '' @ squote ''unsafe-inline''"

definition security_headers :: "bool \<Rightarrow> (string \<times> string) list" where
  "security_headers tls = [(''X-Content-Type-Options'', ''nosniff''), (''X-Frame-Options'', ''DENY''),
     (''Referrer-Policy'', ''no-referrer''), (''X-XSS-Protection'', ''0''),
     (''Content-Security-Policy'', csp)] @
     (if tls then [(''Strict-Transport-Security'', ''max-age=63072000; includeSubDomains; preload'')] else [])"

definition secured :: "'k http_world \<Rightarrow> http_request \<Rightarrow> string gomap \<Rightarrow> 'k server \<Rightarrow> 'k server \<times> response" where
  "secured w r hs sv =
    (if hr_method r = ''TRACE'' then (sv, \<lparr>hp_headers = hs, hp_reply = HttpStatus 405\<rparr>)
     else (let hs1 = put_headers [(''Access-Control-Allow-Origin'', ''*''), (''Access-Control-Allow-Methods'', ''GET, POST, OPTIONS''),
             (''Access-Control-Allow-Headers'', ''Content-Type, Authorization'')] hs in
       if hr_method r = ''OPTIONS'' then (sv, \<lparr>hp_headers = hs1, hp_reply = HttpStatus 204\<rparr>)
       else observed w r (put_headers (security_headers (hw_tls w)) hs1) sv))"

definition http_serve :: "'k http_world \<Rightarrow> http_request \<Rightarrow> 'k server \<Rightarrow> 'k server \<times> response" where
  "http_serve w r sv =
    (let hs = put_headers [(''Access-Control-Allow-Origin'', ''*''), (''Access-Control-Allow-Methods'', ''GET, POST, PUT, DELETE, OPTIONS''),
         (''Access-Control-Allow-Headers'', ''Content-Type, Authorization, X-Mock-Role'')] [] in
     if hr_method r = ''OPTIONS'' then (sv, \<lparr>hp_headers = hs, hp_reply = HttpStatus 200\<rparr>)
     else secured w r hs sv)"

end
