(* ===== verification/Http_Props.thy ===== *)
theory Http_Props
  imports Http_Model Api_Props
begin

text \<open>
  The properties of the HTTP server: what a caller without valid credentials can do, who changes the
  language model, and what the access log keeps of a callback.
\<close>

subsection \<open>Requests without an identity\<close>

lemma health_not_routed:
  "has_prefix p ''/health'' \<Longrightarrow> hr_path r = p \<Longrightarrow> api_route ap ve failure r s = (s, HttpError 404 ''404 page not found'')"
  by (auto simp: has_prefix_iff api_route_def Let_def)

lemma metrics_not_routed:
  "hr_path r = ''/metrics'' \<Longrightarrow> api_route ap ve failure r s = (s, HttpError 404 ''404 page not found'')"
  by (simp add: api_route_def has_prefix_def)

lemma login_route:
  "hr_path r = ''/auth/login'' \<Longrightarrow> api_route ap ve failure r s = on_reply (handle_login ap ve r) s"
  by (simp add: api_route_def)

lemma handle_login_sys: "fst (handle_login ap ve r sy) \<in> {sy, next_tick sy}"
  by (auto simp: handle_login_def Let_def split: option.splits sum.splits)

lemma handle_settings_anonymous: "hr_identity r = None \<Longrightarrow> handle_settings_llm g r se = (se, HttpError 401 ''identity required'')"
  by (simp add: handle_settings_llm_def signed_in_def)

text \<open>What an exempt route does for a request without an identity.\<close>

lemma mux_exempt:
  assumes exempt: "auth_exempt (hr_path r)" and anon: "hr_identity r = None" and other: "\<not> has_prefix (hr_path r) callback_prefix"
  shows "sv_settings (fst (mux_serve w r sv)) = sv_settings sv"
    and "sv_api (fst (mux_serve w r sv)) = sv_api sv \<or>
      (hr_path r = ''/auth/login'' \<and> sv_api (fst (mux_serve w r sv)) = on_sys next_tick (sv_api sv))"
proof -
  consider "has_prefix (hr_path r) ''/health''" | "hr_path r = ''/metrics''" | "hr_path r = ''/auth/login''"
    using exempt other by (auto simp: auth_exempt_def)
  then have "sv_settings (fst (mux_serve w r sv)) = sv_settings sv \<and> (sv_api (fst (mux_serve w r sv)) = sv_api sv \<or>
      (hr_path r = ''/auth/login'' \<and> sv_api (fst (mux_serve w r sv)) = on_sys next_tick (sv_api sv)))"
  proof cases
    case 1
    then show ?thesis using anon
      by (auto simp: mux_serve_def Let_def health_not_routed handle_settings_anonymous)
  next
    case 2 then show ?thesis by (simp add: mux_serve_def Let_def)
  next
    case 3
    then show ?thesis using handle_login_sys [of "hw_api w" "hw_env w" r "as_sys (sv_api sv)"]
      by (cases "handle_login (hw_api w) (hw_env w) r (as_sys (sv_api sv))")
        (auto simp: mux_serve_def Let_def login_route on_reply_def on_sys_def)
  qed
  then show "sv_settings (fst (mux_serve w r sv)) = sv_settings sv"
    and "sv_api (fst (mux_serve w r sv)) = sv_api sv \<or>
      (hr_path r = ''/auth/login'' \<and> sv_api (fst (mux_serve w r sv)) = on_sys next_tick (sv_api sv))" by blast+
qed

definition rejected_credentials :: "'k http_world \<Rightarrow> http_request \<Rightarrow> 'k server \<Rightarrow> bool" where
  "rejected_credentials w r sv = (\<not> is_ok (snd (jwt_authenticate (hw_auth w) (hw_jwt w) (auth_request_of r) (sv_jwks sv))))"

lemma auth_request_identity [simp]: "auth_request_of (r\<lparr>hr_identity := x\<rparr>) = auth_request_of r"
  by (simp add: auth_request_of_def)

lemma authenticated_rejected:
  assumes "rejected_credentials w r sv" "\<not> has_prefix (hr_path r) callback_prefix"
  shows "sv_settings (fst (authenticated w r sv)) = sv_settings sv"
    and "sv_api (fst (authenticated w r sv)) = sv_api sv \<or>
      (hr_path r = ''/auth/login'' \<and> sv_api (fst (authenticated w r sv)) = on_sys next_tick (sv_api sv))"
proof -
  let ?r = "r\<lparr>hr_identity := None\<rparr>"
  have "sv_settings (fst (authenticated w r sv)) = sv_settings sv \<and> (sv_api (fst (authenticated w r sv)) = sv_api sv \<or>
      (hr_path r = ''/auth/login'' \<and> sv_api (fst (authenticated w r sv)) = on_sys next_tick (sv_api sv)))"
  proof (cases "auth_exempt (hr_path r)")
    case True
    then show ?thesis using mux_exempt [of ?r w sv] assms(2) by (simp add: authenticated_def Let_def)
  next
    case False
    then show ?thesis using assms(1)
      by (cases "jwt_authenticate (hw_auth w) (hw_jwt w) (auth_request_of r) (sv_jwks sv)")
        (auto simp: authenticated_def Let_def rejected_credentials_def is_ok_def split: sum.splits auth_error.splits)
  qed
  then show "sv_settings (fst (authenticated w r sv)) = sv_settings sv"
    and "sv_api (fst (authenticated w r sv)) = sv_api sv \<or>
      (hr_path r = ''/auth/login'' \<and> sv_api (fst (authenticated w r sv)) = on_sys next_tick (sv_api sv))" by blast+
qed

text \<open>What the layers outside the authentication add is the log and headers only.\<close>

lemma http_serve_core:
  "sv_settings (fst (http_serve w r sv)) = (if hr_method r \<in> {''OPTIONS'', ''TRACE''} then sv_settings sv else sv_settings (fst (authenticated w r sv)))"
  "sv_api (fst (http_serve w r sv)) = (if hr_method r \<in> {''OPTIONS'', ''TRACE''} then sv_api sv else sv_api (fst (authenticated w r sv)))"
  by (simp_all add: http_serve_def secured_def observed_def Let_def split: prod.split)

text \<open>
  C9: a request without accepted credentials, whatever its method, path, headers and body, changes no
  task, sends no message, takes no hit of a rate limit and changes no setting, unless it goes to the
  callback route, whose callers prove themselves with a token: a development login reads the clock
  and nothing else. Paths such as \<open>/health/../ask\<close>, which the middleware lets pass, reach no other
  handler.
\<close>

theorem rejected_request_changes_nothing:
  assumes "rejected_credentials w r sv" "\<not> has_prefix (hr_path r) callback_prefix"
  shows "sv_settings (fst (http_serve w r sv)) = sv_settings sv \<and>
    sv_api (fst (http_serve w r sv)) \<in> {sv_api sv, on_sys next_tick (sv_api sv)} \<and>
    (hr_path r \<noteq> ''/auth/login'' \<longrightarrow> sv_api (fst (http_serve w r sv)) = sv_api sv)"
  using authenticated_rejected [OF assms] by (auto simp: http_serve_core)

definition demo_settings :: settings where
  "demo_settings = \<lparr>se_mode = '''', se_engine = ''ollama'', se_model = ''m'', se_llm_url = '''', se_llm_key = '''',
     se_ollama_url = ''http://o'', se_embed = '''', se_client = Ollama ''http://o'' ''m'' ''''\<rparr>"

definition demo_server :: "sys \<Rightarrow> unit server" where
  "demo_server sy = \<lparr>sv_api = \<lparr>as_buckets = [], as_sys = sy\<rparr>, sv_jwks = \<lparr>jc_keys = [], jc_fetched = 0\<rparr>,
     sv_settings = demo_settings, sv_log = []\<rparr>"

text \<open>An authenticator that knows one token, of ana with a role.\<close>

definition token_world :: "env \<Rightarrow> string \<Rightarrow> unit http_world" where
  "token_world ve role = \<lparr>hw_api = demo_api, hw_env = ve,
     hw_auth = demo_auth_env\<lparr>av_parse_hmac := (\<lambda>s t. if t = ''tok'' then Inr (token_claims ''ana'' [role] 0 0) else Inl ''no'')\<rparr>,
     hw_jwt = demo_jwt_config, hw_memory_failure = None, hw_ready = HttpStatus 200, hw_metrics = HttpStatus 200,
     hw_pipelines = HttpStatus 200, hw_request_id = ''r1'', hw_waited = 200, hw_tls = False\<rparr>"

definition bearing :: "string \<Rightarrow> http_request \<Rightarrow> http_request" where
  "bearing token r = r\<lparr>hr_header := (\<lambda>k. if k = ''Authorization'' then ''Bearer '' @ token
     else if k = ''Content-Type'' then ''application/json'' else '''')\<rparr>"

lemma rejected_request_changes_nothing_witness:
  "sv_api (fst (http_serve (token_world (demo_env (demo_cfg [] []) (\<lambda>_ _ _ _. Inr [])) ''ops'')
     (bearing ''stolen'' (demo_request ''POST'' ''/task/approve'' [(''id'', ''t1''), (''gate'', ''review'')] None)) (demo_server review_sys))) =
   sv_api (demo_server review_sys)"
proof -
  let ?w = "token_world (demo_env (demo_cfg [] []) (\<lambda>_ _ _ _. Inr [])) ''ops''"
  let ?r = "bearing ''stolen'' (demo_request ''POST'' ''/task/approve'' [(''id'', ''t1''), (''gate'', ''review'')] None)"
  have "rejected_credentials ?w ?r (demo_server review_sys)" by code_simp
  moreover have "\<not> has_prefix (hr_path ?r) callback_prefix" "hr_path ?r \<noteq> ''/auth/login''" by code_simp+
  ultimately show ?thesis using rejected_request_changes_nothing [of ?w ?r "demo_server review_sys"] by simp
qed

subsection \<open>The language model\<close>

lemma set_llm_client_mode: "set_llm_client g e m u se = Inr se1 \<Longrightarrow> \<not> is_deterministic se \<and> se_mode se1 = se_mode se"
  by (auto simp: set_llm_client_def Let_def split: if_splits sum.splits)

lemma settings_changed:
  "fst (handle_settings_llm g r se) \<noteq> se \<Longrightarrow> \<exists>d. signed_in r = Some d \<and> has_function (Some d) ''platform.admin'' \<and>
     hr_method r = ''POST'' \<and> \<not> is_deterministic se \<and> se_mode (fst (handle_settings_llm g r se)) = se_mode se"
  by (auto simp: handle_settings_llm_def dest: set_llm_client_mode split: option.splits if_splits sum.splits prod.splits)

lemma mux_settings:
  "sv_settings (fst (mux_serve w r sv)) \<noteq> sv_settings sv \<Longrightarrow> hr_path r = ''/ui/settings/llm'' \<and>
     sv_settings (fst (mux_serve w r sv)) = fst (handle_settings_llm (we_getenv (hw_env w)) r (sv_settings sv))"
  by (auto simp: mux_serve_def Let_def split: if_splits prod.splits)

text \<open>Who can change the settings with one request.\<close>

definition admin_request :: "'k auth_env \<Rightarrow> jwt_config \<Rightarrow> http_request \<Rightarrow> 'k jwks_cache \<Rightarrow> bool" where
  "admin_request e cfg r c = (hr_method r = ''POST'' \<and> hr_path r = ''/ui/settings/llm'' \<and>
     (\<exists>d. snd (jwt_authenticate e cfg (auth_request_of r) c) = Inr d \<and> has_function (Some d) ''platform.admin''))"

lemma authenticated_settings:
  assumes "sv_settings (fst (authenticated w r sv)) \<noteq> sv_settings sv"
  shows "admin_request (hw_auth w) (hw_jwt w) r (sv_jwks sv) \<and> \<not> is_deterministic (sv_settings sv) \<and>
    se_mode (sv_settings (fst (authenticated w r sv))) = se_mode (sv_settings sv)"
proof (cases "auth_exempt (hr_path r)")
  case True
  let ?r = "r\<lparr>hr_identity := None\<rparr>"
  from True assms have "sv_settings (fst (mux_serve w ?r sv)) \<noteq> sv_settings sv" by (simp add: authenticated_def)
  with mux_settings [of w ?r sv] handle_settings_anonymous [of ?r] show ?thesis by simp
next
  case False
  obtain c x where j: "jwt_authenticate (hw_auth w) (hw_jwt w) (auth_request_of r) (sv_jwks sv) = (c, x)" by fastforce
  show ?thesis
  proof (cases x)
    case (Inl err)
    with False j assms show ?thesis by (cases err) (auto simp: authenticated_def Let_def)
  next
    case (Inr d)
    let ?r = "r\<lparr>hr_identity := Some d\<rparr>" and ?sv = "sv\<lparr>sv_jwks := c\<rparr>"
    from Inr False j have eq: "authenticated w r sv = mux_serve w ?r ?sv" by (simp add: authenticated_def Let_def)
    with assms have "sv_settings (fst (mux_serve w ?r ?sv)) \<noteq> sv_settings ?sv" by simp
    with mux_settings [of w ?r ?sv] settings_changed [of "we_getenv (hw_env w)" ?r "sv_settings sv"] j Inr eq
    show ?thesis by (auto simp: admin_request_def signed_in_Some)
  qed
qed

lemma http_settings:
  "sv_settings (fst (http_serve w r sv)) \<noteq> sv_settings sv \<Longrightarrow>
    admin_request (hw_auth w) (hw_jwt w) r (sv_jwks sv) \<and> \<not> is_deterministic (sv_settings sv) \<and>
    se_mode (sv_settings (fst (http_serve w r sv))) = se_mode (sv_settings sv)"
  using authenticated_settings [of w r sv] by (auto simp: http_serve_core split: if_splits)

subsection \<open>The access log\<close>

text \<open>What the log gains with a request, and that it says the same of all callback tokens.\<close>

lemma http_serve_log:
  "sv_log (fst (http_serve w r sv)) = sv_log sv @ (if hr_method r \<in> {''OPTIONS'', ''TRACE''} then []
     else access_records (fst (request_and_correlation_id (hw_request_id w) r)) r
       (reply_status (hw_waited w) (snd (authenticated w r sv))))"
proof -
  have mux: "sv_log (fst (mux_serve w r' sv')) = sv_log sv'" for r' sv'
    by (simp add: mux_serve_def Let_def split: prod.split)
  have "sv_log (fst (authenticated w r sv)) = sv_log sv"
    by (auto simp: authenticated_def Let_def mux split: prod.split sum.split auth_error.split)
  then show ?thesis by (auto simp: http_serve_def secured_def observed_def Let_def split: prod.split)
qed

lemma callback_paths:
  "route_label (callback_prefix @ tok) = ''/api/v1/callbacks/{token}''"
  "\<not> noisy (callback_prefix @ tok)" "\<not> has_prefix (callback_prefix @ tok) ''/health/''"
  "callback_prefix @ tok \<noteq> ''/metrics''" "callback_prefix @ tok \<noteq> ''/ui/task/events''" "callback_prefix @ tok \<noteq> ''/task''"
  by (simp_all add: route_label_def noisy_def callback_prefix_def has_prefix_def)

text \<open>
  the token of a callback stays out of the metrics, the access log and the name of the span: two
  callbacks that differ in their token alone, and are answered with the same status, leave the same
  records.
\<close>

theorem callback_token_not_logged:
  assumes "reply_status (hw_waited w) (snd (authenticated w (r\<lparr>hr_path := callback_prefix @ tok\<rparr>) sv)) =
    reply_status (hw_waited w) (snd (authenticated w (r\<lparr>hr_path := callback_prefix @ tok'\<rparr>) sv))"
  shows "sv_log (fst (http_serve w (r\<lparr>hr_path := callback_prefix @ tok\<rparr>) sv)) =
      sv_log (fst (http_serve w (r\<lparr>hr_path := callback_prefix @ tok'\<rparr>) sv)) \<and>
    span_name (r\<lparr>hr_path := callback_prefix @ tok\<rparr>) = span_name (r\<lparr>hr_path := callback_prefix @ tok'\<rparr>)"
  using assms
  by (simp add: http_serve_log access_records_def callback_paths span_name_def request_and_correlation_id_def)

lemma callback_token_not_logged_witness:
  "sv_log (fst (http_serve (token_world (demo_env (demo_cfg [] []) (\<lambda>_ _ _ _. Inr [])) ''ops'')
     ((demo_request ''GET'' '''' [] None)\<lparr>hr_path := callback_prefix @ ''cb-1''\<rparr>) (demo_server review_sys))) =
   sv_log (fst (http_serve (token_world (demo_env (demo_cfg [] []) (\<lambda>_ _ _ _. Inr [])) ''ops'')
     ((demo_request ''GET'' '''' [] None)\<lparr>hr_path := callback_prefix @ ''cb-2''\<rparr>) (demo_server review_sys)))"
proof -
  let ?w = "token_world (demo_env (demo_cfg [] []) (\<lambda>_ _ _ _. Inr [])) ''ops''"
  have "reply_status 200 (snd (authenticated ?w ((demo_request ''GET'' '''' [] None)\<lparr>hr_path := callback_prefix @ ''cb-1''\<rparr>) (demo_server review_sys))) = 405"
    "reply_status 200 (snd (authenticated ?w ((demo_request ''GET'' '''' [] None)\<lparr>hr_path := callback_prefix @ ''cb-2''\<rparr>) (demo_server review_sys))) = 405"
    by code_simp+
  with callback_token_not_logged [where w = ?w and r = "demo_request ''GET'' '''' [] None" and sv = "demo_server review_sys"
      and tok = "''cb-1''" and tok' = "''cb-2''"]
  show ?thesis by (simp add: token_world_def)
qed

end
