(* ===== verification/Verifier_Effects.thy ===== *)
theory Verifier_Effects
  imports Verifier_Props
begin

text \<open>
  What the handlers of the verifier do to the outside, whatever the message: a predicate that holds
  of every call and of every effect but messages past the analyst and the API agent holds of all. In
  particular the verifier never starts a run or decides a gate by itself.
\<close>

locale handler_pred = effect_pred +
  assumes calls: "is_call e \<Longrightarrow> P e"
begin

lemma ext_lin_loop: "fext P lv (lin_loop ve ri ss lv)"
proof (induction ve ri ss lv rule: lin_loop.induct)
  case (2 ve ri i s ss lv)
  then show ?case by (auto intro!: fext_bind fext_step calls simp: is_call_def)
qed (simp add: fext_def)

lemma ext_lin_finish: "ext P (ln_sys lv) (ln_sys (lin_finish ve ri lv))"
  by (auto simp: lin_finish_def send_summarize_def Let_def ext_def quiet)

lemma ext_linear: "ext P sy (execute_linear ve pipe i session intent language ctx results base sy)"
proof -
  obtain ri lv where s: "lin_setup ve pipe i session intent language ctx results base sy = (ri, lv)" by fastforce
  have "sy_trace (ln_sys lv) = sy_trace sy" "sy_bus (ln_sys lv) = sy_bus sy"
    using s alloc_callbacks_sys [of ve "pl_steps pipe" "mput (mputs [] base) ''trace_id'' (GStr i)" sy]
    by (auto simp: lin_setup_def Let_def load_state_def split: prod.splits)
  then have 1: "ext P sy (ln_sys lv)" by (rule ext_trace)
  have 2: "ext P (ln_sys lv) (ln_sys (lin_run ve ri k lv))" for k
    using ext_lin_loop [of lv ve ri "drop k (List.enumerate 0 (pl_steps (ri_pipe ri)))"]
    by (auto simp: lin_run_def fext_def split: flow.splits intro: ext_trans [OF _ ext_lin_finish])
  show ?thesis using ext_trans [OF 1 2] by (simp add: execute_linear_def s)
qed

lemma ext_dag: "ext P sy (fst (execute_dag ve sched pipe i session intent language ctx results base sy))"
proof -
  obtain ri d0 where s: "dag_setup ve pipe i session intent language ctx results base sy = (ri, d0)" by fastforce
  define d where "d = dag_loop ve ri sched (nodes_measure (dg_nodes d0)) d0"
  have 1: "ext P sy (dv_sys (dg_vars d0))"
    using s by (auto simp: dag_setup_def Let_def load_state_def ext_def quiet split: option.splits)
  have 2: "ext P (dv_sys (dg_vars d0)) (dv_sys (dg_vars d))"
    unfolding d_def by (rule reach_ext [OF P dag_loop_reach]) (rule calls)
  note x = ext_trans [OF 1 2]
  show ?thesis
    using x ext_trans [OF x dag_finish_ext [OF P]] by (simp add: execute_dag_def s d_def [symmetric] Let_def)
qed

lemma ext_executor: "ext P sy (fst (run_executor ve sched pipe i session intent language ctx results base sy))"
  by (simp add: run_executor_def ext_dag ext_linear)

lemma ext_resume: "ext P sy (fst (resume_from_state ve sched st sy))"
proof (cases "mget (cf_pipelines (we_cfg ve)) (es_pipeline st)")
  case None
  then show ?thesis by (simp add: resume_from_state_def Let_def ext_store_error)
next
  case (Some pipe)
  let ?ps = "string_map_to_any (case es_params st of None \<Rightarrow> [] | Some p \<Rightarrow> p)"
  obtain sy1 st1 err where m: "ensure_manifest ve (es_id st) (es_session st) (es_intent st) pipe ?ps (Some st) sy = (sy1, st1, err)"
    by (metis surj_pair)
  obtain sy2 ctx where c: "resume_context ve (es_id st) sy1 = (sy2, ctx)" by fastforce
  have 2: "ext P sy (mark_run_start ve (es_id st) sy2)"
    by (rule ext_trans [OF ext_manifest [OF m] ext_trace]) (use resume_context_same [OF c] in simp_all)
  show ?thesis
    using Some m c ext_trans [OF ext_manifest [OF m] ext_fail_audit] ext_trans [OF 2 ext_executor]
    by (cases err) (auto simp: resume_from_state_def Let_def)
qed

lemma ext_run: "ext P sy (fst (handle_run_pipeline ve sched msg sy))"
proof (cases "get_string (ms_payload msg) ''id''")
  case (Some i)
  then show ?thesis
  proof (cases "\<exists>p. mget (ms_payload msg) ''pipeline'' = Some (PPipe p)")
    case True
    then obtain p where p: "mget (ms_payload msg) ''pipeline'' = Some (PPipe p)" by blast
    let ?pay = "ms_payload msg"
    let ?base = "base_params_of (mget ?pay ''params'')" and ?session = "get_string0 ?pay ''session_id''"
    show ?thesis
    proof (cases "get_string ?pay ''intent''")
      case int: (Some intent)
      obtain sy1 r where l: "load_state ve i sy = (sy1, r)" by fastforce
      note e1 = ext_load [OF l]
      show ?thesis
      proof (cases r)
        case (Inl err)
        with Some int p l show ?thesis by (simp add: handle_run_pipeline_def Let_def ext_trans [OF e1 ext_store_result'])
      next
        case (Inr st)
        obtain sy2 st2 err where m: "ensure_manifest ve i ?session intent p ?base st sy1 = (sy2, st2, err)" by (metis surj_pair)
        note e2 = ext_trans [OF e1 ext_manifest [OF m]]
        obtain sy3 ctx where c: "run_context i (trim_space (pl_ai_system p)) sy2 = (sy3, ctx)" by fastforce
        have e3: "ext P sy (report_run ve f i a d sy3)" for f a d
          by (rule ext_trans [OF ext_trans [OF e2 ext_trace] report_run_same [OF P, THEN conjunct1]])
            (simp_all add: run_context_same [OF c])
        show ?thesis
          using Some int p l Inr m c ext_trans [OF e2 ext_fail_audit] ext_trans [OF e3 ext_executor]
          by (cases err) (auto simp: handle_run_pipeline_def Let_def)
      qed
    qed (use Some in \<open>simp add: handle_run_pipeline_def Let_def\<close>)
  qed (use Some ext_store_result' in \<open>auto simp: handle_run_pipeline_def Let_def split: option.splits pval.splits\<close>)
qed (simp add: handle_run_pipeline_def Let_def)

lemma ext_decision: "ext P sy (fst (handle_human_decision ve sched msg sy))"
proof (cases "get_string (ms_payload msg) ''id''"; cases "get_string (ms_payload msg) ''decision''")
  fix i decision assume i: "get_string (ms_payload msg) ''id'' = Some i" "get_string (ms_payload msg) ''decision'' = Some decision"
  obtain sy1 r where l: "load_state ve i sy = (sy1, r)" by fastforce
  note e1 = ext_load [OF l]
  show ?thesis
  proof (cases "\<exists>st. r = Inr (Some st)")
    case True
    then obtain st0 where r: "r = Inr (Some st0)" by blast
    let ?by = "get_string0 (ms_payload msg) ''decided_by''"
    let ?sy2 = "fst (log_lifecycle ve (Some st0) ''human.decision'' decision
        [(''gate'', GStr (es_gate st0)), (''decided_by'', GStr ?by)] sy1)"
    have e2: "ext P sy ?sy2" by (rule ext_trans [OF e1 ext_log_fst])
    obtain sy3 st' err where s: "save_state ve (record_decision decision st0) ?sy2 = (sy3, st', err)" by (metis surj_pair)
    note e3 = ext_trans [OF e2 ext_save' [OF s]]
    show ?thesis
      using i l r s ext_trans [OF e3 ext_store_error] ext_trans [OF e3 ext_resume]
        ext_trans [OF ext_trans [OF e2 ext_save_fst] ext_store_result']
      by (cases err) (auto simp: handle_human_decision_def Let_def)
  next
    case False
    then have "fst (handle_human_decision ve sched msg sy) = store_error i ''no execution state found'' sy1"
      using i l by (cases r) (auto simp: handle_human_decision_def Let_def split: option.splits)
    then show ?thesis using ext_trans [OF e1 ext_store_error] by simp
  qed
qed (simp_all add: handle_human_decision_def Let_def)

lemma ext_stop_unaudited: "ext P sy (stop_unaudited ve err st sy)"
  unfolding stop_unaudited_def by (rule ext_trans [OF ext_save_fst ext_store_result'])

lemma ext_callback: "ext P sy (fst (handle_callback ve sched msg sy))"
proof (cases "get_string0 (ms_payload msg) ''token'' = ''''")
  case False
  let ?token = "get_string0 (ms_payload msg) ''token''" and ?data = "callback_value (ms_payload msg)"
  obtain sy1 r where l: "list_states ve sy = (sy1, r)" by fastforce
  have e1: "ext P sy sy1" using l by (auto simp: list_states_def next_tick_def intro: ext_trace)
  show ?thesis
  proof (cases r)
    case (Inl err)
    with False l e1 show ?thesis by (simp add: handle_callback_def Let_def)
  next
    case (Inr sts)
    obtain sy2 f where f: "find_callback ve ?token sts sy1 = (sy2, f)" by fastforce
    have e2: "ext P sy sy2" by (rule ext_trans [OF e1 ext_trace]) (use find_callback_same [OF f] in simp_all)
    show ?thesis
    proof (cases f)
      case None
      with False l Inr f e2 show ?thesis by (simp add: handle_callback_def Let_def)
    next
      case (Some st0)
      obtain sy3 st err where s: "save_state ve (resolve_callback ?data st0) sy2 = (sy3, st, err)" by (metis surj_pair)
      note e3 = ext_trans [OF e2 ext_save' [OF s]]
      obtain sy4 aerr where g: "log_lifecycle ve (Some st) ''callback.received'' ''success''
          [(''step'', GStr (es_await_step st)), (''data'', GObj (audit_safe_callback (we_lib ve) ?data))] sy3 = (sy4, aerr)"
        by fastforce
      note e4 = ext_trans [OF e3 ext_log [OF g]]
      show ?thesis
        using False l Inr f Some s g e3 ext_trans [OF e4 ext_stop_unaudited] ext_trans [OF e4 ext_resume]
        by (cases err; cases aerr) (auto simp: handle_callback_def Let_def)
    qed
  qed
qed (simp add: handle_callback_def)

lemma ext_handle_all: "ext P sy (fst (handle_all ve sched ms sy))"
proof (induction ms arbitrary: sy)
  case (Cons m ms)
  have "ext P sy (fst (handle_callback ve sched m sy))" by (rule ext_callback)
  then show ?case
    using Cons.IH by (auto split: prod.splits bool.splits intro: ext_trans)
qed simp

lemma ext_expire_one: "ext P sy (expire_one ve st0 sy)"
  unfolding expire_one_def
  by (auto simp: Let_def split: prod.splits option.splits
      intro: ext_save' ext_trans [OF ext_save' ext_trans [OF ext_store_result' ext_trans [OF ext_log ext_event]]]
        ext_trans [OF ext_save' ext_trans [OF ext_store_result' ext_trans [OF ext_log ext_trans [OF ext_stop_unaudited ext_event]]]])

lemma ext_scan: "ext P sy (fst (verifier_scan ve sched sy))"
proof -
  have l: "list_states ve sy = (sy1, r) \<Longrightarrow> ext P sy sy1" for sy sy1 r
    by (auto simp: list_states_def next_tick_def intro: ext_trace)
  have fold: "ext P sy (fold (expire_one ve) sts sy)" for sts sy
    by (induction sts arbitrary: sy) (auto intro: ext_trans [OF ext_expire_one])
  have tick: "ext P sy (next_tick sy)" for sy by (rule ext_trace) simp_all
  have recover: "ext P sy (fst (recover_callbacks ve sched sy))" for sy
    by (auto simp: recover_callbacks_def split: prod.splits sum.splits intro: l ext_trans [OF l ext_handle_all])
  have expire: "ext P sy (expire_callbacks ve sy)" for sy
    by (auto simp: expire_callbacks_def split: prod.splits sum.splits intro: l ext_trans [OF l ext_trans [OF tick fold]])
  show ?thesis
    using recover [of sy] by (auto simp: verifier_scan_def split: prod.splits bool.splits intro: ext_trans expire)
qed

lemma ext_verifier: "ext P sy (fst (verifier_dispatch ve sched msg sy))"
  by (simp add: verifier_dispatch_def ext_run ext_decision ext_callback)

end

end
