(* ===== verification/Agent_Effects.thy ===== *)
theory Agent_Effects
  imports Verifier_Effects Planner_Props Analyst_Model Http_Props
begin

text \<open>
  What the other agents and the HTTP interface do to the outside. The planner sends the verifier
  nothing but runs, the inspector, the analyst and the loop of the API agent nothing, and the HTTP
  handlers nothing but decisions and callbacks.
\<close>

subsection \<open>The planner\<close>

locale planner_run_pred = planner_pred +
  assumes run: "ms_type m = ''run_pipeline'' \<Longrightarrow> P (ESend ''verifier'' m)"
begin

lemma ext_run_message: "ext P sy (send_msg ''verifier'' ''run_pipeline'' pay sy)"
  by (simp add: ext_def run)

lemma ext_dispatch: "ext P sy (dispatch_run pl ve rq intent pipe_name pipe params sy)"
proof -
  obtain sy1 d b where g: "governance_gate pl ve (pq_id rq) (pq_session rq) (pq_user rq) intent pipe_name pipe params sy = (sy1, d, b)"
    by (metis surj_pair)
  show ?thesis
    using pext_gate [OF g] g
    by (cases b) (auto simp: dispatch_run_def Let_def
        intro: ext_trans [OF _ ext_trans [OF pext_event ext_trans [OF pext_save_fst ext_run_message]]])
qed

lemma ext_plan_intent: "ext P sy (plan_intent pl ve rq name params structured sy)"
proof (cases "mget (cf_intents (we_cfg ve)) name")
  case None
  then show ?thesis by (simp add: plan_intent_def pext_error)
next
  case (Some it)
  let ?ev = "rbac_event ve rq name it params (rbac_allows (we_cfg ve) name (pq_domains rq)) sy"
  obtain sy1 err where a: "audit_checked ve ?ev sy = (sy1, err)" by fastforce
  note e1 = pext_audit [OF a]
  show ?thesis
    using Some a e1 ext_trans [OF e1 pext_error] ext_trans [OF e1 pext_result] ext_trans [OF e1 ext_dispatch]
    by (auto simp: plan_intent_def Let_def split: option.splits sum.splits bool.splits)
qed

lemma ext_detect_request: "ext P sy (fst (detect_request pl ve rq pay sy))"
proof -
  obtain sy1 r where u: "understand pl ve rq sy = (sy1, r)" by fastforce
  show ?thesis
    using pext_understand [OF u] u
    by (auto simp: detect_request_def Let_def ext_plan_intent split: nl_outcome.splits intro: ext_trans [OF _ ext_plan_intent])
qed

lemma ext_detect: "ext P sy (fst (handle_detect_intent pl ve msg sy))"
proof (cases "get_string (ms_payload msg) ''id''")
  case (Some i)
  have e1: "ext P sy (planner_context ve i sy)" by (rule pext_context)
  show ?thesis
  proof (cases "message_identity (ms_payload msg)")
    case None
    with Some e1 show ?thesis by (simp add: handle_detect_intent_def Let_def)
  next
    case idn: (Some idn)
    let ?rq = "plan_req_of i (ms_payload msg) idn"
    obtain sy2 st err where s: "save_state ve (zero_exec\<lparr>es_id := i, es_session := pq_session ?rq, es_user := pq_user ?rq\<rparr>)
        (planner_context ve i sy) = (sy2, st, err)" by (metis surj_pair)
    note e2 = ext_trans [OF e1 pext_save [OF s]]
    show ?thesis
      using Some idn s ext_trans [OF e2 pext_error] ext_trans [OF e2 ext_detect_request]
      by (cases err) (auto simp: handle_detect_intent_def Let_def simp del: plan_req_of_simps)
  qed
qed (simp add: handle_detect_intent_def Let_def)

lemma ext_run_clarified: "ext P sy (run_clarified pl ve i user_msg it pipe params st0 sy)"
proof -
  obtain sy1 st err where s: "save_state ve (st0\<lparr>es_gate := '''', es_missing := [], es_ai_system := pl_ai_system pipe\<rparr>) sy = (sy1, st, err)"
    by (metis surj_pair)
  note e1 = pext_save [OF s]
  obtain sy2 d b where g: "governance_gate pl ve i (es_session st) (es_user st) (es_intent st) (pl_name pipe) pipe params sy1 = (sy2, d, b)"
    by (metis surj_pair)
  note e2 = ext_trans [OF e1 pext_gate [OF g]]
  show ?thesis
    using s g e2 ext_trans [OF e1 pext_result] ext_trans [OF e2 ext_trans [OF pext_event ext_run_message]]
    by (cases b) (auto simp: run_clarified_def Let_def split: option.splits)
qed

lemma ext_apply_clarification: "ext P sy (apply_clarification pl ve i user_msg found st0 sy)"
  by (auto simp: apply_clarification_def Let_def pext_error pext_ask_again ext_run_clarified split: option.splits)

lemma ext_clarify: "ext P sy (fst (handle_clarify_intent pl ve msg sy))"
proof -
  let ?i = "get_string0 (ms_payload msg) ''id''" and ?text = "get_string0 (ms_payload msg) ''message''"
  obtain sy1 r where l: "load_state ve ?i sy = (sy1, r)" by fastforce
  note e1 = pext_load [OF l]
  show ?thesis
  proof (cases "get_task_context ?i sy = None")
    case False
    consider e where "r = Inl e" | "r = Inr None" | st where "r = Inr (Some st)" by (cases r) (metis option.exhaust)+
    then show ?thesis
    proof cases
      case (3 st)
      obtain sy2 q where q: "extract_params pl ve ?text (es_missing st) sy1 = (sy2, q)" by fastforce
      note e2 = ext_trans [OF e1 pext_extract [OF q]]
      show ?thesis using 3 False l q e2 ext_trans [OF e1 pext_error] ext_trans [OF e2 pext_error] ext_trans [OF e2 ext_apply_clarification]
        by (auto simp: handle_clarify_intent_def Let_def split: option.splits sum.splits)
    qed (use False l ext_trans [OF e1 pext_error] in \<open>auto simp: handle_clarify_intent_def Let_def\<close>)
  qed (simp add: handle_clarify_intent_def Let_def pext_error)
qed

lemma ext_planner:
  assumes "ms_type msg = ''new_task'' \<Longrightarrow> \<forall>m. ms_type m = ''detect_intent'' \<longrightarrow> P (ESend ''planner'' m)"
  shows "ext P sy (fst (planner_dispatch pl ve msg sy))"
proof (cases "ms_type msg = ''new_task''")
  case True
  then have "ext P sy (send_msg ''planner'' ''detect_intent'' p sy)" for p using assms by (simp add: ext_def)
  with True show ?thesis by (auto simp: planner_dispatch_def Let_def split: option.splits)
qed (simp add: planner_dispatch_def Let_def ext_detect ext_clarify)

end

subsection \<open>Inspector, analyst and API agent\<close>

context planner_pred
begin

lemma ext_inspector:
  assumes "\<And>i mode. ms_type msg = ''new_task'' \<Longrightarrow> get_string (ms_payload msg) ''id'' = Some i \<Longrightarrow>
    P (ESend ''planner'' \<lparr>ms_type = ''detect_intent'', ms_payload = forward_payload i mode (ms_payload msg)\<rparr>)"
  shows "ext P sy (inspector_dispatch msg sy)"
  using assms by (auto simp: inspector_dispatch_def Let_def ext_def split: option.splits)

lemma ext_persist: "ext P sy (fst (persist_completion ve i session intent pipeline raw summary sy))"
proof -
  obtain sy1 r where l: "load_state ve i sy = (sy1, r)" by fastforce
  show ?thesis
    using l ext_trans [OF pext_load [OF l] pext_save_fst]
    by (auto simp: persist_completion_def Let_def pext_load split: sum.splits)
qed

lemma ext_complete: "ext P sy (handle_complete ve msg sy)"
  by (auto simp: handle_complete_def Let_def split: option.splits intro: ext_trans [OF ext_persist pext_result])

lemma ext_remember: "ext P sy (remember_run an ve i session intent pipeline summary raw sy)"
  by (auto simp: remember_run_def Let_def ext_def split: option.splits sum.splits)

lemma ext_ask_summary: "ask_summary an ve m lang intent raw sy = (sy', r) \<Longrightarrow> ext P sy sy'"
  by (auto simp: ask_summary_def Let_def ext_def split: option.splits summary.splits)

lemma ext_summarize_run: "ext P sy (summarize_run an ve i pay raw sy)"
proof -
  let ?intent = "get_string0 pay ''intent''" and ?pipe = "get_string0 pay ''pipeline''" and ?session = "get_string0 pay ''session_id''"
  let ?lang = "if get_string0 pay ''language'' = '''' then ''es'' else get_string0 pay ''language''"
  have raw: "ext P sy (store_result i (ok_result raw) (fst (persist_completion ve i ?session ?intent ?pipe (GObj raw) '''' sy)))" for sy
    by (rule ext_trans [OF ext_persist pext_result])
  obtain sy1 r where a: "ask_summary an ve (get_string0 pay ''llm_model'') ?lang ?intent raw sy = (sy1, r)" by fastforce
  note e1 = ext_ask_summary [OF a]
  have "ext P sy (store_result i res (remember_run an ve i ?session ?intent name s raw (fst
      (persist_completion ve i ?session ?intent ?pipe (GObj raw) s
        (event i ''Analyst'' ''completed'' ''Pipeline completed'' (event i ''Analyst'' ''summary'' s sy1))))))" for res s name
    by (rule ext_trans [OF e1 ext_trans [OF pext_event ext_trans [OF pext_event
          ext_trans [OF ext_persist ext_trans [OF ext_remember pext_result]]]]])
  then show ?thesis
    using a raw ext_trans [OF e1 raw] by (auto simp: summarize_run_def Let_def split: option.splits prod.splits)
      (metis fst_conv)+
qed

lemma ext_context: "ext P sy (case get_task_context i sy of None \<Rightarrow> fst (new_task_context i sy) | Some _ \<Rightarrow> sy)"
  by (auto split: option.splits intro: ext_trace)

lemma ext_summarize: "ext P sy (handle_summarize an ve msg sy)"
  using ext_trans [OF pext_event ext_trans [OF ext_context ext_summarize_run]] pext_result
  by (auto simp: handle_summarize_def Let_def split: option.splits)

lemma ext_analyst: "ext P sy (analyst_dispatch an ve msg sy)"
  by (simp add: analyst_dispatch_def ext_summarize ext_complete)

lemma ext_api_dispatch: "ext P sy (api_dispatch msg sy)"
  by (auto simp: api_dispatch_def pext_result split: option.splits)

end

subsection \<open>The HTTP interface\<close>

text \<open>What a request may send: its identity comes along with a new task.\<close>

definition api_send :: "http_request \<Rightarrow> effect \<Rightarrow> bool" where
  "api_send r e = (case e of
     ESend target m \<Rightarrow> target = ''api'' \<or>
       (target = ''inspector'' \<and> ms_type m = ''new_task'' \<and> hr_path r \<in> {''/ask'', ''/ask_structured''} \<and>
         mget (ms_payload m) ''identity'' = Some (PIdent (hr_identity r))) \<or>
       (target = ''planner'' \<and> ms_type m = ''clarify_intent'' \<and> hr_path r = ''/task/reply'') \<or>
       (target = ''verifier'' \<and> ms_type m = ''callback_received'') \<or>
       (target = ''verifier'' \<and> ms_type m = ''human_decision'' \<and> hr_path r \<in> {''/task/approve'', ''/task/reject''})
   | _ \<Rightarrow> True)"

interpretation api: planner_pred "api_send r" for r
  by unfold_locales (auto simp: api_send_def split: effect.splits)

lemma ext_require_access: "require_task_access ve r i fs sy = (sy', x) \<Longrightarrow> ext P sy sy'"
  by (auto simp: require_task_access_def load_state_def next_tick_def intro: ext_trace split: option.splits if_splits)

lemma ext_list_states: "list_states ve sy = (sy', x) \<Longrightarrow> ext P sy sy'"
  by (auto simp: list_states_def next_tick_def intro: ext_trace)

lemma ext_fresh_id: "fresh_id ve sy = (sy', i) \<Longrightarrow> ext P sy sy'"
  by (auto simp: fresh_id_def intro: ext_trace)

lemma ext_find_waiting: "find_waiting ve token sts sy = (sy', x) \<Longrightarrow> ext P sy sy'"
proof (induction sts arbitrary: sy)
  case (Cons st sts)
  have "ext P sy (next_tick sy)" for sy by (rule ext_trace) simp_all
  with Cons show ?case by (auto simp: Let_def split: if_splits intro: ext_trans)
qed simp

lemma ext_on_reply: "(\<And>sy. ext P sy (fst (f sy))) \<Longrightarrow> ext P (as_sys s) (as_sys (fst (on_reply f s)))"
  by (simp add: on_reply_def split: prod.splits) (metis fst_conv)

lemma ext_rate_limited:
  assumes "\<And>s. ext P (as_sys s) (as_sys (fst (k s)))"
  shows "ext P (as_sys s) (as_sys (fst (rate_limited ve r k s)))"
proof -
  obtain bs ok where a: "acquire_rl (now_of ve (as_sys s)) (get_client_key r) (as_buckets s) = (bs, ok)" by fastforce
  have 1: "ext P (as_sys s) (as_sys (on_sys next_tick (s\<lparr>as_buckets := bs\<rparr>)))" by (rule ext_trace) (simp_all add: on_sys_def)
  show ?thesis using a 1 ext_trans [OF 1 assms] by (simp add: rate_limited_def Let_def)
qed

lemma ext_show_task: "ext P sy (fst (show_task ve r sy))"
proof -
  have read: "ext P sy (fst (read_task ve i st sy))" for i st sy
    by (auto simp: read_task_def delete_result_def load_state_def next_tick_def intro: ext_trace split: option.splits)
  have "ext P sy (next_tick sy)" by (rule ext_trace) simp_all
  then show ?thesis using ext_trans [OF _ read]
    by (auto simp: show_task_def Let_def load_state_def split: option.splits)
qed

lemma ext_handle_task: "ext P (as_sys s) (as_sys (fst (handle_task ap ve r s)))"
  by (simp add: handle_task_def ext_rate_limited ext_on_reply ext_show_task)

lemma ext_handle_list: "ext P sy (fst (handle_list_tasks ve r sy))"
  by (auto simp: handle_list_tasks_def split: option.splits prod.splits sum.splits intro: ext_list_states)

lemma ext_handle_memories: "ext P sy (fst (handle_memories failure r sy))"
  by (auto simp: handle_memories_def Let_def split: option.splits prod.splits sum.splits intro: ext_trace)

lemma ext_handle_stream: "ext P sy (fst (handle_event_stream ve r sy))"
  by (auto simp: handle_event_stream_def Let_def split: prod.splits sum.splits intro: ext_require_access)

lemma ext_handle_login: "ext P sy (fst (handle_login ap ve r sy))"
  using handle_login_sys [of ap ve r sy] by (auto intro: ext_trace)

lemma ext_submit_message:
  assumes "hr_path r \<in> {''/ask'', ''/ask_structured''}"
  shows "ext (api_send r) sy (fst (submit_message ve r msg lang0 sy))"
proof -
  let ?lang = "if lang0 = '''' then ''es'' else lang0"
  obtain sy1 session where 1: "(case signed_in r of Some d \<Rightarrow> (sy, idn_user d) | None \<Rightarrow> fresh_id ve sy) = (sy1, session)" by fastforce
  obtain sy2 i where 2: "fresh_id ve sy1 = (sy2, i)" by fastforce
  obtain sy3 st err where 3: "save_state ve (owner_record i session (hr_identity r)) sy2 = (sy3, st, err)" by (metis surj_pair)
  have e1: "ext (api_send r) sy sy1" using 1 by (auto split: option.splits intro: ext_fresh_id)
  note e3 = ext_trans [OF ext_trans [OF e1 ext_fresh_id [OF 2]] api.pext_save [OF 3]]
  have "ext (api_send r) sy3 (send_msg ''inspector'' ''new_task'' (ask_payload i session msg ?lang (hr_identity r))
      (fst (new_task_context i (event i ''Api'' ''request'' msg sy3))))"
    using assms by (simp add: ext_def api_send_def ask_payload_def)
  with e3 show ?thesis
    by (cases err) (auto simp: submit_message_def Let_def 1 2 3 intro: ext_trans)
qed

lemma ext_handle_ask: "hr_path r = ''/ask'' \<Longrightarrow> ext (api_send r) (as_sys s) (as_sys (fst (handle_ask ap ve r s)))"
  by (auto simp: handle_ask_def split: option.splits intro!: ext_rate_limited ext_on_reply ext_submit_message)

lemma ext_submit_operation:
  assumes "hr_path r \<in> {''/ask'', ''/ask_structured''}"
  shows "ext (api_send r) sy (fst (submit_operation ve r q sy))"
proof -
  obtain sy1 i where 1: "fresh_id ve sy = (sy1, i)" by fastforce
  obtain sy2 anonymous where 2: "fresh_id ve sy1 = (sy2, anonymous)" by fastforce
  let ?session = "case signed_in r of Some d \<Rightarrow> idn_user d | None \<Rightarrow> anonymous"
  obtain sy3 st err where 3: "save_state ve (owner_record i ?session (signed_in r)) sy2 = (sy3, st, err)" by (metis surj_pair)
  note e3 = ext_trans [OF ext_trans [OF ext_fresh_id [OF 1] ext_fresh_id [OF 2]] api.pext_save [OF 3]]
  have "ext (api_send r) sy3 (send_msg ''inspector'' ''new_task'' (structured_payload i ?session q (hr_identity r)) sy3)"
    using assms by (simp add: ext_def api_send_def structured_payload_def)
  with e3 show ?thesis
    by (cases err) (auto simp: submit_operation_def Let_def 1 2 3 intro: ext_trans)
qed

lemma ext_handle_ask2: "hr_path r = ''/ask_structured'' \<Longrightarrow> ext (api_send r) (as_sys s) (as_sys (fst (handle_ask2 ap ve r s)))"
  by (auto simp: handle_ask2_def split: option.splits intro!: ext_rate_limited ext_on_reply ext_submit_operation)

lemma ext_handle_clarify:
  assumes "hr_path r = ''/task/reply''"
  shows "ext (api_send r) (as_sys s) (as_sys (fst (handle_clarify_reply ap ve r s)))"
proof -
  have c: "ext (api_send r) sy (fst (clarify_request ve r sy))" for sy
  proof -
    obtain sy1 x where a: "require_task_access ve r (hr_query r ''id'') [] sy = (sy1, x)" by fastforce
    have send: "ext (api_send r) sy1 (send_msg ''planner'' ''clarify_intent'' p (event i ''Api'' ''reply'' t sy1))" for p i t
      using assms by (simp add: ext_def api_send_def)
    show ?thesis
      using a ext_require_access [OF a] ext_trans [OF ext_require_access [OF a] send]
      by (auto simp: clarify_request_def Let_def split: option.splits sum.splits)
  qed
  show ?thesis by (auto simp: handle_clarify_reply_def intro!: ext_rate_limited ext_on_reply c)
qed

lemma ext_handle_decision:
  assumes "hr_path r \<in> {''/task/approve'', ''/task/reject''}"
  shows "ext (api_send r) sy (fst (handle_human_decision_request ap ve decision r sy))"
proof -
  obtain sy1 x where a: "require_task_access ve r (hr_query r ''id'') [''oversight''] sy = (sy1, x)" by fastforce
  have send: "ext (api_send r) sy1 (send_msg ''verifier'' ''human_decision'' p (event i ''UI'' ''human_decision'' decision sy1))" for p i
    using assms by (auto simp: ext_def api_send_def)
  show ?thesis
    using a ext_require_access [OF a] ext_trans [OF ext_require_access [OF a] send]
    by (auto simp: handle_human_decision_request_def Let_def split: option.splits sum.splits)
qed

lemma ext_handle_callback: "ext (api_send r) sy (fst (handle_callback_request ap ve r sy))"
proof -
  have send: "ext (api_send r) sy (send_msg ''verifier'' ''callback_received'' p sy)" for p sy
    by (simp add: ext_def api_send_def)
  have tick: "ext P sy (next_tick sy)" for P sy by (rule ext_trace) simp_all
  have accept: "ext (api_send r) sy (fst (accept_callback ve token data st sy))" for token data st sy
  proof (cases "es_cb_data st")
    case None
    obtain sy1 st1 err where s: "save_state ve (received_state data (now_of ve sy) st) (next_tick sy) = (sy1, st1, err)" by (metis surj_pair)
    note e1 = ext_trans [OF tick api.pext_save [OF s]]
    show ?thesis using None s e1 ext_trans [OF e1 ext_trans [OF api.pext_event send]]
      by (cases err) (auto simp: accept_callback_def)
  qed (simp add: accept_callback_def send)
  let ?token = "trim_prefix (hr_path r) ''/api/v1/callbacks/''"
  obtain sy1 l where l: "list_states ve sy = (sy1, l)" by fastforce
  show ?thesis
  proof (cases l)
    case (Inl err)
    with l ext_list_states [OF l] show ?thesis by (auto simp: handle_callback_request_def Let_def split: option.splits)
  next
    case (Inr sts)
    obtain sy2 w where w: "find_waiting ve ?token sts sy1 = (sy2, w)" by fastforce
    note e2 = ext_trans [OF ext_list_states [OF l] ext_find_waiting [OF w]]
    note e3 = ext_trans [OF e2 tick]
    show ?thesis using l Inr w e2 e3 ext_trans [OF e3 accept]
      by (auto simp: handle_callback_request_def Let_def split: option.splits)
  qed
qed

text \<open>All a request does to the system is to extend the trace by effects it may have.\<close>

lemma ext_api_route: "ext (api_send r) (as_sys s) (as_sys (fst (api_route ap ve failure r s)))"
proof -
  have i: "ext (api_send r) sy (fst (handle_intents ve r sy))" for sy by (simp add: handle_intents_def)
  show ?thesis
    by (simp add: api_route_def Let_def ext_on_reply ext_handle_login ext_handle_ask ext_handle_ask2 ext_handle_task
        ext_handle_decision ext_handle_clarify i ext_handle_list ext_handle_memories ext_handle_stream ext_handle_callback)
qed

end
