(* ===== verification/System_Model.thy ===== *)
theory System_Model
  imports Agent_Effects
begin

text \<open>
  The agents together, as app/app.go wires them: five inboxes on one bus, the HTTP server in front,
  and the verifier's ticker. A run of the system is a list of happenings: a request is served, an
  agent takes the oldest message of its inbox and handles it, or the ticker fires. A handler is one
  step, so the goroutines of one parallel run interleave with each other, as its schedule says, and
  not with the other agents.
\<close>

subsection \<open>Wiring\<close>

datatype agent = ApiAgent | InspectorAgent | PlannerAgent | VerifierAgent | AnalystAgent

fun topic :: "agent \<Rightarrow> string" where
  "topic ApiAgent = ''api''"
| "topic InspectorAgent = ''inspector''"
| "topic PlannerAgent = ''planner''"
| "topic VerifierAgent = ''verifier''"
| "topic AnalystAgent = ''analyst''"

text \<open>The number of the channel that is the inbox of an agent.\<close>

fun inbox :: "agent \<Rightarrow> nat" where
  "inbox ApiAgent = 0"
| "inbox InspectorAgent = 1"
| "inbox PlannerAgent = 2"
| "inbox VerifierAgent = 3"
| "inbox AnalystAgent = 4"

definition start_bus :: bus where
  "start_bus = fold (\<lambda>a. bus_subscribe (topic a) (inbox a))
     [ApiAgent, InspectorAgent, PlannerAgent, VerifierAgent, AnalystAgent] (new_bus (\<lambda>_. 16))"

text \<open>What a deployment fixes, and how a language model client of the settings answers.\<close>

record deployment =
  dp_api :: api
  dp_planner :: planner
  dp_analyst :: analyst
  dp_env :: env
  dp_jwt :: jwt_config
  dp_llm :: "llm_client \<Rightarrow> llm option"

definition sys_of :: "'k server \<Rightarrow> sys" where "sys_of sv = as_sys (sv_api sv)"

definition put_sys :: "sys \<Rightarrow> 'k server \<Rightarrow> 'k server" where
  "put_sys sy sv = sv\<lparr>sv_api := (sv_api sv)\<lparr>as_sys := sy\<rparr>\<rparr>"

definition agent_env :: "deployment \<Rightarrow> 'k server \<Rightarrow> env" where
  "agent_env dp sv = (dp_env dp)\<lparr>we_llm := dp_llm dp (se_client (sv_settings sv))\<rparr>"

fun agent_handle :: "deployment \<Rightarrow> env \<Rightarrow> (nat \<Rightarrow> nat) \<Rightarrow> agent \<Rightarrow> message \<Rightarrow> sys \<Rightarrow> sys" where
  "agent_handle dp ve sched ApiAgent m sy = api_dispatch m sy"
| "agent_handle dp ve sched InspectorAgent m sy = inspector_dispatch m sy"
| "agent_handle dp ve sched PlannerAgent m sy = fst (planner_dispatch (dp_planner dp) ve m sy)"
| "agent_handle dp ve sched VerifierAgent m sy = fst (verifier_dispatch ve sched m sy)"
| "agent_handle dp ve sched AnalystAgent m sy = analyst_dispatch (dp_analyst dp) ve m sy"

subsection \<open>Runs of the system\<close>

datatype 'k happening = Request "'k http_world" http_request | Receive agent "nat \<Rightarrow> nat" | Scan "nat \<Rightarrow> nat"

text \<open>The world of a request, completed by what the deployment fixes.\<close>

definition served_by :: "deployment \<Rightarrow> 'k server \<Rightarrow> 'k http_world \<Rightarrow> 'k http_world" where
  "served_by dp sv w = w\<lparr>hw_api := dp_api dp, hw_env := agent_env dp sv, hw_jwt := dp_jwt dp\<rparr>"

definition receive :: "deployment \<Rightarrow> (nat \<Rightarrow> nat) \<Rightarrow> agent \<Rightarrow> 'k server \<Rightarrow> 'k server" where
  "receive dp sched a sv = (case bus_receive (inbox a) (sy_bus (sys_of sv)) of None \<Rightarrow> sv
     | Some (m, b) \<Rightarrow> put_sys (agent_handle dp (agent_env dp sv) sched a m ((sys_of sv)\<lparr>sy_bus := b\<rparr>)) sv)"

fun happen :: "deployment \<Rightarrow> 'k happening \<Rightarrow> 'k server \<Rightarrow> 'k server" where
  "happen dp (Request w r) sv = fst (http_serve (served_by dp sv w) r sv)"
| "happen dp (Receive a sched) sv = receive dp sched a sv"
| "happen dp (Scan sched) sv = put_sys (fst (verifier_scan (agent_env dp sv) sched (sys_of sv))) sv"

definition run_system :: "deployment \<Rightarrow> 'k happening list \<Rightarrow> 'k server \<Rightarrow> 'k server" where
  "run_system dp hs sv = fold (happen dp) hs sv"

text \<open>A server that just started: nothing sent yet, whatever an earlier process stored.\<close>

definition just_started :: "'k server \<Rightarrow> bool" where
  "just_started sv = (sy_trace (sys_of sv) = [] \<and> sy_bus (sys_of sv) = start_bus)"

lemma run_system_Nil [simp]: "run_system dp [] sv = sv"
  by (simp add: run_system_def)

lemma run_system_snoc [simp]: "run_system dp (hs @ [h]) sv = happen dp h (run_system dp hs sv)"
  by (simp add: run_system_def)

lemma sys_of_put [simp]: "sys_of (put_sys sy sv) = sy"
  by (simp add: sys_of_def put_sys_def)

subsection \<open>The bus holds what was sent\<close>

lemma inbox_inject [simp]: "inbox a = inbox b \<longleftrightarrow> a = b"
  by (cases a; cases b) simp_all

lemma topic_inject [simp]: "topic a = topic b \<longleftrightarrow> a = b"
  by (cases a; cases b) simp_all

definition wired :: "bus \<Rightarrow> bool" where
  "wired b = (bus_ok b \<and> (\<forall>t a. inbox a \<in> set (subscribers b t) \<longleftrightarrow> t = topic a))"

lemma wired_start: "wired start_bus"
proof -
  have "bus_ok start_bus"
    by (simp add: start_bus_def bus_ok_subscribe bus_ok_new)
  moreover have "inbox a \<in> set (subscribers start_bus t) \<longleftrightarrow> t = topic a" for t a
    by (cases a) (auto simp: start_bus_def bus_subscribe_def subscribers_def new_bus_def)
  ultimately show ?thesis by (simp add: wired_def)
qed

lemma wired_deliver: "wired b \<Longrightarrow> wired (deliver e b)"
  by (cases e) (auto simp: wired_def bus_ok_send)

lemma queued_deliver:
  assumes "wired b" "m \<in> set (ch_queue (bs_chans (deliver e b) (inbox a)))"
  shows "m \<in> set (ch_queue (bs_chans b (inbox a))) \<or> e = ESend (topic a) m"
  using assms by (cases e) (auto simp: wired_def bus_send_chans channel_offer_def split: if_splits)

lemma queued_delivered:
  assumes "wired b" "m \<in> set (ch_queue (bs_chans (fold deliver es b) (inbox a)))"
  shows "m \<in> set (ch_queue (bs_chans b (inbox a))) \<or> ESend (topic a) m \<in> set es"
  using assms
proof (induction es arbitrary: b)
  case (Cons e es)
  then show ?case using queued_deliver [of b m e a] wired_deliver [of b e] by fastforce
qed simp

lemma wired_delivered: "wired b \<Longrightarrow> wired (fold deliver es b)"
  by (induction es arbitrary: b) (simp_all add: wired_deliver)

lemma subscribers_receive: "bus_receive c b = Some (m, b') \<Longrightarrow> subscribers b' t = subscribers b t"
  by (auto simp: bus_receive_def subscribers_def split: list.splits)

lemma wired_receive: "wired b \<Longrightarrow> bus_receive c b = Some (m, b') \<Longrightarrow> wired b'"
  using bus_ok_receive [of b c m b'] by (simp add: wired_def subscribers_receive)

lemma queued_receive: "bus_receive c b = Some (m, b') \<Longrightarrow> set (ch_queue (bs_chans b' d)) \<subseteq> set (ch_queue (bs_chans b d))"
  by (auto simp: bus_receive_def split: list.splits if_splits)

lemma received_queued: "bus_receive c b = Some (m, b') \<Longrightarrow> m \<in> set (ch_queue (bs_chans b c))"
  by (auto simp: bus_receive_def split: list.splits)

subsection \<open>What a happening does\<close>

text \<open>The effects of a request and of a handler, by the agent that handles the message.\<close>

definition sends :: "agent \<Rightarrow> message \<Rightarrow> effect \<Rightarrow> bool" where
  "sends a m e = (case e of
     ESend t m' \<Rightarrow> t \<in> {''api'', ''analyst''} \<or>
       (a = InspectorAgent \<and> ms_type m = ''new_task'' \<and> t = ''planner'' \<and> ms_type m' = ''detect_intent'' \<and>
         (\<exists>i mode. ms_payload m' = forward_payload i mode (ms_payload m))) \<or>
       (a = PlannerAgent \<and> t = ''verifier'' \<and> ms_type m' = ''run_pipeline'') \<or>
       (a = PlannerAgent \<and> ms_type m = ''new_task'' \<and> t = ''planner'' \<and> ms_type m' = ''detect_intent'')
   | _ \<Rightarrow> True)"

interpretation sends: planner_pred "sends a m" for a m
  by unfold_locales (auto simp: sends_def split: effect.splits)

interpretation planner_sends: planner_run_pred "sends PlannerAgent m" for m
  by unfold_locales (simp add: sends_def)

interpretation verifier_sends: handler_pred "sends a m" for a m
  by unfold_locales (auto simp: sends_def noncall_def foreign_def is_call_def split: effect.splits)

lemma ext_agent_handle: "ext (sends a m) sy (agent_handle dp ve sched a m sy)"
proof (cases a)
  case ApiAgent
  then show ?thesis by (simp add: sends.ext_api_dispatch)
next
  case InspectorAgent
  have "ext (sends InspectorAgent m) sy (inspector_dispatch m sy)"
    by (rule sends.ext_inspector) (auto simp: sends_def)
  with InspectorAgent show ?thesis by simp
next
  case PlannerAgent
  have "ext (sends PlannerAgent m) sy (fst (planner_dispatch (dp_planner dp) ve m sy))"
    by (rule planner_sends.ext_planner) (auto simp: sends_def)
  with PlannerAgent show ?thesis by simp
next
  case VerifierAgent
  then show ?thesis by (simp add: verifier_sends.ext_verifier)
next
  case AnalystAgent
  then show ?thesis by (simp add: sends.ext_analyst)
qed

text \<open>What a request does: the route gets it with an identity the authenticator accepted, or with none.\<close>

definition caller :: "'k auth_env \<Rightarrow> jwt_config \<Rightarrow> http_request \<Rightarrow> 'k jwks_cache \<Rightarrow> identity option \<Rightarrow> bool" where
  "caller e cfg r c idn = (case idn of None \<Rightarrow> auth_exempt (hr_path r)
     | Some d \<Rightarrow> snd (jwt_authenticate e cfg (auth_request_of r) c) = Inr d)"

lemma caller_simps [simp]:
  "caller e cfg r c None = auth_exempt (hr_path r)"
  "caller e cfg r c (Some d) = (snd (jwt_authenticate e cfg (auth_request_of r) c) = Inr d)"
  by (simp_all add: caller_def)

lemma mux_serve_api:
  "sv_api (fst (mux_serve w r sv)) = sv_api sv \<or>
   sv_api (fst (mux_serve w r sv)) = fst (api_route (hw_api w) (hw_env w) (hw_memory_failure w) r (sv_api sv))"
  by (auto simp: mux_serve_def Let_def split: prod.splits)

lemma authenticated_api:
  "sv_api (fst (authenticated w r sv)) = sv_api sv \<or>
   (\<exists>idn. sv_api (fst (authenticated w r sv)) =
       fst (api_route (hw_api w) (hw_env w) (hw_memory_failure w) (r\<lparr>hr_identity := idn\<rparr>) (sv_api sv)) \<and>
     caller (hw_auth w) (hw_jwt w) r (sv_jwks sv) idn)"
proof (cases "auth_exempt (hr_path r)")
  case True
  then show ?thesis using mux_serve_api [of w "r\<lparr>hr_identity := None\<rparr>" sv]
    by (auto simp: authenticated_def intro: exI [of _ None])
next
  case False
  obtain c x where j: "jwt_authenticate (hw_auth w) (hw_jwt w) (auth_request_of r) (sv_jwks sv) = (c, x)" by fastforce
  show ?thesis
  proof (cases x)
    case (Inl err)
    with False j show ?thesis by (cases err) (auto simp: authenticated_def Let_def)
  next
    case (Inr d)
    with False j mux_serve_api [of w "r\<lparr>hr_identity := Some d\<rparr>" "sv\<lparr>sv_jwks := c\<rparr>"] show ?thesis
      by (auto simp: authenticated_def Let_def intro: exI [of _ "Some d"])
  qed
qed

lemma http_serve_api:
  "sv_api (fst (http_serve w r sv)) = sv_api sv \<or>
   (\<exists>idn. sv_api (fst (http_serve w r sv)) =
       fst (api_route (hw_api w) (hw_env w) (hw_memory_failure w) (r\<lparr>hr_identity := idn\<rparr>) (sv_api sv)) \<and>
     caller (hw_auth w) (hw_jwt w) r (sv_jwks sv) idn)"
  using authenticated_api [of w r sv] by (simp add: http_serve_core)

lemma ext_new: "ext P sy sy' \<Longrightarrow> sy_trace sy' = sy_trace sy @ es \<Longrightarrow> list_all P es"
  by (auto simp: ext_def)

text \<open>Every happening extends the trace, and the bus changes as the new effects say, after a message
  that was received has been taken from it.\<close>

definition from_bus :: "bus \<Rightarrow> bus \<Rightarrow> bool" where
  "from_bus b b' = ((wired b \<longrightarrow> wired b') \<and> (\<forall>c. set (ch_queue (bs_chans b' c)) \<subseteq> set (ch_queue (bs_chans b c))))"

lemma from_bus_refl: "from_bus b b" by (simp add: from_bus_def)

definition happened :: "'k server \<Rightarrow> 'k server \<Rightarrow> effect list \<Rightarrow> bool" where
  "happened sv sv' es = (sy_trace (sys_of sv') = sy_trace (sys_of sv) @ es \<and>
     (\<exists>b. from_bus (sy_bus (sys_of sv)) b \<and> sy_bus (sys_of sv') = fold deliver es b))"

lemma happened_ext: "ext P (sys_of sv) (sys_of sv') \<Longrightarrow> \<exists>es. happened sv sv' es"
  using from_bus_refl by (auto simp: ext_def happened_def)

lemma request_ext: "\<exists>r'. ext (api_send r') (sys_of sv) (sys_of (fst (http_serve w r sv)))"
proof -
  from http_serve_api [of w r sv] consider "sv_api (fst (http_serve w r sv)) = sv_api sv" |
    idn where "sv_api (fst (http_serve w r sv)) =
       fst (api_route (hw_api w) (hw_env w) (hw_memory_failure w) (r\<lparr>hr_identity := idn\<rparr>) (sv_api sv))" by blast
  then show ?thesis by cases (simp_all add: sys_of_def, metis ext_api_route)
qed

lemma happen_happened: "\<exists>es. happened sv (happen dp h sv) es"
proof (cases h)
  case (Request w r)
  then show ?thesis using request_ext happened_ext by fastforce
next
  case (Receive a sched)
  show ?thesis
  proof (cases "bus_receive (inbox a) (sy_bus (sys_of sv))")
    case None
    then show ?thesis using from_bus_refl by (auto simp: Receive receive_def happened_def)
  next
    case (Some p)
    obtain m b where p: "p = (m, b)" by fastforce
    have "from_bus (sy_bus (sys_of sv)) b"
      using Some p by (auto simp: from_bus_def intro: wired_receive dest: queued_receive)
    moreover have "ext (sends a m) ((sys_of sv)\<lparr>sy_bus := b\<rparr>) (sys_of (happen dp h sv))"
      using Some p by (simp add: Receive receive_def ext_agent_handle)
    ultimately show ?thesis by (auto simp: ext_def happened_def)
  qed
next
  case (Scan sched)
  have "ext (sends VerifierAgent undefined) (sys_of sv) (sys_of (happen dp h sv))"
    by (simp add: Scan verifier_sends.ext_scan)
  then show ?thesis by (rule happened_ext)
qed

text \<open>What is in an inbox was sent to its agent by an earlier happening.\<close>

lemma run_wired: "just_started sv \<Longrightarrow> wired (sy_bus (sys_of (run_system dp hs sv)))"
proof (induction hs rule: rev_induct)
  case (snoc h hs)
  then show ?case using happen_happened [of "run_system dp hs sv" dp h]
    by (auto simp: happened_def from_bus_def wired_delivered)
qed (simp add: just_started_def wired_start)

lemma queued_history:
  assumes "just_started sv" "m \<in> set (ch_queue (bs_chans (sy_bus (sys_of (run_system dp hs sv))) (inbox a)))"
  shows "\<exists>hs1 h hs2 es. hs = hs1 @ h # hs2 \<and> ESend (topic a) m \<in> set es \<and>
    sy_trace (sys_of (happen dp h (run_system dp hs1 sv))) = sy_trace (sys_of (run_system dp hs1 sv)) @ es"
  using assms(2)
proof (induction hs rule: rev_induct)
  case Nil
  have "ch_queue (bs_chans start_bus c) = []" for c
    by (simp add: start_bus_def bus_subscribe_def new_bus_def)
  with Nil assms(1) show ?case by (simp add: just_started_def)
next
  case (snoc h hs)
  let ?sv = "run_system dp hs sv"
  obtain es b where h: "sy_trace (sys_of (happen dp h ?sv)) = sy_trace (sys_of ?sv) @ es"
    "from_bus (sy_bus (sys_of ?sv)) b" "sy_bus (sys_of (happen dp h ?sv)) = fold deliver es b"
    using happen_happened [of ?sv dp h] by (auto simp: happened_def)
  have "wired b" using h(2) run_wired [OF assms(1)] by (simp add: from_bus_def)
  from queued_delivered [OF this] snoc.prems h(3)
  have "m \<in> set (ch_queue (bs_chans b (inbox a))) \<or> ESend (topic a) m \<in> set es" by simp
  then show ?case
  proof
    assume "m \<in> set (ch_queue (bs_chans b (inbox a)))"
    with h(2) have "m \<in> set (ch_queue (bs_chans (sy_bus (sys_of ?sv)) (inbox a)))" by (auto simp: from_bus_def)
    from snoc.IH [OF this] show ?thesis by (metis append_Cons append_assoc)
  next
    assume "ESend (topic a) m \<in> set es"
    with h(1) show ?thesis by blast
  qed
qed

end
