(* ===== verification/System_Props.thy ===== *)
theory System_Props
  imports System_Model
begin

text \<open>
  Properties of the agents together: what reaches the verifier goes back to a request whose caller
  the authenticator accepted, through every inbox on the way.
\<close>

subsection \<open>Where a message comes from\<close>

lemma received_by:
  assumes "happen dp (Receive a sched) sv = sv'" "sy_trace (sys_of sv') = sy_trace (sys_of sv) @ es" "e \<in> set es"
  shows "\<exists>m b. bus_receive (inbox a) (sy_bus (sys_of sv)) = Some (m, b) \<and> sends a m e \<and>
    sys_of sv' = agent_handle dp (agent_env dp sv) sched a m ((sys_of sv)\<lparr>sy_bus := b\<rparr>)"
proof (cases "bus_receive (inbox a) (sy_bus (sys_of sv))")
  case None
  with assms show ?thesis by (auto simp: receive_def)
next
  case (Some p)
  obtain m b where p: "p = (m, b)" by fastforce
  let ?sy = "(sys_of sv)\<lparr>sy_bus := b\<rparr>"
  have sv': "sys_of sv' = agent_handle dp (agent_env dp sv) sched a m ?sy"
    using Some p assms(1) by (auto simp: receive_def)
  have "list_all (sends a m) es"
    by (rule ext_new [OF ext_agent_handle [of a m ?sy dp "agent_env dp sv" sched]]) (use sv' assms(2) in simp)
  with assms(3) Some p sv' show ?thesis by (auto simp: list_all_iff)
qed

lemma scanned:
  assumes "sy_trace (sys_of (happen dp (Scan sched) sv)) = sy_trace (sys_of sv) @ es" "ESend t m \<in> set es"
  shows "t \<in> {''api'', ''analyst''}"
proof -
  have "ext (sends AnalystAgent undefined) (sys_of sv) (sys_of (happen dp (Scan sched) sv))" by (simp add: verifier_sends.ext_scan)
  from ext_new [OF this assms(1)] assms(2) show ?thesis by (auto simp: list_all_iff sends_def)
qed

lemma served_by_simps [simp]:
  "hw_api (served_by dp sv w) = dp_api dp" "hw_env (served_by dp sv w) = agent_env dp sv" "hw_jwt (served_by dp sv w) = dp_jwt dp"
  "hw_auth (served_by dp sv w) = hw_auth w" "hw_memory_failure (served_by dp sv w) = hw_memory_failure w"
  by (simp_all add: served_by_def)

text \<open>A request that sends has an identity, unless it delivers a callback.\<close>

lemma requested:
  assumes "sy_trace (sys_of (happen dp (Request w r) sv)) = sy_trace (sys_of sv) @ es" "e \<in> set es"
  shows "\<exists>idn. sv_api (happen dp (Request w r) sv) =
       fst (api_route (dp_api dp) (agent_env dp sv) (hw_memory_failure w) (r\<lparr>hr_identity := idn\<rparr>) (sv_api sv)) \<and>
     api_send (r\<lparr>hr_identity := idn\<rparr>) e \<and>
     caller (hw_auth w) (dp_jwt dp) r (sv_jwks sv) idn"
proof -
  have "sv_api (happen dp (Request w r) sv) \<noteq> sv_api sv" using assms by (auto simp: sys_of_def)
  with http_serve_api [of "served_by dp sv w" r sv] obtain idn where
    a: "sv_api (happen dp (Request w r) sv) =
       fst (api_route (dp_api dp) (agent_env dp sv) (hw_memory_failure w) (r\<lparr>hr_identity := idn\<rparr>) (sv_api sv))"
     "caller (hw_auth w) (dp_jwt dp) r (sv_jwks sv) idn"
    by auto
  have "ext (api_send (r\<lparr>hr_identity := idn\<rparr>)) (sys_of sv) (sys_of (happen dp (Request w r) sv))"
    unfolding sys_of_def a(1) by (rule ext_api_route)
  from ext_new [OF this assms(1)] assms(2) a show ?thesis by (auto simp: list_all_iff)
qed

subsection \<open>Decisions\<close>

lemma decision_route:
  "hr_path r = ''/task/approve'' \<Longrightarrow> api_route ap ve failure r s = on_reply (handle_human_decision_request ap ve ''approved'' r) s"
  "hr_path r = ''/task/reject'' \<Longrightarrow> api_route ap ve failure r s = on_reply (handle_human_decision_request ap ve ''rejected'' r) s"
  by (simp_all add: api_route_def)

lemma decision_posted: "sy_trace (fst (handle_human_decision_request ap ve decision r sy)) = sy_trace sy @ es \<Longrightarrow> es \<noteq> [] \<Longrightarrow>
    hr_method r = ''POST''"
  by (auto simp: handle_human_decision_request_def Let_def split: if_splits)

text \<open>
  C2: every human decision that the verifier takes from its inbox was given by a person, in a request to
  approve or reject: the authenticator accepted the caller, the task's record then waited at the gate
  the decision names, the caller owns the task or holds the oversight function, and is not its owner
  where the governance model keeps ai.use and oversight apart. No agent, callback or timer decides.
\<close>

theorem decision_traced_to_reviewer:
  assumes "just_started sv0" "ms_type m = ''human_decision''"
    and "bus_receive (inbox VerifierAgent) (sy_bus (sys_of (run_system dp hs sv0))) = Some (m, b)"
  shows "\<exists>hs1 w r hs2 sv d st decision. hs = hs1 @ Request w r # hs2 \<and> sv = run_system dp hs1 sv0 \<and>
    snd (jwt_authenticate (hw_auth w) (dp_jwt dp) (auth_request_of r) (sv_jwks sv)) = Inr d \<and> hr_method r = ''POST'' \<and>
    (hr_path r, decision) \<in> {(''/task/approve'', ''approved''), (''/task/reject'', ''rejected'')} \<and>
    mget (sy_tasks (sys_of sv)) (hr_query r ''id'') = Some st \<and> es_gate st = hr_query r ''gate'' \<and>
    es_gate st \<notin> {'''', ''clarification''} \<and> (es_user st = idn_user d \<or> ''oversight'' \<in> set (idn_functions d)) \<and>
    (incompatible (ap_gov (dp_api dp)) ''ai.use'' ''oversight'' \<longrightarrow> es_user st \<noteq> idn_user d) \<and>
    ms_payload m = decision_payload (hr_query r ''id'') (hr_query r ''gate'') decision (idn_user d)"
proof -
  from queued_history [OF assms(1) received_queued [OF assms(3)]] obtain hs1 h hs2 es where
    h: "hs = hs1 @ h # hs2" "ESend (topic VerifierAgent) m \<in> set es"
      "sy_trace (sys_of (happen dp h (run_system dp hs1 sv0))) = sy_trace (sys_of (run_system dp hs1 sv0)) @ es" by blast
  define sv where "sv = run_system dp hs1 sv0"
  note h = h [folded sv_def]
  show ?thesis
  proof (cases h)
    case (Receive a sched)
    from received_by [of dp a sched sv _ es, OF refl _ h(2)] h(3) Receive assms(2) show ?thesis by (auto simp: sends_def)
  next
    case (Scan sched)
    have "topic VerifierAgent \<in> {''api'', ''analyst''}"
      by (rule scanned [of dp sched sv es _ m]) (use h(2,3) Scan in simp_all)
    then show ?thesis by simp
  next
    case (Request w r)
    from requested [of dp w r sv es, OF _ h(2)] h(3) Request obtain idn where
      q: "sv_api (happen dp h sv) = fst (api_route (dp_api dp) (agent_env dp sv) (hw_memory_failure w) (r\<lparr>hr_identity := idn\<rparr>) (sv_api sv))"
        "api_send (r\<lparr>hr_identity := idn\<rparr>) (ESend ''verifier'' m)" "caller (hw_auth w) (dp_jwt dp) r (sv_jwks sv) idn" by auto
    then have path: "hr_path r \<in> {''/task/approve'', ''/task/reject''}" using assms(2) by (auto simp: api_send_def)
    then obtain decision where dec: "(hr_path r, decision) \<in> {(''/task/approve'', ''approved''), (''/task/reject'', ''rejected'')}" by auto
    let ?h = "handle_human_decision_request (dp_api dp) (agent_env dp sv) decision (r\<lparr>hr_identity := idn\<rparr>) (as_sys (sv_api sv))"
    obtain sy' rep where hd: "?h = (sy', rep)" by fastforce
    have "sys_of (happen dp h sv) = sy'"
      using q(1) dec hd by (auto simp: sys_of_def decision_route on_reply_def)
    with h(3) have tr: "sy_trace sy' = sy_trace (as_sys (sv_api sv)) @ es" by (simp add: sys_of_def)
    from decision_sent [OF hd tr, of "''verifier''" m] h(2) obtain d st where d: "idn = Some d"
      "mget (sy_tasks (as_sys (sv_api sv))) (hr_query r ''id'') = Some st" "es_gate st = hr_query r ''gate''"
      "es_gate st \<notin> {'''', ''clarification''}" "es_user st = idn_user d \<or> ''oversight'' \<in> set (idn_functions d)"
      "incompatible (ap_gov (dp_api dp)) ''ai.use'' ''oversight'' \<longrightarrow> es_user st \<noteq> idn_user d"
      "ms_payload m = decision_payload (hr_query r ''id'') (hr_query r ''gate'') decision (idn_user d)"
      by auto
    have "es \<noteq> []" using h(2) by auto
    with decision_posted [of "dp_api dp" "agent_env dp sv" decision "r\<lparr>hr_identity := idn\<rparr>" "as_sys (sv_api sv)" es] tr hd
    have "hr_method r = ''POST''" by simp
    moreover have "mget (sy_tasks (sys_of sv)) (hr_query r ''id'') = Some st" using d(2) by (simp add: sys_of_def)
    ultimately show ?thesis
      using h(1) Request q(3) dec d(1,3-7)
      by (intro exI [of _ hs1] exI [of _ w] exI [of _ r] exI [of _ hs2] exI [of _ sv] exI [of _ d] exI [of _ st]
          exI [of _ decision] conjI) (simp_all add: sv_def)
  qed
qed

definition demo_deployment :: "env \<Rightarrow> deployment" where
  "demo_deployment ve = \<lparr>dp_api = demo_api, dp_planner = demo_planner GNil,
     dp_analyst = \<lparr>an_template = (\<lambda>_ _ _ _. ''''), an_add = (\<lambda>_. None)\<rparr>, dp_env = ve, dp_jwt = demo_jwt_config,
     dp_llm = (\<lambda>_. None)\<rparr>"

definition on_start :: "sys \<Rightarrow> unit server" where
  "on_start sy = demo_server (sy\<lparr>sy_bus := start_bus\<rparr>)"

lemma just_started_demo: "just_started (on_start (demo_sys tasks))"
  by (simp add: just_started_def on_start_def sys_of_def demo_server_def demo_sys_def)

text \<open>Ana, whose token carries a role, and who approves her task.\<close>

definition bare_env :: env where "bare_env = demo_env (demo_cfg [] []) (\<lambda>_ _ _ _. Inr [])"

definition approve_request :: http_request where
  "approve_request = bearing ''tok'' (demo_request ''POST'' ''/task/approve'' [(''id'', ''t1''), (''gate'', ''review'')] None)"

definition approving :: "unit happening list" where
  "approving = [Request (token_world bare_env ''oversight'') approve_request]"

lemma decision_traced_to_reviewer_witness:
  "\<exists>m b st. bus_receive (inbox VerifierAgent) (sy_bus (sys_of (run_system (demo_deployment bare_env) approving
       (on_start (demo_sys [(''t1'', ana_task)]))))) = Some (m, b) \<and> ms_type m = ''human_decision'' \<and>
     mget [(''t1'', ana_task)] ''t1'' = Some st \<and> es_gate st = ''review''"
proof -
  let ?dp = "demo_deployment bare_env" and ?sv = "on_start (demo_sys [(''t1'', ana_task)])"
  let ?b = "bus_receive (inbox VerifierAgent) (sy_bus (sys_of (run_system ?dp approving ?sv)))"
  have "map_option (ms_type \<circ> fst) ?b = Some ''human_decision''" by code_simp
  then obtain m b where m: "?b = Some (m, b)" "ms_type m = ''human_decision''" by auto
  from decision_traced_to_reviewer [OF just_started_demo m(2,1)] obtain hs1 w r hs2 sv st where
    h: "approving = hs1 @ Request w r # hs2" "sv = run_system ?dp hs1 ?sv" "mget (sy_tasks (sys_of sv)) (hr_query r ''id'') = Some st"
      "es_gate st = hr_query r ''gate''" by blast
  then have "hs1 = []" "r = approve_request" by (simp_all add: approving_def append_eq_Cons_conv Cons_eq_append_conv)
  with h m show ?thesis
    by (auto simp: approve_request_def bearing_def demo_request_def on_start_def demo_server_def sys_of_def demo_sys_def)
qed

subsection \<open>Runs\<close>

text \<open>What the planner and the inspector take from their inboxes.\<close>

lemma inspector_history:
  assumes "just_started sv0" "m \<in> set (ch_queue (bs_chans (sy_bus (sys_of (run_system dp hs sv0))) (inbox InspectorAgent)))"
  shows "\<exists>hs1 w r hs2 d sv. hs = hs1 @ Request w r # hs2 \<and> sv = run_system dp hs1 sv0 \<and>
    snd (jwt_authenticate (hw_auth w) (dp_jwt dp) (auth_request_of r) (sv_jwks sv)) = Inr d \<and>
    hr_path r \<in> {''/ask'', ''/ask_structured''} \<and> mget (ms_payload m) ''identity'' = Some (PIdent (Some d))"
proof -
  from queued_history [OF assms] obtain hs1 h hs2 es where
    h: "hs = hs1 @ h # hs2" "ESend (topic InspectorAgent) m \<in> set es"
      "sy_trace (sys_of (happen dp h (run_system dp hs1 sv0))) = sy_trace (sys_of (run_system dp hs1 sv0)) @ es" by blast
  define sv where "sv = run_system dp hs1 sv0"
  note h = h [folded sv_def]
  show ?thesis
  proof (cases h)
    case (Receive a sched)
    from received_by [of dp a sched sv _ es, OF refl _ h(2)] h(3) Receive show ?thesis by (auto simp: sends_def)
  next
    case (Scan sched)
    have "topic InspectorAgent \<in> {''api'', ''analyst''}"
      by (rule scanned [of dp sched sv es _ m]) (use h(2,3) Scan in simp_all)
    then show ?thesis by simp
  next
    case (Request w r)
    from requested [of dp w r sv es, OF _ h(2)] h(3) Request obtain idn where
      q: "api_send (r\<lparr>hr_identity := idn\<rparr>) (ESend ''inspector'' m)" "caller (hw_auth w) (dp_jwt dp) r (sv_jwks sv) idn" by auto
    then have p: "hr_path r \<in> {''/ask'', ''/ask_structured''}" "mget (ms_payload m) ''identity'' = Some (PIdent idn)"
      by (auto simp: api_send_def)
    then obtain d where "idn = Some d" using q(2) by (cases idn) (auto simp: auth_exempt_def callback_prefix_def has_prefix_def)
    with p q(2) h(1) Request show ?thesis
      by (intro exI [of _ hs1] exI [of _ w] exI [of _ r] exI [of _ hs2] exI [of _ d] exI [of _ sv]) (simp add: sv_def)
  qed
qed

text \<open>What a run that follows a clarification has passed: the record waited for it, and the guard-rails and the gate accept.\<close>

definition clarified_run :: "planner \<Rightarrow> env \<Rightarrow> string \<Rightarrow> string \<Rightarrow> exec_state \<Rightarrow> message \<Rightarrow> bool" where
  "clarified_run pl ve i answer st m \<longleftrightarrow> es_gate st = ''clarification'' \<and>
    (\<exists>it pipe params d. mget (cf_intents (we_cfg ve)) (es_intent st) = Some it \<and>
      mget (cf_pipelines (we_cfg ve)) (it_pipeline it) = Some pipe \<and> missing_params it params = [] \<and>
      validate_all (we_ff ve) (we_getenv ve) it pipe params (cf_tools (we_cfg ve)) = None \<and>
      ms_payload m = run_payload i (es_session st) (es_intent st) pipe params ''es'' answer d \<and>
      (pl_governed pipe \<longrightarrow> recorded_allow pl ve i (es_user st) (pl_name pipe) pipe d))"

lemma run_clarified_cases:
  "norun sy (run_clarified pl ve i answer it pipe params (st0\<lparr>es_params := ps\<rparr>) sy) \<or>
   (\<exists>es d. sy_trace (run_clarified pl ve i answer it pipe params (st0\<lparr>es_params := ps\<rparr>) sy) = sy_trace sy @ es @
      [ESend ''verifier'' \<lparr>ms_type = ''run_pipeline'', ms_payload =
         run_payload i (es_session st0) (es_intent st0) pipe params ''es'' answer d\<rparr>] \<and> list_all (\<lambda>e. \<not> is_run e) es \<and>
      validate_all (we_ff ve) (we_getenv ve) it pipe params (cf_tools (we_cfg ve)) = None \<and>
      (pl_governed pipe \<longrightarrow> recorded_allow pl ve i (es_user st0) (pl_name pipe) pipe d))"
proof -
  obtain sy1 st err where s: "save_state ve (st0\<lparr>es_params := ps, es_gate := '''', es_missing := [], es_ai_system := pl_ai_system pipe\<rparr>) sy = (sy1, st, err)"
    using prod_cases3 by blast
  then have st: "es_session st = es_session st0" "es_intent st = es_intent st0" "es_user st = es_user st0"
    by (auto simp: save_state_def Let_def stamp_created_def split: if_splits option.splits)
  obtain sy2 d b where g: "governance_gate pl ve i (es_session st) (es_user st) (es_intent st) (pl_name pipe) pipe params sy1 = (sy2, d, b)"
    using prod_cases3 by blast
  note q1 = norun_save [OF s] and q2 = ext_trans [OF norun_save [OF s] norun_gate [OF g]]
  show ?thesis
  proof (cases "validate_all (we_ff ve) (we_getenv ve) it pipe params (cf_tools (we_cfg ve)) = None \<and> b")
    case False
    with s g ext_trans [OF q1 norun_result] q2 show ?thesis
      by (cases b) (auto simp: run_clarified_def Let_def split: option.splits)
  next
    case True
    from q2 obtain es where es: "sy_trace sy2 = sy_trace sy @ es" "list_all (\<lambda>e. \<not> is_run e) es" by (auto simp: ext_def)
    from True g governance_gate_True [of pl ve i "es_session st" "es_user st" "es_intent st" "pl_name pipe" pipe params sy1 sy2 d]
    have "pl_governed pipe \<longrightarrow> recorded_allow pl ve i (es_user st0) (pl_name pipe) pipe d" by (simp add: st)
    with True s g es st show ?thesis
      by (intro disjI2 exI [of _ "es @ [EEvent i ''Planner'' ''intent'' (es_intent st0)]"] exI [of _ d])
        (simp add: run_clarified_def)
  qed
qed

lemma apply_clarification_cases:
  "norun sy (apply_clarification pl ve i answer found st sy) \<or>
   (\<exists>it pipe params. mget (cf_intents (we_cfg ve)) (es_intent st) = Some it \<and>
      mget (cf_pipelines (we_cfg ve)) (it_pipeline it) = Some pipe \<and> missing_params it params = [] \<and>
      apply_clarification pl ve i answer found st sy =
        run_clarified pl ve i answer it pipe params (st\<lparr>es_params := Some params\<rparr>) sy)"
  by (auto simp: apply_clarification_def Let_def intro: norun_ask_again split: option.splits)

lemma clarify_cases:
  assumes "handle_clarify_intent pl ve msg sy = (sy', ok)"
  shows "norun sy sy' \<or> (\<exists>st found sy2. mget (sy_tasks sy) (get_string0 (ms_payload msg) ''id'') = Some st \<and>
    es_gate st = ''clarification'' \<and> norun sy sy2 \<and>
    sy' = apply_clarification pl ve (get_string0 (ms_payload msg) ''id'') (get_string0 (ms_payload msg) ''message'') found st sy2)"
proof -
  let ?i = "get_string0 (ms_payload msg) ''id''" and ?text = "get_string0 (ms_payload msg) ''message''"
  obtain sy1 r where l: "load_state ve ?i sy = (sy1, r)" by fastforce
  note e1 = norun_load [OF l]
  show ?thesis
  proof (cases "\<exists>st. r = Inr (Some st) \<and> es_gate st = ''clarification''")
    case True
    then obtain st where st: "r = Inr (Some st)" "es_gate st = ''clarification''" by blast
    then have stored: "mget (sy_tasks sy) ?i = Some st" using l by (simp add: load_state_Some)
    obtain sy2 q where q: "extract_params pl ve ?text (es_missing st) sy1 = (sy2, q)" by fastforce
    note e2 = ext_trans [OF e1 norun_extract [OF q]]
    show ?thesis using st stored e2 assms l q ext_trans [OF e2 norun_error]
      by (auto simp: handle_clarify_intent_def Let_def split: if_splits option.splits sum.splits)
  next
    case False
    then show ?thesis using assms l ext_trans [OF e1 norun_error]
      by (auto simp: handle_clarify_intent_def Let_def split: if_splits option.splits sum.splits prod.splits)
  qed
qed

lemma clarify_run_checked:
  assumes "handle_clarify_intent pl ve msg sy = (sy', ok)"
    and "sy_trace sy' = sy_trace sy @ es @ [ESend ''verifier'' m] @ rest" "ms_type m = ''run_pipeline''"
  shows "\<exists>st. mget (sy_tasks sy) (get_string0 (ms_payload msg) ''id'') = Some st \<and>
    clarified_run pl ve (get_string0 (ms_payload msg) ''id'') (get_string0 (ms_payload msg) ''message'') st m"
proof -
  let ?i = "get_string0 (ms_payload msg) ''id''" and ?text = "get_string0 (ms_payload msg) ''message''"
  have runs: "\<not> norun sy sy'" using assms(2,3) by (auto simp: ext_def)
  with clarify_cases [OF assms(1)] obtain st found sy2 where st: "mget (sy_tasks sy) ?i = Some st" "es_gate st = ''clarification''"
      "norun sy sy2" "sy' = apply_clarification pl ve ?i ?text found st sy2" by blast
  have quiet: "\<not> norun sy2 sy'" using st(3) runs ext_trans by blast
  with apply_clarification_cases [of sy2 pl ve ?i ?text found st, folded st(4)] obtain it pipe params where r:
      "mget (cf_intents (we_cfg ve)) (es_intent st) = Some it" "mget (cf_pipelines (we_cfg ve)) (it_pipeline it) = Some pipe"
      "missing_params it params = []" "sy' = run_clarified pl ve ?i ?text it pipe params (st\<lparr>es_params := Some params\<rparr>) sy2"
    by blast
  with quiet run_clarified_cases [where sy = sy2 and i = ?i and answer = ?text and ?st0.0 = st and ps = "Some params", folded r(4)] obtain es1 d where c:
      "sy_trace sy' = sy_trace sy2 @ es1 @ [ESend ''verifier'' \<lparr>ms_type = ''run_pipeline'', ms_payload =
         run_payload ?i (es_session st) (es_intent st) pipe params ''es'' ?text d\<rparr>]" "list_all (\<lambda>e. \<not> is_run e) es1"
      "validate_all (we_ff ve) (we_getenv ve) it pipe params (cf_tools (we_cfg ve)) = None"
      "pl_governed pipe \<longrightarrow> recorded_allow pl ve ?i (es_user st) (pl_name pipe) pipe d"
    by blast
  from st(3) obtain pre where pre: "sy_trace sy2 = sy_trace sy @ pre" "list_all (\<lambda>e. \<not> is_run e) pre" by (auto simp: ext_def)
  have "sy_trace sy @ es @ [ESend ''verifier'' m] @ rest = sy_trace sy @ (pre @ es1) @ [ESend ''verifier''
      \<lparr>ms_type = ''run_pipeline'', ms_payload = run_payload ?i (es_session st) (es_intent st) pipe params ''es'' ?text d\<rparr>]"
    using assms(2) c(1) pre(1) by simp
  from run_only_last [OF this _ assms(3)] pre(2) c(2)
  have "ms_payload m = run_payload ?i (es_session st) (es_intent st) pipe params ''es'' ?text d" by auto
  with st(1,2) r(1-3) c(3,4) show ?thesis unfolding clarified_run_def by blast
qed

text \<open>An answer to a clarification comes from the owner of the task, whose record then waits for it.\<close>

definition clarify_message :: "string \<Rightarrow> string \<Rightarrow> message" where
  "clarify_message i answer = \<lparr>ms_type = ''clarify_intent'', ms_payload = [(''id'', PS i), (''message'', PS answer)]\<rparr>"

lemma clarify_request_sent:
  assumes "clarify_request ve r sy = (sy', rep)" "sy_trace sy' = sy_trace sy @ es" "ESend target m \<in> set es"
  shows "\<exists>d st answer. hr_identity r = Some d \<and> mget (sy_tasks sy) (hr_query r ''id'') = Some st \<and>
    es_gate st = ''clarification'' \<and> es_user st = idn_user d \<and> target = ''planner'' \<and> m = clarify_message (hr_query r ''id'') answer"
proof -
  let ?i = "hr_query r ''id''"
  obtain sy1 x where a: "require_task_access ve r ?i [] sy = (sy1, x)" by fastforce
  note tr = require_task_access_trace [OF a]
  have "\<exists>d st. x = Inr (d, st)" using assms a tr
    by (cases x) (auto simp: clarify_request_def Let_def split: if_splits)
  then obtain d st where x: "x = Inr (d, st)" by blast
  with a have acc: "signed_in r = Some d" "load_state ve ?i sy = (sy1, Inr (Some st))" "may_access d [] st"
    by (simp_all add: require_task_access_Inr)
  have "\<exists>answer. es_gate st = ''clarification'' \<and> es = [EEvent ?i ''Api'' ''reply'' answer, ESend ''planner'' (clarify_message ?i answer)]"
    using assms a x tr by (auto simp: clarify_request_def Let_def clarify_message_def split: if_splits option.splits)
  with assms(3) acc show ?thesis
    by (auto simp: signed_in_Some load_state_Some may_access_def holds_any_def)
qed

lemma clarify_reply_sent:
  assumes "sy_trace (as_sys (fst (handle_clarify_reply ap ve r s))) = sy_trace (as_sys s) @ es" "ESend target m \<in> set es"
  shows "hr_method r = ''POST'' \<and> (\<exists>d st answer. hr_identity r = Some d \<and> mget (sy_tasks (as_sys s)) (hr_query r ''id'') = Some st \<and>
    es_gate st = ''clarification'' \<and> es_user st = idn_user d \<and> target = ''planner'' \<and> m = clarify_message (hr_query r ''id'') answer)"
proof -
  obtain bs ok where rl: "acquire_rl (now_of ve (as_sys s)) (get_client_key r) (as_buckets s) = (bs, ok)" by fastforce
  obtain sy' rep where c: "clarify_request ve r (next_tick (as_sys s)) = (sy', rep)" by fastforce
  have h: "hr_method r = ''POST''" "handle_clarify_reply ap ve r s = on_reply (clarify_request ve r) (on_sys next_tick (s\<lparr>as_buckets := bs\<rparr>))"
    using assms rl by (auto simp: handle_clarify_reply_def rate_limited_def Let_def on_sys_def split: if_splits)
  with c have "as_sys (fst (handle_clarify_reply ap ve r s)) = sy'" by (simp add: on_reply_def on_sys_def)
  with assms(1) have "sy_trace sy' = sy_trace (next_tick (as_sys s)) @ es" by simp
  from clarify_request_sent [OF c this assms(2)] h(1) show ?thesis by (simp add: next_tick_def)
qed

lemma reply_route: "hr_path r = ''/task/reply'' \<Longrightarrow> api_route ap ve failure r s = handle_clarify_reply ap ve r s"
  by (simp add: api_route_def)

lemma planner_history:
  assumes "just_started sv0" "m \<in> set (ch_queue (bs_chans (sy_bus (sys_of (run_system dp hs sv0))) (inbox PlannerAgent)))"
  shows "ms_type m \<in> {''detect_intent'', ''clarify_intent''} \<and> (ms_type m = ''detect_intent'' \<longrightarrow>
    (\<exists>hs1 hs2 im i mode. hs = hs1 @ hs2 \<and> ms_payload m = forward_payload i mode (ms_payload im) \<and>
      im \<in> set (ch_queue (bs_chans (sy_bus (sys_of (run_system dp hs1 sv0))) (inbox InspectorAgent)))))"
  using assms(2)
proof (induction hs arbitrary: m rule: length_induct)
  case (1 hs)
  from queued_history [OF assms(1) 1(2)] obtain hs1 h hs2 es where
    h: "hs = hs1 @ h # hs2" "ESend (topic PlannerAgent) m \<in> set es"
      "sy_trace (sys_of (happen dp h (run_system dp hs1 sv0))) = sy_trace (sys_of (run_system dp hs1 sv0)) @ es" by blast
  define sv where "sv = run_system dp hs1 sv0"
  note h = h [folded sv_def]
  show ?case
  proof (cases h)
    case (Receive a sched)
    from received_by [of dp a sched sv _ es, OF refl _ h(2)] h(3) Receive obtain rm b where
      rm: "bus_receive (inbox a) (sy_bus (sys_of sv)) = Some (rm, b)" "sends a rm (ESend ''planner'' m)" by auto
    note q = received_queued [OF rm(1)]
    show ?thesis
    proof (cases "a = PlannerAgent")
      case True
      have "length hs1 < length hs" using h(1) by simp
      with 1(1) q True have "ms_type rm \<in> {''detect_intent'', ''clarify_intent''}" unfolding sv_def by blast
      with rm(2) True show ?thesis by (auto simp: sends_def)
    next
      case False
      with rm(2) have "a = InspectorAgent" "ms_type m = ''detect_intent''" "\<exists>i mode. ms_payload m = forward_payload i mode (ms_payload rm)"
        by (auto simp: sends_def)
      with q h(1) show ?thesis unfolding sv_def by blast
    qed
  next
    case (Scan sched)
    have "topic PlannerAgent \<in> {''api'', ''analyst''}"
      by (rule scanned [of dp sched sv es _ m]) (use h(2,3) Scan in simp_all)
    then show ?thesis by simp
  next
    case (Request w r)
    from requested [of dp w r sv es, OF _ h(2)] h(3) Request show ?thesis by (auto simp: api_send_def)
  qed
qed

text \<open>An answer to a clarification: a request to /task/reply of someone the authenticator accepted, who owns the waiting task.\<close>

definition answered_clarification :: "deployment \<Rightarrow> 'k server \<Rightarrow> 'k http_world \<Rightarrow> http_request \<Rightarrow> bool" where
  "answered_clarification dp sv w r \<longleftrightarrow> hr_method r = ''POST'' \<and> hr_path r = ''/task/reply'' \<and>
    (\<exists>d st. snd (jwt_authenticate (hw_auth w) (dp_jwt dp) (auth_request_of r) (sv_jwks sv)) = Inr d \<and>
      mget (sy_tasks (sys_of sv)) (hr_query r ''id'') = Some st \<and> es_gate st = ''clarification'' \<and> es_user st = idn_user d)"

lemma clarify_history:
  assumes "just_started sv0" "m \<in> set (ch_queue (bs_chans (sy_bus (sys_of (run_system dp hs sv0))) (inbox PlannerAgent)))"
    and "ms_type m = ''clarify_intent''"
  shows "\<exists>hs1 w r hs2 answer. hs = hs1 @ Request w r # hs2 \<and> answered_clarification dp (run_system dp hs1 sv0) w r \<and>
    m = clarify_message (hr_query r ''id'') answer"
proof -
  from queued_history [OF assms(1,2)] obtain hs1 h hs2 es where
    h: "hs = hs1 @ h # hs2" "ESend (topic PlannerAgent) m \<in> set es"
      "sy_trace (sys_of (happen dp h (run_system dp hs1 sv0))) = sy_trace (sys_of (run_system dp hs1 sv0)) @ es" by blast
  define sv where "sv = run_system dp hs1 sv0"
  note h = h [folded sv_def]
  show ?thesis
  proof (cases h)
    case (Receive a sched)
    from received_by [of dp a sched sv _ es, OF refl _ h(2)] h(3) Receive assms(3) show ?thesis by (auto simp: sends_def)
  next
    case (Scan sched)
    have "topic PlannerAgent \<in> {''api'', ''analyst''}"
      by (rule scanned [of dp sched sv es _ m]) (use h(2,3) Scan in simp_all)
    then show ?thesis by simp
  next
    case (Request w r)
    from requested [of dp w r sv es, OF _ h(2)] h(3) Request obtain idn where
      q: "sv_api (happen dp h sv) = fst (api_route (dp_api dp) (agent_env dp sv) (hw_memory_failure w) (r\<lparr>hr_identity := idn\<rparr>) (sv_api sv))"
        "api_send (r\<lparr>hr_identity := idn\<rparr>) (ESend ''planner'' m)" "caller (hw_auth w) (dp_jwt dp) r (sv_jwks sv) idn" by auto
    then have path: "hr_path r = ''/task/reply''" by (auto simp: api_send_def)
    have tr: "sy_trace (as_sys (fst (handle_clarify_reply (dp_api dp) (agent_env dp sv) (r\<lparr>hr_identity := idn\<rparr>) (sv_api sv)))) =
        sy_trace (as_sys (sv_api sv)) @ es"
      using h(3) q(1) path by (simp add: sys_of_def reply_route)
    from h(2) have "ESend ''planner'' m \<in> set es" by simp
    from clarify_reply_sent [OF tr this] obtain d st answer where d: "hr_method r = ''POST''" "idn = Some d"
        "mget (sy_tasks (sys_of sv)) (hr_query r ''id'') = Some st" "es_gate st = ''clarification''" "es_user st = idn_user d"
        "m = clarify_message (hr_query r ''id'') answer"
      by (auto simp: sys_of_def)
    then have "answered_clarification dp sv w r" using q(3) path by (simp add: answered_clarification_def)
    with h(1) Request d(6) show ?thesis unfolding sv_def by blast
  qed
qed

lemma clarify_message_simps [simp]:
  "ms_type (clarify_message i answer) = ''clarify_intent''" "get_string0 (ms_payload (clarify_message i answer)) ''id'' = i"
  "get_string0 (ms_payload (clarify_message i answer)) ''message'' = answer"
  by (simp_all add: clarify_message_def get_string0_def get_string_def)

lemma agent_env_config [simp]:
  "we_cfg (agent_env dp sv) = we_cfg (dp_env dp)" "we_ff (agent_env dp sv) = we_ff (dp_env dp)"
  "we_getenv (agent_env dp sv) = we_getenv (dp_env dp)"
  by (simp_all add: agent_env_def)

lemma recorded_allow_agent [simp]:
  "recorded_allow pl (agent_env dp sv) i u n p d = recorded_allow pl (dp_env dp) i u n p d"
  by (simp add: recorded_allow_def gate_subject_def)

lemma clarified_run_agent: "clarified_run pl (agent_env dp sv) i answer st m = clarified_run pl (dp_env dp) i answer st m"
  by (simp add: clarified_run_def)

lemma forwarded_identity:
  "mget pay ''identity'' = Some (PIdent (Some d)) \<Longrightarrow> message_identity (forward_payload i mode pay) = Some (Some d)"
  by (auto simp: message_identity_def forward_payload_def opt_entry_def split: option.splits)

text \<open>
  C3: a run that the verifier takes from its inbox goes back to a person whom the authenticator accepted,
  in one of two ways. Either that person answered a clarification: a POST to /task/reply of the owner of a
  task whose record then waited for it, which the planner took from its inbox, when the task's record
  still waited for the clarification, to send this very run: of the recorded intent, its pipeline in the
  configuration, with no parameter missing, accepted by the guard-rails and, for a governed pipeline,
  with an ALLOW the decision point recorded for the owner in the record under the decision id the run
  carries (the permissions are not asked again: C39). Or a request to /ask or /ask_structured led to it
  through the inspector and the planner: then the run is of an intent and its pipeline of the
  configuration, the permissions grant the intent to the domains of that caller, the guard-rails accept
  its parameters, and for a governed pipeline the decision point recorded an ALLOW for that caller
  under the decision id the run carries.
\<close>

theorem run_traced_to_requester:
  assumes "just_started sv0" "ms_type m = ''run_pipeline''"
    and "bus_receive (inbox VerifierAgent) (sy_bus (sys_of (run_system dp hs sv0))) = Some (m, b)"
  shows "(\<exists>hs1 w r hs2 sched hs3 sv answer b' st. hs = hs1 @ Request w r # hs2 @ Receive PlannerAgent sched # hs3 \<and>
      answered_clarification dp (run_system dp hs1 sv0) w r \<and> sv = run_system dp (hs1 @ Request w r # hs2) sv0 \<and>
      bus_receive (inbox PlannerAgent) (sy_bus (sys_of sv)) = Some (clarify_message (hr_query r ''id'') answer, b') \<and>
      mget (sy_tasks (sys_of sv)) (hr_query r ''id'') = Some st \<and>
      clarified_run (dp_planner dp) (dp_env dp) (hr_query r ''id'') answer st m) \<or>
    (\<exists>hs1 w r hs2 d i session name it pipe params lang text decision_id. hs = hs1 @ Request w r # hs2 \<and>
      snd (jwt_authenticate (hw_auth w) (dp_jwt dp) (auth_request_of r) (sv_jwks (run_system dp hs1 sv0))) = Inr d \<and>
      hr_path r \<in> {''/ask'', ''/ask_structured''} \<and>
      ms_payload m = run_payload i session name pipe params lang text decision_id \<and>
      mget (cf_intents (we_cfg (dp_env dp))) name = Some it \<and>
      mget (cf_pipelines (we_cfg (dp_env dp))) (it_pipeline it) = Some pipe \<and>
      rbac_allows (we_cfg (dp_env dp)) name (use_domains (Some d)) \<and>
      validate_all (we_ff (dp_env dp)) (we_getenv (dp_env dp)) it pipe params (cf_tools (we_cfg (dp_env dp))) = None \<and>
      (pl_governed pipe \<longrightarrow> recorded_allow (dp_planner dp) (dp_env dp) i (idn_user d) (it_pipeline it) pipe decision_id))"
proof -
  from queued_history [OF assms(1) received_queued [OF assms(3)]] obtain hs1 h hs2 es where
    h: "hs = hs1 @ h # hs2" "ESend (topic VerifierAgent) m \<in> set es"
      "sy_trace (sys_of (happen dp h (run_system dp hs1 sv0))) = sy_trace (sys_of (run_system dp hs1 sv0)) @ es" by blast
  define sv where "sv = run_system dp hs1 sv0"
  note h = h [folded sv_def]
  show ?thesis
  proof (cases h)
    case (Request w r)
    from requested [of dp w r sv es, OF _ h(2)] h(3) Request assms(2) show ?thesis by (auto simp: api_send_def)
  next
    case (Scan sched)
    have "topic VerifierAgent \<in> {''api'', ''analyst''}"
      by (rule scanned [of dp sched sv es _ m]) (use h(2,3) Scan in simp_all)
    then show ?thesis by simp
  next
    case (Receive a sched)
    from received_by [of dp a sched sv _ es, OF refl _ h(2)] h(3) Receive obtain pm b' where
      pm: "bus_receive (inbox a) (sy_bus (sys_of sv)) = Some (pm, b')" "sends a pm (ESend ''verifier'' m)"
        "sys_of (happen dp h sv) = agent_handle dp (agent_env dp sv) sched a pm ((sys_of sv)\<lparr>sy_bus := b'\<rparr>)" by auto
    from pm(2) assms(2) have a: "a = PlannerAgent" by (auto simp: sends_def)
    note q = received_queued [OF pm(1)]
    from planner_history [OF assms(1), of pm dp hs1] q a consider (clarify) "ms_type pm = ''clarify_intent''" |
      (detect) "ms_type pm = ''detect_intent''" unfolding sv_def by blast
    then show ?thesis
    proof cases
      case clarify
      let ?ve = "agent_env dp sv" and ?sy = "(sys_of sv)\<lparr>sy_bus := b'\<rparr>"
      from clarify_history [OF assms(1), of pm dp hs1] q a clarify obtain hs3 w r hs4 answer where
        r: "hs1 = hs3 @ Request w r # hs4" "answered_clarification dp (run_system dp hs3 sv0) w r"
          "pm = clarify_message (hr_query r ''id'') answer" unfolding sv_def by blast
      obtain sy' ok where hd: "handle_clarify_intent (dp_planner dp) ?ve pm ?sy = (sy', ok)" by fastforce
      with pm(3) a clarify have sy': "sys_of (happen dp h sv) = sy'" by (simp add: planner_dispatch_def)
      from h(2) obtain es1 rest where "es = es1 @ ESend ''verifier'' m # rest" by (auto dest: split_list)
      with h(3) sy' have "sy_trace sy' = sy_trace ?sy @ es1 @ [ESend ''verifier'' m] @ rest" by simp
      from clarify_run_checked [OF hd this assms(2)] r(3) obtain st where st:
        "mget (sy_tasks (sys_of sv)) (hr_query r ''id'') = Some st"
        "clarified_run (dp_planner dp) (dp_env dp) (hr_query r ''id'') answer st m" by (auto simp: clarified_run_agent)
      show ?thesis
        by (intro disjI1 exI [of _ hs3] exI [of _ w] exI [of _ r] exI [of _ hs4] exI [of _ sched] exI [of _ hs2] exI [of _ sv]
            exI [of _ answer] exI [of _ b'] exI [of _ st])
          (use h(1) Receive a r pm(1) st in \<open>simp add: sv_def\<close>)
    next
      case detect
      let ?ve = "agent_env dp sv" and ?sy = "(sys_of sv)\<lparr>sy_bus := b'\<rparr>"
      obtain sy' ok where hd: "handle_detect_intent (dp_planner dp) ?ve pm ?sy = (sy', ok)" by fastforce
      with pm(3) a detect have sy': "sys_of (happen dp h sv) = sy'" by (simp add: planner_dispatch_def)
      from h(2) obtain es1 rest where "es = es1 @ ESend ''verifier'' m # rest" by (auto dest: split_list)
      with h(3) sy' have "sy_trace sy' = sy_trace ?sy @ es1 @ [ESend ''verifier'' m] @ rest" by simp
      from detect_run_checked [OF hd this assms(2)] obtain i idn name it pipe params structured d where c:
        "message_identity (ms_payload pm) = Some idn"
        "run_checked (dp_planner dp) ?ve (plan_req_of i (ms_payload pm) idn) name it pipe params structured d"
        "ms_payload m = run_payload i (get_string0 (ms_payload pm) ''session_id'') name pipe params
          (get_string0 (ms_payload pm) ''lang'') (get_string0 (ms_payload pm) ''message'') d" by blast
      from planner_history [OF assms(1), of pm dp hs1] q a detect obtain hs3 hs4 im i2 mode where im: "hs1 = hs3 @ hs4"
        "ms_payload pm = forward_payload i2 mode (ms_payload im)"
        "im \<in> set (ch_queue (bs_chans (sy_bus (sys_of (run_system dp hs3 sv0))) (inbox InspectorAgent)))"
        unfolding sv_def by blast
      from inspector_history [OF assms(1) im(3)] obtain hs5 w r hs6 dn where r: "hs3 = hs5 @ Request w r # hs6"
        "snd (jwt_authenticate (hw_auth w) (dp_jwt dp) (auth_request_of r) (sv_jwks (run_system dp hs5 sv0))) = Inr dn"
        "hr_path r \<in> {''/ask'', ''/ask_structured''}" "mget (ms_payload im) ''identity'' = Some (PIdent (Some dn))" by blast
      have idn: "idn = Some dn" using c(1) im(2) forwarded_identity [OF r(4)] by simp
      have l: "hs = hs5 @ Request w r # hs6 @ hs4 @ h # hs2" using h(1) im(1) r(1) by simp
      have chk: "mget (cf_intents (we_cfg (dp_env dp))) name = Some it"
        "mget (cf_pipelines (we_cfg (dp_env dp))) (it_pipeline it) = Some pipe"
        "rbac_allows (we_cfg (dp_env dp)) name (use_domains (Some dn))"
        "validate_all (we_ff (dp_env dp)) (we_getenv (dp_env dp)) it pipe params (cf_tools (we_cfg (dp_env dp))) = None"
        "pl_governed pipe \<longrightarrow> recorded_allow (dp_planner dp) (dp_env dp) i (idn_user dn) (it_pipeline it) pipe d"
        using c(2) by (simp_all add: run_checked_def check_request_Inr idn)
      show ?thesis
        by (intro disjI2 exI [of _ hs5] exI [of _ w] exI [of _ r] exI [of _ "hs6 @ hs4 @ h # hs2"] exI [of _ dn] exI [of _ i]
            exI [of _ "get_string0 (ms_payload pm) ''session_id''"] exI [of _ name] exI [of _ it] exI [of _ pipe]
            exI [of _ params] exI [of _ "get_string0 (ms_payload pm) ''lang''"] exI [of _ "get_string0 (ms_payload pm) ''message''"]
            exI [of _ d] conjI l r(2,3) c(3) chk)
    qed
  qed
qed

definition asking :: "unit happening list" where
  "asking = [Request (token_world (demo_env plan_cfg (\<lambda>_ _ _ _. Inr [])) ''support'')
       ((bearing ''tok'' (demo_request ''POST'' ''/ask_structured'' [] None))\<lparr>hr_body := BodyJson (GObj [(''operation'', GStr ''lookup''),
         (''params'', GObj [(''customer'', GStr ''c9'')]), (''async'', GBool True)]) ''''\<rparr>),
     Receive InspectorAgent (\<lambda>n. n), Receive PlannerAgent (\<lambda>n. n)]"

lemma run_traced_to_requester_witness:
  "\<exists>m b. bus_receive (inbox VerifierAgent) (sy_bus (sys_of (run_system (demo_deployment (demo_env plan_cfg (\<lambda>_ _ _ _. Inr []))) asking
       (on_start (demo_sys []))))) = Some (m, b) \<and> ms_type m = ''run_pipeline'' \<and>
     (\<exists>i session name it pipe params lang text decision_id.
       ms_payload m = run_payload i session name pipe params lang text decision_id \<and> mget (cf_intents plan_cfg) name = Some it)"
proof -
  let ?dp = "demo_deployment (demo_env plan_cfg (\<lambda>_ _ _ _. Inr []))" and ?sv = "on_start (demo_sys [])"
  let ?b = "bus_receive (inbox VerifierAgent) (sy_bus (sys_of (run_system ?dp asking ?sv)))"
  have "map_option (ms_type \<circ> fst) ?b = Some ''run_pipeline''" by code_simp
  then obtain m b where m: "?b = Some (m, b)" "ms_type m = ''run_pipeline''" by auto
  have "map_option (ms_type \<circ> fst) (bus_receive (inbox PlannerAgent) (sy_bus (sys_of (run_system ?dp (take 2 asking) ?sv)))) =
    Some ''detect_intent''" by code_simp
  then have no: "bus_receive (inbox PlannerAgent) (sy_bus (sys_of (run_system ?dp (take 2 asking) ?sv))) \<noteq>
      Some (clarify_message i answer, b')" for i answer b' by auto
  have pre: "hs = take 2 asking" if "asking = hs @ Receive PlannerAgent sched # hs2" for hs sched hs2
    using that by (auto simp: asking_def Cons_eq_append_conv)
  have direct: "asking \<noteq> hs1 @ Request w r # hs2 @ Receive PlannerAgent sched # hs3" if
    "bus_receive (inbox PlannerAgent) (sy_bus (sys_of (run_system ?dp (hs1 @ Request w r # hs2) ?sv))) =
      Some (clarify_message i answer, b')" for hs1 w r hs2 sched hs3 i answer b'
    using that no pre [of "hs1 @ Request w r # hs2" sched hs3] by auto
  have "cf_intents (we_cfg (dp_env ?dp)) = cf_intents plan_cfg" by (simp add: demo_deployment_def demo_env_def)
  with run_traced_to_requester [OF just_started_demo m(2,1)] direct m show ?thesis by metis
qed

subsection \<open>The language model\<close>

text \<open>
  C33: the language model of a running system is only changed by a request of someone with the
  platform.admin function that the authenticator accepted, and never in deterministic mode, where the
  agents keep having no model.
\<close>

theorem settings_changed_by_admin:
  assumes "sv_settings (run_system dp hs sv0) \<noteq> sv_settings sv0"
  shows "\<not> is_deterministic (sv_settings sv0) \<and> (\<exists>hs1 w r hs2. hs = hs1 @ Request w r # hs2 \<and>
    admin_request (hw_auth w) (dp_jwt dp) r (sv_jwks (run_system dp hs1 sv0)))"
proof -
  have still: "sv_settings (happen dp h sv) \<noteq> sv_settings sv \<Longrightarrow> \<exists>w r. h = Request w r \<and>
      admin_request (hw_auth w) (dp_jwt dp) r (sv_jwks sv) \<and> \<not> is_deterministic (sv_settings sv)" for h sv
    using http_settings [of "served_by dp sv _"] by (cases h) (auto simp: receive_def put_sys_def split: option.splits)
  have mode: "se_mode (sv_settings (run_system dp hs sv0)) = se_mode (sv_settings sv0)" for hs
  proof (induction hs rule: rev_induct)
    case (snoc h hs)
    have "se_mode (sv_settings (happen dp h sv)) = se_mode (sv_settings sv)" for sv
      using http_settings [of "served_by dp sv _"] by (cases h) (auto simp: receive_def put_sys_def split: option.splits, metis)
    with snoc show ?case by simp
  qed simp
  show ?thesis
    using assms
  proof (induction hs rule: rev_induct)
    case (snoc h hs)
    show ?case
    proof (cases "sv_settings (run_system dp hs sv0) = sv_settings sv0")
      case True
      with snoc.prems still [of h "run_system dp hs sv0"] mode [of hs] show ?thesis by (auto simp: is_deterministic_def)
    next
      case False
      from snoc.IH [OF this] show ?thesis by (metis append_Cons append_assoc)
    qed
  qed simp
qed

definition switching :: "unit happening list" where
  "switching = [Request (token_world bare_env ''admin'')
     ((bearing ''tok'' (demo_request ''POST'' ''/ui/settings/llm'' [] None))\<lparr>hr_body := BodyJson (GObj [(''engine'', GStr ''ollama''),
       (''model'', GStr ''qwen''), (''baseUrl'', GStr ''http://o'')]) ''''\<rparr>)]"

lemma settings_changed_by_admin_witness:
  "\<exists>w r. Request w r \<in> set switching \<and> (\<exists>c. admin_request (hw_auth w) demo_jwt_config r c)"
proof -
  have "se_model (sv_settings (run_system (demo_deployment bare_env) switching (on_start (demo_sys [])))) = ''qwen''" by code_simp
  moreover have "se_model (sv_settings (on_start (demo_sys []))) = ''m''" by code_simp
  ultimately have "sv_settings (run_system (demo_deployment bare_env) switching (on_start (demo_sys []))) \<noteq>
    sv_settings (on_start (demo_sys []))" by auto
  from settings_changed_by_admin [OF this] obtain hs1 w r hs2 where
    "switching = hs1 @ Request w r # hs2" "\<exists>c. admin_request (hw_auth w) (dp_jwt (demo_deployment bare_env)) r c" by blast
  moreover from this(1) have "Request w r \<in> set switching" by (metis in_set_conv_decomp)
  moreover have "dp_jwt (demo_deployment bare_env) = demo_jwt_config" by (simp add: demo_deployment_def)
  ultimately show ?thesis by metis
qed

end
