(* ===== verification/Tool_Files.thy ===== *)
theory Tool_Files
  imports Config_Model Go_Path
begin

text \<open>
  The workspace tools (tools/local_files.go): reading, searching and changing files below the
  directory in AOS_WORKSPACE_ROOT. A call answers the operations it did on the file system, in order,
  and its result. What the file system, the commands and the XML parser answer are fields of
  \<open>file_world\<close>; \<open>Inl\<close> is an error's text.
\<close>

subsection \<open>The file system\<close>

text \<open>A tree as \<open>filepath.Walk\<close> meets it: a file with its size, a directory with the error of
  reading it and its entries by name; \<open>WGone\<close> is what
  \<open>Lstat\<close> fails for.\<close>

datatype walk_node = WFile nat | WDir "string option" "(string \<times> walk_node) list" | WGone string

record pom_dependency =
  pd_group :: string
  pd_artifact :: string
  pd_version :: string
  pd_scope :: string

record pom =
  pm_group :: string
  pm_artifact :: string
  pm_version :: string
  pm_parent_group :: string
  pm_parent_artifact :: string
  pm_parent_version :: string
  pm_java_version :: string
  pm_dependencies :: "pom_dependency list"

text \<open>\<open>lw_stat\<close> answers whether the path is a directory; a command answers its output and, when it
  failed, the error and the exit code.\<close>

record file_world =
  lw_root :: string
  lw_wd :: "string option"
  lw_ctx_err :: "string option"
  lw_stat :: "string \<Rightarrow> string + bool"
  lw_tree :: "string \<Rightarrow> walk_node"
  lw_read :: "string \<Rightarrow> string + string"
  lw_open :: "string \<Rightarrow> string option"
  lw_append :: "string \<Rightarrow> string option"
  lw_mkdir :: "string \<Rightarrow> string option"
  lw_write :: "string \<Rightarrow> string option"
  lw_run :: "string \<Rightarrow> string list \<Rightarrow> string \<times> (string \<times> int) option"
  lw_pom :: "string \<Rightarrow> string + pom"

datatype file_op = StatAt (op_path: string) | ReadAt (op_path: string) | WalkAt (op_path: string)
  | AppendAt (op_path: string) string | MkdirAt (op_path: string) | WriteAt (op_path: string) string
  | RunIn (op_path: string) "string list"

type_synonym file_run = "file_op list \<times> (string + gval gomap)"

definition after_op :: "file_op \<Rightarrow> file_op list \<times> 'a \<Rightarrow> file_op list \<times> 'a" where
  "after_op op x = (op # fst x, snd x)"

subsection \<open>The walk over a tree\<close>

datatype walk_answer = WalkOn | SkipDir | WalkErr string

text \<open>The callback gets the path, the name and, unless \<open>Lstat\<close> failed, whether it is a directory and
  its size; and an error.\<close>

type_synonym 's walk_fn = "string \<Rightarrow> string \<Rightarrow> (bool \<times> nat) option \<Rightarrow> string option \<Rightarrow> 's \<Rightarrow> 's \<times> walk_answer"

definition is_wfile :: "walk_node \<Rightarrow> bool" where
  "is_wfile n = (case n of WFile _ \<Rightarrow> True | _ \<Rightarrow> False)"

fun walk_from :: "'s walk_fn \<Rightarrow> string \<Rightarrow> string \<Rightarrow> walk_node \<Rightarrow> 's \<Rightarrow> 's \<times> walk_answer"
  and walk_entries :: "'s walk_fn \<Rightarrow> string \<Rightarrow> (string \<times> walk_node) list \<Rightarrow> 's \<Rightarrow> 's \<times> walk_answer" where
  "walk_from f p name (WFile n) s = f p name (Some (False, n)) None s"
| "walk_from f p name (WGone err) s = f p name None (Some err) s"
| "walk_from f p name (WDir err es) s =
    (case f p name (Some (True, 0)) err s of (s1, a) \<Rightarrow>
       if err \<noteq> None \<or> a \<noteq> WalkOn then (s1, a) else walk_entries f p es s1)"
| "walk_entries f p [] s = (s, WalkOn)"
| "walk_entries f p ((name, n) # es) s =
    (case walk_from f (path_join [p, name]) name n s of
       (s1, WalkErr e) \<Rightarrow> (s1, WalkErr e)
     | (s1, SkipDir) \<Rightarrow> if is_wfile n then (s1, SkipDir) else walk_entries f p es s1
     | (s1, WalkOn) \<Rightarrow> walk_entries f p es s1)"

definition base_name :: "string \<Rightarrow> string" where
  "base_name p = last (comps p)"

definition walk :: "'s walk_fn \<Rightarrow> string \<Rightarrow> walk_node \<Rightarrow> 's \<Rightarrow> 's \<times> string option" where
  "walk f base t s =
    (case walk_from f base (base_name base) t s of
       (s1, WalkErr e) \<Rightarrow> (s1, Some e) | (s1, _) \<Rightarrow> (s1, None))"

subsection \<open>The path of a call\<close>

definition workspace_root :: "file_world \<Rightarrow> string" where
  "workspace_root w = (if is_abs (lw_root w) then path_clean (lw_root w)
     else (case lw_wd w of None \<Rightarrow> '''' | Some d \<Rightarrow> path_join [d, lw_root w]))"

definition local_target :: "file_world \<Rightarrow> string \<Rightarrow> string gomap \<Rightarrow> string + string \<times> string \<times> string" where
  "local_target w name params =
    (if lw_root w = '''' then Inl ''AOS_WORKSPACE_ROOT is not set; workspace tools need an explicit directory''
     else let base = workspace_root w;
         rel0 = (if mstr params ''path'' \<noteq> '''' then mstr params ''path''
           else if name = ''workspace.run_tests'' \<or> name = ''workspace.inspect_project'' then ''.'' else ''README.md'') in
       if is_abs rel0
       then let path = path_clean rel0 in
         if \<not> under_text base path then Inl ''absolute path is outside workspace root''
         else Inr (base, if is_abs base then path_rel base path else '''', path)
       else let rel = path_clean rel0; path = path_join [base, rel] in
         if \<not> under_text base path then Inl ''local file path escapes workspace root''
         else Inr (base, rel, path))"

subsection \<open>Project manifests\<close>

definition file_exists :: "file_world \<Rightarrow> string \<Rightarrow> bool" where
  "file_exists w p = (lw_stat w p = Inr False)"

text \<open>The first of the given files that exists in a directory, with what it says of the project.\<close>

fun probe :: "file_world \<Rightarrow> string \<Rightarrow> (string \<times> string) list \<Rightarrow> file_op list \<times> (string \<times> string) option" where
  "probe w dir [] = ([], None)"
| "probe w dir ((name, kind) # fs) = after_op (StatAt (path_join [dir, name]))
     (if file_exists w (path_join [dir, name]) then ([], Some (name, kind)) else probe w dir fs)"

definition project_files :: "(string \<times> string) list" where
  "project_files = [(''pom.xml'', ''maven''), (''gradlew'', ''gradle-wrapper''), (''build.gradle'', ''gradle''),
     (''build.gradle.kts'', ''gradle''), (''go.mod'', ''go''), (''pyproject.toml'', ''python''), (''pytest.ini'', ''python'')]"

text \<open>\<open>findProjectRoot\<close>: upwards from a directory until a manifest or the base; \<open>None\<close> is a loop
  that never ends.\<close>

partial_function (option) find_up ::
  "file_world \<Rightarrow> string \<Rightarrow> file_op list \<Rightarrow> string \<Rightarrow> (file_op list \<times> (string \<times> string) option) option" where
  "find_up w base before dir =
    (case probe w dir project_files of
       (ops, Some (name, kind)) \<Rightarrow> Some (before @ ops, Some (dir, kind))
     | (ops, None) \<Rightarrow>
         if dir = base \<or> path_dir dir = dir \<or> \<not> under_text base (path_dir dir) then Some (before @ ops, None)
         else find_up w base (before @ ops) (path_dir dir))"

declare find_up.simps [code]

definition find_project_root :: "file_world \<Rightarrow> string \<Rightarrow> string \<Rightarrow> (file_op list \<times> (string \<times> string) option) option" where
  "find_project_root w start base = find_up w (path_clean base) [] (path_clean start)"

definition str_map :: "(string \<times> string) list \<Rightarrow> gval" where
  "str_map kvs = GObj (map (\<lambda>(k, v). (k, GStr v)) kvs)"

definition pom_result :: "pom \<Rightarrow> gval gomap" where
  "pom_result p = [(''project_type'', GStr ''maven''), (''manifest'', GStr ''pom.xml''), (''test_runner'', GStr ''mvn test -q''),
     (''groupId'', GStr (pm_group p)), (''artifactId'', GStr (pm_artifact p)), (''version'', GStr (pm_version p)),
     (''java_version'', GStr (pm_java_version p)),
     (''parent'', str_map [(''groupId'', pm_parent_group p), (''artifactId'', pm_parent_artifact p),
        (''version'', pm_parent_version p)]),
     (''dependencies'', GList (map (\<lambda>d. str_map [(''groupId'', pd_group d), (''artifactId'', pd_artifact d),
        (''version'', pd_version d), (''scope'', pd_scope d)]) (pm_dependencies p)))]"

definition manifest_result :: "string \<Rightarrow> string \<Rightarrow> string \<Rightarrow> string \<Rightarrow> gval gomap" where
  "manifest_result kind name runner content = [(''project_type'', GStr kind), (''manifest'', GStr name),
     (''test_runner'', GStr runner), (''manifest_content'', GStr content)]"

definition inspect_manifest :: "file_world \<Rightarrow> string \<Rightarrow> string \<Rightarrow> string \<Rightarrow> string \<Rightarrow> file_run" where
  "inspect_manifest w base name kind b =
    (if kind = ''maven''
     then ([], case lw_pom w b of Inl e \<Rightarrow> Inl (''parse pom.xml: '' @ e) | Inr p \<Rightarrow> Inr (pom_result p))
     else if kind = ''gradle''
     then ([StatAt (path_join [base, ''gradlew''])],
       Inr (manifest_result ''gradle'' name (if file_exists w (path_join [base, ''gradlew'']) then ''./gradlew test'' else ''gradle test'') b))
     else ([], Inr (manifest_result kind name (if kind = ''go'' then ''go test ./...'' else ''python3 -m pytest'') b)))"

definition inspect_project :: "file_world \<Rightarrow> string \<Rightarrow> file_run" where
  "inspect_project w base = after_op (StatAt base)
    (if lw_stat w base \<noteq> Inr True then ([], Inl ''project path must be a directory'')
     else (case probe w base [(''pom.xml'', ''maven''), (''build.gradle.kts'', ''gradle''), (''build.gradle'', ''gradle''),
         (''go.mod'', ''go''), (''pyproject.toml'', ''python''), (''pytest.ini'', ''python'')] of
       (ops, None) \<Rightarrow> (ops, Inr [(''project_type'', GStr ''unknown''), (''test_runner'', GStr ''''), (''manifest'', GStr '''')])
     | (ops, Some (name, kind)) \<Rightarrow>
         (case lw_read w (path_join [base, name]) of
           Inl e \<Rightarrow> (ops @ [ReadAt (path_join [base, name])], Inl e)
         | Inr b \<Rightarrow> (case inspect_manifest w base name kind b of
             (ops', r) \<Rightarrow> (ops @ ReadAt (path_join [base, name]) # ops', r)))))"

subsection \<open>Text\<close>

definition newline :: string where "newline = [CHR 0x0A]"

definition fence :: string where "fence = replicate 3 (CHR 0x60)"

definition before_fence :: "string \<Rightarrow> string" where
  "before_fence s = (case str_index s (newline @ fence) of None \<Rightarrow> s | Some n \<Rightarrow> take n s)"

definition clean_generated_source :: "string \<Rightarrow> string" where
  "clean_generated_source content =
    (let c = trim_space content in
     if has_prefix c fence
     then trim_space (before_fence (case str_index c newline of None \<Rightarrow> c | Some n \<Rightarrow> drop (Suc n) c))
     else trim_space (before_fence c))"

text \<open>\<open>strings.Count\<close> of a non-empty text, and \<open>strings.Replace\<close> of its first occurrence.\<close>

fun count_aux :: "nat \<Rightarrow> string \<Rightarrow> string \<Rightarrow> nat" where
  "count_aux n p [] = 0"
| "count_aux (Suc n) p (x # s) = count_aux n p s"
| "count_aux 0 p (x # s) = (if has_prefix (x # s) p then Suc (count_aux (length p - 1) p s) else count_aux 0 p s)"

definition str_count :: "string \<Rightarrow> string \<Rightarrow> nat" where
  "str_count s p = count_aux 0 p s"

definition replace_first :: "string \<Rightarrow> string \<Rightarrow> string \<Rightarrow> string" where
  "replace_first s p r = (case str_index s p of None \<Rightarrow> s | Some n \<Rightarrow> take n s @ r @ drop (n + length p) s)"

subsection \<open>The tools\<close>

definition tree_entry :: "string \<Rightarrow> string list walk_fn" where
  "tree_entry base p name info err es =
    (case (err, info) of (Some e, _) \<Rightarrow> (es, WalkErr e)
     | (None, None) \<Rightarrow> (es, WalkOn)
     | (None, Some (dir, _)) \<Rightarrow>
         if p = base then (es, WalkOn)
         else let rel = path_rel base p in
           if has_prefix rel ''.git/'' \<or> rel = ''.git'' then (es, if dir then SkipDir else WalkOn)
           else (es @ [rel], WalkOn))"

definition workspace_tree :: "file_world \<Rightarrow> string \<Rightarrow> file_run" where
  "workspace_tree w base = ([WalkAt base],
    case walk (tree_entry base) base (lw_tree w base) [] of
      (es, Some e) \<Rightarrow> Inl e
    | (es, None) \<Rightarrow> Inr [(''path'', GStr base), (''entries'', GList (map GStr es))])"

text \<open>The matches of one file, up to a hundred in all.\<close>

fun match_lines :: "string \<Rightarrow> string \<Rightarrow> nat \<Rightarrow> string list \<Rightarrow> string list \<Rightarrow> string list" where
  "match_lines r query i [] found = found"
| "match_lines r query i (l # ls) found =
    (if str_contains l query
     then let found1 = found @ [r @ '':'' @ show_nat i @ '':'' @ trim_space l] in
       if length found1 \<ge> 100 then found1 else match_lines r query (Suc i) ls found1
     else match_lines r query (Suc i) ls found)"

definition search_entry :: "file_world \<Rightarrow> string \<Rightarrow> string \<Rightarrow> (file_op list \<times> string list) walk_fn" where
  "search_entry w base query p name info err s =
    (case (err, info) of (Some _, _) \<Rightarrow> (s, WalkOn) | (None, None) \<Rightarrow> (s, WalkOn)
     | (None, Some (dir, n)) \<Rightarrow>
         if dir then (s, if name \<in> {''.git'', ''node_modules'', ''dist'', ''vendor''} then SkipDir else WalkOn)
         else if length (snd s) \<ge> 100 \<or> n > 1048576 then (s, WalkOn)
         else (case lw_read w p of
             Inl _ \<Rightarrow> ((fst s @ [ReadAt p], snd s), WalkOn)
           | Inr b \<Rightarrow> ((fst s @ [ReadAt p], match_lines (path_rel base p) query 1 (split_char (CHR 0x0A) b) (snd s)), WalkOn)))"

definition workspace_search :: "file_world \<Rightarrow> string \<Rightarrow> string gomap \<Rightarrow> file_run" where
  "workspace_search w base params =
    (let query = mstr params ''query'' in
     if query = '''' then ([], Inl ''query is required'')
     else (case walk (search_entry w base query) base (lw_tree w base) ([], []) of
         ((ops, found), Some e) \<Rightarrow> (WalkAt base # ops, Inl e)
       | ((ops, found), None) \<Rightarrow> (WalkAt base # ops, Inr [(''query'', GStr query), (''matches'', GList (map GStr found))])))"

definition append_file :: "file_world \<Rightarrow> string \<Rightarrow> string \<Rightarrow> string gomap \<Rightarrow> file_run" where
  "append_file w rel path params =
    (let txt = mstr params ''text'' in
     if txt = '''' then ([], Inl ''text is required'')
     else ([AppendAt path txt], case lw_open w path of Some e \<Rightarrow> Inl e
       | None \<Rightarrow> (case lw_append w path of Some e \<Rightarrow> Inl e
         | None \<Rightarrow> Inr [(''path'', GStr rel), (''appended'', GStr txt), (''status'', GStr ''updated'')])))"

definition write_file :: "file_world \<Rightarrow> string \<Rightarrow> string \<Rightarrow> string gomap \<Rightarrow> file_run" where
  "write_file w rel path params =
    (let content = clean_generated_source (mstr params ''content'') in
     if content = '''' then ([], Inl ''content is required'')
     else after_op (MkdirAt (path_dir path)) (case lw_mkdir w (path_dir path) of Some e \<Rightarrow> ([], Inl e)
       | None \<Rightarrow> ([WriteAt path content], case lw_write w path of Some e \<Rightarrow> Inl e
         | None \<Rightarrow> Inr [(''path'', GStr rel), (''bytes'', GInt (int (length content))), (''status'', GStr ''written'')])))"

definition replace_in_file :: "file_world \<Rightarrow> string \<Rightarrow> string \<Rightarrow> string gomap \<Rightarrow> file_run" where
  "replace_in_file w rel path params =
    (let old = mstr params ''old''; new = mstr params ''new'' in
     if old = '''' then ([], Inl ''old is required'')
     else if str_contains new old
     then ([], Inl ''unsafe non-idempotent replacement: new text contains old text; use a larger unique context or rewrite the complete file'')
     else after_op (ReadAt path) (case lw_read w path of Inl e \<Rightarrow> ([], Inl e)
       | Inr content \<Rightarrow>
           if str_count content old = 0 then ([], Inl (''old text not found in '' @ rel))
           else if str_count content old > 1
           then ([], Inl (''old text is not unique in '' @ rel @ '' ('' @ show_nat (str_count content old) @ '' matches)''))
           else ([WriteAt path (replace_first content old new)], case lw_write w path of Some e \<Rightarrow> Inl e
             | None \<Rightarrow> Inr [(''path'', GStr rel), (''status'', GStr ''updated''), (''replacements'', GInt 1)])))"

definition diff_result :: "string \<Rightarrow> string \<Rightarrow> (string \<times> string) list \<Rightarrow> string + gval gomap" where
  "diff_result rel diff kvs = Inr ([(''path'', GStr rel), (''diff'', GStr diff)] @ map (\<lambda>(k, v). (k, GStr v)) kvs)"

definition git_diff :: "file_world \<Rightarrow> string \<Rightarrow> string \<Rightarrow> string \<Rightarrow> file_run" where
  "git_diff w base rel path =
    (let git = path_join [base, ''.git'']; ls = [''git'', ''ls-files'', ''--error-unmatch'', ''--'', rel];
         untracked = [''git'', ''diff'', ''--no-index'', ''--'', ''/dev/null'', path]; tracked = [''git'', ''diff'', ''--'', rel] in
     after_op (StatAt git)
       (if \<not> is_ok (lw_stat w git)
        then ([], diff_result rel '''' [(''status'', ''unavailable''), (''reason'', ''workspace is not a git repository'')])
        else after_op (RunIn base ls)
          (if snd (lw_run w base ls) \<noteq> None
           then ([RunIn base untracked], case lw_run w base untracked of
               (out, Some (e, code)) \<Rightarrow> if code \<noteq> 1 then Inl (''git diff untracked: '' @ e @ '': '' @ trim_space out)
                 else diff_result rel out [(''status'', ''untracked'')]
             | (out, None) \<Rightarrow> diff_result rel out [(''status'', ''untracked'')])
           else ([RunIn base tracked], case lw_run w base tracked of
               (out, Some (e, code)) \<Rightarrow> Inl (''git diff: '' @ e @ '': '' @ trim_space out)
             | (out, None) \<Rightarrow> diff_result rel out []))))"

text \<open>The command of a project and the name of its runner.\<close>

definition test_command :: "string \<Rightarrow> string \<Rightarrow> string list \<times> string" where
  "test_command dir kind =
    (if kind = ''maven'' then ([''mvn'', ''test'', ''-q''], ''maven'')
     else if kind = ''gradle-wrapper'' then ([path_join [dir, ''gradlew''], ''test''], ''gradle-wrapper'')
     else if kind = ''gradle'' then ([''gradle'', ''test''], ''gradle'')
     else if kind = ''go'' then ([''go'', ''test'', ''./...''], ''go'')
     else ([''python3'', ''-m'', ''pytest''], ''pytest''))"

definition file_command :: "string \<Rightarrow> string \<Rightarrow> string list \<times> string" where
  "file_command language path =
    (if language = ''python'' \<or> language = ''py'' then ([''python3'', ''-m'', ''py_compile'', path], ''py_compile'')
     else if language = ''java'' then ([''javac'', path], ''javac'')
     else ([''go'', ''test'', ''./...''], ''go''))"

definition run_result :: "string \<Rightarrow> string \<Rightarrow> string \<times> (string \<times> int) option \<Rightarrow> gval gomap" where
  "run_result runner rel out =
    (case out of
       (o1, None) \<Rightarrow> [(''output'', GStr o1), (''status'', GStr ''passed''), (''runner'', GStr runner), (''path'', GStr rel)]
     | (o1, Some (e, _)) \<Rightarrow> [(''output'', GStr o1), (''status'', GStr ''failed''), (''runner'', GStr runner), (''path'', GStr rel),
         (''error'', GStr e)])"

definition run_tests :: "file_world \<Rightarrow> string \<Rightarrow> string \<Rightarrow> string \<Rightarrow> string gomap \<Rightarrow> file_run option" where
  "run_tests w base rel path params =
    (case lw_stat w path of
       Inl e \<Rightarrow> Some ([StatAt path], Inr [(''status'', GStr ''failed''), (''error'', GStr (''test target '' @ rel @ '': '' @ e))])
     | Inr dir \<Rightarrow>
         map_option (\<lambda>(ops, found).
           (case found of
              Some (pd, kind) \<Rightarrow> (case test_command pd kind of (cmd, runner) \<Rightarrow>
                (StatAt path # ops @ [RunIn pd cmd], Inr (run_result runner rel (lw_run w pd cmd))))
            | None \<Rightarrow>
                if dir then (StatAt path # ops, Inr [(''status'', GStr ''failed''), (''error'', GStr ''no supported project manifest found''),
                  (''path'', GStr rel)])
                else (case file_command (to_lower (mstr params ''language'')) path of (cmd, runner) \<Rightarrow>
                  (StatAt path # ops @ [RunIn base cmd], Inr (run_result runner rel (lw_run w base cmd))))))
           (find_project_root w (if dir then path else path_dir path) base))"

text \<open>\<open>executeLocalFileTool\<close>; \<open>None\<close> is a call that never returns.\<close>

definition execute_local_file_tool :: "file_world \<Rightarrow> tool_def \<Rightarrow> string gomap \<Rightarrow> file_run option" where
  "execute_local_file_tool w t params =
    (case local_target w (tl_name t) params of
       Inl e \<Rightarrow> Some ([], Inl e)
     | Inr (base, rel, path) \<Rightarrow>
         (case lw_ctx_err w of Some e \<Rightarrow> Some ([], Inl e)
          | None \<Rightarrow>
            if tl_name t = ''workspace.inspect_project'' then Some (inspect_project w path)
            else if tl_name t = ''workspace.tree'' then Some (workspace_tree w base)
            else if tl_name t = ''workspace.read_file''
            then Some ([ReadAt path], map_sum id (\<lambda>b. [(''path'', GStr rel), (''content'', GStr b)]) (lw_read w path))
            else if tl_name t = ''workspace.search'' then Some (workspace_search w base params)
            else if tl_name t = ''workspace.append_file'' then Some (append_file w rel path params)
            else if tl_name t = ''workspace.write_file'' then Some (write_file w rel path params)
            else if tl_name t = ''workspace.replace_in_file'' then Some (replace_in_file w rel path params)
            else if tl_name t = ''workspace.git_diff'' then Some (git_diff w base rel path)
            else if tl_name t = ''workspace.run_tests'' then run_tests w base rel path params
            else Some ([], Inl (''unknown local file tool '' @ tl_name t))))"

end
