(* ===== verification/Tool_Props.thy ===== *)
theory Tool_Props
  imports Tool_Files
begin

text \<open>
  The properties of the workspace tools: what a call touches lies below the workspace root, every
  call returns, and an edit replaces the only occurrence of its text.
\<close>

subsection \<open>Paths below a directory\<close>

definition below :: "string list \<Rightarrow> string \<Rightarrow> bool" where
  "below rs p = (\<exists>ds. list_all plain_comp (rs @ ds) \<and> p = abs_path (rs @ ds))"

lemma belowI: "list_all plain_comp (rs @ ds) \<Longrightarrow> below rs (abs_path (rs @ ds))"
  by (auto simp: below_def)

lemma below_root: "list_all plain_comp rs \<Longrightarrow> below rs (abs_path rs)"
  using belowI [of rs "[]"] by simp

lemma belowE:
  assumes "below rs p" obtains ds where "p = abs_path (rs @ ds)" "list_all plain_comp (rs @ ds)"
  using assms by (auto simp: below_def)

lemma comps_mid: "comps (s @ CHR ''/'' # t) = comps s @ comps t"
  by (simp add: comps_def split_char_mid)

lemma comps_plain: "plain_comp c \<Longrightarrow> comps c = [c]"
  by (simp add: comps_def plain_comp_def split_char_absent)

text \<open>An element that is empty or the file system's root changes nothing when more follows.\<close>

lemma clean_mid:
  assumes "list_all plain_comp cs"
  shows "clean_comps True (comps (abs_path cs @ slash @ t)) = rev (fold (clean_push True) (comps t) (rev cs))"
  using assms by (auto simp: clean_comps_def comps_mid comps_abs_path clean_fold_plain clean_push.simps)

lemma is_abs_mid [simp]: "is_abs (abs_path cs @ s)"
  by (simp add: is_abs_def abs_path_def has_prefix_def)

lemma path_join_plain:
  assumes "list_all plain_comp cs" "plain_comp c"
  shows "path_join [abs_path cs, c] = abs_path (cs @ [c])"
proof -
  have "path_join [abs_path cs, c] = path_clean (abs_path cs @ slash @ c)"
    using assms(2) by (simp add: path_join_abs plain_comp_def)
  also have "\<dots> = abs_path (clean_comps True (comps (abs_path cs @ slash @ c)))"
    by (rule path_clean_abs) simp
  also have "\<dots> = abs_path (cs @ [c])"
    unfolding clean_mid [OF assms(1)] using assms by (simp add: comps_plain clean_push.simps plain_comp_def)
  finally show ?thesis .
qed

lemma below_join: "below rs p \<Longrightarrow> plain_comp c \<Longrightarrow> below rs (path_join [p, c])"
  using belowI [of rs "_ @ [c]"] by (auto elim!: belowE simp: path_join_plain)

lemma last_index_mid: "c \<notin> set t \<Longrightarrow> last_index c (s @ c # t) = Some (length s)"
proof (induction s)
  case Nil
  have "c \<notin> set t \<Longrightarrow> last_index c t = None" by (induction t) auto
  with Nil show ?case by simp
qed simp

lemma path_dir_plain:
  assumes "list_all plain_comp (cs @ [c])"
  shows "path_dir (abs_path (cs @ [c])) = abs_path cs"
proof -
  from assms have cs: "list_all plain_comp cs" and c: "plain_comp c" by simp_all
  let ?s = "if cs = [] then '''' else abs_path cs"
  have "abs_path (cs @ [c]) = ?s @ CHR ''/'' # c"
    using abs_path_append [of cs "[c]"] by (cases "cs = []") (simp_all add: abs_path_def)
  moreover have "CHR ''/'' \<notin> set c" using c by (simp add: plain_comp_def)
  ultimately have "path_dir (abs_path (cs @ [c])) = path_clean (?s @ slash)"
    by (simp add: path_dir_def last_index_mid)
  also have "\<dots> = abs_path cs"
  proof (cases "cs = []")
    case False
    have "path_clean (abs_path cs @ slash @ '''') = abs_path (clean_comps True (comps (abs_path cs @ slash @ '''')))"
      by (rule path_clean_abs) simp
    with False show ?thesis unfolding clean_mid [OF cs] by (simp add: comps_def clean_push.simps)
  qed (simp add: path_clean_abs is_abs_def has_prefix_def clean_comps_def comps_def clean_push.simps abs_path_def)
  finally show ?thesis .
qed

lemma below_trans: "below (rs @ ds) p \<Longrightarrow> below rs p"
  unfolding below_def append_assoc by blast

subsection \<open>The path of a call\<close>

definition rooted :: "file_world \<Rightarrow> bool" where
  "rooted w = (is_abs (lw_root w) \<or> (case lw_wd w of None \<Rightarrow> False | Some d \<Rightarrow> is_abs d))"

lemma workspace_root_plain:
  assumes "rooted w" "lw_root w \<noteq> ''''"
  obtains rs where "workspace_root w = abs_path rs" "list_all plain_comp rs"
proof (cases "is_abs (lw_root w)")
  case True
  then show ?thesis using that path_clean_absE [OF True] by (metis workspace_root_def)
next
  case False
  with assms obtain d where d: "lw_wd w = Some d" "is_abs d" by (auto simp: rooted_def split: option.splits)
  with False path_abs_plain [of d "lw_root w"] that show ?thesis by (auto simp: workspace_root_def path_abs_def)
qed

lemma under_below:
  assumes "list_all plain_comp rs" "list_all plain_comp cs" "under_text (abs_path rs) (abs_path cs)"
  shows "below rs (abs_path cs)"
  using assms under_text_iff [OF assms(1) _ assms(2)] by (cases "rs = []") (auto simp: below_def)

lemma local_target_below:
  assumes "rooted w" "local_target w name params = Inr (base, rel, path)"
  obtains rs where "base = workspace_root w" "base = abs_path rs" "list_all plain_comp rs" "below rs path"
proof -
  from assms(2) have ne: "lw_root w \<noteq> ''''" by (auto simp: local_target_def split: if_splits)
  from workspace_root_plain [OF assms(1) ne] obtain rs where rs: "workspace_root w = abs_path rs" "list_all plain_comp rs" .
  from assms(2) ne have q: "base = workspace_root w" "under_text base path"
    by (auto simp: local_target_def Let_def split: if_splits)
  have "\<exists>cs. path = abs_path cs \<and> list_all plain_comp cs"
  proof -
    from assms(2) ne rs consider r where "is_abs r" "path = path_clean r" | r where "path = path_join [abs_path rs, r]"
      by (auto simp: local_target_def Let_def split: if_splits)
    then show ?thesis
    proof cases
      case 1 then show ?thesis by (metis path_clean_absE)
    next
      case 2
      let ?q = "if r = '''' then abs_path rs else abs_path rs @ slash @ r"
      have "is_abs ?q" by simp
      from path_clean_absE [OF this] 2 show ?thesis by (metis path_join_abs is_abs_abs_path)
    qed
  qed
  then obtain cs where "path = abs_path cs" "list_all plain_comp cs" by blast
  with under_below [OF rs(2)] q rs that show ?thesis by metis
qed

subsection \<open>Manifests\<close>

definition ops_below :: "string list \<Rightarrow> file_op list \<Rightarrow> bool" where
  "ops_below rs ops = (\<forall>op \<in> set ops. below rs (op_path op))"

lemma ops_below_simps [simp]:
  "ops_below rs []" "ops_below rs (op # ops) = (below rs (op_path op) \<and> ops_below rs ops)"
  "ops_below rs (ops @ ops') = (ops_below rs ops \<and> ops_below rs ops')"
  by (auto simp: ops_below_def)

lemma after_op_simps [simp]: "fst (after_op op x) = op # fst x" "snd (after_op op x) = snd x"
  by (simp_all add: after_op_def)

lemma probe_below:
  "below rs dir \<Longrightarrow> \<forall>f \<in> set fs. plain_comp (fst f) \<Longrightarrow> ops_below rs (fst (probe w dir fs)) \<and>
    (\<forall>f. snd (probe w dir fs) = Some f \<longrightarrow> f \<in> set fs)"
  by (induction w dir fs rule: probe.induct) (auto simp: below_join split: if_splits)

lemma project_files_plain: "f \<in> set project_files \<Longrightarrow> plain_comp (fst f)"
  by (auto simp: project_files_def plain_comp_def)

text \<open>The search upwards ends, at the latest at the root, and looks nowhere else.\<close>

lemma find_up_below:
  assumes "list_all plain_comp (rs @ ds)"
  shows "\<exists>ops r. find_up w (abs_path rs) before (abs_path (rs @ ds)) = Some (before @ ops, r) \<and> ops_below rs ops \<and>
    (\<forall>d k. r = Some (d, k) \<longrightarrow> below rs d)"
  using assms
proof (induction ds arbitrary: before rule: rev_induct)
  case Nil
  obtain ops f where p: "probe w (abs_path rs) project_files = (ops, f)" by fastforce
  have b: "below rs (abs_path rs)" using Nil below_root by simp
  with probe_below [OF b, of project_files w] p project_files_plain have "ops_below rs ops" by auto
  with p b show ?case by (cases f) (auto simp: find_up.simps [of w "abs_path rs"])
next
  case (snoc d ds)
  let ?dir = "abs_path (rs @ ds @ [d])"
  obtain ops f where p: "probe w ?dir project_files = (ops, f)" by fastforce
  have b: "below rs ?dir" using snoc.prems by (rule belowI)
  with probe_below [OF b, of project_files w] p project_files_plain have ops: "ops_below rs ops" by auto
  have up: "path_dir ?dir = abs_path (rs @ ds)" using path_dir_plain [of "rs @ ds" d] snoc.prems by simp
  have "list_all plain_comp (rs @ ds)" using snoc.prems by simp
  from snoc.IH [OF this, of "before @ ops"] obtain ops' r where
    "find_up w (abs_path rs) (before @ ops) (abs_path (rs @ ds)) = Some ((before @ ops) @ ops', r)"
    "ops_below rs ops'" "\<forall>d k. r = Some (d, k) \<longrightarrow> below rs d" by blast
  with p ops b up show ?case
    by (cases f) (auto simp: find_up.simps [of w "abs_path rs" before ?dir])
qed

subsection \<open>The walk\<close>

text \<open>The names of the entries of a tree satisfy a predicate.\<close>

fun all_names :: "(string \<Rightarrow> bool) \<Rightarrow> walk_node \<Rightarrow> bool" and all_entries :: "(string \<Rightarrow> bool) \<Rightarrow> (string \<times> walk_node) list \<Rightarrow> bool" where
  "all_names R (WFile n) = True"
| "all_names R (WGone e) = True"
| "all_names R (WDir e es) = all_entries R es"
| "all_entries R [] = True"
| "all_entries R ((name, n) # es) = (R name \<and> all_names R n \<and> all_entries R es)"

abbreviation plain_tree :: "walk_node \<Rightarrow> bool" where "plain_tree \<equiv> all_names plain_comp"

lemma all_names_any: "all_names (\<lambda>_. True) n" "all_entries (\<lambda>_. True) es"
  by (induction "\<lambda>_ :: string. True" n and "\<lambda>_ :: string. True" es rule: all_names_all_entries.induct) simp_all

text \<open>What the callback keeps on all paths of a kind, the walk keeps.\<close>

definition keeps_on :: "(string \<Rightarrow> bool) \<Rightarrow> ('s \<Rightarrow> bool) \<Rightarrow> 's walk_fn \<Rightarrow> bool" where
  "keeps_on Q I f = (\<forall>p name info err s. Q p \<longrightarrow> I s \<longrightarrow> I (fst (f p name info err s)))"

lemma walk_keeps:
  assumes "\<And>p name. Q p \<Longrightarrow> R name \<Longrightarrow> Q (path_join [p, name])"
  shows "keeps_on Q I f \<Longrightarrow> Q p \<Longrightarrow> all_names R n \<Longrightarrow> I s \<Longrightarrow> I (fst (walk_from f p name n s))"
    "keeps_on Q I f \<Longrightarrow> Q p \<Longrightarrow> all_entries R es \<Longrightarrow> I s \<Longrightarrow> I (fst (walk_entries f p es s))"
proof (induction f p name n s and f p es s rule: walk_from_walk_entries.induct)
  case (3 f p name err es s)
  obtain s1 a where f: "f p name (Some (True, 0)) err s = (s1, a)" by fastforce
  with 3(2,3,5) have "I s1" by (metis keeps_on_def fst_conv)
  with 3 f show ?case by simp
next
  case (5 f p name n es s)
  obtain s1 a where f: "walk_from f (path_join [p, name]) name n s = (s1, a)" by fastforce
  with 5 assms have "I s1" by (metis fst_conv all_entries.simps(2))
  with 5 f show ?case by (cases a) auto
qed (auto simp: keeps_on_def)

lemma walk_keeps_on:
  assumes "\<And>p name. Q p \<Longrightarrow> R name \<Longrightarrow> Q (path_join [p, name])" "keeps_on Q I f" "Q p" "all_names R n" "I s"
  shows "I (fst (walk f p n s))"
proof -
  have "I (fst (walk_from f p (base_name p) n s))" by (rule walk_keeps(1) [of Q R]) (use assms in auto)
  then show ?thesis by (cases "walk_from f p (base_name p) n s") (auto simp: walk_def split: walk_answer.split)
qed

subsection \<open>Every tool stays below the root\<close>

lemma search_entry_keeps: "keeps_on (below rs) (\<lambda>s. ops_below rs (fst s)) (search_entry w base query)"
  by (auto simp: keeps_on_def search_entry_def split: option.split prod.split sum.split)

definition inside :: "string list \<Rightarrow> file_run \<Rightarrow> bool" where
  "inside rs x = ops_below rs (fst x)"

lemma inspect_within: "below rs p \<Longrightarrow> inside rs (inspect_project w p)"
proof -
  assume p: "below rs p"
  let ?fs = "[(''pom.xml'', ''maven''), (''build.gradle.kts'', ''gradle''), (''build.gradle'', ''gradle''),
         (''go.mod'', ''go''), (''pyproject.toml'', ''python''), (''pytest.ini'', ''python'')]"
  have plain: "\<forall>f \<in> set ?fs. plain_comp (fst f)" by (simp add: plain_comp_def)
  have gradlew: "plain_comp ''gradlew''" by (simp add: plain_comp_def)
  obtain ops f where r: "probe w p ?fs = (ops, f)" by fastforce
  from probe_below [OF p plain, of w] plain have q: "ops_below rs ops" "\<And>x. f = Some x \<Longrightarrow> plain_comp (fst x)"
    unfolding r by auto
  show ?thesis using p gradlew q unfolding inspect_project_def r
    by (auto simp: inside_def inspect_manifest_def below_join split: option.split sum.split)
qed

lemma tree_within: "below rs base \<Longrightarrow> inside rs (workspace_tree w base)"
  by (simp add: inside_def workspace_tree_def)

lemma search_within:
  assumes "below rs base" "plain_tree (lw_tree w base)"
  shows "inside rs (workspace_search w base params)"
  using walk_keeps_on [OF below_join search_entry_keeps assms, of "([], [])" w base "mstr params ''query''"] assms(1)
  by (auto simp: inside_def workspace_search_def Let_def split: prod.split option.split)

lemma append_within: "below rs p \<Longrightarrow> inside rs (append_file w rel p params)"
  by (simp add: inside_def append_file_def Let_def)

lemma write_within: "below rs p \<Longrightarrow> below rs (path_dir p) \<Longrightarrow> inside rs (write_file w rel p params)"
  by (simp add: inside_def write_file_def Let_def split: option.split)

lemma replace_within: "below rs p \<Longrightarrow> inside rs (replace_in_file w rel p params)"
  by (simp add: inside_def replace_in_file_def Let_def split: sum.split)

lemma diff_within: "below rs base \<Longrightarrow> inside rs (git_diff w base rel p)"
proof -
  have "plain_comp ''.git''" by (simp add: plain_comp_def)
  moreover assume "below rs base"
  ultimately show ?thesis by (simp add: inside_def git_diff_def Let_def below_join)
qed

lemma tests_within:
  assumes "list_all plain_comp rs" "below rs p" "lw_stat w p = Inr False \<Longrightarrow> below rs (path_dir p)"
  shows "\<exists>x. run_tests w (abs_path rs) rel p params = Some x \<and> inside rs x"
proof (cases "lw_stat w p")
  case (Inl e)
  with assms(2) show ?thesis by (simp add: run_tests_def inside_def)
next
  case (Inr dir)
  let ?start = "if dir then p else path_dir p"
  have "below rs ?start" using assms(2,3) Inr by simp
  then obtain ds where ds: "?start = abs_path (rs @ ds)" "list_all plain_comp (rs @ ds)" by (rule belowE)
  from find_up_below [OF ds(2), of w "[]"] ds assms(1) obtain ops r where
    "find_project_root w ?start (abs_path rs) = Some (ops, r)" "ops_below rs ops" "\<forall>d k. r = Some (d, k) \<longrightarrow> below rs d"
    by (auto simp: find_project_root_def)
  with Inr assms(1,2) below_root show ?thesis
    by (auto simp: run_tests_def inside_def split: option.split prod.split)
qed

text \<open>The parent of a path strictly below the root is below the root.\<close>

lemma below_dir:
  assumes "below rs p" "p \<noteq> abs_path rs"
  shows "below rs (path_dir p)"
proof -
  from assms(1) obtain ds where ds: "p = abs_path (rs @ ds)" "list_all plain_comp (rs @ ds)" by (rule belowE)
  with assms(2) obtain es d where "ds = es @ [d]" by (cases ds rule: rev_cases) auto
  with ds show ?thesis using path_dir_plain [of "rs @ es" d] belowI [of rs es] by simp
qed

text \<open>What a tool that only reads does.\<close>

definition reading :: "file_op \<Rightarrow> bool" where
  "reading op = (case op of StatAt _ \<Rightarrow> True | ReadAt _ \<Rightarrow> True | WalkAt _ \<Rightarrow> True | _ \<Rightarrow> False)"

definition read_only :: "file_run \<Rightarrow> bool" where
  "read_only x = list_all reading (fst x)"

lemma reading_simps [simp]: "reading (StatAt p)" "reading (ReadAt p)" "reading (WalkAt p)"
  by (simp_all add: reading_def)

lemma probe_reading: "list_all reading (fst (probe w dir fs))"
  by (induction w dir fs rule: probe.induct) simp_all

lemma inspect_reading: "read_only (inspect_project w p)"
proof -
  let ?fs = "[(''pom.xml'', ''maven''), (''build.gradle.kts'', ''gradle''), (''build.gradle'', ''gradle''),
         (''go.mod'', ''go''), (''pyproject.toml'', ''python''), (''pytest.ini'', ''python'')]"
  obtain ops f where r: "probe w p ?fs = (ops, f)" by fastforce
  from probe_reading [of w p ?fs] have "list_all reading ops" unfolding r by simp
  then show ?thesis unfolding inspect_project_def r
    by (auto simp: read_only_def inspect_manifest_def split: option.split sum.split)
qed

lemma search_entry_reads: "keeps_on (\<lambda>_. True) (\<lambda>s. list_all reading (fst s)) (search_entry w base query)"
  by (auto simp: keeps_on_def search_entry_def split: option.split prod.split sum.split)

lemma search_reading: "read_only (workspace_search w base params)"
  using walk_keeps_on [OF _ search_entry_reads _ all_names_any(1), of "([], [])" w base "mstr params ''query''" base "lw_tree w base"]
  by (auto simp: read_only_def workspace_search_def Let_def split: prod.split option.split)

text \<open>The step asks for the root itself where the tool looks above its path.\<close>

definition asks_above :: "file_world \<Rightarrow> string \<Rightarrow> string gomap \<Rightarrow> bool" where
  "asks_above w name params = (case local_target w name params of Inl _ \<Rightarrow> False
     | Inr (base, rel, path) \<Rightarrow> path = base \<and> (name = ''workspace.write_file'' \<or> (name = ''workspace.run_tests'' \<and> file_exists w base)))"

definition reading_tools :: "string list" where
  "reading_tools = [''workspace.inspect_project'', ''workspace.tree'', ''workspace.read_file'', ''workspace.search'']"

lemma local_tool_inside:
  assumes "rooted w" "\<And>p. plain_tree (lw_tree w p)" "\<not> asks_above w (tl_name t) params"
    and "local_target w (tl_name t) params = Inr (base, rel, path)" "base = abs_path rs" "list_all plain_comp rs" "below rs path"
  shows "pred_option (\<lambda>x. inside rs x \<and> (tl_name t \<in> set reading_tools \<longrightarrow> read_only x)) (execute_local_file_tool w t params) \<and>
    execute_local_file_tool w t params \<noteq> None"
proof -
  have base: "below rs base" using assms(5,6) below_root by simp
  have dir: "below rs (path_dir path)"
    if "tl_name t = ''workspace.write_file'' \<or> (tl_name t = ''workspace.run_tests'' \<and> lw_stat w path = Inr False)"
    using assms(3-5,7) that below_dir [of rs path] by (auto simp: asks_above_def file_exists_def)
  have tests: "\<exists>x. run_tests w base rel path params = Some x \<and> inside rs x" if "tl_name t = ''workspace.run_tests''"
    using tests_within [OF assms(6,7), of w rel params] dir that assms(5) by auto
  note tools = inspect_within [OF assms(7), of w] tree_within [OF base, of w] search_within [OF base assms(2), of params]
    append_within [OF assms(7), of w rel params] replace_within [OF assms(7), of w rel params] diff_within [OF base, of w rel path]
    inspect_reading [of w path] search_reading [of w base params]
  show ?thesis using tools tests write_within [OF assms(7) dir, of w rel params] assms(4,7)
    by (auto simp: execute_local_file_tool_def reading_tools_def inside_def read_only_def workspace_tree_def split: option.split)
qed

text \<open>
  C12: whatever path a step asks for, absolute or relative and with any dots in it, a workspace tool returns
  and touches only paths below the workspace root: each is the root's names followed by names that are
  neither empty nor dots. The exception asks for the root itself: writing a file there first makes the
  directories above it, and a test of a root that is a file starts its search in the directory above.
  This is about the text of paths; where a symbolic link leads is not looked at. The tools that only
  read never write, append, make a directory or run a command.
\<close>

theorem workspace_tools_confined:
  assumes "rooted w" "\<And>p. plain_tree (lw_tree w p)" "lw_root w \<noteq> ''''" "\<not> asks_above w (tl_name t) params"
  shows "\<exists>rs ops res. workspace_root w = abs_path rs \<and> list_all plain_comp rs \<and>
    execute_local_file_tool w t params = Some (ops, res) \<and> (\<forall>op \<in> set ops. below rs (op_path op)) \<and>
    (tl_name t \<in> set reading_tools \<longrightarrow> list_all reading ops)"
proof (cases "local_target w (tl_name t) params")
  case (Inl e)
  from workspace_root_plain [OF assms(1,3)] obtain rs where "workspace_root w = abs_path rs" "list_all plain_comp rs" .
  with Inl show ?thesis by (auto simp: execute_local_file_tool_def)
next
  case (Inr x)
  obtain base rel path where x: "x = (base, rel, path)" by (cases x)
  from local_target_below [OF assms(1) Inr [unfolded x]] obtain rs where
    rs: "base = workspace_root w" "base = abs_path rs" "list_all plain_comp rs" "below rs path" .
  obtain ops res where "execute_local_file_tool w t params = Some (ops, res)"
    "inside rs (ops, res)" "tl_name t \<in> set reading_tools \<longrightarrow> read_only (ops, res)"
    using local_tool_inside [OF assms(1,2,4) Inr [unfolded x] rs(2-4)] by (cases "execute_local_file_tool w t params") auto
  with rs(1-3) show ?thesis
    by (intro exI [of _ rs] exI [of _ ops] exI [of _ res]) (auto simp: inside_def ops_below_def read_only_def)
qed

definition demo_files :: file_world where
  "demo_files = \<lparr>lw_root = ''/work'', lw_wd = None, lw_ctx_err = None,
     lw_stat = (\<lambda>p. if p = ''/work/app/go.mod'' then Inr False else if p = ''/work/app/src'' then Inr True else Inl ''no''),
     lw_tree = (\<lambda>_. WDir None [(''a.txt'', WFile 3)]), lw_read = (\<lambda>p. if p = ''/work/a.txt'' then Inr ''aabb'' else Inl ''no''),
     lw_open = (\<lambda>_. None), lw_append = (\<lambda>_. None), lw_mkdir = (\<lambda>_. None), lw_write = (\<lambda>_. None),
     lw_run = (\<lambda>_ _. (''ok'', None)), lw_pom = (\<lambda>_. Inl ''no'')\<rparr>"

definition demo_tests :: "tool_def \<Rightarrow> string \<Rightarrow> file_op list" where
  "demo_tests t p = (case execute_local_file_tool demo_files t [(''path'', p)] of Some (ops, _) \<Rightarrow> ops | None \<Rightarrow> [])"

lemma workspace_tools_confined_witness:
  "RunIn ''/work/app'' [''go'', ''test'', ''./...''] \<in> set (demo_tests (zero_tool\<lparr>tl_name := ''workspace.run_tests''\<rparr>) ''app/./lib/../src'') \<and>
   list_all (\<lambda>op. below [''work''] (op_path op)) (demo_tests (zero_tool\<lparr>tl_name := ''workspace.run_tests''\<rparr>) ''app/./lib/../src'') \<and>
   demo_tests (zero_tool\<lparr>tl_name := ''workspace.read_file''\<rparr>) ''../../etc/passwd'' = []"
proof -
  let ?t = "zero_tool\<lparr>tl_name := ''workspace.run_tests''\<rparr>" and ?p = "[(''path'', ''app/./lib/../src'')]"
  have "rooted demo_files" "lw_root demo_files \<noteq> ''''" "\<not> asks_above demo_files (tl_name ?t) ?p" by code_simp+
  moreover have "plain_tree (lw_tree demo_files q)" for q by (simp add: demo_files_def plain_comp_def)
  ultimately obtain rs ops res where r: "workspace_root demo_files = abs_path rs" "list_all plain_comp rs"
    "execute_local_file_tool demo_files ?t ?p = Some (ops, res)" "\<forall>op \<in> set ops. below rs (op_path op)"
    using workspace_tools_confined [of demo_files ?t ?p] by auto
  have "workspace_root demo_files = abs_path [''work'']" "list_all plain_comp [''work'']" by code_simp+
  with r(1,2) have "rs = [''work'']" using abs_path_inject by metis
  moreover have "RunIn ''/work/app'' [''go'', ''test'', ''./...''] \<in> set (demo_tests ?t ''app/./lib/../src'')" by code_simp
  moreover have "demo_tests (zero_tool\<lparr>tl_name := ''workspace.read_file''\<rparr>) ''../../etc/passwd'' = []" by code_simp
  ultimately show ?thesis using r(3,4) by (simp add: demo_tests_def list_all_iff)
qed

text \<open>The exception is real.\<close>

lemma write_at_root_looks_above:
  "execute_local_file_tool demo_files (zero_tool\<lparr>tl_name := ''workspace.write_file''\<rparr>) [(''path'', ''.''), (''content'', ''x'')] =
    Some ([MkdirAt ''/'', WriteAt ''/work'' ''x''], Inr [(''path'', GStr ''.''), (''bytes'', GInt 1), (''status'', GStr ''written'')])"
  by code_simp

subsection \<open>Editing a file\<close>

lemma str_index_Some:
  "str_index s p = Some n \<Longrightarrow> s = take n s @ p @ drop (n + length p) s \<and> n + length p \<le> length s"
proof (induction s p arbitrary: n rule: str_index.induct)
  case (1 p) then show ?case by (auto split: if_splits)
next
  case (2 c s p)
  then show ?case by (auto simp: has_prefix_iff split: if_splits dest: arg_cong [where f = length])
qed

lemma count_skip: "count_aux k p s = count_aux 0 p (drop k s)"
  by (induction k p s rule: count_aux.induct) auto

lemma count_index:
  assumes "p \<noteq> []"
  shows "str_count s p = (case str_index s p of None \<Rightarrow> 0 | Some n \<Rightarrow> Suc (str_count (drop (n + length p) s) p))"
proof (induction s)
  case Nil
  with assms show ?case by (simp add: str_count_def)
next
  case (Cons c s)
  show ?case
  proof (cases "has_prefix (c # s) p")
    case True
    then show ?thesis using assms count_skip [of "length p - 1" p s] by (cases p) (simp_all add: str_count_def)
  next
    case False
    with Cons show ?thesis by (simp add: str_count_def split: option.splits)
  qed
qed

text \<open>
  an edit of a file writes at most once, to the file it read, and then the text that is replaced occurs
  there exactly once: the written text has the new text in its place and the rest unchanged. When the
  old text is missing, empty, there twice or part of the new text, or the file cannot be read, nothing is
  written and the call fails.
\<close>

theorem replace_in_file_unique:
  assumes "replace_in_file w rel path params = (ops, res)"
  shows "(\<forall>p txt. WriteAt p txt \<in> set ops \<longrightarrow> p = path \<and> ops = [ReadAt path, WriteAt path txt] \<and>
      (\<exists>pre post. lw_read w path = Inr (pre @ mstr params ''old'' @ post) \<and> txt = pre @ mstr params ''new'' @ post \<and>
        mstr params ''old'' \<noteq> '''' \<and> str_index (pre @ mstr params ''old'' @ post) (mstr params ''old'') = Some (length pre) \<and>
        \<not> str_contains post (mstr params ''old''))) \<and>
    (is_ok res \<longrightarrow> (\<exists>txt. WriteAt path txt \<in> set ops))"
proof -
  let ?old = "mstr params ''old''" and ?new = "mstr params ''new''"
  show ?thesis
  proof (cases "?old = '''' \<or> str_contains ?new ?old")
    case True
    then have "ops = [] \<and> \<not> is_ok res" using assms by (auto simp: replace_in_file_def Let_def is_ok_def split: if_splits)
    then show ?thesis by simp
  next
    case False
    then have old: "?old \<noteq> ''''" "\<not> str_contains ?new ?old" by auto
    show ?thesis
    proof (cases "lw_read w path")
      case (Inl e)
      with assms old have "ops = [ReadAt path] \<and> \<not> is_ok res" by (auto simp: replace_in_file_def Let_def is_ok_def after_op_def)
      then show ?thesis by simp
    next
      case (Inr content)
      show ?thesis
      proof (cases "str_count content ?old = 1")
        case False
        with assms old Inr have "ops = [ReadAt path] \<and> \<not> is_ok res"
          by (auto simp: replace_in_file_def Let_def is_ok_def after_op_def split: if_splits)
        then show ?thesis by simp
      next
        case True
        with count_index [OF old(1), of content] obtain n where n: "str_index content ?old = Some n"
          "str_count (drop (n + length ?old) content) ?old = 0" by (auto split: option.splits)
        define pre post where "pre = take n content" and "post = drop (n + length ?old) content"
        have c: "content = pre @ ?old @ post" "length pre = n"
          using str_index_Some [OF n(1)] by (auto simp: pre_def post_def)
        have "\<not> str_contains post ?old"
          using n(2) count_index [OF old(1), of post] by (auto simp: str_contains_def post_def split: option.splits)
        moreover have "replace_first content ?old ?new = pre @ ?new @ post"
          using n(1) by (simp add: replace_first_def pre_def post_def)
        moreover have "ops = [ReadAt path, WriteAt path (replace_first content ?old ?new)]"
          using assms old Inr True by (auto simp: replace_in_file_def Let_def after_op_def)
        ultimately have o: "ops = [ReadAt path, WriteAt path (pre @ ?new @ post)]" "\<not> str_contains post ?old" by simp_all
        have "lw_read w path = Inr (pre @ ?old @ post)" "str_index (pre @ ?old @ post) ?old = Some (length pre)"
          using Inr n(1) c by simp_all
        with o old(1) have "\<exists>pre' post'. lw_read w path = Inr (pre' @ ?old @ post') \<and> pre @ ?new @ post = pre' @ ?new @ post' \<and>
          ?old \<noteq> '''' \<and> str_index (pre' @ ?old @ post') ?old = Some (length pre') \<and> \<not> str_contains post' ?old" by blast
        with o(1) show ?thesis by simp
      qed
    qed
  qed
qed

lemma replace_in_file_unique_witness:
  "\<exists>pre post. ''aabb'' = pre @ ''ab'' @ post \<and> ''aXb'' = pre @ ''X'' @ post \<and> \<not> str_contains post ''ab''"
proof -
  let ?ps = "[(''old'', ''ab''), (''new'', ''X'')]"
  have "replace_in_file demo_files ''a.txt'' ''/work/a.txt'' ?ps =
    ([ReadAt ''/work/a.txt'', WriteAt ''/work/a.txt'' ''aXb''], Inr [(''path'', GStr ''a.txt''), (''status'', GStr ''updated''), (''replacements'', GInt 1)])"
    by code_simp
  from replace_in_file_unique [OF this] show ?thesis by (auto simp: demo_files_def mstr_def)
qed

text \<open>
  The guard against edits that are not idempotent looks at the new text alone: replacing "ab" by
  nothing in "aabb" leaves "ab", and the same edit succeeds again.
\<close>

lemma replace_in_file_repeats:
  "is_ok (snd (replace_in_file demo_files ''a.txt'' ''/work/a.txt'' [(''old'', ''ab''), (''new'', '''')])) \<and>
   is_ok (snd (replace_in_file (demo_files\<lparr>lw_read := (\<lambda>_. Inr ''ab'')\<rparr>) ''a.txt'' ''/work/a.txt'' [(''old'', ''ab''), (''new'', '''')])) \<and>
   replace_first ''aabb'' ''ab'' '''' = ''ab''"
  by code_simp

end
