(* ===== verification/Tool_Net.thy ===== *)
theory Tool_Net
  imports Config_Model Go_Path "HOL-Library.Word"
begin

unbundle bit_operations_syntax

text \<open>
  The network side of the tools: the check of every outgoing connection and the call of an HTTP tool
  (tools/execute.go). Name resolution, the HTTP client, the template renderer and the JSON parser are
  fields of the worlds of a call; \<open>Inl\<close> is an error's text.
\<close>

subsection \<open>Addresses\<close>

text \<open>\<open>net.IP\<close>: 4 or 16 bytes.\<close>

type_synonym byte = "8 word"
type_synonym ip = "byte list"

definition to4 :: "ip \<Rightarrow> ip option" where
  "to4 a = (if length a = 4 then Some a
     else if length a = 16 \<and> take 12 a = replicate 10 0 @ [0xff, 0xff] then Some (drop 12 a) else None)"

definition ip_is_private :: "ip \<Rightarrow> bool" where
  "ip_is_private a = (case to4 a of
      Some b \<Rightarrow> b ! 0 = 10 \<or> (b ! 0 = 172 \<and> b ! 1 AND 0xf0 = 16) \<or> (b ! 0 = 192 \<and> b ! 1 = 168)
    | None \<Rightarrow> length a = 16 \<and> a ! 0 AND 0xfe = 0xfc)"

definition ip_is_loopback :: "ip \<Rightarrow> bool" where
  "ip_is_loopback a = (case to4 a of Some b \<Rightarrow> b ! 0 = 127 | None \<Rightarrow> a = replicate 15 0 @ [1])"

definition ip_is_unspecified :: "ip \<Rightarrow> bool" where
  "ip_is_unspecified a = (to4 a = Some [0, 0, 0, 0] \<or> a = replicate 16 0)"

definition ip_is_multicast :: "ip \<Rightarrow> bool" where
  "ip_is_multicast a = (case to4 a of Some b \<Rightarrow> b ! 0 AND 0xf0 = 0xe0 | None \<Rightarrow> length a = 16 \<and> a ! 0 = 0xff)"

definition ip_is_link_local_unicast :: "ip \<Rightarrow> bool" where
  "ip_is_link_local_unicast a = (case to4 a of Some b \<Rightarrow> b ! 0 = 169 \<and> b ! 1 = 254
     | None \<Rightarrow> length a = 16 \<and> a ! 0 = 0xfe \<and> a ! 1 AND 0xc0 = 0x80)"

definition ip_internal :: "ip \<Rightarrow> bool" where
  "ip_internal a = (ip_is_private a \<or> ip_is_loopback a \<or> ip_is_unspecified a \<or> ip_is_multicast a \<or> ip_is_link_local_unicast a)"

text \<open>\<open>net.SplitHostPort\<close>: host and port around the last colon, brackets around an IPv6 address.\<close>

definition host_port_checked :: "string \<Rightarrow> string \<Rightarrow> string \<Rightarrow> string \<Rightarrow> string + string \<times> string" where
  "host_port_checked host port after_open after_close =
    (if CHR ''['' \<in> set after_open then Inl ''unexpected left bracket in address''
     else if CHR '']'' \<in> set after_close then Inl ''unexpected right bracket in address''
     else Inr (host, port))"

definition split_host_port :: "string \<Rightarrow> string + string \<times> string" where
  "split_host_port hp =
    (case last_index CHR '':'' hp of None \<Rightarrow> Inl ''missing port in address''
     | Some i \<Rightarrow>
       if hp ! 0 = CHR ''[''
       then (case str_index hp '']'' of None \<Rightarrow> Inl ''missing right bracket in address''
         | Some e \<Rightarrow>
             if e + 1 = length hp then Inl ''missing port in address''
             else if e + 1 \<noteq> i then Inl (if hp ! (e + 1) = CHR '':'' then ''too many colons in address'' else ''missing port in address'')
             else host_port_checked (drop 1 (take e hp)) (drop (i + 1) hp) (drop 1 hp) (drop (e + 1) hp))
       else if CHR '':'' \<in> set (take i hp) then Inl ''too many colons in address''
       else host_port_checked (take i hp) (drop (i + 1) hp) hp hp)"

subsection \<open>The guarded dialer\<close>

definition set_internal_hosts :: "string list \<Rightarrow> string list" where
  "set_internal_hosts hosts = filter (\<lambda>h. h \<noteq> '''') (map (\<lambda>h. to_lower (trim_space h)) hosts)"

record dial_world =
  dw_skip :: bool
  dw_internal :: "string list"
  dw_lookup :: "string \<Rightarrow> string + ip list"
  dw_ip_text :: "ip \<Rightarrow> string"

text \<open>The connection that is opened: to a name, which the dialer resolves, or to an address.\<close>

datatype dial = DialName string | DialAddress ip string

definition guarded_dial :: "dial_world \<Rightarrow> string \<Rightarrow> string + dial" where
  "guarded_dial w addr =
    (if dw_skip w then Inr (DialName addr)
     else (case split_host_port addr of Inl e \<Rightarrow> Inl e
       | Inr (host, port) \<Rightarrow>
         (case dw_lookup w host of Inl e \<Rightarrow> Inl e
          | Inr [] \<Rightarrow> Inl (''ssrf prevention: '' @ host @ '' does not resolve'')
          | Inr (a # as) \<Rightarrow>
              (case (if to_lower host \<in> set (dw_internal w) then None else find ip_internal (a # as)) of
                Some b \<Rightarrow> Inl (''ssrf prevention: access to internal IP '' @ dw_ip_text w b @ '' is denied'')
              | None \<Rightarrow> Inr (DialAddress a port)))))"

subsection \<open>HTTP tools\<close>

text \<open>\<open>textproto.CanonicalMIMEHeaderKey\<close> of a key made of letters, digits and dashes.\<close>

fun canonical_aux :: "bool \<Rightarrow> string \<Rightarrow> string" where
  "canonical_aux up [] = []"
| "canonical_aux up (c # s) = (if up then upper_char c else lower_char c) # canonical_aux (c = CHR ''-'') s"

definition canonical_key :: "string \<Rightarrow> string" where
  "canonical_key k = (if list_all (\<lambda>c. is_alpha c \<or> is_digit c \<or> c = CHR ''-'') k then canonical_aux True k else k)"

definition set_headers :: "string gomap \<Rightarrow> string gomap \<Rightarrow> string gomap" where
  "set_headers kvs h = fold (\<lambda>(k, v) m. mput m (canonical_key k) v) kvs h"

text \<open>\<open>tc_render\<close> renders a template, \<open>tc_send\<close> sends a request with a timeout in nanoseconds and
  answers status and body, and \<open>tc_remaining\<close> is the time to the deadline of the context.\<close>

record http_call =
  hc_method :: string
  hc_url :: string
  hc_headers :: "string gomap"
  hc_body :: "string gomap"

record tool_world =
  tc_render :: "string \<Rightarrow> string gomap \<Rightarrow> string + string"
  tc_bad_request :: "string \<Rightarrow> string \<Rightarrow> string option"
  tc_remaining :: "int option"
  tc_send :: "http_call \<Rightarrow> int \<Rightarrow> string + (int \<times> (string + string))"
  tc_json :: "string \<Rightarrow> gval option"
  tc_status_text :: "int \<Rightarrow> string"

definition render_string :: "tool_world \<Rightarrow> string \<Rightarrow> string gomap option \<Rightarrow> string + string" where
  "render_string w tpl params = (case params of None \<Rightarrow> Inr tpl | Some ps \<Rightarrow> tc_render w tpl ps)"

fun render_map :: "(string \<Rightarrow> string + string) \<Rightarrow> string gomap \<Rightarrow> string gomap \<Rightarrow> string + string gomap" where
  "render_map f [] out = Inr out"
| "render_map f ((k, v) # kvs) out = (case f v of Inl e \<Rightarrow> Inl e | Inr r \<Rightarrow> render_map f kvs (mput out k r))"

definition effective_timeout :: "int \<Rightarrow> int option \<Rightarrow> int" where
  "effective_timeout ms remaining =
    (let t = wrap64 (ms * 1000000);
         t1 = (case remaining of None \<Rightarrow> t | Some r \<Rightarrow> if r > 0 \<and> (t = 0 \<or> r < t) then r else t) in
     if t1 \<le> 0 then 30000000000 else t1)"

definition http_request_of :: "tool_world \<Rightarrow> tool_def \<Rightarrow> string gomap option \<Rightarrow> string + http_call" where
  "http_request_of w t params =
    (case render_string w (tl_url t) params of Inl e \<Rightarrow> Inl (''error rendering URL: '' @ e)
     | Inr url \<Rightarrow>
      (case render_map (\<lambda>v. render_string w v params) (tl_body t) [] of Inl e \<Rightarrow> Inl (''error rendering body: '' @ e)
       | Inr body \<Rightarrow>
        (case render_map (\<lambda>v. tc_render w v (case params of None \<Rightarrow> [] | Some ps \<Rightarrow> ps)) (tl_headers t) [] of
            Inl e \<Rightarrow> Inl (''error rendering headers: '' @ e)
         | Inr hs \<Rightarrow>
          (case tc_bad_request w (tl_method t) url of Some e \<Rightarrow> Inl (''error creating request: '' @ e)
           | None \<Rightarrow> Inr \<lparr>hc_method = tl_method t, hc_url = url,
               hc_headers = set_headers hs (if mget hs ''Content-Type'' = None then [(''Content-Type'', ''application/json'')] else []),
               hc_body = body\<rparr>))))"

definition http_result :: "tool_world \<Rightarrow> int \<Rightarrow> string \<Rightarrow> string + gval gomap" where
  "http_result w status body =
    (let out = [(''ok'', GBool (status \<ge> 200 \<and> status < 300)), (''statusCode'', GInt status)];
         out1 = (if body = '''' then out
           else (case tc_json w body of Some (GObj m) \<Rightarrow> mputs out m | Some GNil \<Rightarrow> out
             | _ \<Rightarrow> mput out ''raw'' (GStr body))) in
     if status \<ge> 400 then Inl (''HTTP '' @ show_int status @ '': '' @ tc_status_text w status) else Inr out1)"

text \<open>\<open>ExecuteToolCtx\<close> for an HTTP tool: the request that is sent, if any, and the result.\<close>

definition execute_http_tool :: "tool_world \<Rightarrow> tool_def \<Rightarrow> string gomap option \<Rightarrow> (http_call \<times> int) option \<times> (string + gval gomap)" where
  "execute_http_tool w t params =
    (case http_request_of w t params of Inl e \<Rightarrow> (None, Inl e)
     | Inr req \<Rightarrow> (let timeout = effective_timeout (tl_timeout_ms t) (tc_remaining w) in
         (Some (req, timeout), case tc_send w req timeout of
            Inl e \<Rightarrow> Inl (''error executing HTTP request: '' @ e)
          | Inr (status, Inl e) \<Rightarrow> Inl (''error reading response: '' @ e)
          | Inr (status, Inr body) \<Rightarrow> http_result w status body)))"

end
