(* ===== verification/Tool_Net_Props.thy ===== *)
theory Tool_Net_Props
  imports Tool_Net
begin

text \<open>
  The properties of the network side of the tools: which addresses a tool never reaches, stated as
  ranges of numbers instead of tests on bytes, and what an HTTP tool reports.
\<close>

subsection \<open>Address ranges\<close>

definition addr_value :: "ip \<Rightarrow> nat" where
  "addr_value a = foldl (\<lambda>n b. n * 256 + unat b) 0 a"

text \<open>10/8, 172.16/12, 192.168/16, 127/8, 0.0.0.0, 224/4 and 169.254/16; fc00::/7, ::1, ::, ff00::/8
  and fe80::/10.\<close>

definition ranges4 :: "(nat \<times> nat) list" where
  "ranges4 = [(0x0A000000, 0x0AFFFFFF), (0xAC100000, 0xAC1FFFFF), (0xC0A80000, 0xC0A8FFFF), (0x7F000000, 0x7FFFFFFF),
     (0, 0), (0xE0000000, 0xEFFFFFFF), (0xA9FE0000, 0xA9FEFFFF)]"

definition ranges6 :: "(nat \<times> nat) list" where
  "ranges6 = [(0xFC * 2 ^ 120, 0xFE * 2 ^ 120 - 1), (1, 1), (0, 0), (0xFF * 2 ^ 120, 2 ^ 128 - 1),
     (0xFE80 * 2 ^ 112, 0xFEC0 * 2 ^ 112 - 1)]"

definition in_ranges :: "(nat \<times> nat) list \<Rightarrow> nat \<Rightarrow> bool" where
  "in_ranges rs v = list_ex (\<lambda>(lo, hi). lo \<le> v \<and> v \<le> hi) rs"

definition internal_range :: "ip \<Rightarrow> bool" where
  "internal_range a = (case to4 a of Some b \<Rightarrow> in_ranges ranges4 (addr_value b) | None \<Rightarrow> in_ranges ranges6 (addr_value a))"

lemma byte_less: "unat (b :: byte) < 256"
  using unsigned_less [of b, where ?'a = nat] by simp

lemma byte_high: "unat (b AND NOT (mask k)) = unat b div 2 ^ k * 2 ^ k" for b :: byte
proof -
  have "b AND NOT (mask k) = push_bit k (drop_bit k b)"
    by (rule bit_word_eqI) (auto simp: bit_simps)
  then have "unat (b AND NOT (mask k)) = take_bit 8 (push_bit k (drop_bit k (unat b)))"
    by (simp only: unsigned_push_bit_eq unat_drop_bit_eq) simp
  then have "unat (b AND NOT (mask k)) = unat b div 2 ^ k * 2 ^ k mod 256"
    by (simp only: take_bit_eq_mod push_bit_eq_mult drop_bit_eq_div) simp
  moreover have "unat b div 2 ^ k * 2 ^ k < 256"
    using div_times_less_eq_dividend [of "unat b" "2 ^ k"] byte_less [of b] by linarith
  ultimately show ?thesis by simp
qed

lemma byte_masks:
  "(unat (b AND 0xf0) = 16) = (16 \<le> unat b \<and> unat b < 32)"
  "(unat (b AND 0xf0) = 0xe0) = (0xe0 \<le> unat b \<and> unat b < 0xf0)"
  "(unat (b AND 0xfe) = 0xfc) = (0xfc \<le> unat b \<and> unat b < 0xfe)"
  "(unat (b AND 0xc0) = 0x80) = (0x80 \<le> unat b \<and> unat b < 0xc0)" for b :: byte
proof -
  have m: "(0xf0 :: byte) = NOT (mask 4)" "(0xfe :: byte) = NOT (mask 1)" "(0xc0 :: byte) = NOT (mask 6)"
    by (simp_all add: mask_numeral mask_eq_exp_minus_1)
  have div: "n div m * m = c * m \<longleftrightarrow> c * m \<le> n \<and> n < Suc c * m" if "0 < m" for m n c :: nat
  proof
    assume "n div m * m = c * m"
    with that have "n div m = c" by simp
    with that show "c * m \<le> n \<and> n < Suc c * m"
      using div_times_less_eq_dividend [of n m] dividend_less_div_times [of m n] by auto
  next
    assume "c * m \<le> n \<and> n < Suc c * m"
    then have "n div m = c" by (intro div_nat_eqI) (simp_all add: mult.commute)
    then show "n div m * m = c * m" by simp
  qed
  show "(unat (b AND 0xf0) = 16) = (16 \<le> unat b \<and> unat b < 32)" "(unat (b AND 0xf0) = 0xe0) = (0xe0 \<le> unat b \<and> unat b < 0xf0)"
    "(unat (b AND 0xfe) = 0xfc) = (0xfc \<le> unat b \<and> unat b < 0xfe)" "(unat (b AND 0xc0) = 0x80) = (0x80 \<le> unat b \<and> unat b < 0xc0)"
    using div [of 16 "unat b" 1] div [of 16 "unat b" 14] div [of 2 "unat b" 126] div [of 64 "unat b" 2]
    unfolding m by (simp_all only: byte_high) simp_all
qed

lemma byte_eq: "(b = c) = (unat b = unat c)" for b :: byte
  by (rule word_unat_eq_iff)

lemma length4: "length b = 4 \<longleftrightarrow> (\<exists>b0 b1 b2 b3. b = [b0, b1, b2, b3])"
  by (auto simp: length_Suc_conv numeral_eq_Suc)

text \<open>The tests on the bytes of a 4-byte address are the ranges.\<close>

lemma internal4:
  assumes "length b = 4"
  shows "ip_internal b = in_ranges ranges4 (addr_value b)"
proof -
  from assms obtain b0 b1 b2 b3 where b: "b = [b0, b1, b2, b3]" by (auto simp: length4)
  note less = byte_less [of b0] byte_less [of b1] byte_less [of b2] byte_less [of b3]
  define h where "h = unat b0 * 256 + unat b1"
  have v: "addr_value b = h * 65536 + (unat b2 * 256 + unat b3)" by (simp add: b addr_value_def h_def)
  have two: "(c * 65536 \<le> addr_value b \<and> addr_value b \<le> d * 65536 + 65535) = (c \<le> h \<and> h \<le> d)" for c d
    unfolding v using less by auto
  have single: "(c * 256 \<le> h \<and> h \<le> d * 256 + 255) = (c \<le> unat b0 \<and> unat b0 \<le> d)" for c d
    unfolding h_def using less by auto
  have p1: "(unat b0 = 10) = (0x0A00 \<le> h \<and> h \<le> 0x0AFF)" using single [of 10 10] by linarith
  have p2: "(unat b0 = 172 \<and> 16 \<le> unat b1 \<and> unat b1 < 32) = (0xAC10 \<le> h \<and> h \<le> 0xAC1F)"
    using single [of 172 172] less(2) unfolding h_def by linarith
  have p3: "(unat b0 = 192 \<and> unat b1 = 168) = (0xC0A8 \<le> h \<and> h \<le> 0xC0A8)"
    using single [of 192 192] less(2) unfolding h_def by linarith
  have p4: "(unat b0 = 127) = (0x7F00 \<le> h \<and> h \<le> 0x7FFF)" using single [of 127 127] by linarith
  have p5: "(unat b0 = 0 \<and> unat b1 = 0 \<and> unat b2 = 0 \<and> unat b3 = 0) = (addr_value b = 0)" by (simp add: v h_def)
  have p6: "(0xe0 \<le> unat b0 \<and> unat b0 < 0xf0) = (0xE000 \<le> h \<and> h \<le> 0xEFFF)" using single [of "0xE0" "0xEF"] by linarith
  have p7: "(unat b0 = 169 \<and> unat b1 = 254) = (0xA9FE \<le> h \<and> h \<le> 0xA9FE)"
    using single [of 169 169] less(2) unfolding h_def by linarith
  have short: "[b0, b1, b2, b3] \<noteq> replicate 16 0" by (auto dest: arg_cong [where f = length])
  have "ip_internal b = ((unat b0 = 10) \<or> (unat b0 = 172 \<and> 16 \<le> unat b1 \<and> unat b1 < 32) \<or> (unat b0 = 192 \<and> unat b1 = 168) \<or>
      (unat b0 = 127) \<or> (unat b0 = 0 \<and> unat b1 = 0 \<and> unat b2 = 0 \<and> unat b3 = 0) \<or> (0xe0 \<le> unat b0 \<and> unat b0 < 0xf0) \<or>
      (unat b0 = 169 \<and> unat b1 = 254))"
    using short by (simp add: b ip_internal_def ip_is_private_def ip_is_loopback_def ip_is_unspecified_def ip_is_multicast_def
        ip_is_link_local_unicast_def to4_def byte_masks byte_eq)
  also have "\<dots> = in_ranges ranges4 (addr_value b)"
    unfolding p1 p2 p3 p4 p5 p6 p7
    using two [of "0x0A00" "0x0AFF"] two [of "0xAC10" "0xAC1F"] two [of "0xC0A8" "0xC0A8"] two [of "0x7F00" "0x7FFF"]
      two [of "0xE000" "0xEFFF"] two [of "0xA9FE" "0xA9FE"]
    by (simp add: in_ranges_def ranges4_def)
  finally show ?thesis .
qed

lemma value_snoc: "addr_value (a @ [b]) = addr_value a * 256 + unat b"
  by (simp add: addr_value_def)

lemma value_bound: "addr_value a < 256 ^ length a"
proof (induction a rule: rev_induct)
  case (snoc b a)
  then show ?case using byte_less [of b] by (simp add: value_snoc)
qed (simp add: addr_value_def)

lemma value_append: "addr_value (a @ b) = addr_value a * 256 ^ length b + addr_value b"
proof (induction b rule: rev_induct)
  case (snoc c b)
  then show ?case using value_snoc [of "a @ b" c] by (simp add: value_snoc algebra_simps)
qed (simp add: addr_value_def)

lemma value_inject: "length a = length b \<Longrightarrow> addr_value a = addr_value b \<Longrightarrow> a = b"
proof (induction a arbitrary: b rule: rev_induct)
  case (snoc x a)
  then obtain y c where b: "b = c @ [y]" by (cases b rule: rev_cases) auto
  with snoc.prems(2) have eq: "addr_value a * 256 + unat x = addr_value c * 256 + unat y" by (simp add: value_snoc)
  then have "addr_value a = addr_value c" using byte_less [of x] byte_less [of y] by linarith
  moreover from this eq have "unat x = unat y" by simp
  ultimately have "x = y" "a = c" using snoc b byte_eq by auto
  then show ?case using b by simp
qed simp

lemma internal6:
  assumes "length a = 16" "to4 a = None"
  shows "ip_internal a = in_ranges ranges6 (addr_value a)"
proof -
  from assms(1) obtain b0 b1 r where a: "a = [b0, b1] @ r" and r: "length r = 14"
    by (cases a; cases "tl a") (auto simp: numeral_eq_Suc)
  define h where "h = unat b0 * 256 + unat b1"
  have v: "addr_value a = h * 2 ^ 112 + addr_value r" using r unfolding a value_append by (simp add: addr_value_def h_def)
  have rest: "addr_value r < 2 ^ 112" using value_bound [of r] r by simp
  have two: "(c * 2 ^ 112 \<le> addr_value a \<and> addr_value a \<le> Suc d * 2 ^ 112 - 1) = (c \<le> h \<and> h \<le> d)" for c d :: nat
    unfolding v using rest by auto
  have single: "(c * 256 \<le> h \<and> h \<le> d * 256 + 255) = (c \<le> unat b0 \<and> unat b0 \<le> d)" for c d
    unfolding h_def using byte_less [of b1] by auto
  have p1: "(0xfc \<le> unat b0 \<and> unat b0 < 0xfe) = (0xFC00 \<le> h \<and> h \<le> 0xFDFF)" using single [of "0xFC" "0xFD"] by linarith
  have p2: "(unat b0 = 0xff) = (0xFF00 \<le> h \<and> h \<le> 0xFFFF)" using single [of "0xFF" "0xFF"] by linarith
  have p3: "(unat b0 = 0xfe \<and> 0x80 \<le> unat b1 \<and> unat b1 < 0xc0) = (0xFE80 \<le> h \<and> h \<le> 0xFEBF)"
    using single [of "0xFE" "0xFE"] byte_less [of b1] unfolding h_def by linarith
  have p4: "(a = replicate 15 0 @ [1]) = (1 \<le> addr_value a \<and> addr_value a \<le> 1)"
    using value_inject [of a "replicate 15 0 @ [1]"] assms(1) by (auto simp: addr_value_def numeral_eq_Suc)
  have p5: "(a = replicate 16 0) = (addr_value a = 0)"
    using value_inject [of a "replicate 16 0"] assms(1) by (auto simp: addr_value_def numeral_eq_Suc)
  have "ip_internal a = ((0xfc \<le> unat b0 \<and> unat b0 < 0xfe) \<or> a = replicate 15 0 @ [1] \<or> a = replicate 16 0 \<or> (unat b0 = 0xff) \<or>
      (unat b0 = 0xfe \<and> 0x80 \<le> unat b1 \<and> unat b1 < 0xc0))"
    using assms unfolding ip_internal_def ip_is_private_def ip_is_loopback_def ip_is_unspecified_def ip_is_multicast_def
      ip_is_link_local_unicast_def by (simp add: a byte_masks byte_eq)
  also have "\<dots> = in_ranges ranges6 (addr_value a)"
    unfolding p1 p2 p3 p4 p5 using two [of "0xFC00" "0xFDFF"] two [of "0xFF00" "0xFFFF"] two [of "0xFE80" "0xFEBF"]
    by (simp add: in_ranges_def ranges6_def)
  finally show ?thesis .
qed

text \<open>The tests on bytes are the ranges, for the addresses a resolver answers.\<close>

lemma internal_iff:
  assumes "length a = 4 \<or> length a = 16"
  shows "ip_internal a = internal_range a"
proof (cases "to4 a")
  case None
  with assms have "length a = 16" by (auto simp: to4_def split: if_splits)
  with None show ?thesis using internal6 [of a] by (simp add: internal_range_def)
next
  case (Some b)
  then have b: "length b = 4" by (auto simp: to4_def split: if_splits)
  have "a \<noteq> replicate 16 0"
  proof
    assume "a = replicate 16 0"
    moreover have "to4 (replicate 16 0) = None" by code_simp
    ultimately show False using Some by simp
  qed
  moreover have "b \<noteq> replicate 16 0" using b by (auto dest: arg_cong [where f = length])
  ultimately
  have "ip_internal a = ip_internal b"
    using Some b by (simp add: ip_internal_def ip_is_private_def ip_is_loopback_def ip_is_unspecified_def ip_is_multicast_def
        ip_is_link_local_unicast_def to4_def)
  with internal4 [OF b] Some show ?thesis by (simp add: internal_range_def)
qed

text \<open>A resolver answers with addresses of 4 or 16 bytes.\<close>

definition resolver_ok :: "dial_world \<Rightarrow> bool" where
  "resolver_ok w = (\<forall>h as. dw_lookup w h = Inr as \<longrightarrow> (\<forall>a \<in> set as. length a = 4 \<or> length a = 16))"

text \<open>
  C13: a connection of a tool goes to the first address that the host's name resolved to, and no address in
  the answer is private, loopback, unspecified, multicast or link-local, whether written as IPv4, as
  IPv6 or as an IPv4 address inside IPv6, unless the operator listed the host's name or switched the
  check off; in particular the name is not resolved a second time.
\<close>

theorem dial_refuses_internal:
  assumes "guarded_dial w addr = Inr d" "\<not> dw_skip w" "resolver_ok w"
  shows "\<exists>host port a as. split_host_port addr = Inr (host, port) \<and> dw_lookup w host = Inr (a # as) \<and> d = DialAddress a port \<and>
    (to_lower host \<in> set (dw_internal w) \<or> (\<forall>b \<in> set (a # as). \<not> internal_range b))"
proof -
  from assms(1,2) obtain host port a as where q: "split_host_port addr = Inr (host, port)" "dw_lookup w host = Inr (a # as)"
    "d = DialAddress a port" "to_lower host \<in> set (dw_internal w) \<or> find ip_internal (a # as) = None"
    by (auto simp: guarded_dial_def split: sum.splits list.splits option.splits if_splits)
  from q(4) have "to_lower host \<in> set (dw_internal w) \<or> (\<forall>b \<in> set (a # as). \<not> ip_internal b)"
    unfolding find_None_iff by blast
  moreover have "\<forall>b \<in> set (a # as). length b = 4 \<or> length b = 16" using q(2) assms(3) unfolding resolver_ok_def by blast
  ultimately show ?thesis using q(1-3) internal_iff by blast
qed

definition demo_dial :: dial_world where
  "demo_dial = \<lparr>dw_skip = False, dw_internal = [''mock''],
     dw_lookup = (\<lambda>h. if h = ''a.example'' then Inr [[93, 184, 216, 34]] else if h = ''mock'' then Inr [[10, 0, 0, 7]]
       else if h = ''evil'' then Inr [[93, 184, 216, 34], replicate 10 0 @ [255, 255, 169, 254, 169, 254]] else Inl ''no such host''),
     dw_ip_text = (\<lambda>_. ''ip'')\<rparr>"

lemma dial_refuses_internal_witness:
  "\<not> internal_range [93, 184, 216, 34] \<and> guarded_dial demo_dial ''a.example:443'' = Inr (DialAddress [93, 184, 216, 34] ''443'') \<and>
   guarded_dial demo_dial ''mock:80'' = Inr (DialAddress [10, 0, 0, 7] ''80'') \<and> \<not> is_ok (guarded_dial demo_dial ''evil:80'')"
proof -
  have d: "guarded_dial demo_dial ''a.example:443'' = Inr (DialAddress [93, 184, 216, 34] ''443'')"
    "guarded_dial demo_dial ''mock:80'' = Inr (DialAddress [10, 0, 0, 7] ''80'')" "\<not> is_ok (guarded_dial demo_dial ''evil:80'')"
    by code_simp+
  have lk: "resolver_ok demo_dial" by (auto simp: resolver_ok_def demo_dial_def)
  have "\<not> dw_skip demo_dial" by (simp add: demo_dial_def)
  from dial_refuses_internal [OF d(1) this lk] obtain host port a as where
    h: "split_host_port ''a.example:443'' = Inr (host, port)" "DialAddress [93, 184, 216, 34] ''443'' = DialAddress a port"
      "to_lower host \<in> set (dw_internal demo_dial) \<or> (\<forall>b \<in> set (a # as). \<not> internal_range b)"
    by blast
  then have "to_lower host \<in> set (dw_internal demo_dial) \<or> \<not> internal_range [93, 184, 216, 34]" by auto
  moreover note h(1)
  moreover have "split_host_port ''a.example:443'' = Inr (''a.example'', ''443'')" by code_simp
  moreover have "to_lower ''a.example'' \<notin> set (dw_internal demo_dial)" by code_simp
  ultimately have "\<not> internal_range [93, 184, 216, 34]" by auto
  with d show ?thesis by simp
qed

end
