(* ===== verification/Tool_Rpc.thy ===== *)
theory Tool_Rpc
  imports Tool_Net
begin

text \<open>
  The tool protocols over JSON-RPC: the MCP client (tools/mcp_client.go) and the calls of MCP and A2A
  tools (tools/protocols.go). The answer of a server to the n-th request of a call, the JSON parser and
  the end of the context are fields of \<open>rpc_world\<close>. A body is given as its text, its JSON value or the
  decoder's error, and its lines.
\<close>

subsection \<open>Requests and answers\<close>

record rpc_request =
  rr_verb :: string
  rr_headers :: "string gomap"
  rr_body :: gval

record rpc_answer =
  ra_status :: int
  ra_session :: string
  ra_content_type :: string
  ra_text :: string
  ra_json :: "string + gval"
  ra_lines :: "string list"
  ra_line_error :: "string option"

record rpc_world =
  rw_bad_url :: "string \<Rightarrow> string option"
  rw_send :: "nat \<Rightarrow> string \<Rightarrow> rpc_request \<Rightarrow> string + rpc_answer"
  rw_json :: "string \<Rightarrow> gval option"
  rw_uuid :: "nat \<Rightarrow> string"
  rw_float :: "f64 \<Rightarrow> string"
  rw_done :: "nat \<Rightarrow> string option"

text \<open>Structs that the JSON decoder fills; \<open>Inl\<close> is a value of another type.\<close>

definition decode_map :: "gval option \<Rightarrow> string + gval gomap option" where
  "decode_map v = (case v of None \<Rightarrow> Inr None | Some GNil \<Rightarrow> Inr None | Some (GObj m) \<Rightarrow> Inr (Some m)
     | _ \<Rightarrow> Inl ''json: cannot unmarshal into map'')"

definition decode_error :: "gval option \<Rightarrow> string + (int \<times> string) option" where
  "decode_error v = (case v of None \<Rightarrow> Inr None | Some GNil \<Rightarrow> Inr None
     | Some (GObj m) \<Rightarrow>
         (case (mget m ''code'', mget m ''message'') of
            (Some (GInt c), Some (GStr s)) \<Rightarrow> Inr (Some (c, s))
          | (Some (GInt c), None) \<Rightarrow> Inr (Some (c, '''')) | (Some (GInt c), Some GNil) \<Rightarrow> Inr (Some (c, ''''))
          | (None, Some (GStr s)) \<Rightarrow> Inr (Some (0, s)) | (Some GNil, Some (GStr s)) \<Rightarrow> Inr (Some (0, s))
          | (None, None) \<Rightarrow> Inr (Some (0, '''')) | (Some GNil, None) \<Rightarrow> Inr (Some (0, ''''))
          | (None, Some GNil) \<Rightarrow> Inr (Some (0, '''')) | (Some GNil, Some GNil) \<Rightarrow> Inr (Some (0, ''''))
          | _ \<Rightarrow> Inl ''json: cannot unmarshal into error'')
     | _ \<Rightarrow> Inl ''json: cannot unmarshal into error'')"

text \<open>The text of an id without its quotes.\<close>

definition id_text :: "gval option \<Rightarrow> string" where
  "id_text v = (case v of Some (GInt i) \<Rightarrow> show_int i | Some (GStr s) \<Rightarrow> s | Some GNil \<Rightarrow> ''null'' | _ \<Rightarrow> '''')"

text \<open>A reply: its id, result and error.\<close>

type_synonym rpc_reply = "string \<times> gval gomap option \<times> (int \<times> string) option"

definition decode_reply :: "gval \<Rightarrow> string + rpc_reply" where
  "decode_reply v = (case v of GNil \<Rightarrow> Inr ('''', None, None)
     | GObj m \<Rightarrow> (case (decode_map (mget m ''result''), decode_error (mget m ''error'')) of
           (Inr r, Inr e) \<Rightarrow> Inr (id_text (mget m ''id''), r, e)
         | (Inl e, _) \<Rightarrow> Inl e | (_, Inl e) \<Rightarrow> Inl e)
     | _ \<Rightarrow> Inl ''json: cannot unmarshal into rpcReply'')"

subsection \<open>Event streams\<close>

text \<open>\<open>readSSEReply\<close>: \<open>data\<close> is what the lines of the current event gave so far. A reply of nobody's
  is no reply.\<close>

definition event_reply :: "rpc_world \<Rightarrow> string \<Rightarrow> string \<Rightarrow> rpc_reply option" where
  "event_reply w n data = (if data = '''' then None
     else (case rw_json w data of None \<Rightarrow> None
       | Some v \<Rightarrow> (case decode_reply v of Inl _ \<Rightarrow> None
         | Inr (i, r, e) \<Rightarrow> if i = n \<and> (r \<noteq> None \<or> e \<noteq> None) then Some (i, r, e) else None)))"

fun read_sse :: "rpc_world \<Rightarrow> string \<Rightarrow> string option \<Rightarrow> string list \<Rightarrow> string \<Rightarrow> string + rpc_reply" where
  "read_sse w n err [] data = (case event_reply w n data of Some r \<Rightarrow> Inr r
     | None \<Rightarrow> Inl (case err of Some e \<Rightarrow> e | None \<Rightarrow> ''SSE stream ended without the response to request '' @ n))"
| "read_sse w n err (l # ls) data =
    (if l = '''' then (case event_reply w n data of Some r \<Rightarrow> Inr r | None \<Rightarrow> read_sse w n err ls '''')
     else if has_prefix l ''data:''
     then read_sse w n err ls ((if data = '''' then '''' else data @ [CHR 0x0A]) @ trim_prefix (trim_prefix l ''data:'') '' '')
     else read_sse w n err ls data)"

subsection \<open>The MCP client\<close>

record mcp =
  mc_url :: string
  mc_headers :: "string gomap"
  mc_session :: string
  mc_version :: string
  mc_next :: int
  mc_sent :: "rpc_request list"

datatype mcp_error = McpError string | McpRpcError int string

definition mcp_error_text :: "mcp_error \<Rightarrow> string" where
  "mcp_error_text e = (case e of McpError s \<Rightarrow> s | McpRpcError c s \<Rightarrow> ''JSON-RPC error '' @ show_int c @ '': '' @ s)"

definition mcp_headers :: "mcp \<Rightarrow> (string \<times> string) list \<Rightarrow> string gomap" where
  "mcp_headers c first = set_headers (mc_headers c) (set_headers
     (first @ (if mc_session c \<noteq> '''' then [(''Mcp-Session-Id'', mc_session c)] else []) @
      (if mc_version c \<noteq> '''' then [(''MCP-Protocol-Version'', mc_version c)] else [])) [])"

definition answered :: "rpc_world \<Rightarrow> string \<Rightarrow> rpc_answer \<Rightarrow> mcp_error + gval gomap" where
  "answered w n a =
    (case (if has_prefix (ra_content_type a) ''text/event-stream'' then read_sse w n (ra_line_error a) (ra_lines a) ''''
           else (case ra_json a of Inl e \<Rightarrow> Inl e | Inr v \<Rightarrow> decode_reply v)) of
       Inl e \<Rightarrow> Inl (McpError e)
     | Inr (_, _, Some (c, m)) \<Rightarrow> Inl (McpRpcError c m)
     | Inr (_, None, None) \<Rightarrow> Inl (McpError ''JSON-RPC response has no result'')
     | Inr (_, Some r, None) \<Rightarrow> Inr r)"

text \<open>\<open>request\<close>; the parameters are \<open>None\<close> when the interface value is nil. A notification answers nil.\<close>

definition mcp_request :: "rpc_world \<Rightarrow> string \<Rightarrow> gval option \<Rightarrow> bool \<Rightarrow> mcp \<Rightarrow> mcp \<times> (mcp_error + gval gomap)" where
  "mcp_request w method params notify c0 =
    (let c = (if notify then c0 else c0\<lparr>mc_next := mc_next c0 + 1\<rparr>);
         msg = GObj ([(''jsonrpc'', GStr ''2.0''), (''method'', GStr method)] @
           (case params of None \<Rightarrow> [] | Some p \<Rightarrow> [(''params'', p)]) @ (if notify then [] else [(''id'', GInt (mc_next c))]));
         req = \<lparr>rr_verb = ''POST'', rr_headers = mcp_headers c [(''Content-Type'', ''application/json''),
           (''Accept'', ''application/json, text/event-stream'')], rr_body = msg\<rparr> in
     case rw_bad_url w (mc_url c) of Some e \<Rightarrow> (c, Inl (McpError e))
     | None \<Rightarrow> (let c1 = c\<lparr>mc_sent := mc_sent c @ [req]\<rparr> in
         case rw_send w (length (mc_sent c)) (mc_url c) req of Inl e \<Rightarrow> (c1, Inl (McpError e))
         | Inr a \<Rightarrow> (let c2 = (if ra_session a \<noteq> '''' then c1\<lparr>mc_session := ra_session a\<rparr> else c1) in
             (c2, if ra_status a \<ge> 400
               then Inl (McpError (''HTTP '' @ show_int (ra_status a) @ '': '' @ trim_space (take 2048 (ra_text a))))
               else if notify then Inr [] else answered w (show_int (mc_next c)) a))))"

definition mcp_initialize :: "rpc_world \<Rightarrow> mcp \<Rightarrow> mcp \<times> string option" where
  "mcp_initialize w c0 =
    (case mcp_request w ''initialize'' (Some (GObj [(''protocolVersion'', GStr ''2025-11-25''), (''capabilities'', GObj []),
        (''clientInfo'', GObj [(''name'', GStr ''aos''), (''version'', GStr ''1'')])])) False c0 of
       (c, Inl (McpRpcError code m)) \<Rightarrow>
         (c, if code = -32601 then None else Some (''initialize: '' @ mcp_error_text (McpRpcError code m)))
     | (c, Inl (McpError m)) \<Rightarrow> (c, Some (''initialize: '' @ m))
     | (c, Inr result) \<Rightarrow>
         (let c1 = (if str_of result ''protocolVersion'' \<noteq> '''' then c\<lparr>mc_version := str_of result ''protocolVersion''\<rparr> else c) in
          case mcp_request w ''notifications/initialized'' None True c1 of
            (c2, Inl e) \<Rightarrow> (c2, Some (''notifications/initialized: '' @ mcp_error_text e))
          | (c2, Inr _) \<Rightarrow> (c2, None)))"

definition mcp_close :: "rpc_world \<Rightarrow> mcp \<Rightarrow> mcp" where
  "mcp_close w c = (if mc_session c = '''' \<or> rw_bad_url w (mc_url c) \<noteq> None then c
     else c\<lparr>mc_sent := mc_sent c @ [\<lparr>rr_verb = ''DELETE'', rr_headers = mcp_headers c [], rr_body = GNil\<rparr>]\<rparr>)"

definition find_tool :: "string \<Rightarrow> gval list \<Rightarrow> gval gomap option" where
  "find_tool name items = first_some (\<lambda>v. case v of GObj m \<Rightarrow> if mget m ''name'' = Some (GStr name) then Some m else None | _ \<Rightarrow> None) items"

text \<open>The first page is asked with a nil map, which JSON writes as null.\<close>

fun input_schema :: "rpc_world \<Rightarrow> string \<Rightarrow> nat \<Rightarrow> string \<Rightarrow> mcp \<Rightarrow> mcp \<times> (mcp_error + gval gomap)" where
  "input_schema w name 0 cursor c = (c, Inr [])"
| "input_schema w name (Suc pages) cursor c =
    (case mcp_request w ''tools/list'' (Some (if cursor \<noteq> '''' then GObj [(''cursor'', GStr cursor)] else GNil)) False c of
       (c1, Inl e) \<Rightarrow> (c1, Inl e)
     | (c1, Inr result) \<Rightarrow>
         (case find_tool name (case as_list (mget result ''tools'') of Some xs \<Rightarrow> xs | None \<Rightarrow> []) of
            Some m \<Rightarrow> (c1, Inr (case as_obj (mget m ''inputSchema'') of Some s \<Rightarrow> s | None \<Rightarrow> []))
          | None \<Rightarrow> if str_of result ''nextCursor'' = '''' then (c1, Inr [])
              else input_schema w name pages (str_of result ''nextCursor'') c1))"

definition typed_argument :: "rpc_world \<Rightarrow> gval option \<Rightarrow> string \<Rightarrow> gval" where
  "typed_argument w ty v =
    (if ty = Some (GStr ''integer'') then (case atoi (trim_space v) of Some n \<Rightarrow> GInt n | None \<Rightarrow> GStr v)
     else if ty = Some (GStr ''number'') then (case parse_float (trim_space v) of Some x \<Rightarrow> GFloat x | None \<Rightarrow> GStr v)
     else if ty = Some (GStr ''boolean'') then (case parse_bool (trim_space v) of Some b \<Rightarrow> GBool b | None \<Rightarrow> GStr v)
     else if ty = Some (GStr ''object'') \<or> ty = Some (GStr ''array'') then (case rw_json w v of Some j \<Rightarrow> j | None \<Rightarrow> GStr v)
     else GStr v)"

definition typed_arguments :: "rpc_world \<Rightarrow> string gomap \<Rightarrow> gval gomap \<Rightarrow> gval gomap" where
  "typed_arguments w params schema =
    (let props = (case as_obj (mget schema ''properties'') of Some m \<Rightarrow> m | None \<Rightarrow> []) in
     map (\<lambda>(k, v). (k, typed_argument w (case as_obj (mget props k) of Some p \<Rightarrow> mget p ''type'' | None \<Rightarrow> None) v)) params)"

definition mcp_text :: "gval gomap \<Rightarrow> string" where
  "mcp_text result =
    (let texts = List.map_filter (\<lambda>p. case p of GObj m \<Rightarrow> if mget m ''type'' = Some (GStr ''text'') then as_str (mget m ''text'') else None
           | _ \<Rightarrow> None) (case as_list (mget result ''content'') of Some xs \<Rightarrow> xs | None \<Rightarrow> []) in
     if texts = [] then ''no details'' else str_join '' '' texts)"

definition protocol_url :: "tool_def \<Rightarrow> string" where
  "protocol_url t = (if tl_target t \<noteq> '''' then tl_target t else tl_url t)"

definition protocol_result :: "string \<Rightarrow> gval gomap \<Rightarrow> gval gomap" where
  "protocol_result protocol r = [(''ok'', GBool True), (''protocol'', GStr protocol), (''result'', GObj r)]"

definition mcp_call :: "rpc_world \<Rightarrow> string \<Rightarrow> string \<Rightarrow> string gomap \<Rightarrow> mcp \<Rightarrow> mcp \<times> (string + gval gomap)" where
  "mcp_call w method name params c0 =
    (case mcp_initialize w c0 of
       (c, Some e) \<Rightarrow> (c, Inl (''MCP '' @ name @ '': '' @ e))
     | (c, None) \<Rightarrow>
         (case (if params = [] then (c, Inr []) else input_schema w name 50 '''' c) of
            (c1, Inl e) \<Rightarrow> (c1, Inl (''MCP '' @ name @ '': tools/list: '' @ mcp_error_text e))
          | (c1, Inr schema) \<Rightarrow>
              (case mcp_request w method (Some (GObj [(''name'', GStr name), (''arguments'', GObj (typed_arguments w params schema))])) False c1 of
                 (c2, Inl e) \<Rightarrow> (c2, Inl (''MCP '' @ name @ '': '' @ mcp_error_text e))
               | (c2, Inr result) \<Rightarrow>
                   (c2, if mget result ''isError'' = Some (GBool True) then Inl (''MCP tool '' @ name @ '' failed: '' @ mcp_text result)
                     else Inr (protocol_result ''mcp'' result)))))"

definition new_mcp :: "tool_def \<Rightarrow> mcp" where
  "new_mcp t = \<lparr>mc_url = protocol_url t, mc_headers = tl_headers t, mc_session = '''', mc_version = '''', mc_next = 0, mc_sent = []\<rparr>"

definition execute_mcp :: "rpc_world \<Rightarrow> tool_def \<Rightarrow> string gomap \<Rightarrow> rpc_request list \<times> (string + gval gomap)" where
  "execute_mcp w t params =
    (case mcp_call w (if tl_operation t = '''' then ''tools/call'' else tl_operation t)
        (if tl_remote_tool t = '''' then tl_name t else tl_remote_tool t) params (new_mcp t) of
       (c, r) \<Rightarrow> (mc_sent (mcp_close w c), r))"

subsection \<open>Plain JSON-RPC\<close>

definition json_rpc :: "rpc_world \<Rightarrow> nat \<Rightarrow> string \<Rightarrow> string gomap \<Rightarrow> string \<Rightarrow> gval \<Rightarrow> rpc_request list \<times> (string + gval gomap)" where
  "json_rpc w n url headers method params =
    (let req = \<lparr>rr_verb = ''POST'', rr_headers = set_headers headers (set_headers [(''Content-Type'', ''application/json''),
           (''Accept'', ''application/json'')] []),
         rr_body = GObj [(''jsonrpc'', GStr ''2.0''), (''id'', GStr (rw_uuid w n)), (''method'', GStr method), (''params'', params)]\<rparr> in
     case rw_bad_url w url of Some e \<Rightarrow> ([], Inl e)
     | None \<Rightarrow> ([req],
        case rw_send w n url req of Inl e \<Rightarrow> Inl e
        | Inr a \<Rightarrow>
          if ra_status a \<ge> 400 then Inl (''HTTP '' @ show_int (ra_status a) @ '': '' @ take 2048 (ra_text a))
          else (case ra_json a of Inl e \<Rightarrow> Inl e
            | Inr GNil \<Rightarrow> Inl ''JSON-RPC response has no result''
            | Inr (GObj m) \<Rightarrow>
                (case decode_map (mget m ''result'') of Inl e \<Rightarrow> Inl e
                 | Inr r \<Rightarrow> (case mget m ''error'' of
                     Some e \<Rightarrow> if e \<noteq> GNil then Inl (''JSON-RPC error: '' @ fmt_v (rw_float w) e)
                       else (case r of None \<Rightarrow> Inl ''JSON-RPC response has no result'' | Some x \<Rightarrow> Inr x)
                   | None \<Rightarrow> (case r of None \<Rightarrow> Inl ''JSON-RPC response has no result'' | Some x \<Rightarrow> Inr x)))
            | Inr _ \<Rightarrow> Inl ''json: cannot unmarshal'')))"

subsection \<open>A2A\<close>

datatype a2a_error = A2aError string | A2aRejected string

definition a2a_state :: "string \<Rightarrow> string" where
  "a2a_state raw = replace_all (to_lower (trim_prefix raw ''TASK_STATE_'')) ''_'' ''-''"

definition text_parts :: "gval option \<Rightarrow> string list" where
  "text_parts parts = List.map_filter (\<lambda>p. case p of GObj m \<Rightarrow> if str_of m ''text'' = '''' then None else Some (str_of m ''text'') | _ \<Rightarrow> None)
     (case as_list parts of Some xs \<Rightarrow> xs | None \<Rightarrow> [])"

definition a2a_task_text :: "gval gomap \<Rightarrow> string" where
  "a2a_task_text task = str_join '' ''
    ((case as_obj (mget task ''status'') of None \<Rightarrow> []
      | Some s \<Rightarrow> (case as_obj (mget s ''message'') of None \<Rightarrow> [] | Some m \<Rightarrow> text_parts (mget m ''parts''))) @
     concat (map (\<lambda>a. case a of GObj m \<Rightarrow> text_parts (mget m ''parts'') | _ \<Rightarrow> [])
       (case as_list (mget task ''artifacts'') of Some xs \<Rightarrow> xs | None \<Rightarrow> [])))"

definition raw_state :: "gval gomap \<Rightarrow> string" where
  "raw_state result = (case as_obj (mget result ''status'') of None \<Rightarrow> '''' | Some s \<Rightarrow> str_of s ''state'')"

datatype a2a_effect = A2aCall rpc_request | A2aWait int

text \<open>The loop over the states of a task. \<open>n\<close> requests were made; a wait that the end of the context
  cuts short is not recorded.\<close>

partial_function (option) a2a_loop ::
  "rpc_world \<Rightarrow> string \<Rightarrow> string gomap \<Rightarrow> string \<Rightarrow> nat \<Rightarrow> int \<Rightarrow> a2a_effect list \<Rightarrow> gval gomap \<Rightarrow>
   (a2a_effect list \<times> (a2a_error + gval gomap)) option" where
  "a2a_loop w url headers get n delay before result =
    (let state = a2a_state (raw_state result); i = str_of result ''id'' in
     if mget result ''kind'' = Some (GStr ''message'') then Some (before, Inr (protocol_result ''a2a'' result))
     else if state = ''completed'' then Some (before, Inr (protocol_result ''a2a'' result))
     else if state = ''submitted'' \<or> state = ''working''
     then (if i = '''' then Some (before, Inl (A2aError (''A2A '' @ state @ '' task has no id'')))
       else (case rw_done w n of
           Some e \<Rightarrow> Some (before, Inl (A2aError (''A2A task '' @ i @ '' still '' @ state @ '': '' @ e)))
         | None \<Rightarrow>
           (case json_rpc w n url headers get (GObj [(''id'', GStr i)]) of
              (reqs, Inl e) \<Rightarrow> Some (before @ A2aWait delay # map A2aCall reqs, Inl (A2aError (''A2A '' @ get @ '' '' @ i @ '': '' @ e)))
            | (reqs, Inr r) \<Rightarrow> a2a_loop w url headers get (Suc n) (if delay < 2000000000 then delay * 2 else delay)
                (before @ A2aWait delay # map A2aCall reqs) r)))
     else if state = ''input-required'' \<or> state = ''auth-required''
     then Some (before, Inl (A2aError (''A2A agent needs '' @ trim_suffix state ''-required'' @ ''; a pipeline step cannot provide it'')))
     else if state = ''rejected'' then Some (before, Inl (A2aRejected (a2a_task_text result)))
     else if state = ''failed'' \<or> state = ''canceled'' then Some (before, Inl (A2aError (''A2A task '' @ state)))
     else Some (before, Inl (A2aError (''A2A task in unknown state '' @ go_quote (raw_state result)))))"

declare a2a_loop.simps [code]

definition a2a_v1 :: "tool_def \<Rightarrow> bool" where
  "a2a_v1 t = has_prefix (trim_space (tl_version t)) ''1''"

definition a2a_message :: "rpc_world \<Rightarrow> tool_def \<Rightarrow> string gomap \<Rightarrow> gval" where
  "a2a_message w t params =
    (let txt = (if mstr params ''message'' \<noteq> '''' then mstr params ''message''
           else fmt_v (rw_float w) (GObj (map (\<lambda>(k, v). (k, GStr v)) params))) in
     if a2a_v1 t
     then GObj [(''message'', GObj [(''messageId'', GStr (rw_uuid w 0)), (''role'', GStr ''ROLE_USER''),
         (''parts'', GList [GObj [(''text'', GStr txt)]])]), (''configuration'', GObj [(''returnImmediately'', GBool True)])]
     else GObj [(''message'', GObj [(''kind'', GStr ''message''), (''messageId'', GStr (rw_uuid w 0)), (''role'', GStr ''user''),
         (''parts'', GList [GObj [(''kind'', GStr ''text''), (''text'', GStr txt)]])]), (''configuration'', GObj [(''blocking'', GBool False)])])"

definition a2a_headers :: "tool_def \<Rightarrow> string gomap" where
  "a2a_headers t = mputs [(''A2A-Version'', if a2a_v1 t then ''1.0'' else ''0.3'')] (tl_headers t)"

definition a2a_send :: "rpc_world \<Rightarrow> tool_def \<Rightarrow> string gomap \<Rightarrow> rpc_request list \<times> (string + gval gomap)" where
  "a2a_send w t params = json_rpc w 0 (protocol_url t) (a2a_headers t)
     (if tl_operation t \<noteq> '''' then tl_operation t else if a2a_v1 t then ''SendMessage'' else ''message/send'') (a2a_message w t params)"

definition execute_a2a :: "rpc_world \<Rightarrow> tool_def \<Rightarrow> string gomap \<Rightarrow> (a2a_effect list \<times> (a2a_error + gval gomap)) option" where
  "execute_a2a w t params =
    (case a2a_send w t params of
       (reqs, Inl e) \<Rightarrow> Some (map A2aCall reqs, Inl (A2aError (''A2A: '' @ e)))
     | (reqs, Inr result) \<Rightarrow>
         (let poll = a2a_loop w (protocol_url t) (a2a_headers t) (if a2a_v1 t then ''GetTask'' else ''tasks/get'') 1 200000000 (map A2aCall reqs) in
          if a2a_v1 t
          then (case as_obj (mget result ''task'') of Some task \<Rightarrow> poll task
            | None \<Rightarrow> (case as_obj (mget result ''message'') of
                Some msg \<Rightarrow> Some (map A2aCall reqs, Inr (protocol_result ''a2a'' msg))
              | None \<Rightarrow> poll result))
          else poll result))"

subsection \<open>gRPC names\<close>

text \<open>The name of the target that reaches the dialer, and the full name of the method.\<close>

definition grpc_target :: "string \<Rightarrow> string" where
  "grpc_target target = (if str_contains target ''://'' then target else ''passthrough:///'' @ target)"

definition grpc_method :: "tool_def \<Rightarrow> string" where
  "grpc_method t =
    (let m = tl_method t; m1 = (if tl_service t \<noteq> '''' \<and> \<not> has_prefix m ''/'' then ''/'' @ tl_service t @ ''/'' @ m else m) in
     if has_prefix m1 ''/'' then m1 else ''/'' @ m1)"

end
