(* ===== verification/Tool_Agent.thy ===== *)
theory Tool_Agent
  imports Agent_World Go_Path
begin

text \<open>
  Agent steps (tools/agent_executor.go): the checks on the parameters of an external agent, its
  command line and working directory, and what its stream of events gives. The file system, the
  process, the JSON parser and the printing of floats are fields of \<open>agent_world\<close>.
\<close>

text \<open>\<open>gw_eval\<close> is \<open>EvalSymlinks\<close> with \<open>None\<close> for an error; a started process answers its lines, the
  error of reading them, and how it ended.\<close>

record agent_world =
  gw_root :: string
  gw_wd :: "string + string"
  gw_eval :: "string \<Rightarrow> string option"
  gw_stat :: "string \<Rightarrow> string + bool"
  gw_look_path :: "string \<Rightarrow> string + string"
  gw_float :: "f64 \<Rightarrow> string"
  gw_print :: "f64 \<Rightarrow> string"
  gw_start :: "string \<Rightarrow> string list \<Rightarrow> string \<Rightarrow> string option"
  gw_lines :: "string list"
  gw_line_error :: "string option"
  gw_json :: "string \<Rightarrow> string + gval"
  gw_wait :: "string option"
  gw_stderr :: string
  gw_ctx_err :: "string option"

subsection \<open>The working directory\<close>

definition real_path :: "agent_world \<Rightarrow> string \<Rightarrow> string" where
  "real_path w p = (case gw_eval w p of Some q \<Rightarrow> q | None \<Rightarrow> p)"

definition abs_or :: "agent_world \<Rightarrow> string \<Rightarrow> string + string" where
  "abs_or w p = (if is_abs p then Inr (path_clean p)
     else (case gw_wd w of Inl e \<Rightarrow> Inl e | Inr d \<Rightarrow> Inr (Go_Path.path_join [d, p])))"

definition resolve_agent_directory :: "agent_world \<Rightarrow> string \<Rightarrow> string + string \<times> string" where
  "resolve_agent_directory w requested0 =
    (if gw_root w = '''' then Inl ''AOS_WORKSPACE_ROOT is not set; the agent needs an explicit workspace''
     else (case abs_or w (gw_root w) of Inl e \<Rightarrow> Inl (''resolve AOS workspace root: '' @ e)
       | Inr base0 \<Rightarrow>
         (let base = real_path w base0;
              requested = (if trim_space requested0 = '''' then ''.'' else trim_space requested0) in
          case abs_or w (if is_abs requested then requested else Go_Path.path_join [base, requested]) of
            Inl e \<Rightarrow> Inl (''resolve agent cwd: '' @ e)
          | Inr cwd0 \<Rightarrow>
              (let cwd = real_path w cwd0 in
               if \<not> under_text base cwd then Inl ''agent cwd is outside AOS workspace root''
               else (case gw_stat w cwd of Inl e \<Rightarrow> Inl (''agent cwd is unavailable: '' @ e)
                 | Inr dir \<Rightarrow> if dir then Inr (base, cwd) else Inl ''agent cwd must be a directory'')))))"

subsection \<open>The command\<close>

definition permission_modes :: "string list" where
  "permission_modes = [''default'', ''acceptEdits'', ''plan'', ''auto'', ''dontAsk'']"

definition agent_mode :: "string gomap \<Rightarrow> string" where
  "agent_mode params = (let m = trim_space (mstr params ''permission_mode'') in if m = '''' then ''plan'' else m)"

definition agent_turns :: "string gomap \<Rightarrow> int option" where
  "agent_turns params = (let raw = trim_space (mstr params ''max_turns'') in
     if raw = '''' then Some 10
     else (case atoi raw of None \<Rightarrow> None | Some n \<Rightarrow> if n < 1 \<or> n > 100 then None else Some n))"

text \<open>The budget as it is passed on; \<open>None\<close> is the error.\<close>

definition agent_budget :: "agent_world \<Rightarrow> string gomap \<Rightarrow> string list option" where
  "agent_budget w params = (let raw = trim_space (mstr params ''max_budget_usd'') in
     if raw = '''' then Some []
     else (case parse_float raw of None \<Rightarrow> None
       | Some x \<Rightarrow> if f64_le x (Fin 0) then None else Some [''--max-budget-usd'', gw_print w x]))"

definition agent_args :: "string gomap \<Rightarrow> string \<Rightarrow> int \<Rightarrow> string list \<Rightarrow> string list" where
  "agent_args params mode turns budget =
    [''-p'', trim_space (mstr params ''task''), ''--output-format'', ''stream-json'', ''--verbose'', ''--permission-mode'', mode,
     ''--max-turns'', show_int turns] @
    (if equal_fold (trim_space (mstr params ''load_project_config'')) ''true'' then [] else [''--bare'']) @
    (if trim_space (mstr params ''allowed_tools'') \<noteq> '''' then [''--allowedTools'', trim_space (mstr params ''allowed_tools'')] else []) @
    budget @
    (if trim_space (mstr params ''session_id'') \<noteq> '''' then [''--resume'', trim_space (mstr params ''session_id'')] else [])"

record agent_command =
  gc_executable :: string
  gc_args :: "string list"
  gc_dir :: string
  gc_root :: string

definition agent_command_of :: "agent_world \<Rightarrow> agent_def \<Rightarrow> string gomap \<Rightarrow> string + agent_command" where
  "agent_command_of w d params =
    (if ad_runtime d \<noteq> ''claude_code_cli'' then Inl (''unsupported agent runtime '' @ go_quote (ad_runtime d))
     else if trim_space (mstr params ''task'') = '''' then Inl ''agent task is required''
     else (case resolve_agent_directory w (mstr params ''cwd'') of Inl e \<Rightarrow> Inl e
       | Inr (base, cwd) \<Rightarrow>
         if agent_mode params \<notin> set permission_modes
         then Inl (''unsupported or unsafe agent permission_mode '' @ go_quote (agent_mode params))
         else (case agent_turns params of None \<Rightarrow> Inl ''agent max_turns must be between 1 and 100''
           | Some turns \<Rightarrow>
             (let binary = (if trim_space (ad_binary d) = '''' then ''claude'' else trim_space (ad_binary d)) in
              case gw_look_path w binary of
                Inl e \<Rightarrow> Inl (''Claude Code CLI '' @ go_quote binary @ '' not found in PATH: '' @ e)
              | Inr exe \<Rightarrow>
                (case agent_budget w params of None \<Rightarrow> Inl ''agent max_budget_usd must be a positive number''
                 | Some budget \<Rightarrow> Inr \<lparr>gc_executable = exe, gc_args = agent_args params (agent_mode params) turns budget,
                     gc_dir = cwd, gc_root = base\<rparr>)))))"

subsection \<open>The stream of events\<close>

text \<open>An entry of a list that is no object is a nil map.\<close>

definition obj_or_nil :: "gval \<Rightarrow> gval gomap" where
  "obj_or_nil v = (case v of GObj m \<Rightarrow> m | _ \<Rightarrow> [])"

definition message_blocks :: "gval gomap \<Rightarrow> gval gomap list" where
  "message_blocks source = (case as_obj (mget source ''message'') of None \<Rightarrow> []
     | Some m \<Rightarrow> (case as_list (mget m ''content'') of None \<Rightarrow> [] | Some xs \<Rightarrow> map obj_or_nil xs))"

definition result_keys :: "string list" where
  "result_keys = [''result'', ''subtype'', ''is_error'', ''total_cost_usd'', ''usage'', ''num_turns'', ''permission_denials'']"

definition copy_key :: "gval gomap \<Rightarrow> string \<Rightarrow> gval gomap \<Rightarrow> gval gomap" where
  "copy_key source k m = (case mget source k of Some v \<Rightarrow> mput m k v | None \<Rightarrow> m)"

record emitted =
  em_type :: string
  em_agent :: string
  em_session :: string
  em_data :: "gval gomap"

definition block_event :: "string \<Rightarrow> string \<Rightarrow> string \<Rightarrow> gval gomap \<Rightarrow> emitted" where
  "block_event ty agent session m = \<lparr>em_type = ty, em_agent = agent, em_session = session, em_data = m\<rparr>"

text \<open>\<open>captureClaudeResult\<close>: the result so far and the events of one line.\<close>

definition capture_result :: "string \<Rightarrow> gval gomap \<Rightarrow> gval gomap \<Rightarrow> gval gomap \<times> emitted list" where
  "capture_result agent source result0 =
    (let kind = str_of source ''type''; subtype = str_of source ''subtype''; session = str_of source ''session_id'';
         result = (if session \<noteq> '''' then mput result0 ''session_id'' (GStr session) else result0) in
     if kind = ''stream_event'' then (result0, [])
     else if kind = ''result''
     then (let r = fold (copy_key source) result_keys result;
               failed = (as_bool (mget source ''is_error'') = Some True \<or> (subtype \<noteq> '''' \<and> subtype \<noteq> ''success'')) in
           if failed then (mput r ''status'' (GStr ''failed''), [block_event ''agent.failed'' agent session source])
           else (mput r ''status'' (GStr ''completed''), [block_event ''agent.completed'' agent session source]))
     else if kind = ''system'' \<and> subtype = ''init'' then (result, [block_event ''agent.started'' agent session source])
     else if kind = ''assistant''
     then (result, map (\<lambda>b. block_event (if mget b ''type'' = Some (GStr ''tool_use'') then ''agent.tool_call'' else ''agent.message'') agent session b)
       (message_blocks source))
     else if kind = ''user''
     then (result, map (block_event ''agent.tool_result'' agent session)
       (filter (\<lambda>b. mget b ''type'' = Some (GStr ''tool_result'')) (message_blocks source)))
     else if kind \<noteq> '''' then (result, [block_event ''agent.progress'' agent session source])
     else (result, []))"

text \<open>The lines of the stream, until one that is no event.\<close>

fun agent_stream :: "agent_world \<Rightarrow> string \<Rightarrow> string list \<Rightarrow> gval gomap \<Rightarrow> emitted list \<Rightarrow> gval gomap \<times> emitted list \<times> string option" where
  "agent_stream w agent [] result es =
    (result, es, map_option (\<lambda>e. ''read Claude Code event stream: '' @ e) (gw_line_error w))"
| "agent_stream w agent (l # ls) result es =
    (if trim_space l = '''' then agent_stream w agent ls result es
     else (case gw_json w l of
         Inr (GObj m) \<Rightarrow> (case capture_result agent m result of (r, new) \<Rightarrow> agent_stream w agent ls r (es @ new))
       | Inr GNil \<Rightarrow> (case capture_result agent [] result of (r, new) \<Rightarrow> agent_stream w agent ls r (es @ new))
       | Inr _ \<Rightarrow> (result, es, Some ''invalid Claude stream-json event: json: cannot unmarshal'')
       | Inl e \<Rightarrow> (result, es, Some (''invalid Claude stream-json event: '' @ e))))"

definition relative_agent_path :: "string \<Rightarrow> string \<Rightarrow> string" where
  "relative_agent_path base p = (if is_abs base = is_abs p then path_rel base p else p)"

definition agent_outcome :: "agent_world \<Rightarrow> gval gomap \<Rightarrow> string option \<Rightarrow> gval gomap \<times> string option" where
  "agent_outcome w result parse_error =
    (case parse_error of Some e \<Rightarrow> ([], Some e)
     | None \<Rightarrow>
       (case gw_ctx_err w of Some e \<Rightarrow> ([], Some e)
        | None \<Rightarrow>
          (case gw_wait w of
             Some e \<Rightarrow> (mput result ''status'' (GStr ''failed''), Some (''Claude Code exited: '' @ e @
               (if gw_stderr w \<noteq> '''' then '': '' @ trim_space (gw_stderr w) else '''')))
           | None \<Rightarrow>
               (result, if str_of result ''status'' = ''running'' then Some ''Claude Code exited without a final result event''
                 else if str_of result ''status'' = ''failed''
                 then Some (''Claude Code returned a failed result: '' @
                   fmt_v (gw_float w) (case mget result ''subtype'' of None \<Rightarrow> GNil | Some v \<Rightarrow> v))
                 else None))))"

text \<open>\<open>ExecuteAgent\<close>: the command that was started, if any, the events, the result and the error.\<close>

definition execute_agent :: "agent_world \<Rightarrow> agent_def \<Rightarrow> string gomap \<Rightarrow>
    agent_command option \<times> emitted list \<times> gval gomap \<times> string option" where
  "execute_agent w d params =
    (case agent_command_of w d params of Inl e \<Rightarrow> (None, [], [], Some e)
     | Inr cmd \<Rightarrow>
       (case gw_start w (gc_executable cmd) (gc_args cmd) (gc_dir cmd) of
          Some e \<Rightarrow> (None, [], [], Some (''start Claude Code: '' @ e))
        | None \<Rightarrow>
          (case agent_stream w (ad_name d) (gw_lines w)
              [(''agent'', GStr (ad_name d)), (''runtime'', GStr (ad_runtime d)),
               (''cwd'', GStr (relative_agent_path (gc_root cmd) (gc_dir cmd))), (''status'', GStr ''running'')] [] of
             (result, es, parse_error) \<Rightarrow> (case agent_outcome w result parse_error of
               (out, err) \<Rightarrow> (Some cmd, es, out, err)))))"

text \<open>What the verifier's agent step sees of it.\<close>

definition agent_step_answer :: "agent_world \<Rightarrow> agent_def \<Rightarrow> string gomap \<Rightarrow> agent_event list \<times> gval gomap \<times> string option" where
  "agent_step_answer w d params = (case execute_agent w d params of (cmd, es, out, err) \<Rightarrow>
     (map (\<lambda>e. \<lparr>ge_type = em_type e, ge_session = em_session e\<rparr>) es, out, err))"

end
