(* ===== verification/Tool_Call_Props.thy ===== *)
theory Tool_Call_Props
  imports Tool_Rpc Tool_Agent
begin

text \<open>
  The properties of the protocols and of agent steps: when a delegated task counts as done, that the
  polling of one ends with its context, how many requests an MCP call makes, and with which mode,
  limits and directory an external agent runs.
\<close>

subsection \<open>A2A\<close>

text \<open>A task or message that is a success.\<close>

definition a2a_success :: "gval gomap \<Rightarrow> bool" where
  "a2a_success r = (mget r ''kind'' = Some (GStr ''message'') \<or> a2a_state (raw_state r) = ''completed'')"

definition only_success :: "(a2a_effect list \<times> (a2a_error + gval gomap)) \<Rightarrow> bool" where
  "only_success x = (case snd x of Inl _ \<Rightarrow> True | Inr out \<Rightarrow> (\<exists>q. out = protocol_result ''a2a'' q \<and> a2a_success q))"

lemma only_success_simps: "only_success (es, Inl e)" "a2a_success r \<Longrightarrow> only_success (es, Inr (protocol_result ''a2a'' r))"
  by (auto simp: only_success_def)

lemma a2a_loop_success:
  assumes "a2a_loop w url hs get n delay before r = Some x"
  shows "only_success x"
proof (rule a2a_loop.raw_induct [where P = "\<lambda>w url hs get n delay before r x. only_success x", OF _ assms], goal_cases)
  case (1 f w url hs get n delay before r x)
  from 1(2) show ?case using 1(1)
    by (auto simp: Let_def only_success_simps a2a_success_def split: if_splits option.splits prod.splits sum.splits)
qed

text \<open>
  C24: a delegated task is a success only when the remote agent says that it completed or answers with a
  message: a task that is still running, failed, canceled, rejected, asks for input or is in a state the
  program does not know never is, however often it was polled.
\<close>

theorem a2a_success_only_completed:
  assumes "execute_a2a w t params = Some (es, Inr out)"
  shows "\<exists>q. out = protocol_result ''a2a'' q \<and> (a2a_success q \<or>
    (a2a_v1 t \<and> (\<exists>reqs r. a2a_send w t params = (reqs, Inr r) \<and> mget r ''task'' \<notin> range (Some \<circ> GObj) \<and> mget r ''message'' = Some (GObj q))))"
proof -
  obtain reqs res where send: "a2a_send w t params = (reqs, res)" by fastforce
  with assms obtain r where r: "res = Inr r" by (cases res) (auto simp: execute_a2a_def)
  let ?poll = "a2a_loop w (protocol_url t) (a2a_headers t) (if a2a_v1 t then ''GetTask'' else ''tasks/get'') 1 200000000 (map A2aCall reqs)"
  note obj = as_obj_Some_iff
  consider q where "?poll q = Some (es, Inr out)" |
    q where "a2a_v1 t" "as_obj (mget r ''task'') = None" "as_obj (mget r ''message'') = Some q" "out = protocol_result ''a2a'' q"
    using assms send r by (auto simp: execute_a2a_def Let_def split: if_splits option.splits)
  then show ?thesis
  proof cases
    case 1
    from a2a_loop_success [OF this] show ?thesis by (auto simp: only_success_def)
  next
    case 2
    then have "mget r ''task'' \<notin> range (Some \<circ> GObj)" by auto
    with 2 send r obj show ?thesis by blast
  qed
qed

text \<open>The requests and waits of a delegation.\<close>

definition a2a_calls :: "a2a_effect list \<Rightarrow> nat" where
  "a2a_calls es = length (filter (\<lambda>e. case e of A2aCall _ \<Rightarrow> True | _ \<Rightarrow> False) es)"

definition short_waits :: "a2a_effect list \<Rightarrow> bool" where
  "short_waits es = list_all (\<lambda>e. case e of A2aWait d \<Rightarrow> 200000000 \<le> d \<and> d < 4000000000 | _ \<Rightarrow> True) es"

lemma a2a_counts [simp]:
  "a2a_calls [] = 0" "a2a_calls (es @ es') = a2a_calls es + a2a_calls es'" "a2a_calls (A2aWait d # es) = a2a_calls es"
  "a2a_calls (map A2aCall reqs) = length reqs"
  "short_waits []" "short_waits (es @ es') = (short_waits es \<and> short_waits es')" "short_waits (map A2aCall reqs)"
  "short_waits (A2aWait d # es) = (200000000 \<le> d \<and> d < 4000000000 \<and> short_waits es)"
  by (induction reqs) (simp_all add: a2a_calls_def short_waits_def)

lemma json_rpc_once: "length (fst (json_rpc w n url hs m p)) \<le> 1"
  by (simp add: json_rpc_def Let_def split: option.split)

lemma a2a_loop_ends:
  assumes "rw_done w m = Some e" "n \<le> m" "200000000 \<le> delay" "delay < 4000000000"
  shows "\<exists>es res. a2a_loop w url hs get n delay before r = Some (before @ es, res) \<and> a2a_calls es \<le> m - n \<and> short_waits es"
  using assms(2-4)
proof (induction "m - n" arbitrary: n delay before r)
  case 0
  with assms(1) show ?case by (subst a2a_loop.simps) (auto simp: Let_def)
next
  case (Suc k)
  show ?case
  proof (cases "mget r ''kind'' \<noteq> Some (GStr ''message'') \<and> (a2a_state (raw_state r) = ''submitted'' \<or> a2a_state (raw_state r) = ''working'') \<and>
      str_of r ''id'' \<noteq> '''' \<and> rw_done w n = None")
    case False
    then show ?thesis by (subst a2a_loop.simps) (auto simp: Let_def)
  next
    case True
    obtain reqs res where j: "json_rpc w n url hs get (GObj [(''id'', GStr (str_of r ''id''))]) = (reqs, res)" by fastforce
    have one: "length reqs \<le> 1" using json_rpc_once [of w n url hs get "GObj [(''id'', GStr (str_of r ''id''))]"] j by simp
    let ?b = "before @ A2aWait delay # map A2aCall reqs"
    show ?thesis
    proof (cases res)
      case (Inl x)
      with True j have "a2a_loop w url hs get n delay before r =
          Some (?b, Inl (A2aError (''A2A '' @ get @ '' '' @ str_of r ''id'' @ '': '' @ x)))"
        by (subst a2a_loop.simps) (auto simp: Let_def)
      with one Suc show ?thesis by auto
    next
      case (Inr q)
      let ?d = "if delay < 2000000000 then delay * 2 else delay"
      from Suc have "k = m - Suc n" "Suc n \<le> m" "200000000 \<le> ?d" "?d < 4000000000" by auto
      from Suc(1) [OF this, of ?b q] obtain es out where
        "a2a_loop w url hs get (Suc n) ?d ?b q = Some (?b @ es, out)" "a2a_calls es \<le> m - Suc n" "short_waits es" by blast
      moreover have "a2a_loop w url hs get n delay before r = a2a_loop w url hs get (Suc n) ?d ?b q"
        using True j Inr by (subst a2a_loop.simps) (auto simp: Let_def)
      ultimately show ?thesis using one Suc(2-5)
        by (auto intro!: exI [of _ "A2aWait delay # map A2aCall reqs @ es"])
    qed
  qed
qed

text \<open>
  polling ends with the context of the step: when the context is over at the n-th request at the latest,
  the call returns, whatever the remote agent answers, after at most n requests and with waits of 200
  milliseconds to less than 4 seconds between them.
\<close>

theorem a2a_polling_ends:
  assumes "rw_done w n \<noteq> None" "1 \<le> n"
  shows "\<exists>es res. execute_a2a w t params = Some (es, res) \<and> a2a_calls es \<le> n \<and> short_waits es"
proof -
  obtain reqs res where send: "a2a_send w t params = (reqs, res)" by fastforce
  have one: "length reqs \<le> 1" using json_rpc_once send unfolding a2a_send_def by (metis fst_conv)
  from assms(1) obtain e where e: "rw_done w n = Some e" by blast
  have poll: "\<exists>es out. a2a_loop w (protocol_url t) (a2a_headers t) get 1 200000000 (map A2aCall reqs) q = Some (es, out) \<and>
      a2a_calls es \<le> n \<and> short_waits es" for get q
    using a2a_loop_ends [OF e assms(2), of 200000000 "protocol_url t" "a2a_headers t" get "map A2aCall reqs" q] one assms(2)
    by fastforce
  show ?thesis
  proof (cases res)
    case (Inl x)
    with send one assms(2) show ?thesis by (auto simp: execute_a2a_def)
  next
    case (Inr r)
    with send one assms(2) poll show ?thesis by (auto simp: execute_a2a_def Let_def split: option.split)
  qed
qed

definition task_answer :: "string \<Rightarrow> rpc_answer" where
  "task_answer state = \<lparr>ra_status = 200, ra_session = '''', ra_content_type = ''application/json'', ra_text = '''',
     ra_json = Inr (GObj [(''result'', GObj [(''id'', GStr ''r1''), (''status'', GObj [(''state'', GStr state)])])]),
     ra_lines = [], ra_line_error = None\<rparr>"

text \<open>A remote agent that works for two polls; the context ends at the fifth request.\<close>

definition demo_rpc :: rpc_world where
  "demo_rpc = \<lparr>rw_bad_url = (\<lambda>_. None), rw_send = (\<lambda>n _ _. Inr (task_answer (if n < 2 then ''working'' else ''completed''))),
     rw_json = (\<lambda>_. None), rw_uuid = show_nat, rw_float = (\<lambda>_. ''1''), rw_done = (\<lambda>n. if n = 5 then Some ''deadline'' else None)\<rparr>"

definition demo_answer :: "gval gomap" where
  "demo_answer = [(''id'', GStr ''r1''), (''status'', GObj [(''state'', GStr ''completed'')])]"

lemma a2a_success_only_completed_witness: "\<exists>q. protocol_result ''a2a'' demo_answer = protocol_result ''a2a'' q \<and> a2a_success q"
proof -
  have "execute_a2a demo_rpc zero_tool [] = Some (fst (the (execute_a2a demo_rpc zero_tool [])), Inr (protocol_result ''a2a'' demo_answer))"
    by code_simp
  from a2a_success_only_completed [OF this] show ?thesis by (auto simp: a2a_v1_def zero_tool_def trim_space_Nil has_prefix_def)
qed

lemma a2a_polling_ends_witness: "\<exists>es res. execute_a2a demo_rpc zero_tool [] = Some (es, res) \<and> a2a_calls es \<le> 5 \<and> short_waits es"
  by (rule a2a_polling_ends) (simp_all add: demo_rpc_def)

subsection \<open>MCP\<close>

lemma mcp_request_sent: "length (mc_sent (fst (mcp_request w m p b c))) \<le> Suc (length (mc_sent c))"
  by (auto simp: mcp_request_def Let_def split: option.split sum.split)

lemma mcp_initialize_sent: "length (mc_sent (fst (mcp_initialize w c))) \<le> length (mc_sent c) + 2"
proof -
  let ?p = "Some (GObj [(''protocolVersion'', GStr ''2025-11-25''), (''capabilities'', GObj []),
        (''clientInfo'', GObj [(''name'', GStr ''aos''), (''version'', GStr ''1'')])])"
  obtain c1 r where i: "mcp_request w ''initialize'' ?p False c = (c1, r)" by fastforce
  with mcp_request_sent [of w "''initialize''" ?p False c] have one: "length (mc_sent c1) \<le> Suc (length (mc_sent c))" by simp
  have two: "length (mc_sent (fst (mcp_request w ''notifications/initialized'' None True c2))) \<le> length (mc_sent c) + 2"
    if "mc_sent c2 = mc_sent c1" for c2
    using mcp_request_sent [of w "''notifications/initialized''" None True c2] one that by simp
  show ?thesis
  proof (cases r)
    case (Inl e)
    with one show ?thesis by (cases e) (simp_all add: mcp_initialize_def i)
  next
    case (Inr result)
    define c2 where "c2 = (if str_of result ''protocolVersion'' \<noteq> '''' then c1\<lparr>mc_version := str_of result ''protocolVersion''\<rparr> else c1)"
    have "mc_sent c2 = mc_sent c1" by (simp add: c2_def)
    moreover have "fst (mcp_initialize w c) = fst (mcp_request w ''notifications/initialized'' None True c2)"
      unfolding mcp_initialize_def i prod.case Inr sum.case Let_def c2_def [symmetric] by (simp split: prod.split sum.split)
    ultimately show ?thesis using two by simp
  qed
qed

lemma input_schema_sent: "length (mc_sent (fst (input_schema w name pages cursor c))) \<le> length (mc_sent c) + pages"
proof (induction w name pages cursor c rule: input_schema.induct)
  case (2 w name pages cursor c)
  let ?p = "Some (if cursor \<noteq> '''' then GObj [(''cursor'', GStr cursor)] else GNil)"
  obtain c1 r where i: "mcp_request w ''tools/list'' ?p False c = (c1, r)" by fastforce
  with mcp_request_sent [of w "''tools/list''" ?p False c] have one: "length (mc_sent c1) \<le> Suc (length (mc_sent c))" by simp
  show ?case
  proof (cases r)
    case (Inl e)
    with i one show ?thesis by simp
  next
    case (Inr result)
    from one have le: "length (mc_sent c1) \<le> length (mc_sent c) + Suc pages" by simp
    have "length (mc_sent (fst (input_schema w name pages (str_of result ''nextCursor'') c1))) \<le> length (mc_sent c) + Suc pages"
      if "find_tool name (case as_list (mget result ''tools'') of None \<Rightarrow> [] | Some xs \<Rightarrow> xs) = None" "str_of result ''nextCursor'' \<noteq> ''''"
      using 2 [OF i [symmetric] Inr that] one by simp
    with le show ?thesis unfolding input_schema.simps i prod.case Inr sum.case by (simp split: option.split)
  qed
qed simp

text \<open>
  an MCP step makes at most 54 requests, however many pages of tools the server offers: the two of the
  handshake, fifty pages, the call and the end of the session; and a result that the server marks as an
  error is never reported as a success.
\<close>

theorem mcp_call_bounded:
  assumes "execute_mcp w t params = (reqs, res)"
  shows "length reqs \<le> 54 \<and> (is_ok res \<longrightarrow> (\<exists>r. res = Inr (protocol_result ''mcp'' r) \<and> mget r ''isError'' \<noteq> Some (GBool True)))"
proof -
  let ?m = "if tl_operation t = '''' then ''tools/call'' else tl_operation t"
  let ?n = "if tl_remote_tool t = '''' then tl_name t else tl_remote_tool t"
  obtain c r where c: "mcp_call w ?m ?n params (new_mcp t) = (c, r)" by fastforce
  obtain c1 e where i: "mcp_initialize w (new_mcp t) = (c1, e)" by fastforce
  with mcp_initialize_sent [of w "new_mcp t"] have i2: "length (mc_sent c1) \<le> 2" by (simp add: new_mcp_def)
  obtain c2 s where s: "(if params = [] then (c1, Inr []) else input_schema w ?n 50 '''' c1) = (c2, s)" by fastforce
  with input_schema_sent [of w ?n 50 "''''" c1] i2 have s2: "length (mc_sent c2) \<le> 52" by (auto split: if_splits)
  have l: "length (mc_sent c) \<le> 53 \<and> (\<forall>out. r = Inr out \<longrightarrow> (\<exists>q. out = protocol_result ''mcp'' q \<and> mget q ''isError'' \<noteq> Some (GBool True)))"
  proof (cases e)
    case (Some x)
    with c i i2 show ?thesis by (auto simp: mcp_call_def)
  next
    case None
    show ?thesis
    proof (cases s)
      case (Inl x)
      with None c i s s2 show ?thesis by (auto simp: mcp_call_def)
    next
      case (Inr schema)
      let ?p = "Some (GObj [(''name'', GStr ?n), (''arguments'', GObj (typed_arguments w params schema))])"
      obtain c3 x where x: "mcp_request w ?m ?p False c2 = (c3, x)" by fastforce
      with mcp_request_sent [of w ?m ?p False c2] s2 have "length (mc_sent c3) \<le> 53" by simp
      moreover have "mcp_call w ?m ?n params (new_mcp t) = (case x of Inl e \<Rightarrow> (c3, Inl (''MCP '' @ ?n @ '': '' @ mcp_error_text e))
         | Inr result \<Rightarrow> (c3, if mget result ''isError'' = Some (GBool True) then Inl (''MCP tool '' @ ?n @ '' failed: '' @ mcp_text result)
                     else Inr (protocol_result ''mcp'' result)))"
        unfolding mcp_call_def i None prod.case option.case s Inr sum.case x by simp
      ultimately show ?thesis using c by (auto split: sum.splits if_splits)
    qed
  qed
  have "length (mc_sent (mcp_close w c)) \<le> Suc (length (mc_sent c))" by (simp add: mcp_close_def)
  with l c assms show ?thesis by (auto simp: execute_mcp_def is_ok_def split: sum.splits)
qed

definition mcp_world :: rpc_world where
  "mcp_world = demo_rpc\<lparr>rw_send := (\<lambda>n _ req. Inr \<lparr>ra_status = 200, ra_session = ''s1'', ra_content_type = ''application/json'', ra_text = '''',
     ra_json = Inr (GObj [(''id'', GInt 1), (''result'', GObj (if n = 2
       then [(''tools'', GList [GObj [(''name'', GStr ''add''), (''inputSchema'', GObj [(''properties'',
         GObj [(''n'', GObj [(''type'', GStr ''integer'')])])])]])] else [(''content'', GList [])]))]),
     ra_lines = [], ra_line_error = None\<rparr>)\<rparr>"

definition mcp_demo :: "rpc_request list \<times> (string + gval gomap)" where
  "mcp_demo = execute_mcp mcp_world (zero_tool\<lparr>tl_name := ''add''\<rparr>) [(''n'', '' 42 '')]"

lemma mcp_call_bounded_witness:
  "length (fst mcp_demo) \<le> 54 \<and> is_ok (snd mcp_demo) \<and>
   map (\<lambda>r. mget (obj_or_nil (rr_body r)) ''params'') (drop 2 (fst mcp_demo)) =
     [Some GNil, Some (GObj [(''name'', GStr ''add''), (''arguments'', GObj [(''n'', GInt 42)])]), None]"
proof -
  have "execute_mcp mcp_world (zero_tool\<lparr>tl_name := ''add''\<rparr>) [(''n'', '' 42 '')] = (fst mcp_demo, snd mcp_demo)"
    by (simp add: mcp_demo_def)
  from mcp_call_bounded [OF this] have "length (fst mcp_demo) \<le> 54" by simp
  moreover have "is_ok (snd mcp_demo) \<and> map (\<lambda>r. mget (obj_or_nil (rr_body r)) ''params'') (drop 2 (fst mcp_demo)) =
     [Some GNil, Some (GObj [(''name'', GStr ''add''), (''arguments'', GObj [(''n'', GInt 42)])]), None]" by code_simp
  ultimately show ?thesis by simp
qed

subsection \<open>External agents\<close>

text \<open>
  C23: whatever the step's parameters hold, an external agent is only started when AOS_WORKSPACE_ROOT is
  set, in an existing directory at or below that root, after symbolic links of both were resolved; the
  directory is the requested one, taken from the root when it is relative, or the root itself. The
  command line has the task, one of the five permission modes the program lists, of which none bypasses
  permissions, and 1 to 100 turns; then come, in this order and nothing else, --bare unless the step asks
  for the project's configuration, the listed tools, a budget that was parsed and is not at most zero
  (NaN passes), and the session to resume.
\<close>

theorem agent_command_bounded:
  assumes "agent_command_of w d params = Inr cmd"
  shows "\<exists>mode turns budget base cwd requested. gc_args cmd =
      [''-p'', trim_space (mstr params ''task''), ''--output-format'', ''stream-json'', ''--verbose'',
       ''--permission-mode'', mode, ''--max-turns'', show_int turns] @
      (if equal_fold (trim_space (mstr params ''load_project_config'')) ''true'' then [] else [''--bare'']) @
      (if trim_space (mstr params ''allowed_tools'') = '''' then [] else [''--allowedTools'', trim_space (mstr params ''allowed_tools'')]) @
      budget @
      (if trim_space (mstr params ''session_id'') = '''' then [] else [''--resume'', trim_space (mstr params ''session_id'')]) \<and>
    mode \<in> {''default'', ''acceptEdits'', ''plan'', ''auto'', ''dontAsk''} \<and> 1 \<le> turns \<and> turns \<le> 100 \<and> \<not> blank (mstr params ''task'') \<and>
    (budget = [] \<and> blank (mstr params ''max_budget_usd'') \<or>
      (\<exists>x. parse_float (trim_space (mstr params ''max_budget_usd'')) = Some x \<and> \<not> f64_le x (Fin 0) \<and>
        budget = [''--max-budget-usd'', gw_print w x])) \<and>
    gw_root w \<noteq> '''' \<and> abs_or w (gw_root w) = Inr base \<and> gc_root cmd = real_path w base \<and>
    requested = (if blank (mstr params ''cwd'') then ''.'' else trim_space (mstr params ''cwd'')) \<and>
    abs_or w (if is_abs requested then requested else Go_Path.path_join [gc_root cmd, requested]) = Inr cwd \<and>
    gc_dir cmd = real_path w cwd \<and> under_text (gc_root cmd) (gc_dir cmd) \<and> gw_stat w (gc_dir cmd) = Inr True"
proof -
  from assms obtain base cwd turns budget exe where q: "resolve_agent_directory w (mstr params ''cwd'') = Inr (base, cwd)"
    "agent_mode params \<in> set permission_modes" "agent_turns params = Some turns" "trim_space (mstr params ''task'') \<noteq> ''''"
    "agent_budget w params = Some budget"
    "cmd = \<lparr>gc_executable = exe, gc_args = agent_args params (agent_mode params) turns budget, gc_dir = cwd, gc_root = base\<rparr>"
    by (auto simp: agent_command_of_def Let_def split: if_splits sum.splits option.splits)
  obtain requested where req: "requested = (if blank (mstr params ''cwd'') then ''.'' else trim_space (mstr params ''cwd''))" by blast
  from q(1) obtain b c where dir: "gw_root w \<noteq> ''''" "abs_or w (gw_root w) = Inr b" "base = real_path w b"
    "abs_or w (if is_abs requested then requested else Go_Path.path_join [base, requested]) = Inr c"
    "cwd = real_path w c" "under_text base cwd" "gw_stat w cwd = Inr True"
    by (auto simp: resolve_agent_directory_def Let_def blank_def req split: if_splits sum.splits)
  have turns: "1 \<le> turns" "turns \<le> 100" using q(3) by (auto simp: agent_turns_def Let_def split: if_splits option.splits)
  have mode: "agent_mode params \<in> {''default'', ''acceptEdits'', ''plan'', ''auto'', ''dontAsk''}"
    using q(2) by (simp add: permission_modes_def)
  have budget: "budget = [] \<and> blank (mstr params ''max_budget_usd'') \<or>
      (\<exists>x. parse_float (trim_space (mstr params ''max_budget_usd'')) = Some x \<and> \<not> f64_le x (Fin 0) \<and>
        budget = [''--max-budget-usd'', gw_print w x])"
    using q(5) by (auto simp: agent_budget_def Let_def blank_def split: if_splits option.splits)
  have args: "gc_args cmd = [''-p'', trim_space (mstr params ''task''), ''--output-format'', ''stream-json'', ''--verbose'',
       ''--permission-mode'', agent_mode params, ''--max-turns'', show_int turns] @
      (if equal_fold (trim_space (mstr params ''load_project_config'')) ''true'' then [] else [''--bare'']) @
      (if trim_space (mstr params ''allowed_tools'') = '''' then [] else [''--allowedTools'', trim_space (mstr params ''allowed_tools'')]) @
      budget @
      (if trim_space (mstr params ''session_id'') = '''' then [] else [''--resume'', trim_space (mstr params ''session_id'')])"
    using q(6) by (simp add: agent_args_def)
  have task: "\<not> blank (mstr params ''task'')" using q(4) by (simp add: blank_def)
  have fields: "gc_root cmd = base" "gc_dir cmd = cwd" using q(6) by simp_all
  show ?thesis
    by (intro exI [of _ "agent_mode params"] exI [of _ turns] exI [of _ budget] exI [of _ b] exI [of _ c] exI [of _ requested] conjI;
        (unfold fields)?; fact args mode turns task budget dir req)
qed

definition demo_agent_world :: "string list \<Rightarrow> agent_world" where
  "demo_agent_world lines = \<lparr>gw_root = ''/work'', gw_wd = Inl ''no'', gw_eval = (\<lambda>p. if p = ''/work/link'' then Some ''/etc'' else Some p),
     gw_stat = (\<lambda>_. Inr True), gw_look_path = (\<lambda>b. Inr (''/bin/'' @ b)), gw_float = (\<lambda>_. ''1''), gw_print = (\<lambda>x. if x = NaN then ''NaN'' else ''1''),
     gw_start = (\<lambda>_ _ _. None), gw_lines = lines, gw_line_error = None,
     gw_json = (\<lambda>l. if l = ''done'' then Inr (GObj [(''type'', GStr ''result''), (''subtype'', GStr ''success'')])
       else if l = ''turns'' then Inr (GObj [(''type'', GStr ''result''), (''subtype'', GStr ''error_max_turns'')]) else Inl ''no''),
     gw_wait = None, gw_stderr = '''', gw_ctx_err = None\<rparr>"

definition claude :: agent_def where
  "claude = \<lparr>ad_name = ''coder'', ad_runtime = ''claude_code_cli'', ad_binary = ''''\<rparr>"

definition started :: "(string \<times> string) list \<Rightarrow> string + agent_command" where
  "started params = agent_command_of (demo_agent_world []) claude ([(''task'', ''fix'')] @ params)"

lemma agent_command_bounded_witness:
  "\<exists>cmd. started [(''cwd'', ''app/..//src''), (''max_turns'', ''100'')] = Inr cmd \<and> under_text ''/work'' (gc_dir cmd) \<and>
     \<not> is_ok (started [(''permission_mode'', ''bypassPermissions'')]) \<and> \<not> is_ok (started [(''max_turns'', ''101'')]) \<and>
     \<not> is_ok (started [(''cwd'', ''link'')]) \<and> \<not> is_ok (started [(''cwd'', ''../work2'')])"
proof -
  have r: "is_ok (started [(''cwd'', ''app/..//src''), (''max_turns'', ''100'')])" "\<not> is_ok (started [(''permission_mode'', ''bypassPermissions'')])"
    "\<not> is_ok (started [(''max_turns'', ''101'')])" "\<not> is_ok (started [(''cwd'', ''link'')])" "\<not> is_ok (started [(''cwd'', ''../work2'')])"
    by code_simp+
  from r(1) obtain cmd where cmd: "started [(''cwd'', ''app/..//src''), (''max_turns'', ''100'')] = Inr cmd" by (auto simp: is_ok_def split: sum.splits)
  moreover have "map_sum (\<lambda>e. e) gc_root (started [(''cwd'', ''app/..//src''), (''max_turns'', ''100'')]) = Inr ''/work''" by code_simp
  ultimately have "gc_root cmd = ''/work''" by simp
  with agent_command_bounded [OF cmd [unfolded started_def]] r(2-5) cmd show ?thesis by auto
qed

text \<open>A budget that is no number passes the check for a positive one.\<close>

lemma agent_budget_nan: "agent_budget (demo_agent_world []) [(''max_budget_usd'', ''NaN'')] = Some [''--max-budget-usd'', ''NaN'']"
  by code_simp

text \<open>What the events of a stream do to the status of the result.\<close>

lemma mget_copy_keys: "k \<notin> set ks \<Longrightarrow> mget (fold (copy_key src) ks m) k = mget m k"
  by (induction ks arbitrary: m) (auto simp: copy_key_def split: option.split)

definition final_event :: "gval gomap \<Rightarrow> bool" where
  "final_event m = (str_of m ''type'' = ''result'' \<and> as_bool (mget m ''is_error'') \<noteq> Some True \<and> str_of m ''subtype'' \<in> {'''', ''success''})"

lemma capture_status:
  "str_of (fst (capture_result a m r)) ''status'' =
    (if str_of m ''type'' = ''result'' then (if final_event m then ''completed'' else ''failed'') else str_of r ''status'')"
  by (auto simp: capture_result_def Let_def str_of_def final_event_def mget_copy_keys result_keys_def)

lemma final_type: "final_event [] = False"
  by (simp add: final_event_def str_of_def)

lemma stream_status:
  "agent_stream w a ls r es = (r', es', e) \<Longrightarrow> str_of r' ''status'' = str_of r ''status'' \<or> str_of r' ''status'' = ''failed'' \<or>
    (str_of r' ''status'' = ''completed'' \<and> (\<exists>l m. l \<in> set ls \<and> gw_json w l = Inr (GObj m) \<and> final_event m))"
proof (induction w a ls r es rule: agent_stream.induct)
  case (2 w a l ls r es)
  note st = capture_status [of a _ r]
  consider "trim_space l = ''''" | m where "trim_space l \<noteq> ''''" "gw_json w l = Inr (GObj m)" | "trim_space l \<noteq> ''''" "gw_json w l = Inr GNil" |
    "trim_space l \<noteq> ''''" "r' = r"
    using "2.prems" by (cases "trim_space l = ''''"; cases "gw_json w l") (auto split: gval.splits)
  then show ?case
  proof cases
    case 1
    with "2.IH"(1) "2.prems" show ?thesis by auto
  next
    case (2 m)
    note l = this
    obtain q new where c: "capture_result a m r = (q, new)" by fastforce
    from st [of m] c have "str_of q ''status'' = (if str_of m ''type'' = ''result'' then (if final_event m then ''completed'' else ''failed'') else str_of r ''status'')"
      by simp
    moreover have "agent_stream w a ls q (es @ new) = (r', es', e)" using "2.prems" l c by simp
    ultimately show ?thesis using "2.IH"(3) [OF l(1,2) refl c [symmetric]] l by (auto split: if_splits)
  next
    case 3
    note l = this
    obtain q new where c: "capture_result a [] r = (q, new)" by fastforce
    from st [of "[]"] c have "str_of q ''status'' = str_of r ''status''" by (simp add: str_of_def)
    moreover have "agent_stream w a ls q (es @ new) = (r', es', e)" using "2.prems" l c by simp
    ultimately show ?thesis using "2.IH"(2) [OF l(1,2) refl c [symmetric]] by auto
  qed simp
qed auto

text \<open>
  an agent step succeeds only when the process ended without an error, the context is not over, and the
  stream brought a final result that is no error: a process that exits silently, stops early, prints
  something else or ends with a failure result is an error of the step.
\<close>

theorem agent_success_needs_result:
  assumes "execute_agent w d params = (cmd, es, out, None)"
  shows "cmd \<noteq> None \<and> str_of out ''status'' = ''completed'' \<and> gw_wait w = None \<and> gw_ctx_err w = None \<and> gw_line_error w = None \<and>
    (\<exists>l m. l \<in> set (gw_lines w) \<and> gw_json w l = Inr (GObj m) \<and> final_event m)"
proof -
  let ?r = "\<lambda>c. [(''agent'', GStr (ad_name d)), (''runtime'', GStr (ad_runtime d)),
              (''cwd'', GStr (relative_agent_path (gc_root c) (gc_dir c))), (''status'', GStr ''running'')]"
  from assms obtain c r e where q: "cmd = Some c" "agent_stream w (ad_name d) (gw_lines w) (?r c) [] = (r, es, e)"
    "agent_outcome w r e = (out, None)"
    by (auto simp: execute_agent_def split: sum.splits option.splits prod.splits)
  from q(3) have "e = None" "out = r" "gw_wait w = None" "gw_ctx_err w = None" "str_of r ''status'' \<notin> {''running'', ''failed''}"
    by (auto simp: agent_outcome_def split: option.splits if_splits)
  moreover have "str_of (?r c) ''status'' = ''running''" by (simp add: str_of_def)
  moreover have "gw_line_error w = None" if "agent_stream w a ls x ys = (r, es, None)" for a ls x ys
    using that by (induction w a ls x ys rule: agent_stream.induct) (auto split: if_splits sum.splits gval.splits prod.splits)
  ultimately show ?thesis using stream_status [OF q(2)] q(1,2) by auto
qed

lemma agent_success_needs_result_witness:
  "str_of (fst (snd (snd (execute_agent (demo_agent_world ['''', ''done'']) claude [(''task'', ''fix'')])))) ''status'' = ''completed'' \<and>
   snd (snd (snd (execute_agent (demo_agent_world [''done'', ''turns'']) claude [(''task'', ''fix'')]))) \<noteq> None"
proof -
  let ?x = "execute_agent (demo_agent_world ['''', ''done'']) claude [(''task'', ''fix'')]"
  have "snd (snd (snd ?x)) = None" by code_simp
  then have "?x = (fst ?x, fst (snd ?x), fst (snd (snd ?x)), None)" by (metis prod.collapse)
  from agent_success_needs_result [OF this] have "str_of (fst (snd (snd ?x))) ''status'' = ''completed''" by blast
  moreover have "snd (snd (snd (execute_agent (demo_agent_world [''done'', ''turns'']) claude [(''task'', ''fix'')]))) \<noteq> None" by code_simp
  ultimately show ?thesis by simp
qed

end
