(* ===== verification/Tool_Exec.thy ===== *)
theory Tool_Exec
  imports Agent_World Tool_Files Tool_Rpc
begin

text \<open>
  \<open>ExecuteToolCtx\<close> (tools/execute.go) over all kinds of tools, as the verifier calls it: workspace tools,
  the protocols, and HTTP. gRPC's connection, reflection and invocation are one field of the world.
\<close>

record call_world =
  cw_files :: file_world
  cw_http :: tool_world
  cw_rpc :: rpc_world
  cw_grpc :: "string \<Rightarrow> bool \<Rightarrow> string \<Rightarrow> string gomap \<Rightarrow> string + gval gomap"

definition rejected_text :: "string \<Rightarrow> string" where
  "rejected_text reason = (if reason = '''' then ''A2A task rejected'' else ''A2A task rejected: '' @ reason)"

definition a2a_tool_error :: "a2a_error \<Rightarrow> tool_error" where
  "a2a_tool_error e = (case e of A2aError s \<Rightarrow> ToolFailed s | A2aRejected reason \<Rightarrow> ToolRejected (rejected_text reason) reason)"

definition execute_grpc :: "call_world \<Rightarrow> tool_def \<Rightarrow> string gomap \<Rightarrow> string + gval gomap" where
  "execute_grpc w t params =
    (if tl_target t = '''' \<or> tl_method t = '''' then Inl ''grpc requires target and method''
     else map_sum id (protocol_result ''grpc'') (cw_grpc w (grpc_target (tl_target t)) (tl_insecure t) (grpc_method t) params))"

text \<open>\<open>None\<close> is a call that never returns.\<close>

definition execute_tool_ctx :: "call_world \<Rightarrow> tool_def \<Rightarrow> string gomap \<Rightarrow> (tool_error + gval gomap) option" where
  "execute_tool_ctx w t params =
    (if tl_type t = ''local''
     then map_option (\<lambda>x. map_sum ToolFailed id (snd x)) (execute_local_file_tool (cw_files w) t params)
     else if tl_type t = ''mcp'' then Some (map_sum ToolFailed id (snd (execute_mcp (cw_rpc w) t params)))
     else if tl_type t = ''a2a'' then map_option (\<lambda>x. map_sum a2a_tool_error id (snd x)) (execute_a2a (cw_rpc w) t params)
     else if tl_type t = ''grpc'' then Some (map_sum ToolFailed id (execute_grpc w t params))
     else Some (map_sum ToolFailed id (snd (execute_http_tool (cw_http w) t (Some params)))))"

text \<open>A refusal comes from a remote agent only; every other failure of a tool can be tried again.\<close>

lemma rejection_from_a2a:
  assumes "execute_tool_ctx w t params = Some (Inl (ToolRejected e reason))"
  shows "tl_type t = ''a2a'' \<and> (\<exists>es. execute_a2a (cw_rpc w) t params = Some (es, Inl (A2aRejected reason)))"
proof -
  have failed: "map_sum ToolFailed id x \<noteq> Inl (ToolRejected e reason)" for x :: "string + gval gomap"
    by (cases x) simp_all
  with assms obtain x where x: "tl_type t = ''a2a''" "execute_a2a (cw_rpc w) t params = Some x"
    "map_sum a2a_tool_error id (snd x) = Inl (ToolRejected e reason)"
    by (auto simp: execute_tool_ctx_def split: if_splits)
  from x(3) have "snd x = Inl (A2aRejected reason)"
    by (cases "snd x") (auto simp: a2a_tool_error_def split: a2a_error.splits)
  with x show ?thesis by (metis prod.collapse)
qed

end
