(* ===== verification/Evidence_Model.thy ===== *)
theory Evidence_Model
  imports Audit_Chain
begin

text \<open>
  Evidence for Ernest: the hash-only record an audit event becomes (audit/evidence.go), the key its
  digests are made with (audit/evidence_key.go), and delivery over HTTP (audit/ernest.go). HMAC, the
  text of a JSON document and the URL parser are arguments; the body of a record is its JSON tree.
\<close>

subsection \<open>The time of an event\<close>

text \<open>\<open>UTC().Format\<close> with milliseconds. The day is counted from 1 March of year 0, so that a leap day is
  the last day of its year.\<close>

definition pad_left :: "nat \<Rightarrow> int \<Rightarrow> string" where
  "pad_left n i = (let s = show_int i in replicate (n - length s) (CHR ''0'') @ s)"

definition civil_date :: "int \<Rightarrow> int \<times> int \<times> int" where
  "civil_date days =
    (let z = days + 306; era = z div 146097; doe = z mod 146097;
         yoe = (doe - doe div 1460 + doe div 36524 - doe div 146096) div 365;
         doy = doe - (365 * yoe + yoe div 4 - yoe div 100);
         mp = (5 * doy + 2) div 153; d = doy - (153 * mp + 2) div 5 + 1;
         m = (if mp < 10 then mp + 3 else mp - 9);
         y = yoe + era * 400 + (if m \<le> 2 then 1 else 0) in (y, m, d))"

definition format_millis :: "time \<Rightarrow> string" where
  "format_millis t =
    (let ns_day = 86400 * 10 ^ 9; r = t mod ns_day; s = r div 10 ^ 9 in
     case civil_date (t div ns_day) of (y, m, d) \<Rightarrow>
       pad_left 4 y @ ''-'' @ pad_left 2 m @ ''-'' @ pad_left 2 d @ ''T'' @ pad_left 2 (s div 3600) @ '':'' @
       pad_left 2 (s div 60 mod 60) @ '':'' @ pad_left 2 (s mod 60) @ ''.'' @ pad_left 3 (r mod 10 ^ 9 div 10 ^ 6) @ ''Z'')"

lemma format_millis_examples:
  "format_millis (62135596800 * 10 ^ 9) = ''1970-01-01T00:00:00.000Z''"
  "format_millis ((62135596800 + 951827696) * 10 ^ 9 + 7999999) = ''2000-02-29T12:34:56.007Z''"
  "format_millis ((62135596800 + 1767225599) * 10 ^ 9 + 10 ^ 8) = ''2025-12-31T23:59:59.100Z''"
  by code_simp+

subsection \<open>Evidence\<close>

record evidence_lib =
  vl_audit :: audit_lib
  vl_hmac :: "string \<Rightarrow> string \<Rightarrow> string"
  vl_text :: "gval \<Rightarrow> string"

record evidence =
  vd_type :: string
  vd_source_id :: string
  vd_body :: gval
  vd_correlation :: string
  vd_traceparent :: string

definition phase_pipeline_started :: string where "phase_pipeline_started = ''pipeline.started''"
definition ungoverned_model_id :: string where "ungoverned_model_id = ''aos-agentic-orchestration-system''"

definition evidence_type :: "event \<Rightarrow> string" where
  "evidence_type e = (let phase = str_trim (\<lambda>c. c = CHR ''.'') (trim_space (ev_phase e)) in
     ''aos.audit.event'' @ (if phase \<noteq> '''' then ''.'' @ phase else ''''))"

definition source_event_id :: "event \<Rightarrow> string \<Rightarrow> string" where
  "source_event_id e dig = (if ev_trace e = '''' then dig else str_join '':'' [ev_trace e, ev_phase e, ev_step e, dig])"

definition evidence_metadata :: "event \<Rightarrow> string \<Rightarrow> string \<Rightarrow> string \<Rightarrow> gval gomap \<Rightarrow> gval gomap" where
  "evidence_metadata e dig system occurred extra =
    (let m0 = [(''producer'', GStr ungoverned_model_id), (''schemaVersion'', GStr ''3''), (''eventDigest'', GStr dig),
           (''phase'', GStr (ev_phase e)), (''traceId'', GStr (ev_trace e)), (''intent'', GStr (ev_intent e)),
           (''pipeline'', GStr (ev_pipeline e)), (''result'', GStr (ev_result e)), (''latencyMs'', GInt (ev_latency e)),
           (''occurredAt'', GStr occurred), (''stage'', GStr ''lifecycle'')];
         m1 = (if ev_step e \<noteq> '''' then mput m0 ''step'' (GStr (ev_step e)) else m0);
         m2 = (if ev_trace e \<noteq> '''' then mput m1 ''correlationId'' (GStr (ev_trace e)) else m1);
         m3 = (if system = '''' then m2
           else (let m = mput m2 ''aiSystemId'' (GStr system) in
             if ev_phase e = phase_pipeline_started then mput m ''stage'' (GStr ''execution'') else m)) in
     mputs m3 extra)"

definition build_evidence :: "time \<Rightarrow> event \<Rightarrow> string \<Rightarrow> string \<Rightarrow> gval gomap \<Rightarrow> string + evidence" where
  "build_evidence now e dig system extra =
    (let occurred = format_millis (if ev_timestamp e = 0 then now else ev_timestamp e);
         p0 = [(''source'', GStr ''aos''), (''eventType'', GStr (evidence_type e)), (''sourceEventId'', GStr (source_event_id e dig)),
           (''occurredAt'', GStr occurred), (''modelId'', GStr ungoverned_model_id),
           (''metadata'', GObj (evidence_metadata e dig system occurred extra))];
         p1 = (if system = '''' then p0
           else mput (mput p0 ''modelId'' (GStr system)) ''aiSystem''
             (GObj [(''id'', GStr system), (''systemOfRecord'', GStr ''prudence'')])) in
     if \<not> json_ok (GObj p1) then Inl ''marshal Ernest event: json: unsupported value''
     else Inr \<lparr>vd_type = evidence_type e, vd_source_id = source_event_id e dig, vd_body = GObj p1,
       vd_correlation = ev_trace e, vd_traceparent = ev_traceparent e\<rparr>)"

text \<open>\<open>EvidenceDigest\<close>\<close>

definition evidence_digest :: "evidence_lib \<Rightarrow> string \<Rightarrow> string \<Rightarrow> string" where
  "evidence_digest lib key record_hash = vl_hmac lib key record_hash"

subsection \<open>The evidence key\<close>

text \<open>Files by path, and how reading, creating and writing one end. \<open>kw_written\<close> is the part of a failed
  write that reached the file, with the error.\<close>

record key_world =
  kw_read_error :: "string \<Rightarrow> string option"
  kw_random :: "string + string"
  kw_create_error :: "string \<Rightarrow> string option"
  kw_write_error :: "string \<Rightarrow> (string \<times> string) option"

datatype read_result = ReadError string | NoFile | Content string

definition read_file :: "key_world \<Rightarrow> string gomap \<Rightarrow> string \<Rightarrow> read_result" where
  "read_file w files p = (case kw_read_error w p of Some e \<Rightarrow> ReadError e
     | None \<Rightarrow> (case mget files p of None \<Rightarrow> NoFile | Some s \<Rightarrow> Content s))"

definition random_key :: "key_world \<Rightarrow> string + string" where
  "random_key w = map_sum (\<lambda>e. ''generate evidence key: '' @ e) id (kw_random w)"

text \<open>A new key file is created exclusively: an existing file is an error.\<close>

definition create_key_file :: "key_world \<Rightarrow> string \<Rightarrow> string gomap \<Rightarrow> string gomap \<times> (string + string)" where
  "create_key_file w path files =
    (case random_key w of Inl e \<Rightarrow> (files, Inl e)
     | Inr key \<Rightarrow>
         (case (if mget files path \<noteq> None then Some ''file exists'' else kw_create_error w path) of
            Some e \<Rightarrow> (files, Inl (''create development evidence key: '' @ e))
          | None \<Rightarrow> (case kw_write_error w path of
              Some (part, e) \<Rightarrow> (mput files path part, Inl (''write development evidence key: '' @ e))
            | None \<Rightarrow> (mput files path (key @ [CHR 0x0A]), Inr key))))"

definition development_evidence_key :: "key_world \<Rightarrow> string \<Rightarrow> string gomap \<Rightarrow> string gomap \<times> (string + string)" where
  "development_evidence_key w journal files =
    (if journal = '''' then (files, random_key w)
     else (let path = journal @ ''.evidence-key'' in
       case read_file w files path of
         ReadError e \<Rightarrow> (files, Inl (''read development evidence key: '' @ e))
       | NoFile \<Rightarrow> create_key_file w path files
       | Content raw \<Rightarrow> if trim_space raw \<noteq> '''' then (files, Inr (trim_space raw)) else create_key_file w path files))"

definition min_evidence_key_bytes :: nat where "min_evidence_key_bytes = 32"

definition checked_key :: "bool \<Rightarrow> string \<Rightarrow> string + string" where
  "checked_key development out =
    (if \<not> development \<and> length out < min_evidence_key_bytes
     then Inl (''the evidence key must be at least 32 bytes outside development (got '' @ show_nat (length out) @ '')'')
     else Inr out)"

definition load_evidence_key ::
  "key_world \<Rightarrow> string \<Rightarrow> string \<Rightarrow> string \<Rightarrow> bool \<Rightarrow> string gomap \<Rightarrow> string gomap \<times> (string + string)" where
  "load_evidence_key w key0 file0 journal development files =
    (let key = trim_space key0; file = trim_space file0 in
     if key \<noteq> '''' \<and> file \<noteq> '''' then (files, Inl ''set AOS_EVIDENCE_KEY or AOS_EVIDENCE_KEY_FILE, not both'')
     else if key \<noteq> '''' then (files, checked_key development key)
     else if file \<noteq> ''''
     then (case read_file w files file of
         ReadError e \<Rightarrow> (files, Inl (''read AOS_EVIDENCE_KEY_FILE: '' @ e))
       | NoFile \<Rightarrow> (files, Inl ''read AOS_EVIDENCE_KEY_FILE: file does not exist'')
       | Content raw \<Rightarrow> (files, if trim_space raw = '''' then Inl (''AOS_EVIDENCE_KEY_FILE '' @ file @ '' is empty'')
           else checked_key development (trim_space raw)))
     else if \<not> development
     then (files, Inl (''AOS_EVIDENCE_KEY or AOS_EVIDENCE_KEY_FILE is required outside development when evidence '' @
         ''leaves AOS (Ernest ingestor or Kafka)''))
     else development_evidence_key w journal files)"

subsection \<open>Delivery over HTTP\<close>

record ernest_url =
  eu_scheme :: string
  eu_host :: string
  eu_user :: bool
  eu_query :: string
  eu_fragment :: string
  eu_path :: string

record ernest =
  en_endpoint :: string
  en_api_key :: string
  en_hmac_key :: string
  en_systems :: "string gomap"
  en_timeout :: duration
  en_err :: "string option"
  en_key :: string

definition new_ernest_logger ::
  "(string \<Rightarrow> ernest_url option) \<Rightarrow> (ernest_url \<Rightarrow> string) \<Rightarrow> string \<Rightarrow> string \<Rightarrow> string \<Rightarrow> duration \<Rightarrow> string + ernest" where
  "new_ernest_logger parse print url api_key hmac timeout =
    (case parse (trim_space url) of
       None \<Rightarrow> Inl (''invalid Ernest ingestor URL '' @ go_quote url)
     | Some u \<Rightarrow>
       if eu_scheme u \<notin> {''http'', ''https''} \<or> eu_host u = '''' \<or> eu_user u \<or> eu_query u \<noteq> '''' \<or> eu_fragment u \<noteq> ''''
       then Inl (''invalid Ernest ingestor URL '' @ go_quote url)
       else Inr \<lparr>en_endpoint = print (u\<lparr>eu_path := trim_right (\<lambda>c. c = CHR ''/'') (eu_path u) @ ''/events''\<rparr>),
         en_api_key = trim_space api_key, en_hmac_key = trim_space hmac, en_systems = [],
         en_timeout = (if timeout \<le> 0 then 5 * 10 ^ 9 else timeout), en_err = None, en_key = ''''\<rparr>)"

text \<open>The digest of an event without a journal record: that of its JSON form.\<close>

definition http_evidence :: "evidence_lib \<Rightarrow> time \<Rightarrow> event \<Rightarrow> string \<Rightarrow> string \<Rightarrow> string + evidence" where
  "http_evidence lib now e system key =
    (if key = '''' then Inl ''no evidence key: audit events cannot leave AOS undigested''
     else (case event_json e of None \<Rightarrow> Inl ''marshal AOS audit evidence: json: unsupported value''
       | Some doc \<Rightarrow> build_evidence now e (evidence_digest lib key (al_sha (vl_audit lib) doc)) system []))"

definition ernest_signature :: "evidence_lib \<Rightarrow> string \<Rightarrow> string \<Rightarrow> gval \<Rightarrow> string" where
  "ernest_signature lib key timestamp body = ''sha256='' @ vl_hmac lib key (timestamp @ ''.'' @ vl_text lib body)"

record posted_request =
  eq_url :: string
  eq_headers :: "(string \<times> string) list"
  eq_body :: gval

definition header_if :: "string \<Rightarrow> string \<Rightarrow> (string \<times> string) list" where
  "header_if k v = (if v \<noteq> '''' then [(k, v)] else [])"

definition ernest_request :: "evidence_lib \<Rightarrow> ernest \<Rightarrow> string \<Rightarrow> evidence \<Rightarrow> posted_request" where
  "ernest_request lib en timestamp v =
    \<lparr>eq_url = en_endpoint en,
     eq_headers = [(''Content-Type'', ''application/json''), (''X-Ernest-Event-Source'', ''aos''),
         (''X-Ernest-Event-Type'', vd_type v), (''X-Ernest-Source-Event-Id'', vd_source_id v)] @
       header_if ''X-Correlation-Id'' (vd_correlation v) @ header_if ''traceparent'' (vd_traceparent v) @
       header_if ''X-Ernest-Ingest-Key'' (en_api_key en) @
       (if en_hmac_key en \<noteq> '''' then [(''X-Ernest-Provider-Timestamp'', timestamp),
         (''X-Ernest-Provider-Signature'', ernest_signature lib (en_hmac_key en) timestamp (vd_body v))] else []),
     eq_body = vd_body v\<rparr>"

text \<open>The network: the answer to the n-th request (an error, or a status with its text and what was read of
  the body), whether the context ends in the pause, and whether its deadline is over at the end.\<close>

record ernest_world =
  nw_now :: time
  nw_unix :: "nat \<Rightarrow> string"
  nw_bad_request :: "string option"
  nw_answer :: "nat \<Rightarrow> string + int \<times> string \<times> (string + string)"
  nw_done :: bool
  nw_deadline :: bool

text \<open>What one answer means: delivered, an error that ends the attempts, or one that may be tried again.\<close>

datatype attempt = Delivered | Refused string | Again string

definition ernest_attempt :: "string + int \<times> string \<times> (string + string) \<Rightarrow> attempt" where
  "ernest_attempt a =
    (case a of Inl e \<Rightarrow> Again (''send event to Ernest: '' @ e)
     | Inr (code, status, Inl e) \<Rightarrow> Again (''read Ernest response: '' @ e)
     | Inr (code, status, Inr body) \<Rightarrow>
         (let err = ''Ernest event ingestion returned '' @ status @ '': '' @ trim_space body in
          if code \<ge> 200 \<and> code < 300 then Delivered
          else if code \<ge> 400 \<and> code < 500 then Refused err else Again err))"

definition ernest_failed :: "ernest_world \<Rightarrow> string \<Rightarrow> string option" where
  "ernest_failed w err = Some (if nw_deadline w then ''Ernest event ingestion timed out: '' @ err else err)"

definition ernest_deliver :: "evidence_lib \<Rightarrow> ernest_world \<Rightarrow> ernest \<Rightarrow> evidence \<Rightarrow> posted_request list \<times> string option" where
  "ernest_deliver lib w en v =
    (let rq = (\<lambda>n. ernest_request lib en (nw_unix w n) v) in
     case nw_bad_request w of Some e \<Rightarrow> ([], Some (''create Ernest event request: '' @ e))
     | None \<Rightarrow>
       (case ernest_attempt (nw_answer w 0) of
          Delivered \<Rightarrow> ([rq 0], None)
        | Refused err \<Rightarrow> ([rq 0], Some err)
        | Again err \<Rightarrow>
            if nw_done w then ([rq 0], Some err)
            else (case ernest_attempt (nw_answer w 1) of
                Delivered \<Rightarrow> ([rq 0, rq 1], None)
              | Refused err1 \<Rightarrow> ([rq 0, rq 1], Some err1)
              | Again err1 \<Rightarrow> ([rq 0, rq 1], ernest_failed w err1))))"

definition ernest_send :: "evidence_lib \<Rightarrow> ernest_world \<Rightarrow> event \<Rightarrow> ernest \<Rightarrow> posted_request list \<times> string option" where
  "ernest_send lib w e0 en =
    (let e = utc_event (nw_now w) e0 in
     case http_evidence lib (nw_now w) e (mstr (en_systems en) (ev_pipeline e)) (en_key en) of
       Inl err \<Rightarrow> ([], Some err)
     | Inr v \<Rightarrow> ernest_deliver lib w en v)"

text \<open>As a sink of the fan-out: the error of the last event is what \<open>Err\<close> answers.\<close>

definition ernest_log :: "evidence_lib \<Rightarrow> ernest_world \<Rightarrow> event \<Rightarrow> ernest \<Rightarrow> ernest \<times> string option" where
  "ernest_log lib w e en = (let err = snd (ernest_send lib w e en) in (en\<lparr>en_err := err\<rparr>, err))"

end
