(* ===== verification/Evidence_Props.thy ===== *)
theory Evidence_Props
  imports Evidence_Model
begin

text \<open>
  The properties of evidence: what of an event leaves the installation, which keys are accepted and that a
  generated one is kept, and how often an event is posted.
\<close>

subsection \<open>What leaves\<close>

text \<open>An event without the person, the roles, the parameters, the tools, the error and the details.\<close>

definition public_view :: "event \<Rightarrow> event" where
  "public_view e = e\<lparr>ev_user := '''', ev_roles := [], ev_params := [], ev_tools := [], ev_error := '''', ev_details := []\<rparr>"

lemma public_view_fields [simp]:
  "ev_timestamp (public_view e) = ev_timestamp e" "ev_intent (public_view e) = ev_intent e"
  "ev_pipeline (public_view e) = ev_pipeline e" "ev_result (public_view e) = ev_result e"
  "ev_latency (public_view e) = ev_latency e" "ev_trace (public_view e) = ev_trace e"
  "ev_phase (public_view e) = ev_phase e" "ev_step (public_view e) = ev_step e"
  "ev_traceparent (public_view e) = ev_traceparent e"
  by (simp_all add: public_view_def)

lemma build_evidence_public: "build_evidence now (public_view e) dig system extra = build_evidence now e dig system extra"
  unfolding build_evidence_def evidence_type_def source_event_id_def evidence_metadata_def public_view_fields by (rule refl)

lemma public_view_utc: "public_view (utc_event now e) = utc_event now (public_view e)"
  by (simp add: utc_event_def) (simp add: public_view_def)

lemma utc_event_pipeline [simp]: "ev_pipeline (utc_event now e) = ev_pipeline e"
  by (simp add: utc_event_def)

lemma build_evidence_cong:
  "public_view e = public_view e' \<Longrightarrow> build_evidence now e dig system extra = build_evidence now e' dig system extra"
  by (metis build_evidence_public)

text \<open>The digest an event is posted with; \<open>None\<close> when it cannot be posted.\<close>

definition posted_digest :: "evidence_lib \<Rightarrow> string \<Rightarrow> event \<Rightarrow> string option" where
  "posted_digest lib key e = map_option (\<lambda>doc. evidence_digest lib key (al_sha (vl_audit lib) doc)) (event_json e)"

lemma http_evidence_cong:
  assumes "public_view e = public_view e'" "posted_digest lib key e = posted_digest lib key e'"
  shows "http_evidence lib now e system key = http_evidence lib now e' system key"
proof (cases "event_json e")
  case None
  with assms(2) show ?thesis by (auto simp: posted_digest_def http_evidence_def)
next
  case (Some d)
  with assms(2) obtain d' where d': "event_json e' = Some d'" "evidence_digest lib key (al_sha (vl_audit lib) d) =
      evidence_digest lib key (al_sha (vl_audit lib) d')"
    by (cases "event_json e'") (auto simp: posted_digest_def)
  then show ?thesis using Some build_evidence_cong [OF assms(1)] by (simp add: http_evidence_def)
qed

text \<open>
  C29: posting an event to Ernest reveals nothing of the person, the roles, the parameters, the tools, the
  error and the details but one keyed digest: two events that agree in the other fields, and have the
  same digest, are posted with the same requests, headers and signatures included.
\<close>

theorem evidence_hides_content:
  assumes "public_view e = public_view e'"
    and "posted_digest lib (en_key en) (utc_event (nw_now w) e) = posted_digest lib (en_key en) (utc_event (nw_now w) e')"
  shows "ernest_send lib w e en = ernest_send lib w e' en"
proof -
  have "public_view (utc_event (nw_now w) e) = public_view (utc_event (nw_now w) e')"
    using assms(1) by (simp add: public_view_utc)
  then have "http_evidence lib (nw_now w) (utc_event (nw_now w) e) s (en_key en) =
      http_evidence lib (nw_now w) (utc_event (nw_now w) e') s (en_key en)" for s
    using http_evidence_cong assms(2) by blast
  moreover have "ev_pipeline e = ev_pipeline e'" using assms(1) by (metis public_view_fields(3))
  ultimately show ?thesis by (simp add: ernest_send_def Let_def)
qed

definition demo_evidence_lib :: evidence_lib where
  "demo_evidence_lib = \<lparr>vl_audit = demo_lib, vl_hmac = (\<lambda>k s. ''mac''), vl_text = (\<lambda>v. ''{}'')\<rparr>"

definition demo_ernest :: ernest where
  "demo_ernest = \<lparr>en_endpoint = ''https://ernest/events'', en_api_key = ''k'', en_hmac_key = ''h'', en_systems = [(''pay'', ''sys-1'')],
     en_timeout = 5000000000, en_err = None, en_key = ''0123456789abcdef''\<rparr>"

definition demo_ernest_world :: ernest_world where
  "demo_ernest_world = \<lparr>nw_now = 7, nw_unix = (\<lambda>_. ''1700000000''), nw_bad_request = None,
     nw_answer = (\<lambda>n. if n = 0 then Inl ''connection refused'' else Inr (202, ''202 Accepted'', Inr ''{}'')),
     nw_done = False, nw_deadline = False\<rparr>"

definition demo_payment :: event where
  "demo_payment = zero_event\<lparr>ev_user := ''ana'', ev_pipeline := ''pay'', ev_params := [(''iban'', GStr ''ES12'')], ev_trace := ''t1'',
     ev_phase := ''pipeline.started'', ev_result := ''started''\<rparr>"

lemma evidence_hides_content_witness:
  "ernest_send demo_evidence_lib demo_ernest_world demo_payment demo_ernest =
   ernest_send demo_evidence_lib demo_ernest_world (demo_payment\<lparr>ev_user := ''bob'', ev_params := [(''iban'', GStr ''FR99'')]\<rparr>) demo_ernest \<and>
   length (fst (ernest_send demo_evidence_lib demo_ernest_world demo_payment demo_ernest)) = 2"
proof -
  let ?e = "demo_payment\<lparr>ev_user := ''bob'', ev_params := [(''iban'', GStr ''FR99'')]\<rparr>"
  have "public_view demo_payment = public_view ?e" by code_simp
  moreover have "posted_digest demo_evidence_lib (en_key demo_ernest) (utc_event (nw_now demo_ernest_world) demo_payment) =
      posted_digest demo_evidence_lib (en_key demo_ernest) (utc_event (nw_now demo_ernest_world) ?e)" by code_simp
  ultimately have "ernest_send demo_evidence_lib demo_ernest_world demo_payment demo_ernest =
      ernest_send demo_evidence_lib demo_ernest_world ?e demo_ernest" by (rule evidence_hides_content)
  moreover have "length (fst (ernest_send demo_evidence_lib demo_ernest_world demo_payment demo_ernest)) = 2" by code_simp
  ultimately show ?thesis by simp
qed

subsection \<open>Attempts\<close>

text \<open>
  an event is posted at most twice; it is reported as written only when the last answer was a 2xx that
  could be read, and it is not posted again after a delivery or a 4xx.
\<close>

lemma ernest_deliver_attempts:
  assumes "ernest_deliver lib w en v = (reqs, err)"
  shows "length reqs \<le> 2 \<and> (err = None \<longrightarrow> reqs \<noteq> [] \<and> ernest_attempt (nw_answer w (length reqs - 1)) = Delivered) \<and>
    (length reqs = 2 \<longrightarrow> (\<exists>e. ernest_attempt (nw_answer w 0) = Again e))"
  using assms by (auto simp: ernest_deliver_def ernest_failed_def Let_def split: option.splits attempt.splits if_splits)

lemma delivered_iff: "ernest_attempt a = Delivered \<longleftrightarrow> (\<exists>code status body. a = Inr (code, status, Inr body) \<and> 200 \<le> code \<and> code < 300)"
  by (auto simp: ernest_attempt_def Let_def split: sum.splits)

subsection \<open>Keys\<close>

text \<open>Random keys are 64 hexadecimal digits: text without surrounding blanks.\<close>

definition good_random :: "key_world \<Rightarrow> bool" where
  "good_random w = (case kw_random w of Inl _ \<Rightarrow> True | Inr r \<Rightarrow> length r = 64 \<and> trim_space r = r)"

lemma map_sum_Inr: "map_sum f g x = Inr y \<longleftrightarrow> (\<exists>z. x = Inr z \<and> y = g z)"
  by (cases x) auto

lemma checked_key_Inr: "checked_key dev out = Inr k \<longleftrightarrow> k = out \<and> (dev \<or> 32 \<le> length out)"
  by (auto simp: checked_key_def min_evidence_key_bytes_def)

lemma create_key_file_Inr:
  "create_key_file w path files = (files', Inr k) \<Longrightarrow> random_key w = Inr k \<and> files' = mput files path (k @ [CHR 0x0A])"
  by (auto simp: create_key_file_def split: sum.splits option.splits if_splits)

lemma random_key_good: "good_random w \<Longrightarrow> random_key w = Inr k \<Longrightarrow> length k = 64 \<and> trim_space k = k"
  by (cases "kw_random w") (auto simp: random_key_def good_random_def)

lemma trim_space_newline: "trim_space k = k \<Longrightarrow> k \<noteq> '''' \<Longrightarrow> trim_space (k @ [CHR 0x0A]) = k"
proof -
  assume k: "trim_space k = k" "k \<noteq> ''''"
  then have "\<not> is_space (hd k)" "\<not> is_space (last k)" using trim_space_hd trim_space_last by metis+
  moreover have "is_space (CHR 0x0A)" by code_simp
  moreover have "dropWhile is_space (k @ [CHR 0x0A]) = k @ [CHR 0x0A]" using calculation(1) k(2) by (cases k) auto
  ultimately show ?thesis using k(2) by (cases k rule: rev_cases) (auto simp: trim_space_def trim_left_def trim_right_def)
qed

text \<open>A key in a file, kept next to the journal: what was there, or a new one.\<close>

lemma development_key_kept:
  assumes "development_evidence_key w journal files = (files', Inr k)" "good_random w" "journal \<noteq> ''''"
  shows "(\<exists>raw. mget files' (journal @ ''.evidence-key'') = Some raw \<and> k = trim_space raw) \<and> k \<noteq> '''' \<and>
    (case mget files (journal @ ''.evidence-key'') of Some raw \<Rightarrow> k = trim_space raw \<and> files' = files | None \<Rightarrow> kw_random w = Inr k)"
proof -
  let ?p = "journal @ ''.evidence-key''"
  show ?thesis
  proof (cases "\<exists>raw. mget files ?p = Some raw \<and> trim_space raw \<noteq> ''''")
    case True
    with assms(1,3) show ?thesis by (auto simp: development_evidence_key_def read_file_def Let_def split: option.splits)
  next
    case False
    with assms(1,3) have new: "create_key_file w ?p files = (files', Inr k)"
      by (auto simp: development_evidence_key_def read_file_def Let_def split: option.splits if_splits)
    then have none: "mget files ?p = None" "kw_random w = Inr k"
      by (auto simp: create_key_file_def random_key_def map_sum_Inr split: sum.splits option.splits if_splits)
    from create_key_file_Inr [OF new] have f: "files' = mput files ?p (k @ [CHR 0x0A])" and r: "random_key w = Inr k" by simp_all
    from random_key_good [OF assms(2) r] have k: "trim_space k = k" "k \<noteq> ''''" by auto
    with f none trim_space_newline [OF k] show ?thesis by simp
  qed
qed

lemma development_key_again:
  assumes "journal \<noteq> ''''" "mget files (journal @ ''.evidence-key'') = Some raw" "trim_space raw \<noteq> ''''"
    "kw_read_error w (journal @ ''.evidence-key'') = None"
  shows "development_evidence_key w journal files = (files, Inr (trim_space raw))"
  using assms by (simp add: development_evidence_key_def read_file_def)

text \<open>
  C37: the evidence key comes from one of three places, and is at least 32 bytes long outside development,
  whichever it is. A configured key is used as it is, and the content of a configured key file likewise,
  never both, and nothing is written. Without either the process must be in development: with a journal
  the key is the one in the file beside it, or a random one that is written there, and every later start
  that can read the file and finds it unchanged loads the same key; without a journal the key is random
  and in memory only.
\<close>

theorem evidence_key_configured_or_kept:
  assumes "load_evidence_key w key file journal development files = (files', Inr k)" "good_random w"
  shows "k \<noteq> '''' \<and> (\<not> development \<longrightarrow> 32 \<le> length k) \<and>
    (if \<not> blank key then blank file \<and> k = trim_space key \<and> files' = files
     else if \<not> blank file then (\<exists>raw. mget files (trim_space file) = Some raw \<and> k = trim_space raw) \<and> files' = files
     else development \<and>
      (if journal = '''' then kw_random w = Inr k \<and> files' = files
       else (\<exists>raw. mget files' (journal @ ''.evidence-key'') = Some raw \<and> k = trim_space raw) \<and>
         (case mget files (journal @ ''.evidence-key'') of Some raw \<Rightarrow> k = trim_space raw \<and> files' = files | None \<Rightarrow> kw_random w = Inr k) \<and>
         (\<forall>w2 files2. kw_read_error w2 (journal @ ''.evidence-key'') = None \<and>
           mget files2 (journal @ ''.evidence-key'') = mget files' (journal @ ''.evidence-key'') \<longrightarrow>
           load_evidence_key w2 key file journal development files2 = (files2, Inr k))))"
proof (cases "blank key \<and> blank file")
  case True
  with assms have dev: "development" "development_evidence_key w journal files = (files', Inr k)"
    by (auto simp: load_evidence_key_def Let_def blank_def split: if_splits)
  show ?thesis
  proof (cases "journal = ''''")
    case True
    with dev(2) have "kw_random w = Inr k" "files' = files" by (auto simp: development_evidence_key_def random_key_def map_sum_Inr)
    moreover have "k \<noteq> ''''" using random_key_good [OF assms(2)] True dev(2) by (fastforce simp: development_evidence_key_def)
    ultimately show ?thesis using True dev(1) \<open>blank key \<and> blank file\<close> by simp
  next
    case False
    note kept = development_key_kept [OF dev(2) assms(2) False]
    have "load_evidence_key w2 key file journal development files2 = (files2, Inr k)"
      if "kw_read_error w2 (journal @ ''.evidence-key'') = None"
        "mget files2 (journal @ ''.evidence-key'') = mget files' (journal @ ''.evidence-key'')" for w2 files2
      using that kept development_key_again [OF False, of files2] dev(1) True by (auto simp: load_evidence_key_def blank_def)
    with kept False dev(1) True show ?thesis by simp
  qed
next
  case False
  show ?thesis
  proof (cases "blank key")
    case True
    with False have f: "trim_space key = ''''" "trim_space file \<noteq> ''''" by (simp_all add: blank_def)
    with assms(1) obtain raw where "read_file w files (trim_space file) = Content raw" "files' = files" "trim_space raw \<noteq> ''''"
      "checked_key development (trim_space raw) = Inr k"
      by (auto simp: load_evidence_key_def Let_def split: if_splits read_result.splits)
    moreover from this(1) have "mget files (trim_space file) = Some raw" by (auto simp: read_file_def split: option.splits)
    moreover have "k = trim_space raw" "development \<or> 32 \<le> length k" using calculation(4) by (simp_all add: checked_key_Inr)
    ultimately show ?thesis using f by (auto simp: blank_def)
  next
    case False
    with assms(1) have "trim_space file = ''''" "files' = files" "checked_key development (trim_space key) = Inr k"
      by (auto simp: load_evidence_key_def Let_def blank_def split: if_splits)
    moreover have "k = trim_space key" "development \<or> 32 \<le> length k" using calculation(3) by (simp_all add: checked_key_Inr)
    ultimately show ?thesis using False by (auto simp: blank_def)
  qed
qed

definition demo_key_world :: key_world where
  "demo_key_world = \<lparr>kw_read_error = (\<lambda>_. None), kw_random = Inr (replicate 64 (CHR ''a'')), kw_create_error = (\<lambda>_. None),
     kw_write_error = (\<lambda>_. None)\<rparr>"

lemma evidence_key_configured_or_kept_witness:
  "load_evidence_key demo_key_world '''' '' '' ''audit.log'' True (fst (load_evidence_key demo_key_world '''' '' '' ''audit.log'' True [])) =
     (fst (load_evidence_key demo_key_world '''' '' '' ''audit.log'' True []), Inr (replicate 64 (CHR ''a''))) \<and>
   fst (load_evidence_key demo_key_world '''' '' '' ''audit.log'' True []) \<noteq> []"
proof -
  let ?files = "fst (load_evidence_key demo_key_world '''' '' '' ''audit.log'' True [])"
  have l: "load_evidence_key demo_key_world '''' '' '' ''audit.log'' True [] = (?files, Inr (replicate 64 (CHR ''a'')))" by code_simp
  have g: "good_random demo_key_world" "blank ''''" "blank '' ''" by code_simp+
  have "kw_read_error demo_key_world (''audit.log'' @ ''.evidence-key'') = None" by (simp add: demo_key_world_def)
  moreover have "\<forall>w2 files2. kw_read_error w2 (''audit.log'' @ ''.evidence-key'') = None \<and>
      mget files2 (''audit.log'' @ ''.evidence-key'') = mget ?files (''audit.log'' @ ''.evidence-key'') \<longrightarrow>
      load_evidence_key w2 '''' '' '' ''audit.log'' True files2 = (files2, Inr (replicate 64 (CHR ''a'')))"
    using evidence_key_configured_or_kept [OF l g(1)] by (simp only: g(2,3) simp_thms if_True if_False list.distinct) (elim conjE, assumption)
  ultimately have "load_evidence_key demo_key_world '''' '' '' ''audit.log'' True ?files = (?files, Inr (replicate 64 (CHR ''a'')))" by blast
  moreover have "?files \<noteq> []" by code_simp
  ultimately show ?thesis by blast
qed

end
