(* ===== verification/Kafka_Model.thy ===== *)
theory Kafka_Model
  imports Evidence_Model
begin

text \<open>
  Delivery of the audit journal to Kafka (audit/kafka_shipper.go): the journal is a text of lines, the
  cursor a file with the position behind the last line that Kafka acknowledged. One pass is
  \<open>ship_once\<close>; the world of a pass says how each file operation and the publication end. The JSON
  parser, the text of a cursor and the client library are arguments.
\<close>

subsection \<open>Settings\<close>

record kafka_security =
  ks_protocol :: string
  ks_ca_file :: string
  ks_mechanism :: string
  ks_username :: string
  ks_password :: string

record kafka_config =
  kc_journal :: string
  kc_cursor :: string
  kc_brokers :: "string list"
  kc_topic :: string
  kc_interval :: duration
  kc_batch :: int
  kc_security :: kafka_security
  kc_systems :: "string gomap"
  kc_key :: string

datatype kafka_option = DialTLS "string option" | Sasl string string string | SeedBrokers "string list"
  | ProduceTopic string | AllISRAcks | Linger duration | AutoTopic

text \<open>\<open>read\<close> reads a CA file; \<open>has_pem\<close> says whether it holds a certificate.\<close>

definition kafka_options :: "(string \<Rightarrow> string + string) \<Rightarrow> (string \<Rightarrow> bool) \<Rightarrow> kafka_security \<Rightarrow> string + kafka_option list" where
  "kafka_options read has_pem s =
    (let p0 = to_upper (trim_space (ks_protocol s)); protocol = (if p0 = '''' then ''PLAINTEXT'' else p0);
         tls = (if protocol = ''PLAINTEXT'' \<or> protocol = ''SASL_PLAINTEXT'' then Inr []
           else if protocol = ''SSL'' \<or> protocol = ''SASL_SSL''
           then (if ks_ca_file s = '''' then Inr [DialTLS None]
             else (case read (ks_ca_file s) of Inl e \<Rightarrow> Inl (''read Kafka CA file: '' @ e)
               | Inr pem \<Rightarrow> if has_pem pem then Inr [DialTLS (Some pem)]
                   else Inl (''Kafka CA file '' @ ks_ca_file s @ '' holds no PEM certificate'')))
           else Inl (''unsupported Kafka security protocol '' @ go_quote (ks_protocol s))) in
     case tls of Inl e \<Rightarrow> Inl e
     | Inr opts \<Rightarrow>
       if \<not> has_prefix protocol ''SASL_'' then Inr opts
       else if ks_username s = '''' \<or> ks_password s = ''''
       then Inl (''Kafka '' @ protocol @ '' needs a SASL username and password'')
       else (let m = to_upper (trim_space (ks_mechanism s)) in
         if m = '''' \<or> m = ''SCRAM-SHA-512'' then Inr (opts @ [Sasl ''SCRAM-SHA-512'' (ks_username s) (ks_password s)])
         else if m = ''SCRAM-SHA-256'' then Inr (opts @ [Sasl ''SCRAM-SHA-256'' (ks_username s) (ks_password s)])
         else if m = ''PLAIN'' then Inr (opts @ [Sasl ''PLAIN'' (ks_username s) (ks_password s)])
         else Inl (''unsupported Kafka SASL mechanism '' @ go_quote (ks_mechanism s))))"

text \<open>\<open>NewKafkaShipper\<close>: the settings with their defaults and the options of the client.\<close>

definition kafka_defaults :: "kafka_config \<Rightarrow> kafka_config" where
  "kafka_defaults c = c\<lparr>kc_topic := (if kc_topic c = '''' then ''aos.executions'' else kc_topic c),
     kc_cursor := (if kc_cursor c = '''' then kc_journal c @ ''.kafka-cursor'' else kc_cursor c),
     kc_interval := (if kc_interval c \<le> 0 then 10 ^ 9 else kc_interval c),
     kc_batch := (if kc_batch c \<le> 0 then 500 else kc_batch c)\<rparr>"

definition new_kafka_shipper ::
  "(string \<Rightarrow> string + string) \<Rightarrow> (string \<Rightarrow> bool) \<Rightarrow> (kafka_option list \<Rightarrow> string option) \<Rightarrow> kafka_config
    \<Rightarrow> string + kafka_config \<times> kafka_option list" where
  "new_kafka_shipper read has_pem client_error c0 =
    (if kc_key c0 = '''' then Inl ''kafka evidence needs an evidence key (LoadEvidenceKey)''
     else if trim_space (kc_journal c0) = '''' then Inl ''Kafka evidence needs AUDIT_LOG_PATH: the audit journal is its outbox''
     else if kc_brokers c0 = [] then Inl ''Kafka evidence needs at least one broker''
     else (let c = kafka_defaults c0 in
       case kafka_options read has_pem (kc_security c) of Inl e \<Rightarrow> Inl e
       | Inr opts \<Rightarrow>
         (let all = opts @ [SeedBrokers (kc_brokers c), ProduceTopic (kc_topic c), AllISRAcks, Linger 20000000, AutoTopic] in
          case client_error all of Some e \<Rightarrow> Inl (''create Kafka evidence producer: '' @ e)
          | None \<Rightarrow> Inr (c, all))))"

subsection \<open>Records\<close>

record kafka_record =
  kr_key :: string
  kr_value :: gval
  kr_headers :: "(string \<times> string) list"

definition journal_record ::
  "evidence_lib \<Rightarrow> time \<Rightarrow> audit_record \<Rightarrow> string \<Rightarrow> string \<Rightarrow> string + kafka_record" where
  "journal_record lib now r system key =
    (if key = '''' then Inl ''no evidence key: audit records cannot leave AOS undigested''
     else (let dig = evidence_digest lib key (ar_hash r) in
       case build_evidence now (ar_event r) dig system
           [(''journalSequence'', GInt (ar_sequence r)), (''transport'', GStr ''kafka'')] of
         Inl e \<Rightarrow> Inl e
       | Inr v \<Rightarrow> Inr
         \<lparr>kr_key = (if ev_trace (ar_event r) = '''' then dig else ev_trace (ar_event r)), kr_value = vd_body v,
          kr_headers = [(''source'', ''aos''), (''eventType'', vd_type v), (''sourceEventId'', vd_source_id v)] @
            header_if ''correlationId'' (vd_correlation v) @ header_if ''traceparent'' (vd_traceparent v)\<rparr>))"

subsection \<open>The cursor\<close>

record kafka_cursor =
  cu_offset :: int
  cu_sequence :: int

definition zero_cursor :: kafka_cursor where "zero_cursor = \<lparr>cu_offset = 0, cu_sequence = 0\<rparr>"

text \<open>The library of the shipper: reading a journal line and writing and reading a cursor as JSON.\<close>

record ship_lib =
  sl_evidence :: evidence_lib
  sl_json :: "string \<Rightarrow> gval option"
  sl_cursor_text :: "kafka_cursor \<Rightarrow> string"
  sl_cursor_of :: "string \<Rightarrow> kafka_cursor option"

text \<open>The world of a pass: errors of reading the cursor, of opening, measuring and seeking in the journal, how
  many bytes can be read, which records Kafka takes and the first error, and how writing the cursor ends.\<close>

record ship_world =
  sw_now :: time
  sw_cursor_error :: "string option"
  sw_open_error :: "string option"
  sw_stat_ok :: bool
  sw_seek_error :: "int \<Rightarrow> string option"
  sw_readable :: nat
  sw_produce :: "kafka_record list \<Rightarrow> kafka_record list \<times> string option"
  sw_temp_error :: "string option"
  sw_written :: "nat option"
  sw_close_error :: "string option"
  sw_rename_error :: "string option"

text \<open>What outlives a pass: the content of the cursor file, if there is one, and the records Kafka holds.\<close>

record shipped =
  sh_cursor :: "string option"
  sh_topic :: "kafka_record list"

definition read_cursor :: "ship_lib \<Rightarrow> kafka_config \<Rightarrow> ship_world \<Rightarrow> shipped \<Rightarrow> string + kafka_cursor" where
  "read_cursor lib c w s =
    (case sw_cursor_error w of Some e \<Rightarrow> Inl (''read Kafka evidence cursor: '' @ e)
     | None \<Rightarrow> (case sh_cursor s of None \<Rightarrow> Inr zero_cursor
       | Some raw \<Rightarrow> (case sl_cursor_of lib raw of
           None \<Rightarrow> Inl (''Kafka evidence cursor '' @ kc_cursor c @ '' is corrupt'')
         | Some cur \<Rightarrow> Inr cur)))"

text \<open>\<open>writeCursor\<close>. The error of the write and of the sync is assigned to a variable of the inner scope, so
  the temporary file replaces the cursor with as much of the text as was written (\<open>sw_written\<close>).\<close>

definition write_cursor :: "ship_lib \<Rightarrow> ship_world \<Rightarrow> kafka_cursor \<Rightarrow> shipped \<Rightarrow> shipped \<times> string option" where
  "write_cursor lib w cur s =
    (let raw = sl_cursor_text lib cur; fail = (\<lambda>e. (s, Some (''write Kafka evidence cursor: '' @ e))) in
     case sw_temp_error w of Some e \<Rightarrow> fail e
     | None \<Rightarrow> (case sw_close_error w of Some e \<Rightarrow> fail e
       | None \<Rightarrow> (case sw_rename_error w of Some e \<Rightarrow> fail e
         | None \<Rightarrow> (s\<lparr>sh_cursor := Some (case sw_written w of None \<Rightarrow> raw | Some n \<Rightarrow> take n raw)\<rparr>, None))))"

subsection \<open>A pass\<close>

text \<open>The next complete line, without its newline, and what follows.\<close>

fun next_line :: "string \<Rightarrow> (string \<times> string) option" where
  "next_line '''' = None"
| "next_line (c # cs) = (if c = CHR 0x0A then Some ('''', cs)
     else map_option (\<lambda>(l, r). (c # l, r)) (next_line cs))"

lemma next_line_Some: "next_line t = Some (l, r) \<longleftrightarrow> t = l @ CHR 0x0A # r \<and> CHR 0x0A \<notin> set l"
proof (induction t arbitrary: l)
  case (Cons c cs)
  then show ?case by (cases l) auto
qed simp

lemma next_line_shorter: "next_line t = Some (l, r) \<Longrightarrow> length r < length t"
  by (simp add: next_line_Some)

text \<open>The record of a line that is not blank.\<close>

definition line_record :: "ship_lib \<Rightarrow> kafka_config \<Rightarrow> time \<Rightarrow> string \<Rightarrow> (string option + kafka_record) \<times> int" where
  "line_record lib c now line =
    (case Option.bind (sl_json lib (trim_space line)) record_of_json of
       None \<Rightarrow> (Inl None, 0)
     | Some r \<Rightarrow> (map_sum Some id (journal_record (sl_evidence lib) now r (mstr (kc_systems c) (ev_pipeline (ar_event r))) (kc_key c)),
         ar_sequence r))"

text \<open>The loop of \<open>ShipOnce\<close> over the complete lines.\<close>

function read_batch :: "ship_lib \<Rightarrow> kafka_config \<Rightarrow> time \<Rightarrow> string \<Rightarrow> int \<Rightarrow> kafka_record list \<Rightarrow> kafka_cursor
    \<Rightarrow> string + kafka_record list \<times> kafka_cursor" where
  "read_batch lib c now text offset recs next =
    (if int (length recs) \<ge> kc_batch c then Inr (recs, next)
     else (case next_line text of None \<Rightarrow> Inr (recs, next)
       | Some (line, rest) \<Rightarrow>
         (let end = offset + int (length line) + 1 in
          if trim_space line = '''' then read_batch lib c now rest end recs (next\<lparr>cu_offset := end\<rparr>)
          else (case line_record lib c now line of
              (Inl None, _) \<Rightarrow> Inl (''audit journal record at byte '' @ show_int offset @ '' is unreadable'')
            | (Inl (Some e), _) \<Rightarrow> Inl e
            | (Inr r, n) \<Rightarrow> read_batch lib c now rest end (recs @ [r]) \<lparr>cu_offset = end, cu_sequence = n\<rparr>))))"
  by pat_completeness auto
termination
  by (relation "measure (\<lambda>(_, _, _, text, _). length text)") (auto simp: next_line_shorter)

declare read_batch.simps [simp del]

text \<open>\<open>journal\<close> is the file's content, if it exists; the count is that of the acknowledged records.\<close>

definition ship_once ::
  "ship_lib \<Rightarrow> kafka_config \<Rightarrow> ship_world \<Rightarrow> string option \<Rightarrow> shipped \<Rightarrow> shipped \<times> (string + nat)" where
  "ship_once lib c w journal s =
    (case read_cursor lib c w s of Inl e \<Rightarrow> (s, Inl e)
     | Inr cur0 \<Rightarrow>
       (case journal of None \<Rightarrow> (s, Inr 0)
        | Some text \<Rightarrow>
          (case sw_open_error w of Some e \<Rightarrow> (s, Inl (''open audit journal: '' @ e))
           | None \<Rightarrow>
             (let cur = (if sw_stat_ok w \<and> int (length text) < cu_offset cur0 then zero_cursor else cur0) in
              case sw_seek_error w (cu_offset cur) of Some e \<Rightarrow> (s, Inl (''seek audit journal: '' @ e))
              | None \<Rightarrow>
                (case read_batch lib c (sw_now w) (take (sw_readable w) (drop (nat (cu_offset cur)) text)) (cu_offset cur) [] cur of
                   Inl e \<Rightarrow> (s, Inl e)
                 | Inr (recs, next) \<Rightarrow>
                   if recs = []
                   then (if cu_offset next = cu_offset cur then (s, Inr 0)
                     else (case write_cursor lib w next s of (s1, Some e) \<Rightarrow> (s1, Inl e) | (s1, None) \<Rightarrow> (s1, Inr 0)))
                   else (case sw_produce w recs of (acked, err) \<Rightarrow>
                     (let s1 = s\<lparr>sh_topic := sh_topic s @ acked\<rparr> in
                      case err of Some e \<Rightarrow> (s1, Inl (''publish '' @ show_nat (length recs) @ '' audit records: '' @ e))
                      | None \<Rightarrow> (case write_cursor lib w next s1 of
                          (s2, Some e) \<Rightarrow> (s2, Inl e) | (s2, None) \<Rightarrow> (s2, Inr (length recs))))))))))"

subsection \<open>The loop\<close>

text \<open>\<open>Run\<close>: the wait after a pass, if it waits, and the wait kept for the next one.\<close>

definition after_pass :: "kafka_config \<Rightarrow> duration \<Rightarrow> string + nat \<Rightarrow> duration \<times> bool" where
  "after_pass c wait res =
    (case res of Inl e \<Rightarrow> (if wait < 30 * 10 ^ 9 then wait * 2 else wait, True)
     | Inr n \<Rightarrow> (kc_interval c, n = 0))"

text \<open>The passes until the context ends, each with the journal it finds, and the waits between them.\<close>

fun ship_run :: "ship_lib \<Rightarrow> kafka_config \<Rightarrow> (ship_world \<times> string option) list \<Rightarrow> duration \<Rightarrow> shipped \<Rightarrow> shipped \<times> duration list" where
  "ship_run lib c [] wait s = (s, [])"
| "ship_run lib c ((w, journal) # ps) wait s =
    (case ship_once lib c w journal s of (s1, res) \<Rightarrow>
     (case after_pass c wait res of (wait1, waits) \<Rightarrow>
      (case ship_run lib c ps wait1 s1 of (s2, ds) \<Rightarrow> (s2, (if waits then [wait1] else []) @ ds))))"

end
