(* ===== verification/Kafka_Props.thy ===== *)
theory Kafka_Props
  imports Kafka_Model Evidence_Props "HOL-Library.Sublist"
begin

text \<open>
  The properties of the delivery to Kafka: the cursor never passes a record that Kafka does not hold, a
  backlog is delivered in order once the connection works, and a cursor that could not be written whole
  stops the delivery although the pass reported success.
\<close>

subsection \<open>Lines\<close>

function complete_lines :: "string \<Rightarrow> string list" where
  "complete_lines t = (case next_line t of None \<Rightarrow> [] | Some (l, r) \<Rightarrow> l # complete_lines r)"
  by pat_completeness auto
termination
  by (relation "measure length") (auto simp: next_line_shorter)

declare complete_lines.simps [simp del]

definition ship_lines :: "string \<Rightarrow> string list" where
  "ship_lines t = filter (\<lambda>l. trim_space l \<noteq> '''') (complete_lines t)"

text \<open>A text that ends where a line ends.\<close>

definition whole_lines :: "string \<Rightarrow> bool" where
  "whole_lines t = (t = '''' \<or> last t = CHR 0x0A)"

lemma whole_Nil [simp]: "whole_lines ''''"
  by (simp add: whole_lines_def)

lemma whole_append [simp]: "whole_lines t \<Longrightarrow> whole_lines (l @ CHR 0x0A # t)"
  by (auto simp: whole_lines_def)

lemma next_line_append: "next_line s = Some (l, r) \<Longrightarrow> next_line (s @ t) = Some (l, r @ t)"
  by (simp add: next_line_Some)

lemma next_line_None: "next_line t = None \<longleftrightarrow> CHR 0x0A \<notin> set t"
  by (induction t) auto

lemma complete_lines_None [simp]: "CHR 0x0A \<notin> set t \<Longrightarrow> complete_lines t = []"
  by (subst complete_lines.simps) (simp add: next_line_None [symmetric])

lemma complete_lines_line [simp]: "CHR 0x0A \<notin> set l \<Longrightarrow> complete_lines (l @ CHR 0x0A # r) = l # complete_lines r"
  by (subst complete_lines.simps) (simp add: next_line_Some [THEN iffD2])

lemma complete_lines_append: "whole_lines s \<Longrightarrow> complete_lines (s @ t) = complete_lines s @ complete_lines t"
proof (induction s rule: complete_lines.induct)
  case (1 s)
  show ?case
  proof (cases "next_line s")
    case None
    with "1.prems" have "s = ''''" by (cases s rule: rev_cases) (auto simp: next_line_None whole_lines_def)
    then show ?thesis by simp
  next
    case (Some p)
    then obtain l r where p: "next_line s = Some (l, r)" by (cases p) auto
    then have s: "s = l @ CHR 0x0A # r" "CHR 0x0A \<notin> set l" by (simp_all add: next_line_Some)
    with "1.prems" have "whole_lines r" by (cases r rule: rev_cases) (auto simp: whole_lines_def)
    with "1.IH" [OF p] s show ?thesis by simp
  qed
qed

lemma ship_lines_append: "whole_lines s \<Longrightarrow> ship_lines (s @ t) = ship_lines s @ ship_lines t"
  by (simp add: ship_lines_def complete_lines_append)

lemma ship_lines_line [simp]:
  "CHR 0x0A \<notin> set l \<Longrightarrow> ship_lines (l @ CHR 0x0A # r) = (if trim_space l = '''' then [] else [l]) @ ship_lines r"
  by (simp add: ship_lines_def)

lemma ship_lines_Nil [simp]: "ship_lines '''' = []"
  by (simp add: ship_lines_def)

subsection \<open>What a pass reads\<close>

text \<open>The record that a line becomes, at whatever time it is read.\<close>

definition ships :: "ship_lib \<Rightarrow> kafka_config \<Rightarrow> string \<Rightarrow> kafka_record \<Rightarrow> bool" where
  "ships lib c l r = (\<exists>now n. line_record lib c now l = (Inr r, n))"

lemma read_batch_stop:
  "int (length recs) \<ge> kc_batch c \<or> next_line t0 = None \<Longrightarrow> read_batch lib c now t0 offset recs nx = Inr (recs, nx)"
  by (subst read_batch.simps) auto

lemma read_batch_blank:
  "\<not> int (length recs) \<ge> kc_batch c \<Longrightarrow> next_line t0 = Some (l, r) \<Longrightarrow> trim_space l = '''' \<Longrightarrow>
    read_batch lib c now t0 offset recs nx = read_batch lib c now r (offset + int (length l) + 1) recs
      (nx\<lparr>cu_offset := offset + int (length l) + 1\<rparr>)"
  by (subst read_batch.simps) (simp add: Let_def)

lemma read_batch_line:
  "\<not> int (length recs) \<ge> kc_batch c \<Longrightarrow> next_line t0 = Some (l, r) \<Longrightarrow> trim_space l \<noteq> '''' \<Longrightarrow>
    read_batch lib c now t0 offset recs nx = (case line_record lib c now l of
        (Inl None, _) \<Rightarrow> Inl (''audit journal record at byte '' @ show_int offset @ '' is unreadable'')
      | (Inl (Some e), _) \<Rightarrow> Inl e
      | (Inr k, n) \<Rightarrow> read_batch lib c now r (offset + int (length l) + 1) (recs @ [k])
          \<lparr>cu_offset = offset + int (length l) + 1, cu_sequence = n\<rparr>)"
  by (subst read_batch.simps) (simp add: Let_def)

lemma read_batch_reads:
  assumes "read_batch lib c now t0 offset recs nx = Inr (recs', next')" "cu_offset nx = offset"
  shows "\<exists>pre rest new. t0 = pre @ rest \<and> whole_lines pre \<and> recs' = recs @ new \<and>
    list_all2 (ships lib c) (ship_lines pre) new \<and> cu_offset next' = offset + int (length pre)"
  using assms
proof (induction lib c now t0 offset recs nx rule: read_batch.induct)
  case (1 lib c now t0 offset recs nx)
  show ?case
  proof (cases "int (length recs) \<ge> kc_batch c \<or> next_line t0 = None")
    case True
    with "1.prems" have "recs' = recs" "next' = nx" by (auto simp: read_batch_stop)
    then show ?thesis using "1.prems"(2) by (intro exI [of _ "''''"] exI [of _ t0] exI [of _ "[]"]) simp
  next
    case False
    then obtain l r where l: "\<not> int (length recs) \<ge> kc_batch c" "next_line t0 = Some (l, r)" by auto
    then have t: "t0 = l @ CHR 0x0A # r" "CHR 0x0A \<notin> set l" by (simp_all add: next_line_Some)
    let ?stop = "offset + int (length l) + 1"
    show ?thesis
    proof (cases "trim_space l = ''''")
      case True
      with "1.prems" l have "read_batch lib c now r ?stop recs (nx\<lparr>cu_offset := ?stop\<rparr>) = Inr (recs', next')"
        by (simp add: read_batch_blank)
      with "1.IH"(1) [OF l refl refl True] obtain pre rest new where p: "r = pre @ rest" "whole_lines pre" "recs' = recs @ new"
        "list_all2 (ships lib c) (ship_lines pre) new" "cu_offset next' = ?stop + int (length pre)"
        by auto
      then show ?thesis using t True
        by (intro exI [of _ "l @ CHR 0x0A # pre"] exI [of _ rest] exI [of _ new]) simp
    next
      case f: False
      with "1.prems" l obtain k n where k: "line_record lib c now l = (Inr k, n)"
        "read_batch lib c now r ?stop (recs @ [k]) \<lparr>cu_offset = ?stop, cu_sequence = n\<rparr> = Inr (recs', next')"
        by (auto simp: read_batch_line split: sum.splits option.splits prod.splits)
      with "1.IH"(2) [OF l refl refl f k(1) [symmetric] refl k(2)] obtain pre rest new where p: "r = pre @ rest" "whole_lines pre"
        "recs' = (recs @ [k]) @ new" "list_all2 (ships lib c) (ship_lines pre) new" "cu_offset next' = ?stop + int (length pre)"
        by auto
      moreover have "ships lib c l k" using k(1) by (auto simp: ships_def)
      ultimately show ?thesis using t f
        by (intro exI [of _ "l @ CHR 0x0A # pre"] exI [of _ rest] exI [of _ "k # new"]) simp
    qed
  qed
qed

subsection \<open>Delivery\<close>

text \<open>The lines of a text were delivered: Kafka holds a record for each, those with the same key in their order.\<close>

definition keyed :: "string \<Rightarrow> kafka_record list \<Rightarrow> kafka_record list" where
  "keyed k rs = filter (\<lambda>r. kr_key r = k) rs"

definition delivered :: "ship_lib \<Rightarrow> kafka_config \<Rightarrow> string \<Rightarrow> kafka_record list \<Rightarrow> bool" where
  "delivered lib c t topic = (\<exists>rs. list_all2 (ships lib c) (ship_lines t) rs \<and> (\<forall>k. subseq (keyed k rs) (keyed k topic)))"

lemma keyed_append [simp]: "keyed k (xs @ ys) = keyed k xs @ keyed k ys"
  by (simp add: keyed_def)

lemma delivered_Nil [simp]: "delivered lib c '''' topic"
  by (auto simp: delivered_def keyed_def)

lemma delivered_more: "delivered lib c t topic \<Longrightarrow> delivered lib c t (topic @ ys)"
  proof -
  assume "delivered lib c t topic"
  then obtain rs where "list_all2 (ships lib c) (ship_lines t) rs" "\<forall>k. subseq (keyed k rs) (keyed k topic)"
    by (auto simp: delivered_def)
  moreover have "subseq (keyed k topic) (keyed k (topic @ ys))" for k
    by (simp add: list_emb_prefix)
  ultimately show ?thesis unfolding delivered_def by (meson subseq_order.trans)
qed

lemma delivered_append:
  assumes "delivered lib c s topic" "whole_lines s" "list_all2 (ships lib c) (ship_lines t) new" "\<And>k. keyed k acked = keyed k new"
  shows "delivered lib c (s @ t) (topic @ acked)"
proof -
  from assms(1) obtain rs where rs: "list_all2 (ships lib c) (ship_lines s) rs" "\<And>k. subseq (keyed k rs) (keyed k topic)"
    by (auto simp: delivered_def)
  from rs(1) assms(2,3) have "list_all2 (ships lib c) (ship_lines (s @ t)) (rs @ new)"
    by (simp add: ship_lines_append list_all2_appendI)
  moreover have "subseq (keyed k (rs @ new)) (keyed k (topic @ acked))" for k
    using rs(2) assms(4) by (simp add: list_emb_append_mono)
  ultimately show ?thesis by (auto simp: delivered_def)
qed

subsection \<open>The journal and the shipper\<close>

text \<open>The journal grows at its end while passes run.\<close>

datatype outbox_event = Append string | Pass ship_world

record outbox =
  ob_journal :: "string option"
  ob_shipped :: shipped

definition journal_text :: "outbox \<Rightarrow> string" where
  "journal_text b = (case ob_journal b of None \<Rightarrow> '''' | Some t \<Rightarrow> t)"

fun outbox_step :: "ship_lib \<Rightarrow> kafka_config \<Rightarrow> outbox_event \<Rightarrow> outbox \<Rightarrow> outbox" where
  "outbox_step lib c (Append t) b = b\<lparr>ob_journal := Some (journal_text b @ t)\<rparr>"
| "outbox_step lib c (Pass w) b = b\<lparr>ob_shipped := fst (ship_once lib c w (ob_journal b) (ob_shipped b))\<rparr>"

text \<open>What encoding/json and the client library promise: a cursor is read as it was written, part of its text is
  no cursor; and a publication without an error put every record, of each key in order, on the topic.\<close>

definition cursor_codec :: "ship_lib \<Rightarrow> bool" where
  "cursor_codec lib = (\<forall>cur. sl_cursor_of lib (sl_cursor_text lib cur) = Some cur \<and>
     (\<forall>n < length (sl_cursor_text lib cur). sl_cursor_of lib (take n (sl_cursor_text lib cur)) = None))"

definition acks_in_order :: "ship_world \<Rightarrow> bool" where
  "acks_in_order w = (\<forall>rs. snd (sw_produce w rs) = None \<longrightarrow> (\<forall>k. keyed k (fst (sw_produce w rs)) = keyed k rs))"

definition good_event :: "outbox_event \<Rightarrow> bool" where
  "good_event ev = (case ev of Append _ \<Rightarrow> True | Pass w \<Rightarrow> acks_in_order w)"

text \<open>The cursor that the file holds; \<open>None\<close> when it is corrupt.\<close>

definition stored_cursor :: "ship_lib \<Rightarrow> shipped \<Rightarrow> kafka_cursor option" where
  "stored_cursor lib s = (case sh_cursor s of None \<Rightarrow> Some zero_cursor | Some raw \<Rightarrow> sl_cursor_of lib raw)"

definition covered :: "ship_lib \<Rightarrow> kafka_config \<Rightarrow> string \<Rightarrow> kafka_record list \<Rightarrow> kafka_cursor \<Rightarrow> bool" where
  "covered lib c t topic cur = (\<exists>pre rest. t = pre @ rest \<and> whole_lines pre \<and> cu_offset cur = int (length pre) \<and>
     delivered lib c pre topic)"

definition outbox_ok :: "ship_lib \<Rightarrow> kafka_config \<Rightarrow> outbox \<Rightarrow> bool" where
  "outbox_ok lib c b = (\<forall>cur. stored_cursor lib (ob_shipped b) = Some cur \<longrightarrow>
     covered lib c (journal_text b) (sh_topic (ob_shipped b)) cur)"

lemma read_cursor_Inr: "read_cursor lib c w s = Inr cur \<Longrightarrow> stored_cursor lib s = Some cur"
  by (auto simp: read_cursor_def stored_cursor_def split: option.splits)

lemma write_cursor_cases:
  assumes "cursor_codec lib" "write_cursor lib w cur s = (s', res)"
  shows "sh_topic s' = sh_topic s \<and> (s' = s \<or> stored_cursor lib s' = Some cur \<or> stored_cursor lib s' = None)"
proof -
  have "sl_cursor_of lib (take n (sl_cursor_text lib cur)) = Some y \<Longrightarrow> y = cur" for n y
    using assms(1) by (cases "n < length (sl_cursor_text lib cur)") (auto simp: cursor_codec_def)
  moreover have "sl_cursor_of lib (sl_cursor_text lib cur) = Some cur" using assms(1) by (simp add: cursor_codec_def)
  ultimately show ?thesis using assms(2)
    by (auto simp: write_cursor_def stored_cursor_def Let_def split: option.splits)
qed

lemma covered_more: "covered lib c t topic cur \<Longrightarrow> covered lib c (t @ t') (topic @ ys) cur"
  unfolding covered_def by (metis append.assoc delivered_more)

lemma covered_drop:
  assumes "covered lib c t topic cur"
  shows "0 \<le> cu_offset cur \<and> nat (cu_offset cur) \<le> length t \<and> whole_lines (take (nat (cu_offset cur)) t) \<and>
    delivered lib c (take (nat (cu_offset cur)) t) topic"
  using assms by (auto simp: covered_def)

lemma covered_same_offset: "covered lib c t topic cur \<Longrightarrow> cu_offset cur' = cu_offset cur \<Longrightarrow> covered lib c t topic cur'"
  by (simp add: covered_def)

text \<open>What a pass reads behind a covered cursor is covered once Kafka took it.\<close>

lemma read_batch_covered:
  assumes "covered lib c t topic cur"
    and "read_batch lib c now (take n (drop (nat (cu_offset cur)) t)) (cu_offset cur) [] cur = Inr (recs, nxt)"
    and "\<And>k. keyed k acked = keyed k recs"
  shows "covered lib c t (topic @ acked) nxt"
proof -
  let ?i = "nat (cu_offset cur)"
  from read_batch_reads [OF assms(2) refl] obtain pre rest where r: "take n (drop ?i t) = pre @ rest" "whole_lines pre"
    "list_all2 (ships lib c) (ship_lines pre) recs" "cu_offset nxt = cu_offset cur + int (length pre)" by auto
  note d = covered_drop [OF assms(1)]
  have "t = (take ?i t @ pre) @ rest @ drop n (drop ?i t)"
    using r(1) by (metis append.assoc append_take_drop_id)
  moreover have "whole_lines (take ?i t @ pre)"
    using d r(2) by (cases "pre = ''''") (auto simp: whole_lines_def)
  moreover have "cu_offset nxt = int (length (take ?i t @ pre))" using d r(4) by simp
  moreover have "delivered lib c (take ?i t @ pre) (topic @ acked)"
    using d r(3) assms(3) by (intro delivered_append) auto
  ultimately show ?thesis unfolding covered_def by blast
qed

lemma ship_once_covered:
  assumes "cursor_codec lib" "acks_in_order w" "ship_once lib c w journal s = (s', res)"
    and "\<And>cur. stored_cursor lib s = Some cur \<Longrightarrow> covered lib c t (sh_topic s) cur" "journal \<noteq> None \<Longrightarrow> journal = Some t"
    and "stored_cursor lib s' = Some cur'"
  shows "covered lib c t (sh_topic s') cur'"
proof (cases "s' = s")
  case True
  then show ?thesis using assms(4,6) by simp
next
  case False
  with assms(3,5) obtain cur0 where c0: "read_cursor lib c w s = Inr cur0" and j: "journal = Some t"
    by (auto simp: ship_once_def split: sum.splits option.splits)
  note cov = assms(4) [OF read_cursor_Inr [OF c0]]
  from covered_drop [OF cov] have "\<not> int (length t) < cu_offset cur0" by linarith
  with False assms(3) c0 j obtain recs nxt where
    b: "read_batch lib c (sw_now w) (take (sw_readable w) (drop (nat (cu_offset cur0)) t)) (cu_offset cur0) [] cur0 = Inr (recs, nxt)"
    and s': "(if recs = [] then (if cu_offset nxt = cu_offset cur0 then (s, Inr 0)
        else (case write_cursor lib w nxt s of (s1, Some e) \<Rightarrow> (s1, Inl e) | (s1, None) \<Rightarrow> (s1, Inr 0)))
      else (case sw_produce w recs of (acked, err) \<Rightarrow>
        (let s1 = s\<lparr>sh_topic := sh_topic s @ acked\<rparr> in
         case err of Some e \<Rightarrow> (s1, Inl (''publish '' @ show_nat (length recs) @ '' audit records: '' @ e))
         | None \<Rightarrow> (case write_cursor lib w nxt s1 of (s2, Some e) \<Rightarrow> (s2, Inl e) | (s2, None) \<Rightarrow> (s2, Inr (length recs)))))) = (s', res)"
    by (auto simp: ship_once_def Let_def split: option.splits sum.splits)
  have written: "covered lib c t (sh_topic s') cur'" if "write_cursor lib w nxt s1 = (s', r)"
    "covered lib c t (sh_topic s1) nxt" "\<And>cur. stored_cursor lib s1 = Some cur \<Longrightarrow> covered lib c t (sh_topic s1) cur" for s1 r
    using write_cursor_cases [OF assms(1) that(1)] that(2,3) assms(6) by auto
  show ?thesis
  proof (cases "recs = []")
    case True
    with s' False obtain r where "write_cursor lib w nxt s = (s', r)"
      by (auto split: if_splits prod.splits option.splits)
    moreover have "covered lib c t (sh_topic s) nxt"
      using read_batch_covered [OF cov b, of "[]"] True by simp
    ultimately show ?thesis using written assms(4) by blast
  next
    case f: False
    obtain acked err where p: "sw_produce w recs = (acked, err)" by (cases "sw_produce w recs") auto
    let ?s1 = "s\<lparr>sh_topic := sh_topic s @ acked\<rparr>"
    have st: "covered lib c t (sh_topic ?s1) cur" if "stored_cursor lib ?s1 = Some cur" for cur
      using assms(4) [of cur] that covered_more [of lib c t "sh_topic s" cur "''''" acked] by (simp add: stored_cursor_def)
    show ?thesis
    proof (cases err)
      case (Some e)
      with s' f p have "s' = ?s1" by (simp add: Let_def)
      with st assms(6) show ?thesis by blast
    next
      case None
      with s' f p obtain r where "write_cursor lib w nxt ?s1 = (s', r)"
        by (auto simp: Let_def split: prod.splits option.splits)
      moreover have "keyed k acked = keyed k recs" for k
        using assms(2) p None unfolding acks_in_order_def by (metis fst_conv snd_conv)
      then have "covered lib c t (sh_topic ?s1) nxt" using read_batch_covered [OF cov b, of acked] by simp
      ultimately show ?thesis using written st by blast
    qed
  qed
qed

lemma outbox_step_ok:
  assumes "cursor_codec lib" "good_event ev" "outbox_ok lib c b"
  shows "outbox_ok lib c (outbox_step lib c ev b)"
proof (cases ev)
  case (Append t)
  then show ?thesis using assms(3) covered_more [of lib c _ _ _ t "[]"]
    by (auto simp: outbox_ok_def journal_text_def)
next
  case (Pass w)
  then show ?thesis using assms ship_once_covered [OF assms(1), of w c "ob_journal b" "ob_shipped b" _ _ "journal_text b"]
    by (cases "ship_once lib c w (ob_journal b) (ob_shipped b)")
      (auto simp: outbox_ok_def good_event_def journal_text_def split: option.splits)
qed

definition run_outbox :: "ship_lib \<Rightarrow> kafka_config \<Rightarrow> outbox_event list \<Rightarrow> outbox \<Rightarrow> outbox" where
  "run_outbox lib c evs b = fold (outbox_step lib c) evs b"

lemma run_outbox_ok:
  "cursor_codec lib \<Longrightarrow> list_all good_event evs \<Longrightarrow> outbox_ok lib c b \<Longrightarrow> outbox_ok lib c (run_outbox lib c evs b)"
  unfolding run_outbox_def by (induction evs arbitrary: b) (auto simp: outbox_step_ok)

lemma outbox_ok_fresh: "sh_cursor (ob_shipped b) = None \<Longrightarrow> outbox_ok lib c b"
  by (auto simp: outbox_ok_def stored_cursor_def covered_def zero_cursor_def intro!: exI [of _ "''''"])

text \<open>
  C25: evidence is delivered at least once and in order: however the journal grows and whatever fails in
  the passes, when the cursor can be read it lies behind a whole line, and Kafka holds a record for each
  line of the journal before it, those of one trace in the order of the journal.
\<close>

theorem cursor_covers_only_delivered:
  assumes "cursor_codec lib" "list_all good_event evs" "sh_cursor (ob_shipped b0) = None"
    and "stored_cursor lib (ob_shipped (run_outbox lib c evs b0)) = Some cur"
  shows "\<exists>pre rest. journal_text (run_outbox lib c evs b0) = pre @ rest \<and> whole_lines pre \<and>
    cu_offset cur = int (length pre) \<and> delivered lib c pre (sh_topic (ob_shipped (run_outbox lib c evs b0)))"
  using run_outbox_ok [OF assms(1,2) outbox_ok_fresh [OF assms(3)], of c] assms(4)
  by (auto simp: outbox_ok_def covered_def)

subsection \<open>A backlog is delivered\<close>

text \<open>A pass in which nothing fails.\<close>

definition smooth :: "string \<Rightarrow> ship_world \<Rightarrow> bool" where
  "smooth t w = (sw_cursor_error w = None \<and> sw_open_error w = None \<and> (\<forall>i. sw_seek_error w i = None) \<and>
     length t \<le> sw_readable w \<and> (\<forall>rs. snd (sw_produce w rs) = None) \<and> acks_in_order w \<and>
     sw_temp_error w = None \<and> sw_written w = None \<and> sw_close_error w = None \<and> sw_rename_error w = None)"

definition readable_lines :: "ship_lib \<Rightarrow> kafka_config \<Rightarrow> string \<Rightarrow> bool" where
  "readable_lines lib c t = list_all (\<lambda>l. \<forall>now. \<exists>r n. line_record lib c now l = (Inr r, n)) (ship_lines t)"

lemma readable_lines_line:
  "CHR 0x0A \<notin> set l \<Longrightarrow> readable_lines lib c (l @ CHR 0x0A # r) \<longleftrightarrow>
    (trim_space l \<noteq> '''' \<longrightarrow> (\<forall>now. \<exists>k n. line_record lib c now l = (Inr k, n))) \<and> readable_lines lib c r"
  by (auto simp: readable_lines_def)

lemma read_batch_ok:
  "readable_lines lib c t0 \<Longrightarrow> cu_offset nx = offset \<Longrightarrow>
    \<exists>recs' nx'. read_batch lib c now t0 offset recs nx = Inr (recs', nx') \<and> offset \<le> cu_offset nx'"
proof (induction lib c now t0 offset recs nx rule: read_batch.induct)
  case (1 lib c now t0 offset recs nx)
  show ?case
  proof (cases "int (length recs) \<ge> kc_batch c \<or> next_line t0 = None")
    case True
    then show ?thesis using "1.prems" by (simp add: read_batch_stop)
  next
    case False
    then obtain l r where l: "\<not> int (length recs) \<ge> kc_batch c" "next_line t0 = Some (l, r)" by auto
    then have t: "t0 = l @ CHR 0x0A # r" "CHR 0x0A \<notin> set l" by (simp_all add: next_line_Some)
    with "1.prems" have r: "readable_lines lib c r" by (simp add: readable_lines_line)
    show ?thesis
    proof (cases "trim_space l = ''''")
      case True
      from "1.IH"(1) [OF l refl refl True r] l True show ?thesis
        by (auto simp: read_batch_blank)
    next
      case f: False
      with "1.prems"(1) t obtain k n where k: "line_record lib c now l = (Inr k, n)"
        using readable_lines_line by blast
      from "1.IH"(2) [OF l refl refl f k [symmetric] refl r] l f k show ?thesis
        by (auto simp: read_batch_line)
    qed
  qed
qed

lemma read_batch_progress:
  assumes "readable_lines lib c t0" "next_line t0 \<noteq> None" "1 \<le> kc_batch c"
  shows "\<exists>recs nx'. read_batch lib c now t0 offset [] nx = Inr (recs, nx') \<and> offset < cu_offset nx'"
proof -
  from assms(2) obtain l r where l: "next_line t0 = Some (l, r)" by auto
  then have t: "t0 = l @ CHR 0x0A # r" "CHR 0x0A \<notin> set l" by (simp_all add: next_line_Some)
  with assms(1) have r: "readable_lines lib c r" by (simp add: readable_lines_line)
  have b: "\<not> int (length []) \<ge> kc_batch c" using assms(3) by simp
  show ?thesis
  proof (cases "trim_space l = ''''")
    case True
    with read_batch_ok [OF r, of "nx\<lparr>cu_offset := offset + int (length l) + 1\<rparr>" "offset + int (length l) + 1" now "[]"]
    show ?thesis using read_batch_blank [OF b l] by fastforce
  next
    case False
    with assms(1) t obtain k n where k: "line_record lib c now l = (Inr k, n)"
      using readable_lines_line by blast
    with read_batch_ok [OF r, of "\<lparr>cu_offset = offset + int (length l) + 1, cu_sequence = n\<rparr>" "offset + int (length l) + 1" now "[k]"]
    show ?thesis using read_batch_line [OF b l False] by fastforce
  qed
qed

lemma readable_drop:
  assumes "readable_lines lib c t" "whole_lines (take n t)"
  shows "readable_lines lib c (drop n t)"
proof -
  have "ship_lines t = ship_lines (take n t) @ ship_lines (drop n t)"
    using ship_lines_append [OF assms(2), of "drop n t"] by simp
  with assms(1) show ?thesis by (simp add: readable_lines_def)
qed

lemma smooth_pass:
  assumes "cursor_codec lib" "stored_cursor lib s = Some cur" "covered lib c t (sh_topic s) cur" "smooth t w"
    and "readable_lines lib c t" "1 \<le> kc_batch c"
  shows "\<exists>s' n cur'. ship_once lib c w (Some t) s = (s', Inr n) \<and> stored_cursor lib s' = Some cur' \<and>
    covered lib c t (sh_topic s') cur' \<and>
    (if CHR 0x0A \<in> set (drop (nat (cu_offset cur)) t) then cu_offset cur < cu_offset cur' else s' = s \<and> n = 0)"
proof -
  let ?i = "nat (cu_offset cur)"
  note d = covered_drop [OF assms(3)] and sm = assms(4) [unfolded smooth_def]
  have rc: "read_cursor lib c w s = Inr cur"
    using assms(2) sm by (auto simp: read_cursor_def stored_cursor_def split: option.splits)
  have nl: "\<not> int (length t) < cu_offset cur" using d by linarith
  have tk: "take (sw_readable w) (drop ?i t) = drop ?i t" using sm by (simp add: le_trans [OF diff_le_self])
  have rd: "readable_lines lib c (drop ?i t)" using readable_drop assms(5) d by blast
  have wr: "write_cursor lib w nx s1 = (s1\<lparr>sh_cursor := Some (sl_cursor_text lib nx)\<rparr>, None)" for nx s1
    using sm by (simp add: write_cursor_def)
  have pr: "\<exists>acked. sw_produce w recs = (acked, None)" for recs
    using sm by (metis prod.collapse)
  show ?thesis
  proof (cases "CHR 0x0A \<in> set (drop ?i t)")
    case False
    then have "next_line (drop ?i t) = None" by (simp add: next_line_None)
    then have "ship_once lib c w (Some t) s = (s, Inr 0)"
      using rc nl tk sm by (simp add: ship_once_def Let_def read_batch_stop)
    with False assms(2,3) show ?thesis by auto
  next
    case True
    then have "next_line (drop ?i t) \<noteq> None" by (simp add: next_line_None)
    from read_batch_progress [OF rd this assms(6)] obtain recs nx where
      b: "read_batch lib c (sw_now w) (drop ?i t) (cu_offset cur) [] cur = Inr (recs, nx)" "cu_offset cur < cu_offset nx"
      by blast
    obtain acked where a: "sw_produce w recs = (acked, None)" using pr by blast
    let ?s = "(if recs = [] then s else s\<lparr>sh_topic := sh_topic s @ acked\<rparr>)\<lparr>sh_cursor := Some (sl_cursor_text lib nx)\<rparr>"
    have once: "ship_once lib c w (Some t) s = (?s, Inr (length recs))"
      using rc nl tk sm b a wr by (simp add: ship_once_def Let_def)
    moreover have st: "stored_cursor lib ?s = Some nx" using assms(1) by (simp add: stored_cursor_def cursor_codec_def)
    moreover have "covered lib c t (sh_topic ?s) nx"
      using ship_once_covered [OF assms(1) _ once _ _ st, of t] assms(2,3) sm by simp
    ultimately show ?thesis using True b(2) by (metis (no_types, lifting))
  qed
qed

lemma complete_lines_Nil_iff: "complete_lines t = [] \<longleftrightarrow> CHR 0x0A \<notin> set t"
  by (subst complete_lines.simps) (auto simp: next_line_None next_line_Some split: option.splits)

lemma fewer_lines:
  assumes "i < j" "j \<le> length t" "whole_lines (take j t)"
  shows "length (complete_lines (drop j t)) < length (complete_lines (drop i t))"
proof -
  let ?mid = "take (j - i) (drop i t)"
  have "take j t = take i t @ ?mid"
    using assms(1) by (metis le_add_diff_inverse less_imp_le take_add)
  moreover have m: "?mid \<noteq> ''''" using assms(1,2) by simp
  ultimately have "last ?mid = last (take j t)" by (metis last_appendR)
  with m have mid: "?mid \<noteq> ''''" "last ?mid = last (take j t)" "take j t \<noteq> ''''"
    using assms by auto
  then have nl: "last ?mid = CHR 0x0A" using assms(3) by (simp add: whole_lines_def)
  have "drop i t = ?mid @ drop j t"
    using assms(1) by (metis append_take_drop_id drop_drop le_add_diff_inverse2 less_imp_le)
  then have "complete_lines (drop i t) = complete_lines ?mid @ complete_lines (drop j t)"
    using complete_lines_append [of ?mid "drop j t"] nl by (simp add: whole_lines_def)
  moreover have "complete_lines ?mid \<noteq> []"
    using mid(1) nl last_in_set by (metis complete_lines_Nil_iff)
  ultimately show ?thesis by simp
qed

lemma passes_drain:
  assumes "cursor_codec lib" "readable_lines lib c t" "1 \<le> kc_batch c"
  shows "ob_journal b = Some t \<Longrightarrow> stored_cursor lib (ob_shipped b) = Some cur \<Longrightarrow>
    covered lib c t (sh_topic (ob_shipped b)) cur \<Longrightarrow> list_all (smooth t) ws \<Longrightarrow>
    length (complete_lines (drop (nat (cu_offset cur)) t)) \<le> length ws \<Longrightarrow>
    \<exists>cur'. stored_cursor lib (ob_shipped (run_outbox lib c (map Pass ws) b)) = Some cur' \<and>
      covered lib c t (sh_topic (ob_shipped (run_outbox lib c (map Pass ws) b))) cur' \<and>
      CHR 0x0A \<notin> set (drop (nat (cu_offset cur')) t)"
proof (induction ws arbitrary: b cur)
  case Nil
  then show ?case by (auto simp: run_outbox_def complete_lines_Nil_iff)
next
  case (Cons w ws)
  from Cons.prems have w: "smooth t w" "list_all (smooth t) ws" by simp_all
  from smooth_pass [OF assms(1) Cons.prems(2,3) w(1) assms(2,3)] obtain s' n cur' where
    p: "ship_once lib c w (Some t) (ob_shipped b) = (s', Inr n)" "stored_cursor lib s' = Some cur'"
      "covered lib c t (sh_topic s') cur'"
    and step: "if CHR 0x0A \<in> set (drop (nat (cu_offset cur)) t) then cu_offset cur < cu_offset cur' else s' = ob_shipped b \<and> n = 0"
    by blast
  have "length (complete_lines (drop (nat (cu_offset cur')) t)) \<le> length ws"
  proof (cases "CHR 0x0A \<in> set (drop (nat (cu_offset cur)) t)")
    case True
    with step covered_drop [OF Cons.prems(3)] covered_drop [OF p(3)]
    have "length (complete_lines (drop (nat (cu_offset cur')) t)) < length (complete_lines (drop (nat (cu_offset cur)) t))"
      by (intro fewer_lines) auto
    with Cons.prems(5) show ?thesis by simp
  next
    case False
    with step p(2) Cons.prems(2) have "cur' = cur" by simp
    with False show ?thesis by (simp add: complete_lines_Nil_iff [THEN iffD2])
  qed
  from Cons.IH [OF _ _ _ w(2) this, of "b\<lparr>ob_shipped := s'\<rparr>"] Cons.prems(1) p
  show ?case by (simp add: run_outbox_def)
qed

lemma backlog_drained:
  assumes "cursor_codec lib" "list_all good_event evs" "sh_cursor (ob_shipped b0) = None"
    and "run_outbox lib c evs b0 = b" "ob_journal b = Some t" "stored_cursor lib (ob_shipped b) \<noteq> None"
    and "readable_lines lib c t" "1 \<le> kc_batch c" "list_all (smooth t) ws" "length (complete_lines t) \<le> length ws"
  shows "\<exists>pre rest cur. t = pre @ rest \<and> CHR 0x0A \<notin> set rest \<and>
    delivered lib c t (sh_topic (ob_shipped (run_outbox lib c (map Pass ws) b))) \<and>
    stored_cursor lib (ob_shipped (run_outbox lib c (map Pass ws) b)) = Some cur \<and> cu_offset cur = int (length pre)"
proof -
  from assms(6) obtain cur where cur: "stored_cursor lib (ob_shipped b) = Some cur" by auto
  have cov: "covered lib c t (sh_topic (ob_shipped b)) cur"
    using run_outbox_ok [OF assms(1,2) outbox_ok_fresh [OF assms(3)], of c] assms(4,5) cur
    by (simp add: outbox_ok_def journal_text_def)
  let ?i = "nat (cu_offset cur)"
  have "complete_lines t = complete_lines (take ?i t) @ complete_lines (drop ?i t)"
    using covered_drop [OF cov] complete_lines_append [of "take ?i t" "drop ?i t"] by simp
  with assms(10) have "length (complete_lines (drop ?i t)) \<le> length ws" by simp
  from passes_drain [OF assms(1,7,8,5) cur cov assms(9) this] obtain cur' where
    c': "stored_cursor lib (ob_shipped (run_outbox lib c (map Pass ws) b)) = Some cur'"
      "covered lib c t (sh_topic (ob_shipped (run_outbox lib c (map Pass ws) b))) cur'"
      "CHR 0x0A \<notin> set (drop (nat (cu_offset cur')) t)" by blast
  let ?j = "nat (cu_offset cur')"
  note d = covered_drop [OF c'(2)]
  have "ship_lines t = ship_lines (take ?j t)"
    using ship_lines_append [of "take ?j t" "drop ?j t"] d c'(3) by (simp add: ship_lines_def)
  with d have "delivered lib c t (sh_topic (ob_shipped (run_outbox lib c (map Pass ws) b)))"
    by (simp add: delivered_def)
  with c' d show ?thesis by (intro exI [of _ "take ?j t"] exI [of _ "drop ?j t"] exI [of _ cur']) simp
qed

text \<open>
  C28: a backlog is delivered: whatever failed before, once the journal stops growing, its lines can be
  read and nothing fails, as many passes as the journal has lines are enough for Kafka to hold a record for
  every complete line of it, those of one trace in order, and the cursor stands behind the last of them.
\<close>

theorem backlog_delivered:
  assumes "cursor_codec lib" "list_all good_event evs" "sh_cursor (ob_shipped b0) = None"
    and "run_outbox lib c evs b0 = b" "ob_journal b = Some t" "stored_cursor lib (ob_shipped b) \<noteq> None"
    and "readable_lines lib c t" "1 \<le> kc_batch c" "list_all (smooth t) ws" "length (complete_lines t) \<le> length ws"
  shows "\<exists>pre rest cur. t = pre @ rest \<and> CHR 0x0A \<notin> set rest \<and>
    delivered lib c t (sh_topic (ob_shipped (run_outbox lib c (map Pass ws) b))) \<and>
    stored_cursor lib (ob_shipped (run_outbox lib c (map Pass ws) b)) = Some cur \<and> cu_offset cur = int (length pre)"
  using backlog_drained [OF assms] .

subsection \<open>A cursor that was not written whole\<close>

lemma corrupt_cursor_stops: "stored_cursor lib s = None \<Longrightarrow> \<exists>e. ship_once lib c w journal s = (s, Inl e)"
  by (auto simp: ship_once_def read_cursor_def stored_cursor_def split: option.splits)

lemma corrupt_cursor_stays:
  "stored_cursor lib (ob_shipped b) = None \<Longrightarrow> ob_shipped (run_outbox lib c evs b) = ob_shipped b"
proof (induction evs arbitrary: b)
  case (Cons ev evs)
  have "ob_shipped (outbox_step lib c ev b) = ob_shipped b"
    using corrupt_cursor_stops [OF Cons.prems] by (cases ev) (auto, metis fst_conv)
  with Cons show ?case by (simp add: run_outbox_def)
qed (simp add: run_outbox_def)

text \<open>
  C40: a defect: writeCursor loses the error of the write, because it is assigned to a variable of the
  inner scope. When the write ends after some bytes of the new cursor, none or a part (a full disk), a
  pass that published something still reports success, and what was written replaces the cursor file. If
  that is not the whole text of the cursor, no later pass publishes anything: however the journal grows
  and whatever the passes meet, each one fails and leaves the topic and the cursor as they are, until a
  person removes the file.
\<close>

theorem torn_cursor_stops_delivery:
  assumes "cursor_codec lib" "sw_written w = Some n" "ship_once lib c w (Some t) s = (s', Inr k)" "0 < k"
  shows "\<exists>cur. sh_cursor s' = Some (take n (sl_cursor_text lib cur)) \<and> (n < length (sl_cursor_text lib cur) \<longrightarrow>
    (\<forall>evs. ob_shipped (run_outbox lib c evs \<lparr>ob_journal = Some t, ob_shipped = s'\<rparr>) = s') \<and>
    (\<forall>w1 journal. \<exists>e. ship_once lib c w1 journal s' = (s', Inl e)))"
proof -
  from assms(3,4) obtain nx s1 recs acked where w: "write_cursor lib w nx s1 = (s', None)"
    "s1 = s\<lparr>sh_topic := sh_topic s @ acked\<rparr>" "sw_produce w recs = (acked, None)" "recs \<noteq> []"
    by (auto simp: ship_once_def Let_def split: sum.splits option.splits prod.splits if_splits)
  then have s': "s' = s1\<lparr>sh_cursor := Some (take n (sl_cursor_text lib nx))\<rparr>"
    using assms(2) by (auto simp: write_cursor_def Let_def split: option.splits)
  have "stored_cursor lib s' = None" if "n < length (sl_cursor_text lib nx)"
    using assms(1) that s' by (simp add: stored_cursor_def cursor_codec_def)
  then show ?thesis
    using s' corrupt_cursor_stays [of lib "\<lparr>ob_journal = Some t, ob_shipped = s'\<rparr>"] corrupt_cursor_stops [of lib s']
    by (intro exI [of _ nx]) simp
qed

subsection \<open>Records of the journal can be shipped\<close>

definition all_json :: "gval gomap \<Rightarrow> bool" where
  "all_json m = list_all (\<lambda>(k, v). json_ok v) m"

lemma all_json_mput [intro]: "all_json m \<Longrightarrow> json_ok v \<Longrightarrow> all_json (mput m k v)"
  by (induction m) (auto simp: all_json_def)

lemma all_json_mputs [intro]: "all_json m \<Longrightarrow> all_json x \<Longrightarrow> all_json (mputs m x)"
  by (induction x) (auto simp: all_json_def intro!: all_json_mput [unfolded all_json_def] split: prod.splits)

lemma build_evidence_Inr: "all_json extra \<Longrightarrow> \<exists>v. build_evidence now e dig system extra = Inr v \<and>
    vd_source_id v = source_event_id e dig \<and> vd_correlation v = ev_trace e"
proof -
  assume "all_json extra"
  then have m: "json_ok (GObj (evidence_metadata e dig system occ extra))" for occ
    unfolding evidence_metadata_def Let_def json_ok.simps all_json_def [symmetric]
    by (intro all_json_mputs) (auto simp: all_json_def)
  have "all_json (mput (mput p ''modelId'' (GStr system)) ''aiSystem''
      (GObj [(''id'', GStr system), (''systemOfRecord'', GStr ''prudence'')]))" if "all_json p" for p
    using that by (intro all_json_mput) simp_all
  with m show ?thesis
    unfolding build_evidence_def Let_def json_ok.simps all_json_def [symmetric] by (auto simp: all_json_def)
qed

lemma journal_record_Inr:
  "key \<noteq> '''' \<Longrightarrow> \<exists>k. journal_record lib now r system key = Inr k \<and>
    (''sourceEventId'', source_event_id (ar_event r) (evidence_digest lib key (ar_hash r))) \<in> set (kr_headers k) \<and>
    (ev_trace (ar_event r) \<noteq> '''' \<longrightarrow> kr_key k = ev_trace (ar_event r))"
  using build_evidence_Inr [of "[(''journalSequence'', GInt (ar_sequence r)), (''transport'', GStr ''kafka'')]" now "ar_event r"
      "evidence_digest lib key (ar_hash r)" system]
  by (auto simp: journal_record_def all_json_def Let_def)

lemma line_record_Inr:
  assumes "sl_json lib (trim_space l) = Some d" "record_of_json d = Some r" "kc_key c \<noteq> ''''"
  shows "\<exists>k. line_record lib c now l = (Inr k, ar_sequence r)"
proof -
  obtain k where "journal_record (sl_evidence lib) now r (mstr (kc_systems c) (ev_pipeline (ar_event r))) (kc_key c) = Inr k"
    using journal_record_Inr [OF assms(3)] by blast
  with assms(1,2) show ?thesis by (simp add: line_record_def)
qed

subsection \<open>A concrete shipper\<close>

text \<open>A JSON-like text of cursors: two numbers in unary.\<close>

definition unary :: "int \<Rightarrow> string" where
  "unary i = (if i < 0 then ''-'' else '''') @ replicate (nat \<bar>i\<bar>) (CHR ''1'') @ '';''"

definition read_unary :: "string \<Rightarrow> (int \<times> string) option" where
  "read_unary s =
    (let neg = has_prefix s ''-''; r = trim_prefix s ''-''; n = int (length (takeWhile (\<lambda>c. c = CHR ''1'') r)) in
     case dropWhile (\<lambda>c. c = CHR ''1'') r of [] \<Rightarrow> None
     | c # t \<Rightarrow> if c = CHR '';'' then Some (if neg then - n else n, t) else None)"

definition demo_cursor_text :: "kafka_cursor \<Rightarrow> string" where
  "demo_cursor_text cur = unary (cu_offset cur) @ unary (cu_sequence cur)"

definition demo_cursor_of :: "string \<Rightarrow> kafka_cursor option" where
  "demo_cursor_of s = (case read_unary s of None \<Rightarrow> None
     | Some (i, r) \<Rightarrow> (case read_unary r of Some (j, '''') \<Rightarrow> Some \<lparr>cu_offset = i, cu_sequence = j\<rparr> | _ \<Rightarrow> None))"

lemma ones_dropWhile: "c \<noteq> x \<Longrightarrow> dropWhile (\<lambda>y. y = x) (replicate n x @ c # t) = c # t"
  by (induction n) auto

lemma ones_takeWhile: "c \<noteq> x \<Longrightarrow> takeWhile (\<lambda>y. y = x) (replicate n x @ c # t) = replicate n x"
  by (induction n) auto

lemma read_unary_unary: "read_unary (unary i @ t) = Some (i, t)"
proof (cases "i < 0")
  case True
  then show ?thesis
    by (simp add: read_unary_def unary_def has_prefix_def trim_prefix_def ones_dropWhile ones_takeWhile Let_def)
next
  case False
  then have "\<not> has_prefix (replicate (nat i) (CHR ''1'') @ CHR '';'' # t) ''-''"
    by (cases "nat i") (auto simp: has_prefix_def)
  then show ?thesis using False
    by (simp add: read_unary_def unary_def trim_prefix_def ones_dropWhile ones_takeWhile Let_def)
qed

lemma read_unary_more: "read_unary s = Some (i, r) \<Longrightarrow> read_unary (s @ t) = Some (i, r @ t)"
proof -
  assume a: "read_unary s = Some (i, r)"
  define q where "q = trim_prefix s ''-''"
  from a obtain c u where c: "dropWhile (\<lambda>c. c = CHR ''1'') q = c # u" "c = CHR '';''"
    by (auto simp: read_unary_def q_def Let_def split: list.splits if_splits)
  have s: "s \<noteq> ''''" using a by (auto simp: read_unary_def trim_prefix_def has_prefix_def)
  have pre: "has_prefix (s @ t) ''-'' = has_prefix s ''-''" "trim_prefix (s @ t) ''-'' = q @ t"
    using s by (cases s; simp add: q_def has_prefix_def trim_prefix_def)+
  have "\<exists>x \<in> set q. x \<noteq> CHR ''1''" 
  proof -
    have "dropWhile (\<lambda>c. c = CHR ''1'') q \<noteq> []" using c(1) by simp
    then show ?thesis by (simp only: dropWhile_eq_Nil_conv) blast
  qed
  then have "takeWhile (\<lambda>c. c = CHR ''1'') (q @ t) = takeWhile (\<lambda>c. c = CHR ''1'') q"
    "dropWhile (\<lambda>c. c = CHR ''1'') (q @ t) = c # u @ t"
    using c by (auto simp: dropWhile_append1 takeWhile_append1)
  then show ?thesis using a c pre by (auto simp: read_unary_def q_def [symmetric] Let_def split: if_splits)
qed

lemma demo_codec: "sl_cursor_text lib = demo_cursor_text \<Longrightarrow> sl_cursor_of lib = demo_cursor_of \<Longrightarrow> cursor_codec lib"
proof -
  have whole: "demo_cursor_of (demo_cursor_text cur) = Some cur" for cur
    using read_unary_unary [of "cu_offset cur"] read_unary_unary [of "cu_sequence cur" "''''"]
    by (simp add: demo_cursor_of_def demo_cursor_text_def)
  have "demo_cursor_of (take n (demo_cursor_text cur)) = None" if n: "n < length (demo_cursor_text cur)" for cur n
  proof (rule ccontr)
    let ?s = "demo_cursor_text cur"
    assume "demo_cursor_of (take n ?s) \<noteq> None"
    then obtain i j r where r: "read_unary (take n ?s) = Some (i, r)" "read_unary r = Some (j, '''')"
      by (auto simp: demo_cursor_of_def split: option.splits list.splits)
    have "read_unary ?s = Some (i, r @ drop n ?s)" using read_unary_more [OF r(1), of "drop n ?s"] by simp
    moreover have "read_unary (r @ drop n ?s) = Some (j, drop n ?s)" using read_unary_more [OF r(2)] by simp
    ultimately have "demo_cursor_of ?s = None" using n by (simp add: demo_cursor_of_def split: list.splits)
    with whole show False by simp
  qed
  with whole show "sl_cursor_text lib = demo_cursor_text \<Longrightarrow> sl_cursor_of lib = demo_cursor_of \<Longrightarrow> cursor_codec lib"
    by (simp add: cursor_codec_def)
qed

definition demo_journal_doc :: "string \<Rightarrow> int \<Rightarrow> gval" where
  "demo_journal_doc phase n = GObj [(''sequence'', GInt n), (''event'', GObj [(''trace_id'', GStr ''t1''), (''phase'', GStr phase),
     (''timestamp'', GInt 9), (''pipeline'', GStr ''pay'')]), (''hash'', GStr (''h'' @ show_int n))]"

definition demo_ship_lib :: ship_lib where
  "demo_ship_lib = \<lparr>sl_evidence = demo_evidence_lib\<lparr>vl_hmac := (\<lambda>k s. k @ s)\<rparr>,
     sl_json = (\<lambda>l. if l = ''one'' then Some (demo_journal_doc ''pipeline.started'' 1)
       else if l = ''two'' then Some (demo_journal_doc ''pipeline.completed'' 2) else None),
     sl_cursor_text = demo_cursor_text, sl_cursor_of = demo_cursor_of\<rparr>"

definition demo_kafka :: kafka_config where
  "demo_kafka = \<lparr>kc_journal = ''audit.log'', kc_cursor = ''audit.log.kafka-cursor'', kc_brokers = [''k:9092''], kc_topic = ''aos.executions'',
     kc_interval = 1000000000, kc_batch = 500,
     kc_security = \<lparr>ks_protocol = ''SSL'', ks_ca_file = '''', ks_mechanism = '''', ks_username = '''', ks_password = ''''\<rparr>,
     kc_systems = [(''pay'', ''sys-1'')], kc_key = ''key-''\<rparr>"

definition demo_pass :: ship_world where
  "demo_pass = \<lparr>sw_now = 5, sw_cursor_error = None, sw_open_error = None, sw_stat_ok = True, sw_seek_error = (\<lambda>_. None),
     sw_readable = 1000, sw_produce = (\<lambda>rs. (rs, None)), sw_temp_error = None, sw_written = None, sw_close_error = None,
     sw_rename_error = None\<rparr>"

definition demo_broken_pass :: ship_world where
  "demo_broken_pass = demo_pass\<lparr>sw_produce := (\<lambda>rs. (take 1 rs, Some ''timeout''))\<rparr>"

definition newlined :: "string \<Rightarrow> string" where "newlined l = l @ [CHR 0x0A]"

definition demo_outbox :: outbox where
  "demo_outbox = \<lparr>ob_journal = None, ob_shipped = \<lparr>sh_cursor = None, sh_topic = []\<rparr>\<rparr>"

definition demo_history :: "outbox_event list" where
  "demo_history = [Append (newlined ''one''), Pass demo_broken_pass, Append (newlined ''two'' @ ''on''), Pass demo_pass]"

lemma demo_ship_codec: "cursor_codec demo_ship_lib"
  by (rule demo_codec) (simp_all add: demo_ship_lib_def)

lemma demo_history_good: "list_all good_event demo_history"
  by (simp add: demo_history_def good_event_def acks_in_order_def demo_pass_def demo_broken_pass_def)

lemma demo_stored: "stored_cursor demo_ship_lib (ob_shipped (run_outbox demo_ship_lib demo_kafka demo_history demo_outbox)) =
    Some \<lparr>cu_offset = 8, cu_sequence = 2\<rparr> \<and>
  map kr_key (sh_topic (ob_shipped (run_outbox demo_ship_lib demo_kafka demo_history demo_outbox))) = [''t1'', ''t1'', ''t1'']"
  by code_simp

lemma cursor_covers_only_delivered_witness:
  "\<exists>pre rest. journal_text (run_outbox demo_ship_lib demo_kafka demo_history demo_outbox) = pre @ rest \<and> int (length pre) = 8 \<and>
    delivered demo_ship_lib demo_kafka pre (sh_topic (ob_shipped (run_outbox demo_ship_lib demo_kafka demo_history demo_outbox)))"
proof -
  have "sh_cursor (ob_shipped demo_outbox) = None" by (simp add: demo_outbox_def)
  from cursor_covers_only_delivered [OF demo_ship_codec demo_history_good this demo_stored [THEN conjunct1]]
  show ?thesis by auto
qed

definition demo_backlog :: "outbox_event list" where
  "demo_backlog = [Append (newlined ''one'' @ newlined ''two'' @ ''on''), Pass demo_broken_pass]"

definition demo_text :: string where "demo_text = newlined ''one'' @ newlined ''two'' @ ''on''"

lemma demo_lines: "ship_lines demo_text = [''one'', ''two''] \<and> complete_lines demo_text = [''one'', ''two'']"
  by code_simp

lemma demo_readable: "readable_lines demo_ship_lib demo_kafka demo_text"
proof -
  have one: "sl_json demo_ship_lib (trim_space ''one'') = Some (demo_journal_doc ''pipeline.started'' 1)"
    and two: "sl_json demo_ship_lib (trim_space ''two'') = Some (demo_journal_doc ''pipeline.completed'' 2)" by code_simp+
  have r: "\<exists>r. record_of_json (demo_journal_doc p n) = Some r" for p n
    by (simp add: demo_journal_doc_def record_of_json_def event_of_json_def)
  have key: "kc_key demo_kafka \<noteq> ''''" by (simp add: demo_kafka_def)
  have "\<exists>k n. line_record demo_ship_lib demo_kafka now l = (Inr k, n)" if "l \<in> {''one'', ''two''}" for l now
    using that r line_record_Inr [OF one _ key] line_record_Inr [OF two _ key] by blast
  then show ?thesis unfolding readable_lines_def by (simp add: demo_lines)
qed

lemma backlog_delivered_witness:
  "delivered demo_ship_lib demo_kafka demo_text
    (sh_topic (ob_shipped (run_outbox demo_ship_lib demo_kafka [Pass demo_pass, Pass demo_pass]
      (run_outbox demo_ship_lib demo_kafka demo_backlog demo_outbox))))"
proof -
  let ?b = "run_outbox demo_ship_lib demo_kafka demo_backlog demo_outbox"
  have fresh: "sh_cursor (ob_shipped demo_outbox) = None" by (simp add: demo_outbox_def)
  have good: "list_all good_event demo_backlog"
    by (simp add: demo_backlog_def good_event_def acks_in_order_def demo_pass_def demo_broken_pass_def)
  have j: "ob_journal ?b = Some demo_text" by code_simp
  have st: "stored_cursor demo_ship_lib (ob_shipped ?b) \<noteq> None" by code_simp
  have "length demo_text = 10" by code_simp
  then have sm: "list_all (smooth demo_text) [demo_pass, demo_pass]"
    by (simp add: smooth_def demo_pass_def acks_in_order_def)
  have n: "1 \<le> kc_batch demo_kafka" "length (complete_lines demo_text) \<le> length [demo_pass, demo_pass]"
    by (simp_all add: demo_kafka_def demo_lines)
  from backlog_delivered [OF demo_ship_codec good fresh refl j st demo_readable n(1) sm n(2)]
  show ?thesis by auto
qed

definition demo_torn :: "shipped \<times> (string + nat)" where
  "demo_torn = ship_once demo_ship_lib demo_kafka (demo_pass\<lparr>sw_written := Some 1\<rparr>) (Some (newlined ''one'')) (ob_shipped demo_outbox)"

lemma torn_cursor_stops_delivery_witness:
  "ob_shipped (run_outbox demo_ship_lib demo_kafka [Append (newlined ''two''), Pass demo_pass, Pass demo_pass]
     \<lparr>ob_journal = Some (newlined ''one''), ob_shipped = fst demo_torn\<rparr>) = fst demo_torn \<and> snd demo_torn = Inr 1 \<and>
   (\<exists>e. ship_once demo_ship_lib demo_kafka demo_pass (Some (newlined ''one'')) (fst demo_torn) = (fst demo_torn, Inl e))"
proof -
  have one: "snd demo_torn = Inr 1" by code_simp
  then have r: "ship_once demo_ship_lib demo_kafka (demo_pass\<lparr>sw_written := Some 1\<rparr>) (Some (newlined ''one'')) (ob_shipped demo_outbox) =
      (fst demo_torn, Inr 1)" by (simp add: demo_torn_def prod_eq_iff)
  have long: "1 < length (sl_cursor_text demo_ship_lib cur)" for cur
    by (simp add: demo_ship_lib_def demo_cursor_text_def unary_def)
  from torn_cursor_stops_delivery [OF demo_ship_codec _ r, of 1] long one show ?thesis by auto
qed

end
