(* ===== verification/Kafka_Audit.thy ===== *)
theory Kafka_Audit
  imports Kafka_Props
begin

text \<open>
  The audit writer and the shipper together: what the hash chain accepted on a journal reaches Kafka.
\<close>

subsection \<open>From the audit writer to Kafka\<close>

text \<open>The journal of a chain as the text of its file; \<open>print\<close> is encoding/json, whose text of a record is one line
  that is read back as the record.\<close>

definition journal_file :: "(gval \<Rightarrow> string) \<Rightarrow> jline list \<Rightarrow> string" where
  "journal_file print ls = concat (map (\<lambda>l. case l of JDoc d _ \<Rightarrow> print d @ [CHR 0x0A] | JBad _ \<Rightarrow> '''') ls)"

definition prints_line :: "ship_lib \<Rightarrow> (gval \<Rightarrow> string) \<Rightarrow> jline \<Rightarrow> bool" where
  "prints_line lib print l = (case l of JBad _ \<Rightarrow> True
     | JDoc d _ \<Rightarrow> CHR 0x0A \<notin> set (print d) \<and> trim_space (print d) \<noteq> '''' \<and> sl_json lib (trim_space (print d)) = Some d)"

text \<open>A line that holds the record of an event.\<close>

definition line_of_event :: "jline \<Rightarrow> event \<Rightarrow> bool" where
  "line_of_event l e = (\<exists>r ev n. l = JDoc (record_doc r ev) n \<and> ar_event r = e \<and> event_json e = Some ev)"

lemma chain_log_line:
  assumes "fc_err (chain_log lib size_of now w e c) = None"
  shows "fc_err c = None \<and> (\<exists>l. fc_lines (chain_log lib size_of now w e c) = fc_lines c @ [l] \<and> line_of_event l (utc_event now e))"
  using assms unfolding chain_log_def Let_def line_of_event_def
  by (fastforce split: if_splits option.splits write_outcome.splits)

lemma log_all_lines:
  "fc_err (log_all lib size_of steps c) = None \<Longrightarrow>
    fc_err c = None \<and> (\<exists>ls. fc_lines (log_all lib size_of steps c) = fc_lines c @ ls \<and>
      list_all2 (\<lambda>(now, w, e) l. line_of_event l (utc_event now e)) steps ls)"
proof (induction steps arbitrary: c)
  case (Cons x steps)
  obtain now w e where x: "x = (now, w, e)" by (cases x)
  let ?c = "chain_log lib size_of now w e c"
  from Cons.IH [of ?c] Cons.prems x obtain ls where ls: "fc_err ?c = None"
    "fc_lines (log_all lib size_of (x # steps) c) = fc_lines ?c @ ls"
    "list_all2 (\<lambda>(now, w, e) l. line_of_event l (utc_event now e)) steps ls"
    by (auto simp: log_all_def)
  with chain_log_line [OF ls(1)] x show ?case by (auto intro: exI [of _ "_ # ls"])
qed (simp add: log_all_def)

lemma ship_lines_file:
  assumes "list_all (prints_line lib print) ls" "\<And>l. l \<in> set ls \<Longrightarrow> \<exists>d n. l = JDoc d n"
  shows "ship_lines (journal_file print ls) = map (\<lambda>l. print (jl_doc l)) ls"
  using assms
proof (induction ls)
  case (Cons l ls)
  then obtain d n where l: "l = JDoc d n" by force
  from Cons.prems have "prints_line lib print l" "list_all (prints_line lib print) ls" by simp_all
  with Cons l show ?case by (simp add: journal_file_def prints_line_def)
qed (simp add: journal_file_def)

lemma keyed_member: "r \<in> set rs \<Longrightarrow> (\<And>k. subseq (keyed k rs) (keyed k topic)) \<Longrightarrow> r \<in> set topic"
proof -
  assume r: "r \<in> set rs" and s: "\<And>k. subseq (keyed k rs) (keyed k topic)"
  have "r \<in> set (keyed (kr_key r) rs)" using r by (simp add: keyed_def)
  with s [of "kr_key r"] obtain y where "y \<in> set (keyed (kr_key r) topic)" "r = y"
    by (blast elim: list_emb_set)
  then show ?thesis by (simp add: keyed_def)
qed

lemma source_event_id_norm: "source_event_id (event_norm (utc_event now e)) dig = source_event_id e dig"
  by (simp add: source_event_id_def event_norm_def utc_event_def)

text \<open>What a line of an event becomes.\<close>

lemma line_of_event_ships:
  assumes "line_of_event l (utc_event now e)" "prints_line lib print l" "kc_key c \<noteq> ''''"
  shows "\<exists>r. record_of_json (jl_doc l) = Some r \<and> (\<forall>now. \<exists>k. line_record lib c now (print (jl_doc l)) = (Inr k, ar_sequence r)) \<and>
    (\<forall>k. ships lib c (print (jl_doc l)) k \<longrightarrow>
      (''sourceEventId'', source_event_id e (evidence_digest (sl_evidence lib) (kc_key c) (ar_hash r))) \<in> set (kr_headers k))"
proof -
  from assms(1) obtain r0 ev n where l: "l = JDoc (record_doc r0 ev) n" "ar_event r0 = utc_event now e" "event_json (ar_event r0) = Some ev"
    by (auto simp: line_of_event_def)
  define r where "r = r0\<lparr>ar_event := event_norm (ar_event r0)\<rparr>"
  have r: "record_of_json (jl_doc l) = Some r" using record_roundtrip [OF l(3)] l(1) by (simp add: r_def)
  have j: "sl_json lib (trim_space (print (jl_doc l))) = Some (jl_doc l)" using assms(2) l(1) by (simp add: prints_line_def)
  have src: "source_event_id (ar_event r) dig = source_event_id e dig" for dig
    by (simp add: r_def l(2) source_event_id_norm)
  have "(''sourceEventId'', source_event_id e (evidence_digest (sl_evidence lib) (kc_key c) (ar_hash r))) \<in> set (kr_headers k)"
    if "ships lib c (print (jl_doc l)) k" for k
  proof -
    from that obtain now n where n: "line_record lib c now (print (jl_doc l)) = (Inr k, n)" by (auto simp: ships_def)
    obtain k' where k': "journal_record (sl_evidence lib) now r (mstr (kc_systems c) (ev_pipeline (ar_event r))) (kc_key c) = Inr k'"
      using journal_record_Inr [OF assms(3)] by blast
    with n j r have "k' = k" by (simp add: line_record_def)
    with k' have "journal_record (sl_evidence lib) now r (mstr (kc_systems c) (ev_pipeline (ar_event r))) (kc_key c) = Inr k" by simp
    then show ?thesis using journal_record_Inr [OF assms(3)] src by (metis Inr_inject)
  qed
  with r line_record_Inr [OF j r assms(3)] show ?thesis by blast
qed

lemma event_lines:
  "list_all2 (\<lambda>(now, w, e) l. line_of_event l (utc_event now e)) steps ls \<Longrightarrow> l \<in> set ls \<Longrightarrow>
    \<exists>now e. line_of_event l (utc_event now e)"
  by (induction steps ls rule: list_all2_induct) (auto split: prod.splits)

definition keyed_source :: "evidence_lib \<Rightarrow> string \<Rightarrow> event \<Rightarrow> jline \<Rightarrow> kafka_record \<Rightarrow> bool" where
  "keyed_source lib key e l k = (\<exists>r. record_of_json (jl_doc l) = Some r \<and>
     (''sourceEventId'', source_event_id e (evidence_digest lib key (ar_hash r))) \<in> set (kr_headers k))"

lemma delivered_members:
  assumes "delivered lib c (journal_file print ls) topic" "list_all (prints_line lib print) ls"
    and "list_all2 (\<lambda>(now, w, e) l. line_of_event l (utc_event now e)) steps ls" "kc_key c \<noteq> ''''" "(now, w, e) \<in> set steps"
  shows "\<exists>l \<in> set ls. \<exists>k \<in> set topic. keyed_source (sl_evidence lib) (kc_key c) e l k"
proof -
  from assms(5) obtain i where i: "i < length steps" "steps ! i = (now, w, e)" by (auto simp: in_set_conv_nth)
  with assms(3) have l: "i < length ls" "line_of_event (ls ! i) (utc_event now e)"
    by (auto simp: list_all2_conv_all_nth dest!: spec [of _ i])
  then have p: "prints_line lib print (ls ! i)" using assms(2) by (simp add: list_all_length)
  from line_of_event_ships [OF l(2) p assms(4)] obtain r where r: "record_of_json (jl_doc (ls ! i)) = Some r"
    "\<And>k. ships lib c (print (jl_doc (ls ! i))) k \<Longrightarrow>
      (''sourceEventId'', source_event_id e (evidence_digest (sl_evidence lib) (kc_key c) (ar_hash r))) \<in> set (kr_headers k)"
    by blast
  have "\<exists>d n. x = JDoc d n" if "x \<in> set ls" for x
    using event_lines [OF assms(3) that] by (auto simp: line_of_event_def)
  then have "ship_lines (journal_file print ls) = map (\<lambda>l. print (jl_doc l)) ls"
    using ship_lines_file [OF assms(2)] by blast
  with assms(1) obtain rs where rs: "list_all2 (ships lib c) (map (\<lambda>l. print (jl_doc l)) ls) rs"
    "\<And>k. subseq (keyed k rs) (keyed k topic)" by (auto simp: delivered_def)
  then have "ships lib c (print (jl_doc (ls ! i))) (rs ! i)" "i < length rs"
    using l(1) by (auto simp: list_all2_conv_all_nth)
  with r keyed_member [of "rs ! i" rs topic] rs(2) l(1) show ?thesis
    unfolding keyed_source_def by (meson nth_mem)
qed

lemma log_lines_readable:
  assumes "list_all2 (\<lambda>(now, w, e) l. line_of_event l (utc_event now e)) steps ls" "list_all (prints_line lib print) ls" "kc_key c \<noteq> ''''"
  shows "readable_lines lib c (journal_file print ls)"
proof -
  note j = event_lines [OF assms(1)]
  have "\<And>l. l \<in> set ls \<Longrightarrow> \<exists>d n. l = JDoc d n" using j unfolding line_of_event_def by blast
  then have "ship_lines (journal_file print ls) = map (\<lambda>l. print (jl_doc l)) ls"
    using ship_lines_file [OF assms(2)] by blast
  moreover have "\<forall>now. \<exists>k n. line_record lib c now (print (jl_doc l)) = (Inr k, n)" if "l \<in> set ls" for l
    using j line_of_event_ships [OF _ _ assms(3)] assms(2) that by (meson list_all_iff)
  ultimately show ?thesis by (simp add: readable_lines_def list_all_iff)
qed

text \<open>
  C26: nothing that was audited is lost: each event that the audit writer accepted on a new journal
  reaches Kafka, identified by its trace, phase and step and the keyed digest of the hash in its line, once
  the journal's backlog is delivered, whatever failed in earlier passes over that journal.
\<close>

theorem audited_event_delivered:
  assumes "new_file_chain alib path None = Inr c0" "fc_err (log_all alib size_of steps c0) = None"
    and "list_all (prints_line lib print) (fc_lines (log_all alib size_of steps c0))"
    and "cursor_codec lib" "kc_key c \<noteq> ''''" "1 \<le> kc_batch c" "list_all good_event evs" "sh_cursor (ob_shipped b0) = None"
    and "ob_journal (run_outbox lib c evs b0) = Some (journal_file print (fc_lines (log_all alib size_of steps c0)))"
    and "stored_cursor lib (ob_shipped (run_outbox lib c evs b0)) \<noteq> None"
    and "list_all (smooth (journal_file print (fc_lines (log_all alib size_of steps c0)))) ws"
    and "length (complete_lines (journal_file print (fc_lines (log_all alib size_of steps c0)))) \<le> length ws"
    and "(now, w, e) \<in> set steps"
  shows "\<exists>l \<in> set (fc_lines (log_all alib size_of steps c0)).
    \<exists>k \<in> set (sh_topic (ob_shipped (run_outbox lib c (map Pass ws) (run_outbox lib c evs b0)))).
      keyed_source (sl_evidence lib) (kc_key c) e l k"
proof -
  let ?ls = "fc_lines (log_all alib size_of steps c0)"
  have "fc_lines c0 = []" using assms(1) by (auto simp: new_file_chain_def verify_file_def split: if_splits)
  with log_all_lines [OF assms(2)] have steps: "list_all2 (\<lambda>(now, w, e) l. line_of_event l (utc_event now e)) steps ?ls" by auto
  from backlog_drained [OF assms(4,7,8) refl assms(9,10) log_lines_readable [OF steps assms(3,5)] assms(6,11,12)]
  have "delivered lib c (journal_file print ?ls) (sh_topic (ob_shipped (run_outbox lib c (map Pass ws) (run_outbox lib c evs b0))))"
    by blast
  from delivered_members [OF this assms(3) steps assms(5,13)] show ?thesis .
qed

definition demo_steps :: "(time \<times> write_outcome \<times> event) list" where
  "demo_steps = [(5, WriteOk, demo_event), (6, WriteOk, demo_event)]"

definition demo_audited :: "jline list" where
  "demo_audited = fc_lines (log_all demo_lib (\<lambda>_. 100) demo_steps demo_chain)"

definition demo_print :: "gval \<Rightarrow> string" where
  "demo_print d = (if d = jl_doc (demo_audited ! 0) then ''one'' else ''two'')"

definition demo_audit_ship :: ship_lib where
  "demo_audit_ship = demo_ship_lib\<lparr>sl_json := (\<lambda>l. if l = ''one'' then Some (jl_doc (demo_audited ! 0))
     else if l = ''two'' then Some (jl_doc (demo_audited ! 1)) else None)\<rparr>"

lemma demo_audited_lines: "list_all (prints_line demo_audit_ship demo_print) demo_audited"
  by code_simp

lemma audited_event_delivered_witness:
  "\<exists>l \<in> set demo_audited. \<exists>k \<in> set (sh_topic (ob_shipped (run_outbox demo_audit_ship demo_kafka [Pass demo_pass, Pass demo_pass]
      (run_outbox demo_audit_ship demo_kafka [Append (journal_file demo_print demo_audited), Pass demo_broken_pass] demo_outbox)))).
    keyed_source (sl_evidence demo_audit_ship) (kc_key demo_kafka) demo_event l k"
proof -
  let ?evs = "[Append (journal_file demo_print demo_audited), Pass demo_broken_pass]"
  let ?b = "run_outbox demo_audit_ship demo_kafka ?evs demo_outbox"
  have no_error: "fc_err (log_all demo_lib (\<lambda>_. 100) demo_steps demo_chain) = None" using demo_log by (simp add: demo_steps_def)
  have codec: "cursor_codec demo_audit_ship" by (rule demo_codec) (simp_all add: demo_audit_ship_def demo_ship_lib_def)
  have good: "list_all good_event ?evs" by (simp add: good_event_def acks_in_order_def demo_pass_def demo_broken_pass_def)
  have fresh: "sh_cursor (ob_shipped demo_outbox) = None" by (simp add: demo_outbox_def)
  have j: "ob_journal ?b = Some (journal_file demo_print demo_audited)" by code_simp
  have st: "stored_cursor demo_audit_ship (ob_shipped ?b) \<noteq> None" by code_simp
  have two: "journal_file demo_print demo_audited = newlined ''one'' @ newlined ''two''" by code_simp
  have sm: "list_all (smooth (journal_file demo_print demo_audited)) [demo_pass, demo_pass]"
    by (simp add: two smooth_def demo_pass_def acks_in_order_def newlined_def)
  have "complete_lines (newlined ''one'' @ newlined ''two'') = [''one'', ''two'']" by code_simp
  then have n: "length (complete_lines (journal_file demo_print demo_audited)) \<le> length [demo_pass, demo_pass]"
    by (simp add: two)
  have k: "kc_key demo_kafka \<noteq> ''''" "1 \<le> kc_batch demo_kafka" by (simp_all add: demo_kafka_def)
  have "(5, WriteOk, demo_event) \<in> set demo_steps" by (simp add: demo_steps_def)
  from audited_event_delivered [OF demo_chain_new no_error, folded demo_audited_def, OF demo_audited_lines codec k good fresh
      j st sm n this]
  show ?thesis by (simp only: list.map)
qed

end
