(* ===== verification/Start_Model.thy ===== *)
theory Start_Model
  imports Config_Load Gov_Model Kafka_Model Http_Model Tool_Net
begin

text \<open>
  The start of a process: the environment (config/env.go), the construction of the stores, the audit
  sinks, the shipper, the model client and the authenticator (app/app.go, app/http.go), the readiness
  check (package health) and the options of the command (cmd/aos/main.go). Opening a database, a file or a
  connection is an argument that answers with an error or not.
\<close>

subsection \<open>The environment\<close>

record env_vars =
  nv_app_env :: string
  nv_port :: int
  nv_read_timeout :: duration
  nv_write_timeout :: duration
  nv_execution :: string
  nv_bus_workers :: int
  nv_bus_buffer :: int
  nv_llm_url :: string
  nv_llm_key :: string
  nv_llm_engine :: string
  nv_llm_model :: string
  nv_llm_timeout :: duration
  nv_ollama_url :: string
  nv_ollama_model :: string
  nv_ollama_intent :: string
  nv_ollama_embed :: string
  nv_ollama_ctx :: int
  nv_redis_addr :: string
  nv_redis_password :: string
  nv_state_store :: string
  nv_sqlite_path :: string
  nv_postgres_url :: string
  nv_audit_log :: string
  nv_ernest_url :: string
  nv_ernest_key :: string
  nv_ernest_hmac :: string
  nv_ernest_timeout :: duration
  nv_evidence_key :: string
  nv_evidence_key_file :: string
  nv_kafka_brokers :: string
  nv_kafka_topic :: string
  nv_kafka_security :: kafka_security
  nv_kafka_cursor :: string
  nv_kafka_interval :: duration
  nv_qdrant_url :: string
  nv_log_level :: string
  nv_jwt_issuer :: string
  nv_jwt_audience :: string
  nv_jwk_url :: string
  nv_role_claim :: string
  nv_role_map :: string
  nv_governance_model :: string
  nv_governance :: string
  nv_evidence :: string
  nv_pdp_url :: string
  nv_iam_url :: string

definition env_deterministic :: "env_vars \<Rightarrow> bool" where
  "env_deterministic v = (nv_execution v = ''deterministic'')"

definition pdp_set :: "env_vars \<Rightarrow> bool" where "pdp_set v = (trim_space (nv_pdp_url v) \<noteq> '''')"

definition export_set :: "env_vars \<Rightarrow> bool" where
  "export_set v = (trim_space (nv_ernest_url v) \<noteq> '''' \<or> trim_space (nv_kafka_brokers v) \<noteq> '''')"

definition resolve_governance :: "env_vars \<Rightarrow> string + env_vars" where
  "resolve_governance v =
    (let development = is_development_environment (nv_app_env v) in
     if nv_governance v = '''' \<and> \<not> development
     then Inl ''AOS_GOVERNANCE is required outside development: set prudence or none''
     else (let g = (if nv_governance v \<noteq> '''' then nv_governance v else if pdp_set v then ''prudence'' else ''none'') in
       if g = ''prudence'' then (if pdp_set v then Inr (v\<lparr>nv_governance := g\<rparr>) else Inl ''AOS_GOVERNANCE=prudence needs PRUDENCE_PDP_URL'')
       else if g = ''none'' then (if pdp_set v then Inl ''AOS_GOVERNANCE=none contradicts PRUDENCE_PDP_URL'' else Inr (v\<lparr>nv_governance := g\<rparr>))
       else Inl ''AOS_GOVERNANCE must be prudence or none''))"

definition resolve_evidence :: "env_vars \<Rightarrow> string + env_vars" where
  "resolve_evidence v =
    (let development = is_development_environment (nv_app_env v) in
     if nv_evidence v = '''' \<and> \<not> development
     then Inl ''AOS_EVIDENCE is required outside development: set ernest or local''
     else (let e = (if nv_evidence v \<noteq> '''' then nv_evidence v else if export_set v then ''ernest'' else ''local'') in
       if e = ''ernest''
       then (if export_set v then Inr (v\<lparr>nv_evidence := e\<rparr>)
         else Inl ''AOS_EVIDENCE=ernest needs ERNEST_INGESTOR_URL or AOS_EVIDENCE_KAFKA_BROKERS'')
       else if e = ''local''
       then (if export_set v then Inl ''AOS_EVIDENCE=local contradicts ERNEST_INGESTOR_URL and AOS_EVIDENCE_KAFKA_BROKERS''
         else if \<not> development \<and> trim_space (nv_audit_log v) = '''' then Inl ''AOS_EVIDENCE=local needs AUDIT_LOG_PATH outside development''
         else Inr (v\<lparr>nv_evidence := e\<rparr>))
       else Inl ''AOS_EVIDENCE must be ernest or local''))"

definition resolve_deployment :: "env_vars \<Rightarrow> string + env_vars" where
  "resolve_deployment v = (case resolve_governance v of Inl e \<Rightarrow> Inl e | Inr v1 \<Rightarrow> resolve_evidence v1)"

text \<open>\<open>process\<close> is what envconfig made of the environment, with its error; a test process goes on with whatever
  was filled in.\<close>

definition load_env :: "(string \<Rightarrow> string) \<Rightarrow> env_vars \<times> string option \<Rightarrow> string + env_vars" where
  "load_env getenv process =
    (case process of (v, Some e) \<Rightarrow> if getenv ''APP_ENV'' = ''test'' then Inr v else Inl (''error loading env: '' @ e)
     | (v, None) \<Rightarrow>
       if nv_execution v \<noteq> ''standard'' \<and> nv_execution v \<noteq> ''deterministic''
       then Inl ''AOS_EXECUTION_MODE must be standard or deterministic''
       else resolve_deployment v)"

subsection \<open>Stores\<close>

datatype state_backend = MemoryBackend | SQLiteBackend string | PostgresBackend string | RedisBackend string string duration

record start_world =
  st_getenv :: "string \<Rightarrow> string"
  st_config :: "go_err + config"
  st_sqlite :: "string \<Rightarrow> string option"
  st_postgres :: "string \<Rightarrow> string option"
  st_redis_ping :: "string option"
  st_chain :: "string \<Rightarrow> string + file_chain"
  st_parse_url :: "string \<Rightarrow> ernest_url option"
  st_print_url :: "ernest_url \<Rightarrow> string"
  st_keys :: key_world
  st_read_pem :: "string \<Rightarrow> string + string"
  st_has_pem :: "string \<Rightarrow> bool"
  st_kafka_client :: "kafka_option list \<Rightarrow> string option"
  st_governance :: "string \<Rightarrow> string + gov_model"

definition new_state_store :: "start_world \<Rightarrow> env_vars \<Rightarrow> string + state_backend" where
  "new_state_store w v =
    (let b0 = to_lower (trim_space (nv_state_store v));
         backend = (if b0 \<noteq> '''' then b0 else if nv_redis_addr v \<noteq> '''' then ''redis'' else ''memory'') in
     if backend = ''memory'' then Inr MemoryBackend
     else if backend = ''sqlite''
     then (case st_sqlite w (nv_sqlite_path v) of Some e \<Rightarrow> Inl e | None \<Rightarrow> Inr (SQLiteBackend (nv_sqlite_path v)))
     else if backend = ''postgres''
     then (if nv_postgres_url v = '''' then Inl ''AOS_POSTGRES_URL is required when AOS_STATE_STORE=postgres''
       else (case st_postgres w (nv_postgres_url v) of Some e \<Rightarrow> Inl e | None \<Rightarrow> Inr (PostgresBackend (nv_postgres_url v))))
     else if backend = ''redis''
     then (if nv_redis_addr v = '''' then Inl ''REDIS_ADDR is required when AOS_STATE_STORE=redis''
       else (case st_redis_ping w of Some e \<Rightarrow> Inl (''redis connection failed: '' @ e)
         | None \<Rightarrow> Inr (RedisBackend (nv_redis_addr v) (nv_redis_password v) (86400 * 10 ^ 9))))
     else Inl (''unsupported AOS_STATE_STORE '' @ go_quote backend @ '' (expected memory, sqlite, postgres, or redis)''))"

text \<open>The store has something to close, except the one in memory.\<close>

definition has_closer :: "state_backend \<Rightarrow> bool" where "has_closer b = (b \<noteq> MemoryBackend)"

definition memory_in_process :: "env_vars \<Rightarrow> bool" where
  "memory_in_process v = (nv_qdrant_url v = ''memory'' \<or> nv_qdrant_url v = '''')"

subsection \<open>Audit and evidence\<close>

definition governed_systems :: "config \<Rightarrow> string gomap" where
  "governed_systems cfg = fold (\<lambda>(name, p) out. let i = trim_space (pl_ai_system p) in if i \<noteq> '''' then mput out name i else out)
     (cf_pipelines cfg) []"

definition split_list :: "string \<Rightarrow> string list" where
  "split_list raw = filter (\<lambda>p. p \<noteq> '''') (map trim_space (split_char CHR '','' raw))"

definition env_key :: "start_world \<Rightarrow> env_vars \<Rightarrow> string gomap \<Rightarrow> string gomap \<times> (string + string)" where
  "env_key w v = load_evidence_key (st_keys w) (nv_evidence_key v) (nv_evidence_key_file v) (nv_audit_log v)
     (is_development_environment (nv_app_env v))"

datatype audit_sink = ChainSink file_chain | ErnestSink ernest

text \<open>\<open>newAuditLoggerFor\<close>: no sink is the logger to standard output. With an error, the sinks that were opened are
  closed: the list of the result's left side.\<close>

definition new_audit_logger ::
  "start_world \<Rightarrow> env_vars \<Rightarrow> string gomap \<Rightarrow> string gomap \<Rightarrow> string gomap \<times> (audit_sink list \<times> string + audit_sink list)" where
  "new_audit_logger w v systems files =
    (case (if nv_audit_log v \<noteq> '''' then map_sum (\<lambda>e. ''initialize audit chain: '' @ e) (\<lambda>c. [ChainSink c]) (st_chain w (nv_audit_log v))
           else Inr []) of
       Inl e \<Rightarrow> (files, Inl ([], e))
     | Inr sinks \<Rightarrow>
       if trim_space (nv_ernest_url v) = '''' then (files, Inr sinks)
       else if trim_space (nv_ernest_key v) = '''' \<and> \<not> is_development_environment (nv_app_env v)
       then (files, Inl (sinks, ''ERNEST_INGESTOR_API_KEY is required outside development mode''))
       else (case env_key w v files of
           (files1, Inl e) \<Rightarrow> (files1, Inl (sinks, e))
         | (files1, Inr key) \<Rightarrow>
           (case new_ernest_logger (st_parse_url w) (st_print_url w) (nv_ernest_url v) (nv_ernest_key v) (nv_ernest_hmac v)
               (nv_ernest_timeout v) of
              Inl e \<Rightarrow> (files1, Inl (sinks, ''initialize Ernest audit integration: '' @ e))
            | Inr en \<Rightarrow> (files1, Inr (sinks @ [ErnestSink (en\<lparr>en_systems := systems, en_key := key\<rparr>)])))))"

definition new_evidence_shipper ::
  "start_world \<Rightarrow> env_vars \<Rightarrow> string gomap \<Rightarrow> string gomap \<Rightarrow> string gomap \<times> (string + (kafka_config \<times> kafka_option list) option)" where
  "new_evidence_shipper w v systems files =
    (let brokers = split_list (nv_kafka_brokers v); sec = nv_kafka_security v; protocol = to_upper (trim_space (ks_protocol sec)) in
     if brokers = [] then (files, Inr None)
     else if \<not> is_development_environment (nv_app_env v) \<and> protocol \<noteq> ''SSL'' \<and> protocol \<noteq> ''SASL_SSL''
     then (files, Inl (''AOS_EVIDENCE_KAFKA_SECURITY_PROTOCOL must be SSL or SASL_SSL outside development (got '' @
       go_quote (ks_protocol sec) @ '')''))
     else (case env_key w v files of
         (files1, Inl e) \<Rightarrow> (files1, Inl e)
       | (files1, Inr key) \<Rightarrow>
           (files1, map_sum id Some (new_kafka_shipper (st_read_pem w) (st_has_pem w) (st_kafka_client w)
             \<lparr>kc_journal = nv_audit_log v, kc_cursor = nv_kafka_cursor v, kc_brokers = brokers, kc_topic = nv_kafka_topic v,
              kc_interval = nv_kafka_interval v, kc_batch = 0, kc_security = sec, kc_systems = systems, kc_key = key\<rparr>))))"

subsection \<open>The application\<close>

definition env_settings :: "env_vars \<Rightarrow> settings" where
  "env_settings v = \<lparr>se_mode = nv_execution v, se_engine = nv_llm_engine v, se_model = nv_llm_model v, se_llm_url = nv_llm_url v,
     se_llm_key = nv_llm_key v, se_ollama_url = nv_ollama_url v, se_embed = nv_ollama_embed v, se_client = NoClient\<rparr>"

definition specs_loaded :: "config \<Rightarrow> bool" where
  "specs_loaded cfg = (cf_tools cfg \<noteq> [] \<and> cf_pipelines cfg \<noteq> [] \<and> cf_intents cfg \<noteq> [])"

record application =
  ax_config :: config
  ax_store :: state_backend
  ax_memory_in_process :: bool
  ax_sinks :: "audit_sink list"
  ax_settings :: settings
  ax_shipper :: "(kafka_config \<times> kafka_option list) option"
  ax_jwt :: jwt_config
  ax_specs_loaded :: bool
  ax_execution :: string
  ax_governance :: string
  ax_evidence :: string

text \<open>\<open>NewHTTPServer\<close> panics on a role map or a governance model that cannot be read.\<close>

definition server_auth :: "start_world \<Rightarrow> env_vars \<Rightarrow> string + jwt_config" where
  "server_auth w v =
    (case parse_role_map (nv_role_map v) of Inl e \<Rightarrow> Inl (''invalid AOS_ROLE_MAP: '' @ e)
     | Inr roles \<Rightarrow> (case st_governance w (nv_governance_model v) of Inl e \<Rightarrow> Inl (''invalid AOS_GOVERNANCE_MODEL: '' @ e)
       | Inr m \<Rightarrow> Inr \<lparr>jw_issuer = nv_jwt_issuer v, jw_audience = nv_jwt_audience v, jw_jwk_url = nv_jwk_url v,
           jw_role_claim = nv_role_claim v, jw_role_map = roles,
           jw_dev_fallback = is_development_environment (nv_app_env v), jw_governance = Some m\<rparr>))"

datatype closing = CloseState | CloseAudit | CloseSink audit_sink

datatype start_failure = StartError string | StartPanic string

definition close_audit :: "audit_sink list \<Rightarrow> closing list" where
  "close_audit sinks = (if sinks = [] then [] else [CloseAudit])"

definition close_state :: "state_backend \<Rightarrow> closing list" where
  "close_state b = (if has_closer b then [CloseState] else [])"

text \<open>\<open>NewWithEnv\<close>: the files, what was closed again, and the application or the failure.\<close>

definition new_with_env ::
  "start_world \<Rightarrow> env_vars \<Rightarrow> string gomap \<Rightarrow> string gomap \<times> closing list \<times> (start_failure + application)" where
  "new_with_env w v files =
    (case st_config w of Inl e \<Rightarrow> (files, [], Inl (StartError (err_text e)))
     | Inr cfg \<Rightarrow>
       (case new_state_store w v of Inl e \<Rightarrow> (files, [], Inl (StartError e))
        | Inr store \<Rightarrow>
          (case new_audit_logger w v (governed_systems cfg) files of
             (files1, Inl (sinks, e)) \<Rightarrow> (files1, map CloseSink sinks @ close_state store, Inl (StartError e))
           | (files1, Inr sinks) \<Rightarrow>
             (case initial_client (st_getenv w) (env_settings v) of
                Inl e \<Rightarrow> (files1, close_state store @ close_audit sinks, Inl (StartError e))
              | Inr client \<Rightarrow>
                (case new_evidence_shipper w v (governed_systems cfg) files1 of
                   (files2, Inl e) \<Rightarrow> (files2, close_audit sinks @ close_state store, Inl (StartError (''initialize Kafka evidence: '' @ e)))
                 | (files2, Inr shipper) \<Rightarrow>
                   (case server_auth w v of Inl e \<Rightarrow> (files2, [], Inl (StartPanic e))
                    | Inr jwt \<Rightarrow> (files2, [], Inr \<lparr>ax_config = cfg, ax_store = store, ax_memory_in_process = memory_in_process v,
                        ax_sinks = sinks, ax_settings = (env_settings v)\<lparr>se_client := client\<rparr>, ax_shipper = shipper,
                        ax_jwt = jwt, ax_specs_loaded = specs_loaded cfg, ax_execution = nv_execution v,
                        ax_governance = nv_governance v, ax_evidence = nv_evidence v\<rparr>)))))))"

subsection \<open>Readiness and the command line\<close>

text \<open>\<open>ping\<close> is the error of the client's ping, if there is a client.\<close>

definition ready_handler :: "application \<Rightarrow> string option option \<Rightarrow> reply" where
  "ready_handler a ping =
    (if \<not> ax_specs_loaded a then HttpError 503 ''specs not loaded''
     else (case ping of Some (Some e) \<Rightarrow> HttpError 503 ''llm unreachable''
       | _ \<Rightarrow> HttpJson 200 (GObj [(''status'', GStr ''ready''), (''execution'', GStr (ax_execution a)),
           (''governance'', GStr (ax_governance a)), (''evidence'', GStr (ax_evidence a))])))"

text \<open>Which hosts the check of outgoing connections exempts: all of them, or a list.\<close>

definition tool_guard :: "(string \<Rightarrow> string) \<Rightarrow> bool \<times> string list" where
  "tool_guard getenv =
    (if getenv ''ALLOW_LOCAL_TOOLS'' = ''true'' then (True, [])
     else (let raw = trim_space (getenv ''AOS_TOOL_INTERNAL_HOSTS'') in
       (False, if raw \<noteq> '''' then set_internal_hosts (split_char CHR '','' raw) else [])))"

definition http_port :: "string \<Rightarrow> env_vars \<Rightarrow> string" where
  "http_port flag v = (if flag \<noteq> '''' then flag else if nv_port v \<noteq> 0 then show_int (nv_port v) else ''9090'')"

text \<open>\<open>deploymentEnvironment\<close>\<close>

definition deployment_environment :: "(string \<Rightarrow> string) \<Rightarrow> string \<Rightarrow> string" where
  "deployment_environment getenv app_env =
    (case first_some (\<lambda>pair. case str_cut (trim_space pair) ''='' of
         (k, v, ok) \<Rightarrow> if ok \<and> k = ''deployment.environment.name'' then Some v else None)
       (split_char CHR '','' (getenv ''OTEL_RESOURCE_ATTRIBUTES'')) of
       Some v \<Rightarrow> v | None \<Rightarrow> app_env)"

end
