(* ===== verification/Start_Props.thy ===== *)
theory Start_Props
  imports Start_Model Evidence_Props
begin

text \<open>
  The properties of the start: a deployment outside development does what its settings say, a failed start
  leaves nothing open, and one setting that slips through.
\<close>

lemma resolve_deployment_Inr:
  assumes "resolve_deployment v0 = Inr v"
  shows "v = v0\<lparr>nv_governance := nv_governance v, nv_evidence := nv_evidence v\<rparr>"
    and "nv_governance v = (if pdp_set v then ''prudence'' else ''none'')"
    and "nv_evidence v = (if export_set v then ''ernest'' else ''local'')"
    and "\<not> is_development_environment (nv_app_env v) \<Longrightarrow> \<not> export_set v \<Longrightarrow> trim_space (nv_audit_log v) \<noteq> ''''"
    and "\<not> is_development_environment (nv_app_env v) \<Longrightarrow> nv_governance v0 \<noteq> '''' \<and> nv_evidence v0 \<noteq> ''''"
proof -
  from assms obtain v1 where g: "resolve_governance v0 = Inr v1" and e: "resolve_evidence v1 = Inr v"
    by (auto simp: resolve_deployment_def split: sum.splits)
  from g have v1: "v1 = v0\<lparr>nv_governance := nv_governance v1\<rparr>" "nv_governance v1 = (if pdp_set v1 then ''prudence'' else ''none'')"
    "\<not> is_development_environment (nv_app_env v0) \<Longrightarrow> nv_governance v0 \<noteq> ''''"
    by (auto simp: resolve_governance_def pdp_set_def Let_def split: if_splits)
  from e have v: "v = v1\<lparr>nv_evidence := nv_evidence v\<rparr>" "nv_evidence v = (if export_set v then ''ernest'' else ''local'')"
    "\<not> is_development_environment (nv_app_env v1) \<Longrightarrow> nv_evidence v1 \<noteq> ''''"
    "\<not> is_development_environment (nv_app_env v1) \<Longrightarrow> \<not> export_set v \<Longrightarrow> trim_space (nv_audit_log v) \<noteq> ''''"
    by (auto simp: resolve_evidence_def export_set_def Let_def split: if_splits)
  obtain x y where xy: "v = v1\<lparr>nv_evidence := x\<rparr>" "v1 = v0\<lparr>nv_governance := y\<rparr>" by (rule that [OF v(1) v1(1)])
  have same: "pdp_set v = pdp_set v1" "nv_governance v = nv_governance v1" "nv_app_env v = nv_app_env v1" "nv_app_env v1 = nv_app_env v0"
    "nv_evidence v1 = nv_evidence v0"
    by (simp_all add: xy pdp_set_def)
  show "v = v0\<lparr>nv_governance := nv_governance v, nv_evidence := nv_evidence v\<rparr>" by (simp add: xy)
  show "nv_governance v = (if pdp_set v then ''prudence'' else ''none'')" using v1(2) same by simp
  show "nv_evidence v = (if export_set v then ''ernest'' else ''local'')" by (rule v(2))
  show "\<not> is_development_environment (nv_app_env v) \<Longrightarrow> \<not> export_set v \<Longrightarrow> trim_space (nv_audit_log v) \<noteq> ''''"
    using v(4) same by simp
  show "\<not> is_development_environment (nv_app_env v) \<Longrightarrow> nv_governance v0 \<noteq> '''' \<and> nv_evidence v0 \<noteq> ''''"
    using v1(3) v(3) same by simp
qed

lemma blank_split:
  assumes "trim_space s = ''''"
  shows "split_list s = []"
proof -
  have "\<forall>c \<in> set s. is_space c"
  proof (rule ccontr)
    assume "\<not> (\<forall>c \<in> set s. is_space c)"
    then have "dropWhile is_space s \<noteq> []" by (simp only: dropWhile_eq_Nil_conv) blast
    then obtain c cs where c: "dropWhile is_space s = c # cs" "\<not> is_space c" by (metis hd_dropWhile list.exhaust_sel)
    then have "c \<in> set (rev (dropWhile is_space s))" by simp
    with c(2) have "dropWhile is_space (rev (dropWhile is_space s)) \<noteq> []" by (simp only: dropWhile_eq_Nil_conv) blast
    with assms show False by (simp add: trim_space_def trim_left_def trim_right_def)
  qed
  moreover have "\<not> is_space CHR '',''" by code_simp
  ultimately have "CHR '','' \<notin> set s" by blast
  then show ?thesis using assms by (simp add: split_list_def split_char_absent)
qed

lemma load_env_Inr: "load_env getenv (v0, None) = Inr v \<Longrightarrow> resolve_deployment v0 = Inr v"
  by (auto simp: load_env_def split: if_splits)

lemma configured_key_long:
  "load_evidence_key w key file journal False files = (files', Inr k) \<Longrightarrow> 32 \<le> length k"
  by (auto simp: load_evidence_key_def Let_def checked_key_Inr split: if_splits read_result.splits)

lemma new_audit_logger_Inr:
  assumes "new_audit_logger w v systems files = (files', Inr sinks)"
  shows "\<exists>chains remotes. sinks = chains @ remotes \<and>
    (if nv_audit_log v = '''' then chains = [] else \<exists>c. chains = [ChainSink c]) \<and>
    (if trim_space (nv_ernest_url v) = '''' then remotes = [] else \<exists>en. remotes = [ErnestSink en] \<and>
      (\<not> is_development_environment (nv_app_env v) \<longrightarrow> 32 \<le> length (en_key en) \<and> en_api_key en \<noteq> ''''))"
proof -
  have long: "32 \<le> length k" if "env_key w v fs = (fs', Inr k)" "\<not> is_development_environment (nv_app_env v)" for fs fs' k
    using that configured_key_long by (simp add: env_key_def)
  show ?thesis
  proof (cases "trim_space (nv_ernest_url v) = ''''")
    case True
    with assms show ?thesis
      by (auto simp: new_audit_logger_def map_sum_Inr split: sum.splits if_splits)
  next
    case False
    with assms obtain chains fs1 key en where c: "sinks = chains @ [ErnestSink (en\<lparr>en_systems := systems, en_key := key\<rparr>)]"
      "if nv_audit_log v = '''' then chains = [] else \<exists>c. chains = [ChainSink c]" "env_key w v files = (fs1, Inr key)"
      "trim_space (nv_ernest_key v) = '''' \<longrightarrow> is_development_environment (nv_app_env v)"
      "new_ernest_logger (st_parse_url w) (st_print_url w) (nv_ernest_url v) (nv_ernest_key v) (nv_ernest_hmac v) (nv_ernest_timeout v) = Inr en"
      by (auto simp: new_audit_logger_def map_sum_Inr split: sum.splits if_splits prod.splits)
    from c(5) have "en_api_key en = trim_space (nv_ernest_key v)"
      by (auto simp: new_ernest_logger_def split: option.splits if_splits)
    with c long False show ?thesis
      by (intro exI [of _ chains] exI [of _ "[ErnestSink (en\<lparr>en_systems := systems, en_key := key\<rparr>)]"]) auto
  qed
qed

lemma kafka_options_tls:
  "kafka_options read has_pem s = Inr opts \<Longrightarrow> to_upper (trim_space (ks_protocol s)) \<in> {''SSL'', ''SASL_SSL''} \<Longrightarrow>
    \<exists>pem. DialTLS pem \<in> set opts"
  by (auto simp: kafka_options_def Let_def split: if_splits sum.splits)

lemma new_evidence_shipper_Inr:
  assumes "new_evidence_shipper w v systems files = (files', Inr (Some (c, opts)))"
  shows "split_list (nv_kafka_brokers v) \<noteq> [] \<and> trim_space (nv_audit_log v) \<noteq> '''' \<and> kc_journal c = nv_audit_log v \<and>
    (\<not> is_development_environment (nv_app_env v) \<longrightarrow> 32 \<le> length (kc_key c) \<and> (\<exists>pem. DialTLS pem \<in> set opts))"
proof -
  from assms obtain fs1 key c0 where k: "split_list (nv_kafka_brokers v) \<noteq> []" "env_key w v files = (fs1, Inr key)"
    "\<not> is_development_environment (nv_app_env v) \<longrightarrow> to_upper (trim_space (ks_protocol (nv_kafka_security v))) \<in> {''SSL'', ''SASL_SSL''}"
    "new_kafka_shipper (st_read_pem w) (st_has_pem w) (st_kafka_client w) c0 = Inr (c, opts)"
    "kc_journal c0 = nv_audit_log v" "kc_key c0 = key" "kc_security c0 = nv_kafka_security v"
    by (auto simp: new_evidence_shipper_def Let_def map_sum_Inr split: if_splits prod.splits sum.splits)
  from k(4) obtain o1 where o1: "kafka_options (st_read_pem w) (st_has_pem w) (kc_security c0) = Inr o1" "set o1 \<subseteq> set opts"
    "c = kafka_defaults c0" "trim_space (kc_journal c0) \<noteq> ''''"
  proof -
    obtain o1 where o: "kafka_options (st_read_pem w) (st_has_pem w) (kc_security (kafka_defaults c0)) = Inr o1"
      using k(4) by (auto simp: new_kafka_shipper_def Let_def split: if_splits sum.splits)
    with k(4) have "set o1 \<subseteq> set opts" "c = kafka_defaults c0" "trim_space (kc_journal c0) \<noteq> ''''"
      by (auto simp: new_kafka_shipper_def Let_def split: if_splits option.splits)
    with o show ?thesis by (intro that) (simp_all add: kafka_defaults_def)
  qed
  have "32 \<le> length key" if "\<not> is_development_environment (nv_app_env v)"
    using k(2) that configured_key_long by (simp add: env_key_def)
  moreover have "\<exists>pem. DialTLS pem \<in> set opts" if "\<not> is_development_environment (nv_app_env v)"
    using kafka_options_tls [OF o1(1)] o1(2) k(3,7) that by (auto dest: subsetD)
  ultimately show ?thesis using k o1 by (simp add: kafka_defaults_def)
qed

lemma server_auth_fallback: "server_auth w v = Inr j \<Longrightarrow> jw_dev_fallback j = is_development_environment (nv_app_env v)"
  by (auto simp: server_auth_def split: sum.splits)

lemma new_with_env_Inr:
  assumes "new_with_env w v files = (files', cl, Inr a)"
  shows "\<exists>cfg files1. st_config w = Inr cfg \<and> new_audit_logger w v (governed_systems cfg) files = (files1, Inr (ax_sinks a)) \<and>
    new_evidence_shipper w v (governed_systems cfg) files1 = (files', Inr (ax_shipper a)) \<and> server_auth w v = Inr (ax_jwt a) \<and>
    initial_client (st_getenv w) (env_settings v) = Inr (se_client (ax_settings a)) \<and>
    ax_execution a = nv_execution v \<and> ax_governance a = nv_governance v \<and> ax_evidence a = nv_evidence v"
  using assms by (auto simp: new_with_env_def split: sum.splits prod.splits)

text \<open>
  C30: what a process that starts outside development is made of. It reports governance by Prudence if
  and only if a decision point is configured, and evidence to Ernest if and only if an ingestor or
  brokers are configured, and each agrees with what the deployment declared, where it did. It exports
  over HTTP exactly when the ingestor's address is set, and over Kafka exactly when the list of brokers
  has an entry, so that what it reports is what it does, unless that list holds only separators (the
  section below). Evidence over HTTP carries an ingestor key and evidence over Kafka is encrypted and read
  from a journal, both under a key of at least 32 bytes; without any export there is a hash-chained
  journal. The development login is off, and a deterministic process has no model client.
\<close>

definition exports_evidence :: "application \<Rightarrow> bool" where
  "exports_evidence a = (ax_shipper a \<noteq> None \<or> list_ex (\<lambda>s. case s of ErnestSink _ \<Rightarrow> True | _ \<Rightarrow> False) (ax_sinks a))"

theorem production_start_consistent:
  assumes "load_env getenv (v0, None) = Inr v" "new_with_env w v files = (files', cl, Inr a)"
    and "\<not> is_development_environment (nv_app_env v)"
  shows "ax_governance a = (if pdp_set v then ''prudence'' else ''none'') \<and> nv_governance v0 = ax_governance a \<and>
    ax_evidence a = (if export_set v then ''ernest'' else ''local'') \<and> nv_evidence v0 = ax_evidence a \<and>
    ((\<exists>en. ErnestSink en \<in> set (ax_sinks a)) \<longleftrightarrow> trim_space (nv_ernest_url v) \<noteq> '''') \<and>
    (ax_shipper a \<noteq> None \<longleftrightarrow> split_list (nv_kafka_brokers v) \<noteq> []) \<and>
    (blank (nv_kafka_brokers v) \<or> split_list (nv_kafka_brokers v) \<noteq> [] \<longrightarrow> (ax_evidence a = ''ernest'' \<longleftrightarrow> exports_evidence a)) \<and>
    (ax_evidence a = ''local'' \<longrightarrow> ax_shipper a = None \<and> (\<exists>c. ax_sinks a = [ChainSink c])) \<and>
    (\<forall>en. ErnestSink en \<in> set (ax_sinks a) \<longrightarrow> 32 \<le> length (en_key en) \<and> en_api_key en \<noteq> '''') \<and>
    (\<forall>c opts. ax_shipper a = Some (c, opts) \<longrightarrow> 32 \<le> length (kc_key c) \<and> (\<exists>pem. DialTLS pem \<in> set opts) \<and>
      (\<exists>ch. ChainSink ch \<in> set (ax_sinks a))) \<and>
    \<not> jw_dev_fallback (ax_jwt a) \<and> (ax_execution a = ''deterministic'' \<longrightarrow> se_client (ax_settings a) = NoClient)"
proof -
  note r = resolve_deployment_Inr [OF load_env_Inr [OF assms(1)]]
  from new_with_env_Inr [OF assms(2)] obtain cfg files1 where n: "new_audit_logger w v (governed_systems cfg) files = (files1, Inr (ax_sinks a))"
    "new_evidence_shipper w v (governed_systems cfg) files1 = (files', Inr (ax_shipper a))" "server_auth w v = Inr (ax_jwt a)"
    "initial_client (st_getenv w) (env_settings v) = Inr (se_client (ax_settings a))"
    "ax_execution a = nv_execution v" "ax_governance a = nv_governance v" "ax_evidence a = nv_evidence v" by blast
  from new_audit_logger_Inr [OF n(1)] obtain chains remotes where s: "ax_sinks a = chains @ remotes"
    "if nv_audit_log v = '''' then chains = [] else \<exists>c. chains = [ChainSink c]"
    "if trim_space (nv_ernest_url v) = '''' then remotes = [] else \<exists>en. remotes = [ErnestSink en] \<and>
      (\<not> is_development_environment (nv_app_env v) \<longrightarrow> 32 \<le> length (en_key en) \<and> en_api_key en \<noteq> '''')" by blast
  have chains: "\<exists>c. chains = [ChainSink c]" if "trim_space (nv_audit_log v) \<noteq> ''''" using s(2) that by (auto split: if_splits)
  have given: "nv_governance v0 = nv_governance v" "nv_evidence v0 = nv_evidence v"
    using load_env_Inr [OF assms(1)] r(5) [OF assms(3)]
    by (auto simp: resolve_deployment_def resolve_governance_def resolve_evidence_def Let_def split: if_splits)
  have "ax_shipper a = None \<and> (\<exists>c. ax_sinks a = [ChainSink c])" if "\<not> export_set v"
  proof -
    from that have b: "trim_space (nv_ernest_url v) = ''''" "trim_space (nv_kafka_brokers v) = ''''" by (simp_all add: export_set_def)
    then have "remotes = []" using s(3) by simp
    moreover have "\<exists>c. chains = [ChainSink c]" using chains r(4) [OF assms(3) that] by blast
    moreover have "split_list (nv_kafka_brokers v) = []"
      by (rule blank_split [OF b(2)])
    ultimately show ?thesis using n(2) s(1) by (auto simp: new_evidence_shipper_def)
  qed
  moreover have "32 \<le> length (en_key en) \<and> en_api_key en \<noteq> ''''" if "ErnestSink en \<in> set (ax_sinks a)" for en
    using that s assms(3) by (auto split: if_splits)
  moreover have "32 \<le> length (kc_key c) \<and> (\<exists>pem. DialTLS pem \<in> set opts) \<and> (\<exists>ch. ChainSink ch \<in> set (ax_sinks a))"
    if "ax_shipper a = Some (c, opts)" for c opts
    using new_evidence_shipper_Inr [of w v _ files1 files' c opts] n(2) that assms(3) chains s(1) by force
  moreover have "\<not> jw_dev_fallback (ax_jwt a)" using server_auth_fallback [OF n(3)] assms(3) by simp
  moreover have "ax_execution a = ''deterministic'' \<longrightarrow> se_client (ax_settings a) = NoClient"
    using n(4,5) by (auto simp: initial_client_def is_deterministic_def env_settings_def)
  moreover have http: "(\<exists>en. ErnestSink en \<in> set (ax_sinks a)) \<longleftrightarrow> trim_space (nv_ernest_url v) \<noteq> ''''"
    using s by (auto split: if_splits)
  moreover have kafka: "ax_shipper a \<noteq> None \<longleftrightarrow> split_list (nv_kafka_brokers v) \<noteq> []"
    using n(2) by (auto simp: new_evidence_shipper_def Let_def map_sum_Inr split: if_splits prod.splits sum.splits)
  moreover have "exports_evidence a \<longleftrightarrow> ax_shipper a \<noteq> None \<or> (\<exists>en. ErnestSink en \<in> set (ax_sinks a))"
    by (auto simp: exports_evidence_def list_ex_iff split: audit_sink.splits) (metis audit_sink.exhaust)
  moreover have "export_set v \<longleftrightarrow> trim_space (nv_ernest_url v) \<noteq> '''' \<or> \<not> blank (nv_kafka_brokers v)"
    by (simp add: export_set_def blank_def)
  moreover have "split_list (nv_kafka_brokers v) \<noteq> [] \<Longrightarrow> \<not> blank (nv_kafka_brokers v)"
    using blank_split by (auto simp: blank_def)
  ultimately show ?thesis using r(2,3) n(6,7) given by auto
qed

definition demo_key32 :: string where "demo_key32 = replicate 32 (CHR ''k'')"

definition demo_production :: env_vars where
  "demo_production = \<lparr>nv_app_env = ''production'', nv_port = 8080, nv_read_timeout = 5, nv_write_timeout = 5,
     nv_execution = ''deterministic'', nv_bus_workers = 4, nv_bus_buffer = 100, nv_llm_url = '''', nv_llm_key = '''',
     nv_llm_engine = ''gpt-4.1'', nv_llm_model = ''gpt-4.1'', nv_llm_timeout = 10, nv_ollama_url = '''', nv_ollama_model = '''', nv_ollama_intent = '''', nv_ollama_embed = '''', nv_ollama_ctx = 8192, nv_redis_addr = '''',
     nv_redis_password = '''', nv_state_store = ''sqlite'', nv_sqlite_path = ''aos.db'', nv_postgres_url = '''', nv_audit_log = ''audit.log'',
     nv_ernest_url = '''', nv_ernest_key = '''', nv_ernest_hmac = '''', nv_ernest_timeout = 0, nv_evidence_key = demo_key32,
     nv_evidence_key_file = '''', nv_kafka_brokers = ''k1:9093, k2:9093'', nv_kafka_topic = '''',
     nv_kafka_security = \<lparr>ks_protocol = ''ssl'', ks_ca_file = '''', ks_mechanism = '''', ks_username = '''', ks_password = ''''\<rparr>,
     nv_kafka_cursor = '''', nv_kafka_interval = 0, nv_qdrant_url = '''', nv_log_level = ''info'', nv_jwt_issuer = ''iss'', nv_jwt_audience = ''aud'',
     nv_jwk_url = ''https://idp/jwks'', nv_role_claim = ''roles'', nv_role_map = '''', nv_governance_model = '''',
     nv_governance = ''prudence'', nv_evidence = ''ernest'', nv_pdp_url = ''https://pdp'', nv_iam_url = ''disabled''\<rparr>"

definition demo_start :: start_world where
  "demo_start = \<lparr>st_getenv = (\<lambda>_. ''''), st_config = Inr empty_config, st_sqlite = (\<lambda>_. None), st_postgres = (\<lambda>_. None),
     st_redis_ping = None, st_chain = (\<lambda>_. Inr demo_chain), st_parse_url = (\<lambda>_. None), st_print_url = (\<lambda>_. ''''),
     st_keys = demo_key_world, st_read_pem = (\<lambda>_. Inl ''missing''), st_has_pem = (\<lambda>_. True), st_kafka_client = (\<lambda>_. None),
     st_governance = (\<lambda>_. Inr \<lparr>gm_people = '''', gm_machines = '''', gm_grants = [], gm_incompatible = []\<rparr>)\<rparr>"

definition demo_application :: application where
  "demo_application = (case snd (snd (new_with_env demo_start demo_production [])) of Inr a \<Rightarrow> a | Inl e \<Rightarrow> undefined)"

lemma demo_started: "new_with_env demo_start demo_production [] = ([], [], Inr demo_application) \<and> load_env (\<lambda>_. '''') (demo_production, None) = Inr demo_production"
  by code_simp

lemma production_start_consistent_witness:
  "ax_governance demo_application = ''prudence'' \<and> ax_evidence demo_application = ''ernest'' \<and>
   (\<exists>c opts pem. ax_shipper demo_application = Some (c, opts) \<and> DialTLS pem \<in> set opts \<and> 32 \<le> length (kc_key c))"
proof -
  have prod: "\<not> is_development_environment (nv_app_env demo_production)" by code_simp
  note p = production_start_consistent [OF demo_started [THEN conjunct2] demo_started [THEN conjunct1] prod]
  have e: "pdp_set demo_production" "export_set demo_production" "ax_shipper demo_application \<noteq> None" by code_simp+
  then obtain c opts where "ax_shipper demo_application = Some (c, opts)" by auto
  with p e(1,2) show ?thesis by auto
qed

subsection \<open>A setting that slips through\<close>

text \<open>
  a defect: a list of brokers that holds only separators counts as an export when the settings are
  checked, and as no export when the shipper is built. Outside development, with no journal and no ingestor,
  such a process starts, reports that its evidence goes to Ernest, and writes every audit event to standard
  output alone.
\<close>

theorem evidence_declared_but_absent:
  assumes "load_env getenv (v0, None) = Inr v" "new_with_env w v files = (files', cl, Inr a)"
    and "trim_space (nv_kafka_brokers v) \<noteq> ''''" "split_list (nv_kafka_brokers v) = []"
    and "trim_space (nv_ernest_url v) = ''''" "nv_audit_log v = ''''"
  shows "ax_evidence a = ''ernest'' \<and> ax_sinks a = [] \<and> ax_shipper a = None"
proof -
  from new_with_env_Inr [OF assms(2)] obtain cfg files1 where n: "new_audit_logger w v (governed_systems cfg) files = (files1, Inr (ax_sinks a))"
    "new_evidence_shipper w v (governed_systems cfg) files1 = (files', Inr (ax_shipper a))" "ax_evidence a = nv_evidence v" by blast
  have "export_set v" using assms(3) by (simp add: export_set_def)
  with resolve_deployment_Inr(3) [OF load_env_Inr [OF assms(1)]] n(3) have "ax_evidence a = ''ernest''" by simp
  moreover have "ax_sinks a = []" using new_audit_logger_Inr [OF n(1)] assms(5,6) by auto
  moreover have "ax_shipper a = None" using n(2) assms(4) by (simp add: new_evidence_shipper_def)
  ultimately show ?thesis by simp
qed

definition demo_commas :: env_vars where
  "demo_commas = demo_production\<lparr>nv_kafka_brokers := '','', nv_audit_log := ''''\<rparr>"

definition demo_silent :: application where
  "demo_silent = (case snd (snd (new_with_env demo_start demo_commas [])) of Inr a \<Rightarrow> a | Inl e \<Rightarrow> undefined)"

lemma evidence_declared_but_absent_witness:
  "\<not> is_development_environment (nv_app_env demo_commas) \<and> ax_evidence demo_silent = ''ernest'' \<and> ax_sinks demo_silent = [] \<and>
   ax_shipper demo_silent = None"
proof -
  have s: "load_env (\<lambda>_. '''') (demo_commas, None) = Inr demo_commas" "new_with_env demo_start demo_commas [] = ([], [], Inr demo_silent)"
    "trim_space (nv_kafka_brokers demo_commas) \<noteq> ''''" "split_list (nv_kafka_brokers demo_commas) = []"
    "trim_space (nv_ernest_url demo_commas) = ''''" "nv_audit_log demo_commas = ''''" by code_simp+
  have "\<not> is_development_environment (nv_app_env demo_commas)" by code_simp
  with evidence_declared_but_absent [OF s] show ?thesis by simp
qed

subsection \<open>A failed start\<close>

text \<open>
  a start that fails closes what it opened: the database and the connection of the state store, and
  the journal, once it was opened.
\<close>

lemma failed_start_closes:
  assumes "new_with_env w v files = (files', cl, Inl (StartError e))" "st_config w = Inr cfg" "new_state_store w v = Inr store"
  shows "(has_closer store \<longrightarrow> CloseState \<in> set cl) \<and>
    (nv_audit_log v \<noteq> '''' \<and> is_ok (st_chain w (nv_audit_log v)) \<longrightarrow> CloseAudit \<in> set cl \<or> (\<exists>c. CloseSink (ChainSink c) \<in> set cl))"
proof (cases "new_audit_logger w v (governed_systems cfg) files")
  case (Pair files1 r)
  show ?thesis
  proof (cases r)
    case (Inl p)
    obtain sinks e1 where p: "p = (sinks, e1)" by (cases p)
    with Pair Inl assms have cl: "cl = map CloseSink sinks @ close_state store" by (simp add: new_with_env_def)
    have "\<exists>c. sinks = [ChainSink c]" if "nv_audit_log v \<noteq> ''''" "st_chain w (nv_audit_log v) = Inr c" for c
      using Pair Inl p that by (auto simp: new_audit_logger_def split: if_splits prod.splits sum.splits)
    with cl show ?thesis by (cases "st_chain w (nv_audit_log v)") (auto simp: close_state_def)
  next
    case (Inr sinks)
    with Pair assms have cl: "set cl = set (close_state store) \<union> set (close_audit sinks)"
      by (auto simp: new_with_env_def split: sum.splits prod.splits)
    have "nv_audit_log v \<noteq> '''' \<Longrightarrow> sinks \<noteq> []"
      using new_audit_logger_Inr [of w v "governed_systems cfg" files files1 sinks] Pair Inr by (auto split: if_splits)
    with cl show ?thesis by (auto simp: close_state_def close_audit_def)
  qed
qed

end
