(* ===== verification/Llm_Client.thy ===== *)
theory Llm_Client
  imports Http_Model
begin

text \<open>
  The clients of the language models: retries (llm/retry.go) and the calls to Ollama, to an
  OpenAI-compatible server and to Gemini (llm/ollama_client.go, openai_client.go, gemini_client.go). The
  network answers each attempt; the JSON parser, the rounding to float32 and Google's library are fields of
  the world of a call.
\<close>

subsection \<open>Retries\<close>

text \<open>An attempt gives an error, with whether it is a timeout or temporary, or a status with the body.\<close>

record llm_call =
  lq_method :: string
  lq_url :: string
  lq_headers :: "(string \<times> string) list"
  lq_body :: "gval option"

type_synonym llm_answer = "(string \<times> bool) + int \<times> string"

record llm_net =
  ly_send :: "nat \<Rightarrow> llm_call \<Rightarrow> llm_answer"
  ly_done :: "nat \<Rightarrow> string option"
  ly_wait_done :: "nat \<Rightarrow> string option"
  ly_jitter :: "nat \<Rightarrow> int"
  ly_json :: "string \<Rightarrow> string + gval"
  ly_stream :: "string \<Rightarrow> gval list \<times> string option"
  ly_f32 :: "f64 \<Rightarrow> f64"
  ly_env :: "string \<Rightarrow> string"
  ly_gemini :: "string \<Rightarrow> string \<Rightarrow> string + string"
  ly_gemini_embed :: "string \<Rightarrow> string + f64 list list"

definition retriable_status :: "int \<Rightarrow> bool" where
  "retriable_status code = (code = 429 \<or> code = 408)"

definition retry_delay :: "duration \<Rightarrow> nat \<Rightarrow> int \<Rightarrow> duration" where
  "retry_delay base attempt jitter = (let d = min (base * 2 ^ (attempt - 1)) (10 ^ 9) in d - d div 10 + jitter)"

datatype retry_step = Attempt llm_call | Pause duration

text \<open>The attempts from the n-th on, of at most \<open>m + 1\<close> more; an answer carries the body that can still be
  read: closing it loses it.\<close>

fun retry_from :: "llm_net \<Rightarrow> duration \<Rightarrow> llm_call \<Rightarrow> nat \<Rightarrow> nat \<Rightarrow> retry_step list \<times> (string + int \<times> string)" where
  "retry_from w base q m n =
    (case ly_done w n of Some e \<Rightarrow> ([], Inl e)
     | None \<Rightarrow>
       (case ly_send w n q of
          Inr (code, body) \<Rightarrow>
            if \<not> retriable_status code then ([Attempt q], Inr (code, body))
            else (case m of 0 \<Rightarrow> ([Attempt q], Inr (code, ''''))
              | Suc m' \<Rightarrow> (case ly_wait_done w n of Some e \<Rightarrow> ([Attempt q, Pause (retry_delay base n (ly_jitter w n))], Inl e)
                | None \<Rightarrow> map_prod (append [Attempt q, Pause (retry_delay base n (ly_jitter w n))]) id (retry_from w base q m' (Suc n))))
        | Inl (e, again) \<Rightarrow>
            if \<not> again then ([Attempt q], Inl e)
            else (case m of 0 \<Rightarrow> ([Attempt q], Inl e)
              | Suc m' \<Rightarrow> (case ly_wait_done w n of Some e1 \<Rightarrow> ([Attempt q, Pause (retry_delay base n (ly_jitter w n))], Inl e1)
                | None \<Rightarrow> map_prod (append [Attempt q, Pause (retry_delay base n (ly_jitter w n))]) id (retry_from w base q m' (Suc n))))))"

declare retry_from.simps [simp del]

definition retry_http :: "llm_net \<Rightarrow> int \<Rightarrow> duration \<Rightarrow> llm_call \<Rightarrow> retry_step list \<times> (string + int \<times> string)" where
  "retry_http w attempts base q =
    retry_from w (if base \<le> 0 then 10 ^ 8 else base) q (nat (attempts - 1)) 1"

definition status_error :: "string \<Rightarrow> int \<Rightarrow> string \<Rightarrow> string" where
  "status_error what code body = what @ show_int code @ '', body: '' @ body"

definition slash_url :: "string \<Rightarrow> string \<Rightarrow> string" where
  "slash_url base path = trim_right (\<lambda>c. c = CHR ''/'') base @ path"

text \<open>The body of an answer with status 200, or the error of the call.\<close>

definition ok_body :: "string \<Rightarrow> retry_step list \<times> (string + int \<times> string) \<Rightarrow> retry_step list \<times> (string + string)" where
  "ok_body what r = (case r of (steps, Inl e) \<Rightarrow> (steps, Inl e)
     | (steps, Inr (code, body)) \<Rightarrow> (steps, if code \<noteq> 200 then Inl (status_error what code body) else Inr body))"

subsection \<open>OpenAI\<close>

definition openai_headers :: "string \<Rightarrow> (string \<times> string) list" where
  "openai_headers key = [(''Authorization'', ''Bearer '' @ key), (''Content-Type'', ''application/json'')]"

definition decode_content :: "gval \<Rightarrow> string + string" where
  "decode_content choice =
    (case choice of GNil \<Rightarrow> Inr ''''
     | GObj m \<Rightarrow> (case mget m ''message'' of None \<Rightarrow> Inr '''' | Some GNil \<Rightarrow> Inr ''''
         | Some (GObj c) \<Rightarrow> dec_str (mget c ''content'') | _ \<Rightarrow> Inl unmarshal_error)
     | _ \<Rightarrow> Inl unmarshal_error)"

fun decode_all :: "(gval \<Rightarrow> string + 'a) \<Rightarrow> gval list \<Rightarrow> string + 'a list" where
  "decode_all f [] = Inr []"
| "decode_all f (v # vs) = (case f v of Inl e \<Rightarrow> Inl e
     | Inr x \<Rightarrow> (case decode_all f vs of Inl e \<Rightarrow> Inl e | Inr xs \<Rightarrow> Inr (x # xs)))"

text \<open>A field of a document that holds a list.\<close>

definition decode_field :: "string \<Rightarrow> (gval \<Rightarrow> string + 'a) \<Rightarrow> gval \<Rightarrow> string + 'a list" where
  "decode_field k f doc =
    (case doc of GNil \<Rightarrow> Inr []
     | GObj m \<Rightarrow> (case mget m k of None \<Rightarrow> Inr [] | Some GNil \<Rightarrow> Inr [] | Some (GList vs) \<Rightarrow> decode_all f vs | _ \<Rightarrow> Inl unmarshal_error)
     | _ \<Rightarrow> Inl unmarshal_error)"

definition openai_ping :: "llm_net \<Rightarrow> string \<Rightarrow> string \<Rightarrow> retry_step list \<times> string option" where
  "openai_ping w url key =
    (if key = '''' then ([], Some ''openai api key is empty'')
     else (case retry_http w 3 (10 ^ 8) \<lparr>lq_method = ''GET'', lq_url = slash_url url ''/models'',
             lq_headers = [(''Authorization'', ''Bearer '' @ key)], lq_body = None\<rparr> of
         (steps, Inl e) \<Rightarrow> (steps, Some (''openai ping failed: '' @ e))
       | (steps, Inr (code, body)) \<Rightarrow>
           (steps, if code \<noteq> 200 then Some (status_error ''openai ping bad status: '' code body) else None)))"

definition openai_chat :: "llm_net \<Rightarrow> string \<Rightarrow> string \<Rightarrow> string \<Rightarrow> string \<Rightarrow> retry_step list \<times> (string + string)" where
  "openai_chat w url key model prompt =
    (if key = '''' then ([], Inl ''openai api key is empty'')
     else (case ok_body ''openai chat failed: status '' (retry_http w 3 (10 ^ 8)
             \<lparr>lq_method = ''POST'', lq_url = slash_url url ''/chat/completions'', lq_headers = openai_headers key,
              lq_body = Some (GObj [(''model'', GStr model), (''messages'', GList [GObj [(''role'', GStr ''user''), (''content'', GStr prompt)]]),
                (''temperature'', GInt 0)])\<rparr>) of
         (steps, Inl e) \<Rightarrow> (steps, Inl e)
       | (steps, Inr body) \<Rightarrow>
           (steps, case ly_json w body of Inl e \<Rightarrow> Inl e
             | Inr doc \<Rightarrow> (case decode_field ''choices'' decode_content doc of Inl e \<Rightarrow> Inl e
                | Inr [] \<Rightarrow> Inl ''openai: empty response'' | Inr (c # _) \<Rightarrow> Inr c))))"

definition decode_floats :: "(f64 \<Rightarrow> f64) \<Rightarrow> gval option \<Rightarrow> string + f64 list" where
  "decode_floats f32 v = (case v of None \<Rightarrow> Inr [] | Some GNil \<Rightarrow> Inr []
     | Some (GList vs) \<Rightarrow> decode_all (\<lambda>x. map_sum id f32 (dec_float (Some x))) vs | _ \<Rightarrow> Inl unmarshal_error)"

definition decode_embedding :: "(f64 \<Rightarrow> f64) \<Rightarrow> gval \<Rightarrow> string + f64 list" where
  "decode_embedding f32 v = (case v of GNil \<Rightarrow> Inr [] | GObj m \<Rightarrow> decode_floats f32 (mget m ''embedding'') | _ \<Rightarrow> Inl unmarshal_error)"

definition openai_embed :: "llm_net \<Rightarrow> string \<Rightarrow> string \<Rightarrow> string \<Rightarrow> retry_step list \<times> (string + f64 list)" where
  "openai_embed w url key txt =
    (case ok_body ''openai embed failed: status '' (retry_http w 3 (10 ^ 8)
        \<lparr>lq_method = ''POST'', lq_url = slash_url url ''/embeddings'', lq_headers = openai_headers key,
         lq_body = Some (GObj [(''model'', GStr ''text-embedding-ada-002''), (''input'', GStr txt)])\<rparr>) of
       (steps, Inl e) \<Rightarrow> (steps, Inl e)
     | (steps, Inr body) \<Rightarrow>
         (steps, case ly_json w body of Inl e \<Rightarrow> Inl (''decode embed response: '' @ e)
           | Inr doc \<Rightarrow> (case decode_field ''data'' (decode_embedding (ly_f32 w)) doc of Inl e \<Rightarrow> Inl (''decode embed response: '' @ e)
              | Inr [] \<Rightarrow> Inl ''openai embed: empty data'' | Inr (v # _) \<Rightarrow> Inr v)))"

subsection \<open>Ollama\<close>

definition ollama_num_ctx :: "(string \<Rightarrow> string) \<Rightarrow> int" where
  "ollama_num_ctx getenv = (case atoi (getenv ''OLLAMA_NUM_CTX'') of Some n \<Rightarrow> if n > 0 then n else 8192 | None \<Rightarrow> 8192)"

definition ollama_intent_model :: "(string \<Rightarrow> string) \<Rightarrow> string \<Rightarrow> string" where
  "ollama_intent_model getenv model = (let m = trim_space (getenv ''OLLAMA_INTENT_MODEL'') in if m = '''' then model else m)"

definition ollama_embed_model :: "string \<Rightarrow> string" where
  "ollama_embed_model m = (if m = '''' then ''nomic-embed-text'' else m)"

definition dec_bool :: "gval option \<Rightarrow> string + bool" where
  "dec_bool v = (case v of None \<Rightarrow> Inr False | Some GNil \<Rightarrow> Inr False | Some (GBool b) \<Rightarrow> Inr b | _ \<Rightarrow> Inl unmarshal_error)"

definition dec_int64_ok :: "gval option \<Rightarrow> bool" where
  "dec_int64_ok v = (case v of None \<Rightarrow> True | Some GNil \<Rightarrow> True | Some (GInt i) \<Rightarrow> int64_min \<le> i \<and> i \<le> int64_max
     | Some (GFloat (Fin q)) \<Rightarrow> q = of_int \<lfloor>q\<rfloor> \<and> int64_min \<le> \<lfloor>q\<rfloor> \<and> \<lfloor>q\<rfloor> \<le> int64_max | _ \<Rightarrow> False)"

definition stats_fields :: "string list" where
  "stats_fields = [''total_duration'', ''load_duration'', ''prompt_eval_count'', ''prompt_eval_duration'', ''eval_count'', ''eval_duration'']"

definition chunk_content :: "gval option \<Rightarrow> string + string" where
  "chunk_content v = (case v of None \<Rightarrow> Inr '''' | Some GNil \<Rightarrow> Inr ''''
     | Some (GObj m) \<Rightarrow> (case dec_str (mget m ''role'') of Inl e \<Rightarrow> Inl e | Inr _ \<Rightarrow> dec_str (mget m ''content''))
     | _ \<Rightarrow> Inl unmarshal_error)"

text \<open>A chunk of the stream: its text, whether it is the last one, and why. Other fields are not looked at.\<close>

definition decode_chunk :: "gval \<Rightarrow> string + string \<times> bool \<times> string" where
  "decode_chunk doc =
    (case doc of GNil \<Rightarrow> Inr ('''', False, '''')
     | GObj m \<Rightarrow>
         (case (chunk_content (mget m ''message''), dec_bool (mget m ''done''), dec_str (mget m ''done_reason'')) of
            (Inr c, Inr d, Inr r) \<Rightarrow> if list_all (\<lambda>k. dec_int64_ok (mget m k)) stats_fields then Inr (c, d, r) else Inl unmarshal_error
          | _ \<Rightarrow> Inl unmarshal_error)
     | _ \<Rightarrow> Inl unmarshal_error)"

text \<open>The loop over the stream, which ends at the end of the body or with an error.\<close>

fun read_chunks :: "gval list \<Rightarrow> string option \<Rightarrow> string \<Rightarrow> string + string \<times> string" where
  "read_chunks [] stop acc = (case stop of None \<Rightarrow> Inr (acc, '''') | Some e \<Rightarrow> Inl e)"
| "read_chunks (d # ds) stop acc = (case decode_chunk d of Inl e \<Rightarrow> Inl e
     | Inr (c, fin, reason) \<Rightarrow> if fin then Inr (acc @ c, reason) else read_chunks ds stop (acc @ c))"

definition ollama_request :: "(string \<Rightarrow> string) \<Rightarrow> string \<Rightarrow> string \<Rightarrow> string \<Rightarrow> bool \<Rightarrow> int \<Rightarrow> llm_call" where
  "ollama_request getenv url model prompt direct max_tokens =
    \<lparr>lq_method = ''POST'', lq_url = url @ ''/api/chat'', lq_headers = [(''Content-Type'', ''application/json'')],
     lq_body = Some (GObj ([(''model'', GStr model), (''messages'', GList [GObj [(''role'', GStr ''user''), (''content'', GStr prompt)]]),
       (''stream'', GBool True),
       (''options'', GObj ([(''num_ctx'', GInt (ollama_num_ctx getenv))] @ (if max_tokens > 0 then [(''num_predict'', GInt max_tokens)] else [])))] @
       (if direct then [(''think'', GBool False)] else [])))\<rparr>"

definition ollama_chat :: "llm_net \<Rightarrow> string \<Rightarrow> string \<Rightarrow> string \<Rightarrow> bool \<Rightarrow> int \<Rightarrow> retry_step list \<times> (string + string)" where
  "ollama_chat w url model prompt direct max_tokens =
    (case ok_body ''ollama chat failed: status '' (retry_http w 3 (10 ^ 8) (ollama_request (ly_env w) url model prompt direct max_tokens)) of
       (steps, Inl e) \<Rightarrow> (steps, Inl e)
     | (steps, Inr body) \<Rightarrow> (steps, case read_chunks (fst (ly_stream w body)) (snd (ly_stream w body)) '''' of
         Inl e \<Rightarrow> Inl e
       | Inr (txt, reason) \<Rightarrow> if reason = ''length'' then Inl ''ollama chat response was truncated by the model token limit''
           else Inr txt))"

definition ollama_chat_for_intent :: "llm_net \<Rightarrow> string \<Rightarrow> string \<Rightarrow> string \<Rightarrow> int \<Rightarrow> retry_step list \<times> (string + string)" where
  "ollama_chat_for_intent w url model prompt max_tokens =
    ollama_chat w url (ollama_intent_model (ly_env w) model) prompt True max_tokens"

definition ollama_ping :: "llm_net \<Rightarrow> string \<Rightarrow> retry_step list \<times> string option" where
  "ollama_ping w url =
    (case retry_http w 3 50000000 \<lparr>lq_method = ''GET'', lq_url = url @ ''/api/tags'', lq_headers = [], lq_body = None\<rparr> of
       (steps, Inl e) \<Rightarrow> (steps, Some e)
     | (steps, Inr (code, body)) \<Rightarrow> (steps, if code \<noteq> 200 then Some (''llm ping failed: status '' @ show_int code) else None))"

definition ollama_embed :: "llm_net \<Rightarrow> string \<Rightarrow> string \<Rightarrow> string \<Rightarrow> retry_step list \<times> (string + f64 list)" where
  "ollama_embed w url em txt =
    (case ok_body ''ollama embed failed: status '' (retry_http w 3 (10 ^ 8)
        \<lparr>lq_method = ''POST'', lq_url = url @ ''/api/embeddings'', lq_headers = [(''Content-Type'', ''application/json'')],
         lq_body = Some (GObj [(''model'', GStr (ollama_embed_model em)), (''prompt'', GStr txt)])\<rparr>) of
       (steps, Inl e) \<Rightarrow> (steps, Inl e)
     | (steps, Inr body) \<Rightarrow> (steps, case ly_json w body of Inl e \<Rightarrow> Inl (''decode embed response: '' @ e)
         | Inr doc \<Rightarrow> map_sum (append ''decode embed response: '') id (decode_embedding (ly_f32 w) doc)))"

subsection \<open>Gemini\<close>

text \<open>The text Google's library gives for a model and a prompt.\<close>

definition gemini_ping :: "llm_net \<Rightarrow> string \<Rightarrow> string option" where
  "gemini_ping w model = (case ly_gemini w model ''ping'' of Inl e \<Rightarrow> Some (''gemini ping failed: '' @ e)
     | Inr txt \<Rightarrow> if trim_space txt = '''' then Some ''gemini ping returned empty response'' else None)"

definition gemini_chat :: "llm_net \<Rightarrow> string \<Rightarrow> string \<Rightarrow> string + string" where
  "gemini_chat w model prompt = map_sum (append ''gemini generate content failed: '') id (ly_gemini w model (trim_space prompt))"

definition gemini_embed :: "llm_net \<Rightarrow> string \<Rightarrow> string + f64 list" where
  "gemini_embed w txt = (case ly_gemini_embed w txt of Inl e \<Rightarrow> Inl (''gemini embed content failed: '' @ e)
     | Inr [] \<Rightarrow> Inl ''gemini embed: empty embeddings'' | Inr (v # _) \<Rightarrow> Inr v)"

subsection \<open>The clients as the agents use them\<close>

text \<open>\<open>WithModel\<close>\<close>

definition with_model :: "string \<Rightarrow> llm_client \<Rightarrow> llm_client" where
  "with_model m c = (case c of NoClient \<Rightarrow> NoClient | Gemini _ \<Rightarrow> Gemini (trim_space m)
     | Ollama url _ em \<Rightarrow> Ollama url (trim_space m) em | OpenAI url key _ \<Rightarrow> OpenAI url key (trim_space m))"

definition client_chat :: "llm_net \<Rightarrow> llm_client \<Rightarrow> string \<Rightarrow> string + string" where
  "client_chat w c prompt = (case c of NoClient \<Rightarrow> Inl ''no client''
     | Gemini model \<Rightarrow> gemini_chat w model prompt
     | Ollama url model _ \<Rightarrow> snd (ollama_chat w url model prompt False 0)
     | OpenAI url key model \<Rightarrow> snd (openai_chat w url key model prompt))"

definition client_embed :: "llm_net \<Rightarrow> llm_client \<Rightarrow> string \<Rightarrow> string + f64 list" where
  "client_embed w c txt = (case c of NoClient \<Rightarrow> Inl ''no client''
     | Gemini _ \<Rightarrow> gemini_embed w txt
     | Ollama url _ em \<Rightarrow> snd (ollama_embed w url em txt)
     | OpenAI url key _ \<Rightarrow> snd (openai_embed w url key txt))"

definition client_ping :: "llm_net \<Rightarrow> llm_client \<Rightarrow> string option option" where
  "client_ping w c = (case c of NoClient \<Rightarrow> None | Gemini model \<Rightarrow> Some (gemini_ping w model)
     | Ollama url _ _ \<Rightarrow> Some (snd (ollama_ping w url)) | OpenAI url key _ \<Rightarrow> Some (snd (openai_ping w url key)))"

text \<open>\<open>chatForIntent\<close>: the detection of an intent asks Ollama without reasoning, for at most 512 tokens.\<close>

definition intent_chat :: "llm_net \<Rightarrow> llm_client \<Rightarrow> string \<Rightarrow> string + string" where
  "intent_chat w c prompt = (case c of Ollama url model _ \<Rightarrow> snd (ollama_chat_for_intent w url model prompt 512)
     | _ \<Rightarrow> client_chat w c prompt)"

text \<open>What the agents get: the n-th call meets the n-th world; a model other than the client's own is routed.
  The planner's detection of an intent asks \<open>intent_chat\<close> in place of \<open>client_chat\<close>.\<close>

definition client_llm :: "(nat \<Rightarrow> llm_net) \<Rightarrow> llm_client \<Rightarrow> llm option" where
  "client_llm net c = (if c = NoClient then None
     else Some \<lparr>lm_chat = (\<lambda>n model prompt. client_chat (net n) (if model = '''' then c else with_model model c) prompt),
       lm_embed = (\<lambda>n txt. client_embed (net n) c txt), lm_routable = True\<rparr>)"

end
