(* ===== verification/Llm_Client_Props.thy ===== *)
theory Llm_Client_Props
  imports Llm_Client
begin

text \<open>
  What a call to a language model gives: attempts are bounded and only repeated after an answer that asks for
  it, and an answer of a model is read from a response with status 200.
\<close>

subsection \<open>Attempts\<close>

definition asks_again :: "llm_answer \<Rightarrow> bool" where
  "asks_again a = (case a of Inl (_, again) \<Rightarrow> again | Inr (code, _) \<Rightarrow> retriable_status code)"

definition is_attempt :: "retry_step \<Rightarrow> bool" where
  "is_attempt s = (case s of Attempt _ \<Rightarrow> True | Pause _ \<Rightarrow> False)"

definition attempts_of :: "retry_step list \<Rightarrow> nat" where
  "attempts_of steps = length (filter is_attempt steps)"

definition pauses_of :: "retry_step list \<Rightarrow> duration" where
  "pauses_of steps = sum_list (map (\<lambda>s. case s of Attempt _ \<Rightarrow> 0 | Pause d \<Rightarrow> d) steps)"

lemma attempts_of_simps [simp]:
  "attempts_of [] = 0" "attempts_of (Attempt q # s) = Suc (attempts_of s)" "attempts_of (Pause d # s) = attempts_of s"
  by (simp_all add: attempts_of_def is_attempt_def)

lemma pauses_of_simps [simp]:
  "pauses_of [] = 0" "pauses_of (Attempt q # s) = pauses_of s" "pauses_of (Pause d # s) = d + pauses_of s"
  by (simp_all add: pauses_of_def)

text \<open>The ways an attempt can end the call, and the way it leads to another one.\<close>

lemma retry_from_eq:
  "retry_from w base q m n =
    (case ly_done w n of Some e \<Rightarrow> ([], Inl e)
     | None \<Rightarrow> if \<not> asks_again (ly_send w n q) then ([Attempt q], map_sum fst id (ly_send w n q))
       else (case m of 0 \<Rightarrow> ([Attempt q], map_sum fst (\<lambda>a. (fst a, '''')) (ly_send w n q))
         | Suc m' \<Rightarrow> (case ly_wait_done w n of Some e \<Rightarrow> ([Attempt q, Pause (retry_delay base n (ly_jitter w n))], Inl e)
             | None \<Rightarrow> map_prod (append [Attempt q, Pause (retry_delay base n (ly_jitter w n))]) id (retry_from w base q m' (Suc n)))))"
  by (subst retry_from.simps) (auto simp: asks_again_def split: option.splits sum.splits nat.splits)

lemma retry_from_cases:
  obtains (stopped) e where "retry_from w base q m n = ([], Inl e)"
  | (finished) "\<not> asks_again (ly_send w n q)"
      "retry_from w base q m n = ([Attempt q], map_sum fst id (ly_send w n q))"
  | (exhausted) "asks_again (ly_send w n q)" "m = 0"
      "retry_from w base q m n = ([Attempt q], map_sum fst (\<lambda>a. (fst a, '''')) (ly_send w n q))"
  | (interrupted) e m' where "m = Suc m'"
      "retry_from w base q m n = ([Attempt q, Pause (retry_delay base n (ly_jitter w n))], Inl e)"
  | (again) m' where "asks_again (ly_send w n q)" "m = Suc m'"
      "retry_from w base q m n = map_prod (append [Attempt q, Pause (retry_delay base n (ly_jitter w n))]) id
         (retry_from w base q m' (Suc n))"
  using retry_from_eq[of w base q m n] that
  by (auto split: option.splits if_splits nat.splits)

lemma retry_from_attempts:
  "attempts_of (fst (retry_from w base q m n)) \<le> Suc m"
proof (induction m arbitrary: n)
  case 0
  show ?case by (rule retry_from_cases[of w base q 0 n]) auto
next
  case (Suc m)
  show ?case by (rule retry_from_cases[of w base q "Suc m" n]) (use Suc.IH[of "Suc n"] in auto)
qed

lemma retry_delay_bounds:
  assumes "0 < base" "0 \<le> j" "j \<le> min (base * 2 ^ (n - 1)) (10 ^ 9) div 5"
  shows "0 \<le> retry_delay base n j \<and> retry_delay base n j \<le> 1100000000"
proof -
  define d where "d = min (base * 2 ^ (n - 1)) (10 ^ 9)"
  have "0 \<le> d" "d \<le> 10 ^ 9" using assms(1) by (simp_all add: d_def)
  moreover have "j \<le> d div 5" using assms(3) by (simp add: d_def)
  ultimately have "0 \<le> d - d div 10 + j \<and> d - d div 10 + j \<le> 1100000000" using assms(2) by auto
  then show ?thesis by (simp only: retry_delay_def Let_def d_def)
qed

lemma retry_from_pauses:
  assumes "0 < base" "\<And>i. 0 \<le> ly_jitter w i \<and> ly_jitter w i \<le> min (base * 2 ^ (i - 1)) (10 ^ 9) div 5"
  shows "pauses_of (fst (retry_from w base q m n)) \<le> int m * 1100000000"
proof (induction m arbitrary: n)
  case 0
  show ?case by (rule retry_from_cases[of w base q 0 n]) auto
next
  case (Suc m)
  have "0 \<le> retry_delay base n (ly_jitter w n) \<and> retry_delay base n (ly_jitter w n) \<le> 1100000000"
    using assms by (intro retry_delay_bounds) auto
  then show ?case
    by - (rule retry_from_cases[of w base q "Suc m" n]; use Suc.IH[of "Suc n"] in simp)
qed

lemma retry_from_answer:
  assumes "snd (retry_from w base q m n) = Inr (code, body)"
  shows "\<exists>k \<ge> n. k \<le> n + m \<and> attempts_of (fst (retry_from w base q m n)) = Suc (k - n) \<and>
    (\<forall>i. n \<le> i \<and> i < k \<longrightarrow> asks_again (ly_send w i q)) \<and>
    (ly_send w k q = Inr (code, body) \<and> \<not> retriable_status code \<or>
     k = n + m \<and> body = '''' \<and> retriable_status code \<and> (\<exists>b. ly_send w k q = Inr (code, b)))"
  using assms
proof (induction m arbitrary: n)
  case 0
  show ?case
    by (rule retry_from_cases[of w base q 0 n]; use 0 in \<open>cases "ly_send w n q"\<close>)
       (auto simp: asks_again_def intro!: exI[of _ n])
next
  case (Suc m)
  show ?case
  proof (rule retry_from_cases[of w base q "Suc m" n])
    fix m' assume again: "asks_again (ly_send w n q)" "Suc m = Suc m'"
      and eq: "retry_from w base q (Suc m) n = map_prod (append [Attempt q, Pause (retry_delay base n (ly_jitter w n))]) id
         (retry_from w base q m' (Suc n))"
    then have "snd (retry_from w base q m (Suc n)) = Inr (code, body)" using Suc.prems by simp
    from Suc.IH[OF this] obtain k where k: "Suc n \<le> k" "k \<le> Suc n + m"
        "attempts_of (fst (retry_from w base q m (Suc n))) = Suc (k - Suc n)"
        "\<forall>i. Suc n \<le> i \<and> i < k \<longrightarrow> asks_again (ly_send w i q)"
        "ly_send w k q = Inr (code, body) \<and> \<not> retriable_status code \<or>
         k = Suc n + m \<and> body = '''' \<and> retriable_status code \<and> (\<exists>b. ly_send w k q = Inr (code, b))"
      by blast
    have "asks_again (ly_send w i q)" if "n \<le> i" "i < k" for i
      using that again(1) k(4) by (cases "i = n") auto
    then show ?thesis using k again(2) eq by (intro exI[of _ k]) auto
  qed (use Suc.prems in \<open>cases "ly_send w n q"; auto simp: asks_again_def intro!: exI[of _ n]\<close>)+
qed

text \<open>A call asks at least once and at most as often as it says, and its pauses are bounded.\<close>

lemma retry_http_bounded:
  assumes "\<And>i. 0 \<le> ly_jitter w i \<and> ly_jitter w i \<le> min ((if base \<le> 0 then 10 ^ 8 else base) * 2 ^ (i - 1)) (10 ^ 9) div 5"
  shows "int (attempts_of (fst (retry_http w attempts base q))) \<le> max 1 attempts \<and>
    pauses_of (fst (retry_http w attempts base q)) \<le> (max 1 attempts - 1) * 1100000000"
proof -
  define b where "b = (if base \<le> 0 then 10 ^ 8 else base)"
  have "0 < b" by (simp add: b_def)
  note p = retry_from_pauses[OF this, of w q "nat (attempts - 1)" 1]
  have "int (nat (attempts - 1)) = max 1 attempts - 1" by simp
  then show ?thesis
    using p retry_from_attempts[of w b q "nat (attempts - 1)" 1] assms
    by (simp add: retry_http_def b_def[symmetric])
qed

lemma retry_http_answer:
  assumes "snd (retry_http w attempts base q) = Inr (code, body)" "\<not> retriable_status code"
  shows "\<exists>k \<ge> 1. int k \<le> max 1 attempts \<and> attempts_of (fst (retry_http w attempts base q)) = k \<and>
    (\<forall>i. 1 \<le> i \<and> i < k \<longrightarrow> asks_again (ly_send w i q)) \<and> ly_send w k q = Inr (code, body)"
  using retry_from_answer[of w "if base \<le> 0 then 10 ^ 8 else base" q "nat (attempts - 1)" 1 code body] assms
  by (auto simp: retry_http_def)

subsection \<open>Answers of a model\<close>

lemma ok_body_answer: "snd (ok_body what r) = Inr body \<longleftrightarrow> snd r = Inr (200, body)"
  by (cases r) (auto simp: ok_body_def split: sum.splits if_splits)

text \<open>The request of a client, and how it reads a body.\<close>

definition chat_request :: "llm_net \<Rightarrow> llm_client \<Rightarrow> string \<Rightarrow> llm_call" where
  "chat_request w c prompt =
    (case c of Ollama url model _ \<Rightarrow> ollama_request (ly_env w) url model prompt False 0
     | OpenAI url key model \<Rightarrow> \<lparr>lq_method = ''POST'', lq_url = slash_url url ''/chat/completions'', lq_headers = openai_headers key,
         lq_body = Some (GObj [(''model'', GStr model), (''messages'', GList [GObj [(''role'', GStr ''user''), (''content'', GStr prompt)]]),
           (''temperature'', GInt 0)])\<rparr>
     | _ \<Rightarrow> \<lparr>lq_method = '''', lq_url = '''', lq_headers = [], lq_body = None\<rparr>)"

definition body_answers :: "llm_net \<Rightarrow> llm_client \<Rightarrow> string \<Rightarrow> string \<Rightarrow> bool" where
  "body_answers w c body txt =
    (case c of Ollama _ _ _ \<Rightarrow> (case read_chunks (fst (ly_stream w body)) (snd (ly_stream w body)) '''' of
         Inl _ \<Rightarrow> False | Inr (t, reason) \<Rightarrow> t = txt \<and> reason \<noteq> ''length'')
     | OpenAI _ key _ \<Rightarrow> key \<noteq> '''' \<and> (case ly_json w body of Inl _ \<Rightarrow> False
         | Inr doc \<Rightarrow> (case decode_field ''choices'' decode_content doc of Inr (t # _) \<Rightarrow> t = txt | _ \<Rightarrow> False))
     | _ \<Rightarrow> False)"

lemma ok_bodyD: "ok_body what r = (steps, Inr body) \<Longrightarrow> snd r = Inr (200, body)"
  using ok_body_answer[of what r body] by simp

lemma ollama_chat_answer:
  assumes "snd (ollama_chat w url model prompt direct n) = Inr txt"
  shows "\<exists>body. snd (retry_http w 3 (10 ^ 8) (ollama_request (ly_env w) url model prompt direct n)) = Inr (200, body) \<and>
    body_answers w (Ollama url model em) body txt"
proof -
  obtain steps body where ok: "ok_body ''ollama chat failed: status ''
      (retry_http w 3 (10 ^ 8) (ollama_request (ly_env w) url model prompt direct n)) = (steps, Inr body)"
    using assms by (auto simp: ollama_chat_def split: prod.splits sum.splits)
  then have "body_answers w (Ollama url model em) body txt"
    using assms by (auto simp: ollama_chat_def body_answers_def split: sum.splits prod.splits if_splits)
  then show ?thesis using ok_bodyD[OF ok] by blast
qed

lemma openai_chat_answer:
  assumes "snd (openai_chat w url key model prompt) = Inr txt"
  shows "\<exists>body. snd (retry_http w 3 (10 ^ 8) (chat_request w (OpenAI url key model) prompt)) = Inr (200, body) \<and>
    body_answers w (OpenAI url key model) body txt"
proof -
  have key: "key \<noteq> ''''" using assms by (auto simp: openai_chat_def)
  obtain steps body where ok: "ok_body ''openai chat failed: status ''
      (retry_http w 3 (10 ^ 8) (chat_request w (OpenAI url key model) prompt)) = (steps, Inr body)"
    using assms key by (auto simp: openai_chat_def chat_request_def split: prod.splits sum.splits)
  then have "body_answers w (OpenAI url key model) body txt"
    using assms key
    by (auto simp: openai_chat_def chat_request_def body_answers_def split: sum.splits prod.splits if_splits list.splits)
  then show ?thesis using ok_bodyD[OF ok] by blast
qed

text \<open>
  C31: When a call to Ollama or to an OpenAI-compatible server gives a text, then at most the third attempt at
  one and the same request was answered with status 200, every attempt before it was answered with a rate limit
  or a timeout or failed for a while, and the text is read from that answer's body. For Ollama it is what the
  chunks of the stream hold, up to the first one that says done, whose reason was not the token limit, or up to
  the end of the stream, where no reason is asked for. For an OpenAI-compatible server it is the content of the
  first choice; nobody looks at why the model stopped there.
\<close>
theorem llm_answer_from_ok_response:
  assumes "client_chat w c prompt = Inr txt" and "\<nexists>model. c = Gemini model"
  shows "\<exists>k body. 1 \<le> k \<and> k \<le> 3 \<and> ly_send w k (chat_request w c prompt) = Inr (200, body) \<and>
    (\<forall>i. 1 \<le> i \<and> i < k \<longrightarrow> asks_again (ly_send w i (chat_request w c prompt))) \<and> body_answers w c body txt"
proof -
  obtain body where r: "snd (retry_http w 3 (10 ^ 8) (chat_request w c prompt)) = Inr (200, body)"
    and b: "body_answers w c body txt"
  proof (cases c)
    case (Ollama url model em)
    then show ?thesis
      using that assms(1) ollama_chat_answer[of w url model prompt False 0 "txt" em] by (auto simp: client_chat_def chat_request_def)
  next
    case (OpenAI url key model)
    then show ?thesis using that assms(1) openai_chat_answer[of w url key model prompt "txt"] by (auto simp: client_chat_def)
  qed (use assms in \<open>auto simp: client_chat_def\<close>)
  have "\<not> retriable_status 200" by (simp add: retriable_status_def)
  with retry_http_answer[OF r] b show ?thesis by auto
qed

definition busy_net :: llm_net where
  "busy_net = \<lparr>ly_send = (\<lambda>n q. if n = 1 then Inr (429, '''') else Inr (200, ''b'')), ly_done = (\<lambda>_. None),
    ly_wait_done = (\<lambda>_. None), ly_jitter = (\<lambda>_. 0), ly_json = (\<lambda>_. Inl ''''),
    ly_stream = (\<lambda>_. ([GObj [(''message'', GObj [(''content'', GStr ''hi'')])], GObj [(''done'', GBool True)]], None)),
    ly_f32 = id, ly_env = (\<lambda>_. ''''), ly_gemini = (\<lambda>_ _. Inl ''''), ly_gemini_embed = (\<lambda>_. Inl '''')\<rparr>"

lemma busy_net_chat: "client_chat busy_net (Ollama ''u'' ''m'' ''e'') ''p'' = Inr ''hi''"
  by code_simp

theorem llm_answer_from_ok_response_witness:
  "\<exists>k body. 1 \<le> k \<and> k \<le> 3 \<and> ly_send busy_net k (chat_request busy_net (Ollama ''u'' ''m'' ''e'') ''p'') = Inr (200, body) \<and>
    body_answers busy_net (Ollama ''u'' ''m'' ''e'') body ''hi''"
  using llm_answer_from_ok_response[OF busy_net_chat] by auto

text \<open>
  A defect: Ollama reports a failure in the middle of an answer as an object with the field error and ends the
  stream. The client does not look at that field and takes the end of the stream for the end of the answer.
\<close>

lemma ollama_failed_stream_accepted:
  assumes "ly_done w 1 = None" "ly_send w 1 (ollama_request (ly_env w) url model prompt False 0) = Inr (200, body)"
    and "ly_stream w body = ([GObj [(''message'', GObj [(''content'', GStr part)])], GObj [(''error'', GStr e)]], None)"
  shows "client_chat w (Ollama url model em) prompt = Inr part"
proof -
  have chunks: "read_chunks [GObj [(''message'', GObj [(''content'', GStr part)])], GObj [(''error'', GStr e)]] None '''' = Inr (part, '''')"
    by (simp add: decode_chunk_def chunk_content_def dec_bool_def dec_int64_ok_def stats_fields_def)
  have "retry_http w 3 (10 ^ 8) (ollama_request (ly_env w) url model prompt False 0) =
      ([Attempt (ollama_request (ly_env w) url model prompt False 0)], Inr (200, body))"
    using assms(1,2) by (simp add: retry_http_def retry_from_eq[of w _ _ _ "Suc 0"] asks_again_def retriable_status_def)
  then show ?thesis
    using chunks assms(3) by (simp add: client_chat_def ollama_chat_def ok_body_def)
qed

end
