(* ===== verification/Spec2Isabelle.thy ===== *)
theory Spec2Isabelle
  imports Guard_Model Auth_Model Gov_Gate Audit_Chain Vector_Memory Resume_Props Planner_Props Api_Props
    Analyst_Model Http_Props System_Props Tool_Props Tool_Net_Props Tool_Call_Props Tool_Exec
    Evidence_Props Kafka_Audit Start_Props Llm_Client_Props
begin

text \<open>
  A verification development for AOS, an agentic orchestration system in Go (module directory
  internal/). AOS takes a request of a person in natural language or as a structured operation,
  detects the intent with a language model, checks whether the person may run it and with which
  parameters, asks a governance decision point, runs a pipeline of tools, agents and human approvals
  sequentially or as a graph of parallel steps, and keeps a hash-chained journal of all of it.

  \<^bold>\<open>The parts and how they interact.\<close> Five agents own one inbox each on a message bus
  (bus/bus.go). The API agent answers HTTP requests behind the middleware of app/http.go and turns
  them into messages; the inspector forwards new tasks to the planner; the planner starts runs at the
  verifier; the verifier executes them, pauses at human gates and callbacks and resumes on decisions,
  answers and timers; the analyst closes a run. They share the result store, the store of executions
  (package state), memories, and the audit logger. In the model, that shared state is the record
  \<open>sys\<close> (Agent_World); everything outside the program (clock, failures of stores and of the journal,
  answers of tools and of language models, HTTP answers of the decision point) is a field of \<open>env\<close>,
  a function of the request and of how many effects went before; and each call, event, message and
  audit record is appended to the trace \<open>sy_trace\<close>, over which the properties are stated.

  \<^bold>\<open>Which theory models what.\<close>
  \<^item> AOS_Prelude, Go_Strings, Go_Numbers, Go_Value, Go_Path: maps as association lists in the order of a
    run, the functions of packages strings, strconv and path that the program uses, IEEE numbers as far as the
    program looks at them, and values of type any. A Go string is a list of characters;
    strings are taken to be valid UTF-8, so that writing one as JSON and reading it back gives the same one.
  \<^item> Config_Model, Config_Load, Pipeline_Safety: package config. Records \<open>tool\<close>, \<open>step\<close>, \<open>pipeline\<close>,
    \<open>intent\<close>, \<open>config\<close> for the structs, \<open>expand\<close> for expand.go, \<open>load_from_dir\<close> for LoadFromDir,
    \<open>validate_pipeline_safety\<close> and \<open>approved_before\<close> for safety.go.
  \<^item> Guard_Model: rbac/rbac.go and package guard. \<open>is_allowed_for_functions\<close>, \<open>validate_all\<close>.
  \<^item> Gov_Model, Gov_Gate: package governance. \<open>new_model\<close> and \<open>resolve\<close> (model.go), \<open>gate_evaluate\<close>
    (gate.go), the machine token (m2m.go), \<open>report_loop\<close> (report.go).
  \<^item> Auth_Model: package auth. \<open>jwt_authenticate\<close>, \<open>apikey\<close> and chain authenticators, \<open>jwks_key\<close> and
    \<open>jwks_refresh\<close> for the key cache, \<open>issue_token\<close>.
  \<^item> Engine_Model, State_Store, Vector_Memory, Bus_Model: packages engine, state, bus and payload, and
    agent/step_outputs.go, agent/memory_facts.go, agent/memory_tools.go.
  \<^item> Audit_Model, Audit_Chain: package audit. Events and redaction, pipeline snapshots, \<open>chain_log\<close> and
    \<open>verify_journal\<close> for chain.go, the fan-out of multi.go.
  \<^item> Agent_World, Verifier_Core, Exec_Linear, Exec_Dag, Verifier_Handlers: the verifier (verifier.go,
    verifier_linear.go, verifier_dag.go, agent_step.go, recall.go). \<open>execute_linear\<close> is a recursion on
    the remaining steps; \<open>execute_dag\<close> is a state of goroutines with program counters that
    \<open>dag_advance\<close> moves under a schedule.
  \<^item> Llm_Model, Planner_Model, Analyst_Model, Api_Model: the code of package llm around a model's answer,
    and the other agents.
  \<^item> Http_Model: app/http.go, the settings of the language model in app/app.go, and the way of a
    request through the middleware to a route.
  \<^item> System_Model: the agents together. \<open>run_system\<close> folds over happenings (a request, an agent taking
    a message from its inbox, a tick of the verifier) in any order.
  \<^item> Tool_Files, Tool_Net, Tool_Rpc, Tool_Agent, Tool_Exec: package tools. \<open>execute_local_file_tool\<close> for the
    workspace tools (local_files.go), \<open>guarded_dial\<close> and \<open>execute_http_tool\<close> (execute.go, renderer.go),
    \<open>execute_mcp\<close> and \<open>execute_a2a\<close> (mcp_client.go, protocols.go), \<open>execute_agent\<close> (agent_executor.go) and
    the dispatch \<open>execute_tool_ctx\<close>. A call lists what it asked of files, processes and servers.
  \<^item> Evidence_Model: what of an event leaves the process. The evidence record and its keyed digest
    (audit/evidence.go), the key (evidence_key.go), \<open>ernest_send\<close> with its three attempts (ernest.go).
  \<^item> Kafka_Model: delivery of the journal to Kafka (audit/kafka_shipper.go). \<open>ship_once\<close> is one pass over
    the journal behind the cursor, \<open>ship_run\<close> the loop; a pass meets the files, the clock and the broker's answer.
  \<^item> Start_Model: the start of a process. \<open>load_env\<close> and \<open>resolve_deployment\<close> (config/env.go), \<open>new_with_env\<close>
    (app/app.go) with its stores, loggers and shipper, the server's authenticator, \<open>ready_handler\<close> (health/ready.go)
    and the options of cmd/aos/main.go.
  \<^item> Llm_Client: the clients of language models. \<open>retry_http\<close> (llm/retry.go), the chat, embedding and ping
    calls of ollama_client.go, openai_client.go and gemini_client.go.

  \<^bold>\<open>What the lemmas show.\<close> Linear_Trace, Verifier_Effects, Agent_Effects: what each operation can add
  to the trace, as locales of effect predicates (\<open>effect_pred\<close>, \<open>handler_pred\<close>, \<open>planner_pred\<close>) that the
  properties interpret; and that the bus changes as the sent messages say. Linear_Props: calls are
  announced and in order, and a run pauses at a gate. Dag_Protocol, Dag_Props: the parallel executor
  refines an abstract protocol of node states; every schedule is finite, dependencies come first, an
  acyclic graph returns, and a pause stores what has succeeded. Verifier_Props: no dangerous tool before an
  approval, a changed pipeline is not resumed, expired waits are closed. Resume_Props: which step a callback or
  an approval goes on with, that a rejection is not undone by a later approval, and the defect that an
  approval counts twice. Planner_Props: a run is permitted, recorded, checked and
  allowed before it starts; the run after a clarification is not asked for permission. Api_Props, Http_Props: what a caller
  sees and changes. System_Props: a decision or a run that the verifier takes goes back, through every
  inbox, to a request whose caller the authenticator accepted. Tool_Props: which paths the workspace tools
  touch, and edits of files. Tool_Net_Props: which addresses a tool connects to. Tool_Call_Props: when a
  remote agent, an MCP server or an external process counts as a success, and bounds of such calls.
  Evidence_Props: what evidence reveals, and which key signs it. Kafka_Props: the cursor covers only what the
  broker acknowledged, a backlog is delivered once passes succeed, and a partly written cursor stops delivery.
  Kafka_Audit: an event the audit logger accepted reaches the topic. Start_Props: what a process that started
  outside development guarantees. Llm_Client_Props: attempts, and where the text of a model comes from.

  \<^bold>\<open>Bounds and fuel.\<close> The parallel executor runs with the fuel \<open>nodes_measure\<close>, a bound on the moves of
  all goroutines that each move decreases, so the fuel never ends a run. The attempts
  of a tool and of a language model recurse on the retries that are left, an execution report on five attempts, searches in
  graphs on the nodes not yet visited. The search for a project (\<open>find_up\<close>) and the polling of a remote agent
  (\<open>a2a_loop\<close>) are partial functions; that they return, and when, is proved in Tool_Props and
  Tool_Call_Props. A handler is one step of the system: its goroutines interleave
  with each other, as the schedule argument says, and not with the other agents.

  \<^bold>\<open>What is not modelled.\<close> The Postgres, Redis and Qdrant stores and the gRPC library exchange bytes
  with other processes; for the executors of runs, a call of a tool is an effect with an answer of the
  environment, and for the agents a call of a language model is one. Telemetry,
  metrics and logs do not change what a run does. JSON, YAML and HTTP parsers, the JWT library, HMAC and SHA-256,
  the Kafka client, Google's client, the expression evaluator and the template renderer are libraries: they are
  arguments, and a hypothesis names what a property needs of them. The mock servers are demonstrations.
\<close>

end
